(* ===== verification/Prelude.thy ===== *)
theory Prelude
  imports Complex_Main "HOL-Library.Word" "HOL-Library.List_Lexorder" "HOL-Library.Multiset"
    "HOL-Library.Char_ord"
begin

text \<open>
  Shared vocabulary of the development: buffers, thrown errors as sums, JSON values as
  \<^verbatim>\<open>JSON.parse\<close> returns them, and \<^verbatim>\<open>Array.prototype.sort\<close> with a comparator. The locale
  \<open>js_comparator\<close> is the contract a comparator has to meet for the sort to be a sort; every
  component that sorts interprets it on its own comparator.
\<close>

section \<open>Types shared by the components\<close>

type_synonym byte = "8 word"
type_synonym buffer = "byte list"

text \<open>A JavaScript function that may throw returns \<open>Inl\<close> of the error's message.\<close>

type_synonym 'a outcome = "string + 'a"

datatype json =
    JNull
  | JBool bool
  | JNum rat
  | JStr string
  | JArr "json list"
  | JObj "(string \<times> json) list"

named_theorems outcome_simps \<open>rewrite rules for code that throws\<close>

section \<open>Sequencing code that may throw\<close>

definition andThen :: "'e + 'a \<Rightarrow> ('a \<Rightarrow> 'e + 'b) \<Rightarrow> 'e + 'b" where
  "andThen m f = (case m of Inl e \<Rightarrow> Inl e | Inr x \<Rightarrow> f x)"

text \<open>\<open>guard c e\<close> is \<^verbatim>\<open>if (!c) throw e\<close>, Rust's \<^verbatim>\<open>require!(c, e)\<close>.\<close>

definition guard :: "bool \<Rightarrow> 'e \<Rightarrow> 'e + unit" where
  "guard c e = (if c then Inr () else Inl e)"

lemma andThen_Inr [simp]: "andThen (Inr x) f = f x"
  by (simp add: andThen_def)

lemma andThen_Inl [simp]: "andThen (Inl e) f = Inl e"
  by (simp add: andThen_def)

lemma andThen_eq_Inr [outcome_simps]:
  "andThen m f = Inr y \<longleftrightarrow> (\<exists>x. m = Inr x \<and> f x = Inr y)"
  by (cases m) auto

lemma andThen_eq_Inl [outcome_simps]:
  "andThen m f = Inl e \<longleftrightarrow> m = Inl e \<or> (\<exists>x. m = Inr x \<and> f x = Inl e)"
  by (cases m) auto

lemma guard_True [simp]: "guard True e = Inr ()"
  by (simp add: guard_def)

lemma guard_False [simp]: "guard False e = Inl e"
  by (simp add: guard_def)

lemma guard_eq_Inr [outcome_simps]: "guard c e = Inr u \<longleftrightarrow> c"
  by (simp add: guard_def)

lemma guard_eq_Inl [outcome_simps]: "guard c e = Inl e' \<longleftrightarrow> \<not> c \<and> e' = e"
  by (auto simp: guard_def)

lemma andThen_guard: "andThen (guard c e) f = (if c then f () else Inl e)"
  by (simp add: guard_def)

text \<open>\<^verbatim>\<open>xs.map(f)\<close> where \<open>f\<close> may throw: the first error escapes.\<close>

fun mapM :: "('a \<Rightarrow> 'e + 'b) \<Rightarrow> 'a list \<Rightarrow> 'e + 'b list" where
  "mapM f [] = Inr []"
| "mapM f (x # xs) = andThen (f x) (\<lambda>y. andThen (mapM f xs) (\<lambda>ys. Inr (y # ys)))"

lemma mapM_eq_Inr: "mapM f xs = Inr ys \<longleftrightarrow> list_all2 (\<lambda>x y. f x = Inr y) xs ys"
  by (induction xs arbitrary: ys) (auto simp: outcome_simps list_all2_Cons1)

lemma mapM_total: "(\<And>x. x \<in> set xs \<Longrightarrow> f x = Inr (g x)) \<Longrightarrow> mapM f xs = Inr (map g xs)"
  by (induction xs) auto

lemma mapM_length: "mapM f xs = Inr ys \<Longrightarrow> length ys = length xs"
  by (auto simp: mapM_eq_Inr dest: list_all2_lengthD)

section \<open>Programs with state\<close>

text \<open>
  A method that updates the state \<open>'s\<close> and may throw: the state reached when it throws is kept,
  since side effects before an exception persist.
\<close>

type_synonym ('s, 'a) proc = "'s \<Rightarrow> 's \<times> 'a outcome"

definition retP :: "'a \<Rightarrow> ('s, 'a) proc" where
  "retP x = (\<lambda>s. (s, Inr x))"

definition throwP :: "string \<Rightarrow> ('s, 'a) proc" where
  "throwP e = (\<lambda>s. (s, Inl e))"

definition bindP :: "('s, 'a) proc \<Rightarrow> ('a \<Rightarrow> ('s, 'b) proc) \<Rightarrow> ('s, 'b) proc" where
  "bindP m f = (\<lambda>s. case m s of (s', Inl e) \<Rightarrow> (s', Inl e) | (s', Inr x) \<Rightarrow> f x s')"

definition liftP :: "'a outcome \<Rightarrow> ('s, 'a) proc" where
  "liftP x = (\<lambda>s. (s, x))"

definition getP :: "('s, 's) proc" where
  "getP = (\<lambda>s. (s, Inr s))"

definition modifyP :: "('s \<Rightarrow> 's) \<Rightarrow> ('s, unit) proc" where
  "modifyP f = (\<lambda>s. (f s, Inr ()))"

definition requireP :: "bool \<Rightarrow> string \<Rightarrow> ('s, unit) proc" where
  "requireP c e = (\<lambda>s. (s, guard c e))"

text \<open>\<^verbatim>\<open>try { m } catch (e) { h(e) }\<close>, where the handler itself may throw.\<close>

definition catchP :: "('s, 'a) proc \<Rightarrow> (string \<Rightarrow> ('s, 'a) proc) \<Rightarrow> ('s, 'a) proc" where
  "catchP m h = (\<lambda>s. case m s of (s', Inl e) \<Rightarrow> h e s' | (s', Inr x) \<Rightarrow> (s', Inr x))"

named_theorems proc_simps \<open>evaluation of programs with state\<close>

lemma bindP_eq_Inr [proc_simps]:
  "bindP m f s = (s', Inr y) \<longleftrightarrow> (\<exists>s1 x. m s = (s1, Inr x) \<and> f x s1 = (s', Inr y))"
  by (auto simp: bindP_def split: prod.splits sum.splits)

lemma bindP_eq_Inl [proc_simps]:
  "bindP m f s = (s', Inl e) \<longleftrightarrow> m s = (s', Inl e) \<or> (\<exists>s1 x. m s = (s1, Inr x) \<and> f x s1 = (s', Inl e))"
  by (auto simp: bindP_def split: prod.splits sum.splits)

lemma retP_eq [proc_simps]: "retP x s = (s', r) \<longleftrightarrow> s' = s \<and> r = Inr x"
  by (auto simp: retP_def)

lemma throwP_eq [proc_simps]: "throwP e s = (s', r) \<longleftrightarrow> s' = s \<and> r = Inl e"
  by (auto simp: throwP_def)

lemma liftP_eq [proc_simps]: "liftP x s = (s', r) \<longleftrightarrow> s' = s \<and> x = r"
  by (auto simp: liftP_def)

lemma getP_eq [proc_simps]: "getP s = (s', r) \<longleftrightarrow> s' = s \<and> r = Inr s"
  by (auto simp: getP_def)

lemma modifyP_eq [proc_simps]: "modifyP f s = (s', r) \<longleftrightarrow> s' = f s \<and> r = Inr ()"
  by (auto simp: modifyP_def)

lemma requireP_eq [proc_simps]: "requireP c e s = (s', r) \<longleftrightarrow> s' = s \<and> guard c e = r"
  by (auto simp: requireP_def)

lemma bindP_step:
  "m s = (s1, Inr x) \<Longrightarrow> bindP m f s = f x s1"
  "m s = (s1, Inl e) \<Longrightarrow> bindP m f s = (s1, Inl e)"
  by (simp_all add: bindP_def)

section \<open>\<^verbatim>\<open>Array.prototype.sort\<close>\<close>

text \<open>
  The language fixes the sort to be stable; for a comparator that is a total preorder its
  result is determined (\<open>js_sort_unique\<close> below), so insertion stands for every engine's
  algorithm.
\<close>

fun js_insert :: "('a \<Rightarrow> 'a \<Rightarrow> 'n::linordered_idom) \<Rightarrow> 'a \<Rightarrow> 'a list \<Rightarrow> 'a list" where
  "js_insert cmp x [] = [x]"
| "js_insert cmp x (y # ys) = (if cmp x y \<le> 0 then x # y # ys else y # js_insert cmp x ys)"

primrec js_sort :: "('a \<Rightarrow> 'a \<Rightarrow> 'n::linordered_idom) \<Rightarrow> 'a list \<Rightarrow> 'a list" where
  "js_sort cmp [] = []"
| "js_sort cmp (x # xs) = js_insert cmp x (js_sort cmp xs)"

lemma mset_js_insert: "mset (js_insert cmp x xs) = add_mset x (mset xs)"
  by (induction xs) auto

lemma mset_js_sort [simp]: "mset (js_sort cmp xs) = mset xs"
  by (induction xs) (auto simp: mset_js_insert)

lemma set_js_insert [simp]: "set (js_insert cmp x xs) = insert x (set xs)"
  by (induction xs) auto

lemma set_js_sort [simp]: "set (js_sort cmp xs) = set xs"
  by (induction xs) auto

lemma length_js_sort [simp]: "length (js_sort cmp xs) = length xs"
  by (metis mset_js_sort size_mset)

lemma js_sort_eq_Nil [simp]: "js_sort cmp xs = [] \<longleftrightarrow> xs = []"
  by (metis length_0_conv length_js_sort)

lemma distinct_js_sort [simp]: "distinct (js_sort cmp xs) \<longleftrightarrow> distinct xs"
  by (metis mset_js_sort mset_eq_imp_distinct_iff)

locale js_comparator =
  fixes cmp :: "'a \<Rightarrow> 'a \<Rightarrow> 'n::linordered_idom"
  assumes cmp_trans: "cmp x y \<le> 0 \<Longrightarrow> cmp y z \<le> 0 \<Longrightarrow> cmp x z \<le> 0"
    and cmp_anti: "0 < cmp x y \<longleftrightarrow> cmp y x < 0"
begin

lemma cmp_total: "cmp x y \<le> 0 \<or> cmp y x \<le> 0"
  using cmp_anti [of x y] by (auto simp: not_le)

lemma cmp_eq_iff: "cmp x y = 0 \<longleftrightarrow> cmp x y \<le> 0 \<and> cmp y x \<le> 0"
  using cmp_anti [of x y] cmp_anti [of y x] by (auto simp: order.order_iff_strict)

lemma cmp_refl: "cmp x x = 0"
  using cmp_total [of x x] by (simp add: cmp_eq_iff)

lemma cmp_sym: "cmp x y = 0 \<longleftrightarrow> cmp y x = 0"
  by (auto simp: cmp_eq_iff)

lemma cmp_eq_trans: "cmp x y = 0 \<Longrightarrow> cmp y z = 0 \<Longrightarrow> cmp x z = 0"
  by (meson cmp_eq_iff cmp_trans)

lemma sorted_js_insert:
  "sorted_wrt (\<lambda>x y. cmp x y \<le> 0) ys \<Longrightarrow> sorted_wrt (\<lambda>x y. cmp x y \<le> 0) (js_insert cmp x ys)"
proof (induction ys)
  case Nil
  then show ?case by simp
next
  case (Cons y ys)
  show ?case
  proof (cases "cmp x y \<le> 0")
    case True
    then show ?thesis using Cons.prems cmp_trans [OF True] by auto
  next
    case False
    then have "cmp y x \<le> 0" using cmp_total by blast
    then show ?thesis using Cons False by auto
  qed
qed

lemma sorted_js_sort: "sorted_wrt (\<lambda>x y. cmp x y \<le> 0) (js_sort cmp xs)"
  by (induction xs) (auto intro: sorted_js_insert)

lemma js_sort_hd_least: "x \<in> set xs \<Longrightarrow> cmp (hd (js_sort cmp xs)) x \<le> 0"
proof -
  assume "x \<in> set xs"
  then have "x \<in> set (js_sort cmp xs)" by simp
  with sorted_js_sort [of xs] show ?thesis
    by (cases "js_sort cmp xs") (auto simp: cmp_refl)
qed

lemma filter_js_insert:
  "filter (\<lambda>y. cmp z y = 0) (js_insert cmp x xs) = filter (\<lambda>y. cmp z y = 0) (x # xs)"
proof (induction xs)
  case (Cons y ys)
  show ?case
  proof (cases "cmp z x = 0 \<and> cmp z y = 0")
    case True
    then have "cmp x y = 0" using cmp_eq_trans [of x z y] cmp_sym by blast
    then show ?thesis by simp
  next
    case False
    then show ?thesis using Cons.IH by auto
  qed
qed simp

text \<open>Elements the comparator cannot tell apart keep their order.\<close>

lemma js_sort_stable:
  "filter (\<lambda>y. cmp z y = 0) (js_sort cmp xs) = filter (\<lambda>y. cmp z y = 0) xs"
proof (induction xs)
  case (Cons x xs)
  then show ?case using filter_js_insert [of z x "js_sort cmp xs"] by simp
qed simp

lemma sorted_heads_equal:
  assumes "sorted_wrt (\<lambda>x y. cmp x y \<le> 0) (y # ys)" "sorted_wrt (\<lambda>x y. cmp x y \<le> 0) (z # zs)"
    and "\<And>x. filter (\<lambda>y. cmp x y = 0) (y # ys) = filter (\<lambda>y. cmp x y = 0) (z # zs)"
  shows "y = z"
proof -
  have "y \<in> set (filter (\<lambda>u. cmp y u = 0) (z # zs))"
    by (subst assms(3) [symmetric]) (simp add: cmp_refl)
  moreover have "z \<in> set (filter (\<lambda>u. cmp z u = 0) (y # ys))"
    by (subst assms(3)) (simp add: cmp_refl)
  ultimately have "cmp z y \<le> 0" "cmp y z \<le> 0"
    using assms(1,2) by (auto simp: cmp_refl split: if_splits)
  then have "cmp y z = 0" by (simp add: cmp_eq_iff)
  with assms(3) [of y] show ?thesis by (simp add: cmp_refl)
qed

lemma sorted_classes_unique:
  assumes "sorted_wrt (\<lambda>x y. cmp x y \<le> 0) ys" "sorted_wrt (\<lambda>x y. cmp x y \<le> 0) zs"
    and "\<And>x. filter (\<lambda>y. cmp x y = 0) ys = filter (\<lambda>y. cmp x y = 0) zs"
  shows "ys = zs"
  using assms
proof (induction ys arbitrary: zs)
  case Nil
  then have "filter (\<lambda>y. cmp (hd zs) y = 0) zs = []" by simp
  then show ?case by (cases zs) (auto simp: cmp_refl)
next
  case (Cons y ys)
  have "zs \<noteq> []" using Cons.prems(3) [of y] by (auto simp: cmp_refl)
  then obtain z zs' where zs: "zs = z # zs'" by (cases zs) auto
  have yz: "y = z" using sorted_heads_equal Cons.prems unfolding zs by blast
  have "ys = zs'"
  proof (rule Cons.IH)
    show "filter (\<lambda>y. cmp x y = 0) ys = filter (\<lambda>y. cmp x y = 0) zs'" for x
      using Cons.prems(3) [of x] by (simp add: zs yz split: if_splits)
  qed (use Cons.prems in \<open>simp_all add: zs\<close>)
  with yz zs show ?case by simp
qed

text \<open>The stable sorted arrangement is unique, whatever algorithm produced it.\<close>

lemma js_sort_unique:
  assumes "sorted_wrt (\<lambda>x y. cmp x y \<le> 0) ys"
    and "\<And>x. filter (\<lambda>y. cmp x y = 0) ys = filter (\<lambda>y. cmp x y = 0) xs"
  shows "ys = js_sort cmp xs"
  by (rule sorted_classes_unique) (use assms sorted_js_sort js_sort_stable in auto)

end

text \<open>
  The comparator of the marketplace: cheapest first, and among equal prices the better score
  first. A comparator on a linear order, such as \<^verbatim>\<open>Buffer.compare\<close>, returns -1, 0 or 1.
\<close>

definition lex_cmp :: "('a \<Rightarrow> int) \<Rightarrow> ('a \<Rightarrow> rat) \<Rightarrow> 'a \<Rightarrow> 'a \<Rightarrow> rat" where
  "lex_cmp price score a b =
     (if price a = price b then score b - score a else if price a < price b then - 1 else 1)"

definition ord_cmp :: "'a::linorder \<Rightarrow> 'a \<Rightarrow> int" where
  "ord_cmp a b = (if a < b then - 1 else if a = b then 0 else 1)"

lemma lex_cmp_le: "lex_cmp p r a b \<le> 0 \<longleftrightarrow> p a < p b \<or> p a = p b \<and> r b \<le> r a"
  by (simp add: lex_cmp_def)

lemma ord_cmp_le: "ord_cmp a b \<le> 0 \<longleftrightarrow> a \<le> b"
  by (auto simp: ord_cmp_def)

interpretation lex: js_comparator "lex_cmp p r" for p r
  by unfold_locales (auto simp: lex_cmp_le, auto simp: lex_cmp_def split: if_splits)

interpretation ord: js_comparator ord_cmp
  by unfold_locales (auto simp: ord_cmp_le, auto simp: ord_cmp_def split: if_splits)

section \<open>Arrays\<close>

text \<open>\<^verbatim>\<open>xs.indexOf(x)\<close>: the first position, or -1.\<close>

fun indexOf :: "'a \<Rightarrow> 'a list \<Rightarrow> int" where
  "indexOf x [] = - 1"
| "indexOf x (y # ys) =
     (if x = y then 0 else let i = indexOf x ys in if i = - 1 then - 1 else i + 1)"

text \<open>\<^verbatim>\<open>xs[i]\<close>: \<open>None\<close> stands for \<^verbatim>\<open>undefined\<close>.\<close>

definition index_at :: "'a list \<Rightarrow> int \<Rightarrow> 'a option" where
  "index_at xs i = (if 0 \<le> i \<and> i < int (length xs) then Some (xs ! nat i) else None)"

lemma indexOf_ge: "- 1 \<le> indexOf x xs"
  by (induction xs) (auto simp: Let_def)

lemma indexOf_absent: "indexOf x xs = - 1 \<longleftrightarrow> x \<notin> set xs"
proof (induction xs)
  case (Cons y ys)
  then show ?case using indexOf_ge [of x ys] by (auto simp: Let_def)
qed simp

lemma index_at_indexOf: "x \<in> set xs \<Longrightarrow> index_at xs (indexOf x xs) = Some x"
proof (induction xs)
  case (Cons y ys)
  show ?case
  proof (cases "x = y")
    case False
    then have m: "x \<in> set ys" using Cons.prems by simp
    then have i: "0 \<le> indexOf x ys" using indexOf_ge [of x ys] indexOf_absent [of x ys] by linarith
    from Cons.IH [OF m] have "indexOf x ys < int (length ys)" "ys ! nat (indexOf x ys) = x"
      by (auto simp: index_at_def split: if_splits)
    with i False show ?thesis by (simp add: index_at_def Let_def nat_add_distrib)
  qed (simp add: index_at_def)
qed simp

lemma indexOf_index_at: "distinct xs \<Longrightarrow> index_at xs i = Some x \<Longrightarrow> indexOf x xs = i"
proof (induction xs arbitrary: i)
  case (Cons y ys)
  show ?case
  proof (cases "i = 0")
    case False
    then have "index_at ys (i - 1) = Some x" "x \<in> set ys"
      using Cons.prems by (auto simp: index_at_def nth_Cons' nat_diff_distrib split: if_splits)
    moreover from this have "indexOf x ys = i - 1" using Cons by simp
    moreover have "0 \<le> i" using Cons.prems(2) by (simp add: index_at_def split: if_splits)
    ultimately show ?thesis using Cons.prems(1) False by (auto simp: Let_def)
  qed (use Cons.prems in \<open>auto simp: index_at_def split: if_splits\<close>)
qed (simp add: index_at_def split: if_splits)

text \<open>\<^verbatim>\<open>xs.join(sep)\<close> and \<^verbatim>\<open>s.split(c)\<close> for a one-character separator.\<close>

fun join :: "string \<Rightarrow> string list \<Rightarrow> string" where
  "join sep [] = []"
| "join sep [x] = x"
| "join sep (x # y # xs) = x @ sep @ join sep (y # xs)"

fun split_on :: "char \<Rightarrow> string \<Rightarrow> string list" where
  "split_on c [] = [[]]"
| "split_on c (x # xs) =
     (if x = c then [] # split_on c xs
      else case split_on c xs of y # ys \<Rightarrow> (x # y) # ys | [] \<Rightarrow> [[x]])"

lemma split_on_nonempty [simp]: "split_on c s \<noteq> []"
  by (cases s) (auto split: list.splits)

lemma split_on_absent: "c \<notin> set s \<Longrightarrow> split_on c s = [s]"
  by (induction s) auto

lemma split_on_append: "split_on c (x @ c # y) = split_on c x @ split_on c y"
  by (induction x) (auto split: list.splits)

lemma split_on_join: "xs \<noteq> [] \<Longrightarrow> list_all (\<lambda>x. c \<notin> set x) xs \<Longrightarrow> split_on c (join [c] xs) = xs"
  by (induction "[c]" xs rule: join.induct) (auto simp: split_on_append split_on_absent)

section \<open>List facts\<close>

lemma list_all2_map_Some: "list_all2 (\<lambda>x y. f x = y) xs ys \<longleftrightarrow> ys = map f xs"
  by (induction xs arbitrary: ys) (auto simp: list_all2_Cons1)

lemma card_set_eq_length_iff: "card (set xs) = length xs \<longleftrightarrow> distinct xs"
  using card_distinct distinct_card by blast

text \<open>\<^verbatim>\<open>xs.find(p)\<close> is \<open>find p xs\<close>; the element it returns satisfies \<open>p\<close> and is in the array.\<close>

lemma find_SomeD: "find p xs = Some x \<Longrightarrow> p x \<and> x \<in> set xs"
  by (auto simp: find_Some_iff)

end
