(* ===== verification/Codec.thy ===== *)
theory Codec
  imports Prelude
begin

text \<open>
  The string formats the repository's wire data uses, as the language's library defines
  them: lower-case hexadecimal (\<^verbatim>\<open>Buffer.toString("hex")\<close>, \<^verbatim>\<open>Buffer.from(s, "hex")\<close>),
  base units as decimal strings (\<^verbatim>\<open>BigInt(s)\<close>, \<^verbatim>\<open>x.toString()\<close>), lower-casing, and the
  character classes of the schemas' regular expressions. The lemmas are the round trips the
  protocol relies on.
\<close>

section \<open>Character classes\<close>

abbreviation ascii :: "char \<Rightarrow> nat" where
  "ascii c \<equiv> of_char c"

definition is_digit :: "char \<Rightarrow> bool" where
  "is_digit c \<longleftrightarrow> 48 \<le> ascii c \<and> ascii c \<le> 57"

definition is_lower :: "char \<Rightarrow> bool" where
  "is_lower c \<longleftrightarrow> 97 \<le> ascii c \<and> ascii c \<le> 122"

definition is_upper :: "char \<Rightarrow> bool" where
  "is_upper c \<longleftrightarrow> 65 \<le> ascii c \<and> ascii c \<le> 90"

text \<open>\<^verbatim>\<open>[a-f0-9]\<close>\<close>

definition is_hex_lower :: "char \<Rightarrow> bool" where
  "is_hex_lower c \<longleftrightarrow> is_digit c \<or> 97 \<le> ascii c \<and> ascii c \<le> 102"

text \<open>\<^verbatim>\<open>[a-fA-F0-9]\<close>\<close>

definition is_hex :: "char \<Rightarrow> bool" where
  "is_hex c \<longleftrightarrow> is_hex_lower c \<or> 65 \<le> ascii c \<and> ascii c \<le> 70"

definition to_lower :: "char \<Rightarrow> char" where
  "to_lower c = (if is_upper c then char_of (ascii c + 32) else c)"

abbreviation toLowerCase :: "string \<Rightarrow> string" where
  "toLowerCase s \<equiv> map to_lower s"

lemma to_lower_hex_lower [simp]: "is_hex_lower c \<Longrightarrow> to_lower c = c"
  by (auto simp: to_lower_def is_upper_def is_hex_lower_def is_digit_def)

lemma toLowerCase_hex_lower: "list_all is_hex_lower s \<Longrightarrow> toLowerCase s = s"
  by (induction s) auto

section \<open>Hexadecimal\<close>

definition nibble :: "nat \<Rightarrow> char" where
  "nibble n = (if n < 10 then char_of (48 + n) else char_of (87 + n))"

definition unnibble :: "char \<Rightarrow> nat option" where
  "unnibble c =
     (if is_digit c then Some (ascii c - 48)
      else if 97 \<le> ascii c \<and> ascii c \<le> 102 then Some (ascii c - 87)
      else if 65 \<le> ascii c \<and> ascii c \<le> 70 then Some (ascii c - 55)
      else None)"

fun toHex :: "buffer \<Rightarrow> string" where
  "toHex [] = []"
| "toHex (b # bs) = nibble (unat b div 16) # nibble (unat b mod 16) # toHex bs"

text \<open>Node stops decoding at the first pair that is not hexadecimal.\<close>

fun fromHex :: "string \<Rightarrow> buffer" where
  "fromHex (a # b # s) =
     (case (unnibble a, unnibble b) of
        (Some x, Some y) \<Rightarrow> word_of_nat (16 * x + y) # fromHex s
      | _ \<Rightarrow> [])"
| "fromHex _ = []"

lemma of_char_small [simp]: "n < 256 \<Longrightarrow> ascii (char_of n) = n"
  by (simp add: of_char_mod_256)

lemma unnibble_nibble [simp]: "n < 16 \<Longrightarrow> unnibble (nibble n) = Some n"
  by (auto simp: unnibble_def nibble_def is_digit_def)

lemma is_hex_lower_nibble [simp]: "n < 16 \<Longrightarrow> is_hex_lower (nibble n)"
  by (auto simp: is_hex_lower_def nibble_def is_digit_def)

lemma unat_byte_less [simp]: "unat (b :: byte) < 256"
  using unsigned_less [of b] by simp

lemma unat_word_of_small [simp]: "n < 256 \<Longrightarrow> unat (word_of_nat n :: byte) = n"
  by (simp add: unsigned_of_nat take_bit_eq_mod)

lemma byte_div16 [simp]: "unat (b :: byte) div 16 < 16"
  using unat_byte_less [of b] by linarith

lemma fromHex_toHex [simp]: "fromHex (toHex bs) = bs"
  by (induction bs) simp_all

lemma toHex_inject [simp]: "toHex xs = toHex ys \<longleftrightarrow> xs = ys"
  by (metis fromHex_toHex)

lemma length_toHex [simp]: "length (toHex bs) = 2 * length bs"
  by (induction bs) auto

lemma toHex_hex_lower [simp]: "list_all is_hex_lower (toHex bs)"
  by (induction bs) auto

lemma unnibble_hex_lower:
  assumes "is_hex_lower c"
  obtains n where "unnibble c = Some n" "n < 16" "nibble n = c"
proof
  have *: "char_of (ascii c) = c" by simp
  show "unnibble c = Some (if is_digit c then ascii c - 48 else ascii c - 87)"
    using assms by (auto simp: is_hex_lower_def unnibble_def)
  show "(if is_digit c then ascii c - 48 else ascii c - 87) < 16"
    using assms by (auto simp: is_hex_lower_def is_digit_def)
  show "nibble (if is_digit c then ascii c - 48 else ascii c - 87) = c"
    using assms by (auto simp: is_hex_lower_def is_digit_def nibble_def)
qed

lemma toHex_fromHex: "list_all is_hex_lower s \<Longrightarrow> even (length s) \<Longrightarrow> toHex (fromHex s) = s"
proof (induction s rule: fromHex.induct)
  case (1 a b s)
  from 1 obtain x y where "unnibble a = Some x" "x < 16" "nibble x = a"
    "unnibble b = Some y" "y < 16" "nibble y = b"
    by (auto elim!: unnibble_hex_lower)
  moreover from this have "unat (word_of_nat (16 * x + y) :: byte) = 16 * x + y"
    by (intro unat_word_of_small) simp
  ultimately show ?case using 1 by (simp del: of_nat_add of_nat_mult)
qed auto

lemma length_fromHex: "list_all is_hex_lower s \<Longrightarrow> length (fromHex s) = length s div 2"
proof (induction s rule: fromHex.induct)
  case (1 a b s)
  then show ?case by (auto elim!: unnibble_hex_lower)
qed auto

text \<open>\<^verbatim>\<open>/^[a-f0-9]{64}$/\<close>: the schema \<^verbatim>\<open>hash\<close> of \<^verbatim>\<open>packages/job-spec/index.ts\<close>.\<close>

definition hash_ok :: "string \<Rightarrow> bool" where
  "hash_ok s \<longleftrightarrow> length s = 64 \<and> list_all is_hex_lower s"

lemma hash_ok_toHex [simp]: "hash_ok (toHex bs) \<longleftrightarrow> length bs = 32"
  by (auto simp: hash_ok_def)

lemma hash_ok_roundtrip: "hash_ok s \<Longrightarrow> toHex (fromHex s) = s"
  by (simp add: hash_ok_def toHex_fromHex)

lemma hash_ok_length: "hash_ok s \<Longrightarrow> length (fromHex s) = 32"
  by (simp add: hash_ok_def length_fromHex)

lemma hash_ok_lower: "hash_ok s \<Longrightarrow> toLowerCase s = s"
  by (simp add: hash_ok_def toLowerCase_hex_lower)

section \<open>Decimal strings and BigInt\<close>

fun decimal :: "nat \<Rightarrow> string" where
  "decimal n = (if n < 10 then [char_of (48 + n)] else decimal (n div 10) @ [char_of (48 + n mod 10)])"

declare decimal.simps [simp del]

text \<open>\<^verbatim>\<open>x.toString()\<close> for a BigInt, and \<^verbatim>\<open>String(n)\<close> for an integer.\<close>

definition bigint_toString :: "int \<Rightarrow> string" where
  "bigint_toString i = (if i < 0 then CHR ''-'' # decimal (nat (- i)) else decimal (nat i))"

text \<open>Digits in a radix up to 16; \<open>None\<close> on a character outside it or on the empty string.\<close>

fun radix_acc :: "nat \<Rightarrow> nat \<Rightarrow> string \<Rightarrow> nat option" where
  "radix_acc r acc [] = Some acc"
| "radix_acc r acc (c # s) =
     (case unnibble c of
        Some d \<Rightarrow> if d < r then radix_acc r (acc * r + d) s else None
      | None \<Rightarrow> None)"

definition parse_radix :: "nat \<Rightarrow> string \<Rightarrow> nat option" where
  "parse_radix r s = (if s = [] then None else radix_acc r 0 s)"

definition is_space :: "char \<Rightarrow> bool" where
  "is_space c \<longleftrightarrow> ascii c = 32 \<or> 9 \<le> ascii c \<and> ascii c \<le> 13"

definition trim :: "string \<Rightarrow> string" where
  "trim s = rev (dropWhile is_space (rev (dropWhile is_space s)))"

text \<open>
  \<^verbatim>\<open>BigInt(s)\<close>: white space is trimmed, the empty string is \<^verbatim>\<open>0n\<close>, prefixes select a radix,
  a sign is allowed on decimals only, anything else is a \<^verbatim>\<open>SyntaxError\<close>.
\<close>

fun bigint_body :: "string \<Rightarrow> int option" where
  "bigint_body [] = Some 0"
| "bigint_body (c # s) =
     (if c = CHR ''-'' then map_option (\<lambda>n. - int n) (parse_radix 10 s)
      else if c = CHR ''+'' then map_option int (parse_radix 10 s)
      else if c = CHR ''0'' \<and> s \<noteq> [] \<and> to_lower (hd s) = CHR ''x'' then map_option int (parse_radix 16 (tl s))
      else if c = CHR ''0'' \<and> s \<noteq> [] \<and> to_lower (hd s) = CHR ''o'' then map_option int (parse_radix 8 (tl s))
      else if c = CHR ''0'' \<and> s \<noteq> [] \<and> to_lower (hd s) = CHR ''b'' then map_option int (parse_radix 2 (tl s))
      else map_option int (parse_radix 10 (c # s)))"

definition bigInt :: "string \<Rightarrow> int outcome" where
  "bigInt s = (case bigint_body (trim s) of Some i \<Rightarrow> Inr i | None \<Rightarrow> Inl ''SyntaxError'')"

lemma decimal_digits: "list_all is_digit (decimal n)"
proof (induction n rule: decimal.induct)
  case (1 n)
  then show ?case
    by (cases "n < 10") (auto simp: decimal.simps [of n] is_digit_def)
qed

lemma decimal_nonempty [simp]: "decimal n \<noteq> []"
  by (subst decimal.simps) simp

lemma radix_acc_append:
  "radix_acc r a (s @ t) = Option.bind (radix_acc r a s) (\<lambda>b. radix_acc r b t)"
  by (induction s arbitrary: a) (auto split: option.splits)

lemma unnibble_digit: "n < 10 \<Longrightarrow> unnibble (char_of (48 + n)) = Some n"
  by (auto simp: unnibble_def is_digit_def)

lemma radix_acc_decimal: "radix_acc 10 0 (decimal n) = Some n"
proof (induction n rule: decimal.induct)
  case (1 n)
  then show ?case
    by (cases "n < 10") (auto simp: decimal.simps [of n] radix_acc_append unnibble_digit)
qed

lemma parse_radix_decimal [simp]: "parse_radix 10 (decimal n) = Some n"
  by (simp add: parse_radix_def radix_acc_decimal)

lemma digit_not_space: "is_digit c \<Longrightarrow> \<not> is_space c"
  by (auto simp: is_digit_def is_space_def)

lemma trim_id:
  assumes "s \<noteq> []" "\<not> is_space (hd s)" "\<not> is_space (last s)"
  shows "trim s = s"
proof -
  have "dropWhile is_space s = s" using assms by (cases s) auto
  moreover have "dropWhile is_space (rev s) = rev s"
    using assms by (cases s rule: rev_cases) auto
  ultimately show ?thesis by (simp add: trim_def)
qed

lemma trim_decimal [simp]: "trim (decimal n) = decimal n"
proof (rule trim_id)
  have "list_all is_digit (decimal n)" by (rule decimal_digits)
  then have "is_digit (hd (decimal n))" "is_digit (last (decimal n))"
    by (auto simp: list_all_iff)
  then show "\<not> is_space (hd (decimal n))" "\<not> is_space (last (decimal n))"
    by (auto dest: digit_not_space)
qed simp

lemma trim_minus_decimal [simp]: "trim (CHR ''-'' # decimal n) = CHR ''-'' # decimal n"
proof (rule trim_id)
  have "list_all is_digit (decimal n)" by (rule decimal_digits)
  then have "is_digit (last (decimal n))" by (auto simp: list_all_iff)
  then show "\<not> is_space (last (CHR ''-'' # decimal n))" by (auto dest: digit_not_space)
qed (simp_all add: is_space_def)

lemma bigint_body_digits:
  assumes "list_all is_digit s" "s \<noteq> []"
  shows "bigint_body s = map_option int (parse_radix 10 s)"
proof -
  obtain c t where s: "s = c # t" using assms(2) by (cases s) auto
  have c: "is_digit c" and t: "t \<noteq> [] \<Longrightarrow> is_digit (hd t)" using assms(1) s by (auto simp: list_all_iff)
  have no: "\<not> is_upper d \<and> d \<noteq> CHR ''x'' \<and> d \<noteq> CHR ''o'' \<and> d \<noteq> CHR ''b'' \<and> d \<noteq> CHR ''-'' \<and> d \<noteq> CHR ''+''"
    if "is_digit d" for d using that by (intro conjI notI) (simp_all add: is_digit_def is_upper_def)
  have lower: "to_lower d = d" if "is_digit d" for d using no [OF that] by (simp add: to_lower_def)
  show ?thesis
  proof (cases "t = []")
    case True
    then show ?thesis using no [OF c] by (simp only: s bigint_body.simps if_False simp_thms)
  next
    case False
    then show ?thesis
      using no [OF c] no [OF t] by (simp only: s bigint_body.simps lower [OF t] if_False simp_thms)
  qed
qed

text \<open>Printing a BigInt and reading it back is the identity.\<close>

lemma bigInt_toString [simp]: "bigInt (bigint_toString i) = Inr i"
proof (cases "i < 0")
  case True
  then show ?thesis by (simp add: bigInt_def bigint_toString_def)
next
  case False
  then show ?thesis
    by (simp add: bigInt_def bigint_toString_def bigint_body_digits decimal_digits)
qed

lemma bigInt_decimal [simp]: "bigInt (decimal n) = Inr (int n)"
  using bigInt_toString [of "int n"] by (simp add: bigint_toString_def)

lemma bigint_toString_inject: "bigint_toString i = bigint_toString j \<Longrightarrow> i = j"
  by (metis bigInt_toString Inr_inject)

text \<open>\<^verbatim>\<open>/^[1-9][0-9]{0,k}$/\<close>: the base-unit strings of the API's schemas.\<close>

definition base_units_ok :: "nat \<Rightarrow> string \<Rightarrow> bool" where
  "base_units_ok k s \<longleftrightarrow>
     s \<noteq> [] \<and> is_digit (hd s) \<and> hd s \<noteq> CHR ''0'' \<and> list_all is_digit (tl s) \<and> length (tl s) \<le> k"

lemma digit_radix10: "is_digit c \<Longrightarrow> \<exists>d. unnibble c = Some d \<and> d < 10"
  by (auto simp: unnibble_def is_digit_def)

lemma radix_acc_bounds:
  "list_all is_digit s \<Longrightarrow>
     \<exists>n. radix_acc 10 a s = Some n \<and> a * 10 ^ length s \<le> n \<and> n < (a + 1) * 10 ^ length s"
proof (induction s arbitrary: a)
  case Nil
  then show ?case by simp
next
  case (Cons c s)
  obtain d where d: "unnibble c = Some d" "d < 10" using Cons.prems digit_radix10 by auto
  obtain n where n: "radix_acc 10 (a * 10 + d) s = Some n"
    "(a * 10 + d) * 10 ^ length s \<le> n" "n < (a * 10 + d + 1) * 10 ^ length s"
    using Cons by fastforce
  have "a * 10 * 10 ^ length s \<le> (a * 10 + d) * 10 ^ length s" by simp
  moreover have "(a * 10 + d + 1) * 10 ^ length s \<le> (a + 1) * 10 * 10 ^ length s"
    using d by (intro mult_right_mono) auto
  ultimately have "a * 10 * 10 ^ length s \<le> n" "n < (a + 1) * 10 * 10 ^ length s"
    using n by linarith+
  then show ?case using d n by (intro exI [of _ n]) (simp add: algebra_simps)
qed

text \<open>A base-unit string denotes a positive integer below \<open>10 ^ (k + 1)\<close>.\<close>

lemma base_units_bounds:
  assumes "base_units_ok k s"
  obtains n where "bigInt s = Inr (int n)" "0 < n" "n < 10 ^ Suc k"
proof -
  from assms obtain c t where s: "s = c # t" "is_digit c" "c \<noteq> CHR ''0''" "list_all is_digit t" "length t \<le> k"
    by (cases s) (auto simp: base_units_ok_def)
  obtain d where d: "unnibble c = Some d" "0 < d" "d < 10"
  proof
    show "unnibble c = Some (ascii c - 48)" using s by (simp add: unnibble_def)
    have "ascii c \<noteq> 48"
    proof
      assume "ascii c = 48"
      then have "char_of (ascii c) = char_of (48 :: nat)" by (rule arg_cong)
      moreover have "char_of (48 :: nat) = CHR ''0''" by (simp add: char_of_def bit_0)
      ultimately show False using s(3) by (simp only: char_of_char)
    qed
    then show "0 < ascii c - 48" "ascii c - 48 < 10" using s(2) by (auto simp: is_digit_def)
  qed
  obtain n where n: "radix_acc 10 d t = Some n" "d * 10 ^ length t \<le> n" "n < (d + 1) * 10 ^ length t"
    using radix_acc_bounds [OF s(4), of d] by blast
  have all: "list_all is_digit s" using s by simp
  then have hl: "is_digit (hd s)" "is_digit (last s)" using s(1) by (auto simp: list_all_iff)
  have "trim s = s" by (rule trim_id) (use s hl digit_not_space in auto)
  then have "bigInt s = Inr (int n)"
    using all s(1) d n bigint_body_digits [OF all]
    by (simp add: bigInt_def parse_radix_def del: bigint_body.simps)
  moreover have "0 < n" using d(2) n(2) by (metis gr0I mult_is_0 not_le power_not_zero zero_neq_numeral)
  moreover have "n < 10 ^ Suc k"
  proof -
    have "(d + 1) * 10 ^ length t \<le> 10 * 10 ^ k"
      using d(3) s(5) by (intro mult_mono power_increasing) auto
    with n(3) show ?thesis by simp
  qed
  ultimately show thesis by (rule that)
qed

section \<open>UTF-8 and base64\<close>

text \<open>
  \<^verbatim>\<open>Buffer.from(s)\<close>: the characters of the model are bytes, so a string is its own UTF-8.
\<close>

definition utf8 :: "string \<Rightarrow> buffer" where
  "utf8 s = map (\<lambda>c. word_of_nat (ascii c)) s"

lemma utf8_inject: "utf8 s = utf8 t \<longleftrightarrow> s = t"
proof
  assume "utf8 s = utf8 t"
  then have "map (char_of \<circ> unat) (utf8 s) = map (char_of \<circ> unat) (utf8 t)" by simp
  then show "s = t" by (simp add: utf8_def comp_def)
qed simp

definition b64_char :: "nat \<Rightarrow> char" where
  "b64_char n =
     (if n < 26 then char_of (65 + n) else if n < 52 then char_of (71 + n)
      else if n < 62 then char_of (n - 4) else if n = 62 then CHR ''+'' else CHR ''/'')"

text \<open>Decoding accepts the URL-safe characters as well.\<close>

definition b64_val :: "char \<Rightarrow> nat option" where
  "b64_val c =
     (if is_upper c then Some (ascii c - 65) else if is_lower c then Some (ascii c - 71)
      else if is_digit c then Some (ascii c + 4)
      else if c = CHR ''+'' \<or> c = CHR ''-'' then Some 62
      else if c = CHR ''/'' \<or> c = CHR ''_'' then Some 63 else None)"

text \<open>\<^verbatim>\<open>buffer.toString("base64")\<close>\<close>

fun toBase64 :: "buffer \<Rightarrow> string" where
  "toBase64 (a # b # c # r) =
     (let x = unat a; y = unat b; z = unat c in
      [b64_char (x div 4), b64_char (x mod 4 * 16 + y div 16),
       b64_char (y mod 16 * 4 + z div 64), b64_char (z mod 64)] @ toBase64 r)"
| "toBase64 [a, b] =
     (let x = unat a; y = unat b in
      [b64_char (x div 4), b64_char (x mod 4 * 16 + y div 16), b64_char (y mod 16 * 4), CHR ''=''])"
| "toBase64 [a] =
     (let x = unat a in [b64_char (x div 4), b64_char (x mod 4 * 16), CHR ''='', CHR ''=''])"
| "toBase64 [] = []"

fun sextets :: "nat list \<Rightarrow> buffer" where
  "sextets (p # q # r # s # t) =
     word_of_nat (p * 4 + q div 16) # word_of_nat (q mod 16 * 16 + r div 4)
     # word_of_nat (r mod 4 * 64 + s) # sextets t"
| "sextets [p, q, r] = [word_of_nat (p * 4 + q div 16), word_of_nat (q mod 16 * 16 + r div 4)]"
| "sextets [p, q] = [word_of_nat (p * 4 + q div 16)]"
| "sextets _ = []"

text \<open>\<^verbatim>\<open>Buffer.from(s, "base64")\<close>: stops at padding and skips other characters.\<close>

definition fromBase64 :: "string \<Rightarrow> buffer" where
  "fromBase64 s = sextets (List.map_filter b64_val (takeWhile (\<lambda>c. c \<noteq> CHR ''='') s))"

lemma b64_val_char [simp]: "n < 64 \<Longrightarrow> b64_val (b64_char n) = Some n"
  by (auto simp: b64_val_def b64_char_def is_upper_def is_lower_def is_digit_def)

lemma b64_char_not_pad [simp]: "n < 64 \<Longrightarrow> b64_char n \<noteq> CHR ''=''"
proof
  assume "n < 64" "b64_char n = CHR ''=''"
  then have "b64_val (CHR ''='') = Some n" by (metis b64_val_char)
  then show False by (simp add: b64_val_def is_upper_def is_lower_def is_digit_def)
qed

lemma sextet1: "y < 16 \<Longrightarrow> x div 4 * 4 + (x mod 4 * 16 + y) div 16 = (x :: nat)"
  by simp

lemma sextet2:
  "y < 256 \<Longrightarrow> z < 4 \<Longrightarrow> (k * 16 + y div 16) mod 16 * 16 + (y mod 16 * 4 + z) div 4 = (y :: nat)"
  by (simp add: less_mult_imp_div_less)

lemma sextet3: "z < 256 \<Longrightarrow> (k * 4 + z div 64) mod 4 * 64 + z mod 64 = (z :: nat)"
  by (simp add: less_mult_imp_div_less)

lemma sextet_bounds:
  "x < 256 \<Longrightarrow> x div 4 < (64 :: nat)" "y < 16 \<Longrightarrow> x mod 4 * 16 + y < (64 :: nat)"
  "z < 4 \<Longrightarrow> x mod 16 * 4 + z < (64 :: nat)" "x < 256 \<Longrightarrow> x div 64 < (4 :: nat)"
proof -
  have "x mod 4 < 4" "x mod 16 < 16" by simp_all
  then show "y < 16 \<Longrightarrow> x mod 4 * 16 + y < 64" "z < 4 \<Longrightarrow> x mod 16 * 4 + z < 64" by linarith+
qed (simp_all add: less_mult_imp_div_less)

lemmas sextet_simps = sextet1 sextet2 sextet3 sextet_bounds
  sextet2 [where z = 0, simplified] sextet1 [where y = 0, simplified]
  sextet_bounds(2) [where y = 0, simplified] sextet_bounds(3) [where z = 0, simplified]

text \<open>Decoding an encoded buffer returns it: signatures and evidence survive transport.\<close>

lemma fromBase64_toBase64 [simp]: "fromBase64 (toBase64 bs) = bs"
proof (induction bs rule: toBase64.induct)
  case (1 a b c r)
  then show ?case
    by (simp add: fromBase64_def Let_def List.map_filter_simps sextet_simps del: of_nat_add of_nat_mult)
next
  case (2 a b)
  show ?case
    by (simp add: fromBase64_def Let_def List.map_filter_simps sextet_simps del: of_nat_add of_nat_mult)
next
  case (3 a)
  show ?case
    by (simp add: fromBase64_def Let_def List.map_filter_simps sextet_simps del: of_nat_add of_nat_mult)
qed (simp add: fromBase64_def List.map_filter_simps)

section \<open>UUIDs\<close>

text \<open>\<^verbatim>\<open>z.string().uuid()\<close>: the RFC 9562 forms, or the nil and the max UUID.\<close>

definition uuid_ok :: "string \<Rightarrow> bool" where
  "uuid_ok s \<longleftrightarrow>
     length s = 36 \<and>
     list_all (\<lambda>i. if i \<in> {8, 13, 18, 23} then s ! i = CHR ''-'' else is_hex (s ! i)) [0..<36] \<and>
     ((CHR ''1'' \<le> s ! 14 \<and> s ! 14 \<le> CHR ''8'' \<and> s ! 19 \<in> set ''89abAB'')
      \<or> s = ''00000000-0000-0000-0000-000000000000''
      \<or> s = ''ffffffff-ffff-ffff-ffff-ffffffffffff'')"

end
