(* ===== verification/Policies.thy ===== *)
theory Policies
  imports Codec
begin

text \<open>
  The enumerations of the protocol: verification policies with their numeric codes and
  assurance levels (\<^verbatim>\<open>packages/verification/policies.ts\<close>) and the job states an account's
  state byte selects (\<^verbatim>\<open>packages/types/index.ts\<close>). The codes are what the Solana program
  stores, so they are shown to be a bijection with the policies and to order them by strength.
\<close>

section \<open>Verification policies\<close>

datatype policy = BASIC | STANDARD | CHALLENGE | REDUNDANT | TEE | PROOF

definition verificationPolicies :: "policy list" where
  "verificationPolicies = [BASIC, STANDARD, CHALLENGE, REDUNDANT, TEE, PROOF]"

fun policy_name :: "policy \<Rightarrow> string" where
  "policy_name BASIC = ''BASIC''"
| "policy_name STANDARD = ''STANDARD''"
| "policy_name CHALLENGE = ''CHALLENGE''"
| "policy_name REDUNDANT = ''REDUNDANT''"
| "policy_name TEE = ''TEE''"
| "policy_name PROOF = ''PROOF''"

definition policyCode :: "policy \<Rightarrow> int" where
  "policyCode p = indexOf p verificationPolicies"

definition policyFromCode :: "int \<Rightarrow> policy outcome" where
  "policyFromCode code =
     (case index_at verificationPolicies code of
        Some p \<Rightarrow> Inr p
      | None \<Rightarrow> Inl (''Unsupported verification policy code: '' @ bigint_toString code))"

fun assuranceFor :: "policy \<Rightarrow> string" where
  "assuranceFor BASIC = ''VERIFY_0''"
| "assuranceFor STANDARD = ''VERIFY_1''"
| "assuranceFor CHALLENGE = ''VERIFY_2''"
| "assuranceFor REDUNDANT = ''VERIFY_3''"
| "assuranceFor TEE = ''VERIFY_4''"
| "assuranceFor PROOF = ''VERIFY_5''"

text \<open>Reading a policy name back, as \<^verbatim>\<open>z.enum(verificationPolicies)\<close> does.\<close>

definition policy_of_name :: "string \<Rightarrow> policy option" where
  "policy_of_name s = find (\<lambda>p. policy_name p = s) verificationPolicies"

lemma set_verificationPolicies [simp]: "p \<in> set verificationPolicies"
  by (cases p) (simp_all add: verificationPolicies_def)

lemma distinct_verificationPolicies: "distinct verificationPolicies"
  by (simp add: verificationPolicies_def)

lemma policyCode_simps [simp]:
  "policyCode BASIC = 0" "policyCode STANDARD = 1" "policyCode CHALLENGE = 2"
  "policyCode REDUNDANT = 3" "policyCode TEE = 4" "policyCode PROOF = 5"
  by (simp_all add: policyCode_def verificationPolicies_def)

lemma policy_name_inject [simp]: "policy_name p = policy_name q \<longleftrightarrow> p = q"
  by (cases p; cases q) simp_all

lemma policy_of_name [simp]: "policy_of_name (policy_name p) = Some p"
  by (cases p) (simp_all add: policy_of_name_def verificationPolicies_def)

lemma policy_of_name_Some: "policy_of_name s = Some p \<Longrightarrow> s = policy_name p"
  by (auto simp: policy_of_name_def dest: find_SomeD)

lemma policyFromCode_policyCode [simp]: "policyFromCode (policyCode p) = Inr p"
  by (simp add: policyFromCode_def policyCode_def index_at_indexOf)

lemma policyCode_policyFromCode: "policyFromCode c = Inr p \<Longrightarrow> policyCode p = c"
  by (auto simp: policyFromCode_def policyCode_def split: option.splits
      intro: indexOf_index_at distinct_verificationPolicies)

lemma policyFromCode_dom: "(\<exists>p. policyFromCode c = Inr p) \<longleftrightarrow> 0 \<le> c \<and> c \<le> 5"
  by (auto simp: policyFromCode_def index_at_def verificationPolicies_def split: option.splits if_splits)

lemma policyCode_range: "0 \<le> policyCode p \<and> policyCode p \<le> 5"
  by (cases p) simp_all

lemma policyCode_inject: "policyCode p = policyCode q \<longleftrightarrow> p = q"
  by (cases p; cases q) simp_all

text \<open>
  The numeric policy codes stored on chain are a bijection with the policies: every
  policy reads back from its code, exactly the codes 0 to 5 are accepted, and every other
  code is rejected with the error the code throws; the code's digit is the one in the
  assurance level's name.
\<close>

theorem policy_codes_bijective:
  "policyFromCode (policyCode p) = Inr p
   \<and> (policyFromCode c = Inr q \<longleftrightarrow> c = policyCode q)
   \<and> (policyFromCode c = Inl e \<longleftrightarrow>
        (c < 0 \<or> 5 < c) \<and> e = ''Unsupported verification policy code: '' @ bigint_toString c)
   \<and> assuranceFor p = ''VERIFY_'' @ bigint_toString (policyCode p)"
proof (intro conjI)
  show "policyFromCode (policyCode p) = Inr p" by simp
  show "policyFromCode c = Inr q \<longleftrightarrow> c = policyCode q"
    using policyCode_policyFromCode by auto
  show "policyFromCode c = Inl e \<longleftrightarrow>
     (c < 0 \<or> 5 < c) \<and> e = ''Unsupported verification policy code: '' @ bigint_toString c"
    by (auto simp: policyFromCode_def index_at_def verificationPolicies_def split: option.splits)
  show "assuranceFor p = ''VERIFY_'' @ bigint_toString (policyCode p)"
    by (cases p) (simp_all add: bigint_toString_def decimal.simps char_of_def bit_0)
qed

section \<open>Job states\<close>

datatype job_state =
    CREATED | FUNDED | OPEN | MATCHED | ASSIGNED | STARTING | RUNNING | RESULT_SUBMITTED
  | VERIFYING | COMPLETED | CANCELLED | EXPIRED | FAILED | DISPUTED | REFUNDED

definition jobStates :: "job_state list" where
  "jobStates = [CREATED, FUNDED, OPEN, MATCHED, ASSIGNED, STARTING, RUNNING, RESULT_SUBMITTED,
     VERIFYING, COMPLETED, CANCELLED, EXPIRED, FAILED, DISPUTED, REFUNDED]"

lemma distinct_jobStates: "distinct jobStates"
  by (simp add: jobStates_def)

lemma set_jobStates [simp]: "s \<in> set jobStates"
  by (cases s) (simp_all add: jobStates_def)

end
