(* ===== verification/JobSpec.thy ===== *)
theory JobSpec
  imports Policies
begin

text \<open>
  The job specification format (\<^verbatim>\<open>packages/job-spec/index.ts\<close>): the record the strict Zod
  schema infers, its bounds, the cross-field rules of \<^verbatim>\<open>superRefine\<close> with their messages, and
  \<^verbatim>\<open>jobSpecSchema.parse\<close> from a JSON value. \<open>spec_json\<close> is the JSON value of a parsed
  specification, the one that is canonicalised and hashed. The provider's admission rule
  \<^verbatim>\<open>enforceExecutionPolicy\<close> (\<^verbatim>\<open>packages/policy/index.ts\<close>) follows.
\<close>

section \<open>Reading JSON the way a strict schema does\<close>

text \<open>\<^verbatim>\<open>z.number().int()\<close>: an integer in the safe range.\<close>

definition json_int :: "json \<Rightarrow> int option" where
  "json_int j = (case j of
     JNum q \<Rightarrow> if of_int \<lfloor>q\<rfloor> = q \<and> \<bar>\<lfloor>q\<rfloor>\<bar> \<le> 9007199254740991 then Some \<lfloor>q\<rfloor> else None
   | _ \<Rightarrow> None)"

definition json_str :: "json \<Rightarrow> string option" where
  "json_str j = (case j of JStr s \<Rightarrow> Some s | _ \<Rightarrow> None)"

definition json_bool :: "json \<Rightarrow> bool option" where
  "json_bool j = (case j of JBool b \<Rightarrow> Some b | _ \<Rightarrow> None)"

definition json_arr :: "(json \<Rightarrow> 'a option) \<Rightarrow> json \<Rightarrow> 'a list option" where
  "json_arr f j = (case j of JArr xs \<Rightarrow> those (map f xs) | _ \<Rightarrow> None)"

text \<open>
  \<^verbatim>\<open>z.strictObject\<close>: an object with every required key and no key outside the two lists.
\<close>

definition json_obj :: "string list \<Rightarrow> string list \<Rightarrow> json \<Rightarrow> (string \<rightharpoonup> json) option" where
  "json_obj required optional j = (case j of
     JObj kvs \<Rightarrow>
       if list_all (\<lambda>k. map_of kvs k \<noteq> None) required
          \<and> list_all (\<lambda>(k, v). k \<in> set required \<or> k \<in> set optional) kvs
       then Some (map_of kvs) else None
   | _ \<Rightarrow> None)"

definition field :: "(string \<rightharpoonup> json) \<Rightarrow> string \<Rightarrow> (json \<Rightarrow> 'a option) \<Rightarrow> 'a option" where
  "field m k f = Option.bind (m k) f"

text \<open>\<^verbatim>\<open>.optional()\<close>: an absent key is \<open>None\<close>, a present one has to match.\<close>

definition opt_field :: "(string \<rightharpoonup> json) \<Rightarrow> string \<Rightarrow> (json \<Rightarrow> 'a option) \<Rightarrow> 'a option option" where
  "opt_field m k f = (case m k of None \<Rightarrow> Some None | Some j \<Rightarrow> map_option Some (f j))"

lemma json_int_JNum [simp]: "\<bar>i\<bar> \<le> 9007199254740991 \<Longrightarrow> json_int (JNum (of_int i)) = Some i"
  by (simp add: json_int_def)

lemma json_str_JStr [simp]: "json_str (JStr s) = Some s"
  by (simp add: json_str_def)

lemma json_bool_JBool [simp]: "json_bool (JBool b) = Some b"
  by (simp add: json_bool_def)

lemma those_map_inverse: "(\<And>x. x \<in> set xs \<Longrightarrow> f (g x) = Some x) \<Longrightarrow> those (map (f \<circ> g) xs) = Some xs"
  by (induction xs) auto

lemma json_arr_map [simp]:
  "(\<And>x. x \<in> set xs \<Longrightarrow> f (g x) = Some x) \<Longrightarrow> json_arr f (JArr (map g xs)) = Some xs"
  by (simp add: json_arr_def those_map_inverse)

lemma json_arr_Nil [simp]: "json_arr f (JArr []) = Some []"
  by (simp add: json_arr_def)

lemma field_Some [simp]: "m k = Some j \<Longrightarrow> field m k f = f j"
  by (simp add: field_def)

lemma json_int_range: "json_int j = Some i \<Longrightarrow> \<bar>i\<bar> \<le> 9007199254740991"
  by (auto simp: json_int_def split: json.splits if_splits)

section \<open>The specification record\<close>

record service_spec =
  sv_kind :: string
  sv_model :: string
  sv_contextTokens :: int
  sv_replicas :: int
  sv_durationSeconds :: int

record distributed_spec =
  ds_framework :: string
  ds_workers :: int
  ds_gpusPerWorker :: int
  ds_entrypoint :: string

datatype isolation = Runc | Gvisor | Tee

record security_spec =
  sc_isolation :: isolation
  sc_confidentialGpu :: bool

datatype proof_system = Groth16 | Plonk

record proof_spec =
  pf_system :: proof_system
  pf_circuitHash :: string
  pf_verificationKeyHash :: string

record input_ref =
  in_key :: string
  in_sha256 :: string

record job_spec =
  version :: string
  runtime :: string
  repository :: string
  digest :: string
  command :: "string list"
  gpu_count :: int
  gpu_minimumVramMb :: int
  gpu_allowedModels :: "string list"
  cpuCores :: int
  ramMb :: int
  storageMb :: int
  timeoutSeconds :: int
  maxStartDelaySeconds :: int
  network_mode :: string
  policy_of :: policy
  service :: "service_spec option"
  distributed :: "distributed_spec option"
  security :: "security_spec option"
  proof_of :: "proof_spec option"
  inputs :: "input_ref list"

section \<open>Field rules\<close>

text \<open>\<^verbatim>\<open>/^sha256:[a-f0-9]{64}$/\<close>\<close>

definition digest_ok :: "string \<Rightarrow> bool" where
  "digest_ok s \<longleftrightarrow> take 7 s = ''sha256:'' \<and> hash_ok (drop 7 s)"

text \<open>
  \<^verbatim>\<open>/^[a-z0-9.-]+(?::[0-9]+)?\/[a-z0-9._/-]+$/\<close>. The host class contains neither \<open>:\<close> nor
  \<open>/\<close>, so the host is the longest run of it and the match is deterministic.
\<close>

definition host_char :: "char \<Rightarrow> bool" where
  "host_char c \<longleftrightarrow> is_lower c \<or> is_digit c \<or> c = CHR ''.'' \<or> c = CHR ''-''"

definition path_char :: "char \<Rightarrow> bool" where
  "path_char c \<longleftrightarrow> is_lower c \<or> is_digit c \<or> c \<in> set ''._/-''"

fun after_host :: "string \<Rightarrow> bool" where
  "after_host (c # s) =
     (if c = CHR ''/'' then s \<noteq> [] \<and> list_all path_char s
      else c = CHR '':'' \<and> is_digit (hd (s @ ''/'')) \<and>
        (case dropWhile is_digit s of
           d # t \<Rightarrow> d = CHR ''/'' \<and> t \<noteq> [] \<and> list_all path_char t
         | [] \<Rightarrow> False))"
| "after_host [] = False"

definition repository_ok :: "string \<Rightarrow> bool" where
  "repository_ok s \<longleftrightarrow>
     takeWhile host_char s \<noteq> [] \<and> after_host (dropWhile host_char s) \<and> length s \<le> 200"

text \<open>\<^verbatim>\<open>/^[a-zA-Z0-9/_-]+$/\<close>, at most 256 characters\<close>

definition key_char :: "char \<Rightarrow> bool" where
  "key_char c \<longleftrightarrow> is_lower c \<or> is_upper c \<or> is_digit c \<or> c \<in> set ''/_-''"

definition input_ok :: "input_ref \<Rightarrow> bool" where
  "input_ok i \<longleftrightarrow>
     in_key i \<noteq> [] \<and> list_all key_char (in_key i) \<and> length (in_key i) \<le> 256 \<and> hash_ok (in_sha256 i)"

definition in_range :: "int \<Rightarrow> int \<Rightarrow> int \<Rightarrow> bool" where
  "in_range lo hi x \<longleftrightarrow> lo \<le> x \<and> x \<le> hi"

definition service_ok :: "service_spec \<Rightarrow> bool" where
  "service_ok v \<longleftrightarrow>
     sv_kind v = ''vllm'' \<and> 1 \<le> length (sv_model v) \<and> length (sv_model v) \<le> 300
     \<and> in_range 128 1048576 (sv_contextTokens v) \<and> in_range 1 32 (sv_replicas v)
     \<and> in_range 60 86400 (sv_durationSeconds v)"

definition distributed_ok :: "distributed_spec \<Rightarrow> bool" where
  "distributed_ok d \<longleftrightarrow>
     ds_framework d = ''ray'' \<and> in_range 1 128 (ds_workers d) \<and> in_range 0 16 (ds_gpusPerWorker d)
     \<and> 1 \<le> length (ds_entrypoint d) \<and> length (ds_entrypoint d) \<le> 4096"

definition proof_ok :: "proof_spec \<Rightarrow> bool" where
  "proof_ok p \<longleftrightarrow> hash_ok (pf_circuitHash p) \<and> hash_ok (pf_verificationKeyHash p)"

definition fields_ok :: "job_spec \<Rightarrow> bool" where
  "fields_ok s \<longleftrightarrow>
     version s = ''1'' \<and> runtime s = ''oci''
     \<and> repository_ok (repository s) \<and> digest_ok (digest s)
     \<and> 1 \<le> length (command s) \<and> length (command s) \<le> 64
     \<and> list_all (\<lambda>c. length c \<le> 4096) (command s)
     \<and> in_range 0 16 (gpu_count s) \<and> in_range 0 200000 (gpu_minimumVramMb s)
     \<and> length (gpu_allowedModels s) \<le> 16 \<and> list_all (\<lambda>m. length m \<le> 80) (gpu_allowedModels s)
     \<and> in_range 1 128 (cpuCores s) \<and> in_range 128 1048576 (ramMb s)
     \<and> in_range 64 1048576 (storageMb s)
     \<and> in_range 1 86400 (timeoutSeconds s) \<and> in_range 1 86400 (maxStartDelaySeconds s)
     \<and> network_mode s = ''deny-by-default''
     \<and> pred_option service_ok (service s) \<and> pred_option distributed_ok (distributed s)
     \<and> pred_option proof_ok (proof_of s)
     \<and> length (inputs s) \<le> 16 \<and> list_all input_ok (inputs s)"

section \<open>superRefine\<close>

definition wants_tee :: "job_spec \<Rightarrow> bool" where
  "wants_tee s \<longleftrightarrow> (case security s of
     Some c \<Rightarrow> sc_isolation c = Tee \<or> sc_confidentialGpu c | None \<Rightarrow> False)"

definition superRefine :: "job_spec \<Rightarrow> string list" where
  "superRefine s =
     (if service s \<noteq> None \<and> distributed s \<noteq> None
      then [''A job cannot be both a persistent service and a Ray job''] else [])
   @ (case service s of
        Some v \<Rightarrow> if timeoutSeconds s < sv_durationSeconds v
                  then [''Service duration exceeds the escrowed execution timeout''] else []
      | None \<Rightarrow> [])
   @ (case distributed s of
        Some d \<Rightarrow> if ds_workers d * ds_gpusPerWorker d \<noteq> gpu_count s
                  then [''Distributed GPU allocation must equal the requested GPU count''] else []
      | None \<Rightarrow> [])
   @ (if wants_tee s \<and> policy_of s \<notin> {TEE, PROOF}
      then [''TEE or confidential GPU execution requires VERIFY_4 or stronger''] else [])
   @ (if policy_of s = TEE \<and> map_option sc_isolation (security s) \<noteq> Some Tee
      then [''TEE verification requires TEE isolation''] else [])
   @ (if policy_of s = PROOF \<and> proof_of s = None
      then [''Proof verification requires a pinned proof system and keys''] else [])"

text \<open>A specification the schema accepts.\<close>

definition spec_valid :: "job_spec \<Rightarrow> bool" where
  "spec_valid s \<longleftrightarrow> fields_ok s \<and> superRefine s = []"

section \<open>Encoding\<close>

fun isolation_name :: "isolation \<Rightarrow> string" where
  "isolation_name Runc = ''runc''"
| "isolation_name Gvisor = ''gvisor''"
| "isolation_name Tee = ''tee''"

fun system_name :: "proof_system \<Rightarrow> string" where
  "system_name Groth16 = ''groth16''"
| "system_name Plonk = ''plonk''"

abbreviation jint :: "int \<Rightarrow> json" where
  "jint i \<equiv> JNum (of_int i)"

definition service_json :: "service_spec \<Rightarrow> json" where
  "service_json v = JObj
     [(''kind'', JStr (sv_kind v)), (''model'', JStr (sv_model v)),
      (''contextTokens'', jint (sv_contextTokens v)), (''replicas'', jint (sv_replicas v)),
      (''durationSeconds'', jint (sv_durationSeconds v))]"

definition distributed_json :: "distributed_spec \<Rightarrow> json" where
  "distributed_json d = JObj
     [(''framework'', JStr (ds_framework d)), (''workers'', jint (ds_workers d)),
      (''gpusPerWorker'', jint (ds_gpusPerWorker d)), (''entrypoint'', JStr (ds_entrypoint d))]"

definition security_json :: "security_spec \<Rightarrow> json" where
  "security_json c = JObj
     [(''isolation'', JStr (isolation_name (sc_isolation c))),
      (''confidentialGpu'', JBool (sc_confidentialGpu c))]"

definition proof_json :: "proof_spec \<Rightarrow> json" where
  "proof_json p = JObj
     [(''system'', JStr (system_name (pf_system p))), (''circuitHash'', JStr (pf_circuitHash p)),
      (''verificationKeyHash'', JStr (pf_verificationKeyHash p))]"

definition input_json :: "input_ref \<Rightarrow> json" where
  "input_json i = JObj [(''key'', JStr (in_key i)), (''sha256'', JStr (in_sha256 i))]"

definition inputs_json :: "job_spec \<Rightarrow> json" where
  "inputs_json s = JArr (map input_json (inputs s))"

definition opt_entry :: "string \<Rightarrow> ('a \<Rightarrow> json) \<Rightarrow> 'a option \<Rightarrow> (string \<times> json) list" where
  "opt_entry k f x = (case x of None \<Rightarrow> [] | Some v \<Rightarrow> [(k, f v)])"

definition spec_json :: "job_spec \<Rightarrow> json" where
  "spec_json s = JObj (
     [(''version'', JStr (version s)), (''runtime'', JStr (runtime s)),
      (''image'', JObj [(''repository'', JStr (repository s)), (''digest'', JStr (digest s))]),
      (''command'', JArr (map JStr (command s))),
      (''resources'', JObj
        [(''gpu'', JObj [(''count'', jint (gpu_count s)),
                        (''minimumVramMb'', jint (gpu_minimumVramMb s)),
                        (''allowedModels'', JArr (map JStr (gpu_allowedModels s)))]),
         (''cpuCores'', jint (cpuCores s)), (''ramMb'', jint (ramMb s)),
         (''storageMb'', jint (storageMb s))]),
      (''execution'', JObj [(''timeoutSeconds'', jint (timeoutSeconds s)),
                           (''maxStartDelaySeconds'', jint (maxStartDelaySeconds s))]),
      (''network'', JObj [(''mode'', JStr (network_mode s)), (''allow'', JArr [])]),
      (''verification'', JObj [(''policy'', JStr (policy_name (policy_of s)))]),
      (''inputs'', inputs_json s)]
     @ opt_entry ''service'' service_json (service s)
     @ opt_entry ''distributed'' distributed_json (distributed s)
     @ opt_entry ''security'' security_json (security s)
     @ opt_entry ''proof'' proof_json (proof_of s))"

section \<open>Parsing\<close>

definition isolation_of :: "string \<Rightarrow> isolation option" where
  "isolation_of s = find (\<lambda>i. isolation_name i = s) [Runc, Gvisor, Tee]"

definition system_of :: "string \<Rightarrow> proof_system option" where
  "system_of s = find (\<lambda>p. system_name p = s) [Groth16, Plonk]"

definition parse_service :: "json \<Rightarrow> service_spec option" where
  "parse_service j = Option.bind
     (json_obj [''kind'', ''model'', ''contextTokens'', ''replicas'', ''durationSeconds''] [] j) (\<lambda>m.
   Option.bind (field m ''kind'' json_str) (\<lambda>k.
   Option.bind (field m ''model'' json_str) (\<lambda>mo.
   Option.bind (field m ''contextTokens'' json_int) (\<lambda>ct.
   Option.bind (field m ''replicas'' json_int) (\<lambda>r.
   Option.bind (field m ''durationSeconds'' json_int) (\<lambda>d.
     Some \<lparr>sv_kind = k, sv_model = mo, sv_contextTokens = ct, sv_replicas = r,
           sv_durationSeconds = d\<rparr>))))))"

definition parse_distributed :: "json \<Rightarrow> distributed_spec option" where
  "parse_distributed j = Option.bind
     (json_obj [''framework'', ''workers'', ''gpusPerWorker'', ''entrypoint''] [] j) (\<lambda>m.
   Option.bind (field m ''framework'' json_str) (\<lambda>f.
   Option.bind (field m ''workers'' json_int) (\<lambda>w.
   Option.bind (field m ''gpusPerWorker'' json_int) (\<lambda>g.
   Option.bind (field m ''entrypoint'' json_str) (\<lambda>e.
     Some \<lparr>ds_framework = f, ds_workers = w, ds_gpusPerWorker = g, ds_entrypoint = e\<rparr>)))))"

definition parse_security :: "json \<Rightarrow> security_spec option" where
  "parse_security j = Option.bind (json_obj [''isolation'', ''confidentialGpu''] [] j) (\<lambda>m.
   Option.bind (field m ''isolation'' (\<lambda>v. Option.bind (json_str v) isolation_of)) (\<lambda>i.
   Option.bind (field m ''confidentialGpu'' json_bool) (\<lambda>b.
     Some \<lparr>sc_isolation = i, sc_confidentialGpu = b\<rparr>)))"

definition parse_proof :: "json \<Rightarrow> proof_spec option" where
  "parse_proof j = Option.bind
     (json_obj [''system'', ''circuitHash'', ''verificationKeyHash''] [] j) (\<lambda>m.
   Option.bind (field m ''system'' (\<lambda>v. Option.bind (json_str v) system_of)) (\<lambda>y.
   Option.bind (field m ''circuitHash'' json_str) (\<lambda>c.
   Option.bind (field m ''verificationKeyHash'' json_str) (\<lambda>v.
     Some \<lparr>pf_system = y, pf_circuitHash = c, pf_verificationKeyHash = v\<rparr>))))"

definition parse_input :: "json \<Rightarrow> input_ref option" where
  "parse_input j = Option.bind (json_obj [''key'', ''sha256''] [] j) (\<lambda>m.
   Option.bind (field m ''key'' json_str) (\<lambda>k.
   Option.bind (field m ''sha256'' json_str) (\<lambda>h.
     Some \<lparr>in_key = k, in_sha256 = h\<rparr>)))"

definition parse_gpu :: "json \<Rightarrow> (int \<times> int \<times> string list) option" where
  "parse_gpu j = Option.bind (json_obj [''count'', ''minimumVramMb'', ''allowedModels''] [] j) (\<lambda>m.
   Option.bind (field m ''count'' json_int) (\<lambda>c.
   Option.bind (field m ''minimumVramMb'' json_int) (\<lambda>v.
   Option.bind (field m ''allowedModels'' (json_arr json_str)) (\<lambda>a. Some (c, v, a)))))"

definition parse_resources :: "json \<Rightarrow> ((int \<times> int \<times> string list) \<times> int \<times> int \<times> int) option" where
  "parse_resources j = Option.bind (json_obj [''gpu'', ''cpuCores'', ''ramMb'', ''storageMb''] [] j) (\<lambda>m.
   Option.bind (field m ''gpu'' parse_gpu) (\<lambda>g.
   Option.bind (field m ''cpuCores'' json_int) (\<lambda>c.
   Option.bind (field m ''ramMb'' json_int) (\<lambda>r.
   Option.bind (field m ''storageMb'' json_int) (\<lambda>st. Some (g, c, r, st))))))"

definition parse_image :: "json \<Rightarrow> (string \<times> string) option" where
  "parse_image j = Option.bind (json_obj [''repository'', ''digest''] [] j) (\<lambda>m.
   Option.bind (field m ''repository'' json_str) (\<lambda>r.
   Option.bind (field m ''digest'' json_str) (\<lambda>d. Some (r, d))))"

definition parse_execution :: "json \<Rightarrow> (int \<times> int) option" where
  "parse_execution j = Option.bind (json_obj [''timeoutSeconds'', ''maxStartDelaySeconds''] [] j) (\<lambda>m.
   Option.bind (field m ''timeoutSeconds'' json_int) (\<lambda>t.
   Option.bind (field m ''maxStartDelaySeconds'' json_int) (\<lambda>d. Some (t, d))))"

text \<open>\<^verbatim>\<open>allow: z.array(z.never()).max(0)\<close> admits the empty array only.\<close>

definition parse_network :: "json \<Rightarrow> string option" where
  "parse_network j = Option.bind (json_obj [''mode'', ''allow''] [] j) (\<lambda>m.
   Option.bind (field m ''mode'' json_str) (\<lambda>mo.
   Option.bind (field m ''allow'' (\<lambda>a. if a = JArr [] then Some () else None)) (\<lambda>_. Some mo)))"

definition parse_verification :: "json \<Rightarrow> policy option" where
  "parse_verification j = Option.bind (json_obj [''policy''] [] j) (\<lambda>m.
   field m ''policy'' (\<lambda>v. Option.bind (json_str v) policy_of_name))"

text \<open>The shape of the object; an absent \<^verbatim>\<open>inputs\<close> is \<^verbatim>\<open>.default([])\<close>.\<close>

definition parse_shape :: "json \<Rightarrow> job_spec option" where
  "parse_shape j = Option.bind (json_obj
     [''version'', ''runtime'', ''image'', ''command'', ''resources'', ''execution'', ''network'', ''verification'']
     [''service'', ''distributed'', ''security'', ''proof'', ''inputs''] j) (\<lambda>m.
   Option.bind (field m ''version'' json_str) (\<lambda>ver.
   Option.bind (field m ''runtime'' json_str) (\<lambda>rt.
   Option.bind (field m ''image'' parse_image) (\<lambda>(repo, dig).
   Option.bind (field m ''command'' (json_arr json_str)) (\<lambda>cmd.
   Option.bind (field m ''resources'' parse_resources) (\<lambda>((gc, gv, gm), cc, rm, sm).
   Option.bind (field m ''execution'' parse_execution) (\<lambda>(to, sd).
   Option.bind (field m ''network'' parse_network) (\<lambda>nm.
   Option.bind (field m ''verification'' parse_verification) (\<lambda>pol.
   Option.bind (opt_field m ''service'' parse_service) (\<lambda>sv.
   Option.bind (opt_field m ''distributed'' parse_distributed) (\<lambda>ds.
   Option.bind (opt_field m ''security'' parse_security) (\<lambda>sc.
   Option.bind (opt_field m ''proof'' parse_proof) (\<lambda>pf.
   Option.bind (opt_field m ''inputs'' (json_arr parse_input)) (\<lambda>ins.
     Some \<lparr>version = ver, runtime = rt, repository = repo, digest = dig, command = cmd,
       gpu_count = gc, gpu_minimumVramMb = gv, gpu_allowedModels = gm, cpuCores = cc, ramMb = rm,
       storageMb = sm, timeoutSeconds = to, maxStartDelaySeconds = sd, network_mode = nm,
       policy_of = pol, service = sv, distributed = ds, security = sc, proof_of = pf,
       inputs = (case ins of None \<Rightarrow> [] | Some xs \<Rightarrow> xs)\<rparr>))))))))))))))"

text \<open>
  \<^verbatim>\<open>jobSpecSchema.parse\<close>: \<open>Inl\<close> is the thrown \<^verbatim>\<open>ZodError\<close>, with the messages of the
  cross-field rules, or the single entry \<open>schema\<close> when a field's own rule fails.
\<close>

definition jobSpecSchema_parse :: "json \<Rightarrow> string list + job_spec" where
  "jobSpecSchema_parse j = (case parse_shape j of
     None \<Rightarrow> Inl [''schema'']
   | Some s \<Rightarrow> if \<not> fields_ok s then Inl [''schema'']
               else if superRefine s \<noteq> [] then Inl (superRefine s)
               else Inr s)"

section \<open>Provider admission\<close>

text \<open>\<^verbatim>\<open>spec.image.repository.split("/")[0]\<close>\<close>

definition registry_of :: "job_spec \<Rightarrow> string" where
  "registry_of s = takeWhile (\<lambda>c. c \<noteq> CHR ''/'') (repository s)"

definition enforceExecutionPolicy :: "json \<Rightarrow> string list \<Rightarrow> job_spec outcome" where
  "enforceExecutionPolicy input allowedRegistries = (case jobSpecSchema_parse input of
     Inl issues \<Rightarrow> Inl (concat issues)
   | Inr s \<Rightarrow>
       if registry_of s \<notin> set allowedRegistries then Inl ''Registry is not allowed by this provider''
       else if inputs s \<noteq> [] then Inl ''Input materialization is not enabled for this executor''
       else if service s \<noteq> None then Inl ''Persistent services require the vLLM executor''
       else if distributed s \<noteq> None then Inl ''Distributed jobs require the Ray executor''
       else if wants_tee s then Inl ''Hardware attestation requires a TEE executor''
       else if proof_of s \<noteq> None then Inl ''Proof workloads require a proof-capable executor''
       else Inr s)"

section \<open>Round trip\<close>

lemma isolation_of_name [simp]: "isolation_of (isolation_name i) = Some i"
  by (cases i) (simp_all add: isolation_of_def)

lemma system_of_name [simp]: "system_of (system_name p) = Some p"
  by (cases p) (simp_all add: system_of_def)

lemmas parse_object_simps = json_obj_def field_def opt_field_def

lemma parse_service_json [simp]:
  "service_ok v \<Longrightarrow> parse_service (service_json v) = Some v"
  by (simp add: parse_service_def service_json_def parse_object_simps service_ok_def in_range_def)

lemma parse_distributed_json [simp]:
  "distributed_ok d \<Longrightarrow> parse_distributed (distributed_json d) = Some d"
  by (simp add: parse_distributed_def distributed_json_def parse_object_simps distributed_ok_def in_range_def)

lemma parse_security_json [simp]: "parse_security (security_json c) = Some c"
  by (simp add: parse_security_def security_json_def parse_object_simps)

lemma parse_proof_json [simp]: "parse_proof (proof_json p) = Some p"
  by (simp add: parse_proof_def proof_json_def parse_object_simps)

lemma parse_input_json [simp]: "parse_input (input_json i) = Some i"
  by (simp add: parse_input_def input_json_def parse_object_simps)

lemma parse_inputs_json [simp]: "json_arr parse_input (inputs_json s) = Some (inputs s)"
  by (simp add: inputs_json_def)

lemma parse_resources_json [simp]:
  "fields_ok s \<Longrightarrow> parse_resources (JObj
     [(''gpu'', JObj [(''count'', jint (gpu_count s)), (''minimumVramMb'', jint (gpu_minimumVramMb s)),
        (''allowedModels'', JArr (map JStr (gpu_allowedModels s)))]),
      (''cpuCores'', jint (cpuCores s)), (''ramMb'', jint (ramMb s)), (''storageMb'', jint (storageMb s))])
   = Some ((gpu_count s, gpu_minimumVramMb s, gpu_allowedModels s), cpuCores s, ramMb s, storageMb s)"
  by (simp add: parse_resources_def parse_gpu_def parse_object_simps fields_ok_def in_range_def)

lemma parse_execution_json [simp]:
  "fields_ok s \<Longrightarrow> parse_execution (JObj [(''timeoutSeconds'', jint (timeoutSeconds s)),
     (''maxStartDelaySeconds'', jint (maxStartDelaySeconds s))]) = Some (timeoutSeconds s, maxStartDelaySeconds s)"
  by (simp add: parse_execution_def parse_object_simps fields_ok_def in_range_def)

lemma parse_image_json [simp]:
  "parse_image (JObj [(''repository'', JStr r), (''digest'', JStr d)]) = Some (r, d)"
  by (simp add: parse_image_def parse_object_simps)

lemma parse_network_json [simp]:
  "parse_network (JObj [(''mode'', JStr m), (''allow'', JArr [])]) = Some m"
  by (simp add: parse_network_def parse_object_simps)

lemma parse_verification_json [simp]:
  "parse_verification (JObj [(''policy'', JStr (policy_name p))]) = Some p"
  by (simp add: parse_verification_def parse_object_simps)

lemma fields_ok_parts:
  assumes "fields_ok s"
  shows "service s = Some v \<Longrightarrow> service_ok v" "distributed s = Some d \<Longrightarrow> distributed_ok d"
  using assms by (auto simp: fields_ok_def)

lemma parse_shape_spec_json: "fields_ok s \<Longrightarrow> parse_shape (spec_json s) = Some s"
  by (cases "service s"; cases "distributed s"; cases "security s"; cases "proof_of s")
    (simp_all add: parse_shape_def spec_json_def opt_entry_def json_obj_def opt_field_def fields_ok_parts)

lemma parse_Inr_iff:
  "jobSpecSchema_parse j = Inr s \<longleftrightarrow> parse_shape j = Some s \<and> spec_valid s"
  by (auto simp: jobSpecSchema_parse_def spec_valid_def split: option.splits if_splits)


text \<open>A specification that satisfies the schema: the base document of the repository's tests.\<close>

definition sample_spec :: job_spec where
  "sample_spec = \<lparr>version = ''1'', runtime = ''oci'', repository = ''ghcr.io/acme/test'',
     digest = ''sha256:'' @ replicate 64 CHR ''a'', command = [''echo'', ''safe''],
     gpu_count = 0, gpu_minimumVramMb = 0, gpu_allowedModels = [], cpuCores = 2, ramMb = 4096,
     storageMb = 1024, timeoutSeconds = 300, maxStartDelaySeconds = 60,
     network_mode = ''deny-by-default'', policy_of = STANDARD, service = None, distributed = None,
     security = None, proof_of = None, inputs = []\<rparr>"

lemma hash_ok_replicate [simp]: "is_hex_lower c \<Longrightarrow> hash_ok (replicate 64 c)"
  by (simp add: hash_ok_def list_all_iff)

lemma sample_spec_fields: "fields_ok sample_spec"
  by (simp add: sample_spec_def fields_ok_def digest_ok_def repository_ok_def host_char_def path_char_def
      is_lower_def is_digit_def in_range_def is_hex_lower_def)

lemma sample_spec_valid: "spec_valid sample_spec"
  using sample_spec_fields by (simp add: spec_valid_def superRefine_def sample_spec_def wants_tee_def)


section \<open>What admission guarantees\<close>

lemma enforce_Inr_iff:
  "enforceExecutionPolicy j regs = Inr s \<longleftrightarrow>
     jobSpecSchema_parse j = Inr s \<and> registry_of s \<in> set regs \<and> inputs s = [] \<and> service s = None
     \<and> distributed s = None \<and> \<not> wants_tee s \<and> proof_of s = None"
  by (auto simp: enforceExecutionPolicy_def split: sum.splits if_splits)

lemma spec_valid_tee: "spec_valid s \<Longrightarrow> policy_of s = TEE \<Longrightarrow> wants_tee s"
  by (cases "security s") (auto simp: spec_valid_def superRefine_def wants_tee_def split: if_splits)

lemma spec_valid_proof: "spec_valid s \<Longrightarrow> policy_of s = PROOF \<Longrightarrow> proof_of s \<noteq> None"
  by (auto simp: spec_valid_def superRefine_def split: if_splits)

text \<open>
  Provider admission fails closed: an admitted job is schema-valid, comes from an allowed
  registry, has no inputs to materialise, is neither a service nor a Ray job, and asks for an
  assurance of at most VERIFY_3; conversely a valid plain batch job from an allowed registry
  is admitted.
\<close>

theorem admission_fails_closed:
  "(enforceExecutionPolicy j regs = Inr s \<longrightarrow>
      spec_valid s \<and> registry_of s \<in> set regs \<and> inputs s = [] \<and> service s = None
      \<and> distributed s = None \<and> policyCode (policy_of s) \<le> 3)
   \<and> (spec_valid s \<and> registry_of s \<in> set regs \<and> inputs s = [] \<and> service s = None
      \<and> distributed s = None \<and> security s = None \<and> proof_of s = None \<longrightarrow>
      enforceExecutionPolicy (spec_json s) regs = Inr s)"
proof (intro conjI impI)
  assume "enforceExecutionPolicy j regs = Inr s"
  then have v: "spec_valid s" "\<not> wants_tee s" "proof_of s = None"
    and rest: "registry_of s \<in> set regs" "inputs s = []" "service s = None" "distributed s = None"
    by (auto simp: enforce_Inr_iff parse_Inr_iff)
  have "policy_of s \<noteq> TEE" "policy_of s \<noteq> PROOF" using v spec_valid_tee [of s] spec_valid_proof [of s] by auto
  then show "policyCode (policy_of s) \<le> 3" by (cases "policy_of s") auto
  show "spec_valid s" "registry_of s \<in> set regs" "inputs s = []" "service s = None" "distributed s = None"
    using v rest by auto
next
  assume "spec_valid s \<and> registry_of s \<in> set regs \<and> inputs s = [] \<and> service s = None
      \<and> distributed s = None \<and> security s = None \<and> proof_of s = None"
  then show "enforceExecutionPolicy (spec_json s) regs = Inr s"
    by (auto simp: enforce_Inr_iff parse_Inr_iff parse_shape_spec_json spec_valid_def wants_tee_def)
qed

theorem admission_fails_closed_witness:
  "enforceExecutionPolicy (spec_json sample_spec) [''ghcr.io''] = Inr sample_spec
   \<and> policyCode (policy_of sample_spec) \<le> 3"
proof -
  have plain: "registry_of sample_spec = ''ghcr.io''" "inputs sample_spec = []" "service sample_spec = None"
    "distributed sample_spec = None" "security sample_spec = None" "proof_of sample_spec = None"
    by (simp_all add: registry_of_def sample_spec_def)
  note adm = admission_fails_closed [of "spec_json sample_spec" "[''ghcr.io'']" sample_spec]
  have "enforceExecutionPolicy (spec_json sample_spec) [''ghcr.io''] = Inr sample_spec"
    using adm [THEN conjunct2] sample_spec_valid plain by simp
  with adm [THEN conjunct1] show ?thesis by blast
qed

end
