(* ===== verification/Receipts.thy ===== *)
theory Receipts
  imports JobSpec
begin

text \<open>
  Canonical hashing, signatures and the execution receipt (\<^verbatim>\<open>packages/receipts/index.ts\<close>).
  SHA-256, Ed25519, RFC 8785 canonicalisation and base58 are code outside the repository: they
  are the fields of the record \<open>crypto\<close>, an argument of every definition that uses them.
  \<open>signature_law\<close> is the one law the protocol relies on, that a signature made with a key
  verifies under its public key.
\<close>

section \<open>Cryptographic primitives as parameters\<close>

record crypto =
  sha256_raw :: "buffer \<Rightarrow> buffer"
  canonicalize :: "json \<Rightarrow> string option"
  ed_sign :: "buffer \<Rightarrow> buffer \<Rightarrow> buffer"
  ed_verify :: "buffer \<Rightarrow> buffer \<Rightarrow> buffer \<Rightarrow> bool"
  b58_decode :: "string \<Rightarrow> buffer option"

definition canonical :: "crypto \<Rightarrow> json \<Rightarrow> string outcome" where
  "canonical cr v = (case canonicalize cr v of
     Some s \<Rightarrow> Inr s | None \<Rightarrow> Inl ''Value cannot be canonicalized'')"

definition sha256 :: "crypto \<Rightarrow> buffer \<Rightarrow> string" where
  "sha256 cr v = toHex (sha256_raw cr v)"

definition commitment :: "crypto \<Rightarrow> json \<Rightarrow> string outcome" where
  "commitment cr v = andThen (canonical cr v) (\<lambda>s. Inr (sha256 cr (utf8 s)))"

text \<open>\<^verbatim>\<open>commitment(undefined)\<close> throws.\<close>

definition commitment_opt :: "crypto \<Rightarrow> json option \<Rightarrow> string outcome" where
  "commitment_opt cr v = (case v of
     None \<Rightarrow> Inl ''Value cannot be canonicalized'' | Some j \<Rightarrow> commitment cr j)"

section \<open>Signatures\<close>

definition signPayload :: "crypto \<Rightarrow> json \<Rightarrow> buffer \<Rightarrow> string outcome" where
  "signPayload cr payload key =
     andThen (canonical cr payload) (\<lambda>s. Inr (toBase64 (ed_sign cr key (utf8 s))))"

definition verifyPayload :: "crypto \<Rightarrow> json \<Rightarrow> string \<Rightarrow> buffer \<Rightarrow> bool" where
  "verifyPayload cr payload signature rawPublicKey =
     (if length rawPublicKey \<noteq> 32 \<or> length (fromBase64 signature) \<noteq> 64 then False
      else case canonical cr payload of
             Inl _ \<Rightarrow> False
           | Inr s \<Rightarrow> ed_verify cr rawPublicKey (utf8 s) (fromBase64 signature))"

text \<open>
  What the protocol relies on: a signature made with a key verifies under its public key, and
  the lengths are Ed25519's.
\<close>

definition signature_law :: "crypto \<Rightarrow> (buffer \<Rightarrow> buffer) \<Rightarrow> bool" where
  "signature_law cr pub \<longleftrightarrow>
     (\<forall>k m. ed_verify cr (pub k) m (ed_sign cr k m) \<and> length (ed_sign cr k m) = 64)
     \<and> (\<forall>k. length (pub k) = 32)"

lemma verifyPayload_signPayload:
  "signature_law cr pub \<Longrightarrow> signPayload cr j k = Inr sig \<Longrightarrow> verifyPayload cr j sig (pub k)"
  by (auto simp: signPayload_def verifyPayload_def outcome_simps signature_law_def)

section \<open>The receipt\<close>

record receipt =
  r_version :: string
  r_domain :: string
  r_cluster :: string
  r_program :: string
  r_jobId :: string
  r_jobSpecHash :: string
  r_provider :: string
  r_machineId :: string
  r_worker :: string
  r_imageDigest :: string
  r_inputRoot :: string
  r_outputRoot :: string
  r_startTimestamp :: int
  r_finishTimestamp :: int
  r_exitCode :: int
  r_gpuUuidCommitment :: string
  r_hardwareReportHash :: string
  r_telemetryHash :: string
  r_stdoutHash :: string
  r_stderrHash :: string
  r_resultHash :: string
  r_nonce :: string

record signed_receipt =
  payload :: receipt
  signature :: string

definition safe_int :: "int \<Rightarrow> bool" where
  "safe_int i \<longleftrightarrow> \<bar>i\<bar> \<le> 9007199254740991"

definition receipt_ok :: "receipt \<Rightarrow> bool" where
  "receipt_ok r \<longleftrightarrow>
     r_version r = ''1'' \<and> r_domain r = ''vericompute:receipt:v1'' \<and> 1 \<le> length (r_cluster r)
     \<and> 32 \<le> length (r_program r) \<and> 32 \<le> length (r_jobId r) \<and> hash_ok (r_jobSpecHash r)
     \<and> 32 \<le> length (r_provider r) \<and> 32 \<le> length (r_machineId r) \<and> 32 \<le> length (r_worker r)
     \<and> digest_ok (r_imageDigest r) \<and> hash_ok (r_inputRoot r) \<and> hash_ok (r_outputRoot r)
     \<and> safe_int (r_startTimestamp r) \<and> 0 \<le> r_startTimestamp r
     \<and> safe_int (r_finishTimestamp r) \<and> 0 \<le> r_finishTimestamp r \<and> safe_int (r_exitCode r)
     \<and> hash_ok (r_gpuUuidCommitment r) \<and> hash_ok (r_hardwareReportHash r)
     \<and> hash_ok (r_telemetryHash r) \<and> hash_ok (r_stdoutHash r) \<and> hash_ok (r_stderrHash r)
     \<and> hash_ok (r_resultHash r) \<and> uuid_ok (r_nonce r)"

text \<open>\<^verbatim>\<open>receiptSchema.parse\<close> on a payload of the receipt's type.\<close>

definition receiptSchema_parse :: "receipt \<Rightarrow> receipt outcome" where
  "receiptSchema_parse r = (if receipt_ok r then Inr r else Inl ''schema'')"

definition receipt_json :: "receipt \<Rightarrow> json" where
  "receipt_json r = JObj
     [(''version'', JStr (r_version r)), (''domain'', JStr (r_domain r)),
      (''cluster'', JStr (r_cluster r)), (''program'', JStr (r_program r)),
      (''jobId'', JStr (r_jobId r)), (''jobSpecHash'', JStr (r_jobSpecHash r)),
      (''provider'', JStr (r_provider r)), (''machineId'', JStr (r_machineId r)),
      (''worker'', JStr (r_worker r)), (''imageDigest'', JStr (r_imageDigest r)),
      (''inputRoot'', JStr (r_inputRoot r)), (''outputRoot'', JStr (r_outputRoot r)),
      (''startTimestamp'', jint (r_startTimestamp r)), (''finishTimestamp'', jint (r_finishTimestamp r)),
      (''exitCode'', jint (r_exitCode r)), (''gpuUuidCommitment'', JStr (r_gpuUuidCommitment r)),
      (''hardwareReportHash'', JStr (r_hardwareReportHash r)), (''telemetryHash'', JStr (r_telemetryHash r)),
      (''stdoutHash'', JStr (r_stdoutHash r)), (''stderrHash'', JStr (r_stderrHash r)),
      (''resultHash'', JStr (r_resultHash r)), (''nonce'', JStr (r_nonce r))]"

lemma receipt_json_inject [simp]: "receipt_json r = receipt_json r' \<longleftrightarrow> r = r'"
  by (cases r; cases r') (simp add: receipt_json_def)

lemma commitment_eq_Inr:
  "commitment cr v = Inr h \<longleftrightarrow> (\<exists>s. canonicalize cr v = Some s \<and> h = toHex (sha256_raw cr (utf8 s)))"
  by (auto simp: commitment_def canonical_def sha256_def outcome_simps split: option.splits)

section \<open>A concrete instance of the parameters\<close>

text \<open>
  An instance for the witnesses: an injective rendering of JSON as the canonical form, a
  32-byte checksum, a signature whose bytes depend on key and message, and addresses whose
  private key is the text of the address.
\<close>

fun show_json :: "json \<Rightarrow> string" where
  "show_json JNull = ''n''"
| "show_json (JBool b) = (if b then ''t'' else ''f'')"
| "show_json (JNum q) =
     ''#'' @ bigint_toString (fst (quotient_of q)) @ ''/'' @ bigint_toString (snd (quotient_of q))"
| "show_json (JStr s) = ''s'' @ decimal (length s) @ '':'' @ s"
| "show_json (JArr xs) = ''['' @ concat (map show_json xs) @ '']''"
| "show_json (JObj kvs) = ''{'' @ concat (map (\<lambda>(k, v). k @ '':'' @ show_json v) kvs) @ ''}''"

definition checksum :: "buffer \<Rightarrow> buffer" where
  "checksum bs = sum_list bs # take 31 (bs @ replicate 31 0)"

definition sample_crypto :: crypto where
  "sample_crypto = \<lparr>sha256_raw = checksum, canonicalize = (\<lambda>j. Some (show_json j)),
     ed_sign = (\<lambda>k m. checksum k @ checksum m),
     ed_verify = (\<lambda>p m s. s = p @ checksum m),
     b58_decode = (\<lambda>s. Some (checksum (utf8 s)))\<rparr>"

lemma length_checksum [simp]: "length (checksum bs) = 32"
  by (simp add: checksum_def)

lemma sample_signature_law: "signature_law sample_crypto checksum"
  by (simp add: signature_law_def sample_crypto_def)

definition sample_hash :: "json \<Rightarrow> string" where
  "sample_hash j = toHex (checksum (utf8 (show_json j)))"

lemma sample_commitment [simp]: "commitment sample_crypto j = Inr (sample_hash j)"
  by (simp add: commitment_eq_Inr sample_crypto_def sample_hash_def)

lemma sample_canonical [simp]: "canonical sample_crypto j = Inr (show_json j)"
  by (simp add: canonical_def sample_crypto_def)

lemma sample_b58 [simp]: "b58_decode sample_crypto s = Some (checksum (utf8 s))"
  by (simp add: sample_crypto_def)

lemma sample_hash_ok [simp]: "hash_ok (sample_hash j)"
  by (simp add: sample_hash_def)

lemma sample_sha256_ok [simp]: "hash_ok (sha256 sample_crypto b)"
  by (simp add: sha256_def sample_crypto_def)

lemma sample_signPayload:
  "signPayload sample_crypto j k = Inr (toBase64 (ed_sign sample_crypto k (utf8 (show_json j))))"
  by (simp add: signPayload_def)

definition sample_uuid :: string where
  "sample_uuid = ''00000000-0000-0000-0000-000000000000''"

lemma sample_uuid_ok [simp]: "uuid_ok sample_uuid"
  unfolding uuid_ok_def sample_uuid_def by code_simp

end
