(* ===== verification/Verification.thy ===== *)
theory Verification
  imports Receipts
begin

text \<open>
  Receipt verification (\<^verbatim>\<open>packages/verification/index.ts\<close>), hidden challenges
  (\<^verbatim>\<open>challenge.ts\<close>), NVIDIA attestation (\<^verbatim>\<open>attestation.ts\<close>) and Groth16 proofs
  (\<^verbatim>\<open>proof.ts\<close>). Each verifier collects the reasons of the checks that fail, in the source's
  order, and passes when there are none.
\<close>

section \<open>Collecting failures\<close>

text \<open>\<^verbatim>\<open>check(ok, reason)\<close> pushes the reason when the condition fails.\<close>

definition run_checks :: "(bool \<times> string) list \<Rightarrow> string list" where
  "run_checks cs = map snd (filter (\<lambda>c. \<not> fst c) cs)"

lemma run_checks_Nil [simp]: "run_checks [] = []"
  by (simp add: run_checks_def)

lemma run_checks_Cons: "run_checks ((b, r) # cs) = (if b then run_checks cs else r # run_checks cs)"
  by (simp add: run_checks_def)

lemma run_checks_append: "run_checks (xs @ ys) = run_checks xs @ run_checks ys"
  by (simp add: run_checks_def)

lemma run_checks_eq_Nil: "run_checks cs = [] \<longleftrightarrow> (\<forall>c \<in> set cs. fst c)"
  by (auto simp: run_checks_def filter_empty_conv)

section \<open>Receipts\<close>

record assignment =
  a_jobId :: string
  a_jobSpecHash :: string
  a_verificationPolicy :: string
  a_provider :: string
  a_machineId :: string
  a_worker :: string
  a_cluster :: string
  a_program :: string
  a_startedAt :: int
  a_submittedAt :: int
  a_hardwareReportHash :: string
  a_receiptHash :: string
  a_workerActive :: bool

record telemetry =
  t_gpuUuids :: "string list"
  t_samples :: rat
  t_peakVramMb :: rat
  t_durationSeconds :: rat

record evidence =
  e_stdout :: buffer
  e_stderr :: buffer
  e_result :: buffer
  e_telemetry :: telemetry
  e_hardware :: "json option"

definition gpuUuids_json :: "string list \<Rightarrow> json" where
  "gpuUuids_json us = JArr (map JStr us)"

definition telemetry_json :: "telemetry \<Rightarrow> json" where
  "telemetry_json t = JObj
     [(''gpuUuids'', gpuUuids_json (t_gpuUuids t)), (''samples'', JNum (t_samples t)),
      (''peakVramMb'', JNum (t_peakVramMb t)), (''durationSeconds'', JNum (t_durationSeconds t))]"

definition output_json :: "crypto \<Rightarrow> buffer \<Rightarrow> json" where
  "output_json cr result = JObj [(''result'', JStr (sha256 cr result))]"

record decision =
  passed :: bool
  assurance :: string
  requestedAssurance :: string
  requiresAdditionalEvidence :: bool
  failures :: "string list"
  limitation :: string

text \<open>The commitments a verification recomputes from the bytes it was given.\<close>

record recomputed =
  h_worker :: buffer
  h_receipt :: string
  h_spec :: string
  h_inputs :: string
  h_output :: string
  h_hardware :: string
  h_telemetry :: string
  h_gpuUuids :: string

definition recompute :: "crypto \<Rightarrow> receipt \<Rightarrow> job_spec \<Rightarrow> assignment \<Rightarrow> evidence \<Rightarrow> recomputed outcome" where
  "recompute cr p spec a e =
     andThen (case b58_decode cr (a_worker a) of Some k \<Rightarrow> Inr k | None \<Rightarrow> Inl ''Non-base58 character'') (\<lambda>k.
     andThen (commitment cr (receipt_json p)) (\<lambda>rc.
     andThen (commitment cr (spec_json spec)) (\<lambda>sp.
     andThen (commitment cr (inputs_json spec)) (\<lambda>inp.
     andThen (commitment cr (output_json cr (e_result e))) (\<lambda>out.
     andThen (commitment_opt cr (e_hardware e)) (\<lambda>hw.
     andThen (commitment cr (telemetry_json (e_telemetry e))) (\<lambda>tl.
     andThen (commitment cr (gpuUuids_json (t_gpuUuids (e_telemetry e)))) (\<lambda>gu.
       Inr \<lparr>h_worker = k, h_receipt = rc, h_spec = sp, h_inputs = inp, h_output = out, h_hardware = hw,
            h_telemetry = tl, h_gpuUuids = gu\<rparr>))))))))"

definition receipt_checks ::
  "crypto \<Rightarrow> signed_receipt \<Rightarrow> job_spec \<Rightarrow> assignment \<Rightarrow> evidence \<Rightarrow> recomputed \<Rightarrow> (bool \<times> string) list" where
  "receipt_checks cr env spec a e h = (let p = payload env; t = e_telemetry e in
     [(verifyPayload cr (receipt_json p) (signature env) (h_worker h), ''Invalid worker signature''),
      (r_jobId p = a_jobId a, ''Assignment mismatch: jobId''),
      (r_provider p = a_provider a, ''Assignment mismatch: provider''),
      (r_machineId p = a_machineId a, ''Assignment mismatch: machineId''),
      (r_worker p = a_worker a, ''Assignment mismatch: worker''),
      (r_cluster p = a_cluster a, ''Assignment mismatch: cluster''),
      (r_program p = a_program a, ''Assignment mismatch: program''),
      (a_workerActive a, ''Worker revoked or expired''),
      (h_receipt h = a_receiptHash a, ''Receipt commitment mismatch''),
      (r_jobSpecHash p = h_spec h \<and> r_jobSpecHash p = a_jobSpecHash a, ''Job specification mismatch''),
      (policy_name (policy_of spec) = a_verificationPolicy a, ''Verification policy downgrade''),
      (r_imageDigest p = digest spec, ''Image digest mismatch''),
      (r_inputRoot p = h_inputs h, ''Input commitment mismatch''),
      (a_startedAt a - 5 \<le> r_startTimestamp p \<and> r_startTimestamp p \<le> a_startedAt a + 30,
       ''Invalid start time''),
      (r_startTimestamp p \<le> r_finishTimestamp p
       \<and> r_finishTimestamp p - r_startTimestamp p \<le> timeoutSeconds spec
       \<and> r_finishTimestamp p \<le> a_submittedAt a + 5, ''Invalid execution duration''),
      (r_exitCode p = 0, ''Execution failed''),
      (r_stdoutHash p = sha256 cr (e_stdout e) \<and> r_stderrHash p = sha256 cr (e_stderr e),
       ''Log commitment mismatch''),
      (r_resultHash p = sha256 cr (e_result e) \<and> r_outputRoot p = h_output h,
       ''Output commitment mismatch''),
      (r_hardwareReportHash p = h_hardware h \<and> r_hardwareReportHash p = a_hardwareReportHash a,
       ''Hardware commitment mismatch''),
      (r_telemetryHash p = h_telemetry h, ''Telemetry commitment mismatch''),
      (r_gpuUuidCommitment p = h_gpuUuids h, ''GPU identity commitment mismatch'')]
     @ (if policy_of spec = BASIC then [] else
        [(0 < t_samples t \<and> 0 \<le> t_durationSeconds t
          \<and> \<bar>t_durationSeconds t - of_int (r_finishTimestamp p - r_startTimestamp p)\<bar> \<le> 5,
          ''Telemetry timing inconsistency''),
         (int (length (t_gpuUuids t)) = gpu_count spec, ''GPU count mismatch''),
         (0 \<le> t_peakVramMb t, ''Invalid memory measurement'')]))"

definition verifyReceipt ::
  "crypto \<Rightarrow> signed_receipt \<Rightarrow> job_spec \<Rightarrow> assignment \<Rightarrow> evidence \<Rightarrow> decision outcome" where
  "verifyReceipt cr env spec a e =
     andThen (receiptSchema_parse (payload env)) (\<lambda>p.
     andThen (recompute cr p spec a e) (\<lambda>h.
       let fs = run_checks (receipt_checks cr env spec a e h) in
       Inr \<lparr>passed = (fs = []),
            assurance = (if policy_of spec = BASIC then ''VERIFY_0'' else ''VERIFY_1''),
            requestedAssurance = ''VERIFY_'' @ bigint_toString (indexOf (policy_of spec)
              [BASIC, STANDARD, CHALLENGE, REDUNDANT, TEE, PROOF]),
            requiresAdditionalEvidence = (policy_of spec \<notin> {BASIC, STANDARD}),
            failures = fs,
            limitation = ''Signed evidence consistency does not prove correct computation or hardware identity.''\<rparr>))"

lemma verifyReceipt_passed:
  assumes "verifyReceipt cr env spec a e = Inr d"
  obtains h where "receipt_ok (payload env)" "recompute cr (payload env) spec a e = Inr h"
    "passed d \<longleftrightarrow> run_checks (receipt_checks cr env spec a e h) = []"
    "failures d = run_checks (receipt_checks cr env spec a e h)"
    "requiresAdditionalEvidence d \<longleftrightarrow> policy_of spec \<notin> {BASIC, STANDARD}"
proof -
  from assms obtain p h where *: "receiptSchema_parse (payload env) = Inr p"
    "recompute cr p spec a e = Inr h" and d: "d = \<lparr>passed = (run_checks (receipt_checks cr env spec a e h) = []),
            assurance = (if policy_of spec = BASIC then ''VERIFY_0'' else ''VERIFY_1''),
            requestedAssurance = ''VERIFY_'' @ bigint_toString (indexOf (policy_of spec)
              [BASIC, STANDARD, CHALLENGE, REDUNDANT, TEE, PROOF]),
            requiresAdditionalEvidence = (policy_of spec \<notin> {BASIC, STANDARD}),
            failures = run_checks (receipt_checks cr env spec a e h),
            limitation = ''Signed evidence consistency does not prove correct computation or hardware identity.''\<rparr>"
    by (auto simp: verifyReceipt_def outcome_simps Let_def)
  then have "p = payload env" "receipt_ok (payload env)"
    by (auto simp: receiptSchema_parse_def split: if_splits)
  with * d show thesis by (intro that [of h]) auto
qed

lemma recompute_eq_Inr:
  "recompute cr p spec a e = Inr h \<longleftrightarrow>
     b58_decode cr (a_worker a) = Some (h_worker h)
     \<and> commitment cr (receipt_json p) = Inr (h_receipt h)
     \<and> commitment cr (spec_json spec) = Inr (h_spec h)
     \<and> commitment cr (inputs_json spec) = Inr (h_inputs h)
     \<and> commitment cr (output_json cr (e_result e)) = Inr (h_output h)
     \<and> commitment_opt cr (e_hardware e) = Inr (h_hardware h)
     \<and> commitment cr (telemetry_json (e_telemetry e)) = Inr (h_telemetry h)
     \<and> commitment cr (gpuUuids_json (t_gpuUuids (e_telemetry e))) = Inr (h_gpuUuids h)"
  by (cases h) (auto simp: recompute_def outcome_simps split: option.splits)

text \<open>Everything a passing decision establishes about the evidence.\<close>

lemma verifyReceipt_sound:
  assumes "verifyReceipt cr env spec a e = Inr d" "passed d"
  shows "commitment cr (receipt_json (payload env)) = Inr (a_receiptHash a)"
    "commitment cr (spec_json spec) = Inr (a_jobSpecHash a)"
    "policy_name (policy_of spec) = a_verificationPolicy a"
    "sha256 cr (e_stdout e) = r_stdoutHash (payload env)"
    "sha256 cr (e_stderr e) = r_stderrHash (payload env)"
    "sha256 cr (e_result e) = r_resultHash (payload env)"
    "commitment cr (telemetry_json (e_telemetry e)) = Inr (r_telemetryHash (payload env))"
    "commitment_opt cr (e_hardware e) = Inr (a_hardwareReportHash a)"
    "r_jobId (payload env) = a_jobId a" "r_worker (payload env) = a_worker a"
    "r_exitCode (payload env) = 0" "a_workerActive a"
    "r_finishTimestamp (payload env) - r_startTimestamp (payload env) \<le> timeoutSeconds spec"
    "\<exists>k. b58_decode cr (a_worker a) = Some k \<and>
         verifyPayload cr (receipt_json (payload env)) (signature env) k"
proof -
  from assms(1) obtain h where h: "recompute cr (payload env) spec a e = Inr h"
    and p: "passed d \<longleftrightarrow> run_checks (receipt_checks cr env spec a e h) = []"
    by (rule verifyReceipt_passed)
  note parts = h [unfolded recompute_eq_Inr]
  have ok: "\<forall>c \<in> set (receipt_checks cr env spec a e h). fst c"
    using assms(2) p by (simp add: run_checks_eq_Nil)
  show "commitment cr (receipt_json (payload env)) = Inr (a_receiptHash a)"
    "commitment cr (spec_json spec) = Inr (a_jobSpecHash a)"
    "policy_name (policy_of spec) = a_verificationPolicy a"
    "sha256 cr (e_stdout e) = r_stdoutHash (payload env)"
    "sha256 cr (e_stderr e) = r_stderrHash (payload env)"
    "sha256 cr (e_result e) = r_resultHash (payload env)"
    "commitment cr (telemetry_json (e_telemetry e)) = Inr (r_telemetryHash (payload env))"
    "commitment_opt cr (e_hardware e) = Inr (a_hardwareReportHash a)"
    "r_jobId (payload env) = a_jobId a" "r_worker (payload env) = a_worker a"
    "r_exitCode (payload env) = 0" "a_workerActive a"
    "r_finishTimestamp (payload env) - r_startTimestamp (payload env) \<le> timeoutSeconds spec"
    "\<exists>k. b58_decode cr (a_worker a) = Some k \<and>
         verifyPayload cr (receipt_json (payload env)) (signature env) k"
    using ok parts by (auto simp: receipt_checks_def Let_def)
qed

text \<open>
  Binding: a hash that does not collide on the two values at hand. For the commitments it is
  stated of the JSON values, since canonicalisation identifies documents that differ in key order.
\<close>

definition binds :: "crypto \<Rightarrow> buffer \<Rightarrow> buffer \<Rightarrow> bool" where
  "binds cr x y \<longleftrightarrow> (sha256_raw cr x = sha256_raw cr y \<longrightarrow> x = y)"

definition binds_json :: "crypto \<Rightarrow> json \<Rightarrow> json \<Rightarrow> bool" where
  "binds_json cr j j' \<longleftrightarrow>
     (\<forall>s s'. canonicalize cr j = Some s \<and> canonicalize cr j' = Some s'
        \<and> sha256_raw cr (utf8 s) = sha256_raw cr (utf8 s') \<longrightarrow> j = j')"

lemma binds_jsonD: "binds_json cr j j' \<Longrightarrow> commitment cr j = Inr h \<Longrightarrow> commitment cr j' = Inr h \<Longrightarrow> j = j'"
  by (auto simp: binds_json_def commitment_eq_Inr)

lemma bindsD: "binds cr x y \<Longrightarrow> sha256 cr x = h \<Longrightarrow> sha256 cr y = h \<Longrightarrow> x = y"
  by (auto simp: binds_def sha256_def)

lemma spec_json_inject: "spec_valid s \<Longrightarrow> spec_valid s' \<Longrightarrow> spec_json s = spec_json s' \<Longrightarrow> s = s'"
  by (metis parse_shape_spec_json spec_valid_def option.inject)

text \<open>
  C4. A passing verification pins the evidence to the chain: for one assignment (the job, its
  specification hash, policy and receipt hash read from the finalized account) two bundles
  that both pass carry the same receipt payload, the same specification and the same log and
  result bytes, whenever the hash does not collide on the two bundles.
\<close>

theorem passing_evidence_unique:
  assumes "verifyReceipt cr env spec a e = Inr d" "passed d"
    and "verifyReceipt cr env' spec' a e' = Inr d'" "passed d'"
    and "spec_valid spec" "spec_valid spec'"
    and "binds_json cr (receipt_json (payload env)) (receipt_json (payload env'))"
    and "binds_json cr (spec_json spec) (spec_json spec')"
    and "binds cr (e_stdout e) (e_stdout e')" "binds cr (e_stderr e) (e_stderr e')"
    and "binds cr (e_result e) (e_result e')"
  shows "payload env = payload env' \<and> spec = spec'
     \<and> e_stdout e = e_stdout e' \<and> e_stderr e = e_stderr e' \<and> e_result e = e_result e'"
proof -
  note l = verifyReceipt_sound [OF assms(1,2)] and r = verifyReceipt_sound [OF assms(3,4)]
  have p: "payload env = payload env'"
    using binds_jsonD [OF assms(7) l(1) r(1)] by simp
  moreover have "spec = spec'"
    using binds_jsonD [OF assms(8) l(2) r(2)] assms(5,6) spec_json_inject by blast
  moreover have "e_stdout e = e_stdout e'" "e_stderr e = e_stderr e'" "e_result e = e_result e'"
    using bindsD [OF assms(9)] bindsD [OF assms(10)] bindsD [OF assms(11)] l(4-6) r(4-6) p by simp_all
  ultimately show ?thesis by blast
qed

text \<open>A job executed as its specification asks, for the witnesses.\<close>

definition sample_worker :: string where
  "sample_worker = replicate 32 CHR ''W''"

definition sample_job :: string where
  "sample_job = replicate 32 CHR ''J''"

definition sample_machine :: string where
  "sample_machine = replicate 32 CHR ''M''"

definition sample_program :: string where
  "sample_program = replicate 32 CHR ''P''"

definition sample_evidence :: evidence where
  "sample_evidence = \<lparr>e_stdout = utf8 ''out'', e_stderr = [], e_result = utf8 ''42'',
     e_telemetry = \<lparr>t_gpuUuids = [], t_samples = 1, t_peakVramMb = 0, t_durationSeconds = 10\<rparr>,
     e_hardware = Some (JObj [(''gpus'', JArr [])])\<rparr>"

definition sample_receipt :: receipt where
  "sample_receipt = \<lparr>r_version = ''1'', r_domain = ''vericompute:receipt:v1'', r_cluster = ''devnet'',
     r_program = sample_program, r_jobId = sample_job, r_jobSpecHash = sample_hash (spec_json sample_spec),
     r_provider = sample_program, r_machineId = sample_machine, r_worker = sample_worker,
     r_imageDigest = digest sample_spec, r_inputRoot = sample_hash (inputs_json sample_spec),
     r_outputRoot = sample_hash (output_json sample_crypto (e_result sample_evidence)),
     r_startTimestamp = 100, r_finishTimestamp = 110, r_exitCode = 0,
     r_gpuUuidCommitment = sample_hash (gpuUuids_json (t_gpuUuids (e_telemetry sample_evidence))),
     r_hardwareReportHash = sample_hash (the (e_hardware sample_evidence)),
     r_telemetryHash = sample_hash (telemetry_json (e_telemetry sample_evidence)),
     r_stdoutHash = sha256 sample_crypto (e_stdout sample_evidence),
     r_stderrHash = sha256 sample_crypto (e_stderr sample_evidence),
     r_resultHash = sha256 sample_crypto (e_result sample_evidence), r_nonce = sample_uuid\<rparr>"

definition sample_signature :: string where
  "sample_signature = toBase64 (ed_sign sample_crypto (utf8 sample_worker) (utf8 (show_json (receipt_json sample_receipt))))"

definition sample_assignment :: assignment where
  "sample_assignment = \<lparr>a_jobId = sample_job, a_jobSpecHash = sample_hash (spec_json sample_spec),
     a_verificationPolicy = policy_name (policy_of sample_spec), a_provider = sample_program,
     a_machineId = sample_machine, a_worker = sample_worker, a_cluster = ''devnet'',
     a_program = sample_program, a_startedAt = 99, a_submittedAt = 111,
     a_hardwareReportHash = sample_hash (the (e_hardware sample_evidence)),
     a_receiptHash = sample_hash (receipt_json sample_receipt), a_workerActive = True\<rparr>"

abbreviation sample_env :: signed_receipt where
  "sample_env \<equiv> \<lparr>payload = sample_receipt, signature = sample_signature\<rparr>"

lemma sample_lengths [simp]:
  "length sample_worker = 32" "length sample_job = 32" "length sample_machine = 32" "length sample_program = 32"
  by (simp_all add: sample_worker_def sample_job_def sample_machine_def sample_program_def)

lemma sample_spec_parts:
  "digest_ok (digest sample_spec)" "timeoutSeconds sample_spec = 300" "policy_of sample_spec = STANDARD"
  "gpu_count sample_spec = 0"
  using sample_spec_fields by (simp_all add: fields_ok_def) (simp_all add: sample_spec_def)

lemma sample_receipt_ok: "receipt_ok sample_receipt"
  by (simp add: receipt_ok_def sample_receipt_def safe_int_def sample_spec_parts)

lemma sample_receipt_signed:
  "verifyPayload sample_crypto (receipt_json sample_receipt) sample_signature (checksum (utf8 sample_worker))"
  by (rule verifyPayload_signPayload [OF sample_signature_law])
    (simp add: sample_signPayload sample_signature_def)

definition sample_recomputed :: recomputed where
  "sample_recomputed = \<lparr>h_worker = checksum (utf8 sample_worker),
     h_receipt = sample_hash (receipt_json sample_receipt), h_spec = sample_hash (spec_json sample_spec),
     h_inputs = sample_hash (inputs_json sample_spec),
     h_output = sample_hash (output_json sample_crypto (e_result sample_evidence)),
     h_hardware = sample_hash (the (e_hardware sample_evidence)),
     h_telemetry = sample_hash (telemetry_json (e_telemetry sample_evidence)),
     h_gpuUuids = sample_hash (gpuUuids_json (t_gpuUuids (e_telemetry sample_evidence)))\<rparr>"

lemma sample_recompute:
  "recompute sample_crypto sample_receipt sample_spec sample_assignment sample_evidence = Inr sample_recomputed"
  by (simp add: recompute_eq_Inr sample_recomputed_def sample_assignment_def commitment_opt_def
      sample_evidence_def)

lemma sample_receipt_checks:
  "run_checks (receipt_checks sample_crypto sample_env sample_spec sample_assignment sample_evidence
     sample_recomputed) = []"
  using sample_receipt_signed
  by (simp add: run_checks_eq_Nil receipt_checks_def sample_recomputed_def sample_assignment_def
      sample_spec_parts Let_def) (simp add: sample_receipt_def sample_evidence_def)

lemma sample_verifies:
  obtains d where "verifyReceipt sample_crypto sample_env sample_spec sample_assignment sample_evidence = Inr d"
    "passed d"
  using sample_recompute sample_receipt_checks sample_receipt_ok
  by (simp add: verifyReceipt_def receiptSchema_parse_def)

theorem passing_evidence_unique_witness:
  "\<exists>d. verifyReceipt sample_crypto sample_env sample_spec sample_assignment sample_evidence = Inr d \<and> passed d
     \<and> payload sample_env = sample_receipt \<and> e_result sample_evidence = e_result sample_evidence"
proof -
  obtain d where d: "verifyReceipt sample_crypto sample_env sample_spec sample_assignment sample_evidence = Inr d"
    "passed d" by (rule sample_verifies)
  have "payload sample_env = payload sample_env \<and> sample_spec = sample_spec
     \<and> e_stdout sample_evidence = e_stdout sample_evidence \<and> e_stderr sample_evidence = e_stderr sample_evidence
     \<and> e_result sample_evidence = e_result sample_evidence"
    by (rule passing_evidence_unique [OF d d sample_spec_valid sample_spec_valid])
      (simp_all add: binds_def binds_json_def)
  with d show ?thesis by auto
qed

section \<open>Challenges\<close>

record challenge =
  c_version :: string
  c_domain :: string
  c_id :: string
  c_jobId :: string
  c_machineId :: string
  c_worker :: string
  c_seed :: string
  c_iterations :: int
  c_issuedAt :: int
  c_expiresAt :: int

record challenge_response =
  p_version :: string
  p_domain :: string
  p_challengeId :: string
  p_jobId :: string
  p_machineId :: string
  p_worker :: string
  p_resultHash :: string
  p_startedAt :: int
  p_finishedAt :: int
  p_gpuUuidCommitment :: string
  p_telemetryHash :: string

definition challenge_ok :: "challenge \<Rightarrow> bool" where
  "challenge_ok c \<longleftrightarrow>
     c_version c = ''1'' \<and> c_domain c = ''vericompute:challenge:v1'' \<and> uuid_ok (c_id c)
     \<and> 32 \<le> length (c_jobId c) \<and> 32 \<le> length (c_machineId c) \<and> 32 \<le> length (c_worker c)
     \<and> hash_ok (c_seed c) \<and> in_range 1 10000000 (c_iterations c)
     \<and> safe_int (c_issuedAt c) \<and> 0 \<le> c_issuedAt c \<and> safe_int (c_expiresAt c) \<and> 0 < c_expiresAt c"

definition response_ok :: "challenge_response \<Rightarrow> bool" where
  "response_ok p \<longleftrightarrow>
     p_version p = ''1'' \<and> p_domain p = ''vericompute:challenge-response:v1'' \<and> uuid_ok (p_challengeId p)
     \<and> 32 \<le> length (p_jobId p) \<and> 32 \<le> length (p_machineId p) \<and> 32 \<le> length (p_worker p)
     \<and> hash_ok (p_resultHash p) \<and> safe_int (p_startedAt p) \<and> 0 \<le> p_startedAt p
     \<and> safe_int (p_finishedAt p) \<and> 0 \<le> p_finishedAt p
     \<and> hash_ok (p_gpuUuidCommitment p) \<and> hash_ok (p_telemetryHash p)"

text \<open>\<^verbatim>\<open>counter.writeBigUInt64BE(BigInt(i))\<close>\<close>

definition be64 :: "nat \<Rightarrow> buffer" where
  "be64 i = map (\<lambda>k. word_of_nat (i div 256 ^ k mod 256)) [7, 6, 5, 4, 3, 2, 1, 0]"

text \<open>The loop of \<^verbatim>\<open>solveChallenge\<close>: \<open>n\<close> rounds are left, the counter is at \<open>i\<close>.\<close>

fun solve_loop :: "crypto \<Rightarrow> nat \<Rightarrow> nat \<Rightarrow> buffer \<Rightarrow> buffer" where
  "solve_loop cr 0 i v = v"
| "solve_loop cr (Suc n) i v = solve_loop cr n (Suc i) (fromHex (sha256 cr (v @ be64 i)))"

definition solveChallenge :: "crypto \<Rightarrow> string \<Rightarrow> int \<Rightarrow> string" where
  "solveChallenge cr seed iterations = toHex (solve_loop cr (nat iterations) 0 (fromHex seed))"

text \<open>The random identifier and seed are arguments.\<close>

definition issueChallenge ::
  "crypto \<Rightarrow> string \<Rightarrow> string \<Rightarrow> string \<Rightarrow> string \<Rightarrow> string \<Rightarrow> int \<Rightarrow> int option \<Rightarrow> int option
     \<Rightarrow> (challenge \<times> string) outcome" where
  "issueChallenge cr uuid seed jobId machineId worker now ttlSeconds iterations =
     (let c = \<lparr>c_version = ''1'', c_domain = ''vericompute:challenge:v1'', c_id = uuid, c_jobId = jobId,
        c_machineId = machineId, c_worker = worker, c_seed = seed,
        c_iterations = (case iterations of Some n \<Rightarrow> n | None \<Rightarrow> 100000), c_issuedAt = now,
        c_expiresAt = now + (case ttlSeconds of Some t \<Rightarrow> t | None \<Rightarrow> 120)\<rparr>
      in if challenge_ok c then Inr (c, solveChallenge cr (c_seed c) (c_iterations c)) else Inl ''schema'')"

definition response_json :: "challenge_response \<Rightarrow> json" where
  "response_json p = JObj
     [(''version'', JStr (p_version p)), (''domain'', JStr (p_domain p)),
      (''challengeId'', JStr (p_challengeId p)), (''jobId'', JStr (p_jobId p)),
      (''machineId'', JStr (p_machineId p)), (''worker'', JStr (p_worker p)),
      (''resultHash'', JStr (p_resultHash p)), (''startedAt'', jint (p_startedAt p)),
      (''finishedAt'', jint (p_finishedAt p)), (''gpuUuidCommitment'', JStr (p_gpuUuidCommitment p)),
      (''telemetryHash'', JStr (p_telemetryHash p))]"

definition challenge_json :: "challenge \<Rightarrow> json" where
  "challenge_json c = JObj
     [(''version'', JStr (c_version c)), (''domain'', JStr (c_domain c)), (''id'', JStr (c_id c)),
      (''jobId'', JStr (c_jobId c)), (''machineId'', JStr (c_machineId c)), (''worker'', JStr (c_worker c)),
      (''seed'', JStr (c_seed c)), (''iterations'', jint (c_iterations c)),
      (''issuedAt'', jint (c_issuedAt c)), (''expiresAt'', jint (c_expiresAt c))]"

text \<open>\<^verbatim>\<open>if (expected) check(...)\<close>: an absent or empty expectation is not checked.\<close>

definition check_expected :: "string option \<Rightarrow> string \<Rightarrow> string \<Rightarrow> (bool \<times> string) list" where
  "check_expected expected actual reason = (case expected of
     None \<Rightarrow> [] | Some x \<Rightarrow> if x = [] then [] else [(actual = x, reason)])"

record challenge_decision =
  cd_passed :: bool
  cd_assurance :: string
  cd_failures :: "string list"
  cd_challengeCommitment :: string

definition challenge_checks ::
  "crypto \<Rightarrow> challenge \<Rightarrow> string \<Rightarrow> string option \<Rightarrow> string option \<Rightarrow> challenge_response \<Rightarrow> string
     \<Rightarrow> buffer \<Rightarrow> int \<Rightarrow> int option \<Rightarrow> (bool \<times> string) list" where
  "challenge_checks cr c expectedResultHash expectedGpu expectedTelemetry p sig key now maximumSeconds =
     [(verifyPayload cr (response_json p) sig key, ''Invalid worker signature''),
      (p_challengeId p = c_id c, ''Challenge mismatch''),
      (p_jobId p = c_jobId c, ''Job mismatch''),
      (p_machineId p = c_machineId c, ''Machine mismatch''),
      (p_worker p = c_worker c, ''Worker mismatch''),
      (p_resultHash p = expectedResultHash, ''Incorrect challenge result'')]
     @ check_expected expectedGpu (p_gpuUuidCommitment p)
         ''GPU UUID commitment does not match the execution receipt''
     @ check_expected expectedTelemetry (p_telemetryHash p)
         ''Telemetry commitment does not match the execution receipt''
     @ [(c_issuedAt c - 2 \<le> p_startedAt p, ''Challenge started before issuance''),
        (p_startedAt p \<le> p_finishedAt p, ''Invalid challenge timing''),
        (p_finishedAt p \<le> c_expiresAt c, ''Challenge response expired''),
        (p_finishedAt p - p_startedAt p \<le> (case maximumSeconds of Some m \<Rightarrow> m | None \<Rightarrow> 120),
         ''Challenge exceeded latency bound''),
        (now \<le> c_expiresAt c + 5, ''Stale verification attempt'')]"

definition verifyChallenge ::
  "crypto \<Rightarrow> challenge \<Rightarrow> string \<Rightarrow> string option \<Rightarrow> string option \<Rightarrow> challenge_response \<Rightarrow> string
     \<Rightarrow> int \<Rightarrow> int option \<Rightarrow> challenge_decision outcome" where
  "verifyChallenge cr c expectedResultHash expectedGpu expectedTelemetry p sig now maximumSeconds =
     andThen (guard (challenge_ok c) ''schema'') (\<lambda>_.
     andThen (guard (response_ok p) ''schema'') (\<lambda>_.
     andThen (case b58_decode cr (c_worker c) of Some k \<Rightarrow> Inr k | None \<Rightarrow> Inl ''Non-base58 character'') (\<lambda>key.
     andThen (commitment cr (challenge_json c)) (\<lambda>cc.
       let fs = run_checks (challenge_checks cr c expectedResultHash expectedGpu expectedTelemetry p sig key now maximumSeconds)
       in Inr \<lparr>cd_passed = (fs = []), cd_assurance = ''VERIFY_2'', cd_failures = fs, cd_challengeCommitment = cc\<rparr>))))"

lemma verifyChallenge_eq_Inr:
  "verifyChallenge cr c x g t p sig now m = Inr d \<longleftrightarrow>
     challenge_ok c \<and> response_ok p \<and>
     (\<exists>key cc. b58_decode cr (c_worker c) = Some key \<and> commitment cr (challenge_json c) = Inr cc
        \<and> d = \<lparr>cd_passed = (run_checks (challenge_checks cr c x g t p sig key now m) = []), cd_assurance = ''VERIFY_2'',
               cd_failures = run_checks (challenge_checks cr c x g t p sig key now m),
               cd_challengeCommitment = cc\<rparr>)"
  by (auto simp: verifyChallenge_def outcome_simps Let_def split: option.splits)

lemma issueChallenge_eq_Inr:
  "issueChallenge cr uuid seed job mac wrk now ttl its = Inr (c, x) \<Longrightarrow>
     challenge_ok c \<and> x = solveChallenge cr (c_seed c) (c_iterations c) \<and> c_jobId c = job
     \<and> c_machineId c = mac \<and> c_worker c = wrk \<and> c_id c = uuid \<and> c_issuedAt c = now
     \<and> c_expiresAt c = now + (case ttl of Some t \<Rightarrow> t | None \<Rightarrow> 120)"
  by (auto simp: issueChallenge_def Let_def split: if_splits)

text \<open>
  Hidden challenges are sound: if verification passes for a challenge the server issued
  (default lifetime), the response carries the iterated hash of that challenge's seed, is bound
  to its identifier, job, machine and worker, repeats the receipt's GPU and telemetry commitments,
  is signed by the worker's key, and was computed inside the window from two seconds before issue
  to expiry within the latency bound.
\<close>

theorem challenge_sound:
  assumes "issueChallenge cr uuid seed job mac wrk issued None its = Inr (c, x)"
    and "verifyChallenge cr c x (Some g) (Some t) p sig now None = Inr d" "cd_passed d"
    and "g \<noteq> []" "t \<noteq> []"
  shows "p_resultHash p = solveChallenge cr (c_seed c) (c_iterations c)
     \<and> p_challengeId p = uuid \<and> p_jobId p = job \<and> p_machineId p = mac \<and> p_worker p = wrk
     \<and> p_gpuUuidCommitment p = g \<and> p_telemetryHash p = t
     \<and> (\<exists>key. b58_decode cr wrk = Some key \<and> verifyPayload cr (response_json p) sig key)
     \<and> issued - 2 \<le> p_startedAt p \<and> p_startedAt p \<le> p_finishedAt p \<and> p_finishedAt p \<le> issued + 120
     \<and> p_finishedAt p - p_startedAt p \<le> 120 \<and> now \<le> issued + 125"
  using assms(2-5) issueChallenge_eq_Inr [OF assms(1)]
  by (auto simp: verifyChallenge_eq_Inr run_checks_eq_Nil challenge_checks_def check_expected_def)

text \<open>
  An honest worker passes: the response that solves the issued challenge, repeats the
  receipt's commitments, is signed with the worker's key and finishes before expiry within the
  latency bound is accepted with no failure.
\<close>

theorem honest_challenge_passes:
  assumes "issueChallenge cr uuid seed job mac wrk issued ttl its = Inr (c, x)"
    and "signature_law cr pub" "b58_decode cr wrk = Some (pub k)"
    and "response_ok p" "p_challengeId p = uuid" "p_jobId p = job" "p_machineId p = mac" "p_worker p = wrk"
    and "p_resultHash p = solveChallenge cr (c_seed c) (c_iterations c)"
    and "signPayload cr (response_json p) k = Inr sig"
    and "commitment cr (challenge_json c) = Inr cc"
    and "issued - 2 \<le> p_startedAt p" "p_startedAt p \<le> p_finishedAt p" "p_finishedAt p \<le> c_expiresAt c"
    and "p_finishedAt p - p_startedAt p \<le> 120" "now \<le> c_expiresAt c + 5"
  shows "verifyChallenge cr c x (Some (p_gpuUuidCommitment p)) (Some (p_telemetryHash p)) p sig now None
     = Inr \<lparr>cd_passed = True, cd_assurance = ''VERIFY_2'', cd_failures = [], cd_challengeCommitment = cc\<rparr>"
proof -
  have "run_checks (challenge_checks cr c x (Some (p_gpuUuidCommitment p)) (Some (p_telemetryHash p))
      p sig (pub k) now None) = []"
    using assms issueChallenge_eq_Inr [OF assms(1)] verifyPayload_signPayload [OF assms(2,10)]
    by (simp add: challenge_checks_def check_expected_def run_checks_eq_Nil)
  then show ?thesis
    using assms issueChallenge_eq_Inr [OF assms(1)] by (simp add: verifyChallenge_eq_Inr)
qed

text \<open>A challenge of two rounds and its honest answer.\<close>

definition sample_challenge :: challenge where
  "sample_challenge = \<lparr>c_version = ''1'', c_domain = ''vericompute:challenge:v1'', c_id = sample_uuid,
     c_jobId = sample_job, c_machineId = sample_machine, c_worker = sample_worker,
     c_seed = replicate 64 CHR ''a'', c_iterations = 2, c_issuedAt = 100, c_expiresAt = 220\<rparr>"

definition sample_answer :: string where
  "sample_answer = solveChallenge sample_crypto (replicate 64 CHR ''a'') 2"

definition sample_response :: challenge_response where
  "sample_response = \<lparr>p_version = ''1'', p_domain = ''vericompute:challenge-response:v1'',
     p_challengeId = sample_uuid, p_jobId = sample_job, p_machineId = sample_machine,
     p_worker = sample_worker, p_resultHash = sample_answer, p_startedAt = 101, p_finishedAt = 110,
     p_gpuUuidCommitment = r_gpuUuidCommitment sample_receipt,
     p_telemetryHash = r_telemetryHash sample_receipt\<rparr>"

lemma length_solve_loop:
  "(\<And>b. length (sha256_raw cr b) = 32) \<Longrightarrow> length v = 32 \<Longrightarrow> length (solve_loop cr n i v) = 32"
  by (induction n arbitrary: i v) (simp_all add: sha256_def)

lemma sample_answer_ok: "hash_ok sample_answer"
  unfolding sample_answer_def solveChallenge_def hash_ok_toHex
  by (rule length_solve_loop) (simp_all add: sample_crypto_def hash_ok_length is_hex_lower_def)

lemma sample_issue:
  "issueChallenge sample_crypto sample_uuid (replicate 64 CHR ''a'') sample_job sample_machine sample_worker
     100 None (Some 2) = Inr (sample_challenge, sample_answer)"
  by (simp add: issueChallenge_def sample_challenge_def challenge_ok_def in_range_def safe_int_def
      is_hex_lower_def sample_answer_def)

lemma sample_response_ok: "response_ok sample_response"
  using sample_answer_ok by (simp add: response_ok_def sample_response_def safe_int_def sample_receipt_def)

definition sample_response_signature :: string where
  "sample_response_signature =
     toBase64 (ed_sign sample_crypto (utf8 sample_worker) (utf8 (show_json (response_json sample_response))))"

theorem honest_challenge_passes_witness:
  "verifyChallenge sample_crypto sample_challenge sample_answer (Some (p_gpuUuidCommitment sample_response))
     (Some (p_telemetryHash sample_response)) sample_response sample_response_signature 111 None
   = Inr \<lparr>cd_passed = True, cd_assurance = ''VERIFY_2'', cd_failures = [], cd_challengeCommitment = sample_hash (challenge_json sample_challenge)\<rparr>"
  by (rule honest_challenge_passes [OF sample_issue sample_signature_law _ sample_response_ok])
    (simp_all add: sample_response_signature_def sample_signPayload,
      simp_all add: sample_response_def sample_challenge_def sample_answer_def)

lemma sample_challenge_passes:
  "verifyChallenge sample_crypto sample_challenge sample_answer (Some (r_gpuUuidCommitment sample_receipt))
     (Some (r_telemetryHash sample_receipt)) sample_response sample_response_signature 111 None
   = Inr \<lparr>cd_passed = True, cd_assurance = ''VERIFY_2'', cd_failures = [], cd_challengeCommitment = sample_hash (challenge_json sample_challenge)\<rparr>"
proof -
  have "verifyPayload sample_crypto (response_json sample_response) sample_response_signature
      (checksum (utf8 sample_worker))"
    by (rule verifyPayload_signPayload [OF sample_signature_law])
      (simp add: sample_signPayload sample_response_signature_def)
  moreover note issueChallenge_eq_Inr [OF sample_issue]
  ultimately show ?thesis
    using sample_response_ok
    by (simp add: verifyChallenge_eq_Inr run_checks_def challenge_checks_def check_expected_def)
      (simp add: sample_response_def sample_challenge_def)
qed

theorem challenge_sound_witness:
  "p_resultHash sample_response = sample_answer \<and> p_jobId sample_response = sample_job"
proof -
  have ne: "sample_hash j \<noteq> []" for j using sample_hash_ok [of j] by (auto simp: hash_ok_def)
  have "r_gpuUuidCommitment sample_receipt \<noteq> []" "r_telemetryHash sample_receipt \<noteq> []"
    by (simp_all add: sample_receipt_def ne)
  from challenge_sound [OF sample_issue sample_challenge_passes _ this]
  show ?thesis by (simp add: sample_challenge_def sample_answer_def)
qed

section \<open>NVIDIA attestation\<close>

record nvidia_attestation =
  n_claims :: "(string \<times> json) list list"
  n_detached_eat :: "json option"
  n_result_code :: int
  n_result_message :: string

definition json_record :: "json \<Rightarrow> (string \<times> json) list option" where
  "json_record j = (case j of JObj kvs \<Rightarrow> Some kvs | _ \<Rightarrow> None)"

text \<open>\<^verbatim>\<open>resultSchema.parse\<close>; \<^verbatim>\<open>detached_eat\<close> may be anything, or absent.\<close>

definition resultSchema_parse :: "json \<Rightarrow> nvidia_attestation option" where
  "resultSchema_parse j = Option.bind
     (json_obj [''claims'', ''result_code'', ''result_message''] [''detached_eat''] j) (\<lambda>m.
   Option.bind (field m ''claims'' (json_arr json_record)) (\<lambda>cs.
   Option.bind (opt_field m ''detached_eat'' Some) (\<lambda>eat.
   Option.bind (field m ''result_code'' json_int) (\<lambda>rc.
   Option.bind (field m ''result_message'' json_str) (\<lambda>msg.
     if cs = [] then None
     else Some \<lparr>n_claims = cs, n_detached_eat = eat, n_result_code = rc, n_result_message = msg\<rparr>)))))"

record attestation_decision =
  ad_passed :: bool
  ad_assurance :: string
  ad_failures :: "string list"
  ad_evidenceHash :: string
  ad_claimsHash :: string
  ad_attestation :: nvidia_attestation

definition claim_checks :: "string \<Rightarrow> (string \<times> json) list \<Rightarrow> (bool \<times> string) list" where
  "claim_checks nonce kvs = (let c = map_of kvs in
     [(c ''x-nvidia-device-type'' = Some (JStr ''gpu''), ''Non-GPU claim in attestation''),
      (c ''x-nvidia-gpu-attestation-report-nonce-match'' = Some (JBool True), ''Attestation nonce mismatch''),
      (c ''secboot'' = Some (JBool True), ''Secure boot is not enabled''),
      (c ''dbgstat'' = Some (JStr ''disabled''), ''GPU debug mode is enabled'')]
     @ (case c ''nonce'' of
          Some (JStr n) \<Rightarrow> [(toLowerCase n = nonce, ''Claim nonce mismatch'')]
        | _ \<Rightarrow> []))"

definition attestation_checks :: "string \<Rightarrow> nvidia_attestation \<Rightarrow> (bool \<times> string) list" where
  "attestation_checks nonce n = (n_result_code n = 0, ''NVAT failure: '' @ n_result_message n)
     # concat (map (claim_checks nonce) (n_claims n))"

definition validateNvidiaAttestation :: "crypto \<Rightarrow> json \<Rightarrow> string \<Rightarrow> attestation_decision outcome" where
  "validateNvidiaAttestation cr raw nonce = (case resultSchema_parse raw of
     None \<Rightarrow> Inl ''schema''
   | Some n \<Rightarrow>
       let fs = run_checks (attestation_checks nonce n) in
       andThen (commitment_opt cr (n_detached_eat n)) (\<lambda>eh.
       andThen (commitment cr (JArr (map JObj (n_claims n)))) (\<lambda>ch.
         Inr \<lparr>ad_passed = (fs = []), ad_assurance = ''VERIFY_4'', ad_failures = fs, ad_evidenceHash = eh,
              ad_claimsHash = ch, ad_attestation = n\<rparr>)))"

text \<open>
  \<^verbatim>\<open>attestNvidiaGpu\<close>: \<open>nvattest\<close> runs the external attestation binary on the argument list and
  returns its parsed output, or fails.
\<close>

definition nvattest_args :: "string \<Rightarrow> string \<Rightarrow> string \<Rightarrow> string list" where
  "nvattest_args verifier nonce policyFile =
     [''attest'', ''--device'', ''gpu'', ''--verifier'', verifier, ''--nonce'', nonce,
      ''--relying-party-policy'', policyFile, ''--format'', ''json'']"

definition attestNvidiaGpu ::
  "crypto \<Rightarrow> (string list \<Rightarrow> json outcome) \<Rightarrow> string option \<Rightarrow> string \<Rightarrow> string \<Rightarrow> attestation_decision outcome" where
  "attestNvidiaGpu cr nvattest verifier policyFile nonce =
     andThen (guard (hash_ok nonce) ''Attestation nonce must be 32 bytes of lowercase hex'') (\<lambda>_.
     andThen (nvattest (nvattest_args (case verifier of Some v \<Rightarrow> v | None \<Rightarrow> ''local'') nonce policyFile)) (\<lambda>raw.
       validateNvidiaAttestation cr raw nonce))"

text \<open>
  Attestation fails closed: a decision passes exactly when the tool reported success and
  every claim (there is at least one) is a GPU claim with matching report nonce, secure boot on
  and debug off, and a claim that names a nonce names the verifier's.
\<close>

theorem attestation_fails_closed:
  assumes "validateNvidiaAttestation cr raw nonce = Inr d"
  shows "resultSchema_parse raw = Some (ad_attestation d) \<and> n_claims (ad_attestation d) \<noteq> [] \<and>
     (ad_passed d \<longleftrightarrow> n_result_code (ad_attestation d) = 0 \<and>
     (\<forall>kvs \<in> set (n_claims (ad_attestation d)).
        map_of kvs ''x-nvidia-device-type'' = Some (JStr ''gpu'')
        \<and> map_of kvs ''x-nvidia-gpu-attestation-report-nonce-match'' = Some (JBool True)
        \<and> map_of kvs ''secboot'' = Some (JBool True) \<and> map_of kvs ''dbgstat'' = Some (JStr ''disabled'')
        \<and> (\<forall>m. map_of kvs ''nonce'' = Some (JStr m) \<longrightarrow> toLowerCase m = nonce)))"
proof -
  from assms obtain n where n: "resultSchema_parse raw = Some n" "ad_attestation d = n"
    and p: "ad_passed d \<longleftrightarrow> run_checks (attestation_checks nonce n) = []"
    by (auto simp: validateNvidiaAttestation_def outcome_simps Let_def split: option.splits)
  have ne: "n_claims n \<noteq> []"
    using n(1) by (auto simp: resultSchema_parse_def bind_eq_Some_conv split: if_splits)
  have claim: "(\<forall>c \<in> set (claim_checks nonce kvs). fst c) \<longleftrightarrow>
        map_of kvs ''x-nvidia-device-type'' = Some (JStr ''gpu'')
        \<and> map_of kvs ''x-nvidia-gpu-attestation-report-nonce-match'' = Some (JBool True)
        \<and> map_of kvs ''secboot'' = Some (JBool True) \<and> map_of kvs ''dbgstat'' = Some (JStr ''disabled'')
        \<and> (\<forall>m. map_of kvs ''nonce'' = Some (JStr m) \<longrightarrow> toLowerCase m = nonce)" for kvs
    by (auto simp: claim_checks_def Let_def split: option.splits json.splits)
  have "run_checks (attestation_checks nonce n) = [] \<longleftrightarrow> n_result_code n = 0 \<and>
      (\<forall>kvs \<in> set (n_claims n). \<forall>c \<in> set (claim_checks nonce kvs). fst c)"
    by (fastforce simp: run_checks_eq_Nil attestation_checks_def)
  with p ne n show ?thesis by (simp only: claim) blast
qed

definition sample_attestation :: json where
  "sample_attestation = JObj [(''claims'', JArr [JObj [(''x-nvidia-device-type'', JStr ''gpu''),
       (''x-nvidia-gpu-attestation-report-nonce-match'', JBool True), (''secboot'', JBool True),
       (''dbgstat'', JStr ''disabled'')]]),
     (''detached_eat'', JNull), (''result_code'', jint 0), (''result_message'', JStr ''Ok'')]"

theorem attestation_fails_closed_witness:
  "\<exists>d. validateNvidiaAttestation sample_crypto sample_attestation (replicate 64 CHR ''a'') = Inr d \<and> ad_passed d"
proof -
  have n: "resultSchema_parse sample_attestation = Some \<lparr>n_claims = [[(''x-nvidia-device-type'', JStr ''gpu''),
       (''x-nvidia-gpu-attestation-report-nonce-match'', JBool True), (''secboot'', JBool True),
       (''dbgstat'', JStr ''disabled'')]],
     n_detached_eat = Some JNull, n_result_code = 0, n_result_message = ''Ok''\<rparr>"
    by (simp add: resultSchema_parse_def sample_attestation_def parse_object_simps json_arr_def json_record_def
        json_int_def)
  then obtain d where d: "validateNvidiaAttestation sample_crypto sample_attestation (replicate 64 CHR ''a'') = Inr d"
    by (auto simp: validateNvidiaAttestation_def commitment_opt_def Let_def)
  note c = attestation_fails_closed [OF d]
  from c n have "ad_attestation d = \<lparr>n_claims = [[(''x-nvidia-device-type'', JStr ''gpu''),
       (''x-nvidia-gpu-attestation-report-nonce-match'', JBool True), (''secboot'', JBool True),
       (''dbgstat'', JStr ''disabled'')]],
     n_detached_eat = Some JNull, n_result_code = 0, n_result_message = ''Ok''\<rparr>" by simp
  with c have "ad_passed d" by simp
  with d show ?thesis by blast
qed

section \<open>Groth16 proofs\<close>

record proof_bundle =
  b_verificationKey :: json
  b_publicSignals :: json
  b_proof :: json

definition record_value :: "json \<Rightarrow> json option" where
  "record_value j = map_option (\<lambda>_. j) (json_record j)"

definition signals_value :: "json \<Rightarrow> json option" where
  "signals_value j = (case j of
     JArr xs \<Rightarrow> if list_all (\<lambda>x. case x of JStr _ \<Rightarrow> True | JNum _ \<Rightarrow> True | _ \<Rightarrow> False) xs then Some j else None
   | _ \<Rightarrow> None)"

definition proofBundleSchema_parse :: "json \<Rightarrow> proof_bundle option" where
  "proofBundleSchema_parse j = Option.bind
     (json_obj [''system'', ''verificationKey'', ''publicSignals'', ''proof''] [] j) (\<lambda>m.
   Option.bind (field m ''system'' (\<lambda>v. if v = JStr ''groth16'' then Some () else None)) (\<lambda>_.
   Option.bind (field m ''verificationKey'' record_value) (\<lambda>vk.
   Option.bind (field m ''publicSignals'' signals_value) (\<lambda>ps.
   Option.bind (field m ''proof'' record_value) (\<lambda>pr.
     Some \<lparr>b_verificationKey = vk, b_publicSignals = ps, b_proof = pr\<rparr>)))))"

record proof_decision =
  pd_passed :: bool
  pd_assurance :: string
  pd_failures :: "string list"

definition contains :: "string \<Rightarrow> string \<Rightarrow> bool" where
  "contains sub s \<longleftrightarrow> list_ex (\<lambda>i. take (length sub) (drop i s) = sub) [0..<Suc (length s)]"

text \<open>
  \<open>snarkjs key signals proof\<close> is the external verifier's standard output, or \<open>None\<close> when it
  exits with an error or times out. The temporary files it reads hold the canonical JSON.
\<close>

definition verifyGroth16Proof ::
  "crypto \<Rightarrow> (string \<Rightarrow> string \<Rightarrow> string \<Rightarrow> string option) \<Rightarrow> json \<Rightarrow> string \<Rightarrow> string
     \<Rightarrow> proof_decision outcome" where
  "verifyGroth16Proof cr snarkjs raw expectedKeyHash expectedSignalsHash = (case proofBundleSchema_parse raw of
     None \<Rightarrow> Inl ''schema''
   | Some b \<Rightarrow>
     andThen (canonical cr (b_verificationKey b)) (\<lambda>vk.
     andThen (canonical cr (b_publicSignals b)) (\<lambda>ps.
       let fs = run_checks
         [(sha256 cr (utf8 vk) = expectedKeyHash, ''Verification key commitment mismatch''),
          (sha256 cr (utf8 ps) = expectedSignalsHash, ''Public signal commitment mismatch'')] in
       if fs \<noteq> [] then Inr \<lparr>pd_passed = False, pd_assurance = ''VERIFY_5'', pd_failures = fs\<rparr>
       else andThen (canonical cr (b_proof b)) (\<lambda>pr.
         let fs' = (case snarkjs vk ps pr of
           Some out \<Rightarrow> if contains ''OK!'' out then [] else [''Groth16 verifier rejected the proof'']
         | None \<Rightarrow> [''Groth16 verifier rejected the proof''])
         in Inr \<lparr>pd_passed = (fs' = []), pd_assurance = ''VERIFY_5'', pd_failures = fs'\<rparr>))))"

text \<open>
  A Groth16 decision passes only under the pinned key: the verification key and the public
  signals hash to the committed values, and the external verifier was run on exactly those
  canonical documents and reported success.
\<close>

theorem groth16_pins_key:
  assumes "verifyGroth16Proof cr snarkjs raw kh sh = Inr d" "pd_passed d"
  shows "\<exists>b vk ps pr out. proofBundleSchema_parse raw = Some b
     \<and> commitment cr (b_verificationKey b) = Inr kh \<and> commitment cr (b_publicSignals b) = Inr sh
     \<and> canonical cr (b_verificationKey b) = Inr vk \<and> canonical cr (b_publicSignals b) = Inr ps
     \<and> canonical cr (b_proof b) = Inr pr \<and> snarkjs vk ps pr = Some out \<and> contains ''OK!'' out"
  using assms
  by (auto simp: verifyGroth16Proof_def commitment_def outcome_simps run_checks_eq_Nil Let_def
      split: if_splits option.splits)

definition sample_proof :: json where
  "sample_proof = JObj [(''system'', JStr ''groth16''), (''verificationKey'', JObj []),
     (''publicSignals'', JArr [JStr ''7'']), (''proof'', JObj [])]"

theorem groth16_pins_key_witness:
  "\<exists>b. proofBundleSchema_parse sample_proof = Some b
     \<and> commitment sample_crypto (b_verificationKey b) = Inr (sample_hash (JObj []))"
proof -
  have "proofBundleSchema_parse sample_proof =
      Some \<lparr>b_verificationKey = JObj [], b_publicSignals = JArr [JStr ''7''], b_proof = JObj []\<rparr>"
    by (simp add: proofBundleSchema_parse_def sample_proof_def parse_object_simps record_value_def json_record_def
        signals_value_def)
  then have "verifyGroth16Proof sample_crypto (\<lambda>_ _ _. Some ''OK!'') sample_proof
      (sample_hash (JObj [])) (sample_hash (JArr [JStr ''7''])) = Inr \<lparr>pd_passed = True, pd_assurance = ''VERIFY_5'', pd_failures = []\<rparr>"
    by (simp add: verifyGroth16Proof_def run_checks_def sha256_def sample_hash_def sample_crypto_def
        canonical_def contains_def)
  from groth16_pins_key [OF this] show ?thesis by auto
qed

end
