(* ===== verification/Redundancy.thy ===== *)
theory Redundancy
  imports Receipts
begin

text \<open>
  Redundant execution (\<^verbatim>\<open>packages/verification/redundancy.ts\<close>): two to five replicas vote with
  their result hashes. The vote table is a \<^verbatim>\<open>Map\<close>, which keeps insertion order, and is sorted
  with a comparator that interprets \<open>js_comparator\<close>.
\<close>

section \<open>Votes\<close>

record replica =
  rp_jobId :: string
  rp_provider :: string
  rp_machineId :: string
  rp_resultHash :: string
  rp_verify1Passed :: bool

definition replica_ok :: "replica \<Rightarrow> bool" where
  "replica_ok r \<longleftrightarrow> 32 \<le> length (rp_jobId r) \<and> 32 \<le> length (rp_provider r)
     \<and> 32 \<le> length (rp_machineId r) \<and> hash_ok (rp_resultHash r)"

text \<open>\<^verbatim>\<open>votes.set(h, (votes.get(h) ?? 0) + 1)\<close>: a new key goes to the end.\<close>

fun vote :: "string \<Rightarrow> (string \<times> int) list \<Rightarrow> (string \<times> int) list" where
  "vote h [] = [(h, 1)]"
| "vote h ((k, n) # vs) = (if k = h then (k, n + 1) # vs else (k, n) # vote h vs)"

definition votes :: "replica list \<Rightarrow> (string \<times> int) list" where
  "votes rs = fold (\<lambda>r. vote (rp_resultHash r)) rs []"

definition vote_cmp :: "string \<times> int \<Rightarrow> string \<times> int \<Rightarrow> int" where
  "vote_cmp a b = snd b - snd a"

record redundancy_decision =
  rd_passed :: bool
  rd_assurance :: string
  rd_failures :: "string list"
  rd_resultHash :: "string option"
  rd_matches :: int
  rd_requiredMatches :: int
  rd_dispatchTieBreaker :: bool

definition redundancy_failures :: "replica list \<Rightarrow> int \<Rightarrow> int \<Rightarrow> string list" where
  "redundancy_failures rs matches requiredMatches =
     (if card (set (map rp_provider rs)) \<noteq> length rs then [''Replicas are not provider-independent''] else [])
   @ (if card (set (map rp_machineId rs)) \<noteq> length rs then [''Replicas are not machine-independent''] else [])
   @ (if list_ex (\<lambda>r. \<not> rp_verify1Passed r) rs then [''A replica failed VERIFY_1''] else [])
   @ (if matches < requiredMatches then [''No result hash reached quorum''] else [])"

definition verifyRedundantResults :: "replica list \<Rightarrow> int \<Rightarrow> redundancy_decision outcome" where
  "verifyRedundantResults rs requiredMatches =
     andThen (guard (2 \<le> length rs \<and> length rs \<le> 5 \<and> list_all replica_ok rs) ''schema'') (\<lambda>_.
     andThen (guard (2 \<le> requiredMatches \<and> requiredMatches \<le> int (length rs)) ''Invalid redundancy quorum'') (\<lambda>_.
       let (resultHash, matches) = hd (js_sort vote_cmp (votes rs));
           fs = redundancy_failures rs matches requiredMatches
       in Inr \<lparr>rd_passed = (fs = []), rd_assurance = ''VERIFY_3'', rd_failures = fs,
            rd_resultHash = (if requiredMatches \<le> matches then Some resultHash else None),
            rd_matches = matches, rd_requiredMatches = requiredMatches,
            rd_dispatchTieBreaker = (length rs = 2 \<and> matches = 1)\<rparr>))"

section \<open>Counting\<close>

interpretation ballot: js_comparator vote_cmp
  by unfold_locales (auto simp: vote_cmp_def)

abbreviation votes_for :: "string \<Rightarrow> replica list \<Rightarrow> int" where
  "votes_for h rs \<equiv> int (length (filter (\<lambda>r. rp_resultHash r = h) rs))"

lemma map_of_vote: "map_of (vote h vs) k =
    (if k = h then Some ((case map_of vs h of Some n \<Rightarrow> n | None \<Rightarrow> 0) + 1) else map_of vs k)"
  by (induction vs) (auto split: option.splits)

lemma keys_vote: "fst ` set (vote h vs) = insert h (fst ` set vs)"
  by (induction h vs rule: vote.induct) (simp_all add: insert_commute)

lemma distinct_vote: "distinct (map fst vs) \<Longrightarrow> distinct (map fst (vote h vs))"
proof (induction vs)
  case (Cons v vs)
  then show ?case using keys_vote [of h vs] by (cases v) auto
qed simp

lemma votes_snoc: "votes (rs @ [r]) = vote (rp_resultHash r) (votes rs)"
  by (simp add: votes_def)

lemma votes_distinct: "distinct (map fst (votes rs))"
proof (induction rs rule: rev_induct)
  case (snoc r rs)
  then show ?case by (simp add: votes_snoc distinct_vote)
qed (simp add: votes_def)

lemma map_of_votes: "map_of (votes rs) h = (if h \<in> rp_resultHash ` set rs then Some (votes_for h rs) else None)"
proof (induction rs rule: rev_induct)
  case (snoc r rs)
  then show ?case by (auto simp: votes_snoc map_of_vote filter_empty_conv image_iff split: if_splits) metis
qed (simp add: votes_def)

text \<open>The table holds exactly the number of votes of every hash that has one.\<close>

lemma votes_entry: "(h, n) \<in> set (votes rs) \<longleftrightarrow> h \<in> rp_resultHash ` set rs \<and> n = votes_for h rs"
  using map_of_eq_Some_iff [OF votes_distinct, of rs h n] by (auto simp: map_of_votes split: if_splits)

lemma winner:
  assumes "rs \<noteq> []" "hd (js_sort vote_cmp (votes rs)) = (h, n)"
  shows "h \<in> rp_resultHash ` set rs" "n = votes_for h rs" "votes_for k rs \<le> n"
proof -
  obtain r where "r \<in> set rs" using assms(1) by (cases rs) auto
  then have "votes rs \<noteq> []" using votes_entry [of "rp_resultHash r" _ rs] by fastforce
  then have "hd (js_sort vote_cmp (votes rs)) \<in> set (votes rs)"
    using list.set_sel(1) [of "js_sort vote_cmp (votes rs)"] by simp
  then show hn: "h \<in> rp_resultHash ` set rs" "n = votes_for h rs" using assms(2) by (auto simp: votes_entry)
  show "votes_for k rs \<le> n"
  proof (cases "k \<in> rp_resultHash ` set rs")
    case True
    then have "(k, votes_for k rs) \<in> set (votes rs)" by (simp add: votes_entry)
    from ballot.js_sort_hd_least [OF this] assms(2) show ?thesis by (simp add: vote_cmp_def)
  next
    case False
    then have "filter (\<lambda>r. rp_resultHash r = k) rs = []" by (auto simp: filter_empty_conv)
    then show ?thesis using hn(2) by simp
  qed
qed

text \<open>
  A redundant result is accepted exactly when the replicas run on pairwise different
  providers and machines, all passed VERIFY_1 and some result hash has the required number of
  votes; the reported hash then has that many votes, and no hash has more.
\<close>

theorem redundancy_quorum:
  assumes "verifyRedundantResults rs q = Inr d"
  shows "(rd_passed d \<longleftrightarrow> distinct (map rp_provider rs) \<and> distinct (map rp_machineId rs)
            \<and> (\<forall>r \<in> set rs. rp_verify1Passed r) \<and> (\<exists>h. q \<le> votes_for h rs))
     \<and> (rd_passed d \<longrightarrow> (\<exists>h. rd_resultHash d = Some h \<and> q \<le> votes_for h rs \<and> votes_for h rs = rd_matches d
            \<and> (\<forall>k. votes_for k rs \<le> rd_matches d)))
     \<and> (rd_dispatchTieBreaker d \<longleftrightarrow> length rs = 2 \<and> rp_resultHash (rs ! 0) \<noteq> rp_resultHash (rs ! 1))"
proof -
  obtain h n where hn: "hd (js_sort vote_cmp (votes rs)) = (h, n)" by fastforce
  from assms have ne: "rs \<noteq> []" and q: "2 \<le> q"
    and d: "d = \<lparr>rd_passed = (redundancy_failures rs n q = []), rd_assurance = ''VERIFY_3'', rd_failures = redundancy_failures rs n q,
      rd_resultHash = (if q \<le> n then Some h else None), rd_matches = n, rd_requiredMatches = q,
      rd_dispatchTieBreaker = (length rs = 2 \<and> n = 1)\<rparr>"
    by (auto simp: verifyRedundantResults_def outcome_simps hn Let_def)
  note w = winner [OF ne hn]
  have passed: "rd_passed d \<longleftrightarrow> distinct (map rp_provider rs) \<and> distinct (map rp_machineId rs)
            \<and> (\<forall>r \<in> set rs. rp_verify1Passed r) \<and> q \<le> n"
    using card_set_eq_length_iff [of "map rp_provider rs"] card_set_eq_length_iff [of "map rp_machineId rs"]
    by (auto simp: d redundancy_failures_def list_ex_iff)
  have quorum: "q \<le> n \<longleftrightarrow> (\<exists>k. q \<le> votes_for k rs)"
  proof
    assume "q \<le> n"
    then show "\<exists>k. q \<le> votes_for k rs" using w(2) by blast
  next
    assume "\<exists>k. q \<le> votes_for k rs"
    then obtain k where "q \<le> votes_for k rs" by blast
    then show "q \<le> n" using w(3) [of k] by linarith
  qed
  have tie: "n = 1 \<longleftrightarrow> rp_resultHash (rs ! 0) \<noteq> rp_resultHash (rs ! 1)" if two: "length rs = 2"
  proof -
    from two obtain a b where ab: "rs = [a, b]" by (auto simp: numeral_2_eq_2 length_Suc_conv)
    then show ?thesis using w(1,2) w(3) [of "rp_resultHash a"] by auto
  qed
  have max: "\<forall>k. votes_for k rs \<le> n" using w(3) by blast
  have "rd_resultHash d = Some h" if "q \<le> n" using that by (simp add: d)
  moreover have "rd_matches d = n" "rd_dispatchTieBreaker d \<longleftrightarrow> length rs = 2 \<and> n = 1" by (simp_all add: d)
  ultimately show ?thesis using passed quorum w(2) max tie by metis
qed

definition sample_replicas :: "replica list" where
  "sample_replicas = map (\<lambda>c. \<lparr>rp_jobId = replicate 32 c, rp_provider = replicate 32 c,
     rp_machineId = replicate 32 c, rp_resultHash = replicate 64 CHR ''a'', rp_verify1Passed = True\<rparr>) ''xy''"

theorem redundancy_quorum_witness:
  "\<exists>d. verifyRedundantResults sample_replicas 2 = Inr d \<and> rd_passed d"
proof -
  obtain d where d: "verifyRedundantResults sample_replicas 2 = Inr d"
  proof -
    have "list_all replica_ok sample_replicas" "length sample_replicas = 2"
      by (simp_all add: sample_replicas_def replica_ok_def is_hex_lower_def)
    then show ?thesis
      using that by (cases "hd (js_sort vote_cmp (votes sample_replicas))") (simp add: verifyRedundantResults_def Let_def)
  qed
  have "\<exists>h. 2 \<le> votes_for h sample_replicas"
    by (rule exI [of _ "replicate 64 CHR ''a''"]) (simp add: sample_replicas_def)
  then have "rd_passed d"
    using redundancy_quorum [OF d] by (simp add: sample_replicas_def)
  with d show ?thesis by blast
qed

end
