(* ===== verification/Pricing.thy ===== *)
theory Pricing
  imports JobSpec
begin

text \<open>
  Matching and escrow arithmetic (\<^verbatim>\<open>packages/pricing/index.ts\<close>). \<open>quoteSupply\<close> filters the
  supply a specification can run on, prices it for the escrowed timeout and sorts it with a
  comparator that interprets \<open>js_comparator\<close>. \<open>splitEscrow\<close> divides a deposit into payment,
  fee and refund.
\<close>

section \<open>Supply and quotes\<close>

record Supply =
  s_id :: string
  s_provider :: string
  s_machine :: string
  s_gpuModel :: string
  s_gpuCount :: int
  s_vramMb :: int
  s_rateBaseUnitsPerSecond :: string
  s_region :: string
  s_reputation :: rat
  s_stakeBaseUnits :: "string option"
  s_active :: bool
  s_available :: bool
  s_expiresAt :: int
  s_heartbeatAt :: int
  s_estimatedStartSeconds :: rat
  s_verification :: policy
  s_runtime :: string
  s_maxSeconds :: int

record quote =
  q_supply :: Supply
  q_totalBaseUnits :: string

text \<open>The first filter. An absent or empty region does not restrict.\<close>

definition can_run :: "job_spec \<Rightarrow> int \<Rightarrow> string option \<Rightarrow> Supply \<Rightarrow> bool" where
  "can_run spec now region s \<longleftrightarrow>
     s_active s \<and> s_available s \<and> s_runtime s = runtime spec
     \<and> now < s_expiresAt s \<and> now - s_heartbeatAt s < 90 \<and> s_heartbeatAt s \<le> now + 5
     \<and> gpu_count spec \<le> s_gpuCount s \<and> gpu_minimumVramMb spec \<le> s_vramMb s
     \<and> (gpu_allowedModels spec = [] \<or> s_gpuModel s \<in> set (gpu_allowedModels spec))
     \<and> (region = None \<or> region = Some [] \<or> region = Some (s_region s))
     \<and> s_estimatedStartSeconds s \<le> of_int (maxStartDelaySeconds spec)
     \<and> timeoutSeconds spec \<le> s_maxSeconds s
     \<and> policyCode (policy_of spec) \<le> policyCode (s_verification s)"

definition price_supply :: "job_spec \<Rightarrow> Supply \<Rightarrow> quote outcome" where
  "price_supply spec s = andThen (bigInt (s_rateBaseUnitsPerSecond s)) (\<lambda>rate.
     Inr \<lparr>q_supply = s, q_totalBaseUnits = bigint_toString (rate * timeoutSeconds spec)\<rparr>)"

text \<open>\<^verbatim>\<open>BigInt(q.totalBaseUnits)\<close> of a total this function printed, which always parses.\<close>

definition units :: "quote \<Rightarrow> int" where
  "units q = (case bigInt (q_totalBaseUnits q) of Inr i \<Rightarrow> i | Inl _ \<Rightarrow> 0)"

definition quote_cmp :: "quote \<Rightarrow> quote \<Rightarrow> rat" where
  "quote_cmp a b = (let priceA = units a; priceB = units b in
     if priceA = priceB then s_reputation (q_supply b) - s_reputation (q_supply a)
     else if priceA < priceB then - 1 else 1)"

definition quoteSupply ::
  "Supply list \<Rightarrow> job_spec \<Rightarrow> int \<Rightarrow> int \<Rightarrow> string option \<Rightarrow> quote list outcome" where
  "quoteSupply supplies spec budget now region =
     andThen (mapM (price_supply spec) (filter (can_run spec now region) supplies)) (\<lambda>qs.
       Inr (js_sort quote_cmp (filter (\<lambda>q. 0 < units q \<and> units q \<le> budget) qs)))"

lemma quote_cmp_lex: "quote_cmp = lex_cmp units (s_reputation \<circ> q_supply)"
  by (intro ext) (simp add: quote_cmp_def lex_cmp_def Let_def)

interpretation quotes: js_comparator quote_cmp
  unfolding quote_cmp_lex by unfold_locales

definition quote_of :: "job_spec \<Rightarrow> Supply \<Rightarrow> int \<Rightarrow> quote" where
  "quote_of spec s rate = \<lparr>q_supply = s, q_totalBaseUnits = bigint_toString (rate * timeoutSeconds spec)\<rparr>"

lemma units_quote_of [simp]: "units (quote_of spec s r) = r * timeoutSeconds spec"
  by (simp add: quote_of_def units_def)

lemma supply_quote_of [simp]: "q_supply (quote_of spec s r) = s"
  by (simp add: quote_of_def)

lemma quoteSupply_eq:
  assumes "\<And>s. s \<in> set supplies \<Longrightarrow> bigInt (s_rateBaseUnitsPerSecond s) = Inr (rate s)"
  shows "quoteSupply supplies spec budget now region = Inr (js_sort quote_cmp
     (map (\<lambda>s. quote_of spec s (rate s))
       (filter (\<lambda>s. can_run spec now region s \<and> 0 < rate s * timeoutSeconds spec
          \<and> rate s * timeoutSeconds spec \<le> budget) supplies)))"
proof -
  have "mapM (price_supply spec) (filter (can_run spec now region) supplies)
      = Inr (map (\<lambda>s. quote_of spec s (rate s)) (filter (can_run spec now region) supplies))"
    by (rule mapM_total) (simp add: price_supply_def assms quote_of_def)
  then show ?thesis
    by (simp add: quoteSupply_def filter_map comp_def conj_ac)
qed

text \<open>
  Quoting is exact: when every advertised rate is a number, the quotes are exactly the
  supplies that satisfy all of the specification's requirements and whose price for the full
  escrowed timeout is positive and within budget, each quoted at rate times timeout, ordered
  from the cheapest up and, at equal price, from the best reputation down.
\<close>

theorem quotes_exact:
  assumes "\<And>s. s \<in> set supplies \<Longrightarrow> bigInt (s_rateBaseUnitsPerSecond s) = Inr (rate s)"
  shows "\<exists>qs. quoteSupply supplies spec budget now region = Inr qs
     \<and> image_mset q_supply (mset qs) = filter_mset (\<lambda>s. can_run spec now region s
          \<and> 0 < rate s * timeoutSeconds spec \<and> rate s * timeoutSeconds spec \<le> budget) (mset supplies)
     \<and> (\<forall>q \<in> set qs. q_totalBaseUnits q = bigint_toString (rate (q_supply q) * timeoutSeconds spec))
     \<and> sorted_wrt (\<lambda>a b. units a < units b
          \<or> units a = units b \<and> s_reputation (q_supply b) \<le> s_reputation (q_supply a)) qs"
proof -
  define qs where "qs = js_sort quote_cmp (map (\<lambda>s. quote_of spec s (rate s))
       (filter (\<lambda>s. can_run spec now region s \<and> 0 < rate s * timeoutSeconds spec
          \<and> rate s * timeoutSeconds spec \<le> budget) supplies))"
  have "image_mset q_supply (mset qs) = filter_mset (\<lambda>s. can_run spec now region s
          \<and> 0 < rate s * timeoutSeconds spec \<and> rate s * timeoutSeconds spec \<le> budget) (mset supplies)"
    by (simp add: qs_def multiset.map_comp comp_def mset_filter)
  moreover have "\<forall>q \<in> set qs. q_totalBaseUnits q = bigint_toString (rate (q_supply q) * timeoutSeconds spec)"
    by (auto simp: qs_def quote_of_def)
  moreover have "sorted_wrt (\<lambda>a b. units a < units b
          \<or> units a = units b \<and> s_reputation (q_supply b) \<le> s_reputation (q_supply a)) qs"
    using quotes.sorted_js_sort [of "map (\<lambda>s. quote_of spec s (rate s))
       (filter (\<lambda>s. can_run spec now region s \<and> 0 < rate s * timeoutSeconds spec
          \<and> rate s * timeoutSeconds spec \<le> budget) supplies)"]
    by (simp add: qs_def quote_cmp_lex lex_cmp_le)
  ultimately show ?thesis using quoteSupply_eq [OF assms] unfolding qs_def by blast
qed

definition sample_supply :: Supply where
  "sample_supply = \<lparr>s_id = ''o'', s_provider = ''p'', s_machine = ''m'', s_gpuModel = ''L4'', s_gpuCount = 1,
     s_vramMb = 24000, s_rateBaseUnitsPerSecond = bigint_toString 7, s_region = ''eu'', s_reputation = 80,
     s_stakeBaseUnits = None, s_active = True, s_available = True, s_expiresAt = 1000, s_heartbeatAt = 490,
     s_estimatedStartSeconds = 5, s_verification = STANDARD, s_runtime = ''oci'', s_maxSeconds = 3600\<rparr>"

theorem quotes_exact_witness:
  "\<exists>qs. quoteSupply [sample_supply] sample_spec 3000 500 None = Inr qs \<and> image_mset q_supply (mset qs) = {#sample_supply#}"
proof -
  have "can_run sample_spec 500 None sample_supply" "timeoutSeconds sample_spec = 300"
    by (simp_all add: can_run_def sample_supply_def sample_spec_def)
  moreover have "bigInt (s_rateBaseUnitsPerSecond s) = Inr 7" if "s \<in> set [sample_supply]" for s
    using that by (simp add: sample_supply_def)
  note quotes_exact [OF this, of "[sample_supply]", where spec = sample_spec and budget = 3000 and now = 500 and region = None]
  ultimately show ?thesis by auto
qed

section \<open>Splitting an escrow\<close>

record escrow_split =
  sp_provider :: int
  sp_fee :: int
  sp_refund :: int

text \<open>Division of BigInts truncates toward zero.\<close>

definition bigint_div :: "int \<Rightarrow> int \<Rightarrow> int" where
  "bigint_div a b = sgn a * sgn b * (\<bar>a\<bar> div \<bar>b\<bar>)"

lemma bigint_div_nonneg: "0 \<le> a \<Longrightarrow> 0 < b \<Longrightarrow> bigint_div a b = a div b"
  by (cases "a = 0") (simp_all add: bigint_div_def)

definition splitEscrow :: "int \<Rightarrow> int \<Rightarrow> rat \<Rightarrow> escrow_split outcome" where
  "splitEscrow deposit price feeBps =
     (if deposit < 0 \<or> price < 0 \<or> deposit < price \<or> of_int \<lfloor>feeBps\<rfloor> \<noteq> feeBps \<or> feeBps < 0 \<or> 300 < feeBps
      then Inl ''Invalid escrow accounting''
      else let fee = bigint_div (price * \<lfloor>feeBps\<rfloor>) 10000 in
        Inr \<lparr>sp_provider = price - fee, sp_fee = fee, sp_refund = deposit - price\<rparr>)"

lemma splitEscrow_int:
  "splitEscrow d p (of_int f) =
     (if 0 \<le> p \<and> p \<le> d \<and> 0 \<le> f \<and> f \<le> 300
      then Inr \<lparr>sp_provider = p - p * f div 10000, sp_fee = p * f div 10000, sp_refund = d - p\<rparr>
      else Inl ''Invalid escrow accounting'')"
proof -
  have "(of_int f :: rat) \<le> 300 \<longleftrightarrow> f \<le> 300" by (metis of_int_le_iff of_int_numeral)
  then show ?thesis by (auto simp: splitEscrow_def Let_def bigint_div_nonneg not_less)
qed

text \<open>
  Splitting an escrow loses nothing: every accepted split pays out the deposit exactly, all
  three parts are non-negative, the fee is the rounded-down share of the price and never more
  than three per cent of it; a price above the deposit, a negative amount or a fee that is not
  an integer from 0 to 300 is rejected.
\<close>

theorem split_conserves:
  "case splitEscrow d p f of
     Inr s \<Rightarrow> sp_provider s + sp_fee s + sp_refund s = d
       \<and> 0 \<le> sp_provider s \<and> 0 \<le> sp_fee s \<and> 0 \<le> sp_refund s
       \<and> sp_provider s + sp_fee s = p
       \<and> sp_fee s = \<lfloor>of_int p * f / 10000\<rfloor> \<and> 100 * sp_fee s \<le> 3 * p
   | Inl e \<Rightarrow> d < 0 \<or> p < 0 \<or> d < p \<or> f \<notin> \<int> \<or> f < 0 \<or> 300 < f"
proof (cases "splitEscrow d p f")
  case (Inl e)
  then show ?thesis by (auto simp: splitEscrow_def Let_def Ints_def split: if_splits)
next
  case (Inr s)
  then have "of_int \<lfloor>f\<rfloor> = f" by (simp add: splitEscrow_def split: if_splits)
  then obtain k where k: "f = of_int k" by metis
  from Inr have b: "0 \<le> p" "p \<le> d" "0 \<le> k" "k \<le> 300"
    and s: "s = \<lparr>sp_provider = p - p * k div 10000, sp_fee = p * k div 10000, sp_refund = d - p\<rparr>"
    unfolding k splitEscrow_int by (simp_all split: if_splits)
  have fee: "p * k div 10000 = \<lfloor>of_int p * f / 10000\<rfloor>"
    using floor_divide_of_int_eq [of "p * k" 10000, where ?'a = rat] by (simp add: k)
  define q where "q = p * k div 10000"
  have "p * k \<le> p * 300" using b by (intro mult_left_mono) auto
  moreover have "10000 * q \<le> p * k"
    using mult_div_mod_eq [of 10000 "p * k"] pos_mod_sign [of 10000 "p * k"] unfolding q_def by linarith
  ultimately have bound: "100 * q \<le> 3 * p" "q \<le> p" using b by linarith+
  have "0 \<le> q" using b by (simp add: q_def pos_imp_zdiv_nonneg_iff)
  moreover have "s = \<lparr>sp_provider = p - q, sp_fee = q, sp_refund = d - p\<rparr>" "q = \<lfloor>of_int p * f / 10000\<rfloor>"
    using s fee by (simp_all add: q_def)
  ultimately show ?thesis using Inr b bound by simp
qed

theorem split_conserves_witness:
  "\<exists>s. splitEscrow 1000 900 100 = Inr s \<and> sp_provider s + sp_fee s + sp_refund s = 1000 \<and> sp_fee s = 9"
proof -
  have f: "(100 :: rat) = of_int 100" by simp
  have "splitEscrow 1000 900 100 = Inr \<lparr>sp_provider = 891, sp_fee = 9, sp_refund = 100\<rparr>"
    unfolding f splitEscrow_int by simp
  with split_conserves [of 1000 900 100] show ?thesis by simp
qed

end
