(* ===== verification/AgentPolicy.thy ===== *)
theory AgentPolicy
  imports Receipts
begin

text \<open>
  The allowlist of specification hashes an agent may buy (\<^verbatim>\<open>packages/agent-policy/index.ts\<close>): a
  sorted-pair Merkle tree whose root is stored on chain and whose proofs accompany each job. The
  builder keeps two maps while it climbs the levels, the proof collected so far for every leaf
  and the leaves below every node, both keyed by the node's hexadecimal form.
\<close>

section \<open>Hashing\<close>

text \<open>\<^verbatim>\<open>Buffer.compare\<close> is the lexicographic order of unsigned bytes.\<close>

definition buffer_compare :: "buffer \<Rightarrow> buffer \<Rightarrow> int" where
  "buffer_compare a b = (if a < b then - 1 else if a = b then 0 else 1)"

definition hashPair :: "crypto \<Rightarrow> buffer \<Rightarrow> buffer \<Rightarrow> buffer" where
  "hashPair cr left right =
     (let ordered = (if buffer_compare left right \<le> 0 then [left, right] else [right, left])
      in sha256_raw cr (concat ordered))"

definition parseHash :: "string \<Rightarrow> buffer outcome" where
  "parseHash value = (let normalized = toLowerCase value in
     if hash_ok normalized then Inr (fromHex normalized)
     else Inl ''Spec hashes must be 32-byte lowercase or uppercase hex strings'')"

interpretation bytes: js_comparator buffer_compare
proof -
  have "buffer_compare = ord_cmp" by (intro ext) (simp add: buffer_compare_def ord_cmp_def)
  then show "js_comparator buffer_compare" using ord.js_comparator_axioms by simp
qed

lemma length_hashPair: "(\<And>b. length (sha256_raw cr b) = 32) \<Longrightarrow> length (hashPair cr l r) = 32"
  by (simp add: hashPair_def Let_def)

lemma hashPair_commute: "hashPair cr a b = hashPair cr b a"
  by (auto simp: hashPair_def buffer_compare_def)

section \<open>Building the tree\<close>

record tree_state =
  proofs :: "string \<rightharpoonup> buffer list"
  descendants :: "string \<rightharpoonup> string list"

text \<open>
  \<^verbatim>\<open>map.get(id)!\<close>. The builder only asks for identifiers it has set, see \<open>node_ok\<close> below.
\<close>

definition entry :: "(string \<rightharpoonup> 'a list) \<Rightarrow> string \<Rightarrow> 'a list" where
  "entry m k = (case m k of Some xs \<Rightarrow> xs | None \<Rightarrow> [])"

definition push_all :: "string list \<Rightarrow> buffer \<Rightarrow> (string \<rightharpoonup> buffer list) \<Rightarrow> (string \<rightharpoonup> buffer list)" where
  "push_all leaves x m = fold (\<lambda>leaf m. m(leaf \<mapsto> entry m leaf @ [x])) leaves m"

definition join_pair :: "crypto \<Rightarrow> buffer \<Rightarrow> buffer \<Rightarrow> tree_state \<Rightarrow> tree_state" where
  "join_pair cr left right st =
     (let ls = entry (descendants st) (toHex left); rs = entry (descendants st) (toHex right);
          parent = hashPair cr left right
      in st\<lparr>proofs := push_all rs left (push_all ls right (proofs st)),
            descendants := (descendants st)(toHex parent \<mapsto> ls @ rs)\<rparr>)"

text \<open>One pass over a level: the next level and the updated maps.\<close>

fun next_level :: "crypto \<Rightarrow> buffer list \<Rightarrow> tree_state \<Rightarrow> buffer list \<times> tree_state" where
  "next_level cr (left # right # rest) st =
     (let (next, st') = next_level cr rest (join_pair cr left right st)
      in (hashPair cr left right # next, st'))"
| "next_level cr [left] st = ([left], st)"
| "next_level cr [] st = ([], st)"

lemma length_next_level: "length (fst (next_level cr xs st)) = (length xs + 1) div 2"
  by (induction cr xs st rule: next_level.induct) (auto split: prod.splits simp: Let_def)

function climb :: "crypto \<Rightarrow> buffer list \<Rightarrow> tree_state \<Rightarrow> buffer list \<times> tree_state" where
  "climb cr level st =
     (if 1 < length level then climb cr (fst (next_level cr level st)) (snd (next_level cr level st))
      else (level, st))"
  by auto
termination
  by (relation "measure (\<lambda>(cr, level, st). length level)") (auto simp: length_next_level case_prod_unfold)

declare climb.simps [simp del]

definition seed_state :: "buffer list \<Rightarrow> tree_state" where
  "seed_state leaves = fold (\<lambda>leaf st. st\<lparr>proofs := (proofs st)(toHex leaf \<mapsto> []),
       descendants := (descendants st)(toHex leaf \<mapsto> [toHex leaf])\<rparr>) leaves
     \<lparr>proofs = Map.empty, descendants = Map.empty\<rparr>"

record allowlist =
  al_root :: string
  al_proofs :: "string \<rightharpoonup> string list"

definition buildSpecAllowlist :: "crypto \<Rightarrow> string list \<Rightarrow> allowlist outcome" where
  "buildSpecAllowlist cr specHashes =
     andThen (guard (specHashes \<noteq> []) ''At least one spec hash is required'') (\<lambda>_.
     let normalized = map toLowerCase specHashes in
     andThen (guard (card (set normalized) = length normalized) ''Duplicate spec hashes are not allowed'') (\<lambda>_.
     andThen (mapM parseHash normalized) (\<lambda>parsed.
     let leaves = js_sort buffer_compare parsed in
     andThen (guard (length leaves \<le> 65536) ''Spec allowlist is too large'') (\<lambda>_.
     let (level, st) = climb cr leaves (seed_state leaves)
     in Inr \<lparr>al_root = toHex (hd level), al_proofs = map_option (map toHex) \<circ> proofs st\<rparr>))))"

fun fold_proof :: "crypto \<Rightarrow> buffer \<Rightarrow> string list \<Rightarrow> buffer outcome" where
  "fold_proof cr node [] = Inr node"
| "fold_proof cr node (sibling # rest) =
     andThen (parseHash sibling) (\<lambda>s. fold_proof cr (hashPair cr node s) rest)"

definition verifySpecProof :: "crypto \<Rightarrow> string \<Rightarrow> string list \<Rightarrow> string \<Rightarrow> bool outcome" where
  "verifySpecProof cr specHash proof rootHash =
     andThen (parseHash specHash) (\<lambda>leaf.
     if 16 < length proof then Inr False
     else andThen (fold_proof cr leaf proof) (\<lambda>node.
       andThen (parseHash rootHash) (\<lambda>r. Inr (node = r))))"

definition proofBytes :: "string list \<Rightarrow> buffer list outcome" where
  "proofBytes proof = mapM parseHash proof"

section \<open>The invariant of the climb\<close>

text \<open>
  A node of the frontier knows the leaves below it, and folding a leaf's proof so far from the
  leaf gives the node.
\<close>

definition node_ok :: "crypto \<Rightarrow> tree_state \<Rightarrow> nat \<Rightarrow> buffer \<Rightarrow> bool" where
  "node_ok cr st b n \<longleftrightarrow> descendants st (toHex n) \<noteq> None \<and>
     (\<forall>l \<in> set (entry (descendants st) (toHex n)). \<exists>p. proofs st l = Some p
        \<and> foldl (hashPair cr) (fromHex l) p = n \<and> length p \<le> b \<and> (\<forall>x \<in> set p. length x = 32))"

definition below :: "tree_state \<Rightarrow> buffer list \<Rightarrow> string list" where
  "below st ns = concat (map (\<lambda>n. entry (descendants st) (toHex n)) ns)"

text \<open>\<open>xs\<close> is the part of the next level already built, \<open>ys\<close> the rest of the current one.\<close>

definition frontier :: "crypto \<Rightarrow> string set \<Rightarrow> nat \<Rightarrow> buffer list \<Rightarrow> buffer list \<Rightarrow> tree_state \<Rightarrow> bool" where
  "frontier cr leaves k xs ys st \<longleftrightarrow>
     distinct (xs @ ys) \<and> (\<forall>n \<in> set (xs @ ys). length n = 32)
     \<and> (\<forall>n \<in> set xs. node_ok cr st (Suc k) n) \<and> (\<forall>n \<in> set ys. node_ok cr st k n)
     \<and> distinct (below st (xs @ ys)) \<and> set (below st (xs @ ys)) = leaves"

fun hashed :: "crypto \<Rightarrow> buffer list \<Rightarrow> buffer list" where
  "hashed cr (l # r # t) = hashPair cr l r # hashed cr t"
| "hashed cr _ = []"

fun parents :: "crypto \<Rightarrow> buffer list \<Rightarrow> buffer list" where
  "parents cr (l # r # t) = hashPair cr l r # parents cr t"
| "parents cr xs = xs"

lemma length_parents: "length (parents cr xs) = (length xs + 1) div 2"
  by (induction cr xs rule: parents.induct) auto

text \<open>
  The hash does not collide inside the tree: at every level the new parents differ from each
  other and from the nodes of the level.
\<close>

function collision_free :: "crypto \<Rightarrow> buffer list \<Rightarrow> bool" where
  "collision_free cr level \<longleftrightarrow>
     (if 1 < length level then distinct (level @ hashed cr level) \<and> collision_free cr (parents cr level)
      else True)"
  by auto
termination
  by (relation "measure (\<lambda>(cr, level). length level)") (auto simp: length_parents)

declare collision_free.simps [simp del]

lemma entry_upd: "entry (m(k \<mapsto> v)) k' = (if k' = k then v else entry m k')"
  by (simp add: entry_def)

lemma push_all_apply:
  "distinct ls \<Longrightarrow> push_all ls x m l = (if l \<in> set ls then Some (entry m l @ [x]) else m l)"
  by (induction ls arbitrary: m) (auto simp: push_all_def entry_upd)

lemma below_simps [simp]:
  "below st [] = []" "below st (n # ns) = entry (descendants st) (toHex n) @ below st ns"
  "below st (xs @ ys) = below st xs @ below st ys"
  by (simp_all add: below_def)

lemma below_memberD: "n \<in> set ns \<Longrightarrow> l \<in> set (entry (descendants st) (toHex n)) \<Longrightarrow> l \<in> set (below st ns)"
  by (auto simp: below_def)

lemma next_level_parents: "fst (next_level cr xs st) = parents cr xs"
  by (induction cr xs st rule: next_level.induct) (auto split: prod.splits simp: Let_def)

text \<open>A node apart from the two that are joined keeps its leaves and their proofs.\<close>

lemma join_pair_other:
  assumes "node_ok cr st b n" "n \<noteq> hashPair cr l r"
    and "distinct (entry (descendants st) (toHex l))" "distinct (entry (descendants st) (toHex r))"
    and "set (entry (descendants st) (toHex n)) \<inter>
      (set (entry (descendants st) (toHex l)) \<union> set (entry (descendants st) (toHex r))) = {}"
  shows "node_ok cr (join_pair cr l r st) b n"
    "entry (descendants (join_pair cr l r st)) (toHex n) = entry (descendants st) (toHex n)"
proof -
  show e: "entry (descendants (join_pair cr l r st)) (toHex n) = entry (descendants st) (toHex n)"
    using assms(2) by (simp add: join_pair_def Let_def entry_upd)
  have "proofs (join_pair cr l r st) x = proofs st x" if "x \<in> set (entry (descendants st) (toHex n))" for x
    using that assms(3-5) by (auto simp: join_pair_def Let_def push_all_apply)
  with e assms(1,2) show "node_ok cr (join_pair cr l r st) b n"
    by (auto simp: node_ok_def join_pair_def Let_def)
qed

lemma join_pair_parent:
  assumes "node_ok cr st b l" "node_ok cr st b r" "length l = 32" "length r = 32"
    and "distinct (entry (descendants st) (toHex l) @ entry (descendants st) (toHex r))"
  shows "node_ok cr (join_pair cr l r st) (Suc b) (hashPair cr l r)"
proof -
  let ?ls = "entry (descendants st) (toHex l)" and ?rs = "entry (descendants st) (toHex r)"
  have p: "proofs (join_pair cr l r st) x =
      (if x \<in> set ?ls then Some (entry (proofs st) x @ [r])
       else if x \<in> set ?rs then Some (entry (proofs st) x @ [l]) else proofs st x)" for x
    using assms(5) by (auto simp: join_pair_def Let_def push_all_apply entry_def)
  have e: "entry (descendants (join_pair cr l r st)) (toHex (hashPair cr l r)) = ?ls @ ?rs"
    by (simp add: join_pair_def Let_def entry_upd)
  have left: "\<exists>q. proofs (join_pair cr l r st) x = Some q \<and> foldl (hashPair cr) (fromHex x) q = hashPair cr l r
      \<and> length q \<le> Suc b \<and> (\<forall>y \<in> set q. length y = 32)" if "x \<in> set ?ls" for x
    using assms(1,4) that by (force simp: node_ok_def p entry_def)
  have right: "\<exists>q. proofs (join_pair cr l r st) x = Some q \<and> foldl (hashPair cr) (fromHex x) q = hashPair cr l r
      \<and> length q \<le> Suc b \<and> (\<forall>y \<in> set q. length y = 32)" if "x \<in> set ?rs" for x
  proof -
    from that assms(5) have "x \<notin> set ?ls" by auto
    then show ?thesis
      using assms(2,3) that hashPair_commute [of cr l r] by (force simp: node_ok_def p entry_def)
  qed
  show ?thesis
    using left right by (auto simp: node_ok_def e) (simp add: join_pair_def Let_def)
qed

lemma frontier_join:
  assumes f: "frontier cr leaves k xs (l # r # ys) st" and len: "length (hashPair cr l r) = 32"
    and fresh: "hashPair cr l r \<notin> set (xs @ l # r # ys)"
  shows "frontier cr leaves k (xs @ [hashPair cr l r]) ys (join_pair cr l r st)"
proof -
  let ?st = "join_pair cr l r st"
  note F = f [unfolded frontier_def]
  have d: "distinct (below st xs @ entry (descendants st) (toHex l) @ entry (descendants st) (toHex r) @ below st ys)"
    using F by simp
  have other: "node_ok cr ?st b n" "entry (descendants ?st) (toHex n) = entry (descendants st) (toHex n)"
    if "n \<in> set xs \<union> set ys" "node_ok cr st b n" for n b
  proof -
    have "set (entry (descendants st) (toHex n)) \<subseteq> set (below st xs) \<union> set (below st ys)"
      using that(1) below_memberD by fastforce
    then have "set (entry (descendants st) (toHex n)) \<inter>
      (set (entry (descendants st) (toHex l)) \<union> set (entry (descendants st) (toHex r))) = {}"
      using d by auto
    moreover have "n \<noteq> hashPair cr l r" using that(1) fresh by auto
    ultimately show "node_ok cr ?st b n" "entry (descendants ?st) (toHex n) = entry (descendants st) (toHex n)"
      using join_pair_other [OF that(2)] d by auto
  qed
  have parent: "node_ok cr ?st (Suc k) (hashPair cr l r)"
    by (rule join_pair_parent) (use F d in auto)
  have same: "below ?st xs = below st xs" "below ?st ys = below st ys"
    unfolding below_def by (intro arg_cong [of _ _ concat] map_cong refl other(2), use F in auto)+
  have "entry (descendants ?st) (toHex (hashPair cr l r))
      = entry (descendants st) (toHex l) @ entry (descendants st) (toHex r)"
    by (simp add: join_pair_def Let_def entry_upd)
  then have b: "below ?st ((xs @ [hashPair cr l r]) @ ys) = below st (xs @ l # r # ys)"
    by (simp add: same)
  have "\<forall>n \<in> set ys. node_ok cr ?st k n" "\<forall>n \<in> set (xs @ [hashPair cr l r]). node_ok cr ?st (Suc k) n"
    using other(1) parent F by auto
  moreover have "distinct ((xs @ [hashPair cr l r]) @ ys)" using F fresh by auto
  moreover have "\<forall>n \<in> set ((xs @ [hashPair cr l r]) @ ys). length n = 32" using F len by auto
  ultimately show ?thesis
    using F unfolding frontier_def b by blast
qed

lemma node_ok_mono: "node_ok cr st k n \<Longrightarrow> node_ok cr st (Suc k) n"
  unfolding node_ok_def by (meson le_SucI)

text \<open>One pass turns a frontier of the level into a frontier of the next.\<close>

lemma frontier_next_level:
  assumes "\<And>b. length (sha256_raw cr b) = 32"
  shows "frontier cr leaves k xs ys st \<Longrightarrow> distinct (xs @ ys @ hashed cr ys) \<Longrightarrow>
    frontier cr leaves k (xs @ fst (next_level cr ys st)) [] (snd (next_level cr ys st))"
  using assms
proof (induction cr ys st arbitrary: xs rule: next_level.induct)
  case (1 cr l r t st)
  have "frontier cr leaves k (xs @ [hashPair cr l r]) t (join_pair cr l r st)"
    by (rule frontier_join) (use 1 in \<open>auto intro: length_hashPair\<close>)
  then have "frontier cr leaves k ((xs @ [hashPair cr l r]) @ fst (next_level cr t (join_pair cr l r st))) []
      (snd (next_level cr t (join_pair cr l r st)))"
    by (rule "1.IH") (use 1 in auto)
  then show ?case by (simp add: Let_def case_prod_unfold)
next
  case (2 cr l st)
  then show ?case using node_ok_mono by (auto simp: frontier_def)
next
  case (3 cr st)
  then show ?case by simp
qed

lemma frontier_shift: "frontier cr leaves k xs [] st \<Longrightarrow> frontier cr leaves (Suc k) [] xs st"
  by (simp add: frontier_def)

lemma frontier_climb:
  assumes "\<And>b. length (sha256_raw cr b) = 32"
  shows "frontier cr leaves k [] level st \<Longrightarrow> collision_free cr level \<Longrightarrow> level \<noteq> [] \<Longrightarrow>
    length level \<le> 2 ^ m \<Longrightarrow>
    \<exists>top st'. climb cr level st = ([top], st') \<and> frontier cr leaves (k + m) [] [top] st'"
proof (induction m arbitrary: level st k)
  case 0
  then obtain top where "level = [top]" by (cases level) auto
  then show ?case using 0 by (simp add: climb.simps [of cr "[top]"])
next
  case (Suc m)
  show ?case
  proof (cases "1 < length level")
    case True
    let ?n = "next_level cr level st"
    have cf: "distinct (level @ hashed cr level)" "collision_free cr (parents cr level)"
      using Suc.prems(2) True by (simp_all add: collision_free.simps [of cr level])
    have "frontier cr leaves k (fst ?n) [] (snd ?n)"
      using frontier_next_level [OF assms, of leaves k "[]" level st] Suc.prems(1) cf(1) by simp
    then have f: "frontier cr leaves (Suc k) [] (fst ?n) (snd ?n)" by (rule frontier_shift)
    have "length (fst ?n) = (length level + 1) div 2" by (rule length_next_level)
    then have "fst ?n \<noteq> []" "length (fst ?n) \<le> 2 ^ m" using True Suc.prems(4) by auto
    from Suc.IH [OF f _ this] cf(2) obtain top st' where
      "climb cr (fst ?n) (snd ?n) = ([top], st')" "frontier cr leaves (Suc k + m) [] [top] st'"
      by (auto simp: next_level_parents)
    then show ?thesis using True by (simp add: climb.simps [of cr level])
  next
    case False
    then obtain top where l: "level = [top]" using Suc.prems(3) by (cases level) auto
    have "frontier cr leaves (k + Suc m) [] [top] st"
      using Suc.prems(1) unfolding l frontier_def node_ok_def by fastforce
    then show ?thesis using l by (simp add: climb.simps [of cr "[top]"])
  qed
qed

section \<open>Completeness of the proofs\<close>

lemma seed_state_apply:
  "proofs (seed_state ls) k = (if k \<in> toHex ` set ls then Some [] else None)"
  "descendants (seed_state ls) k = (if k \<in> toHex ` set ls then Some [k] else None)"
  by (induction ls rule: rev_induct) (auto simp: seed_state_def)

lemma frontier_seed:
  assumes "distinct ls" "\<forall>n \<in> set ls. length n = 32"
  shows "frontier cr (toHex ` set ls) 0 [] ls (seed_state ls)"
proof -
  have "below (seed_state ls) ns = map toHex ns" if "set ns \<subseteq> set ls" for ns
    using that by (induction ns) (auto simp: entry_def seed_state_apply)
  then have "below (seed_state ls) ls = map toHex ls" by blast
  then show ?thesis
    using assms by (auto simp: frontier_def node_ok_def seed_state_apply entry_def distinct_map inj_on_def)
qed

lemma parseHash_toHex [simp]: "length b = 32 \<Longrightarrow> parseHash (toHex b) = Inr b"
  using hash_ok_lower [of "toHex b"] by (simp add: parseHash_def)

lemma parseHash_eq_Inr: "parseHash s = Inr b \<longleftrightarrow> hash_ok (toLowerCase s) \<and> b = fromHex (toLowerCase s)"
  by (auto simp: parseHash_def Let_def)

lemma to_lower_idem [simp]: "to_lower (to_lower c) = to_lower c"
  by (auto simp: to_lower_def is_upper_def)

lemma fold_proof_toHex:
  "\<forall>x \<in> set p. length x = 32 \<Longrightarrow> fold_proof cr n (map toHex p) = Inr (foldl (hashPair cr) n p)"
  by (induction p arbitrary: n) auto

text \<open>The leaves of an accepted list, in the order the builder uses.\<close>

definition leaves_of :: "string list \<Rightarrow> buffer list" where
  "leaves_of specs = js_sort buffer_compare (map (fromHex \<circ> toLowerCase) specs)"

lemma mapM_parseHash:
  "mapM parseHash (map toLowerCase specs) = Inr ps \<Longrightarrow>
     ps = map (fromHex \<circ> toLowerCase) specs \<and> (\<forall>s \<in> set specs. hash_ok (toLowerCase s))"
  by (induction specs arbitrary: ps) (auto simp: outcome_simps parseHash_eq_Inr comp_def)

lemma leaves_of_props:
  assumes "\<forall>s \<in> set specs. hash_ok (toLowerCase s)" "distinct (map toLowerCase specs)"
  shows "distinct (leaves_of specs)" "\<forall>n \<in> set (leaves_of specs). length n = 32"
    "toHex ` set (leaves_of specs) = toLowerCase ` set specs"
proof -
  have "inj_on fromHex (set (map toLowerCase specs))"
    using assms(1) by (intro inj_on_inverseI [of _ toHex]) (auto simp: hash_ok_roundtrip)
  then have "distinct (map fromHex (map toLowerCase specs))"
    using assms(2) unfolding distinct_map [of fromHex] by blast
  then show "distinct (leaves_of specs)" by (simp add: leaves_of_def)
  show "\<forall>n \<in> set (leaves_of specs). length n = 32" using assms(1) by (auto simp: leaves_of_def hash_ok_length)
  show "toHex ` set (leaves_of specs) = toLowerCase ` set specs"
    using assms(1) by (auto simp: leaves_of_def hash_ok_roundtrip image_image)
qed

lemma listed_has_proof:
  assumes "buildSpecAllowlist cr specs = Inr al" "s \<in> set specs"
    and "\<And>b. length (sha256_raw cr b) = 32" "collision_free cr (leaves_of specs)"
  shows "\<exists>p. al_proofs al (toLowerCase s) = Some p \<and> length p \<le> 16
     \<and> verifySpecProof cr s p (al_root al) = Inr True \<and> hash_ok (al_root al)"
proof -
  let ?ls = "leaves_of specs"
  from assms(1) have ok: "\<forall>s \<in> set specs. hash_ok (toLowerCase s)" and ne: "specs \<noteq> []"
    and dist: "distinct (map toLowerCase specs)" and small: "length ?ls \<le> 2 ^ 16"
    and al: "al = (case climb cr ?ls (seed_state ?ls) of (level, st) \<Rightarrow>
       \<lparr>al_root = toHex (hd level), al_proofs = map_option (map toHex) \<circ> proofs st\<rparr>)"
    using mapM_parseHash [of specs] card_set_eq_length_iff [of "map toLowerCase specs"]
    by (auto simp: buildSpecAllowlist_def outcome_simps Let_def leaves_of_def case_prod_unfold)
  note props = leaves_of_props [OF ok dist]
  have "?ls \<noteq> []" using ne by (simp add: leaves_of_def)
  from frontier_climb [OF assms(3) frontier_seed [OF props(1,2)] assms(4) this small]
  obtain top st where top: "climb cr ?ls (seed_state ?ls) = ([top], st)"
    "frontier cr (toHex ` set ?ls) (0 + 16) [] [top] st" by blast
  have "node_ok cr st 16 top" "length top = 32"
    "set (entry (descendants st) (toHex top)) = toHex ` set ?ls"
    using top(2) by (simp_all add: frontier_def)
  moreover have "toLowerCase s \<in> toHex ` set ?ls" using assms(2) props(3) by simp
  ultimately obtain p where p: "proofs st (toLowerCase s) = Some p"
    "foldl (hashPair cr) (fromHex (toLowerCase s)) p = top" "length p \<le> 16" "\<forall>x \<in> set p. length x = 32"
    "length top = 32"
    unfolding node_ok_def by blast
  have "verifySpecProof cr s (map toHex p) (toHex top) = Inr True"
  proof -
    have "parseHash s = Inr (fromHex (toLowerCase s))" using ok assms(2) by (simp add: parseHash_eq_Inr)
    then show ?thesis using p by (simp add: verifySpecProof_def fold_proof_toHex)
  qed
  with p top(1) al show ?thesis by simp
qed

text \<open>
  Every listed specification can be bought: for an allowlist the builder returns, each of the
  hashes it was given has a proof under its lower-case key, the proof has at most the 16 siblings
  the program accepts, and it verifies against the published root, provided SHA-256 does not
  collide inside the tree.
\<close>

theorem allowlist_complete:
  assumes "buildSpecAllowlist cr specs = Inr al" "s \<in> set specs"
    and "\<And>b. length (sha256_raw cr b) = 32" "collision_free cr (leaves_of specs)"
  shows "\<exists>p. al_proofs al (toLowerCase s) = Some p \<and> length p \<le> 16
     \<and> verifySpecProof cr s p (al_root al) = Inr True"
  using listed_has_proof [OF assms] by blast

definition sample_specs :: "string list" where
  "sample_specs = [replicate 64 CHR ''B'', replicate 64 CHR ''a'']"

lemma sample_specs_build: "\<exists>al. buildSpecAllowlist sample_crypto sample_specs = Inr al"
proof -
  have "parseHash (replicate 64 CHR ''b'') = Inr (fromHex (replicate 64 CHR ''b''))"
    "parseHash (replicate 64 CHR ''a'') = Inr (fromHex (replicate 64 CHR ''a''))"
    by (simp_all add: parseHash_eq_Inr is_hex_lower_def to_lower_def is_upper_def)
  moreover have "map toLowerCase sample_specs = [replicate 64 CHR ''b'', replicate 64 CHR ''a'']"
    by code_simp
  moreover have "sample_specs \<noteq> []" by (simp add: sample_specs_def)
  ultimately show ?thesis by (simp add: buildSpecAllowlist_def Let_def case_prod_unfold)
qed

lemma sample_specs_collision_free: "collision_free sample_crypto (leaves_of sample_specs)"
  by code_simp

theorem allowlist_complete_witness:
  "\<exists>al p. buildSpecAllowlist sample_crypto sample_specs = Inr al \<and> al_proofs al (replicate 64 CHR ''a'') = Some p
     \<and> verifySpecProof sample_crypto (replicate 64 CHR ''a'') p (al_root al) = Inr True"
proof -
  obtain al where al: "buildSpecAllowlist sample_crypto sample_specs = Inr al" using sample_specs_build by blast
  have "toLowerCase (replicate 64 CHR ''a'') = replicate 64 CHR ''a''" by code_simp
  with allowlist_complete [OF al, of "replicate 64 CHR ''a''"] sample_specs_collision_free al
  show ?thesis by (auto simp: sample_specs_def sample_crypto_def)
qed

end
