(* ===== verification/Scheduler.thy ===== *)
theory Scheduler
  imports Receipts
begin

text \<open>
  The scheduler: bid selection (\<^verbatim>\<open>apps/scheduler/src/select.ts\<close>), sharding and leadership
  (\<^verbatim>\<open>coordinator.ts\<close>), and the lease store it runs on (\<^verbatim>\<open>insforge-leases.ts\<close> over the SQL
  functions of \<^verbatim>\<open>migrations/20260911120000_v2-orchestration.sql\<close>). The interface
  \<^verbatim>\<open>LeaseStore\<close> is the locale \<open>lease_store\<close>, with the laws a coordinator relies on; mutual
  exclusion of leaders is proved once inside it and holds of the SQL model by interpretation.
\<close>

section \<open>Selecting a bid\<close>

record bid =
  b_id :: string
  b_price :: int
  b_expiresAt :: int
  b_providerReputation :: rat
  b_estimatedStart :: int

definition bid_cmp :: "bid \<Rightarrow> bid \<Rightarrow> rat" where
  "bid_cmp a b =
     (if b_price a = b_price b then b_providerReputation b - b_providerReputation a
      else if b_price a < b_price b then - 1 else 1)"

definition bid_ok :: "int \<Rightarrow> int \<Rightarrow> int \<Rightarrow> bid \<Rightarrow> bool" where
  "bid_ok budget deadline now b \<longleftrightarrow>
     0 < b_price b \<and> b_price b \<le> budget \<and> now < b_expiresAt b \<and> b_estimatedStart b \<le> deadline"

definition selectBid :: "bid list \<Rightarrow> int \<Rightarrow> int \<Rightarrow> int \<Rightarrow> bid option" where
  "selectBid bids budget deadline now =
     (case js_sort bid_cmp (filter (bid_ok budget deadline now) bids) of
        [] \<Rightarrow> None | b # _ \<Rightarrow> Some b)"

lemma bid_cmp_lex: "bid_cmp = lex_cmp b_price b_providerReputation"
  by (intro ext) (simp add: bid_cmp_def lex_cmp_def)

interpretation bids: js_comparator bid_cmp
  unfolding bid_cmp_lex by unfold_locales

text \<open>
  Bid selection is optimal: no bid is returned exactly when none is eligible; a returned bid
  is one of the eligible bids, none of them is cheaper, none of the same price has a better
  reputation, and among exact ties the one submitted first wins.
\<close>

theorem selectBid_optimal:
  "case selectBid bids budget deadline now of
     None \<Rightarrow> \<forall>b \<in> set bids. \<not> bid_ok budget deadline now b
   | Some b \<Rightarrow> b \<in> set bids \<and> bid_ok budget deadline now b
       \<and> (\<forall>c \<in> set bids. bid_ok budget deadline now c \<longrightarrow>
            b_price b < b_price c
            \<or> b_price b = b_price c \<and> b_providerReputation c \<le> b_providerReputation b)
       \<and> find (\<lambda>c. bid_ok budget deadline now c \<and> b_price c = b_price b
            \<and> b_providerReputation c = b_providerReputation b) bids = Some b"
proof (cases "js_sort bid_cmp (filter (bid_ok budget deadline now) bids)")
  case Nil
  then show ?thesis by (simp add: selectBid_def filter_empty_conv)
next
  case (Cons b rest)
  let ?es = "filter (bid_ok budget deadline now) bids"
  have mem: "b \<in> set ?es" using Cons set_js_sort [of bid_cmp ?es] by (metis list.set_intros(1))
  have least: "bid_cmp b c \<le> 0" if "c \<in> set ?es" for c
    using bids.js_sort_hd_least [OF that] Cons by simp
  have tie: "bid_cmp b c = 0 \<longleftrightarrow> b_price c = b_price b \<and> b_providerReputation c = b_providerReputation b" for c
    by (auto simp: bid_cmp_def)
  have "filter (\<lambda>c. bid_cmp b c = 0) ?es = b # filter (\<lambda>c. bid_cmp b c = 0) rest"
    using bids.js_sort_stable [of b ?es] Cons bids.cmp_refl by simp
  then have "find (\<lambda>c. bid_ok budget deadline now c \<and> bid_cmp b c = 0) bids = Some b"
    by (simp add: find_dropWhile filter_eq_Cons_iff dropWhile_append3)
      (auto simp: filter_eq_Cons_iff dropWhile_append)
  then have first: "find (\<lambda>c. bid_ok budget deadline now c \<and> b_price c = b_price b
      \<and> b_providerReputation c = b_providerReputation b) bids = Some b"
    unfolding tie .
  have "b_price b < b_price c \<or> b_price b = b_price c \<and> b_providerReputation c \<le> b_providerReputation b"
    if "c \<in> set bids" "bid_ok budget deadline now c" for c
    using least [of c] that by (simp add: bid_cmp_lex lex_cmp_le)
  with mem first Cons show ?thesis by (simp add: selectBid_def)
qed

definition sample_bid :: "string \<Rightarrow> int \<Rightarrow> rat \<Rightarrow> bid" where
  "sample_bid i p r = \<lparr>b_id = i, b_price = p, b_expiresAt = 100, b_providerReputation = r, b_estimatedStart = 20\<rparr>"

theorem selectBid_optimal_witness:
  "\<exists>b. selectBid [sample_bid ''a'' 7 50, sample_bid ''b'' 5 10, sample_bid ''c'' 5 90] 10 30 0 = Some b
     \<and> b_price b = 5 \<and> b_providerReputation b = 90"
proof -
  let ?bs = "[sample_bid ''a'' 7 50, sample_bid ''b'' 5 10, sample_bid ''c'' 5 90]"
  show ?thesis
    using selectBid_optimal [of ?bs 10 30 0]
    by (cases "selectBid ?bs 10 30 0") (auto simp: bid_ok_def sample_bid_def)
qed

section \<open>Sharding\<close>

text \<open>\<^verbatim>\<open>readUInt32BE(0)\<close> of the digest.\<close>

definition readUInt32BE :: "buffer \<Rightarrow> int" where
  "readUInt32BE b = foldl (\<lambda>acc x. acc * 256 + uint x) 0 (take 4 b)"

definition schedulerShard :: "crypto \<Rightarrow> string \<Rightarrow> rat \<Rightarrow> int outcome" where
  "schedulerShard cr key shardCount =
     (if of_int \<lfloor>shardCount\<rfloor> \<noteq> shardCount \<or> shardCount < 1 \<or> 1024 < shardCount
      then Inl ''Invalid scheduler shard count''
      else Inr (readUInt32BE (sha256_raw cr (utf8 key)) mod \<lfloor>shardCount\<rfloor>))"

lemma schedulerShard_range:
  "schedulerShard cr key n = Inr i \<Longrightarrow> 0 \<le> i \<and> of_int i < n"
proof -
  assume a: "schedulerShard cr key n = Inr i"
  then have n: "of_int \<lfloor>n\<rfloor> = n" "1 \<le> n" and i: "i = readUInt32BE (sha256_raw cr (utf8 key)) mod \<lfloor>n\<rfloor>"
    by (auto simp: schedulerShard_def split: if_splits)
  have "0 < \<lfloor>n\<rfloor>" using n(2) by simp
  then have "0 \<le> i" "i < \<lfloor>n\<rfloor>" by (simp_all add: i)
  then show ?thesis using n(1) by (metis of_int_less_iff)
qed

section \<open>Coordinators\<close>

text \<open>Times are in microseconds, the resolution of the database clock.\<close>

record lease_record =
  lr_lease :: string
  lr_owner :: string
  lr_fencingToken :: int
  lr_expiresAt :: int

type_synonym 's claim_op = "'s \<Rightarrow> int \<Rightarrow> string \<Rightarrow> string \<Rightarrow> int \<Rightarrow> ('s \<times> lease_record option) outcome"
type_synonym 's release_op = "'s \<Rightarrow> string \<Rightarrow> string \<Rightarrow> int \<Rightarrow> 's \<times> bool"

record coordinator =
  co_owner :: string
  co_lease :: string
  co_ttlSeconds :: int
  co_current :: "lease_record option"

definition new_coordinator :: "string \<Rightarrow> int \<Rightarrow> string \<Rightarrow> coordinator outcome" where
  "new_coordinator lease ttlSeconds owner =
     (if lease = [] \<or> ttlSeconds < 3 \<or> 300 < ttlSeconds then Inl ''Invalid scheduler lease configuration''
      else Inr \<lparr>co_owner = owner, co_lease = lease, co_ttlSeconds = ttlSeconds, co_current = None\<rparr>)"

text \<open>\<open>now\<close> is the store's clock when the claim is served.\<close>

definition acquire ::
  "'s claim_op \<Rightarrow> coordinator \<Rightarrow> int \<Rightarrow> 's \<Rightarrow> ('s \<times> coordinator \<times> lease_record option) outcome" where
  "acquire claim c now s =
     andThen (claim s now (co_lease c) (co_owner c) (co_ttlSeconds c)) (\<lambda>(s', r).
       Inr (s', c\<lparr>co_current := r\<rparr>, r))"

definition renew ::
  "'s claim_op \<Rightarrow> coordinator \<Rightarrow> int \<Rightarrow> 's \<Rightarrow> ('s \<times> coordinator \<times> lease_record option) outcome" where
  "renew claim c now s = (case co_current c of
     None \<Rightarrow> Inr (s, c, None)
   | Some cur \<Rightarrow>
       andThen (claim s now (co_lease c) (co_owner c) (co_ttlSeconds c)) (\<lambda>(s', next).
         case next of
           None \<Rightarrow> Inr (s', c\<lparr>co_current := None\<rparr>, None)
         | Some n \<Rightarrow>
             if lr_fencingToken n \<noteq> lr_fencingToken cur then Inr (s', c\<lparr>co_current := None\<rparr>, None)
             else Inr (s', c\<lparr>co_current := Some n\<rparr>, Some n)))"

definition assertLeader :: "coordinator \<Rightarrow> int \<Rightarrow> unit outcome" where
  "assertLeader c token = (case co_current c of
     None \<Rightarrow> Inl ''Scheduler lease lost''
   | Some cur \<Rightarrow> guard (lr_fencingToken cur = token) ''Scheduler lease lost'')"

definition release :: "'s release_op \<Rightarrow> coordinator \<Rightarrow> 's \<Rightarrow> 's \<times> coordinator \<times> bool" where
  "release rel c s = (case co_current c of
     None \<Rightarrow> (s, c\<lparr>co_current := None\<rparr>, False)
   | Some l \<Rightarrow> (let (s', b) = rel s (lr_lease l) (lr_owner l) (lr_fencingToken l)
       in (s', c\<lparr>co_current := None\<rparr>, b)))"

section \<open>The database\<close>

record lease_row =
  owner_id :: string
  fencing_token :: int
  expires_at :: int

type_synonym lease_table = "string \<rightharpoonup> lease_row"

text \<open>
  The upsert: insert a fresh row with token 1, or update the row when the caller owns it or it
  has expired. No row is returned when the update's condition fails.
\<close>

definition claim_scheduler_lease ::
  "lease_table \<Rightarrow> int \<Rightarrow> string \<Rightarrow> string \<Rightarrow> int \<Rightarrow> (lease_table \<times> lease_row option) outcome" where
  "claim_scheduler_lease t now lease owner ttl =
     (if \<not> (1 \<le> length lease \<and> length lease \<le> 100) \<or> \<not> (3 \<le> ttl \<and> ttl \<le> 300) then Inl ''Invalid scheduler lease''
      else case t lease of
        None \<Rightarrow>
          (let row = \<lparr>owner_id = owner, fencing_token = 1, expires_at = now + ttl * 1000000\<rparr>
           in Inr (t(lease \<mapsto> row), Some row))
      | Some old \<Rightarrow>
          if owner_id old = owner \<or> expires_at old < now then
            (let token = (if owner_id old = owner then fencing_token old else fencing_token old + 1);
                 row = \<lparr>owner_id = owner, fencing_token = token, expires_at = now + ttl * 1000000\<rparr>
             in if 9223372036854775807 < token then Inl ''bigint out of range''
                else Inr (t(lease \<mapsto> row), Some row))
          else Inr (t, None))"

definition release_scheduler_lease :: "lease_table \<Rightarrow> string \<Rightarrow> string \<Rightarrow> int \<Rightarrow> lease_table \<times> bool" where
  "release_scheduler_lease t lease owner token = (case t lease of
     Some row \<Rightarrow> if owner_id row = owner \<and> fencing_token row = token then (t(lease := None), True) else (t, False)
   | None \<Rightarrow> (t, False))"

definition row_record :: "string \<Rightarrow> lease_row \<Rightarrow> lease_record" where
  "row_record lease row = \<lparr>lr_lease = lease, lr_owner = owner_id row,
     lr_fencingToken = fencing_token row, lr_expiresAt = expires_at row\<rparr>"

text \<open>\<^verbatim>\<open>InsForgeLeaseStore\<close>\<close>

definition insforge_claim :: "lease_table claim_op" where
  "insforge_claim t now lease owner ttl =
     andThen (claim_scheduler_lease t now lease owner ttl) (\<lambda>(t', row).
       Inr (t', map_option (row_record lease) row))"

definition insforge_release :: "lease_table release_op" where
  "insforge_release t lease owner token = release_scheduler_lease t lease owner token"

section \<open>What a lease store promises\<close>

locale lease_store =
  fixes claim :: "'s claim_op" and rel :: "'s release_op" and holder :: "'s \<Rightarrow> string \<Rightarrow> lease_record option"
  assumes claim_granted: "claim s now l ow ttl = Inr (s', Some r) \<Longrightarrow>
      holder s' l = Some r \<and> lr_lease r = l \<and> lr_owner r = ow"
    and claim_refused: "claim s now l ow ttl = Inr (s', None) \<Longrightarrow> holder s' l = holder s l"
    and claim_frame: "claim s now l ow ttl = Inr (s', x) \<Longrightarrow> l' \<noteq> l \<Longrightarrow> holder s' l' = holder s l'"
    and claim_exclusive: "claim s now l ow ttl = Inr (s', x) \<Longrightarrow> holder s l = Some r \<Longrightarrow>
      lr_owner r \<noteq> ow \<Longrightarrow> now \<le> lr_expiresAt r \<Longrightarrow> x = None"
    and release_frame: "rel s l ow t = (s', b) \<Longrightarrow> holder s l' = Some r \<Longrightarrow>
      \<not> (l' = l \<and> lr_owner r = ow \<and> lr_fencingToken r = t) \<Longrightarrow> holder s' l' = Some r"

text \<open>Schedulers sharing a store, each with its own owner identifier.\<close>

record 's cluster =
  clock :: int
  db :: 's
  node :: "string \<Rightarrow> coordinator"

inductive cluster_step :: "'s claim_op \<Rightarrow> 's release_op \<Rightarrow> 's cluster \<Rightarrow> 's cluster \<Rightarrow> bool"
  for claim :: "'s claim_op" and rel :: "'s release_op" where
  tick: "0 \<le> d \<Longrightarrow> cluster_step claim rel w (w\<lparr>clock := clock w + d\<rparr>)"
| step_acquire: "acquire claim (node w i) (clock w) (db w) = Inr (s', c', x) \<Longrightarrow>
    cluster_step claim rel w (w\<lparr>db := s', node := (node w)(i := c')\<rparr>)"
| step_renew: "renew claim (node w i) (clock w) (db w) = Inr (s', c', x) \<Longrightarrow>
    cluster_step claim rel w (w\<lparr>db := s', node := (node w)(i := c')\<rparr>)"
| step_release: "release rel (node w i) (db w) = (s', c', b) \<Longrightarrow>
    cluster_step claim rel w (w\<lparr>db := s', node := (node w)(i := c')\<rparr>)"

text \<open>A coordinator whose lease, by its own record, has not expired.\<close>

definition leads :: "'s cluster \<Rightarrow> string \<Rightarrow> string \<Rightarrow> bool" where
  "leads w l i \<longleftrightarrow> co_lease (node w i) = l \<and>
     (case co_current (node w i) of Some r \<Rightarrow> clock w \<le> lr_expiresAt r | None \<Rightarrow> False)"

definition fresh_cluster :: "'s cluster \<Rightarrow> bool" where
  "fresh_cluster w \<longleftrightarrow> (\<forall>i. co_owner (node w i) = i \<and> co_current (node w i) = None)"

context lease_store
begin

definition lease_inv :: "'s cluster \<Rightarrow> bool" where
  "lease_inv w \<longleftrightarrow> (\<forall>i. co_owner (node w i) = i) \<and>
     (\<forall>i r. co_current (node w i) = Some r \<longrightarrow> lr_owner r = i \<and> lr_lease r = co_lease (node w i)
        \<and> (clock w \<le> lr_expiresAt r \<longrightarrow> holder (db w) (co_lease (node w i)) = Some r))"

lemma acquire_inv:
  assumes inv: "lease_inv w" and step: "acquire claim (node w i) (clock w) (db w) = Inr (s', c', x)"
  shows "lease_inv (w\<lparr>db := s', node := (node w)(i := c')\<rparr>)"
proof -
  let ?l = "co_lease (node w i)"
  have own: "co_owner (node w i) = i" using inv by (simp add: lease_inv_def)
  from step own have cl: "claim (db w) (clock w) ?l i (co_ttlSeconds (node w i)) = Inr (s', x)"
    and c': "c' = (node w i)\<lparr>co_current := x\<rparr>"
    by (auto simp: acquire_def outcome_simps)
  have keep: "holder s' (co_lease (node w j)) = Some r"
    if "co_current (node w j) = Some r" "j \<noteq> i" "clock w \<le> lr_expiresAt r" for j r
  proof -
    have h: "holder (db w) (co_lease (node w j)) = Some r" "lr_owner r \<noteq> i"
      using that inv by (auto simp: lease_inv_def)
    show ?thesis
    proof (cases "co_lease (node w j) = ?l")
      case True
      then have "x = None" using claim_exclusive [OF cl] h that(3) by simp
      then show ?thesis using claim_refused cl h True by metis
    qed (use claim_frame [OF cl] h in auto)
  qed
  show ?thesis
    using inv keep claim_granted [of "db w" "clock w" ?l i "co_ttlSeconds (node w i)" s'] cl own
    by (auto simp: lease_inv_def c')
qed

lemma lose_lease_inv: "lease_inv w \<Longrightarrow> lease_inv (w\<lparr>node := (node w)(i := (node w i)\<lparr>co_current := None\<rparr>)\<rparr>)"
  by (auto simp: lease_inv_def)

lemma renew_inv:
  assumes inv: "lease_inv w" and step: "renew claim (node w i) (clock w) (db w) = Inr (s', c', x)"
  shows "lease_inv (w\<lparr>db := s', node := (node w)(i := c')\<rparr>)"
proof (cases "co_current (node w i)")
  case None
  then show ?thesis using step inv by (auto simp: renew_def lease_inv_def)
next
  case (Some cur)
  then obtain y where acq: "acquire claim (node w i) (clock w) (db w) = Inr (s', (node w i)\<lparr>co_current := y\<rparr>, y)"
    and c': "c' = (node w i)\<lparr>co_current := y\<rparr> \<or> c' = (node w i)\<lparr>co_current := None\<rparr>"
    using step by (auto simp: renew_def acquire_def outcome_simps split: option.splits if_splits)
  from acquire_inv [OF inv acq] lose_lease_inv [OF acquire_inv [OF inv acq], of i] c'
  show ?thesis by auto
qed

lemma release_inv:
  assumes inv: "lease_inv w" and step: "release rel (node w i) (db w) = (s', c', b)"
  shows "lease_inv (w\<lparr>db := s', node := (node w)(i := c')\<rparr>)"
proof (cases "co_current (node w i)")
  case None
  then show ?thesis using step inv by (auto simp: release_def lease_inv_def)
next
  case (Some r)
  then have rl: "rel (db w) (lr_lease r) (lr_owner r) (lr_fencingToken r) = (s', b)"
    and c': "c' = (node w i)\<lparr>co_current := None\<rparr>" and ow: "lr_owner r = i"
    using step inv by (auto simp: release_def lease_inv_def split: prod.splits)
  have "holder s' (co_lease (node w j)) = Some q"
    if "co_current (node w j) = Some q" "j \<noteq> i" "clock w \<le> lr_expiresAt q" for j q
    using release_frame [OF rl, of "co_lease (node w j)" q] that inv ow by (auto simp: lease_inv_def)
  with inv show ?thesis by (auto simp: lease_inv_def c')
qed

lemma cluster_step_inv: "cluster_step claim rel w w' \<Longrightarrow> lease_inv w \<Longrightarrow> lease_inv w'"
proof (induction rule: cluster_step.induct)
  case (tick d w)
  then show ?case by (auto simp: lease_inv_def)
qed (auto intro: acquire_inv renew_inv release_inv)

lemma reachable_inv: "(cluster_step claim rel)\<^sup>*\<^sup>* w w' \<Longrightarrow> lease_inv w \<Longrightarrow> lease_inv w'"
  by (induction rule: rtranclp_induct) (auto intro: cluster_step_inv)

lemma one_leader:
  assumes "fresh_cluster w" "(cluster_step claim rel)\<^sup>*\<^sup>* w w'" "leads w' l i" "leads w' l j"
  shows "i = j"
proof -
  have "lease_inv w" using assms(1) by (simp add: fresh_cluster_def lease_inv_def)
  then have inv: "lease_inv w'" using assms(2) reachable_inv by blast
  from assms(3,4) obtain r q where "co_current (node w' i) = Some r" "clock w' \<le> lr_expiresAt r"
    "co_current (node w' j) = Some q" "clock w' \<le> lr_expiresAt q" "co_lease (node w' i) = co_lease (node w' j)"
    by (auto simp: leads_def split: option.splits)
  with inv show ?thesis unfolding lease_inv_def by (metis option.inject)
qed

end

definition pg_holder :: "lease_table \<Rightarrow> string \<Rightarrow> lease_record option" where
  "pg_holder t l = map_option (row_record l) (t l)"

lemma claim_Inr_cases:
  assumes "claim_scheduler_lease t now l ow ttl = Inr (t', x)"
  obtains (fresh) row where "t l = None" "x = Some row" "t' = t(l \<mapsto> row)" "owner_id row = ow" "fencing_token row = 1"
      "expires_at row = now + ttl * 1000000"
  | (update) old row where "t l = Some old" "owner_id old = ow \<or> expires_at old < now" "x = Some row"
      "t' = t(l \<mapsto> row)" "owner_id row = ow" "expires_at row = now + ttl * 1000000"
      "fencing_token row = (if owner_id old = ow then fencing_token old else fencing_token old + 1)"
  | (refused) old where "t l = Some old" "owner_id old \<noteq> ow" "now \<le> expires_at old" "x = None" "t' = t"
  using assms by (auto simp: claim_scheduler_lease_def Let_def split: if_splits option.splits)

interpretation insforge: lease_store insforge_claim insforge_release pg_holder
proof
  fix s now l ow ttl s' r
  assume "insforge_claim s now l ow ttl = Inr (s', Some r)"
  then show "pg_holder s' l = Some r \<and> lr_lease r = l \<and> lr_owner r = ow"
    by (auto simp: insforge_claim_def outcome_simps pg_holder_def row_record_def elim!: claim_Inr_cases)
next
  fix s now l ow ttl s'
  assume "insforge_claim s now l ow ttl = Inr (s', None)"
  then show "pg_holder s' l = pg_holder s l"
    by (auto simp: insforge_claim_def outcome_simps pg_holder_def elim!: claim_Inr_cases)
next
  fix s now l ow ttl s' x l'
  assume "insforge_claim s now l ow ttl = Inr (s', x)" "l' \<noteq> l"
  then show "pg_holder s' l' = pg_holder s l'"
    by (auto simp: insforge_claim_def outcome_simps pg_holder_def elim!: claim_Inr_cases)
next
  fix s now l ow ttl s' x r
  assume "insforge_claim s now l ow ttl = Inr (s', x)" "pg_holder s l = Some r" "lr_owner r \<noteq> ow" "now \<le> lr_expiresAt r"
  then show "x = None"
    by (auto simp: insforge_claim_def outcome_simps pg_holder_def row_record_def elim!: claim_Inr_cases)
next
  fix s l ow t s' b l' r
  assume "insforge_release s l ow t = (s', b)" "pg_holder s l' = Some r"
    "\<not> (l' = l \<and> lr_owner r = ow \<and> lr_fencingToken r = t)"
  then show "pg_holder s' l' = Some r"
    by (auto simp: insforge_release_def release_scheduler_lease_def pg_holder_def row_record_def
        split: option.splits if_splits)
qed

text \<open>
  C3. At most one leader: from a cluster of schedulers with distinct owner identifiers and no
  lease, however claims, renewals, releases and the passing of time interleave, no two schedulers
  hold the same lease unexpired at the database clock.
\<close>

theorem at_most_one_leader:
  assumes "fresh_cluster w" "(cluster_step insforge_claim insforge_release)\<^sup>*\<^sup>* w w'"
    and "leads w' l i" "leads w' l j"
  shows "i = j"
  using assms by (rule insforge.one_leader)

definition sample_coordinator :: "string \<Rightarrow> coordinator" where
  "sample_coordinator i = \<lparr>co_owner = i, co_lease = ''market'', co_ttlSeconds = 15, co_current = None\<rparr>"

definition sample_cluster :: "lease_table cluster" where
  "sample_cluster = \<lparr>clock = 0, db = Map.empty, node = sample_coordinator\<rparr>"

theorem at_most_one_leader_witness:
  "\<exists>w'. (cluster_step insforge_claim insforge_release)\<^sup>*\<^sup>* sample_cluster w'
     \<and> leads w' ''market'' ''a'' \<and> \<not> leads w' ''market'' ''b''"
proof -
  obtain s' c' x where acq: "acquire insforge_claim (node sample_cluster ''a'') (clock sample_cluster)
      (db sample_cluster) = Inr (s', c', x)"
    and c': "c' = (sample_coordinator ''a'')\<lparr>co_current := Some
      \<lparr>lr_lease = ''market'', lr_owner = ''a'', lr_fencingToken = 1, lr_expiresAt = 15000000\<rparr>\<rparr>"
    by (simp add: acquire_def sample_cluster_def sample_coordinator_def insforge_claim_def
        claim_scheduler_lease_def row_record_def Let_def)
  let ?w = "sample_cluster\<lparr>db := s', node := (node sample_cluster)(''a'' := c')\<rparr>"
  have fresh: "fresh_cluster sample_cluster"
    by (simp add: fresh_cluster_def sample_cluster_def sample_coordinator_def)
  have run: "(cluster_step insforge_claim insforge_release)\<^sup>*\<^sup>* sample_cluster ?w"
    using step_acquire [OF acq] by blast
  have "leads ?w ''market'' ''a''"
    by (simp add: leads_def c' sample_cluster_def sample_coordinator_def)
  with at_most_one_leader [OF fresh run, of "''market''" "''a''" "''b''"] run show ?thesis by auto
qed

section \<open>Fencing tokens\<close>

text \<open>A sequence of claims: time, lease, owner and lifetime of each.\<close>

fun run_claims :: "lease_table \<Rightarrow> (int \<times> string \<times> string \<times> int) list \<Rightarrow> lease_table outcome" where
  "run_claims t [] = Inr t"
| "run_claims t ((now, l, ow, ttl) # ops) =
     andThen (insforge_claim t now l ow ttl) (\<lambda>(t', _). run_claims t' ops)"

lemma claim_token_step:
  assumes "insforge_claim t now l ow ttl = Inr (t', x)" "t k = Some row"
  obtains row' where "t' k = Some row'" "fencing_token row \<le> fencing_token row'"
    "owner_id row' \<noteq> owner_id row \<Longrightarrow> fencing_token row < fencing_token row'"
  using assms by (cases "k = l")
    (auto simp: insforge_claim_def outcome_simps elim!: claim_Inr_cases split: if_splits)

text \<open>
  While no lease is released, fencing tokens order the leaders: along any sequence of claims
  the token of a lease never decreases, and it grows whenever the lease has changed hands.
\<close>

theorem fencing_tokens_grow:
  "run_claims t ops = Inr t' \<Longrightarrow> t l = Some row \<Longrightarrow>
     \<exists>row'. t' l = Some row' \<and> fencing_token row \<le> fencing_token row'
       \<and> (owner_id row' \<noteq> owner_id row \<longrightarrow> fencing_token row < fencing_token row')"
proof (induction t ops arbitrary: row rule: run_claims.induct)
  case (1 t)
  then show ?case by simp
next
  case (2 t now k ow ttl ops)
  from 2(2) obtain t1 x where c: "insforge_claim t now k ow ttl = Inr (t1, x)" "run_claims t1 ops = Inr t'"
    by (auto simp: outcome_simps)
  from claim_token_step [OF c(1) 2(3)] obtain row1 where r1: "t1 l = Some row1"
    "fencing_token row \<le> fencing_token row1"
    "owner_id row1 \<noteq> owner_id row \<longrightarrow> fencing_token row < fencing_token row1" by blast
  have "\<exists>row'. t' l = Some row' \<and> fencing_token row1 \<le> fencing_token row'
       \<and> (owner_id row' \<noteq> owner_id row1 \<longrightarrow> fencing_token row1 < fencing_token row')"
    using "2.IH" c r1(1) by fastforce
  with r1 show ?case by (metis order.strict_trans1 order.strict_trans2 order_trans)
qed

theorem fencing_tokens_grow_witness:
  "\<exists>t' row'. run_claims [''market'' \<mapsto> \<lparr>owner_id = ''a'', fencing_token = 1, expires_at = 15000000\<rparr>]
       [(20000000, ''market'', ''b'', 15)] = Inr t' \<and> t' ''market'' = Some row' \<and> 1 \<le> fencing_token row'"
proof -
  let ?t = "[''market'' \<mapsto> \<lparr>owner_id = ''a'', fencing_token = 1, expires_at = 15000000\<rparr>]"
  have "\<exists>t'. run_claims ?t [(20000000, ''market'', ''b'', 15)] = Inr t'"
    by (simp add: insforge_claim_def claim_scheduler_lease_def Let_def)
  then obtain t' where run: "run_claims ?t [(20000000, ''market'', ''b'', 15)] = Inr t'" by blast
  with fencing_tokens_grow [OF run, of "''market''"] show ?thesis by auto
qed

text \<open>
  Releasing a lease forgets its token: scheduler a leads with token 1 and pauses, b takes the
  expired lease with token 2 and releases it, and the next leader c is given token 1 again. The
  token of the current leader then equals the token a still holds, so a's own check succeeds and
  a store comparing tokens cannot tell a's stale decision from c's.
\<close>

theorem fencing_token_reused:
  "\<exists>tA cA rA tB cB rB tR cR tC cC rC.
     acquire insforge_claim (sample_coordinator ''a'') 0 Map.empty = Inr (tA, cA, Some rA)
   \<and> acquire insforge_claim (sample_coordinator ''b'') 20000000 tA = Inr (tB, cB, Some rB)
   \<and> release insforge_release cB tB = (tR, cR, True)
   \<and> acquire insforge_claim (sample_coordinator ''c'') 21000000 tR = Inr (tC, cC, Some rC)
   \<and> lr_fencingToken rB = 2 \<and> lr_fencingToken rC = 1 \<and> lr_fencingToken rA = 1
   \<and> assertLeader cA (lr_fencingToken rC) = Inr ()"
  by (simp add: acquire_def release_def assertLeader_def sample_coordinator_def insforge_claim_def
      insforge_release_def claim_scheduler_lease_def release_scheduler_lease_def row_record_def Let_def)

end
