(* ===== verification/Executors.thy ===== *)
theory Executors
  imports Verification "HOL-Library.Sublist"
begin

text \<open>
  The execution backends of a provider host (\<^verbatim>\<open>executors/\<close>): the hardened container command
  lines, the OPA admission call (\<^verbatim>\<open>packages/policy/opa.ts\<close> with the repository's own rule file
  \<^verbatim>\<open>infra/policy/execution.rego\<close>), the Docker and the mock backend. The interface
  \<^verbatim>\<open>ExecutionBackend\<close> is the locale \<open>execution_backend\<close> (\<open>timed_backend\<close> for a single clock): what the worker may rely on in the
  result it collects. The Docker daemon, \<^verbatim>\<open>nvidia-smi\<close> and the OPA binary are parameters.
\<close>

section \<open>Interface data\<close>

record exec_result =
  x_stdout :: buffer
  x_stderr :: buffer
  x_result :: buffer
  x_exitCode :: int
  x_startedAt :: int
  x_finishedAt :: int
  x_gpuUuids :: "string list"
  x_actualDigest :: string
  x_telemetry :: telemetry

text \<open>What a backend remembers of a job it prepared.\<close>

record running_job =
  rj_spec :: job_spec
  rj_gpuUuids :: "string list"
  rj_startedAt :: int
  rj_samples :: nat
  rj_peakVramMb :: rat

section \<open>Container command lines\<close>

datatype oci_runtime = Crunc | Crunsc

fun runtime_name :: "oci_runtime \<Rightarrow> string" where
  "runtime_name Crunc = ''runc''"
| "runtime_name Crunsc = ''runsc''"

definition ociRuntime :: "string option \<Rightarrow> oci_runtime outcome" where
  "ociRuntime value = (let v = (case value of Some x \<Rightarrow> x | None \<Rightarrow> ''runc'') in
     if v = ''runc'' then Inr Crunc else if v = ''runsc'' then Inr Crunsc
     else Inl (''Unsupported OCI runtime: '' @ v))"

text \<open>\<^verbatim>\<open>/^[a-zA-Z0-9_-]{1,64}$/\<close> and \<^verbatim>\<open>/^GPU-[a-fA-F0-9-]+$/\<close>\<close>

definition job_name_ok :: "string \<Rightarrow> bool" where
  "job_name_ok s \<longleftrightarrow> 1 \<le> length s \<and> length s \<le> 64
     \<and> list_all (\<lambda>c. is_lower c \<or> is_upper c \<or> is_digit c \<or> c = CHR ''_'' \<or> c = CHR ''-'') s"

definition gpu_uuid_ok :: "string \<Rightarrow> bool" where
  "gpu_uuid_ok s \<longleftrightarrow> take 4 s = ''GPU-'' \<and> drop 4 s \<noteq> [] \<and> list_all (\<lambda>c. is_hex c \<or> c = CHR ''-'') (drop 4 s)"

definition image_ref :: "job_spec \<Rightarrow> string" where
  "image_ref spec = repository spec @ ''@'' @ digest spec"

definition docker_options :: "string \<Rightarrow> job_spec \<Rightarrow> string list \<Rightarrow> oci_runtime \<Rightarrow> string list" where
  "docker_options job spec gpus rt =
     [''create'', ''--runtime'', runtime_name rt, ''--name'', ''vc-'' @ job,
      ''--label'', ''vericompute.managed=true'', ''--user'', ''65532:65532'', ''--read-only'',
      ''--cap-drop'', ''ALL'', ''--security-opt'', ''no-new-privileges:true'', ''--network'', ''none'',
      ''--ipc'', ''private'', ''--pids-limit'', ''128'',
      ''--memory'', bigint_toString (ramMb spec) @ ''m'', ''--memory-swap'', bigint_toString (ramMb spec) @ ''m'',
      ''--cpus'', bigint_toString (cpuCores spec),
      ''--tmpfs'', ''/tmp:rw,noexec,nosuid,size='' @ bigint_toString (min (storageMb spec) 1024) @ ''m'',
      ''--log-driver'', ''local'', ''--log-opt'', ''max-size=1m'', ''--log-opt'', ''max-file=1'',
      ''--log-opt'', ''compress=false'']
     @ (if gpus \<noteq> [] then [''--gpus'', ''device='' @ join '','' gpus] else [])"

definition dockerArgs :: "string \<Rightarrow> job_spec \<Rightarrow> string list \<Rightarrow> oci_runtime \<Rightarrow> string list outcome" where
  "dockerArgs job spec gpus rt =
     (if \<not> job_name_ok job then Inl ''Unsafe container ID''
      else if int (length gpus) \<noteq> gpu_count spec \<or> list_ex (\<lambda>g. \<not> gpu_uuid_ok g) gpus
      then Inl ''Assignment GPU UUID mismatch''
      else Inr (docker_options job spec gpus rt @ [image_ref spec] @ command spec))"

text \<open>\<^verbatim>\<open>/^\/[a-zA-Z0-9._/-]+$/\<close>\<close>

definition model_path_ok :: "string \<Rightarrow> bool" where
  "model_path_ok s \<longleftrightarrow> s \<noteq> [] \<and> hd s = CHR ''/'' \<and> tl s \<noteq> []
     \<and> list_all (\<lambda>c. is_lower c \<or> is_upper c \<or> is_digit c \<or> c \<in> set ''._/-'') (tl s)"

definition vllm_network :: string where
  "vllm_network = ''vericompute-services''"

definition vllm_options :: "string \<Rightarrow> job_spec \<Rightarrow> string list \<Rightarrow> oci_runtime \<Rightarrow> string list" where
  "vllm_options job spec gpus rt =
     [''create'', ''--runtime'', runtime_name rt, ''--name'', ''vc-service-'' @ job,
      ''--label'', ''vericompute.managed=true'', ''--label'', ''vericompute.job='' @ job,
      ''--user'', ''65532:65532'', ''--read-only'', ''--cap-drop'', ''ALL'',
      ''--security-opt'', ''no-new-privileges:true'', ''--network'', vllm_network,
      ''--publish'', ''127.0.0.1::8000'', ''--pids-limit'', ''1024'',
      ''--memory'', bigint_toString (ramMb spec) @ ''m'', ''--memory-swap'', bigint_toString (ramMb spec) @ ''m'',
      ''--cpus'', bigint_toString (cpuCores spec),
      ''--tmpfs'', ''/tmp:rw,noexec,nosuid,size='' @ bigint_toString (min (storageMb spec) 4096) @ ''m'']
     @ (if gpus \<noteq> [] then [''--gpus'', ''device='' @ join '','' gpus] else [])"

definition vllmDockerArgs :: "string \<Rightarrow> job_spec \<Rightarrow> string list \<Rightarrow> oci_runtime \<Rightarrow> string list outcome" where
  "vllmDockerArgs job spec gpus rt =
     andThen (guard (job_name_ok job) ''Unsafe service ID'') (\<lambda>_.
     case service spec of
       None \<Rightarrow> Inl ''vLLM executor requires a vLLM service specification''
     | Some sv \<Rightarrow>
       andThen (guard (sv_kind sv = ''vllm'') ''vLLM executor requires a vLLM service specification'') (\<lambda>_.
       andThen (guard (int (length gpus) = gpu_count spec) ''vLLM GPU assignment does not match the job specification'') (\<lambda>_.
       andThen (guard (list_all gpu_uuid_ok gpus) ''Invalid GPU UUID'') (\<lambda>_.
       andThen (guard (model_path_ok (sv_model sv)) ''vLLM model must be an absolute path baked into the pinned image'') (\<lambda>_.
         Inr (vllm_options job spec gpus rt
           @ [image_ref spec, ''vllm'', ''serve'', sv_model sv, ''--host'', ''0.0.0.0'', ''--port'', ''8000'',
              ''--max-model-len'', bigint_toString (sv_contextTokens sv),
              ''--tensor-parallel-size'', bigint_toString (max 1 (gpu_count spec))]))))))"

definition vllmInternalEndpoint :: "string \<Rightarrow> string outcome" where
  "vllmInternalEndpoint job = andThen (guard (job_name_ok job) ''Unsafe service ID'') (\<lambda>_.
     Inr (''http://vc-service-'' @ job @ '':8000/v1''))"

section \<open>OPA admission\<close>

text \<open>The binary's fate: it could not be spawned, was killed after five seconds, or closed.\<close>

datatype opa_run = Spawn_failed | Timed_out | Closed int "json option" string

text \<open>\<^verbatim>\<open>JSON.parse(output).result?.[0]?.expressions?.[0]?.value\<close>\<close>

definition json_get :: "string \<Rightarrow> json option \<Rightarrow> json option" where
  "json_get k j = (case j of Some (JObj kvs) \<Rightarrow> map_of kvs k | _ \<Rightarrow> None)"

definition json_first :: "json option \<Rightarrow> json option" where
  "json_first j = (case j of Some (JArr (x # _)) \<Rightarrow> Some x | _ \<Rightarrow> None)"

definition opa_value :: "json \<Rightarrow> json option" where
  "opa_value out = json_get ''value'' (json_first (json_get ''expressions'' (json_first (json_get ''result'' (Some out)))))"

definition enforceOpa :: "(json \<Rightarrow> opa_run) \<Rightarrow> json \<Rightarrow> unit outcome" where
  "enforceOpa opa input = (case opa input of
     Spawn_failed \<Rightarrow> Inl ''OPA is required on provider hosts''
   | Timed_out \<Rightarrow> Inl ''OPA policy check timed out''
   | Closed status out err \<Rightarrow>
       if status \<noteq> 0 then Inl (''Execution denied by OPA: '' @ err)
       else case out of
         None \<Rightarrow> Inl ''SyntaxError''
       | Some j \<Rightarrow> if opa_value j = Some (JBool True) then Inr () else Inl (''Execution denied by OPA: '' @ err))"

text \<open>The rule file: \<^verbatim>\<open>allow\<close> of \<^verbatim>\<open>infra/policy/execution.rego\<close>.\<close>

definition pinned_image :: "string \<Rightarrow> bool" where
  "pinned_image s \<longleftrightarrow> 72 \<le> length s \<and> take 8 (drop (length s - 72) s) = ''@sha256:'' \<and> hash_ok (drop (length s - 64) s)"

definition rego_safe_network :: "json \<Rightarrow> bool" where
  "rego_safe_network i \<longleftrightarrow> json_get ''network'' (Some i) = Some (JStr ''none'')
     \<or> json_get ''network'' (Some i) = Some (JStr ''vericompute-services'') \<and> json_get ''egress'' (Some i) = Some (JBool False)"

definition rego_allow :: "json \<Rightarrow> bool" where
  "rego_allow i \<longleftrightarrow> json_get ''privileged'' (Some i) = Some (JBool False) \<and> rego_safe_network i
     \<and> json_get ''pid'' (Some i) = Some (JStr ''private'') \<and> json_get ''mounts'' (Some i) = Some (JArr [])
     \<and> json_get ''user'' (Some i) = Some (JStr ''65532'')
     \<and> (case json_get ''image'' (Some i) of Some (JStr s) \<Rightarrow> pinned_image s | _ \<Rightarrow> False)"

text \<open>An OPA binary that evaluates that file.\<close>

definition rego_opa :: "json \<Rightarrow> opa_run" where
  "rego_opa i = Closed 0 (Some (JObj [(''result'', JArr [JObj [(''expressions'',
     JArr [JObj [(''value'', JBool (rego_allow i))]])]])])) []"

lemma enforceOpa_rego: "enforceOpa rego_opa i = (if rego_allow i then Inr () else Inl ''Execution denied by OPA: '')"
  by (simp add: enforceOpa_def rego_opa_def opa_value_def json_get_def json_first_def)

definition docker_opa_input :: "job_spec \<Rightarrow> json" where
  "docker_opa_input spec = JObj [(''privileged'', JBool False), (''network'', JStr ''none''),
     (''pid'', JStr ''private''), (''mounts'', JArr []), (''image'', JStr (image_ref spec)), (''user'', JStr ''65532'')]"

definition vllm_opa_input :: "job_spec \<Rightarrow> json" where
  "vllm_opa_input spec = JObj [(''privileged'', JBool False), (''network'', JStr vllm_network),
     (''egress'', JBool False), (''pid'', JStr ''private''), (''mounts'', JArr []),
     (''image'', JStr (image_ref spec)), (''user'', JStr ''65532'')]"

section \<open>GPU telemetry\<close>

text \<open>
  \<^verbatim>\<open>Number(s)\<close> on the decimal column \<^verbatim>\<open>nvidia-smi\<close> prints: digits with an optional fraction;
  \<open>None\<close> is \<^verbatim>\<open>NaN\<close>.
\<close>

definition js_number :: "string \<Rightarrow> rat option" where
  "js_number s = (case split_on CHR ''.'' (trim s) of
     [i] \<Rightarrow> if i = [] then Some 0 else map_option of_nat (parse_radix 10 i)
   | [i, f] \<Rightarrow> (case (parse_radix 10 i, parse_radix 10 f) of
       (Some a, Some b) \<Rightarrow> Some (of_nat a + of_nat b / 10 ^ length f) | _ \<Rightarrow> None)
   | _ \<Rightarrow> None)"

definition gpu_line :: "string \<Rightarrow> string \<times> rat option" where
  "gpu_line line = (case map trim (split_on CHR '','' line) of
     i # m # _ \<Rightarrow> (i, js_number m) | [i] \<Rightarrow> (i, None) | [] \<Rightarrow> ([], None))"

text \<open>\<^verbatim>\<open>new Map(entries)\<close>: a later entry for a key replaces an earlier one.\<close>

definition gpu_readings :: "string \<Rightarrow> string \<rightharpoonup> rat option" where
  "gpu_readings out = map_of (rev (map gpu_line (split_on (CHR 0x0A) (trim out))))"

definition sampleGpu :: "string outcome \<Rightarrow> string list \<Rightarrow> rat outcome" where
  "sampleGpu smi gpus = (if gpus = [] then Inr 0 else
     andThen smi (\<lambda>out. let m = gpu_readings out in
       case find (\<lambda>i. case m i of Some (Some _) \<Rightarrow> False | _ \<Rightarrow> True) gpus of
         Some i \<Rightarrow> Inl (''No valid telemetry for assigned GPU '' @ i)
       | None \<Rightarrow> Inr (Max ((\<lambda>i. the (the (m i))) ` set gpus))))"

section \<open>The Docker backend\<close>

text \<open>
  The host as a parameter: \<open>dk\<close> runs a docker subcommand and returns its standard output (parsed,
  for the commands that print JSON), \<open>dk_logs\<close> the raw log streams, \<open>dk_opa\<close> the policy binary.
  Every command is recorded, so the order of effects can be stated.
\<close>

record docker_host =
  dk :: "string list \<Rightarrow> json outcome"
  dk_logs :: "string list \<Rightarrow> (buffer \<times> buffer) outcome"
  dk_opa :: "json \<Rightarrow> opa_run"

datatype host_command = Docker "string list" | Opa json

record docker_backend =
  db_jobs :: "string \<rightharpoonup> running_job"
  db_registries :: "string list"
  db_runtime :: oci_runtime
  db_log :: "host_command list"

definition new_DockerBackend :: "string list option \<Rightarrow> oci_runtime option \<Rightarrow> docker_backend" where
  "new_DockerBackend registries rt = \<lparr>db_jobs = Map.empty,
     db_registries = (case registries of Some r \<Rightarrow> r | None \<Rightarrow> [''ghcr.io'', ''docker.io'', ''nvcr.io'']),
     db_runtime = (case rt of Some r \<Rightarrow> r | None \<Rightarrow> Crunc), db_log = []\<rparr>"

definition log_command :: "host_command \<Rightarrow> (docker_backend, unit) proc" where
  "log_command c = modifyP (\<lambda>b. b\<lparr>db_log := db_log b @ [c]\<rparr>)"

definition docker_exec :: "docker_host \<Rightarrow> string list \<Rightarrow> (docker_backend, json) proc" where
  "docker_exec h args = bindP (log_command (Docker args)) (\<lambda>_. liftP (dk h args))"

definition docker_get :: "string \<Rightarrow> (docker_backend, running_job) proc" where
  "docker_get job = bindP getP (\<lambda>b. case db_jobs b job of
     Some s \<Rightarrow> retP s | None \<Rightarrow> throwP ''Unknown execution'')"

definition docker_set :: "string \<Rightarrow> running_job \<Rightarrow> (docker_backend, unit) proc" where
  "docker_set job s = modifyP (\<lambda>b. b\<lparr>db_jobs := (db_jobs b)(job \<mapsto> s)\<rparr>)"

definition truthy :: "json option \<Rightarrow> bool" where
  "truthy j = (case j of None \<Rightarrow> False | Some v \<Rightarrow> v \<notin> {JNull, JBool False, JNum 0, JStr []})"

definition assertRuntimeAvailable :: "docker_host \<Rightarrow> (docker_backend, unit) proc" where
  "assertRuntimeAvailable h =
     bindP getP (\<lambda>b.
     bindP (docker_exec h [''info'', ''--format'', ''{{json .Runtimes}}'']) (\<lambda>out.
       requireP (truthy (json_get (runtime_name (db_runtime b)) (Some out)))
         (''Configured OCI runtime '' @ runtime_name (db_runtime b) @ '' is unavailable on this host'')))"

text \<open>\<^verbatim>\<open>s.replace(/^docker.io\/(library\/)?/, "")\<close>; the dot of the pattern matches any character.\<close>

definition strip_hub :: "string \<Rightarrow> string" where
  "strip_hub s = (if take 6 s = ''docker'' \<and> take 3 (drop 7 s) = ''io/''
     then (let r = drop 10 s in if take 8 r = ''library/'' then drop 8 r else r) else s)"

definition digest_matches :: "job_spec \<Rightarrow> string \<Rightarrow> bool" where
  "digest_matches spec d \<longleftrightarrow> (case split_on CHR ''@'' d of
     r # g # _ \<Rightarrow> g = digest spec \<and> strip_hub r = strip_hub (repository spec)
   | _ \<Rightarrow> False)"

definition json_strings :: "json \<Rightarrow> string list outcome" where
  "json_strings j = (case json_arr json_str j of Some xs \<Rightarrow> Inr xs | None \<Rightarrow> Inl ''TypeError'')"

definition docker_prepare :: "docker_host \<Rightarrow> string \<Rightarrow> job_spec \<Rightarrow> string list \<Rightarrow> (docker_backend, unit) proc" where
  "docker_prepare h job input gpuUuids =
     bindP getP (\<lambda>b.
     bindP (liftP (enforceExecutionPolicy (spec_json input) (db_registries b))) (\<lambda>spec.
     bindP (assertRuntimeAvailable h) (\<lambda>_.
     bindP (log_command (Opa (docker_opa_input spec))) (\<lambda>_.
     bindP (liftP (enforceOpa (dk_opa h) (docker_opa_input spec))) (\<lambda>_.
     bindP (docker_exec h [''pull'', image_ref spec]) (\<lambda>_.
     bindP (docker_exec h [''image'', ''inspect'', image_ref spec, ''--format'', ''{{json .RepoDigests}}'']) (\<lambda>out.
     bindP (liftP (json_strings out)) (\<lambda>ds.
     bindP (requireP (list_ex (digest_matches spec) ds) ''Pulled image does not match committed digest'') (\<lambda>_.
     bindP (liftP (dockerArgs job spec gpuUuids (db_runtime b))) (\<lambda>args.
     bindP (docker_exec h args) (\<lambda>_.
       docker_set job \<lparr>rj_spec = spec, rj_gpuUuids = gpuUuids, rj_startedAt = 0, rj_samples = 0, rj_peakVramMb = 0\<rparr>)))))))))))"

definition docker_start :: "docker_host \<Rightarrow> int \<Rightarrow> string \<Rightarrow> (docker_backend, unit) proc" where
  "docker_start h now job =
     bindP (docker_get job) (\<lambda>s.
     bindP (docker_set job (s\<lparr>rj_startedAt := now\<rparr>)) (\<lambda>_.
     bindP (docker_exec h [''start'', ''vc-'' @ job]) (\<lambda>_. retP ())))"

text \<open>Seconds since the epoch of an ISO 8601 time in UTC; the fraction is dropped.\<close>

definition days_from_civil :: "int \<Rightarrow> int \<Rightarrow> int \<Rightarrow> int" where
  "days_from_civil y m d =
     (let y' = (if m \<le> 2 then y - 1 else y); era = y' div 400; yoe = y' - era * 400;
          doy = (153 * (m + (if m > 2 then - 3 else 9)) + 2) div 5 + d - 1;
          doe = yoe * 365 + yoe div 4 - yoe div 100 + doy
      in era * 146097 + doe - 719468)"

definition iso_seconds :: "string \<Rightarrow> int option" where
  "iso_seconds s = (let n = (\<lambda>i k. map_option int (parse_radix 10 (take k (drop i s)))) in
     case (n 0 4, n 5 2, n 8 2, n 11 2, n 14 2, n 17 2) of
       (Some y, Some m, Some d, Some hh, Some mm, Some ss) \<Rightarrow>
         Some (days_from_civil y m d * 86400 + hh * 3600 + mm * 60 + ss)
     | _ \<Rightarrow> None)"

definition docker_recover ::
  "docker_host \<Rightarrow> string \<Rightarrow> job_spec \<Rightarrow> string list \<Rightarrow> (docker_backend, unit) proc" where
  "docker_recover h job input gpuUuids =
     bindP getP (\<lambda>b.
     bindP (liftP (enforceExecutionPolicy (spec_json input) (db_registries b))) (\<lambda>spec.
     bindP (assertRuntimeAvailable h) (\<lambda>_.
     bindP (requireP (int (length gpuUuids) = gpu_count spec \<and> list_all gpu_uuid_ok gpuUuids)
       ''Assignment GPU UUID mismatch'') (\<lambda>_.
     bindP (docker_exec h [''inspect'', ''vc-'' @ job, ''--format'', ''{{json .}}'']) (\<lambda>out.
     let cfg = json_get ''Config'' (Some out) in
     bindP (requireP (json_get ''vericompute.managed'' (json_get ''Labels'' cfg) = Some (JStr ''true''))
       ''Refusing to recover an unmanaged container'') (\<lambda>_.
     bindP (requireP (json_get ''Image'' cfg = Some (JStr (image_ref spec)))
       ''Recovered container image does not match the job spec'') (\<lambda>_.
     let rt = json_get ''Runtime'' (json_get ''HostConfig'' (Some out)) in
     bindP (requireP ((if truthy rt then rt else Some (JStr ''runc'')) = Some (JStr (runtime_name (db_runtime b))))
       ''Recovered container runtime does not match provider policy'') (\<lambda>_.
     case json_get ''StartedAt'' (json_get ''State'' (Some out)) of
       Some (JStr since) \<Rightarrow>
         bindP (requireP (since \<noteq> [] \<and> take 5 since \<noteq> ''0001-'') ''Recovered container was never started'') (\<lambda>_.
         case iso_seconds since of
           Some t \<Rightarrow> docker_set job \<lparr>rj_spec = spec, rj_gpuUuids = gpuUuids, rj_startedAt = t, rj_samples = 0, rj_peakVramMb = 0\<rparr>
         | None \<Rightarrow> throwP ''Invalid Date'')
     | _ \<Rightarrow> throwP ''Recovered container was never started''))))))))"

definition docker_logs :: "docker_host \<Rightarrow> string \<Rightarrow> (docker_backend, buffer \<times> buffer) proc" where
  "docker_logs h job =
     bindP (docker_get job) (\<lambda>_.
     bindP (log_command (Docker [''logs'', ''vc-'' @ job])) (\<lambda>_.
       liftP (dk_logs h [''logs'', ''vc-'' @ job])))"

definition docker_status :: "docker_host \<Rightarrow> string \<Rightarrow> (docker_backend, string) proc" where
  "docker_status h job =
     bindP (docker_get job) (\<lambda>_.
     bindP (docker_exec h [''inspect'', ''--format'', ''{{.State.Status}}'', ''vc-'' @ job]) (\<lambda>out.
       retP (case out of JStr s \<Rightarrow>
           (if trim s = ''running'' then ''running'' else if trim s = ''created'' then ''prepared'' else ''finished'')
         | _ \<Rightarrow> ''finished'')))"

definition docker_stop :: "docker_host \<Rightarrow> string \<Rightarrow> (docker_backend, unit) proc" where
  "docker_stop h job =
     bindP (docker_get job) (\<lambda>_.
       catchP (bindP (docker_exec h [''kill'', ''vc-'' @ job]) (\<lambda>_. retP ())) (\<lambda>_. retP ()))"

text \<open>The interval timer: each tick samples the GPUs; the last error is remembered.\<close>

fun telemetry_ticks :: "string outcome list \<Rightarrow> running_job \<Rightarrow> string option \<Rightarrow> running_job \<times> string option" where
  "telemetry_ticks [] s err = (s, err)"
| "telemetry_ticks (smi # rest) s err = (case sampleGpu smi (rj_gpuUuids s) of
     Inr peak \<Rightarrow> telemetry_ticks rest
       (s\<lparr>rj_samples := rj_samples s + 1, rj_peakVramMb := max (rj_peakVramMb s) peak\<rparr>) err
   | Inl e \<Rightarrow> telemetry_ticks rest s (Some e))"

text \<open>
  \<open>smi0\<close> is the sample taken before waiting, \<open>ticks\<close> those of the timer. The container's exit
  code is an integer, as \<^verbatim>\<open>docker inspect\<close> documents.
\<close>

definition docker_collectResult ::
  "docker_host \<Rightarrow> string outcome \<Rightarrow> string outcome list \<Rightarrow> int \<Rightarrow> string \<Rightarrow> (docker_backend, exec_result) proc" where
  "docker_collectResult h smi0 ticks now job =
     bindP (docker_get job) (\<lambda>s.
     bindP (liftP (sampleGpu smi0 (rj_gpuUuids s))) (\<lambda>peak.
     let s1 = s\<lparr>rj_samples := rj_samples s + 1, rj_peakVramMb := peak\<rparr>;
         (s2, err) = telemetry_ticks ticks s1 None in
     bindP (docker_set job s2) (\<lambda>_.
     bindP (catchP (docker_exec h [''wait'', ''vc-'' @ job])
       (\<lambda>_. bindP (docker_stop h job) (\<lambda>_. throwP ''Execution timed out or Docker wait failed''))) (\<lambda>_.
     bindP (requireP (err = None) (the err)) (\<lambda>_.
     bindP (docker_exec h [''inspect'', ''vc-'' @ job, ''--format'', ''{{json .State}}'']) (\<lambda>state.
     bindP (docker_logs h job) (\<lambda>(out, errs).
     case Option.bind (json_get ''ExitCode'' (Some state)) json_int of
       None \<Rightarrow> throwP ''TypeError''
     | Some exitCode \<Rightarrow> retP
       \<lparr>x_stdout = out, x_stderr = errs, x_result = out, x_exitCode = exitCode, x_startedAt = rj_startedAt s2,
        x_finishedAt = now, x_gpuUuids = rj_gpuUuids s2, x_actualDigest = digest (rj_spec s2),
        x_telemetry = \<lparr>t_gpuUuids = rj_gpuUuids s2, t_samples = of_nat (rj_samples s2),
          t_peakVramMb = rj_peakVramMb s2, t_durationSeconds = of_int (now - rj_startedAt s2)\<rparr>\<rparr>)))))))"

definition docker_cleanup :: "docker_host \<Rightarrow> string \<Rightarrow> (docker_backend, unit) proc" where
  "docker_cleanup h job =
     bindP (docker_exec h [''rm'', ''-f'', ''vc-'' @ job]) (\<lambda>_.
       modifyP (\<lambda>b. b\<lparr>db_jobs := (db_jobs b)(job := None)\<rparr>))"

section \<open>The mock backend\<close>

type_synonym mock_backend = "string \<rightharpoonup> running_job"

definition new_MockBackend :: "string option \<Rightarrow> string option \<Rightarrow> mock_backend outcome" where
  "new_MockBackend mockExecutor nodeEnv =
     (if mockExecutor \<noteq> Some ''true'' \<or> nodeEnv = Some ''production''
      then Inl ''Mock execution requires explicit development MOCK_EXECUTOR=true'' else Inr Map.empty)"

definition mock_get :: "string \<Rightarrow> (mock_backend, running_job) proc" where
  "mock_get job = (\<lambda>b. (b, case b job of Some s \<Rightarrow> Inr s | None \<Rightarrow> Inl ''Unknown job''))"

definition mock_prepare :: "int \<Rightarrow> string \<Rightarrow> job_spec \<Rightarrow> string list \<Rightarrow> (mock_backend, unit) proc" where
  "mock_prepare now job spec gpuUuids = modifyP (\<lambda>b. b(job \<mapsto>
     \<lparr>rj_spec = spec, rj_gpuUuids = gpuUuids, rj_startedAt = now, rj_samples = 0, rj_peakVramMb = 0\<rparr>))"

definition mock_start :: "int \<Rightarrow> string \<Rightarrow> (mock_backend, unit) proc" where
  "mock_start now job = bindP (mock_get job) (\<lambda>s. modifyP (\<lambda>b. b(job \<mapsto> s\<lparr>rj_startedAt := now\<rparr>)))"

definition mock_logs :: "string \<Rightarrow> (mock_backend, buffer \<times> buffer) proc" where
  "mock_logs job = bindP (mock_get job) (\<lambda>_.
     retP (utf8 (''Explicit development mock execution'' @ [CHR 0x0A]), []))"

definition mock_collectResult :: "string \<Rightarrow> (mock_backend, exec_result) proc" where
  "mock_collectResult job =
     bindP (mock_get job) (\<lambda>s.
     bindP (mock_logs job) (\<lambda>(out, errs). retP
       \<lparr>x_stdout = out, x_stderr = errs, x_result = out, x_exitCode = 0, x_startedAt = rj_startedAt s,
        x_finishedAt = rj_startedAt s, x_gpuUuids = rj_gpuUuids s, x_actualDigest = digest (rj_spec s),
        x_telemetry = \<lparr>t_gpuUuids = rj_gpuUuids s, t_samples = 1, t_peakVramMb = 0, t_durationSeconds = 0\<rparr>\<rparr>))"

definition mock_cleanup :: "string \<Rightarrow> (mock_backend, unit) proc" where
  "mock_cleanup job = modifyP (\<lambda>b. b(job := None))"

section \<open>What a backend promises\<close>

text \<open>\<open>known\<close> is what the backend remembers of a job: its specification, GPUs and start time.\<close>

locale execution_backend =
  fixes prepare :: "string \<Rightarrow> job_spec \<Rightarrow> string list \<Rightarrow> ('b, unit) proc"
    and start :: "string \<Rightarrow> ('b, unit) proc"
    and collectResult :: "string \<Rightarrow> ('b, exec_result) proc"
    and known :: "'b \<Rightarrow> string \<Rightarrow> (job_spec \<times> string list \<times> int) option"
  assumes prepare_known: "spec_valid sp \<Longrightarrow> prepare j sp us b = (b', Inr ()) \<Longrightarrow> \<exists>t. known b' j = Some (sp, us, t)"
    and start_known: "start j b = (b', Inr ()) \<Longrightarrow> \<exists>sp us t t'. known b j = Some (sp, us, t) \<and> known b' j = Some (sp, us, t')"
    and collect_known: "collectResult j b = (b', Inr x) \<Longrightarrow>
      \<exists>sp us t. known b j = Some (sp, us, t) \<and> x_actualDigest x = digest sp \<and> x_gpuUuids x = us
        \<and> x_startedAt x = t \<and> t_gpuUuids (x_telemetry x) = us \<and> 0 < t_samples (x_telemetry x)"
begin

lemma run_known:
  assumes "spec_valid sp" "prepare j sp us b = (b1, Inr ())" "start j b1 = (b2, Inr ())"
  shows "\<exists>t. known b2 j = Some (sp, us, t)"
  using prepare_known [OF assms(1,2)] start_known [OF assms(3)] by auto

lemma run_assigned:
  assumes "spec_valid sp" "prepare j sp us b = (b1, Inr ())" "start j b1 = (b2, Inr ())"
    and "collectResult j b2 = (b3, Inr x)"
  shows "x_actualDigest x = digest sp \<and> x_gpuUuids x = us \<and> t_gpuUuids (x_telemetry x) = us
     \<and> 0 < t_samples (x_telemetry x)"
  using run_known [OF assms(1-3)] collect_known [OF assms(4)] by auto

end

text \<open>A backend that reads the start and the finish on one clock reports the exact duration.\<close>

locale timed_backend = execution_backend +
  assumes collect_timed: "collectResult j b = (b', Inr x) \<Longrightarrow>
      t_durationSeconds (x_telemetry x) = of_int (x_finishedAt x - x_startedAt x)"
begin

lemma run_bound:
  assumes "spec_valid sp" "prepare j sp us b = (b1, Inr ())" "start j b1 = (b2, Inr ())"
    and "collectResult j b2 = (b3, Inr x)"
  shows "x_actualDigest x = digest sp \<and> x_gpuUuids x = us \<and> t_gpuUuids (x_telemetry x) = us
     \<and> 0 < t_samples (x_telemetry x)
     \<and> t_durationSeconds (x_telemetry x) = of_int (x_finishedAt x - x_startedAt x)"
  using run_assigned [OF assms] collect_timed [OF assms(4)] by blast

end

definition job_view :: "running_job \<Rightarrow> job_spec \<times> string list \<times> int" where
  "job_view r = (rj_spec r, rj_gpuUuids r, rj_startedAt r)"

lemma job_view_update [simp]: "job_view (r\<lparr>rj_startedAt := t\<rparr>) = (rj_spec r, rj_gpuUuids r, t)"
  by (simp add: job_view_def)

lemmas docker_ops = docker_prepare_def docker_start_def docker_collectResult_def docker_get_def docker_set_def
  docker_exec_def log_command_def assertRuntimeAvailable_def docker_logs_def

lemma docker_exec_eq [proc_simps]:
  "docker_exec h args b = (b', r) \<longleftrightarrow> b' = b\<lparr>db_log := db_log b @ [Docker args]\<rparr> \<and> dk h args = r"
  by (auto simp: docker_exec_def log_command_def bindP_def modifyP_def liftP_def)

lemma docker_get_eq [proc_simps]:
  "docker_get job b = (b', r) \<longleftrightarrow>
     b' = b \<and> (case db_jobs b job of Some s \<Rightarrow> Inr s | None \<Rightarrow> Inl ''Unknown execution'') = r"
  by (auto simp: docker_get_def bindP_def getP_def retP_def throwP_def split: option.splits)

lemma docker_set_eq [proc_simps]:
  "docker_set job s b = (b', r) \<longleftrightarrow> b' = b\<lparr>db_jobs := (db_jobs b)(job \<mapsto> s)\<rparr> \<and> r = Inr ()"
  by (auto simp: docker_set_def proc_simps)

lemma log_command_eq [proc_simps]:
  "log_command c b = (b', r) \<longleftrightarrow> b' = b\<lparr>db_log := db_log b @ [c]\<rparr> \<and> r = Inr ()"
  by (auto simp: log_command_def proc_simps)

lemma enforce_spec_json:
  "spec_valid sp \<Longrightarrow> enforceExecutionPolicy (spec_json sp) regs = Inr spec \<Longrightarrow> spec = sp"
  by (simp add: enforce_Inr_iff parse_Inr_iff parse_shape_spec_json spec_valid_def)

lemma telemetry_ticks_keeps:
  "telemetry_ticks ticks s err = (s', err') \<Longrightarrow> rj_spec s' = rj_spec s \<and> rj_gpuUuids s' = rj_gpuUuids s
     \<and> rj_startedAt s' = rj_startedAt s \<and> rj_samples s \<le> rj_samples s' \<and> rj_peakVramMb s \<le> rj_peakVramMb s'"
proof (induction ticks s err rule: telemetry_ticks.induct)
  case (2 smi rest s err)
  show ?case
  proof (cases "sampleGpu smi (rj_gpuUuids s)")
    case (Inl e)
    then show ?thesis using 2 by simp
  next
    case (Inr peak)
    then show ?thesis using 2 by fastforce
  qed
qed simp

lemma docker_prepare_Inr:
  assumes "docker_prepare h j sp us b = (b', Inr ())"
  obtains spec ds args where "enforceExecutionPolicy (spec_json sp) (db_registries b) = Inr spec"
    "enforceOpa (dk_opa h) (docker_opa_input spec) = Inr ()"
    "dk h [''image'', ''inspect'', image_ref spec, ''--format'', ''{{json .RepoDigests}}''] = Inr ds"
    "\<exists>xs. json_strings ds = Inr xs \<and> list_ex (digest_matches spec) xs"
    "dockerArgs j spec us (db_runtime b) = Inr args"
    "db_jobs b' = (db_jobs b)(j \<mapsto> \<lparr>rj_spec = spec, rj_gpuUuids = us, rj_startedAt = 0, rj_samples = 0, rj_peakVramMb = 0\<rparr>)"
    "db_log b' = db_log b @ [Docker [''info'', ''--format'', ''{{json .Runtimes}}''], Opa (docker_opa_input spec),
       Docker [''pull'', image_ref spec],
       Docker [''image'', ''inspect'', image_ref spec, ''--format'', ''{{json .RepoDigests}}''], Docker args]"
  using assms
  by (auto simp: docker_prepare_def assertRuntimeAvailable_def proc_simps outcome_simps)

lemma docker_collect_Inr:
  assumes "docker_collectResult h smi0 ticks now j b = (b', Inr x)"
  obtains s where "db_jobs b j = Some s" "x_actualDigest x = digest (rj_spec s)" "x_gpuUuids x = rj_gpuUuids s"
    "x_startedAt x = rj_startedAt s" "t_gpuUuids (x_telemetry x) = rj_gpuUuids s" "0 < t_samples (x_telemetry x)"
    "t_durationSeconds (x_telemetry x) = of_int (x_finishedAt x - x_startedAt x)"
proof -
  obtain s where s: "db_jobs b j = Some s"
    using assms by (auto simp: docker_collectResult_def proc_simps split: option.splits)
  obtain peak where peak: "sampleGpu smi0 (rj_gpuUuids s) = Inr peak"
    using assms s by (auto simp: docker_collectResult_def proc_simps)
  let ?s1 = "s\<lparr>rj_samples := rj_samples s + 1, rj_peakVramMb := peak\<rparr>"
  obtain s2 err where t: "telemetry_ticks ticks ?s1 None = (s2, err)" by fastforce
  from assms s peak t have "x_actualDigest x = digest (rj_spec s2)" "x_gpuUuids x = rj_gpuUuids s2"
    "x_startedAt x = rj_startedAt s2" "t_gpuUuids (x_telemetry x) = rj_gpuUuids s2"
    "t_samples (x_telemetry x) = of_nat (rj_samples s2)"
    "t_durationSeconds (x_telemetry x) = of_int (x_finishedAt x - x_startedAt x)"
    by (auto simp: docker_collectResult_def proc_simps Let_def split: option.splits)
  with telemetry_ticks_keeps [OF t] s show thesis by (intro that) auto
qed

interpretation docker: timed_backend "docker_prepare h" "docker_start h now" "docker_collectResult h smi0 ticks now'"
  "\<lambda>b j. map_option job_view (db_jobs b j)"
  for h now smi0 ticks now'
proof
  fix sp j us b b'
  assume "spec_valid sp" "docker_prepare h j sp us b = (b', Inr ())"
  then show "\<exists>t. map_option job_view (db_jobs b' j) = Some (sp, us, t)"
    by (auto elim!: docker_prepare_Inr dest: enforce_spec_json simp: job_view_def)
next
  fix j b b'
  assume "docker_start h now j b = (b', Inr ())"
  then show "\<exists>sp us t t'. map_option job_view (db_jobs b j) = Some (sp, us, t) \<and> map_option job_view (db_jobs b' j) = Some (sp, us, t')"
    by (auto simp: docker_start_def proc_simps job_view_def split: option.splits)
qed (auto simp: job_view_def elim!: docker_collect_Inr)

lemma mock_get_eq [proc_simps]:
  "mock_get j b = (b', r) \<longleftrightarrow> b' = b \<and> (case b j of Some s \<Rightarrow> Inr s | None \<Rightarrow> Inl ''Unknown job'') = r"
  by (auto simp: mock_get_def)

interpretation mock: timed_backend "mock_prepare now" "mock_start now'" mock_collectResult "\<lambda>b j. map_option job_view (b j)"
  for now now'
  by unfold_locales
    (auto simp: job_view_def mock_prepare_def mock_start_def mock_collectResult_def mock_logs_def proc_simps split: option.splits)

section \<open>Isolation\<close>

definition dangerous_flags :: "string list" where
  "dangerous_flags = [''--privileged'', ''--volume'', ''-v'', ''--mount'', ''--device'', ''--cap-add'', ''--pid'',
     ''--userns'', ''--security-opt=seccomp=unconfined'']"

lemma number_not_flag: "bigint_toString i \<notin> set dangerous_flags" "bigint_toString i @ ''m'' \<notin> set dangerous_flags"
proof -
  have "bigInt f = Inl ''SyntaxError''" if "f \<in> set dangerous_flags" for f
    using that
    by (auto simp: dangerous_flags_def bigInt_def trim_def is_space_def parse_radix_def unnibble_def is_digit_def)
  then show "bigint_toString i \<notin> set dangerous_flags" by (metis bigInt_toString Inl_Inr_False)
  have "last f \<noteq> CHR ''m''" if "f \<in> set dangerous_flags" for f
    using that by (auto simp: dangerous_flags_def)
  then show "bigint_toString i @ ''m'' \<notin> set dangerous_flags" by force
qed

lemma template_not_flag:
  "''vc-'' @ s \<notin> set dangerous_flags" "''device='' @ s \<notin> set dangerous_flags"
  "''/tmp:rw,noexec,nosuid,size='' @ s \<notin> set dangerous_flags"
  by (simp_all add: dangerous_flags_def)

lemma fixed_not_flag:
  "list_all (\<lambda>f. f \<notin> set dangerous_flags) [''create'', ''--runtime'', ''runc'', ''runsc'', ''--name'',
      ''--label'', ''vericompute.managed=true'', ''--user'', ''65532:65532'', ''--read-only'',
      ''--cap-drop'', ''ALL'', ''--security-opt'', ''no-new-privileges:true'', ''--network'', ''none'',
      ''--ipc'', ''private'', ''--pids-limit'', ''128'', ''--memory'', ''--memory-swap'', ''--cpus'', ''--tmpfs'',
      ''--log-driver'', ''local'', ''--log-opt'', ''max-size=1m'', ''max-file=1'', ''compress=false'', ''--gpus'']"
  by (simp add: dangerous_flags_def)

lemmas not_flag = fixed_not_flag [unfolded list.pred_inject] number_not_flag template_not_flag

lemma docker_options_safe: "set (docker_options job spec gpus rt) \<inter> set dangerous_flags = {}"
proof -
  have rt: "runtime_name rt \<notin> set dangerous_flags" by (cases rt) (simp_all add: not_flag)
  have "list_all (\<lambda>f. f \<notin> set dangerous_flags) (docker_options job spec gpus rt)"
    unfolding docker_options_def list_all_append list.pred_inject
    by (intro conjI) (simp_all only: not_flag rt not_False_eq_True if_split list.pred_inject, simp_all add: not_flag)
  then show ?thesis by (auto simp: list_all_iff)
qed

lemma docker_options_hardened:
  "sublist [''--network'', ''none''] (docker_options job spec gpus rt)"
  "sublist [''--user'', ''65532:65532'', ''--read-only'', ''--cap-drop'', ''ALL'', ''--security-opt'', ''no-new-privileges:true'']
     (docker_options job spec gpus rt)"
  unfolding docker_options_def sublist_def append.simps
  by (rule exI [of _ "[''create'', ''--runtime'', runtime_name rt, ''--name'', ''vc-'' @ job,
      ''--label'', ''vericompute.managed=true'', ''--user'', ''65532:65532'', ''--read-only'',
      ''--cap-drop'', ''ALL'', ''--security-opt'', ''no-new-privileges:true'']"], simp,
     rule exI [of _ "[''create'', ''--runtime'', runtime_name rt, ''--name'', ''vc-'' @ job,
      ''--label'', ''vericompute.managed=true'']"], simp)



lemma docker_prepare_log:
  assumes "docker_prepare h job sp us b = (b', r)" "Docker (''create'' # rest) \<in> set (drop (length (db_log b)) (db_log b'))"
  obtains spec out ds pre where "enforceExecutionPolicy (spec_json sp) (db_registries b) = Inr spec"
    "enforceOpa (dk_opa h) (docker_opa_input spec) = Inr ()"
    "dk h [''image'', ''inspect'', image_ref spec, ''--format'', ''{{json .RepoDigests}}''] = Inr out"
    "json_strings out = Inr ds" "list_ex (digest_matches spec) ds"
    "dockerArgs job spec us (db_runtime b) = Inr (''create'' # rest)"
    "db_log b' = db_log b @ pre @ [Docker (''create'' # rest)]" "Opa (docker_opa_input spec) \<in> set pre"
proof (cases r)
  case (Inr u)
  then show ?thesis
    using assms that by (auto simp: docker_prepare_def assertRuntimeAvailable_def proc_simps outcome_simps)
next
  case (Inl e)
  then show ?thesis
    using assms that by (auto simp: docker_prepare_def assertRuntimeAvailable_def proc_simps outcome_simps)
qed

lemma image_ref_not_option:
  assumes "registry_of sp \<in> set regs" "\<forall>reg \<in> set regs. reg \<noteq> [] \<and> hd reg \<noteq> CHR ''-''"
  shows "hd (image_ref sp) \<noteq> CHR ''-''"
proof -
  have "registry_of sp \<noteq> []" "hd (registry_of sp) \<noteq> CHR ''-''" using assms by auto
  then show ?thesis by (cases "repository sp") (auto simp: registry_of_def image_ref_def split: if_splits)
qed

text \<open>
  No container is created before admission: if preparing a job asks the daemon to create a
  container, then (whether or not that succeeds) the specification had passed the provider's
  admission rules, the OPA policy had been asked and had allowed it, the pulled image carried the
  committed digest, and the image argument cannot be mistaken for an option.
\<close>

theorem create_after_admission:
  assumes "docker_prepare h job sp us b = (b', r)"
    and "Docker (''create'' # rest) \<in> set (drop (length (db_log b)) (db_log b'))"
    and "spec_valid sp" "\<forall>reg \<in> set (db_registries b). reg \<noteq> [] \<and> hd reg \<noteq> CHR ''-''"
  shows "registry_of sp \<in> set (db_registries b) \<and> inputs sp = [] \<and> service sp = None \<and> distributed sp = None
     \<and> enforceOpa (dk_opa h) (docker_opa_input sp) = Inr ()
     \<and> (\<exists>out ds d. dk h [''image'', ''inspect'', image_ref sp, ''--format'', ''{{json .RepoDigests}}''] = Inr out
          \<and> json_strings out = Inr ds \<and> d \<in> set ds \<and> digest_matches sp d)
     \<and> hd (image_ref sp) \<noteq> CHR ''-''
     \<and> (\<exists>pre. db_log b' = db_log b @ pre @ [Docker (''create'' # rest)] \<and> Opa (docker_opa_input sp) \<in> set pre)"
proof -
  obtain spec out ds pre where p: "enforceExecutionPolicy (spec_json sp) (db_registries b) = Inr spec"
    "enforceOpa (dk_opa h) (docker_opa_input spec) = Inr ()"
    "dk h [''image'', ''inspect'', image_ref spec, ''--format'', ''{{json .RepoDigests}}''] = Inr out"
    "json_strings out = Inr ds" "list_ex (digest_matches spec) ds"
    "db_log b' = db_log b @ pre @ [Docker (''create'' # rest)]" "Opa (docker_opa_input spec) \<in> set pre"
    by (rule docker_prepare_log [OF assms(1,2)])
  have "spec = sp" using enforce_spec_json [OF assms(3) p(1)] .
  moreover from p(1) have "registry_of spec \<in> set (db_registries b)" "inputs spec = []" "service spec = None"
    "distributed spec = None" by (simp_all add: enforce_Inr_iff)
  ultimately show ?thesis
    using p(2-7) image_ref_not_option [of sp "db_registries b"] assms(4) by (auto simp: list_ex_iff)
qed

text \<open>A host whose daemon has the committed image and whose OPA evaluates the repository's rules.\<close>

definition sample_docker :: docker_host where
  "sample_docker = \<lparr>dk = (\<lambda>args. if hd args = ''info'' then Inr (JObj [(''runc'', JStr ''runc'')])
       else if hd args = ''image'' then Inr (JArr [JStr (image_ref sample_spec)])
       else if args = [''inspect'', ''vc-job-1'', ''--format'', ''{{json .State}}''] then Inr (JObj [(''ExitCode'', jint 0)])
       else Inr JNull),
     dk_logs = (\<lambda>_. Inr (utf8 ''42'', [])), dk_opa = rego_opa\<rparr>"

lemma sample_image:
  "digest_matches sample_spec (image_ref sample_spec)" "pinned_image (image_ref sample_spec)"
  "registry_of sample_spec = ''ghcr.io''" "inputs sample_spec = []" "service sample_spec = None"
  "distributed sample_spec = None" "security sample_spec = None" "proof_of sample_spec = None"
  "command sample_spec = [''echo'', ''safe'']"
proof -
  show "digest_matches sample_spec (image_ref sample_spec)" by code_simp
  show "pinned_image (image_ref sample_spec)"
    by (simp add: pinned_image_def image_ref_def sample_spec_def is_hex_lower_def)
qed (simp_all add: sample_spec_def registry_of_def)

lemma sample_admitted: "enforceExecutionPolicy (spec_json sample_spec) [''ghcr.io'', ''docker.io'', ''nvcr.io''] = Inr sample_spec"
  using sample_spec_valid sample_image
  by (simp add: enforce_Inr_iff parse_Inr_iff parse_shape_spec_json sample_spec_fields wants_tee_def)

lemma sample_opa: "enforceOpa rego_opa (docker_opa_input sample_spec) = Inr ()"
  using sample_image by (simp add: enforceOpa_rego rego_allow_def rego_safe_network_def docker_opa_input_def json_get_def)

lemma sample_args: "\<exists>args. dockerArgs ''job-1'' sample_spec [] Crunc = Inr (''create'' # args)"
  using sample_spec_parts
  by (simp add: dockerArgs_def docker_options_def job_name_ok_def is_lower_def is_digit_def)

lemma sample_prepare:
  obtains b' rest where "docker_prepare sample_docker ''job-1'' sample_spec [] (new_DockerBackend None None) = (b', Inr ())"
    "Docker (''create'' # rest) \<in> set (db_log b')"
proof -
  obtain args where args: "dockerArgs ''job-1'' sample_spec [] Crunc = Inr (''create'' # args)"
    using sample_args by blast
  show thesis
    by (rule that [of _ args])
      (use args sample_admitted sample_opa sample_image in
        \<open>simp_all add: docker_prepare_def assertRuntimeAvailable_def new_DockerBackend_def bindP_def getP_def liftP_def
          docker_exec_def log_command_def modifyP_def requireP_def docker_set_def sample_docker_def truthy_def
          json_get_def json_strings_def json_arr_def\<close>, simp)
qed

theorem create_after_admission_witness:
  "\<exists>b'. docker_prepare sample_docker ''job-1'' sample_spec [] (new_DockerBackend None None) = (b', Inr ())
     \<and> Opa (docker_opa_input sample_spec) \<in> set (db_log b')"
proof -
  obtain b' rest where p: "docker_prepare sample_docker ''job-1'' sample_spec [] (new_DockerBackend None None) = (b', Inr ())"
    "Docker (''create'' # rest) \<in> set (db_log b')" by (rule sample_prepare)
  have "db_log (new_DockerBackend None None) = []" by (simp add: new_DockerBackend_def)
  with create_after_admission [OF p(1), of rest] p show ?thesis
    by (auto simp: sample_spec_valid new_DockerBackend_def)
qed

section \<open>Results\<close>

text \<open>
  What the Docker backend reports is what was assigned: after preparing, starting and
  collecting a job, the result names the committed image digest and the assigned GPUs, its
  telemetry is of those GPUs, has at least one sample and lasts exactly from start to finish.
\<close>

theorem docker_result_bound:
  assumes "spec_valid sp" "docker_prepare h job sp us b = (b1, Inr ())" "docker_start h now job b1 = (b2, Inr ())"
    and "docker_collectResult h smi0 ticks now' job b2 = (b3, Inr x)"
  shows "x_actualDigest x = digest sp \<and> x_gpuUuids x = us \<and> t_gpuUuids (x_telemetry x) = us
     \<and> 0 < t_samples (x_telemetry x)
     \<and> t_durationSeconds (x_telemetry x) = of_int (x_finishedAt x - x_startedAt x)"
  using assms by (rule docker.run_bound)

theorem docker_result_bound_witness:
  "\<exists>b1 b2 b3 x. docker_prepare sample_docker ''job-1'' sample_spec [] (new_DockerBackend None None) = (b1, Inr ())
     \<and> docker_start sample_docker 100 ''job-1'' b1 = (b2, Inr ())
     \<and> docker_collectResult sample_docker (Inr []) [] 110 ''job-1'' b2 = (b3, Inr x)
     \<and> x_actualDigest x = digest sample_spec \<and> 0 < t_samples (x_telemetry x)"
proof -
  obtain b1 rest where p: "docker_prepare sample_docker ''job-1'' sample_spec [] (new_DockerBackend None None) = (b1, Inr ())"
    by (rule sample_prepare)
  obtain r where r: "db_jobs b1 ''job-1'' = Some r" "rj_gpuUuids r = []"
    using docker.prepare_known [OF sample_spec_valid p] by (auto simp: job_view_def)
  obtain b2 where s: "docker_start sample_docker 100 ''job-1'' b1 = (b2, Inr ())"
    and j: "db_jobs b2 ''job-1'' = Some (r\<lparr>rj_startedAt := 100\<rparr>)"
    using r by (simp add: docker_start_def bindP_def docker_get_def getP_def retP_def docker_set_def modifyP_def
        docker_exec_def log_command_def liftP_def sample_docker_def)
  have exit: "json_int (JNum 0) = Some 0" by (simp add: json_int_def)
  obtain b3 x where c: "docker_collectResult sample_docker (Inr []) [] 110 ''job-1'' b2 = (b3, Inr x)"
    using r j exit
    by (simp add: docker_collectResult_def bindP_def docker_get_def getP_def retP_def docker_set_def modifyP_def
        docker_exec_def log_command_def liftP_def sample_docker_def sampleGpu_def catchP_def requireP_def
        docker_logs_def json_get_def Let_def)
  from docker_result_bound [OF sample_spec_valid p s c] p s c show ?thesis by blast
qed

lemma pinned_image_ref: "digest_ok (digest sp) \<Longrightarrow> pinned_image (image_ref sp)"
proof -
  assume d: "digest_ok (digest sp)"
  then have "length (digest sp) = 71"
    by (auto simp: digest_ok_def hash_ok_def)
  moreover have "digest sp = ''sha256:'' @ drop 7 (digest sp)"
    using d append_take_drop_id [of 7 "digest sp"] by (simp add: digest_ok_def)
  ultimately obtain h where h: "digest sp = ''sha256:'' @ h" "length h = 64" "hash_ok h"
    using d by (simp add: digest_ok_def hash_ok_def)
  then show ?thesis by (simp add: pinned_image_def image_ref_def)
qed

lemma opa_admits:
  assumes "spec_valid sp"
  shows "enforceOpa rego_opa (docker_opa_input sp) = Inr ()" "enforceOpa rego_opa (vllm_opa_input sp) = Inr ()"
proof -
  have "pinned_image (image_ref sp)" using assms pinned_image_ref by (simp add: spec_valid_def fields_ok_def)
  then show "enforceOpa rego_opa (docker_opa_input sp) = Inr ()" "enforceOpa rego_opa (vllm_opa_input sp) = Inr ()"
    by (simp_all add: enforceOpa_rego rego_allow_def rego_safe_network_def docker_opa_input_def vllm_opa_input_def
        vllm_network_def json_get_def)
qed

text \<open>
  OPA admission fails closed: a job is admitted only when the policy binary ran, exited with
  status zero and evaluated to true; a missing binary, a timeout, a crash, an unparsable or a
  different answer all reject. With the repository's own rules the Docker and the vLLM request
  are admitted for every digest-pinned image.
\<close>

theorem opa_fails_closed:
  "(enforceOpa opa i = Inr () \<longleftrightarrow> (\<exists>out err. opa i = Closed 0 (Some out) err \<and> opa_value out = Some (JBool True)))
   \<and> (spec_valid sp \<longrightarrow> enforceOpa rego_opa (docker_opa_input sp) = Inr ()
        \<and> enforceOpa rego_opa (vllm_opa_input sp) = Inr ())"
  using opa_admits [of sp] by (auto simp: enforceOpa_def split: opa_run.splits option.splits if_splits)

theorem opa_fails_closed_witness:
  "enforceOpa rego_opa (docker_opa_input sample_spec) = Inr () \<and> enforceOpa (\<lambda>_. Timed_out) JNull \<noteq> Inr ()"
  using opa_fails_closed [of "\<lambda>_. Timed_out" JNull sample_spec] sample_spec_valid by simp

end
