(* ===== verification/Accounts.thy ===== *)
theory Accounts
  imports Receipts
begin

text \<open>
  The on-chain accounts as the TypeScript clients decode them through the program's IDL
  (\<^verbatim>\<open>packages/solana/client.ts\<close> reads them, the structs are in
  \<^verbatim>\<open>programs/compute-market/src/lib.rs\<close>). Keys are their base58 strings, hashes are byte
  arrays, the integers are the decoded values. \<open>state_names\<close> ties the state bytes the program
  writes to the names the clients show.
\<close>

text \<open>The seeds of a program-derived address.\<close>

datatype seed = Text string | Key string | Bytes buffer

record provider_account =
  pr_authority :: string
  pr_metadataHash :: buffer
  pr_active :: bool
  pr_completed :: int
  pr_failed :: int

record stake_account =
  st_provider :: string
  st_mint :: string
  st_deposited :: int
  st_pendingWithdrawal :: int
  st_unlockAt :: int
  st_totalSlashed :: int

record policy_account =
  ap_owner :: string
  ap_agent :: string
  ap_mint :: string
  ap_dailySpendLimit :: int
  ap_singleJobLimit :: int
  ap_maxRuntimeSeconds :: int
  ap_requiredVerification :: int
  ap_allowedSpecsRoot :: buffer
  ap_expiresAt :: int
  ap_dayIndex :: int
  ap_dailySpent :: int
  ap_active :: bool

record worker_account =
  wa_provider :: string
  wa_worker :: string
  wa_active :: bool
  wa_expiresAt :: int

record machine_account =
  mc_provider :: string
  mc_worker :: string
  mc_id :: buffer
  mc_hardwareHash :: buffer
  mc_gpuCount :: int
  mc_vramMb :: int
  mc_active :: bool
  mc_busy :: bool
  mc_activeJob :: string
  mc_completed :: int
  mc_failed :: int

record offer_account =
  of_machine :: string
  of_id :: buffer
  of_rate :: int
  of_minSeconds :: int
  of_maxSeconds :: int
  of_expiresAt :: int
  of_active :: bool

record bid_account =
  bd_job :: string
  bd_provider :: string
  bd_machine :: string
  bd_worker :: string
  bd_price :: int
  bd_estimatedStart :: int
  bd_expiresAt :: int
  bd_active :: bool

record job_account =
  jb_id :: buffer
  jb_buyer :: string
  jb_specHash :: buffer
  jb_mint :: string
  jb_treasury :: string
  jb_verifier :: string
  jb_resolver :: string
  jb_provider :: string
  jb_payout :: string
  jb_machine :: string
  jb_worker :: string
  jb_receiptHash :: buffer
  jb_evidenceHash :: buffer
  jb_budget :: int
  jb_deposit :: int
  jb_price :: int
  jb_providerPaid :: int
  jb_feePaid :: int
  jb_refunded :: int
  jb_deadline :: int
  jb_startedAt :: int
  jb_submittedAt :: int
  jb_verifiedAt :: int
  jb_disputeSeconds :: int
  jb_timeout :: int
  jb_feeBps :: int
  jb_policy :: int
  jb_state :: int
  jb_settled :: bool
  jb_resolved :: bool

text \<open>The state bytes the program uses; \<open>jobStates\<close> names them.\<close>

abbreviation (input) st_CREATED :: int where "st_CREATED \<equiv> 0"
abbreviation (input) st_OPEN :: int where "st_OPEN \<equiv> 2"
abbreviation (input) st_ASSIGNED :: int where "st_ASSIGNED \<equiv> 4"
abbreviation (input) st_RUNNING :: int where "st_RUNNING \<equiv> 6"
abbreviation (input) st_VERIFYING :: int where "st_VERIFYING \<equiv> 8"
abbreviation (input) st_COMPLETED :: int where "st_COMPLETED \<equiv> 9"
abbreviation (input) st_CANCELLED :: int where "st_CANCELLED \<equiv> 10"
abbreviation (input) st_EXPIRED :: int where "st_EXPIRED \<equiv> 11"
abbreviation (input) st_FAILED :: int where "st_FAILED \<equiv> 12"
abbreviation (input) st_DISPUTED :: int where "st_DISPUTED \<equiv> 13"
abbreviation (input) st_REFUNDED :: int where "st_REFUNDED \<equiv> 14"

lemma state_names:
  "index_at jobStates st_CREATED = Some CREATED" "index_at jobStates st_OPEN = Some OPEN"
  "index_at jobStates st_ASSIGNED = Some ASSIGNED" "index_at jobStates st_RUNNING = Some RUNNING"
  "index_at jobStates st_VERIFYING = Some VERIFYING" "index_at jobStates st_COMPLETED = Some COMPLETED"
  "index_at jobStates st_CANCELLED = Some CANCELLED" "index_at jobStates st_EXPIRED = Some EXPIRED"
  "index_at jobStates st_FAILED = Some FAILED" "index_at jobStates st_DISPUTED = Some DISPUTED"
  "index_at jobStates st_REFUNDED = Some REFUNDED"
  by (simp_all add: index_at_def jobStates_def)

end
