(* ===== verification/Effects.thy ===== *)
theory Effects
  imports Prelude
begin

text \<open>
  Effect bounds. A component that acts on the outside keeps the sequence of its effects in its
  state. \<open>adds_only trace kept P m\<close> says that the program \<open>m\<close>, however it ends, leaves the part \<open>kept\<close>
  of the state unchanged and adds only effects in \<open>P\<close> to the sequence. The rules follow the
  structure of a program, so a bound is proved by repeated introduction.
\<close>

definition adds_only :: "('s \<Rightarrow> 'e list) \<Rightarrow> ('s \<Rightarrow> 'k) \<Rightarrow> ('e \<Rightarrow> bool) \<Rightarrow> ('s, 'a) proc \<Rightarrow> bool" where
  "adds_only trace kept P m \<longleftrightarrow> (\<forall>s s' r. m s = (s', r) \<longrightarrow> kept s' = kept s
     \<and> (\<exists>new. trace s' = trace s @ new \<and> list_all P new))"

named_theorems only_intros \<open>effect bounds of programs\<close>

lemma only_simple [only_intros]:
  "adds_only trace kept P (retP x)" "adds_only trace kept P (throwP e)" "adds_only trace kept P (liftP y)" "adds_only trace kept P getP" "adds_only trace kept P (requireP c e)"
  by (auto simp: adds_only_def proc_simps)

lemma only_bind [only_intros]: "adds_only trace kept P m \<Longrightarrow> (\<And>x. adds_only trace kept P (f x)) \<Longrightarrow> adds_only trace kept P (bindP m f)"
  unfolding adds_only_def
proof (intro allI impI)
  fix s s' r
  assume m: "\<forall>s s' r. m s = (s', r) \<longrightarrow> kept s' = kept s \<and> (\<exists>new. trace s' = trace s @ new \<and> list_all P new)"
    and f: "\<And>x. \<forall>s s' r. f x s = (s', r) \<longrightarrow> kept s' = kept s \<and> (\<exists>new. trace s' = trace s @ new \<and> list_all P new)"
    and b: "bindP m f s = (s', r)"
  obtain s1 r1 where m1: "m s = (s1, r1)" by fastforce
  then have e1: "kept s1 = kept s" "\<exists>new. trace s1 = trace s @ new \<and> list_all P new" using m by auto
  show "kept s' = kept s \<and> (\<exists>new. trace s' = trace s @ new \<and> list_all P new)"
  proof (cases r1)
    case (Inl e)
    then show ?thesis using b m1 e1 by (simp add: bindP_def)
  next
    case (Inr x)
    then have "f x s1 = (s', r)" using b m1 by (simp add: bindP_def)
    then have "kept s' = kept s1" "\<exists>new. trace s' = trace s1 @ new \<and> list_all P new"
      using f [of x] by blast+
    then show ?thesis using e1 by auto
  qed
qed

lemma only_if [only_intros]: "adds_only trace kept P m \<Longrightarrow> adds_only trace kept P n \<Longrightarrow> adds_only trace kept P (if c then m else n)"
  by simp

lemma only_option [only_intros]:
  "adds_only trace kept P m \<Longrightarrow> (\<And>x. adds_only trace kept P (f x)) \<Longrightarrow> adds_only trace kept P (case z of None \<Rightarrow> m | Some x \<Rightarrow> f x)"
  by (cases z) simp_all

lemma only_prod [only_intros]: "(\<And>x y. adds_only trace kept P (f x y)) \<Longrightarrow> adds_only trace kept P (case z of (x, y) \<Rightarrow> f x y)"
  by (cases z) simp

lemma only_catch [only_intros]: "adds_only trace kept P m \<Longrightarrow> (\<And>e. adds_only trace kept P (f e)) \<Longrightarrow> adds_only trace kept P (catchP m f)"
proof -
  assume m: "adds_only trace kept P m" and f: "\<And>e. adds_only trace kept P (f e)"
  have "adds_only trace kept P (bindP (\<lambda>s. case m s of (s', r) \<Rightarrow> (s', Inr r)) (\<lambda>r. case r of Inl e \<Rightarrow> f e | Inr x \<Rightarrow> retP x))"
  proof (rule only_bind)
    show "adds_only trace kept P (\<lambda>s. case m s of (s', r) \<Rightarrow> (s', Inr r))"
      using m unfolding adds_only_def by (fastforce split: prod.splits)
    show "adds_only trace kept P (case r of Inl e \<Rightarrow> f e | Inr x \<Rightarrow> retP x)" for r
      using f by (cases r) (auto intro: only_intros)
  qed
  moreover have "catchP m f = bindP (\<lambda>s. case m s of (s', r) \<Rightarrow> (s', Inr r)) (\<lambda>r. case r of Inl e \<Rightarrow> f e | Inr x \<Rightarrow> retP x)"
    by (intro ext) (simp add: catchP_def bindP_def retP_def split: prod.splits sum.splits)
  ultimately show ?thesis by simp
qed

text \<open>Rules that keep what a call returned and what a test decided.\<close>

lemma only_lift_bind: "(\<And>x. y = Inr x \<Longrightarrow> adds_only trace kept P (f x)) \<Longrightarrow> adds_only trace kept P (bindP (liftP y) f)"
  by (cases y) (auto simp: adds_only_def bindP_def liftP_def)

lemma only_require_bind: "(c \<Longrightarrow> adds_only trace kept P (f ())) \<Longrightarrow> adds_only trace kept P (bindP (requireP c e) f)"
  by (cases c) (auto simp: adds_only_def bindP_def requireP_def)

lemma only_cond: "(c \<Longrightarrow> adds_only trace kept P m) \<Longrightarrow> (\<not> c \<Longrightarrow> adds_only trace kept P n) \<Longrightarrow> adds_only trace kept P (if c then m else n)"
  by simp

lemmas only_deep = only_lift_bind only_require_bind only_cond

lemma onlyE:
  assumes "adds_only trace kept P m" "m s = (s', r)"
  obtains new where "kept s' = kept s" "trace s' = trace s @ new" "list_all P new"
  using assms unfolding adds_only_def by blast

lemma only_mono: "adds_only trace kept P m \<Longrightarrow> (\<And>x. P x \<Longrightarrow> Q x) \<Longrightarrow> adds_only trace kept Q m"
  unfolding adds_only_def by (meson list.pred_mono_strong)

lemma only_forget: "adds_only trace kept P m \<Longrightarrow> adds_only trace (\<lambda>_. ()) P m"
  unfolding adds_only_def by blast

lemma bindP_assoc: "bindP (bindP m f) g = bindP m (\<lambda>x. bindP (f x) g)"
  by (intro ext) (simp add: bindP_def split: prod.splits sum.splits)

text \<open>A program with one distinguished effect between two parts that are bounded.\<close>

lemma one_effect:
  assumes "adds_only trace k P pre" "\<And>x. adds_only trace (\<lambda>_. ()) P (rest x)"
    and "\<And>s. trace (fst (act s)) = trace s @ [e]"
    and "bindP pre (\<lambda>_. bindP act rest) s = (s', q)"
  obtains new where "trace s' = trace s @ new"
    "list_all P new \<or> (\<exists>a b. new = a @ e # b \<and> list_all P a \<and> list_all P b)"
proof -
  obtain s1 r1 where p: "pre s = (s1, r1)" by fastforce
  from onlyE [OF assms(1) p] obtain n1 where n1: "trace s1 = trace s @ n1" "list_all P n1" by blast
  show thesis
  proof (cases r1)
    case (Inl x)
    then show thesis using assms(4) p n1 that by (auto simp: bindP_def)
  next
    case (Inr x)
    obtain s2 r2 where a: "act s1 = (s2, r2)" by fastforce
    have t2: "trace s2 = trace s1 @ [e]" using assms(3) [of s1] a by simp
    show thesis
    proof (cases r2)
      case (Inl y)
      then have "s' = s2" using assms(4) p Inr a \<open>r1 = Inr x\<close> by (auto simp: bindP_def)
      then show thesis using that [of "n1 @ [e]"] n1 t2 by fastforce
    next
      case (Inr y)
      then have "rest y s2 = (s', q)" using assms(4) p a \<open>r1 = Inr x\<close> by (auto simp: bindP_def)
      from onlyE [OF assms(2) this] obtain n2 where "trace s' = trace s2 @ n2" "list_all P n2" by blast
      then show thesis using that [of "n1 @ e # n2"] n1 t2 by fastforce
    qed
  qed
qed

end
