(* ===== verification/Worker.thy ===== *)
theory Worker
  imports Executors Accounts Effects
begin

text \<open>
  The provider node: its execution journal (\<^verbatim>\<open>agents/provider-node/journal.ts\<close>) and the
  \<^verbatim>\<open>execute\<close> and \<^verbatim>\<open>recover\<close> commands (\<^verbatim>\<open>cli.ts\<close>). The files under \<^verbatim>\<open>keys/journal\<close> and the
  sequence of effects on the outside (containers, transactions, HTTP requests) are the state; how
  each outside call ends is given by the environment record, so every theorem holds for every
  failure. A failure keeps what was done before it.
\<close>

section \<open>The journal\<close>

text \<open>A journal file as \<^verbatim>\<open>JSON.parse\<close> sees it; fields an older version did not write are absent.\<close>

record journal_file =
  f_jobId :: "string option"
  f_state :: "string option"
  f_data :: "(string \<times> json) list option"
  f_updatedAt :: "string option"
  f_at :: "string option"
  f_history :: "(string \<times> string option) list option"

record journal =
  j_jobId :: string
  j_state :: string
  j_data :: "(string \<times> json) list"
  j_updatedAt :: string
  j_history :: "(string \<times> string option) list"

definition journalPath :: "string \<Rightarrow> string" where
  "journalPath jobId = ''keys/journal/'' @ jobId @ ''.json''"

definition evidencePath :: "string \<Rightarrow> string" where
  "evidencePath jobId = ''keys/journal/'' @ jobId @ ''-evidence.json''"

definition default_to :: "'a option \<Rightarrow> 'a \<Rightarrow> 'a" where
  "default_to x d = (case x of Some v \<Rightarrow> v | None \<Rightarrow> d)"

definition loadJournal :: "(string \<rightharpoonup> journal_file) \<Rightarrow> string \<Rightarrow> journal option outcome" where
  "loadJournal files jobId = (case files (journalPath jobId) of
     None \<Rightarrow> Inr None
   | Some v \<Rightarrow> (case f_state v of
       None \<Rightarrow> Inl ''Invalid execution journal''
     | Some st \<Rightarrow> if f_jobId v \<noteq> Some jobId then Inl ''Invalid execution journal''
         else Inr (Some \<lparr>j_jobId = jobId, j_state = st, j_data = default_to (f_data v) [],
           j_updatedAt = default_to (f_updatedAt v) (default_to (f_at v) ''1970-01-01T00:00:00.000Z''),
           j_history = default_to (f_history v) [(st, f_at v)]\<rparr>)))"

text \<open>\<^verbatim>\<open>xs.slice(-n)\<close>\<close>

definition slice_last :: "nat \<Rightarrow> 'a list \<Rightarrow> 'a list" where
  "slice_last n xs = drop (length xs - n) xs"

definition recordJournal ::
  "(string \<rightharpoonup> journal_file) \<Rightarrow> string \<Rightarrow> string \<Rightarrow> (string \<times> json) list \<Rightarrow> string \<Rightarrow> (string \<rightharpoonup> journal_file) outcome" where
  "recordJournal files jobId state data now = andThen (loadJournal files jobId) (\<lambda>previous.
     let history = slice_last 32 ((case previous of Some p \<Rightarrow> j_history p | None \<Rightarrow> []) @ [(state, Some now)]) in
     Inr (files(journalPath jobId \<mapsto> \<lparr>f_jobId = Some jobId, f_state = Some state, f_data = Some data,
       f_updatedAt = Some now, f_at = None, f_history = Some history\<rparr>)))"

lemma journalPath_inject: "journalPath a = journalPath b \<longleftrightarrow> a = b"
  by (simp add: journalPath_def)

text \<open>
  The journal keeps what recovery needs: after recording, loading the same job returns the
  new state and data with the new entry last in a history of at most 32 entries that extends the
  previous one; other jobs' journals are unchanged; a journal written for another job is refused.
\<close>

theorem journal_roundtrip:
  assumes "recordJournal files jobId state data now = Inr files'"
  shows "(\<exists>j. loadJournal files' jobId = Inr (Some j) \<and> j_state j = state \<and> j_data j = data \<and> j_jobId j = jobId
        \<and> length (j_history j) \<le> 32 \<and> last (j_history j) = (state, Some now)
        \<and> (\<forall>p. loadJournal files jobId = Inr (Some p) \<longrightarrow>
             suffix (j_history j) (j_history p @ [(state, Some now)])))
     \<and> (other \<noteq> jobId \<longrightarrow> loadJournal files' other = loadJournal files other)"
proof -
  from assms obtain prev where p: "loadJournal files jobId = Inr prev"
    and f: "files' = files(journalPath jobId \<mapsto> \<lparr>f_jobId = Some jobId, f_state = Some state, f_data = Some data,
       f_updatedAt = Some now, f_at = None,
       f_history = Some (slice_last 32 ((case prev of Some p \<Rightarrow> j_history p | None \<Rightarrow> []) @ [(state, Some now)]))\<rparr>)"
    by (auto simp: recordJournal_def outcome_simps Let_def)
  let ?h = "(case prev of Some p \<Rightarrow> j_history p | None \<Rightarrow> []) @ [(state, Some now)]"
  have "length (slice_last 32 ?h) \<le> 32" "slice_last 32 ?h \<noteq> []" by (simp_all add: slice_last_def)
  moreover have "last (slice_last 32 ?h) = (state, Some now)"
    by (simp add: slice_last_def last_drop)
  moreover have "suffix (slice_last 32 ?h) ?h" by (simp add: slice_last_def suffix_drop)
  ultimately show ?thesis
    using p by (auto simp: loadJournal_def f default_to_def journalPath_inject)
qed

theorem journal_roundtrip_witness:
  "\<exists>files'. recordJournal Map.empty ''j'' ''RUNNING'' [] ''t'' = Inr files'
     \<and> (\<exists>j. loadJournal files' ''j'' = Inr (Some j) \<and> j_state j = ''RUNNING'')"
proof -
  obtain files' where f: "recordJournal Map.empty ''j'' ''RUNNING'' [] ''t'' = Inr files'"
    by (simp add: recordJournal_def loadJournal_def)
  from journal_roundtrip [OF f] f show ?thesis by blast
qed

section \<open>Bundles, effects and the environment\<close>

record evidence_bundle =
  bn_envelope :: signed_receipt
  bn_spec :: job_spec
  bn_stdout :: string
  bn_stderr :: string
  bn_result :: string
  bn_telemetry :: telemetry
  bn_hardware :: json

definition signed_json :: "json \<Rightarrow> string \<Rightarrow> json" where
  "signed_json p sig = JObj [(''payload'', p), (''signature'', JStr sig)]"

definition bundle_json :: "evidence_bundle \<Rightarrow> json" where
  "bundle_json b = JObj
     [(''envelope'', signed_json (receipt_json (payload (bn_envelope b))) (signature (bn_envelope b))),
      (''spec'', spec_json (bn_spec b)),
      (''evidence'', JObj [(''stdout'', JStr (bn_stdout b)), (''stderr'', JStr (bn_stderr b)),
         (''result'', JStr (bn_result b)), (''telemetry'', telemetry_json (bn_telemetry b)),
         (''hardware'', bn_hardware b)])]"

datatype effect =
    Cleanup | Prepare "string option list" | StartJobTx | StartContainer | RecoverContainer | CollectResult
  | SubmitReceiptTx buffer | ConfirmTx string | Post string json | WroteEvidence string

datatype executor_kind = MockExecutor | RayExecutor | VllmExecutor | DockerExecutor

text \<open>How the calls of the selected backend end; \<^verbatim>\<open>recover\<close> is optional in the interface.\<close>

record executor_calls =
  ec_prepare :: "unit outcome"
  ec_start :: "unit outcome"
  ec_recover :: "unit outcome option"
  ec_collect :: "exec_result outcome"

record worker_env =
  we_crypto :: crypto
  we_key :: buffer
  we_worker :: string
  we_cluster :: string
  we_program :: string
  we_nonce :: string
  we_now :: rat
  we_stamp :: "string \<Rightarrow> string"
  we_vars :: "string \<rightharpoonup> string"
  we_executor :: "executor_kind \<Rightarrow> executor_calls"
  we_startJob :: "unit outcome"
  we_submit :: "string outcome"
  we_confirm :: "unit outcome"
  we_http :: "string \<Rightarrow> json \<Rightarrow> (bool \<times> string \<times> json) outcome"
  we_challengeTimes :: "int \<times> int \<times> int"

record host =
  h_journals :: "string \<rightharpoonup> journal_file"
  h_evidence :: "string \<rightharpoonup> evidence_bundle"
  h_log :: "effect list"

definition effect :: "effect \<Rightarrow> (host, unit) proc" where
  "effect x = modifyP (\<lambda>h. h\<lparr>h_log := h_log h @ [x]\<rparr>)"

definition perform :: "effect \<Rightarrow> 'a outcome \<Rightarrow> (host, 'a) proc" where
  "perform x r = bindP (effect x) (\<lambda>_. liftP r)"

definition journal_state :: "worker_env \<Rightarrow> string \<Rightarrow> string \<Rightarrow> (string \<times> json) list \<Rightarrow> (host, unit) proc" where
  "journal_state env jobId state data = bindP getP (\<lambda>h.
     bindP (liftP (recordJournal (h_journals h) jobId state data (we_stamp env state))) (\<lambda>files.
       modifyP (\<lambda>h. h\<lparr>h_journals := files\<rparr>)))"

definition writeEvidence :: "string \<Rightarrow> evidence_bundle \<Rightarrow> string \<Rightarrow> (host, unit) proc" where
  "writeEvidence jobId b receiptHash = bindP
     (modifyP (\<lambda>h. h\<lparr>h_evidence := (h_evidence h)(evidencePath jobId \<mapsto> b)\<rparr>)) (\<lambda>_.
       effect (WroteEvidence receiptHash))"

section \<open>Choosing the executor\<close>

text \<open>\<^verbatim>\<open>new URL(address).protocol\<close> must be http or https.\<close>

definition http_address :: "string \<Rightarrow> bool" where
  "http_address a \<longleftrightarrow> CHR '':'' \<in> set a \<and> toLowerCase (takeWhile (\<lambda>c. c \<noteq> CHR '':'') a) \<in> {''http'', ''https''}"

definition set_var :: "string option \<Rightarrow> bool" where
  "set_var v \<longleftrightarrow> v \<noteq> None \<and> v \<noteq> Some []"

definition selectExecutor :: "(string \<rightharpoonup> string) \<Rightarrow> job_spec \<Rightarrow> executor_kind outcome" where
  "selectExecutor vars spec =
     (if vars ''MOCK_EXECUTOR'' = Some ''true''
      then andThen (new_MockBackend (vars ''MOCK_EXECUTOR'') (vars ''NODE_ENV'')) (\<lambda>_. Inr MockExecutor)
      else if distributed spec \<noteq> None then
        (if \<not> set_var (vars ''RAY_JOBS_ADDRESS'') then Inl ''RAY_JOBS_ADDRESS is required for distributed jobs''
         else if \<not> http_address (the (vars ''RAY_JOBS_ADDRESS'')) then Inl ''Ray address must use HTTP or HTTPS''
         else Inr RayExecutor)
      else andThen (ociRuntime (vars ''OCI_RUNTIME'')) (\<lambda>_.
        Inr (if service spec \<noteq> None then VllmExecutor else DockerExecutor)))"

section \<open>Receipts\<close>

definition make_receipt ::
  "worker_env \<Rightarrow> string \<Rightarrow> job_account \<Rightarrow> job_spec \<Rightarrow> json \<Rightarrow> exec_result \<Rightarrow> receipt outcome" where
  "make_receipt env jobId j spec hardware x = (let cr = we_crypto env in
     andThen (commitment cr (spec_json spec)) (\<lambda>specHash.
     andThen (commitment cr (inputs_json spec)) (\<lambda>inputRoot.
     andThen (commitment cr (output_json cr (x_result x))) (\<lambda>outputRoot.
     andThen (commitment cr (gpuUuids_json (x_gpuUuids x))) (\<lambda>gpuCommitment.
     andThen (commitment cr hardware) (\<lambda>hw.
     andThen (commitment cr (telemetry_json (x_telemetry x))) (\<lambda>tel.
       Inr \<lparr>r_version = ''1'', r_domain = ''vericompute:receipt:v1'', r_cluster = we_cluster env,
         r_program = we_program env, r_jobId = jobId, r_jobSpecHash = specHash, r_provider = jb_provider j,
         r_machineId = jb_machine j, r_worker = we_worker env, r_imageDigest = x_actualDigest x,
         r_inputRoot = inputRoot, r_outputRoot = outputRoot, r_startTimestamp = x_startedAt x,
         r_finishTimestamp = x_finishedAt x, r_exitCode = x_exitCode x, r_gpuUuidCommitment = gpuCommitment,
         r_hardwareReportHash = hw, r_telemetryHash = tel, r_stdoutHash = sha256 cr (x_stdout x),
         r_stderrHash = sha256 cr (x_stderr x), r_resultHash = sha256 cr (x_result x),
         r_nonce = we_nonce env\<rparr>)))))))"

definition make_bundle ::
  "worker_env \<Rightarrow> string \<Rightarrow> job_account \<Rightarrow> job_spec \<Rightarrow> json \<Rightarrow> exec_result \<Rightarrow> evidence_bundle outcome" where
  "make_bundle env jobId j spec hardware x =
     andThen (make_receipt env jobId j spec hardware x) (\<lambda>p.
     andThen (signPayload (we_crypto env) (receipt_json p) (we_key env)) (\<lambda>sig.
       Inr \<lparr>bn_envelope = \<lparr>payload = p, signature = sig\<rparr>, bn_spec = spec,
         bn_stdout = toBase64 (x_stdout x), bn_stderr = toBase64 (x_stderr x), bn_result = toBase64 (x_result x),
         bn_telemetry = x_telemetry x, bn_hardware = hardware\<rparr>))"

section \<open>Talking to the API\<close>

definition uploadEvidence :: "worker_env \<Rightarrow> string \<Rightarrow> evidence_bundle \<Rightarrow> (host, unit) proc" where
  "uploadEvidence env jobId b =
     (if \<not> set_var (we_vars env ''COMPUTE_API_URL'') then retP ()
      else let url = the (we_vars env ''COMPUTE_API_URL'') @ ''/v1/provider/jobs/'' @ jobId @ ''/result'' in
        bindP (perform (Post url (bundle_json b)) (we_http env url (bundle_json b))) (\<lambda>(ok, text, _).
          requireP ok (''Receipt upload failed; recover persisted evidence: '' @ text)))"

definition parse_challenge :: "json \<Rightarrow> challenge option" where
  "parse_challenge j = Option.bind (json_obj [''version'', ''domain'', ''id'', ''jobId'', ''machineId'', ''worker'',
     ''seed'', ''iterations'', ''issuedAt'', ''expiresAt''] [] j) (\<lambda>m.
   Option.bind (field m ''version'' json_str) (\<lambda>v. Option.bind (field m ''domain'' json_str) (\<lambda>d.
   Option.bind (field m ''id'' json_str) (\<lambda>i. Option.bind (field m ''jobId'' json_str) (\<lambda>jb.
   Option.bind (field m ''machineId'' json_str) (\<lambda>mc. Option.bind (field m ''worker'' json_str) (\<lambda>wk.
   Option.bind (field m ''seed'' json_str) (\<lambda>sd. Option.bind (field m ''iterations'' json_int) (\<lambda>its.
   Option.bind (field m ''issuedAt'' json_int) (\<lambda>ia. Option.bind (field m ''expiresAt'' json_int) (\<lambda>ea.
     let c = \<lparr>c_version = v, c_domain = d, c_id = i, c_jobId = jb, c_machineId = mc, c_worker = wk, c_seed = sd,
       c_iterations = its, c_issuedAt = ia, c_expiresAt = ea\<rparr> in if challenge_ok c then Some c else None)))))))))))"

definition challenge_request :: "worker_env \<Rightarrow> string \<Rightarrow> json" where
  "challenge_request env jobId = JObj [(''version'', JStr ''1''), (''domain'', JStr ''vericompute:challenge-request:v1''),
     (''jobId'', JStr jobId), (''worker'', JStr (we_worker env)), (''timestamp'', jint (fst (we_challengeTimes env))),
     (''nonce'', JStr (we_nonce env))]"

definition challenge_answer :: "worker_env \<Rightarrow> string \<Rightarrow> evidence_bundle \<Rightarrow> challenge \<Rightarrow> challenge_response" where
  "challenge_answer env jobId b c = \<lparr>p_version = ''1'', p_domain = ''vericompute:challenge-response:v1'',
     p_challengeId = c_id c, p_jobId = jobId, p_machineId = c_machineId c, p_worker = we_worker env,
     p_resultHash = solveChallenge (we_crypto env) (c_seed c) (c_iterations c),
     p_startedAt = fst (snd (we_challengeTimes env)), p_finishedAt = snd (snd (we_challengeTimes env)),
     p_gpuUuidCommitment = r_gpuUuidCommitment (payload (bn_envelope b)),
     p_telemetryHash = r_telemetryHash (payload (bn_envelope b))\<rparr>"

definition completeChallenge :: "worker_env \<Rightarrow> string \<Rightarrow> evidence_bundle \<Rightarrow> (host, unit) proc" where
  "completeChallenge env jobId b =
     (if \<not> set_var (we_vars env ''COMPUTE_API_URL'') then throwP ''COMPUTE_API_URL is required for CHALLENGE verification''
      else let api = the (we_vars env ''COMPUTE_API_URL''); cr = we_crypto env;
               url1 = api @ ''/v1/provider/jobs/'' @ jobId @ ''/challenge'';
               url2 = api @ ''/v1/provider/jobs/'' @ jobId @ ''/challenge-response'' in
        bindP (liftP (signPayload cr (challenge_request env jobId) (we_key env))) (\<lambda>sig1.
        let req = signed_json (challenge_request env jobId) sig1 in
        bindP (perform (Post url1 req) (we_http env url1 req)) (\<lambda>(ok1, text1, body1).
        bindP (requireP ok1 (''Challenge request failed: '' @ text1)) (\<lambda>_.
        case Option.bind (json_get ''challenge'' (Some body1)) parse_challenge of
          None \<Rightarrow> throwP ''schema''
        | Some c \<Rightarrow>
          let p = challenge_answer env jobId b c in
          bindP (liftP (signPayload cr (response_json p) (we_key env))) (\<lambda>sig2.
          let resp = signed_json (response_json p) sig2 in
          bindP (perform (Post url2 resp) (we_http env url2 resp)) (\<lambda>(ok2, text2, body2).
          bindP (requireP ok2 (''Challenge response failed: '' @ text2)) (\<lambda>_.
            requireP (truthy (json_get ''passed'' (Some body2))) ''Challenge verification failed''))))))) "

definition challenge_if_needed :: "worker_env \<Rightarrow> string \<Rightarrow> job_spec \<Rightarrow> evidence_bundle \<Rightarrow> (host, unit) proc" where
  "challenge_if_needed env jobId spec b =
     (if policy_of spec = CHALLENGE then completeChallenge env jobId b else retP ())"

section \<open>Executing and recovering a job\<close>

datatype worker_command = Execute | Recover

text \<open>\<^verbatim>\<open>hardware.gpu.map((g) => g.uuid)\<close>; a missing \<^verbatim>\<open>gpu\<close> array is a \<^verbatim>\<open>TypeError\<close>.\<close>

definition gpu_uuids :: "json \<Rightarrow> string option list outcome" where
  "gpu_uuids hardware = (case json_get ''gpu'' (Some hardware) of
     Some (JArr gs) \<Rightarrow> Inr (map (\<lambda>g. Option.bind (json_get ''uuid'' (Some g)) json_str) gs)
   | _ \<Rightarrow> Inl ''TypeError'')"

text \<open>Bringing the container to the point where its result can be collected.\<close>

definition reach_running ::
  "worker_env \<Rightarrow> worker_command \<Rightarrow> string \<Rightarrow> job_account \<Rightarrow> executor_calls \<Rightarrow> string option list
     \<Rightarrow> evidence_bundle option \<Rightarrow> (host, unit) proc" where
  "reach_running env cmd jobId j ex uuids b =
     (if jb_state j = st_ASSIGNED then
        bindP (if cmd = Recover then effect Cleanup else retP ()) (\<lambda>_.
        bindP (journal_state env jobId ''PREPARING'' []) (\<lambda>_.
        bindP (perform (Prepare uuids) (ec_prepare ex)) (\<lambda>_.
        bindP (perform StartJobTx (we_startJob env)) (\<lambda>_.
        bindP (perform StartContainer (ec_start ex)) (\<lambda>_.
          journal_state env jobId ''RUNNING'' [])))))
      else if jb_state j = st_RUNNING \<and> b = None then
        (case ec_recover ex of
           None \<Rightarrow> throwP ''Configured executor cannot recover running jobs''
         | Some r \<Rightarrow> bindP (perform RecoverContainer r) (\<lambda>_.
             journal_state env jobId ''RUNNING'' [(''recovered'', JBool True)]))
      else if jb_state j \<noteq> st_RUNNING then
        throwP (''Job state '' @ bigint_toString (jb_state j) @ '' is not recoverable by a worker'')
      else retP ())"

text \<open>The stored bundle, or a new one, written to disk before anything is submitted.\<close>

definition obtain_bundle ::
  "worker_env \<Rightarrow> string \<Rightarrow> job_account \<Rightarrow> job_spec \<Rightarrow> json \<Rightarrow> executor_calls \<Rightarrow> evidence_bundle option
     \<Rightarrow> (host, evidence_bundle) proc" where
  "obtain_bundle env jobId j spec hardware ex b = (case b of
     Some bd \<Rightarrow> retP bd
   | None \<Rightarrow>
       bindP (perform CollectResult (ec_collect ex)) (\<lambda>x.
       bindP (liftP (make_bundle env jobId j spec hardware x)) (\<lambda>bd.
       bindP (liftP (commitment (we_crypto env) (receipt_json (payload (bn_envelope bd))))) (\<lambda>rh.
       bindP (writeEvidence jobId bd rh) (\<lambda>_.
       bindP (journal_state env jobId ''EVIDENCE_READY''
         [(''evidenceFile'', JStr (evidencePath jobId)), (''receiptHash'', JStr rh)]) (\<lambda>_. retP bd))))))"

definition submit_bundle ::
  "worker_env \<Rightarrow> string \<Rightarrow> job_spec \<Rightarrow> evidence_bundle \<Rightarrow> (host, unit) proc" where
  "submit_bundle env jobId spec bd =
     bindP (liftP (commitment (we_crypto env) (receipt_json (payload (bn_envelope bd))))) (\<lambda>rh.
     bindP (perform (SubmitReceiptTx (fromHex rh)) (we_submit env)) (\<lambda>tx.
     bindP (perform (ConfirmTx tx) (we_confirm env)) (\<lambda>_.
     bindP (uploadEvidence env jobId bd) (\<lambda>_.
     bindP (challenge_if_needed env jobId spec bd) (\<lambda>_.
       journal_state env jobId ''RECEIPT_COMMITTED''
         [(''tx'', JStr tx), (''evidenceFile'', JStr (evidencePath jobId))])))))"

text \<open>The receipt is on chain already: only its evidence is delivered again.\<close>

definition resume_verifying ::
  "worker_env \<Rightarrow> string \<Rightarrow> job_spec \<Rightarrow> evidence_bundle option \<Rightarrow> (host, bool) proc" where
  "resume_verifying env jobId spec b = (case b of
     None \<Rightarrow> throwP ''Receipt is on-chain but local evidence is unavailable''
   | Some bd \<Rightarrow>
       bindP (uploadEvidence env jobId bd) (\<lambda>_.
       bindP (challenge_if_needed env jobId spec bd) (\<lambda>_.
       bindP (journal_state env jobId ''RECEIPT_COMMITTED''
         [(''recovered'', JBool True), (''evidenceFile'', JStr (evidencePath jobId))]) (\<lambda>_. retP False))))"

text \<open>The \<^verbatim>\<open>try\<close> block; its value is \<^verbatim>\<open>shouldCleanup\<close>.\<close>

definition worker_body ::
  "worker_env \<Rightarrow> worker_command \<Rightarrow> string \<Rightarrow> job_account \<Rightarrow> job_spec \<Rightarrow> json \<Rightarrow> executor_calls
     \<Rightarrow> string option list \<Rightarrow> (host, bool) proc" where
  "worker_body env cmd jobId j spec hardware ex uuids = bindP getP (\<lambda>h.
     let b = h_evidence h (evidencePath jobId) in
     if cmd = Recover \<and> jb_state j = st_VERIFYING then resume_verifying env jobId spec b
     else
       bindP (reach_running env cmd jobId j ex uuids b) (\<lambda>_.
       bindP (obtain_bundle env jobId j spec hardware ex b) (\<lambda>bd.
       bindP (submit_bundle env jobId spec bd) (\<lambda>_. retP True))))"

text \<open>The \<^verbatim>\<open>catch\<close> journals the failure and rethrows; \<^verbatim>\<open>finally\<close> removes the container on success.\<close>

definition worker_guarded ::
  "worker_env \<Rightarrow> worker_command \<Rightarrow> string \<Rightarrow> job_account \<Rightarrow> job_spec \<Rightarrow> json \<Rightarrow> executor_calls
     \<Rightarrow> string option list \<Rightarrow> (host, unit) proc" where
  "worker_guarded env cmd jobId j spec hardware ex uuids =
     catchP
       (bindP (worker_body env cmd jobId j spec hardware ex uuids) (\<lambda>clean.
          if clean then effect Cleanup else retP ()))
       (\<lambda>e. bindP (journal_state env jobId ''FAILED'' [(''message'', JStr e), (''recoverable'', JBool True)]) (\<lambda>_.
          throwP e))"

definition parse_spec :: "json \<Rightarrow> job_spec outcome" where
  "parse_spec j = (case jobSpecSchema_parse j of Inl is \<Rightarrow> Inl (concat is) | Inr s \<Rightarrow> Inr s)"

definition worker_run ::
  "worker_env \<Rightarrow> worker_command \<Rightarrow> string \<Rightarrow> json \<Rightarrow> json \<Rightarrow> job_account \<Rightarrow> machine_account \<Rightarrow> worker_account
     \<Rightarrow> (host, unit) proc" where
  "worker_run env cmd jobId rawSpec hardware j machine auth =
     bindP (liftP (parse_spec rawSpec)) (\<lambda>spec.
     bindP (requireP (jb_worker j = we_worker env) ''Final assignment or job/hardware commitment mismatch'') (\<lambda>_.
     bindP (liftP (commitment (we_crypto env) (spec_json spec))) (\<lambda>sh.
     bindP (requireP (toHex (jb_specHash j) = sh) ''Final assignment or job/hardware commitment mismatch'') (\<lambda>_.
     bindP (liftP (commitment (we_crypto env) hardware)) (\<lambda>hh.
     bindP (requireP (toHex (mc_hardwareHash machine) = hh) ''Final assignment or job/hardware commitment mismatch'') (\<lambda>_.
     bindP (requireP (wa_active auth \<and> we_now env \<le> of_int (wa_expiresAt auth)) ''Worker revoked or expired'') (\<lambda>_.
     bindP getP (\<lambda>h.
     bindP (liftP (loadJournal (h_journals h) jobId)) (\<lambda>existing.
     bindP (requireP (\<not> (existing \<noteq> None \<and> cmd = Execute))
       ''Execution journal exists. Run recover; duplicate execution refused.'') (\<lambda>_.
     bindP (liftP (selectExecutor (we_vars env) spec)) (\<lambda>kind.
     bindP (liftP (gpu_uuids hardware)) (\<lambda>uuids.
       worker_guarded env cmd jobId j spec hardware (we_executor env kind) (take (nat (gpu_count spec)) uuids)))))))))))))"

section \<open>Which effects a step can have\<close>

text \<open>The program keeps the evidence store and adds to the log only effects in \<open>P\<close>.\<close>

abbreviation only :: "(effect \<Rightarrow> bool) \<Rightarrow> (host, 'a) proc \<Rightarrow> bool" where
  "only P m \<equiv> adds_only h_log h_evidence P m"

lemma only_effect [only_intros]: "P x \<Longrightarrow> only P (effect x)"
  by (auto simp: adds_only_def effect_def proc_simps)

lemma only_perform [only_intros]: "P x \<Longrightarrow> only P (perform x r)"
  unfolding perform_def by (intro only_intros)

lemma only_journal [only_intros]: "only P (journal_state env jobId st data)"
proof -
  have "only P (modifyP (\<lambda>h. h\<lparr>h_journals := files\<rparr>))" for files by (auto simp: adds_only_def proc_simps)
  then show ?thesis unfolding journal_state_def by (intro only_intros)
qed

lemma only_upload [only_intros]: "(\<And>u j. P (Post u j)) \<Longrightarrow> only P (uploadEvidence env jobId b)"
  unfolding uploadEvidence_def Let_def by (intro only_intros)

lemma only_challenge [only_intros]: "(\<And>u j. P (Post u j)) \<Longrightarrow> only P (challenge_if_needed env jobId spec b)"
  unfolding challenge_if_needed_def completeChallenge_def Let_def by (intro only_intros)

fun runs_container :: "effect \<Rightarrow> bool" where
  "runs_container (Prepare _) = True"
| "runs_container StartJobTx = True"
| "runs_container StartContainer = True"
| "runs_container RecoverContainer = True"
| "runs_container CollectResult = True"
| "runs_container _ = False"

fun submits :: "effect \<Rightarrow> bool" where
  "submits (SubmitReceiptTx _) = True"
| "submits _ = False"

fun publishes :: "buffer \<Rightarrow> effect \<Rightarrow> bool" where
  "publishes rh (SubmitReceiptTx h) \<longleftrightarrow> h = rh"
| "publishes rh x \<longleftrightarrow> \<not> runs_container x"

lemma only_reach: "only (\<lambda>x. \<not> submits x) (reach_running env cmd jobId j ex uuids b)"
  unfolding reach_running_def by (intro only_intros) simp_all

lemma only_submit:
  assumes "commitment (we_crypto env) (receipt_json (payload (bn_envelope bd))) = Inr rh"
  shows "only (publishes (fromHex rh)) (submit_bundle env jobId spec bd)"
proof -
  have "submit_bundle env jobId spec bd = bindP (perform (SubmitReceiptTx (fromHex rh)) (we_submit env)) (\<lambda>tx.
     bindP (perform (ConfirmTx tx) (we_confirm env)) (\<lambda>_.
     bindP (uploadEvidence env jobId bd) (\<lambda>_.
     bindP (challenge_if_needed env jobId spec bd) (\<lambda>_.
       journal_state env jobId ''RECEIPT_COMMITTED''
         [(''tx'', JStr tx), (''evidenceFile'', JStr (evidencePath jobId))]))))"
    by (intro ext) (simp add: submit_bundle_def assms bindP_def liftP_def)
  moreover have "only (publishes (fromHex rh)) (bindP (perform (SubmitReceiptTx (fromHex rh)) (we_submit env)) (\<lambda>tx.
     bindP (perform (ConfirmTx tx) (we_confirm env)) (\<lambda>_.
     bindP (uploadEvidence env jobId bd) (\<lambda>_.
     bindP (challenge_if_needed env jobId spec bd) (\<lambda>_.
       journal_state env jobId ''RECEIPT_COMMITTED''
         [(''tx'', JStr tx), (''evidenceFile'', JStr (evidencePath jobId))])))))"
    by (intro only_intros) simp_all
  ultimately show ?thesis by simp
qed

lemma only_submit_fail:
  assumes "commitment (we_crypto env) (receipt_json (payload (bn_envelope bd))) = Inl e"
  shows "submit_bundle env jobId spec bd s = (s, Inl e)"
  by (simp add: submit_bundle_def assms bindP_def liftP_def)

section \<open>Evidence before receipt\<close>

abbreviation receipt_hash :: "worker_env \<Rightarrow> evidence_bundle \<Rightarrow> string outcome" where
  "receipt_hash env bd \<equiv> commitment (we_crypto env) (receipt_json (payload (bn_envelope bd)))"

lemma obtain_bundle_stored:
  assumes "obtain_bundle env jobId j spec hw ex b s = (s1, r)" "b = h_evidence s (evidencePath jobId)"
  obtains new where "h_log s1 = h_log s @ new" "list_all (\<lambda>x. \<not> submits x) new"
    "\<And>bd. r = Inr bd \<Longrightarrow> h_evidence s1 (evidencePath jobId) = Some bd \<and>
       (b = Some bd \<and> new = [] \<or> (\<exists>rhx. new = [CollectResult, WroteEvidence rhx] \<and> receipt_hash env bd = Inr rhx))"
proof (cases b)
  case (Some bd)
  then show ?thesis using assms by (intro that [of "[]"]) (auto simp: obtain_bundle_def proc_simps)
next
  case None
  have jr: "journal_state env jobId st data h = (h', q) \<Longrightarrow> h_log h' = h_log h \<and> h_evidence h' = h_evidence h" for st data h h' q
    by (cases q) (auto simp: journal_state_def proc_simps)
  show ?thesis
  proof (cases r)
    case (Inr bd)
    then show ?thesis
      using assms None
      by (intro that [of "drop (length (h_log s)) (h_log s1)"])
        (auto simp: obtain_bundle_def writeEvidence_def perform_def effect_def proc_simps dest!: jr)
  next
    case (Inl e)
    then show ?thesis
      using assms None
      by (intro that [of "drop (length (h_log s)) (h_log s1)"])
        (auto simp: obtain_bundle_def writeEvidence_def perform_def effect_def proc_simps dest!: jr)
  qed
qed

text \<open>What may be said of a submitted hash: its evidence is stored, and was stored before.\<close>

definition backed :: "worker_env \<Rightarrow> string \<Rightarrow> host \<Rightarrow> host \<Rightarrow> effect list \<Rightarrow> buffer \<Rightarrow> bool" where
  "backed env jobId s s' new rh \<longleftrightarrow> (\<exists>bd rhx. h_evidence s' (evidencePath jobId) = Some bd
     \<and> receipt_hash env bd = Inr rhx \<and> rh = fromHex rhx
     \<and> (h_evidence s (evidencePath jobId) = Some bd
        \<or> (\<exists>pre post. new = pre @ WroteEvidence rhx # post \<and> list_all (\<lambda>x. \<not> submits x) pre)))"

lemma submitted_mem: "list_all (publishes h) new \<Longrightarrow> SubmitReceiptTx rh \<in> set new \<Longrightarrow> rh = h"
  by (auto simp: list_all_iff)

lemma no_submit_mem: "list_all (\<lambda>x. \<not> submits x) new \<Longrightarrow> SubmitReceiptTx rh \<notin> set new"
  by (auto simp: list_all_iff)

lemma bindP_getP [simp]: "bindP getP f s = f s s"
  by (simp add: bindP_def getP_def)

lemma backed_prefix:
  "backed env jobId s1 s' new rh \<Longrightarrow> h_evidence s1 = h_evidence s \<Longrightarrow> list_all (\<lambda>x. \<not> submits x) n1 \<Longrightarrow>
     backed env jobId s s' (n1 @ new) rh"
proof -
  assume b: "backed env jobId s1 s' new rh" and e: "h_evidence s1 = h_evidence s" and n: "list_all (\<lambda>x. \<not> submits x) n1"
  from b obtain bd rhx where 1: "h_evidence s' (evidencePath jobId) = Some bd" "receipt_hash env bd = Inr rhx" "rh = fromHex rhx"
    and 2: "h_evidence s1 (evidencePath jobId) = Some bd
        \<or> (\<exists>pre post. new = pre @ WroteEvidence rhx # post \<and> list_all (\<lambda>x. \<not> submits x) pre)"
    unfolding backed_def by blast
  have "h_evidence s (evidencePath jobId) = Some bd
        \<or> (\<exists>pre post. n1 @ new = pre @ WroteEvidence rhx # post \<and> list_all (\<lambda>x. \<not> submits x) pre)"
    using 2
  proof (elim disjE exE conjE)
    fix pre post
    assume "new = pre @ WroteEvidence rhx # post" "list_all (\<lambda>x. \<not> submits x) pre"
    then have "n1 @ new = (n1 @ pre) @ WroteEvidence rhx # post \<and> list_all (\<lambda>x. \<not> submits x) (n1 @ pre)"
      using n by simp
    then show ?thesis by blast
  qed (simp add: e)
  with 1 show ?thesis unfolding backed_def by blast
qed

lemma publish_backed:
  assumes "bindP (submit_bundle env jobId spec bd) (\<lambda>_. retP True) s2 = (s', r)"
    and "h_evidence s2 (evidencePath jobId) = Some bd"
    and "b = Some bd \<and> n2 = [] \<or> (\<exists>rhx. n2 = [CollectResult, WroteEvidence rhx] \<and> receipt_hash env bd = Inr rhx)"
    and "b = h_evidence s1 (evidencePath jobId)"
  obtains n3 where "h_log s' = h_log s2 @ n3"
    "\<And>rh. SubmitReceiptTx rh \<in> set n3 \<Longrightarrow> backed env jobId s1 s' (n2 @ n3) rh"
proof (cases "receipt_hash env bd")
  case (Inl e)
  then have "s' = s2" using assms(1) only_submit_fail [of env bd e] by (simp add: bindP_def)
  then show ?thesis by (intro that [of "[]"]) auto
next
  case (Inr rhx)
  have "only (publishes (fromHex rhx)) (bindP (submit_bundle env jobId spec bd) (\<lambda>_. retP True))"
    by (intro only_intros only_submit [OF Inr])
  then obtain n3 where n3: "h_evidence s' = h_evidence s2" "h_log s' = h_log s2 @ n3"
    "list_all (publishes (fromHex rhx)) n3" using assms(1) by (rule onlyE)
  have before: "h_evidence s1 (evidencePath jobId) = Some bd
      \<or> (\<exists>pre post. n2 @ n3 = pre @ WroteEvidence rhx # post \<and> list_all (\<lambda>x. \<not> submits x) pre)"
    using assms(3)
  proof (elim disjE exE conjE)
    fix r'
    assume "n2 = [CollectResult, WroteEvidence r']" "receipt_hash env bd = Inr r'"
    then have "n2 @ n3 = [CollectResult] @ WroteEvidence rhx # n3 \<and> list_all (\<lambda>x. \<not> submits x) [CollectResult]" using Inr by simp
    then show ?thesis by blast
  qed (simp add: assms(4))
  have "backed env jobId s1 s' (n2 @ n3) rh" if "SubmitReceiptTx rh \<in> set n3" for rh
    unfolding backed_def using before submitted_mem [OF n3(3) that] n3(1) assms(2) Inr by auto
  with n3(2) show ?thesis by (rule that)
qed

lemma collect_and_publish_backed:
  assumes "bindP (obtain_bundle env jobId j spec hw ex b) (\<lambda>bd.
      bindP (submit_bundle env jobId spec bd) (\<lambda>_. retP True)) s1 = (s', r)"
    and b: "b = h_evidence s1 (evidencePath jobId)"
  obtains new where "h_log s' = h_log s1 @ new"
    "\<And>rh. SubmitReceiptTx rh \<in> set new \<Longrightarrow> backed env jobId s1 s' new rh"
proof -
  obtain s2 r2 where ob: "obtain_bundle env jobId j spec hw ex b s1 = (s2, r2)" by fastforce
  obtain n2 where n2: "h_log s2 = h_log s1 @ n2" "list_all (\<lambda>x. \<not> submits x) n2"
    "\<And>bd. r2 = Inr bd \<Longrightarrow> h_evidence s2 (evidencePath jobId) = Some bd \<and>
     (b = Some bd \<and> n2 = [] \<or> (\<exists>rhx. n2 = [CollectResult, WroteEvidence rhx] \<and> receipt_hash env bd = Inr rhx))"
    by (rule obtain_bundle_stored [OF ob b]) blast
  show thesis
  proof (cases r2)
    case (Inl e)
    then have "s' = s2" using assms(1) ob by (simp add: bindP_def)
    then show thesis using that [of n2] n2 no_submit_mem [OF n2(2)] by auto
  next
    case (Inr bd)
    then have "bindP (submit_bundle env jobId spec bd) (\<lambda>_. retP True) s2 = (s', r)"
      using assms(1) ob by (simp add: bindP_step)
    then obtain n3 where "h_log s' = h_log s2 @ n3"
      "\<And>rh. SubmitReceiptTx rh \<in> set n3 \<Longrightarrow> backed env jobId s1 s' (n2 @ n3) rh"
      using publish_backed n2(3) [OF Inr] b by metis
    then show thesis using that [of "n2 @ n3"] n2(1) no_submit_mem [OF n2(2)] by auto
  qed
qed

lemma worker_body_backed:
  assumes run: "worker_body env cmd jobId j spec hw ex uuids s = (s', r)"
  obtains new where "h_log s' = h_log s @ new"
    "\<And>rh. SubmitReceiptTx rh \<in> set new \<Longrightarrow> backed env jobId s s' new rh"
proof (cases "cmd = Recover \<and> jb_state j = st_VERIFYING")
  case True
  have "only (\<lambda>x. \<not> submits x) (resume_verifying env jobId spec (h_evidence s (evidencePath jobId)))"
    unfolding resume_verifying_def by (intro only_intros) simp_all
  then obtain new where "h_log s' = h_log s @ new" "list_all (\<lambda>x. \<not> submits x) new"
    using run True by (auto simp: worker_body_def elim: onlyE)
  then show ?thesis using that no_submit_mem by blast
next
  case False
  let ?b = "h_evidence s (evidencePath jobId)"
  obtain s1 r1 where reach: "reach_running env cmd jobId j ex uuids ?b s = (s1, r1)" by fastforce
  obtain n1 where n1: "h_evidence s1 = h_evidence s" "h_log s1 = h_log s @ n1" "list_all (\<lambda>x. \<not> submits x) n1"
    using onlyE [OF only_reach reach] .
  have eq: "worker_body env cmd jobId j spec hw ex uuids s = bindP (reach_running env cmd jobId j ex uuids ?b) (\<lambda>_.
      bindP (obtain_bundle env jobId j spec hw ex ?b) (\<lambda>bd. bindP (submit_bundle env jobId spec bd) (\<lambda>_. retP True))) s"
    using False by (auto simp: worker_body_def Let_def)
  show ?thesis
  proof (cases r1)
    case (Inl e)
    then have "s' = s1" using run reach by (simp add: eq bindP_step)
    then show ?thesis using that n1 no_submit_mem [OF n1(3)] by auto
  next
    case (Inr u)
    then have "bindP (obtain_bundle env jobId j spec hw ex ?b) (\<lambda>bd.
        bindP (submit_bundle env jobId spec bd) (\<lambda>_. retP True)) s1 = (s', r)"
      using run reach by (simp add: eq bindP_step)
    then obtain n2 where n2: "h_log s' = h_log s1 @ n2"
      "\<And>rh. SubmitReceiptTx rh \<in> set n2 \<Longrightarrow> backed env jobId s1 s' n2 rh"
      using collect_and_publish_backed n1(1) by metis
    show ?thesis
      using that [of "n1 @ n2"] n1 n2 no_submit_mem [OF n1(3)] backed_prefix [OF n2(2) n1(1,3)] by auto
  qed
qed

lemma worker_guarded_backed:
  assumes run: "worker_guarded env cmd jobId j spec hw ex uuids s = (s', r)"
  obtains new where "h_log s' = h_log s @ new"
    "\<And>rh. SubmitReceiptTx rh \<in> set new \<Longrightarrow> backed env jobId s s' new rh"
proof -
  obtain s1 r1 where body: "worker_body env cmd jobId j spec hw ex uuids s = (s1, r1)" by fastforce
  obtain n1 where n1: "h_log s1 = h_log s @ n1"
    "\<And>rh. SubmitReceiptTx rh \<in> set n1 \<Longrightarrow> backed env jobId s s1 n1 rh"
    by (rule worker_body_backed [OF body]) blast
  have rest: "only (\<lambda>x. x = Cleanup) (if c then effect Cleanup else retP ())"
    "only (\<lambda>x. x = Cleanup) (bindP (journal_state env jobId st d) (\<lambda>_. throwP e))" for c st d e
    by (intro only_intros; simp)+
  have "\<exists>m. only (\<lambda>x. x = Cleanup) m \<and> m s1 = (s', r)"
  proof (cases r1)
    case (Inl e)
    then show ?thesis using run body rest(2) by (auto simp: worker_guarded_def catchP_def bindP_def)
  next
    case (Inr c)
    have "(if c then effect Cleanup else retP ()) s1 = (s', r)"
      using run body Inr by (cases c) (auto simp: worker_guarded_def catchP_def bindP_def effect_def modifyP_def retP_def)
    then show ?thesis using rest(1) [of c] by blast
  qed
  then obtain m where "only (\<lambda>x. x = Cleanup) m" "m s1 = (s', r)" by blast
  then obtain n2 where n2: "h_evidence s' = h_evidence s1" "h_log s' = h_log s1 @ n2" "list_all (\<lambda>x. x = Cleanup) n2"
    by (rule onlyE)
  have "backed env jobId s s' (n1 @ n2) rh" if "SubmitReceiptTx rh \<in> set (n1 @ n2)" for rh
  proof -
    from that n2(3) have "SubmitReceiptTx rh \<in> set n1" by (auto simp: list_all_iff)
    from n1(2) [OF this] show ?thesis unfolding backed_def using n2(1) by (metis append.assoc append_Cons)
  qed
  then show ?thesis using that [of "n1 @ n2"] n1(1) n2(2) by simp
qed

lemma worker_run_cases:
  assumes "worker_run env cmd jobId rawSpec hw j machine auth s = (s', r)"
  obtains (refused) e where "s' = s" "r = Inl e"
  | (runs) spec kind uuids where "worker_guarded env cmd jobId j spec hw (we_executor env kind) uuids s = (s', r)"
      "jb_worker j = we_worker env" "wa_active auth" "cmd = Execute \<Longrightarrow> h_journals s (journalPath jobId) = None"
      "parse_spec rawSpec = Inr spec" "selectExecutor (we_vars env) spec = Inr kind"
      "commitment (we_crypto env) (spec_json spec) = Inr (toHex (jb_specHash j))"
      "commitment (we_crypto env) hw = Inr (toHex (mc_hardwareHash machine))"
proof (cases "\<exists>e. s' = s \<and> r = Inl e")
  case True
  then show ?thesis using refused by blast
next
  case False
  then show ?thesis
    using assms by (cases r) (auto simp: worker_run_def proc_simps outcome_simps loadJournal_def
      split: option.splits if_splits intro!: runs)
qed

lemma first_before:
  assumes "a @ W # b = pre @ S # post" "list_all (\<lambda>x. \<not> submits x) a" "submits S" "W \<noteq> S"
  shows "W \<in> set pre"
  using assms
proof (induction a arbitrary: pre)
  case Nil
  then show ?case by (cases pre) auto
next
  case (Cons y a)
  then show ?case by (cases pre) auto
qed

text \<open>
  C5. Evidence precedes the receipt. Whatever fails and whichever command runs, a receipt hash is
  submitted on chain only when the bundle with that hash is stored on the worker's disk, and it was
  stored before the submission: earlier in this run, or already when the run began.
\<close>

theorem evidence_before_receipt:
  assumes "worker_run env cmd jobId rawSpec hw j machine auth s = (s', r)"
  shows "\<exists>new. h_log s' = h_log s @ new \<and> (\<forall>pre rh post. new = pre @ SubmitReceiptTx rh # post \<longrightarrow>
     (\<exists>bd rhx. h_evidence s' (evidencePath jobId) = Some bd
        \<and> commitment (we_crypto env) (receipt_json (payload (bn_envelope bd))) = Inr rhx \<and> rh = fromHex rhx
        \<and> (h_evidence s (evidencePath jobId) = Some bd \<or> WroteEvidence rhx \<in> set pre)))"
proof (cases rule: worker_run_cases [OF assms])
  case (1 e)
  then show ?thesis by auto
next
  case (2 spec kind uuids)
  obtain new where new: "h_log s' = h_log s @ new"
    "\<And>rh. SubmitReceiptTx rh \<in> set new \<Longrightarrow> backed env jobId s s' new rh"
    by (rule worker_guarded_backed [OF 2(1)]) blast
  have "\<exists>bd rhx. h_evidence s' (evidencePath jobId) = Some bd
        \<and> commitment (we_crypto env) (receipt_json (payload (bn_envelope bd))) = Inr rhx \<and> rh = fromHex rhx
        \<and> (h_evidence s (evidencePath jobId) = Some bd \<or> WroteEvidence rhx \<in> set pre)"
    if split: "new = pre @ SubmitReceiptTx rh # post" for pre rh post
  proof -
    have "backed env jobId s s' new rh" using new(2) split by simp
    moreover have "WroteEvidence rhx \<in> set pre"
      if "new = a @ WroteEvidence rhx # b" "list_all (\<lambda>x. \<not> submits x) a" for a b rhx
      using first_before [of a "WroteEvidence rhx" b pre "SubmitReceiptTx rh" post] that split by simp
    ultimately show ?thesis unfolding backed_def by blast
  qed
  with new(1) show ?thesis by blast
qed

lemma only_resume: "only (\<lambda>x. \<exists>u b. x = Post u b) (resume_verifying env jobId spec bd)"
  unfolding resume_verifying_def by (intro only_intros) simp_all

lemma only_stored:
  assumes "jb_state j = st_RUNNING" "receipt_hash env bd = Inr rhx"
  shows "only (publishes (fromHex rhx)) (bindP (reach_running env cmd jobId j ex uuids (Some bd)) (\<lambda>_.
       bindP (obtain_bundle env jobId j spec hw ex (Some bd)) (\<lambda>bd'.
       bindP (submit_bundle env jobId spec bd') (\<lambda>_. retP True))))"
proof -
  have "only (publishes (fromHex rhx)) (submit_bundle env jobId spec bd)" by (rule only_submit [OF assms(2)])
  moreover have "bindP (obtain_bundle env jobId j spec hw ex (Some bd)) (\<lambda>bd'. bindP (submit_bundle env jobId spec bd') (\<lambda>_. retP True))
     = bindP (submit_bundle env jobId spec bd) (\<lambda>_. retP True)"
    by (intro ext) (simp add: obtain_bundle_def bindP_def retP_def)
  moreover have "reach_running env cmd jobId j ex uuids (Some bd) = retP ()"
    using assms(1) by (simp add: reach_running_def)
  ultimately show ?thesis by (auto intro!: only_intros)
qed

lemma only_guarded:
  assumes "\<And>s. s = s0 \<Longrightarrow> \<exists>m. only P m \<and> worker_body env cmd jobId j spec hw ex uuids s = m s" "P Cleanup"
    and "worker_guarded env cmd jobId j spec hw ex uuids s0 = (s', r)"
  shows "\<exists>new. h_evidence s' = h_evidence s0 \<and> h_log s' = h_log s0 @ new \<and> list_all P new"
proof -
  from assms(1) obtain m where m: "only P m" "worker_body env cmd jobId j spec hw ex uuids s0 = m s0" by blast
  let ?m = "catchP (bindP m (\<lambda>clean. if clean then effect Cleanup else retP ()))
     (\<lambda>e. bindP (journal_state env jobId ''FAILED'' [(''message'', JStr e), (''recoverable'', JBool True)]) (\<lambda>_. throwP e))"
  have "only P ?m" using m(1) assms(2) by (intro only_intros)
  moreover have "?m s0 = (s', r)"
    using assms(3) m(2) by (simp add: worker_guarded_def catchP_def bindP_def)
  ultimately show ?thesis by (rule onlyE) blast
qed


section \<open>A run of the worker\<close>

definition sample_hw :: json where
  "sample_hw = JObj [(''gpu'', JArr [])]"

definition sample_result :: exec_result where
  "sample_result = \<lparr>x_stdout = utf8 ''out'', x_stderr = [], x_result = utf8 ''42'', x_exitCode = 0, x_startedAt = 100,
     x_finishedAt = 110, x_gpuUuids = [], x_actualDigest = digest sample_spec,
     x_telemetry = \<lparr>t_gpuUuids = [], t_samples = 1, t_peakVramMb = 0, t_durationSeconds = 10\<rparr>\<rparr>"

definition sample_worker_env :: worker_env where
  "sample_worker_env = \<lparr>we_crypto = sample_crypto, we_key = utf8 sample_worker, we_worker = sample_worker,
     we_cluster = ''devnet'', we_program = sample_program, we_nonce = sample_uuid, we_now = 100, we_stamp = (\<lambda>_. ''t''),
     we_vars = Map.empty, we_executor = (\<lambda>_. \<lparr>ec_prepare = Inr (), ec_start = Inr (), ec_recover = None,
       ec_collect = Inr sample_result\<rparr>),
     we_startJob = Inr (), we_submit = Inr ''tx'', we_confirm = Inr (), we_http = (\<lambda>_ _. Inl ''offline''),
     we_challengeTimes = (0, 0, 0)\<rparr>"

definition sample_job_account :: "int \<Rightarrow> job_account" where
  "sample_job_account st = \<lparr>jb_id = [], jb_buyer = sample_program, jb_specHash = checksum (utf8 (show_json (spec_json sample_spec))),
     jb_mint = [], jb_treasury = [], jb_verifier = [], jb_resolver = [], jb_provider = sample_program, jb_payout = [],
     jb_machine = sample_machine, jb_worker = sample_worker, jb_receiptHash = [], jb_evidenceHash = [], jb_budget = 100,
     jb_deposit = 0, jb_price = 50, jb_providerPaid = 0, jb_feePaid = 0, jb_refunded = 0, jb_deadline = 1000,
     jb_startedAt = 99, jb_submittedAt = 111, jb_verifiedAt = 0, jb_disputeSeconds = 60, jb_timeout = 300, jb_feeBps = 0,
     jb_policy = 0, jb_state = st, jb_settled = False, jb_resolved = False\<rparr>"

definition sample_machine_account :: machine_account where
  "sample_machine_account = \<lparr>mc_provider = sample_program, mc_worker = sample_worker, mc_id = [],
     mc_hardwareHash = checksum (utf8 (show_json sample_hw)), mc_gpuCount = 0, mc_vramMb = 0, mc_active = True,
     mc_busy = True, mc_activeJob = sample_job, mc_completed = 0, mc_failed = 0\<rparr>"

definition sample_auth :: worker_account where
  "sample_auth = \<lparr>wa_provider = sample_program, wa_worker = sample_worker, wa_active = True, wa_expiresAt = 1000\<rparr>"

definition empty_host :: host where
  "empty_host = \<lparr>h_journals = Map.empty, h_evidence = Map.empty, h_log = []\<rparr>"

lemma parse_sample_spec: "parse_spec (spec_json sample_spec) = Inr sample_spec"
  using sample_spec_valid parse_shape_spec_json [OF sample_spec_fields] parse_Inr_iff [of "spec_json sample_spec" sample_spec]
  by (simp add: parse_spec_def)

lemma sample_executor: "selectExecutor Map.empty sample_spec = Inr DockerExecutor"
  by (simp add: selectExecutor_def ociRuntime_def sample_image)

lemma sample_make_receipt:
  "make_receipt sample_worker_env sample_job (sample_job_account st) sample_spec sample_hw sample_result = Inr (sample_receipt
     \<lparr>r_hardwareReportHash := sample_hash sample_hw\<rparr>)"
  by (simp add: make_receipt_def sample_worker_env_def sample_receipt_def sample_job_account_def sample_result_def
      sample_evidence_def)

definition sample_bundle :: evidence_bundle where
  "sample_bundle = \<lparr>bn_envelope = \<lparr>payload = sample_receipt\<lparr>r_hardwareReportHash := sample_hash sample_hw\<rparr>,
       signature = toBase64 (ed_sign sample_crypto (utf8 sample_worker)
         (utf8 (show_json (receipt_json (sample_receipt\<lparr>r_hardwareReportHash := sample_hash sample_hw\<rparr>)))))\<rparr>,
     bn_spec = sample_spec, bn_stdout = toBase64 (utf8 ''out''), bn_stderr = toBase64 [], bn_result = toBase64 (utf8 ''42''),
     bn_telemetry = x_telemetry sample_result, bn_hardware = sample_hw\<rparr>"

lemma sample_make_bundle:
  "make_bundle sample_worker_env sample_job (sample_job_account st) sample_spec sample_hw sample_result = Inr sample_bundle"
  unfolding make_bundle_def sample_make_receipt
  by (simp add: sample_signPayload sample_worker_env_def sample_bundle_def sample_result_def)

abbreviation sample_rh :: string where
  "sample_rh \<equiv> sample_hash (receipt_json (payload (bn_envelope sample_bundle)))"

lemma journal_state_ok:
  assumes "loadJournal (h_journals h) jobId = Inr p"
  obtains files f where "journal_state env jobId st data h = (h\<lparr>h_journals := files\<rparr>, Inr ())"
    "loadJournal files jobId = Inr (Some f)"
proof -
  have "\<exists>F f. recordJournal (h_journals h) jobId st data (we_stamp env st) = Inr F \<and> loadJournal F jobId = Inr (Some f)"
    by (simp add: recordJournal_def assms) (simp add: loadJournal_def)
  then obtain F f where F: "recordJournal (h_journals h) jobId st data (we_stamp env st) = Inr F" "loadJournal F jobId = Inr (Some f)"
    by blast
  show thesis
    by (rule that [OF _ F(2)]) (simp add: journal_state_def F(1) bindP_def getP_def liftP_def modifyP_def)
qed

lemma perform_step [simp]: "perform x (Inr v) h = (h\<lparr>h_log := h_log h @ [x]\<rparr>, Inr v)"
  by (simp add: perform_def effect_def bindP_def modifyP_def liftP_def)

lemma sample_run:
  obtains s' where "worker_run sample_worker_env Execute sample_job (spec_json sample_spec) sample_hw
     (sample_job_account st_ASSIGNED) sample_machine_account sample_auth empty_host = (s', Inr ())"
    "h_log s' = [Prepare [], StartJobTx, StartContainer, CollectResult, WroteEvidence sample_rh,
       SubmitReceiptTx (fromHex sample_rh), ConfirmTx ''tx'', Cleanup]"
    "h_evidence s' = [evidencePath sample_job \<mapsto> sample_bundle]"
proof -
  let ?env = sample_worker_env and ?j = "sample_job_account st_ASSIGNED" and ?e = "evidencePath sample_job"
  let ?ex = "we_executor ?env DockerExecutor"
  have env: "we_crypto ?env = sample_crypto" "we_vars ?env = Map.empty" "we_startJob ?env = Inr ()" "we_submit ?env = Inr ''tx''"
    "we_confirm ?env = Inr ()" "ec_prepare ?ex = Inr ()" "ec_start ?ex = Inr ()" "ec_collect ?ex = Inr sample_result"
    by (simp_all add: sample_worker_env_def)
  have st: "jb_state ?j = st_ASSIGNED" by (simp add: sample_job_account_def)
  have j0: "loadJournal (h_journals empty_host) sample_job = Inr None" by (simp add: empty_host_def loadJournal_def)
  obtain F1 f1 where F1: "journal_state ?env sample_job ''PREPARING'' [] empty_host = (empty_host\<lparr>h_journals := F1\<rparr>, Inr ())"
    "loadJournal F1 sample_job = Inr (Some f1)" by (rule journal_state_ok [OF j0])
  let ?h1 = "\<lparr>h_journals = F1, h_evidence = Map.empty, h_log = [Prepare [], StartJobTx, StartContainer]\<rparr>"
  obtain F2 f2 where F2: "journal_state ?env sample_job ''RUNNING'' [] ?h1 = (?h1\<lparr>h_journals := F2\<rparr>, Inr ())"
    "loadJournal F2 sample_job = Inr (Some f2)"
    by (rule journal_state_ok [of ?h1 sample_job "Some f1" ?env "''RUNNING''" "[]"]) (simp_all add: F1(2))
  have reach: "reach_running ?env Execute sample_job ?j ?ex [] None empty_host = (?h1\<lparr>h_journals := F2\<rparr>, Inr ())"
    unfolding reach_running_def st env using F1(1) F2(1) by (simp add: bindP_step retP_def) (simp add: bindP_def empty_host_def)
  let ?h2 = "\<lparr>h_journals = F2, h_evidence = [?e \<mapsto> sample_bundle], h_log = [Prepare [], StartJobTx, StartContainer, CollectResult,
     WroteEvidence sample_rh]\<rparr>"
  let ?d2 = "[(''evidenceFile'', JStr ?e), (''receiptHash'', JStr sample_rh)]"
  obtain F3 f3 where F3: "journal_state ?env sample_job ''EVIDENCE_READY'' ?d2 ?h2 = (?h2\<lparr>h_journals := F3\<rparr>, Inr ())"
    "loadJournal F3 sample_job = Inr (Some f3)"
    by (rule journal_state_ok [of ?h2 sample_job "Some f2" ?env "''EVIDENCE_READY''" ?d2]) (simp_all add: F2(2))
  have ob: "obtain_bundle ?env sample_job ?j sample_spec sample_hw ?ex None (?h1\<lparr>h_journals := F2\<rparr>)
      = (?h2\<lparr>h_journals := F3\<rparr>, Inr sample_bundle)"
    using F3(1) unfolding obtain_bundle_def env
    by (simp add: bindP_def sample_make_bundle liftP_def retP_def writeEvidence_def effect_def modifyP_def)
  let ?h3 = "?h2\<lparr>h_journals := F3, h_log := h_log ?h2 @ [SubmitReceiptTx (fromHex sample_rh), ConfirmTx ''tx'']\<rparr>"
  let ?d3 = "[(''tx'', JStr ''tx''), (''evidenceFile'', JStr ?e)]"
  obtain F4 f4 where F4: "journal_state ?env sample_job ''RECEIPT_COMMITTED'' ?d3 ?h3 = (?h3\<lparr>h_journals := F4\<rparr>, Inr ())"
    "loadJournal F4 sample_job = Inr (Some f4)"
    by (rule journal_state_ok [of ?h3 sample_job "Some f3" ?env "''RECEIPT_COMMITTED''" ?d3]) (simp_all add: F3(2))
  have sub: "submit_bundle ?env sample_job sample_spec sample_bundle (?h2\<lparr>h_journals := F3\<rparr>) = (?h3\<lparr>h_journals := F4\<rparr>, Inr ())"
    using F4(1) unfolding submit_bundle_def env
    by (simp add: bindP_def liftP_def retP_def uploadEvidence_def set_var_def env challenge_if_needed_def sample_spec_parts)
  have body: "worker_body ?env Execute sample_job ?j sample_spec sample_hw ?ex [] empty_host = (?h3\<lparr>h_journals := F4\<rparr>, Inr True)"
    using reach ob sub by (simp add: worker_body_def Let_def getP_def bindP_def retP_def empty_host_def)
  have "worker_run ?env Execute sample_job (spec_json sample_spec) sample_hw ?j sample_machine_account sample_auth empty_host
     = worker_guarded ?env Execute sample_job ?j sample_spec sample_hw ?ex [] empty_host"
    using j0 unfolding worker_run_def env parse_sample_spec sample_executor
    by (simp add: bindP_def getP_def liftP_def requireP_def guard_def gpu_uuids_def sample_hw_def json_get_def sample_auth_def
        sample_job_account_def sample_machine_account_def sample_worker_env_def sample_hash_def sample_executor)
  also have "\<dots> = (?h3\<lparr>h_journals := F4, h_log := h_log ?h3 @ [Cleanup]\<rparr>, Inr ())"
    using body by (simp add: worker_guarded_def catchP_def bindP_def effect_def modifyP_def)
  finally show thesis by (rule that) simp_all
qed

theorem evidence_before_receipt_witness:
  "\<exists>(s' :: host) bd. h_log s' = [Prepare [], StartJobTx, StartContainer, CollectResult, WroteEvidence sample_rh,
       SubmitReceiptTx (fromHex sample_rh), ConfirmTx ''tx'', Cleanup]
     \<and> h_evidence s' (evidencePath sample_job) = Some bd \<and> receipt_hash sample_worker_env bd = Inr sample_rh"
proof -
  obtain s' where run: "worker_run sample_worker_env Execute sample_job (spec_json sample_spec) sample_hw
     (sample_job_account st_ASSIGNED) sample_machine_account sample_auth empty_host = (s', Inr ())"
    and log: "h_log s' = [Prepare [], StartJobTx, StartContainer, CollectResult, WroteEvidence sample_rh,
       SubmitReceiptTx (fromHex sample_rh), ConfirmTx ''tx'', Cleanup]"
    and ev: "h_evidence s' = [evidencePath sample_job \<mapsto> sample_bundle]"
    by (rule sample_run)
  have "\<exists>bd. h_evidence s' (evidencePath sample_job) = Some bd"
    using evidence_before_receipt [OF run] log
    by (auto simp: empty_host_def Cons_eq_append_conv)
  then show ?thesis using log ev by (intro exI [of _ s'] exI [of _ sample_bundle]) (simp add: sample_worker_env_def)
qed


end
