(* ===== verification/Verifier.thy ===== *)
theory Verifier
  imports Worker Redundancy
begin

text \<open>
  The verifier service (\<^verbatim>\<open>apps/verifier/src/verify.ts\<close>, \<^verbatim>\<open>daemon.ts\<close>) and the receipt store it
  writes to (\<^verbatim>\<open>packages/storage/index.ts\<close>). The database tables the code reads and writes are the
  state, together with the sequence of outside effects; the chain accounts, and how each remote call
  ends, come from the environment record. The theorems say which on-chain decision may be submitted,
  that a decision is recorded once, and that the bundle an honest worker builds is accepted.
\<close>

section \<open>Tables and environment\<close>

record raw_bundle =
  rb_envelope :: signed_receipt
  rb_spec :: json
  rb_stdout :: string
  rb_stderr :: string
  rb_result :: string
  rb_telemetry :: telemetry
  rb_hardware :: "json option"

record receipt_row =
  rr_receipt_hash :: string
  rr_envelope :: signed_receipt
  rr_storage_key :: string
  rr_storage_url :: string

record replica_row =
  rw_job :: string
  rw_group :: string
  rw_ordinal :: int
  rw_provider :: "string option"
  rw_machine :: "string option"
  rw_result :: "string option"
  rw_verify1 :: "bool option"

record replica_group =
  rg_required_matches :: int
  rg_state :: string
  rg_consensus :: "string option"

record verification_row =
  vr_receipt_hash :: string
  vr_verifier :: string
  vr_passed :: bool
  vr_assurance :: string
  vr_failures :: "string list"
  vr_tx_signature :: "string option"

datatype verifier_effect =
    ReconcileProjection | UploadBlob string | SubmitVerificationTx buffer bool | ConfirmVerificationTx string

record verifier_db =
  d_receipts :: "string \<rightharpoonup> receipt_row"
  d_challenges :: "string \<rightharpoonup> bool option"
  d_replicas :: "replica_row list"
  d_groups :: "string \<rightharpoonup> replica_group"
  d_verifications :: "string \<rightharpoonup> verification_row"
  d_jobs :: "string \<Rightarrow> bool"
  d_log :: "verifier_effect list"

text \<open>The job account as the finalized RPC returns it: absent, owned by another program, or decoded.\<close>

datatype job_info = NoAccount | ForeignAccount | JobInfo job_account

record verifier_env =
  ve_crypto :: crypto
  ve_keypair :: bool
  ve_signer :: string
  ve_cluster :: string
  ve_program :: string
  ve_now :: rat
  ve_job :: "string \<Rightarrow> job_info outcome"
  ve_machine :: "string \<Rightarrow> machine_account outcome"
  ve_worker :: "string \<Rightarrow> string \<Rightarrow> worker_account outcome"
  ve_query :: "string \<Rightarrow> unit outcome"
  ve_reconcile :: "string list outcome"
  ve_upload :: "string \<Rightarrow> (string \<times> string) outcome"
  ve_submit :: "string outcome"
  ve_confirm :: "unit outcome"

definition vdo :: "verifier_effect \<Rightarrow> 'a outcome \<Rightarrow> (verifier_db, 'a) proc" where
  "vdo x r = bindP (modifyP (\<lambda>d. d\<lparr>d_log := d_log d @ [x]\<rparr>)) (\<lambda>_. liftP r)"

text \<open>\<^verbatim>\<open>checked(...)\<close> on a select and on a write: the request may fail, and then nothing is written.\<close>

definition select_db :: "verifier_env \<Rightarrow> string \<Rightarrow> (verifier_db \<Rightarrow> 'a) \<Rightarrow> (verifier_db, 'a) proc" where
  "select_db env t f = bindP (liftP (ve_query env t)) (\<lambda>_. bindP getP (\<lambda>d. retP (f d)))"

definition write_db :: "verifier_env \<Rightarrow> string \<Rightarrow> (verifier_db \<Rightarrow> verifier_db) \<Rightarrow> (verifier_db, unit) proc" where
  "write_db env t f = bindP (liftP (ve_query env t)) (\<lambda>_. modifyP f)"

section \<open>The receipt store\<close>

definition storeReceipt :: "verifier_env \<Rightarrow> raw_bundle \<Rightarrow> (verifier_db, receipt_row) proc" where
  "storeReceipt env b = (let p = payload (rb_envelope b); jobId = r_jobId p in
     bindP (liftP (commitment (ve_crypto env) (receipt_json p))) (\<lambda>h.
     bindP (select_db env ''receipts'' (\<lambda>d. d_receipts d jobId)) (\<lambda>existing.
     case existing of
       Some row \<Rightarrow> bindP (requireP (rr_receipt_hash row = h) ''Conflicting receipt for this job'') (\<lambda>_. retP row)
     | None \<Rightarrow>
         let key = jobId @ ''/'' @ h @ ''.json'' in
         bindP (vdo (UploadBlob key) (ve_upload env key)) (\<lambda>(k, url).
         let row = \<lparr>rr_receipt_hash = h, rr_envelope = rb_envelope b, rr_storage_key = k, rr_storage_url = url\<rparr> in
         bindP (write_db env ''receipts upsert'' (\<lambda>d. case d_receipts d jobId of
             None \<Rightarrow> d\<lparr>d_receipts := (d_receipts d)(jobId \<mapsto> row)\<rparr> | Some _ \<Rightarrow> d)) (\<lambda>_.
         retP row)))))"

section \<open>Verifying a bundle\<close>

definition chain_assignment ::
  "verifier_env \<Rightarrow> string \<Rightarrow> job_account \<Rightarrow> machine_account \<Rightarrow> worker_account \<Rightarrow> assignment" where
  "chain_assignment env jobId j machine auth = \<lparr>a_jobId = jobId, a_jobSpecHash = toHex (jb_specHash j),
     a_verificationPolicy = (case policyFromCode (jb_policy j) of Inr p \<Rightarrow> policy_name p | Inl _ \<Rightarrow> []),
     a_provider = jb_provider j, a_machineId = jb_machine j, a_worker = jb_worker j, a_cluster = ve_cluster env,
     a_program = ve_program env, a_startedAt = jb_startedAt j, a_submittedAt = jb_submittedAt j,
     a_hardwareReportHash = toHex (mc_hardwareHash machine), a_receiptHash = toHex (jb_receiptHash j),
     a_workerActive = (wa_active auth \<and> ve_now env < of_int (wa_expiresAt auth))\<rparr>"

definition bundle_evidence :: "raw_bundle \<Rightarrow> evidence" where
  "bundle_evidence b = \<lparr>e_stdout = fromBase64 (rb_stdout b), e_stderr = fromBase64 (rb_stderr b),
     e_result = fromBase64 (rb_result b), e_telemetry = rb_telemetry b, e_hardware = rb_hardware b\<rparr>"

text \<open>VERIFY_2: the hidden challenge, answered through the API, decides.\<close>

definition decide_challenge :: "verifier_env \<Rightarrow> string \<Rightarrow> decision \<Rightarrow> (verifier_db, decision) proc" where
  "decide_challenge env jobId dec =
     bindP (select_db env ''verification_challenges'' (\<lambda>d. Option.bind (d_challenges d jobId) id)) (\<lambda>ch.
     case ch of
       None \<Rightarrow> throwP ''VERIFY_2 challenge response is pending''
     | Some ok \<Rightarrow> retP (dec\<lparr>passed := ok, assurance := ''VERIFY_2'', requiresAdditionalEvidence := False,
         failures := (if ok then failures dec else failures dec @ [''Hidden challenge failed''])\<rparr>))"

definition truthy_text :: "string option \<Rightarrow> bool" where
  "truthy_text v \<longleftrightarrow> v \<noteq> None \<and> v \<noteq> Some []"

definition completed_rows :: "replica_row list \<Rightarrow> replica_row list" where
  "completed_rows rows = filter (\<lambda>v. truthy_text (rw_provider v) \<and> truthy_text (rw_machine v) \<and> rw_result v \<noteq> None) rows"

definition row_replica :: "replica_row \<Rightarrow> replica" where
  "row_replica v = \<lparr>rp_jobId = rw_job v, rp_provider = the (rw_provider v), rp_machineId = the (rw_machine v),
     rp_resultHash = the (rw_result v), rp_verify1Passed = (rw_verify1 v = Some True)\<rparr>"

definition group_rows :: "verifier_db \<Rightarrow> string \<Rightarrow> replica_row list" where
  "group_rows d g = take 5 (sort_key rw_ordinal (filter (\<lambda>v. rw_group v = g) (d_replicas d)))"

definition report_replica :: "string \<Rightarrow> job_account \<Rightarrow> string \<Rightarrow> verifier_db \<Rightarrow> verifier_db" where
  "report_replica jobId j rh d = d\<lparr>d_replicas := map (\<lambda>v. if rw_job v = jobId
     then v\<lparr>rw_provider := Some (jb_provider j), rw_machine := Some (jb_machine j), rw_result := Some rh,
       rw_verify1 := Some True\<rparr> else v) (d_replicas d)\<rparr>"

text \<open>VERIFY_3: record this replica, wait for the others, and follow the quorum.\<close>

definition decide_redundant ::
  "verifier_env \<Rightarrow> string \<Rightarrow> job_account \<Rightarrow> string \<Rightarrow> decision \<Rightarrow> (verifier_db, decision) proc" where
  "decide_redundant env jobId j rh dec =
     bindP (select_db env ''redundant_job_replicas'' (\<lambda>d. find (\<lambda>v. rw_job v = jobId) (d_replicas d))) (\<lambda>replica.
     case replica of
       None \<Rightarrow> throwP ''VERIFY_3 replica group is missing''
     | Some rep \<Rightarrow>
       bindP (write_db env ''redundant_job_replicas update'' (report_replica jobId j rh)) (\<lambda>_.
       bindP (select_db env ''redundant_job_groups'' (\<lambda>d. (d_groups d (rw_group rep), group_rows d (rw_group rep)))) (\<lambda>(group, rows).
       case group of
         None \<Rightarrow> throwP ''VERIFY_3 replica group is missing''
       | Some grp \<Rightarrow>
         let done = completed_rows rows in
         bindP (requireP (rg_required_matches grp \<le> int (length done)) ''VERIFY_3 is waiting for independent replicas'') (\<lambda>_.
         bindP (liftP (verifyRedundantResults (map row_replica done) (rg_required_matches grp))) (\<lambda>red.
         bindP (requireP (rd_passed red \<or> length done = length rows) ''VERIFY_3 is waiting for its tie-breaking replica'') (\<lambda>_.
         bindP (write_db env ''redundant_job_groups update'' (\<lambda>d. d\<lparr>d_groups := (d_groups d)(rw_group rep \<mapsto>
             grp\<lparr>rg_state := (if rd_passed red then ''PASSED'' else ''DISPUTED''), rg_consensus := rd_resultHash red\<rparr>)\<rparr>)) (\<lambda>_.
         let ok = (rd_passed red \<and> rd_resultHash red = Some rh) in
         retP (dec\<lparr>passed := ok, assurance := ''VERIFY_3'', requiresAdditionalEvidence := False,
           failures := (if ok then failures dec
             else failures dec @ rd_failures red @ [''Replica is outside the result quorum''])\<rparr>))))))))"

definition decide ::
  "verifier_env \<Rightarrow> string \<Rightarrow> job_account \<Rightarrow> job_spec \<Rightarrow> string \<Rightarrow> decision \<Rightarrow> (verifier_db, decision) proc" where
  "decide env jobId j spec rh dec =
     (if passed dec \<and> policy_of spec = CHALLENGE then decide_challenge env jobId dec
      else if passed dec \<and> policy_of spec = REDUNDANT then decide_redundant env jobId j rh dec
      else if passed dec \<and> requiresAdditionalEvidence dec then
        throwP (requestedAssurance dec @ '' evidence is required before an on-chain verification decision'')
      else retP dec)"

record verify_outcome =
  vo_decision :: decision
  vo_signature :: "string option"
  vo_recovered :: bool
  vo_alreadyRecorded :: bool

definition reconcile_jobs :: "verifier_env \<Rightarrow> (verifier_db, unit) proc" where
  "reconcile_jobs env = bindP (vdo ReconcileProjection (ve_reconcile env)) (\<lambda>ids.
     modifyP (\<lambda>d. d\<lparr>d_jobs := (\<lambda>i. d_jobs d i \<or> i \<in> set ids)\<rparr>))"

text \<open>A decision is already stored: it must agree with the chain and with this evidence.\<close>

definition already_recorded ::
  "verifier_env \<Rightarrow> job_account \<Rightarrow> string \<Rightarrow> decision \<Rightarrow> verification_row \<Rightarrow> (verifier_db, verify_outcome) proc" where
  "already_recorded env j h dec row =
     bindP (requireP (jb_state j \<noteq> st_VERIFYING) ''Database verification exists while finalized chain job is still VERIFYING'') (\<lambda>_.
     bindP (requireP (vr_receipt_hash row = h \<and> vr_verifier row = ve_signer env \<and> vr_passed row = passed dec
         \<and> (jb_state j = st_COMPLETED) = passed dec) ''Existing verification conflicts with finalized evidence'') (\<lambda>_.
       retP \<lparr>vo_decision = dec, vo_signature = vr_tx_signature row, vo_recovered = False, vo_alreadyRecorded = True\<rparr>))"

definition submit_decision ::
  "verifier_env \<Rightarrow> job_account \<Rightarrow> string \<Rightarrow> decision \<Rightarrow> (verifier_db, string option \<times> bool) proc" where
  "submit_decision env j h dec =
     (if jb_state j = st_VERIFYING then
        bindP (vdo (SubmitVerificationTx (fromHex h) (passed dec)) (ve_submit env)) (\<lambda>sig.
        bindP (vdo (ConfirmVerificationTx sig) (ve_confirm env)) (\<lambda>_.
        bindP (reconcile_jobs env) (\<lambda>_. retP (Some sig, False))))
      else bindP (requireP ((jb_state j = st_COMPLETED) = passed dec) ''Recovered chain decision conflicts with evidence'') (\<lambda>_.
        retP (None, True)))"

definition prepare_record :: "verifier_env \<Rightarrow> raw_bundle \<Rightarrow> string \<Rightarrow> (verifier_db, receipt_row) proc" where
  "prepare_record env b jobId =
     bindP (select_db env ''jobs'' (\<lambda>d. d_jobs d jobId)) (\<lambda>projected.
     bindP (if projected then retP () else reconcile_jobs env) (\<lambda>_.
       storeReceipt env b))"

definition store_decision ::
  "verifier_env \<Rightarrow> string \<Rightarrow> string \<Rightarrow> decision \<Rightarrow> string option \<times> bool \<Rightarrow> (verifier_db, verify_outcome) proc" where
  "store_decision env jobId h dec = (\<lambda>(sig, recovered).
     bindP (write_db env ''verifications upsert'' (\<lambda>d. d\<lparr>d_verifications := (d_verifications d)(jobId \<mapsto>
         \<lparr>vr_receipt_hash = h, vr_verifier = ve_signer env, vr_passed = passed dec, vr_assurance = assurance dec,
          vr_failures = failures dec, vr_tx_signature = sig\<rparr>)\<rparr>)) (\<lambda>_.
       retP \<lparr>vo_decision = dec, vo_signature = sig, vo_recovered = recovered, vo_alreadyRecorded = False\<rparr>))"

definition record_decision ::
  "verifier_env \<Rightarrow> raw_bundle \<Rightarrow> string \<Rightarrow> job_account \<Rightarrow> string \<Rightarrow> decision \<Rightarrow> (verifier_db, verify_outcome) proc" where
  "record_decision env b jobId j h dec =
     bindP (prepare_record env b jobId) (\<lambda>_.
     bindP (submit_decision env j h dec) (store_decision env jobId h dec))"

definition conclude ::
  "verifier_env \<Rightarrow> raw_bundle \<Rightarrow> string \<Rightarrow> job_account \<Rightarrow> decision \<Rightarrow> (verifier_db, verify_outcome) proc" where
  "conclude env b jobId j dec =
     bindP (select_db env ''verifications'' (\<lambda>d. d_verifications d jobId)) (\<lambda>existing.
     bindP (liftP (commitment (ve_crypto env) (receipt_json (payload (rb_envelope b))))) (\<lambda>h.
     case existing of
       Some row \<Rightarrow> already_recorded env j h dec row
     | None \<Rightarrow> record_decision env b jobId j h dec))"

definition finalized_job :: "verifier_env \<Rightarrow> string \<Rightarrow> job_account outcome" where
  "finalized_job env jobId = andThen (ve_job env jobId) (\<lambda>info. case info of
     JobInfo j \<Rightarrow> Inr j | _ \<Rightarrow> Inl ''No finalized protocol job'')"

definition verifyBundle :: "verifier_env \<Rightarrow> raw_bundle \<Rightarrow> (verifier_db, verify_outcome) proc" where
  "verifyBundle env b = (let p = payload (rb_envelope b); jobId = r_jobId p in
     bindP (requireP (ve_keypair env) ''VERIFIER_KEYPAIR is required'') (\<lambda>_.
     bindP (liftP (parse_spec (rb_spec b))) (\<lambda>spec.
     bindP (liftP (finalized_job env jobId)) (\<lambda>j.
     bindP (requireP (jb_state j \<in> {st_VERIFYING, st_COMPLETED, st_FAILED} \<and> jb_verifier j = ve_signer env)
       ''Job is not assigned to this verifier'') (\<lambda>_.
     bindP (liftP (ve_machine env (jb_machine j))) (\<lambda>machine.
     bindP (liftP (ve_worker env (jb_provider j) (jb_worker j))) (\<lambda>auth.
     bindP (liftP (policyFromCode (jb_policy j))) (\<lambda>_.
     bindP (liftP (verifyReceipt (ve_crypto env) (rb_envelope b) spec
       (chain_assignment env jobId j machine auth) (bundle_evidence b))) (\<lambda>dec0.
     bindP (decide env jobId j spec (r_resultHash p) dec0) (\<lambda>dec.
       conclude env b jobId j dec))))))))))"

section \<open>The daemon\<close>

text \<open>
  One pass of the polling loop: the rows its two selects return, the specifications by hash, and the
  evidence blobs by storage key. A job that fails is logged and left for the next pass.
\<close>

record evidence_blob =
  eb_stdout :: string
  eb_stderr :: string
  eb_result :: string
  eb_telemetry :: telemetry
  eb_hardware :: "json option"

record pass_input =
  pi_jobs :: "(string \<times> string) list"
  pi_recorded :: "string list"
  pi_specs :: "string \<rightharpoonup> json"
  pi_blob :: "string \<Rightarrow> evidence_blob outcome"

definition verify_job :: "verifier_env \<Rightarrow> pass_input \<Rightarrow> string \<times> string \<Rightarrow> (verifier_db, unit) proc" where
  "verify_job env inp = (\<lambda>(jobId, specHash).
     if jobId \<in> set (pi_recorded inp) then retP ()
     else catchP
       (bindP (select_db env ''receipts'' (\<lambda>d. d_receipts d jobId)) (\<lambda>row.
        case row of None \<Rightarrow> retP () | Some rc \<Rightarrow>
        (case pi_specs inp specHash of None \<Rightarrow> retP () | Some sp \<Rightarrow>
          bindP (liftP (pi_blob inp (rr_storage_key rc))) (\<lambda>e.
          bindP (verifyBundle env \<lparr>rb_envelope = rr_envelope rc, rb_spec = sp, rb_stdout = eb_stdout e,
            rb_stderr = eb_stderr e, rb_result = eb_result e, rb_telemetry = eb_telemetry e, rb_hardware = eb_hardware e\<rparr>)
            (\<lambda>_. retP ())))))
       (\<lambda>_. retP ()))"

fun verify_jobs :: "verifier_env \<Rightarrow> pass_input \<Rightarrow> (string \<times> string) list \<Rightarrow> (verifier_db, unit) proc" where
  "verify_jobs env inp [] = retP ()"
| "verify_jobs env inp (x # xs) = bindP (verify_job env inp x) (\<lambda>_. verify_jobs env inp xs)"

definition verifier_pass :: "verifier_env \<Rightarrow> pass_input outcome \<Rightarrow> (verifier_db, unit) proc" where
  "verifier_pass env inp = (case inp of Inl _ \<Rightarrow> retP () | Inr i \<Rightarrow> verify_jobs env i (take 100 (pi_jobs i)))"

section \<open>Frames\<close>

text \<open>Which programs leave the stored decisions alone, and which effects they add.\<close>

abbreviation vonly :: "(verifier_effect \<Rightarrow> bool) \<Rightarrow> (verifier_db, 'a) proc \<Rightarrow> bool" where
  "vonly P m \<equiv> adds_only d_log d_verifications P m"

lemma vonly_vdo [only_intros]: "P x \<Longrightarrow> vonly P (vdo x r)"
  by (auto simp: adds_only_def vdo_def bindP_def modifyP_def liftP_def)

lemma vonly_select [only_intros]: "vonly P (select_db env t f)"
  unfolding select_db_def by (intro only_intros)

lemma vonly_write [only_intros]:
  "(\<And>d. d_log (f d) = d_log d \<and> d_verifications (f d) = d_verifications d) \<Longrightarrow> vonly P (write_db env t f)"
  by (cases "ve_query env t") (auto simp: adds_only_def write_db_def bindP_def modifyP_def liftP_def)

lemma vonly_modify [only_intros]:
  "(\<And>d. d_log (f d) = d_log d \<and> d_verifications (f d) = d_verifications d) \<Longrightarrow> vonly P (modifyP f)"
  by (auto simp: adds_only_def modifyP_def)

lemma vonly_store [only_intros]: "(\<And>k. P (UploadBlob k)) \<Longrightarrow> vonly P (storeReceipt env b)"
  unfolding storeReceipt_def Let_def by (intro only_intros) (auto split: option.splits)

lemma vonly_reconcile [only_intros]: "P ReconcileProjection \<Longrightarrow> vonly P (reconcile_jobs env)"
  unfolding reconcile_jobs_def by (intro only_intros) auto

lemma vonly_decide [only_intros]: "vonly P (decide env jobId j spec rh dec)"
  unfolding decide_def decide_challenge_def decide_redundant_def Let_def
  by (intro only_intros) (auto simp: report_replica_def)

fun no_tx :: "verifier_effect \<Rightarrow> bool" where
  "no_tx (SubmitVerificationTx _ _) = False"
| "no_tx _ = True"

lemma no_tx_mem: "list_all no_tx xs \<Longrightarrow> SubmitVerificationTx h ok \<notin> set xs"
  by (auto simp: list_all_iff)

section \<open>What a decision rests on\<close>

text \<open>The evidence each policy asks for beyond the receipt checks.\<close>

definition quorum_reached :: "verifier_db \<Rightarrow> string \<Rightarrow> job_account \<Rightarrow> string \<Rightarrow> bool" where
  "quorum_reached d jobId j rh \<longleftrightarrow> (\<exists>rep grp red. find (\<lambda>v. rw_job v = jobId) (d_replicas d) = Some rep
     \<and> d_groups d (rw_group rep) = Some grp
     \<and> verifyRedundantResults (map row_replica (completed_rows (group_rows (report_replica jobId j rh d) (rw_group rep))))
         (rg_required_matches grp) = Inr red
     \<and> rd_passed red \<and> rd_resultHash red = Some rh)"

fun policy_evidence :: "policy \<Rightarrow> verifier_db \<Rightarrow> string \<Rightarrow> job_account \<Rightarrow> string \<Rightarrow> bool" where
  "policy_evidence BASIC d jobId j rh = True"
| "policy_evidence STANDARD d jobId j rh = True"
| "policy_evidence CHALLENGE d jobId j rh \<longleftrightarrow> d_challenges d jobId = Some (Some True)"
| "policy_evidence REDUNDANT d jobId j rh \<longleftrightarrow> quorum_reached d jobId j rh"
| "policy_evidence TEE d jobId j rh = False"
| "policy_evidence PROOF d jobId j rh = False"

lemma decide_challenge_passed:
  assumes "decide_challenge env jobId dec0 d = (d', Inr dec)"
  shows "passed dec \<longleftrightarrow> d_challenges d jobId = Some (Some True)"
  using assms by (auto simp: decide_challenge_def select_db_def proc_simps split: option.splits)
    (auto simp: bind_eq_Some_conv)

lemma decide_redundant_passed:
  assumes "decide_redundant env jobId j rh dec0 d = (d', Inr dec)"
  shows "passed dec \<longleftrightarrow> quorum_reached d jobId j rh"
  using assms
  by (auto simp: decide_redundant_def select_db_def write_db_def proc_simps outcome_simps Let_def quorum_reached_def
      report_replica_def split: option.splits)

lemma decide_passed:
  assumes "decide env jobId j spec rh dec0 d = (d', Inr dec)"
    and "requiresAdditionalEvidence dec0 \<longleftrightarrow> policy_of spec \<notin> {BASIC, STANDARD}"
  shows "passed dec \<longleftrightarrow> passed dec0 \<and> policy_evidence (policy_of spec) d jobId j rh"
  using assms
  by (cases "policy_of spec"; cases "passed dec0")
    (auto simp: decide_def proc_simps dest: decide_challenge_passed decide_redundant_passed)

lemma trace_store: "adds_only d_log (\<lambda>_. ()) P (store_decision env jobId h dec x)"
  by (cases "ve_query env ''verifications upsert''"; cases x)
    (auto simp: adds_only_def store_decision_def write_db_def bindP_def modifyP_def liftP_def retP_def)

lemma vonly_prepare: "vonly no_tx (prepare_record env b jobId)"
  unfolding prepare_record_def by (intro only_intros) auto

lemma record_decision_effects:
  assumes "record_decision env b jobId j h dec d = (d', r)"
  obtains new where "d_log d' = d_log d @ new"
    "list_all no_tx new \<or> (\<exists>pre post. new = pre @ SubmitVerificationTx (fromHex h) (passed dec) # post
       \<and> list_all no_tx pre \<and> list_all no_tx post \<and> jb_state j = st_VERIFYING)"
proof (cases "jb_state j = st_VERIFYING")
  case True
  let ?rest = "\<lambda>sig. bindP (bindP (vdo (ConfirmVerificationTx sig) (ve_confirm env)) (\<lambda>_.
        bindP (reconcile_jobs env) (\<lambda>_. retP (Some sig, False)))) (store_decision env jobId h dec)"
  have "bindP (prepare_record env b jobId) (\<lambda>_. bindP (vdo (SubmitVerificationTx (fromHex h) (passed dec)) (ve_submit env)) ?rest) d
     = (d', r)"
    using assms True by (simp add: record_decision_def submit_decision_def bindP_assoc)
  moreover have "adds_only d_log (\<lambda>_. ()) no_tx (?rest sig)" for sig
    by (intro only_bind trace_store only_forget [OF vonly_vdo] only_forget [OF vonly_reconcile] only_simple) auto
  moreover have "d_log (fst (vdo (SubmitVerificationTx (fromHex h) (passed dec)) (ve_submit env) s))
     = d_log s @ [SubmitVerificationTx (fromHex h) (passed dec)]" for s
    by (simp add: vdo_def bindP_def modifyP_def liftP_def)
  ultimately show thesis
    by (elim one_effect [OF vonly_prepare, rotated 2]) (use True that in blast)+
next
  case False
  have "adds_only d_log (\<lambda>_. ()) no_tx (record_decision env b jobId j h dec)"
    unfolding record_decision_def submit_decision_def using False
    by (auto intro!: only_bind trace_store only_forget [OF vonly_prepare] only_simple)
  from onlyE [OF this assms] that show thesis by blast
qed

lemma conclude_effects:
  assumes run: "conclude env b jobId j dec d = (d', r)"
  obtains new where "d_log d' = d_log d @ new"
    "list_all no_tx new \<or> (\<exists>pre post h. new = pre @ SubmitVerificationTx (fromHex h) (passed dec) # post
       \<and> list_all no_tx pre \<and> list_all no_tx post
       \<and> commitment (ve_crypto env) (receipt_json (payload (rb_envelope b))) = Inr h
       \<and> jb_state j = st_VERIFYING \<and> d_verifications d jobId = None)"
proof (cases "\<exists>h. commitment (ve_crypto env) (receipt_json (payload (rb_envelope b))) = Inr h
    \<and> ve_query env ''verifications'' = Inr () \<and> d_verifications d jobId = None")
  case True
  then obtain h where h: "commitment (ve_crypto env) (receipt_json (payload (rb_envelope b))) = Inr h"
    "ve_query env ''verifications'' = Inr ()" "d_verifications d jobId = None" by blast
  then have "record_decision env b jobId j h dec d = (d', r)"
    using run by (simp add: conclude_def select_db_def bindP_def liftP_def getP_def retP_def)
  then show thesis using h that by (elim record_decision_effects) blast
next
  case False
  have "d' = d"
    using run False
    by (cases r) (auto simp: conclude_def select_db_def already_recorded_def proc_simps split: option.splits)
  then show thesis using that [of "[]"] by simp
qed

lemma verifyBundle_cases:
  assumes "verifyBundle env b d = (d', r)"
  defines "jobId \<equiv> r_jobId (payload (rb_envelope b))"
  obtains (stopped) e where "r = Inl e" "d_log d' = d_log d" "d_verifications d' = d_verifications d"
  | (decided) spec j machine auth dec0 dec d1 where "parse_spec (rb_spec b) = Inr spec" "finalized_job env jobId = Inr j"
      "jb_state j \<in> {st_VERIFYING, st_COMPLETED, st_FAILED}" "jb_verifier j = ve_signer env"
      "ve_machine env (jb_machine j) = Inr machine" "ve_worker env (jb_provider j) (jb_worker j) = Inr auth"
      "verifyReceipt (ve_crypto env) (rb_envelope b) spec (chain_assignment env jobId j machine auth) (bundle_evidence b) = Inr dec0"
      "decide env jobId j spec (r_resultHash (payload (rb_envelope b))) dec0 d = (d1, Inr dec)"
      "d_log d1 = d_log d" "d_verifications d1 = d_verifications d"
      "conclude env b jobId j dec d1 = (d', r)" "\<exists>p. policyFromCode (jb_policy j) = Inr p"
proof -
  have frame: "d_log d2 = d_log d1 \<and> d_verifications d2 = d_verifications d1"
    if run: "decide env i j spec rh dec0 d1 = (d2, q)" for env i j spec rh dec0 d1 d2 q
  proof -
    obtain new where "d_log d2 = d_log d1 @ new" "d_verifications d2 = d_verifications d1" "list_all (\<lambda>_. False) new"
      by (rule onlyE [OF vonly_decide run])
    then show ?thesis by (cases new) auto
  qed
  show thesis
  proof (cases "\<exists>e. r = Inl e \<and> d_log d' = d_log d \<and> d_verifications d' = d_verifications d")
    case True
    then show thesis using stopped by blast
  next
    case False
    then show thesis
      using assms(1)
      by (cases r) (auto simp: verifyBundle_def Let_def proc_simps outcome_simps jobId_def [symmetric]
        dest: frame intro!: decided)
  qed
qed

text \<open>
  C10. On-chain decisions are justified. One run of the verifier submits at most one decision, only
  for a job in state VERIFYING that names this verifier and has no stored decision; the decision is
  positive exactly when the receipt checks pass against the finalized accounts and the evidence of
  the job's policy is there (the answered challenge for VERIFY_2, a quorum with this result for
  VERIFY_3; VERIFY_4 and VERIFY_5 jobs are never confirmed here), and a positive decision carries
  the receipt hash that is on chain and is for the policy that is on chain.
\<close>

theorem submission_justified:
  assumes "verifyBundle env b d = (d', r)"
  shows "\<exists>new. d_log d' = d_log d @ new \<and> length (filter (\<lambda>x. \<not> no_tx x) new) \<le> 1
    \<and> (\<forall>h ok. SubmitVerificationTx h ok \<in> set new \<longrightarrow>
        (\<exists>spec j machine auth dec. parse_spec (rb_spec b) = Inr spec
          \<and> finalized_job env (r_jobId (payload (rb_envelope b))) = Inr j
          \<and> jb_state j = st_VERIFYING \<and> jb_verifier j = ve_signer env
          \<and> d_verifications d (r_jobId (payload (rb_envelope b))) = None
          \<and> ve_machine env (jb_machine j) = Inr machine \<and> ve_worker env (jb_provider j) (jb_worker j) = Inr auth
          \<and> verifyReceipt (ve_crypto env) (rb_envelope b) spec
              (chain_assignment env (r_jobId (payload (rb_envelope b))) j machine auth) (bundle_evidence b) = Inr dec
          \<and> (ok \<longleftrightarrow> passed dec \<and> policy_evidence (policy_of spec) d (r_jobId (payload (rb_envelope b))) j
                (r_resultHash (payload (rb_envelope b))))
          \<and> (ok \<longrightarrow> h = jb_receiptHash j \<and> policyCode (policy_of spec) = jb_policy j)))"
proof (cases rule: verifyBundle_cases [OF assms])
  case (1 e)
  then show ?thesis by auto
next
  case (2 spec j machine auth dec0 dec d1)
  let ?jobId = "r_jobId (payload (rb_envelope b))" and ?rh = "r_resultHash (payload (rb_envelope b))"
  let ?a = "chain_assignment env ?jobId j machine auth"
  obtain new where new: "d_log d' = d_log d1 @ new" and tx: "list_all no_tx new
     \<or> (\<exists>pre post h. new = pre @ SubmitVerificationTx (fromHex h) (passed dec) # post \<and> list_all no_tx pre \<and> list_all no_tx post
       \<and> commitment (ve_crypto env) (receipt_json (payload (rb_envelope b))) = Inr h
       \<and> jb_state j = st_VERIFYING \<and> d_verifications d1 ?jobId = None)"
    by (rule conclude_effects [OF 2(11)])
  have "requiresAdditionalEvidence dec0 \<longleftrightarrow> policy_of spec \<notin> {BASIC, STANDARD}"
    by (rule verifyReceipt_passed [OF 2(7)])
  note pass = decide_passed [OF 2(8) this]
  have one: "length (filter (\<lambda>x. \<not> no_tx x) new) \<le> 1"
    using tx by (auto simp: list_all_iff filter_empty_conv)
  have just: "jb_state j = st_VERIFYING \<and> d_verifications d ?jobId = None \<and> ok = passed dec
      \<and> (ok \<longrightarrow> h = jb_receiptHash j \<and> policyCode (policy_of spec) = jb_policy j)"
    if "SubmitVerificationTx h ok \<in> set new" for h ok
  proof -
    from tx that obtain hx where hx: "h = fromHex hx" "ok = passed dec" "jb_state j = st_VERIFYING" "d_verifications d1 ?jobId = None"
      "commitment (ve_crypto env) (receipt_json (payload (rb_envelope b))) = Inr hx"
      using no_tx_mem [of _ h ok] by auto
    have "h = jb_receiptHash j \<and> policyCode (policy_of spec) = jb_policy j" if "passed dec0"
    proof -
      note sound = verifyReceipt_sound [OF 2(7) that]
      obtain p where p: "policyFromCode (jb_policy j) = Inr p" using 2(12) by blast
      have "policy_name (policy_of spec) = policy_name p" using sound(3) p by (simp add: chain_assignment_def)
      then have "policy_of spec = p" by (cases p; cases "policy_of spec") simp_all
      then show ?thesis using sound(1) hx policyCode_policyFromCode [OF p] by (simp add: chain_assignment_def)
    qed
    then show ?thesis using hx pass 2(10) by auto
  qed
  show ?thesis
  proof (intro exI [of _ new] conjI allI impI)
    show "d_log d' = d_log d @ new" using new 2(9) by simp
    fix h ok
    assume "SubmitVerificationTx h ok \<in> set new"
    from just [OF this] 2 pass show "\<exists>spec j machine auth dec. parse_spec (rb_spec b) = Inr spec
          \<and> finalized_job env ?jobId = Inr j
          \<and> jb_state j = st_VERIFYING \<and> jb_verifier j = ve_signer env
          \<and> d_verifications d ?jobId = None
          \<and> ve_machine env (jb_machine j) = Inr machine \<and> ve_worker env (jb_provider j) (jb_worker j) = Inr auth
          \<and> verifyReceipt (ve_crypto env) (rb_envelope b) spec (chain_assignment env ?jobId j machine auth) (bundle_evidence b) = Inr dec
          \<and> (ok \<longleftrightarrow> passed dec \<and> policy_evidence (policy_of spec) d ?jobId j ?rh)
          \<and> (ok \<longrightarrow> h = jb_receiptHash j \<and> policyCode (policy_of spec) = jb_policy j)"
      by (intro exI [of _ spec] exI [of _ j] exI [of _ machine] exI [of _ auth] exI [of _ dec0]) simp
  qed (rule one)
qed

section \<open>Decisions are stored once\<close>

lemma record_decision_row:
  assumes "record_decision env b jobId j h dec d = (d', Inr out)"
  shows "vo_decision out = dec \<and> \<not> vo_alreadyRecorded out
    \<and> (\<exists>row. d_verifications d' = (d_verifications d)(jobId \<mapsto> row) \<and> vr_receipt_hash row = h
         \<and> vr_verifier row = ve_signer env \<and> vr_passed row = passed dec \<and> vr_tx_signature row = vo_signature out)
    \<and> (jb_state j \<noteq> st_VERIFYING \<longrightarrow> (jb_state j = st_COMPLETED) = passed dec)"
proof -
  from assms obtain d1 row d2 sr where p: "prepare_record env b jobId d = (d1, Inr row)"
    and s: "submit_decision env j h dec d1 = (d2, Inr sr)" and w: "store_decision env jobId h dec sr d2 = (d', Inr out)"
    by (auto simp: record_decision_def proc_simps)
  have "d_verifications d1 = d_verifications d" using onlyE [OF vonly_prepare p] by blast
  moreover have "vonly (\<lambda>_. True) (submit_decision env j h dec)"
    unfolding submit_decision_def by (intro only_intros) auto
  then have "d_verifications d2 = d_verifications d1" using s by (rule onlyE)
  moreover have "jb_state j \<noteq> st_VERIFYING \<longrightarrow> (jb_state j = st_COMPLETED) = passed dec"
    using s by (auto simp: submit_decision_def proc_simps outcome_simps)
  ultimately show ?thesis
    using w by (cases sr) (auto simp: store_decision_def write_db_def proc_simps)
qed

lemma conclude_others:
  assumes "conclude env b jobId j dec d = (d', r)" "other \<noteq> jobId"
  shows "d_verifications d' other = d_verifications d other"
proof -
  have rec: "adds_only d_log (\<lambda>d. d_verifications d other) (\<lambda>_. True) (record_decision env b jobId j h dec)" for h
  proof -
    have weak: "vonly (\<lambda>_. True) m \<Longrightarrow> adds_only d_log (\<lambda>d. d_verifications d other) (\<lambda>_. True) m" for m :: "(verifier_db, 'x) proc"
      unfolding adds_only_def by metis
    have "adds_only d_log (\<lambda>d. d_verifications d other) (\<lambda>_. True) (store_decision env jobId h dec x)" for x
      using assms(2) by (cases "ve_query env ''verifications upsert''"; cases x)
        (auto simp: adds_only_def store_decision_def write_db_def bindP_def modifyP_def liftP_def retP_def list_all_iff)
    moreover have "vonly (\<lambda>_. True) (submit_decision env j h dec)"
      unfolding submit_decision_def by (intro only_intros) auto
    moreover have "vonly (\<lambda>_. True) (prepare_record env b jobId)" by (rule only_mono [OF vonly_prepare]) simp
    ultimately show ?thesis
      unfolding record_decision_def by (blast intro: only_bind weak)
  qed
  have "adds_only d_log (\<lambda>d. d_verifications d other) (\<lambda>_. True) (conclude env b jobId j dec)"
    unfolding conclude_def already_recorded_def select_db_def
    by (intro only_intros rec)
  from onlyE [OF this assms(1)] show ?thesis by blast
qed

text \<open>
  C25. A decision is recorded once. When the verifier returns, the job's stored row holds this
  receipt, this verifier and this verdict, an existing row was left as it was, and a job the chain
  already closed has the verdict of the chain; in every case, errors included, the decisions of
  other jobs are untouched.
\<close>

theorem decision_recorded_once:
  assumes "verifyBundle env b d = (d', r)"
  defines "jobId \<equiv> r_jobId (payload (rb_envelope b))"
  shows "(\<forall>other. other \<noteq> jobId \<longrightarrow> d_verifications d' other = d_verifications d other)
    \<and> (\<forall>out. r = Inr out \<longrightarrow> (\<exists>j row. finalized_job env jobId = Inr j \<and> d_verifications d' jobId = Some row
         \<and> commitment (ve_crypto env) (receipt_json (payload (rb_envelope b))) = Inr (vr_receipt_hash row)
         \<and> vr_verifier row = ve_signer env \<and> vr_passed row = passed (vo_decision out)
         \<and> vr_tx_signature row = vo_signature out
         \<and> (vo_alreadyRecorded out \<longleftrightarrow> d_verifications d jobId = Some row)
         \<and> (d_verifications d jobId \<noteq> None \<longrightarrow> d_verifications d jobId = Some row)
         \<and> (jb_state j = st_VERIFYING \<or> (jb_state j = st_COMPLETED) = passed (vo_decision out))))"
proof (cases rule: verifyBundle_cases [OF assms(1)])
  case (1 e)
  then show ?thesis by auto
next
  case (2 spec j machine auth dec0 dec d1)
  note c = 2(11) [folded jobId_def]
  have "\<exists>row. d_verifications d' jobId = Some row
         \<and> commitment (ve_crypto env) (receipt_json (payload (rb_envelope b))) = Inr (vr_receipt_hash row)
         \<and> vr_verifier row = ve_signer env \<and> vr_passed row = passed (vo_decision out)
         \<and> vr_tx_signature row = vo_signature out
         \<and> (vo_alreadyRecorded out \<longleftrightarrow> d_verifications d jobId = Some row)
         \<and> (d_verifications d jobId \<noteq> None \<longrightarrow> d_verifications d jobId = Some row)
         \<and> (jb_state j = st_VERIFYING \<or> (jb_state j = st_COMPLETED) = passed (vo_decision out))"
    if out: "r = Inr out" for out
  proof (cases "d_verifications d1 jobId")
    case None
    then obtain h where "commitment (ve_crypto env) (receipt_json (payload (rb_envelope b))) = Inr h"
      "record_decision env b jobId j h dec d1 = (d', Inr out)"
      using c out by (auto simp: conclude_def select_db_def proc_simps)
    with record_decision_row [OF this(2)] None show ?thesis using 2(10) by auto
  next
    case (Some row)
    then show ?thesis
      using c out 2(10) by (auto simp: conclude_def select_db_def already_recorded_def proc_simps outcome_simps)
  qed
  then show ?thesis using 2(2,10) conclude_others [OF c] by (auto simp: jobId_def)
qed

lemma verifyBundle_keeps_rows:
  assumes "verifyBundle env b d = (d', r)" "d_verifications d k = Some row"
  shows "d_verifications d' k = Some row"
proof (cases rule: verifyBundle_cases [OF assms(1)])
  case (1 e)
  then show ?thesis using assms(2) by simp
next
  case (2 spec j machine auth dec0 dec d1)
  show ?thesis
  proof (cases "k = r_jobId (payload (rb_envelope b))")
    case False
    then show ?thesis using conclude_others [OF 2(11)] 2(10) assms(2) by simp
  next
    case True
    then have "d' = d1"
      using 2(10,11) assms(2) by (cases r) (auto simp: conclude_def select_db_def already_recorded_def proc_simps)
    then show ?thesis using 2(10) assms(2) by simp
  qed
qed

lemma verify_job_cases:
  "\<exists>d'. verify_job env inp (jobId, specHash) d = (d', Inr ()) \<and> (d' = d \<or> (\<exists>b r. verifyBundle env b d = (d', r)))"
proof (cases "jobId \<in> set (pi_recorded inp)")
  case True
  then show ?thesis by (simp add: verify_job_def retP_def)
next
  case new: False
  note defs = verify_job_def select_db_def catchP_def bindP_def liftP_def getP_def retP_def
  show ?thesis
  proof (cases "ve_query env ''receipts''")
    case (Inl e)
    then show ?thesis using new by (simp add: defs)
  next
    case q: (Inr u)
    show ?thesis
    proof (cases "d_receipts d jobId")
      case None
      then show ?thesis using new q by (simp add: defs)
    next
      case rc: (Some rc)
      show ?thesis
      proof (cases "pi_specs inp specHash")
        case None
        then show ?thesis using new q rc by (simp add: defs)
      next
        case sp: (Some sp)
        show ?thesis
        proof (cases "pi_blob inp (rr_storage_key rc)")
          case (Inl e)
          then show ?thesis using new q rc sp by (simp add: defs)
        next
          case (Inr e)
          let ?b = "\<lparr>rb_envelope = rr_envelope rc, rb_spec = sp, rb_stdout = eb_stdout e, rb_stderr = eb_stderr e,
            rb_result = eb_result e, rb_telemetry = eb_telemetry e, rb_hardware = eb_hardware e\<rparr>"
          obtain d' r where run: "verifyBundle env ?b d = (d', r)" by fastforce
          then have "verify_job env inp (jobId, specHash) d = (d', Inr ())"
            using new q rc sp Inr by (cases r) (simp_all add: defs)
          with run show ?thesis by blast
        qed
      qed
    qed
  qed
qed

lemma verify_job_safe:
  "\<exists>d'. verify_job env inp x d = (d', Inr ()) \<and> (\<forall>k row. d_verifications d k = Some row \<longrightarrow> d_verifications d' k = Some row)"
proof (cases x)
  case (Pair jobId specHash)
  from verify_job_cases [of env inp jobId specHash d] Pair verifyBundle_keeps_rows [of env _ d]
  show ?thesis by auto
qed

text \<open>
  A pass of the verifier daemon always completes, whatever fails inside it, and never changes a
  decision that is already stored.
\<close>

theorem daemon_pass_keeps_decisions:
  "\<exists>d'. verifier_pass env inp d = (d', Inr ()) \<and> (\<forall>k row. d_verifications d k = Some row \<longrightarrow> d_verifications d' k = Some row)"
proof -
  have "\<exists>d'. verify_jobs env i xs d = (d', Inr ()) \<and> (\<forall>k row. d_verifications d k = Some row \<longrightarrow> d_verifications d' k = Some row)" for i xs d
  proof (induction xs arbitrary: d)
    case (Cons x xs)
    from verify_job_safe [of env i x d] obtain d1 where 1: "verify_job env i x d = (d1, Inr ())"
      "\<forall>k row. d_verifications d k = Some row \<longrightarrow> d_verifications d1 k = Some row" by blast
    from Cons [of d1] 1 show ?case by (simp add: bindP_step) blast
  qed (simp add: retP_def)
  then show ?thesis by (cases inp) (auto simp: verifier_pass_def retP_def)
qed

text \<open>
  The first receipt of a job wins: storing never changes or drops a stored receipt, a receipt
  with another hash is refused, and after a successful call the store holds, for this job, a
  receipt with the hash of this payload; storing it again changes nothing.
\<close>

theorem store_receipt_idempotent:
  assumes "storeReceipt env b d = (d', r)"
  defines "jobId \<equiv> r_jobId (payload (rb_envelope b))"
  shows "(\<forall>k row. d_receipts d k = Some row \<longrightarrow> d_receipts d' k = Some row)
    \<and> (\<forall>row. r = Inr row \<longrightarrow> d_receipts d' jobId = Some row
         \<and> commitment (ve_crypto env) (receipt_json (payload (rb_envelope b))) = Inr (rr_receipt_hash row)
         \<and> storeReceipt env b d' = (d', Inr row))
    \<and> (\<forall>row h. d_receipts d jobId = Some row \<and> h \<noteq> rr_receipt_hash row
         \<and> commitment (ve_crypto env) (receipt_json (payload (rb_envelope b))) = Inr h \<longrightarrow> d' = d \<and> (\<exists>e. r = Inl e))"
proof (cases "\<exists>h. commitment (ve_crypto env) (receipt_json (payload (rb_envelope b))) = Inr h \<and> ve_query env ''receipts'' = Inr ()")
  case False
  then show ?thesis using assms by (cases r) (auto simp: storeReceipt_def select_db_def Let_def proc_simps)
next
  case True
  then obtain h where h: "commitment (ve_crypto env) (receipt_json (payload (rb_envelope b))) = Inr h" "ve_query env ''receipts'' = Inr ()"
    by blast
  have again: "storeReceipt env b d2 = (d2, Inr row)" if "d_receipts d2 jobId = Some row" "rr_receipt_hash row = h" for d2 row
    using that h by (simp add: storeReceipt_def Let_def select_db_def bindP_def liftP_def getP_def retP_def requireP_def
      guard_def jobId_def)
  show ?thesis
  proof (cases "d_receipts d jobId")
    case (Some row)
    then show ?thesis
      using assms(1) h again by (cases r) (auto simp: storeReceipt_def select_db_def Let_def proc_simps outcome_simps jobId_def)
  next
    case None
    then show ?thesis
      using assms(1) h again
      by (cases r) (auto simp: storeReceipt_def select_db_def write_db_def vdo_def Let_def proc_simps outcome_simps jobId_def
        split: prod.splits)
  qed
qed

section \<open>An honest worker is confirmed\<close>

text \<open>The bundle as the worker publishes it.\<close>

definition published :: "evidence_bundle \<Rightarrow> raw_bundle" where
  "published bd = \<lparr>rb_envelope = bn_envelope bd, rb_spec = spec_json (bn_spec bd), rb_stdout = bn_stdout bd,
     rb_stderr = bn_stderr bd, rb_result = bn_result bd, rb_telemetry = bn_telemetry bd, rb_hardware = Some (bn_hardware bd)\<rparr>"

text \<open>
  The chain agrees with what the worker was assigned: \<open>j\<close> is the account the worker read, \<open>j'\<close> the one
  the verifier reads after the receipt was submitted.
\<close>

definition chain_agrees ::
  "worker_env \<Rightarrow> verifier_env \<Rightarrow> job_spec \<Rightarrow> json \<Rightarrow> job_account \<Rightarrow> job_account \<Rightarrow> machine_account \<Rightarrow> worker_account
     \<Rightarrow> evidence_bundle \<Rightarrow> bool" where
  "chain_agrees we env spec hw j j' machine auth bd \<longleftrightarrow>
     ve_crypto env = we_crypto we \<and> ve_cluster env = we_cluster we \<and> ve_program env = we_program we
     \<and> jb_worker j' = we_worker we \<and> jb_provider j' = jb_provider j \<and> jb_machine j' = jb_machine j
     \<and> commitment (we_crypto we) (spec_json spec) = Inr (toHex (jb_specHash j'))
     \<and> commitment (we_crypto we) hw = Inr (toHex (mc_hardwareHash machine))
     \<and> commitment (we_crypto we) (receipt_json (payload (bn_envelope bd))) = Inr (toHex (jb_receiptHash j'))
     \<and> policyFromCode (jb_policy j') = Inr (policy_of spec)
     \<and> wa_active auth \<and> ve_now env < of_int (wa_expiresAt auth)"

text \<open>The run respected the specification, within the verifier's tolerances.\<close>

definition honest_result :: "job_spec \<Rightarrow> job_account \<Rightarrow> exec_result \<Rightarrow> bool" where
  "honest_result spec j' x \<longleftrightarrow>
     x_exitCode x = 0 \<and> x_actualDigest x = digest spec \<and> x_gpuUuids x = t_gpuUuids (x_telemetry x)
     \<and> jb_startedAt j' - 5 \<le> x_startedAt x \<and> x_startedAt x \<le> jb_startedAt j' + 30
     \<and> x_startedAt x \<le> x_finishedAt x \<and> x_finishedAt x - x_startedAt x \<le> timeoutSeconds spec
     \<and> x_finishedAt x \<le> jb_submittedAt j' + 5
     \<and> 0 < t_samples (x_telemetry x) \<and> 0 \<le> t_durationSeconds (x_telemetry x)
     \<and> \<bar>t_durationSeconds (x_telemetry x) - of_int (x_finishedAt x - x_startedAt x)\<bar> \<le> 5
     \<and> int (length (t_gpuUuids (x_telemetry x))) = gpu_count spec \<and> 0 \<le> t_peakVramMb (x_telemetry x)"

lemma make_bundle_parts:
  assumes "make_bundle we jobId j spec hw x = Inr bd"
  obtains p where "make_receipt we jobId j spec hw x = Inr p" "payload (bn_envelope bd) = p"
    "signPayload (we_crypto we) (receipt_json p) (we_key we) = Inr (signature (bn_envelope bd))"
    "bundle_evidence (published bd) = \<lparr>e_stdout = x_stdout x, e_stderr = x_stderr x, e_result = x_result x,
       e_telemetry = x_telemetry x, e_hardware = Some hw\<rparr>"
    "bn_spec bd = spec"
  using assms by (auto simp: make_bundle_def outcome_simps published_def bundle_evidence_def)

lemma make_receipt_fields:
  assumes "make_receipt we jobId j spec hw x = Inr p"
  shows "r_cluster p = we_cluster we" "r_program p = we_program we" "r_jobId p = jobId" "r_provider p = jb_provider j"
    "r_machineId p = jb_machine j" "r_worker p = we_worker we" "r_imageDigest p = x_actualDigest x"
    "r_startTimestamp p = x_startedAt x" "r_finishTimestamp p = x_finishedAt x" "r_exitCode p = x_exitCode x"
    "r_stdoutHash p = sha256 (we_crypto we) (x_stdout x)" "r_stderrHash p = sha256 (we_crypto we) (x_stderr x)"
    "r_resultHash p = sha256 (we_crypto we) (x_result x)"
    "commitment (we_crypto we) (spec_json spec) = Inr (r_jobSpecHash p)"
    "commitment (we_crypto we) (inputs_json spec) = Inr (r_inputRoot p)"
    "commitment (we_crypto we) (output_json (we_crypto we) (x_result x)) = Inr (r_outputRoot p)"
    "commitment (we_crypto we) (gpuUuids_json (x_gpuUuids x)) = Inr (r_gpuUuidCommitment p)"
    "commitment (we_crypto we) hw = Inr (r_hardwareReportHash p)"
    "commitment (we_crypto we) (telemetry_json (x_telemetry x)) = Inr (r_telemetryHash p)"
  using assms by (auto simp: make_receipt_def outcome_simps Let_def)

lemma honest_receipt_passes:
  assumes "make_bundle we jobId j spec hw x = Inr bd" "chain_agrees we env spec hw j j' machine auth bd"
    "honest_result spec j' x" "receipt_ok (payload (bn_envelope bd))"
    "signature_law (we_crypto we) pub" "b58_decode (we_crypto we) (we_worker we) = Some (pub (we_key we))"
  obtains dec where "verifyReceipt (ve_crypto env) (bn_envelope bd) spec (chain_assignment env jobId j' machine auth)
     (bundle_evidence (published bd)) = Inr dec" "passed dec"
proof -
  let ?cr = "we_crypto we"
  obtain p where p: "make_receipt we jobId j spec hw x = Inr p" "payload (bn_envelope bd) = p"
    "signPayload ?cr (receipt_json p) (we_key we) = Inr (signature (bn_envelope bd))"
    "bundle_evidence (published bd) = \<lparr>e_stdout = x_stdout x, e_stderr = x_stderr x, e_result = x_result x,
       e_telemetry = x_telemetry x, e_hardware = Some hw\<rparr>"
    by (rule make_bundle_parts [OF assms(1)])
  let ?e = "\<lparr>e_stdout = x_stdout x, e_stderr = x_stderr x, e_result = x_result x, e_telemetry = x_telemetry x, e_hardware = Some hw\<rparr>"
  let ?a = "chain_assignment env jobId j' machine auth"
  have cr: "ve_crypto env = ?cr" using assms(2) by (simp add: chain_agrees_def)
  have sig: "verifyPayload ?cr (receipt_json p) (signature (bn_envelope bd)) (pub (we_key we))"
    by (rule verifyPayload_signPayload [OF assms(5) p(3)])
  define h where "h = \<lparr>h_worker = pub (we_key we), h_receipt = toHex (jb_receiptHash j'), h_spec = toHex (jb_specHash j'),
     h_inputs = r_inputRoot p, h_output = r_outputRoot p, h_hardware = toHex (mc_hardwareHash machine),
     h_telemetry = r_telemetryHash p, h_gpuUuids = r_gpuUuidCommitment p\<rparr>"
  note f = make_receipt_fields [OF p(1)]
  have rec: "recompute ?cr p spec ?a ?e = Inr h"
    using f assms(2,3,6) by (simp add: recompute_eq_Inr h_def chain_agrees_def chain_assignment_def
        commitment_opt_def honest_result_def p(2))
  have "run_checks (receipt_checks ?cr (bn_envelope bd) spec ?a ?e h) = []"
    unfolding run_checks_eq_Nil receipt_checks_def Let_def
    using f assms(2,3) sig by (simp add: h_def chain_agrees_def chain_assignment_def honest_result_def p(2))
  then show thesis
    using rec assms(4) p by (auto simp: verifyReceipt_def receiptSchema_parse_def cr Let_def intro: that)
qed

text \<open>Every request of the verifier succeeds.\<close>

definition service_up :: "verifier_env \<Rightarrow> bool" where
  "service_up env \<longleftrightarrow> ve_keypair env \<and> (\<forall>t. ve_query env t = Inr ()) \<and> (\<exists>ids. ve_reconcile env = Inr ids)
     \<and> (\<forall>k. \<exists>kv. ve_upload env k = Inr kv) \<and> (\<exists>sig. ve_submit env = Inr sig) \<and> ve_confirm env = Inr ()"

lemma reconcile_ok:
  assumes "ve_reconcile env = Inr ids"
  obtains d1 where "reconcile_jobs env d = (d1, Inr ())" "d_receipts d1 = d_receipts d"
  using assms that by (simp add: reconcile_jobs_def vdo_def bindP_def modifyP_def liftP_def)

lemma store_ok:
  assumes "service_up env" "commitment (ve_crypto env) (receipt_json (payload (rb_envelope b))) = Inr h"
    "d_receipts d (r_jobId (payload (rb_envelope b))) = None"
  obtains d1 row where "storeReceipt env b d = (d1, Inr row)"
proof -
  obtain k url where "ve_upload env (r_jobId (payload (rb_envelope b)) @ ''/'' @ h @ ''.json'') = Inr (k, url)"
    using assms(1) unfolding service_up_def by (metis surj_pair)
  then show thesis
    using assms that by (simp add: storeReceipt_def Let_def select_db_def write_db_def vdo_def bindP_def modifyP_def liftP_def
      getP_def retP_def service_up_def)
qed

lemma prepare_ok:
  assumes "service_up env" "commitment (ve_crypto env) (receipt_json (payload (rb_envelope b))) = Inr h"
    "d_receipts d (r_jobId (payload (rb_envelope b))) = None"
  obtains d1 row where "prepare_record env b jobId d = (d1, Inr row)"
proof -
  obtain ids where ids: "ve_reconcile env = Inr ids" using assms(1) by (auto simp: service_up_def)
  obtain d0 where d0: "(if d_jobs d jobId then retP () else reconcile_jobs env) d = (d0, Inr ())" "d_receipts d0 = d_receipts d"
    by (rule reconcile_ok [OF ids, of d]) (metis retP_def)
  obtain d1 row where "storeReceipt env b d0 = (d1, Inr row)"
    by (rule store_ok [OF assms(1,2), of d0]) (simp_all add: d0 assms)
  then have "prepare_record env b jobId d = (d1, Inr row)"
    using d0 assms(1) by (simp add: prepare_record_def select_db_def bindP_def liftP_def getP_def retP_def service_up_def)
  then show thesis by (rule that)
qed

lemma record_ok:
  assumes "service_up env" "commitment (ve_crypto env) (receipt_json (payload (rb_envelope b))) = Inr h"
    "d_receipts d (r_jobId (payload (rb_envelope b))) = None" "jb_state j = st_VERIFYING"
  obtains d' out where "record_decision env b jobId j h dec d = (d', Inr out)"
    "SubmitVerificationTx (fromHex h) (passed dec) \<in> set (d_log d')"
proof -
  obtain d1 row where p: "prepare_record env b jobId d = (d1, Inr row)" by (rule prepare_ok [OF assms(1-3)])
  obtain sig ids where up: "ve_submit env = Inr sig" "ve_confirm env = Inr ()" "ve_reconcile env = Inr ids"
    "\<And>t. ve_query env t = Inr ()" using assms(1) by (auto simp: service_up_def)
  show thesis
    using p up assms(4) that
    by (simp add: record_decision_def submit_decision_def reconcile_jobs_def store_decision_def vdo_def write_db_def
        bindP_def modifyP_def liftP_def retP_def)
qed

lemma honest_run:
  assumes "make_bundle we jobId j spec hw x = Inr bd" "chain_agrees we env spec hw j j' machine auth bd"
    "honest_result spec j' x" "receipt_ok (payload (bn_envelope bd))" "spec_valid spec" "policy_of spec \<in> {BASIC, STANDARD}"
    "signature_law (we_crypto we) pub" "b58_decode (we_crypto we) (we_worker we) = Some (pub (we_key we))"
    "finalized_job env jobId = Inr j'" "jb_state j' = st_VERIFYING" "jb_verifier j' = ve_signer env"
    "ve_machine env (jb_machine j') = Inr machine" "ve_worker env (jb_provider j') (jb_worker j') = Inr auth"
    "service_up env" "d_verifications d jobId = None" "d_receipts d jobId = None"
  shows "\<exists>d' out row. verifyBundle env (published bd) d = (d', Inr out) \<and> passed (vo_decision out)
     \<and> SubmitVerificationTx (jb_receiptHash j') True \<in> set (d_log d')
     \<and> d_verifications d' jobId = Some row \<and> vr_passed row"
proof -
  let ?b = "published bd"
  obtain p where p: "make_receipt we jobId j spec hw x = Inr p" "payload (bn_envelope bd) = p" "bn_spec bd = spec"
    by (rule make_bundle_parts [OF assms(1)])
  have id: "r_jobId (payload (bn_envelope bd)) = jobId" using make_receipt_fields(3) [OF p(1)] p(2) by simp
  obtain dec where dec: "verifyReceipt (ve_crypto env) (bn_envelope bd) spec (chain_assignment env jobId j' machine auth)
     (bundle_evidence ?b) = Inr dec" "passed dec"
    by (rule honest_receipt_passes [OF assms(1-4,7,8)])
  have "requiresAdditionalEvidence dec \<longleftrightarrow> policy_of spec \<notin> {BASIC, STANDARD}"
    by (rule verifyReceipt_passed [OF dec(1)])
  then have decide: "decide env jobId j' spec rh dec d = (d, Inr dec)" for rh
    using assms(6) by (auto simp: decide_def retP_def)
  have hash: "commitment (ve_crypto env) (receipt_json (payload (rb_envelope ?b))) = Inr (toHex (jb_receiptHash j'))"
    using assms(2) by (simp add: chain_agrees_def published_def)
  obtain d' out where rec: "record_decision env ?b jobId j' (toHex (jb_receiptHash j')) dec d = (d', Inr out)"
    "SubmitVerificationTx (fromHex (toHex (jb_receiptHash j'))) (passed dec) \<in> set (d_log d')"
    by (rule record_ok [OF assms(14) hash, of d]) (use assms(10,16) id in \<open>simp_all add: published_def\<close>)
  have "jobSpecSchema_parse (spec_json spec) = Inr spec"
    using assms(5) by (simp add: parse_shape_spec_json parse_Inr_iff spec_valid_def)
  then have spec: "parse_spec (spec_json spec) = Inr spec" by (simp add: parse_spec_def)
  have "verifyBundle env ?b d = (d', Inr out)"
    using assms(2,9-15) dec(1) decide rec(1) hash spec p(3)
    by (simp add: verifyBundle_def Let_def published_def id bindP_def requireP_def liftP_def conclude_def select_db_def
        getP_def retP_def service_up_def chain_agrees_def)
  with record_decision_row [OF rec(1)] rec(2) dec(2) show ?thesis by auto
qed


section \<open>A run of the verifier\<close>

definition sample_chain_job :: job_account where
  "sample_chain_job = (sample_job_account st_VERIFYING)\<lparr>jb_verifier := ''V'', jb_policy := 1,
     jb_receiptHash := checksum (utf8 (show_json (receipt_json (payload (bn_envelope sample_bundle)))))\<rparr>"

definition sample_verifier_env :: verifier_env where
  "sample_verifier_env = \<lparr>ve_crypto = sample_crypto, ve_keypair = True, ve_signer = ''V'', ve_cluster = ''devnet'',
     ve_program = sample_program, ve_now = 200, ve_job = (\<lambda>_. Inr (JobInfo sample_chain_job)),
     ve_machine = (\<lambda>_. Inr sample_machine_account), ve_worker = (\<lambda>_ _. Inr sample_auth), ve_query = (\<lambda>_. Inr ()),
     ve_reconcile = Inr [], ve_upload = (\<lambda>k. Inr (k, k)), ve_submit = Inr ''sig'', ve_confirm = Inr ()\<rparr>"

definition empty_db :: verifier_db where
  "empty_db = \<lparr>d_receipts = Map.empty, d_challenges = Map.empty, d_replicas = [], d_groups = Map.empty,
     d_verifications = Map.empty, d_jobs = (\<lambda>_. False), d_log = []\<rparr>"

lemma sample_bundle_receipt_ok: "receipt_ok (payload (bn_envelope sample_bundle))"
  using sample_receipt_ok by (simp add: sample_bundle_def receipt_ok_def)

lemma sample_chain_agrees:
  "chain_agrees sample_worker_env sample_verifier_env sample_spec sample_hw (sample_job_account st_ASSIGNED) sample_chain_job
     sample_machine_account sample_auth sample_bundle"
  using policyFromCode_policyCode [of STANDARD]
  by (simp add: chain_agrees_def sample_worker_env_def sample_verifier_env_def sample_chain_job_def sample_job_account_def
      sample_machine_account_def sample_auth_def sample_hash_def sample_spec_parts policyCode_def verificationPolicies_def)

lemma sample_honest_result: "honest_result sample_spec sample_chain_job sample_result"
  by (simp add: honest_result_def sample_result_def sample_chain_job_def sample_job_account_def sample_spec_parts)

lemma sample_verifier_facts:
  "spec_valid sample_spec" "policy_of sample_spec \<in> {BASIC, STANDARD}" "signature_law (we_crypto sample_worker_env) checksum"
  "b58_decode (we_crypto sample_worker_env) (we_worker sample_worker_env) = Some (checksum (we_key sample_worker_env))"
  "finalized_job sample_verifier_env sample_job = Inr sample_chain_job" "jb_state sample_chain_job = st_VERIFYING"
  "jb_verifier sample_chain_job = ve_signer sample_verifier_env"
  "ve_machine sample_verifier_env (jb_machine sample_chain_job) = Inr sample_machine_account"
  "ve_worker sample_verifier_env (jb_provider sample_chain_job) (jb_worker sample_chain_job) = Inr sample_auth"
  "service_up sample_verifier_env" "d_verifications empty_db sample_job = None" "d_receipts empty_db sample_job = None"
  using sample_signature_law
  by (simp_all add: sample_spec_valid sample_spec_parts sample_worker_env_def sample_verifier_env_def finalized_job_def
      sample_chain_job_def sample_job_account_def service_up_def empty_db_def)

lemmas sample_verifier_run = honest_run [OF sample_make_bundle sample_chain_agrees sample_honest_result sample_bundle_receipt_ok
  sample_verifier_facts]

lemma sample_bundle_job: "r_jobId (payload (rb_envelope (published sample_bundle))) = sample_job"
  by (simp add: published_def sample_bundle_def sample_receipt_def)


theorem submission_justified_witness:
  "\<exists>d' out j. verifyBundle sample_verifier_env (published sample_bundle) empty_db = (d', Inr out)
     \<and> SubmitVerificationTx (jb_receiptHash sample_chain_job) True \<in> set (d_log d')
     \<and> finalized_job sample_verifier_env sample_job = Inr j \<and> jb_state j = st_VERIFYING \<and> jb_verifier j = ''V''"
proof -
  from sample_verifier_run obtain d' out where run: "verifyBundle sample_verifier_env (published sample_bundle) empty_db = (d', Inr out)"
    and tx: "SubmitVerificationTx (jb_receiptHash sample_chain_job) True \<in> set (d_log d')" by blast
  from submission_justified [OF run] tx obtain j where "finalized_job sample_verifier_env sample_job = Inr j"
    "jb_state j = st_VERIFYING" "jb_verifier j = ve_signer sample_verifier_env"
    unfolding sample_bundle_job by (auto simp: empty_db_def)
  then show ?thesis using run tx by (auto simp: sample_verifier_env_def)
qed

theorem decision_recorded_once_witness:
  "\<exists>d' out row. verifyBundle sample_verifier_env (published sample_bundle) empty_db = (d', Inr out)
     \<and> d_verifications d' sample_job = Some row \<and> vr_passed row = passed (vo_decision out)"
proof -
  from sample_verifier_run obtain d' out where run: "verifyBundle sample_verifier_env (published sample_bundle) empty_db = (d', Inr out)"
    by blast
  from decision_recorded_once [OF run] run show ?thesis unfolding sample_bundle_job by blast
qed

theorem store_receipt_idempotent_witness:
  "\<exists>d' row. storeReceipt sample_verifier_env (published sample_bundle) empty_db = (d', Inr row)
     \<and> storeReceipt sample_verifier_env (published sample_bundle) d' = (d', Inr row)"
proof -
  have "commitment (ve_crypto sample_verifier_env) (receipt_json (payload (rb_envelope (published sample_bundle)))) = Inr sample_rh"
    by (simp add: sample_verifier_env_def published_def)
  moreover have "d_receipts empty_db (r_jobId (payload (rb_envelope (published sample_bundle)))) = None"
    by (simp add: empty_db_def)
  ultimately obtain d' row where st: "storeReceipt sample_verifier_env (published sample_bundle) empty_db = (d', Inr row)"
    by (rule store_ok [OF sample_verifier_facts(10)])
  from store_receipt_idempotent [OF st] st show ?thesis by blast
qed

theorem daemon_pass_keeps_decisions_witness:
  "\<exists>d'. verifier_pass sample_verifier_env (Inr \<lparr>pi_jobs = [(sample_job, [])], pi_recorded = [], pi_specs = Map.empty,
     pi_blob = (\<lambda>_. Inl [])\<rparr>) empty_db = (d', Inr ())"
  using daemon_pass_keeps_decisions by blast

end
