(* ===== verification/Indexer.thy ===== *)
theory Indexer
  imports Executors Accounts Effects "HOL-Library.AList"
begin

text \<open>
  The indexer (\<^verbatim>\<open>apps/indexer/src/indexer.ts\<close>): it projects finalized accounts into database rows,
  reconciles the tables with a snapshot of the chain, walks the transaction history up to a
  watermark, and records market prices. The SQL function \<^verbatim>\<open>apply_projection\<close> and the table
  constraints it runs into are modelled from the migrations. The RPC node, the transaction parser
  and the outcome of each request are parameters.
\<close>

section \<open>Projecting accounts\<close>

datatype chain_account =
    Provider provider_account
  | ProviderStake stake_account
  | AgentPolicy policy_account
  | WorkerAuthorization worker_account
  | Machine machine_account
  | Offer offer_account
  | Job job_account
  | Bid bid_account
  | OtherAccount

record projection =
  pj_table :: string
  pj_id :: string
  pj_slot :: int
  pj_cols :: "(string \<times> json) list"

definition zero_key :: string where
  "zero_key = replicate 32 CHR ''1''"

definition jkey :: "string \<Rightarrow> json" where
  "jkey k = (if k = zero_key then JNull else JStr k)"

definition jbig :: "int \<Rightarrow> json" where
  "jbig n = JStr (bigint_toString n)"

text \<open>\<^verbatim>\<open>Number(x) || null\<close>\<close>

definition jtime :: "int \<Rightarrow> json" where
  "jtime n = (if n = 0 then JNull else jint n)"

fun state_name :: "job_state \<Rightarrow> string" where
  "state_name CREATED = ''CREATED''" | "state_name FUNDED = ''FUNDED''" | "state_name OPEN = ''OPEN''"
| "state_name MATCHED = ''MATCHED''" | "state_name ASSIGNED = ''ASSIGNED''" | "state_name STARTING = ''STARTING''"
| "state_name RUNNING = ''RUNNING''" | "state_name RESULT_SUBMITTED = ''RESULT_SUBMITTED''"
| "state_name VERIFYING = ''VERIFYING''" | "state_name COMPLETED = ''COMPLETED''"
| "state_name CANCELLED = ''CANCELLED''" | "state_name EXPIRED = ''EXPIRED''" | "state_name FAILED = ''FAILED''"
| "state_name DISPUTED = ''DISPUTED''" | "state_name REFUNDED = ''REFUNDED''"

definition job_columns :: "string \<Rightarrow> job_account \<Rightarrow> policy \<Rightarrow> (string \<times> json) list" where
  "job_columns now a policy =
     [(''buyer'', JStr (jb_buyer a)), (''spec_hash'', JStr (toHex (jb_specHash a))), (''mint'', JStr (jb_mint a))]
     @ (case index_at jobStates (jb_state a) of Some s \<Rightarrow> [(''state'', JStr (state_name s))] | None \<Rightarrow> [])
     @ [(''budget'', jbig (jb_budget a)), (''deposit'', jbig (jb_deposit a)), (''price'', jbig (jb_price a)),
        (''provider_id'', jkey (jb_provider a)), (''machine_id'', jkey (jb_machine a)), (''worker'', jkey (jb_worker a)),
        (''receipt_hash'', JStr (toHex (jb_receiptHash a))), (''provider_paid'', jbig (jb_providerPaid a)),
        (''fee_paid'', jbig (jb_feePaid a)), (''refunded'', jbig (jb_refunded a)), (''settled'', JBool (jb_settled a)),
        (''deadline'', jint (jb_deadline a)), (''started_at'', jtime (jb_startedAt a)),
        (''submitted_at'', jtime (jb_submittedAt a)), (''verified_at'', jtime (jb_verifiedAt a)),
        (''timeout_seconds'', jint (jb_timeout a)), (''verification_policy'', JStr (policy_name policy)),
        (''created_at'', JStr now), (''updated_at'', JStr now)]"

fun project :: "string \<Rightarrow> chain_account \<Rightarrow> string \<Rightarrow> int \<Rightarrow> projection option outcome" where
  "project now (Provider a) i slot = Inr (Some \<lparr>pj_table = ''providers'', pj_id = i, pj_slot = slot, pj_cols =
     [(''authority'', JStr (pr_authority a)), (''metadata_hash'', JStr (toHex (pr_metadataHash a))),
      (''active'', JBool (pr_active a)), (''completed'', jbig (pr_completed a)), (''failed'', jbig (pr_failed a)),
      (''name'', JStr ''Independent provider''), (''updated_at'', JStr now)]\<rparr>)"
| "project now (ProviderStake a) i slot = Inr (Some \<lparr>pj_table = ''provider_stakes'', pj_id = i, pj_slot = slot, pj_cols =
     [(''provider_id'', JStr (st_provider a)), (''mint'', JStr (st_mint a)), (''deposited'', jbig (st_deposited a)),
      (''pending_withdrawal'', jbig (st_pendingWithdrawal a)), (''unlock_at'', jint (st_unlockAt a)),
      (''total_slashed'', jbig (st_totalSlashed a))]\<rparr>)"
| "project now (AgentPolicy a) i slot = Inr (Some \<lparr>pj_table = ''agent_policies'', pj_id = i, pj_slot = slot, pj_cols =
     [(''owner_wallet'', JStr (ap_owner a)), (''agent'', JStr (ap_agent a)), (''mint'', JStr (ap_mint a)),
      (''daily_spend_limit'', jbig (ap_dailySpendLimit a)), (''single_job_limit'', jbig (ap_singleJobLimit a)),
      (''max_runtime_seconds'', jint (ap_maxRuntimeSeconds a)),
      (''required_verification'', jint (ap_requiredVerification a)),
      (''allowed_specs_root'', JStr (toHex (ap_allowedSpecsRoot a))), (''expires_at'', jint (ap_expiresAt a)),
      (''day_index'', jint (ap_dayIndex a)), (''daily_spent'', jbig (ap_dailySpent a)), (''active'', JBool (ap_active a))]\<rparr>)"
| "project now (WorkerAuthorization a) i slot = Inr (Some \<lparr>pj_table = ''workers'', pj_id = i, pj_slot = slot, pj_cols =
     [(''provider_id'', JStr (wa_provider a)), (''worker'', JStr (wa_worker a)), (''active'', JBool (wa_active a)),
      (''expires_at'', jint (wa_expiresAt a))]\<rparr>)"
| "project now (Machine a) i slot = Inr (Some \<lparr>pj_table = ''machines'', pj_id = i, pj_slot = slot, pj_cols =
     [(''provider_id'', JStr (mc_provider a)), (''worker'', JStr (mc_worker a)),
      (''hardware_hash'', JStr (toHex (mc_hardwareHash a))), (''gpu_model'', JStr ''Undisclosed''),
      (''region'', JStr ''Undisclosed''), (''trust_level'', JStr ''CLAIMED''), (''gpu_count'', jint (mc_gpuCount a)),
      (''vram_mb'', jint (mc_vramMb a)), (''active'', JBool (mc_active a)), (''busy'', JBool (mc_busy a)),
      (''completed'', jbig (mc_completed a)), (''failed'', jbig (mc_failed a)), (''updated_at'', JStr now)]\<rparr>)"
| "project now (Offer a) i slot = Inr (Some \<lparr>pj_table = ''offers'', pj_id = i, pj_slot = slot, pj_cols =
     [(''machine_id'', JStr (of_machine a)), (''rate_base_units_per_second'', jbig (of_rate a)),
      (''min_seconds'', jint (of_minSeconds a)), (''max_seconds'', jint (of_maxSeconds a)),
      (''expires_at'', jint (of_expiresAt a)), (''active'', JBool (of_active a))]\<rparr>)"
| "project now (Job a) i slot = andThen (policyFromCode (jb_policy a)) (\<lambda>p.
     Inr (Some \<lparr>pj_table = ''jobs'', pj_id = i, pj_slot = slot, pj_cols = job_columns now a p\<rparr>))"
| "project now (Bid a) i slot = Inr (Some \<lparr>pj_table = ''bids'', pj_id = i, pj_slot = slot, pj_cols =
     [(''job_id'', JStr (bd_job a)), (''provider_id'', JStr (bd_provider a)), (''machine_id'', JStr (bd_machine a)),
      (''worker'', JStr (bd_worker a)), (''price'', jbig (bd_price a)), (''estimated_start'', jint (bd_estimatedStart a)),
      (''expires_at'', jint (bd_expiresAt a)), (''active'', JBool (bd_active a))]\<rparr>)"
| "project now OtherAccount i slot = Inr None"

section \<open>The projection tables\<close>

record stored_row =
  sr_slot :: int
  sr_cols :: "(string \<times> json) list"

type_synonym tables = "string \<Rightarrow> (string \<times> stored_row) list"

definition lookup_row :: "tables \<Rightarrow> string \<Rightarrow> string \<Rightarrow> stored_row option" where
  "lookup_row T t i = map_of (T t) i"

definition table_order :: "string list" where
  "table_order = [''providers'', ''provider_stakes'', ''agent_policies'', ''workers'', ''machines'', ''offers'', ''jobs'', ''bids'']"

text \<open>The \<^verbatim>\<open>REFERENCES\<close> clauses of the migrations.\<close>

definition foreign_keys :: "string \<Rightarrow> (string \<times> string) list" where
  "foreign_keys t =
     (if t \<in> {''provider_stakes'', ''workers'', ''machines''} then [(''provider_id'', ''providers'')]
      else if t = ''offers'' then [(''machine_id'', ''machines'')]
      else if t = ''bids'' then [(''job_id'', ''jobs''), (''provider_id'', ''providers''), (''machine_id'', ''machines'')]
      else [])"

definition fk_ok :: "tables \<Rightarrow> projection \<Rightarrow> bool" where
  "fk_ok T p \<longleftrightarrow> (\<forall>(c, t) \<in> set (foreign_keys (pj_table p)).
     case map_of (pj_cols p) c of Some (JStr r) \<Rightarrow> lookup_row T t r \<noteq> None | _ \<Rightarrow> True)"

text \<open>
  The numeric \<^verbatim>\<open>CHECK\<close> constraints the projected values can violate: on an agent policy, and the
  absent state of a job whose state byte has no name (\<^verbatim>\<open>NOT NULL\<close>). Uniqueness constraints and the
  remaining checks are a parameter.
\<close>

definition json_in :: "(string \<times> json) list \<Rightarrow> string \<Rightarrow> int \<Rightarrow> int \<Rightarrow> bool" where
  "json_in cols c lo hi \<longleftrightarrow> (case Option.bind (map_of cols c) json_int of Some n \<Rightarrow> lo \<le> n \<and> n \<le> hi | None \<Rightarrow> False)"

definition check_ok :: "projection \<Rightarrow> bool" where
  "check_ok p \<longleftrightarrow>
     (pj_table p = ''agent_policies'' \<longrightarrow> json_in (pj_cols p) ''required_verification'' 0 1
        \<and> json_in (pj_cols p) ''max_runtime_seconds'' 1 86400)
     \<and> (pj_table p = ''jobs'' \<longrightarrow> map_of (pj_cols p) ''state'' \<noteq> None)"

text \<open>\<^verbatim>\<open>ON CONFLICT (id) DO UPDATE\<close>: every given column but \<^verbatim>\<open>created_at\<close> is overwritten.\<close>

definition merge_cols :: "(string \<times> json) list \<Rightarrow> (string \<times> json) list \<Rightarrow> (string \<times> json) list" where
  "merge_cols new old = fold (\<lambda>(k, v) cols. AList.update k v cols) (filter (\<lambda>(k, v). k \<noteq> ''created_at'') new) old"

definition put_row :: "tables \<Rightarrow> string \<Rightarrow> string \<Rightarrow> stored_row \<Rightarrow> tables" where
  "put_row T t i r = T(t := AList.update i r (T t))"

definition apply_projection :: "(projection \<Rightarrow> bool) \<Rightarrow> projection \<Rightarrow> tables \<Rightarrow> tables outcome" where
  "apply_projection accepts p T =
     (if pj_table p \<notin> set table_order then Inl ''Invalid projection table''
      else if \<not> check_ok p \<or> \<not> accepts p then Inl ''constraint violation''
      else case lookup_row T (pj_table p) (pj_id p) of
        None \<Rightarrow> if fk_ok T p then Inr (put_row T (pj_table p) (pj_id p) \<lparr>sr_slot = pj_slot p, sr_cols = pj_cols p\<rparr>)
          else Inl ''foreign key violation''
      | Some r \<Rightarrow> if pj_slot p < sr_slot r then Inr T
          else if fk_ok T p then Inr (put_row T (pj_table p) (pj_id p)
            \<lparr>sr_slot = pj_slot p, sr_cols = merge_cols (pj_cols p) (sr_cols r)\<rparr>)
          else Inl ''foreign key violation'')"

section \<open>The indexer's state\<close>

record event_row =
  ev_slot :: int
  ev_processed :: bool
  ev_error :: "string option"
  ev_block_time :: "int option"
  ev_name :: "string option"
  ev_data :: "(string \<times> json) list"

record price_row =
  pp_gpu_model :: "json option"
  pp_region :: "json option"
  pp_rate :: string
  pp_available :: bool

record heartbeat_row =
  hb_machine :: string
  hb_timestamp :: int
  hb_available :: int

record indexer =
  ix_running :: bool
  ix_dirty :: bool
  ix_tables :: tables
  ix_slot_cursor :: "int option"
  ix_events :: "(string \<times> event_row) list"
  ix_history_cursor :: "string option"
  ix_prices :: "((string \<times> int) \<times> price_row) list"

section \<open>Reconciliation\<close>

text \<open>
  One turn of the \<^verbatim>\<open>do ... while\<close> loop: the snapshot the node returns, the outcome of each write, and
  whether a change notification arrived meanwhile (it finds \<^verbatim>\<open>running\<close> set and marks the state dirty).
\<close>

record turn =
  tn_rpc :: "(int \<times> (string \<times> chain_account outcome) list) outcome"
  tn_now :: string
  tn_write :: "projection \<Rightarrow> unit outcome"
  tn_cursor :: "unit outcome"
  tn_notified :: bool

definition snapshot_rows :: "string \<Rightarrow> int \<Rightarrow> (string \<times> chain_account outcome) list \<Rightarrow> projection list outcome" where
  "snapshot_rows now slot items = andThen (mapM (\<lambda>(i, a). andThen a (\<lambda>acc. project now acc i slot)) items) (\<lambda>ps.
     Inr (List.map_filter id ps))"

definition table_cmp :: "projection \<Rightarrow> projection \<Rightarrow> int" where
  "table_cmp a b = indexOf (pj_table a) table_order - indexOf (pj_table b) table_order"

fun write_rows :: "(projection \<Rightarrow> bool) \<Rightarrow> turn \<Rightarrow> projection list \<Rightarrow> (indexer, unit) proc" where
  "write_rows accepts tn [] = retP ()"
| "write_rows accepts tn (p # ps) = bindP (liftP (tn_write tn p)) (\<lambda>_.
     bindP getP (\<lambda>s. bindP (liftP (apply_projection accepts p (ix_tables s))) (\<lambda>T.
     bindP (modifyP (\<lambda>s. s\<lparr>ix_tables := T\<rparr>)) (\<lambda>_. write_rows accepts tn ps))))"

definition reconcile_turn :: "(projection \<Rightarrow> bool) \<Rightarrow> turn \<Rightarrow> (indexer, unit) proc" where
  "reconcile_turn accepts tn =
     bindP (modifyP (\<lambda>s. s\<lparr>ix_dirty := False\<rparr>)) (\<lambda>_.
     bindP (liftP (tn_rpc tn)) (\<lambda>(slot, items).
     bindP (liftP (snapshot_rows (tn_now tn) slot items)) (\<lambda>rows.
     bindP (write_rows accepts tn (js_sort table_cmp rows)) (\<lambda>_.
     bindP (liftP (tn_cursor tn)) (\<lambda>_.
       modifyP (\<lambda>s. s\<lparr>ix_slot_cursor := Some slot, ix_dirty := tn_notified tn\<rparr>))))))"

text \<open>The loop may never end when notifications keep arriving, so it has fuel; \<open>None\<close> is not returning.\<close>

fun reconcile_loop :: "(projection \<Rightarrow> bool) \<Rightarrow> (nat \<Rightarrow> turn) \<Rightarrow> nat \<Rightarrow> nat \<Rightarrow> indexer \<Rightarrow> (indexer \<times> unit outcome) option" where
  "reconcile_loop accepts turns 0 n s = None"
| "reconcile_loop accepts turns (Suc fuel) n s = (case reconcile_turn accepts (turns n) s of
     (s', Inl e) \<Rightarrow> Some (s', Inl e)
   | (s', Inr _) \<Rightarrow> if ix_dirty s' then reconcile_loop accepts turns fuel (Suc n) s' else Some (s', Inr ()))"

definition reconcile :: "(projection \<Rightarrow> bool) \<Rightarrow> (nat \<Rightarrow> turn) \<Rightarrow> nat \<Rightarrow> indexer \<Rightarrow> (indexer \<times> unit outcome) option" where
  "reconcile accepts turns fuel s =
     (if ix_running s then Some (s\<lparr>ix_dirty := True\<rparr>, Inr ())
      else case reconcile_loop accepts turns fuel 0 (s\<lparr>ix_running := True\<rparr>) of
        None \<Rightarrow> None
      | Some (s', r) \<Rightarrow> Some (s'\<lparr>ix_running := False\<rparr>, r))"

section \<open>Transactions\<close>

record decoded =
  dc_processed :: bool
  dc_error :: "string option"
  dc_blockTime :: "int option"
  dc_events :: "(string \<times> json) list"

text \<open>\<open>tx\<close> is the node's \<^verbatim>\<open>getTransaction\<close> with the Anchor event parser applied to its log messages.\<close>

definition decodeTransaction ::
  "(string \<Rightarrow> (int option \<times> (string \<times> json) list) option outcome) \<Rightarrow> string \<Rightarrow> decoded" where
  "decodeTransaction tx sig = (case tx sig of
     Inl e \<Rightarrow> \<lparr>dc_processed = False, dc_error = Some (take 1000 e), dc_blockTime = None, dc_events = []\<rparr>
   | Inr None \<Rightarrow> \<lparr>dc_processed = False, dc_error = Some ''Finalized transaction unavailable'', dc_blockTime = None, dc_events = []\<rparr>
   | Inr (Some (bt, evs)) \<Rightarrow> \<lparr>dc_processed = True, dc_error = None, dc_blockTime = bt, dc_events = evs\<rparr>)"

definition event_names :: "(string \<times> json) list \<Rightarrow> string option" where
  "event_names evs = (if evs = [] then None else Some (join '','' (map fst evs)))"

text \<open>A signature of the node's history: its slot and its transaction error, if any.\<close>

record tx_info =
  tx_signature :: string
  tx_slot :: int
  tx_err :: "string option"

definition event_of :: "decoded \<Rightarrow> tx_info \<Rightarrow> event_row" where
  "event_of d t = \<lparr>ev_slot = tx_slot t, ev_processed = dc_processed d,
     ev_error = (case dc_error d of Some e \<Rightarrow> Some e | None \<Rightarrow> tx_err t),
     ev_block_time = dc_blockTime d, ev_name = event_names (dc_events d), ev_data = dc_events d\<rparr>"

text \<open>\<^verbatim>\<open>upsert(missing, { ignoreDuplicates: true })\<close>\<close>

definition insert_event :: "string \<times> event_row \<Rightarrow> (string \<times> event_row) list \<Rightarrow> (string \<times> event_row) list" where
  "insert_event e es = (if map_of es (fst e) = None then es @ [e] else es)"

record indexer_env =
  ie_tx :: "string \<Rightarrow> (int option \<times> (string \<times> json) list) option outcome"
  ie_page :: "string option \<Rightarrow> tx_info list outcome"
  ie_upsert :: "string \<Rightarrow> unit outcome"
  ie_update :: "string \<Rightarrow> unit outcome"
  ie_accepts :: "projection \<Rightarrow> bool"
  ie_turns :: "nat \<Rightarrow> turn"
  ie_heartbeats :: "heartbeat_row list"
  ie_reports :: "(string \<times> json) list"
  ie_select :: "unit outcome"
  ie_now :: int

section \<open>Price history\<close>

definition str_col :: "stored_row \<Rightarrow> string \<Rightarrow> string option" where
  "str_col r c = Option.bind (map_of (sr_cols r) c) json_str"

definition bool_col :: "stored_row \<Rightarrow> string \<Rightarrow> bool" where
  "bool_col r c \<longleftrightarrow> map_of (sr_cols r) c = Some (JBool True)"

definition gpu_list :: "json option \<Rightarrow> json list option" where
  "gpu_list report = (case json_get ''gpu'' report of Some (JArr gs) \<Rightarrow> Some gs | _ \<Rightarrow> None)"

definition machine_available :: "int \<Rightarrow> stored_row \<Rightarrow> heartbeat_row option \<Rightarrow> json option \<Rightarrow> bool" where
  "machine_available now m hb report \<longleftrightarrow> \<not> bool_col m ''busy'' \<and>
     (case hb of None \<Rightarrow> False | Some h \<Rightarrow> now - hb_timestamp h < 90 \<and> (gpu_list report = Some [] \<or> 0 < hb_available h))"

definition price_of :: "indexer_env \<Rightarrow> tables \<Rightarrow> string \<times> stored_row \<Rightarrow> ((string \<times> int) \<times> price_row) list" where
  "price_of env T = (\<lambda>(oid, offer).
     case Option.bind (str_col offer ''machine_id'') (\<lambda>mid. map_option (\<lambda>m. (mid, m)) (map_of (take 1000 (T ''machines'')) mid)) of
       None \<Rightarrow> []
     | Some (mid, m) \<Rightarrow> if \<not> bool_col m ''active'' then [] else
         let hb = find (\<lambda>h. hb_machine h = mid) (take 1000 (ie_heartbeats env));
             report = Option.bind (str_col m ''hardware_hash'') (map_of (take 1000 (ie_reports env)))
         in [((oid, ie_now env div 300 * 300),
              \<lparr>pp_gpu_model = (case json_get ''model'' (json_first (json_get ''gpu'' report)) of
                   None \<Rightarrow> map_of (sr_cols m) ''gpu_model'' | Some JNull \<Rightarrow> map_of (sr_cols m) ''gpu_model'' | Some v \<Rightarrow> Some v),
               pp_region = map_of (sr_cols m) ''region'',
               pp_rate = (case str_col offer ''rate_base_units_per_second'' of Some v \<Rightarrow> v | None \<Rightarrow> []),
               pp_available = machine_available (ie_now env) m hb report\<rparr>)])"

definition price_rows :: "indexer_env \<Rightarrow> tables \<Rightarrow> ((string \<times> int) \<times> price_row) list" where
  "price_rows env T = concat (map (price_of env T) (take 1000 (filter (\<lambda>(i, r). bool_col r ''active'') (T ''offers''))))"

definition recordPriceHistory :: "indexer_env \<Rightarrow> (indexer, unit) proc" where
  "recordPriceHistory env = bindP (liftP (ie_select env)) (\<lambda>_. bindP getP (\<lambda>s.
     let rows = price_rows env (ix_tables s)
     in if rows = [] then retP ()
        else bindP (liftP (ie_upsert env ''market_price_history'')) (\<lambda>_.
          modifyP (\<lambda>s. s\<lparr>ix_prices := fold (\<lambda>(k, v) ps. AList.update k v ps) rows (ix_prices s)\<rparr>))))"

section \<open>Pending events and the history walk\<close>

fun retry_events :: "indexer_env \<Rightarrow> string list \<Rightarrow> (indexer, unit) proc" where
  "retry_events env [] = retP ()"
| "retry_events env (sig # sigs) = (let d = decodeTransaction (ie_tx env) sig in
     bindP (liftP (ie_update env sig)) (\<lambda>_.
     bindP (modifyP (\<lambda>s. s\<lparr>ix_events := map (\<lambda>(k, e). (k, if k = sig
         then e\<lparr>ev_processed := dc_processed d, ev_error := dc_error d, ev_block_time := dc_blockTime d,
           ev_name := event_names (dc_events d), ev_data := dc_events d\<rparr> else e)) (ix_events s)\<rparr>)) (\<lambda>_.
       retry_events env sigs)))"

definition processPendingEvents :: "indexer_env \<Rightarrow> (indexer, unit) proc" where
  "processPendingEvents env = bindP (liftP (ie_select env)) (\<lambda>_. bindP getP (\<lambda>s.
     retry_events env (map fst (take 100 (sort_key (\<lambda>(k, e). ev_slot e)
       (filter (\<lambda>(k, e). \<not> ev_processed e) (ix_events s)))))))"

text \<open>The batch up to the watermark, and whether the watermark was met.\<close>

definition until_cursor :: "string option \<Rightarrow> tx_info list \<Rightarrow> tx_info list \<times> bool" where
  "until_cursor cursor batch =
     (takeWhile (\<lambda>t. Some (tx_signature t) \<noteq> cursor) batch, list_ex (\<lambda>t. Some (tx_signature t) = cursor) batch)"

definition store_missing :: "indexer_env \<Rightarrow> tx_info list \<Rightarrow> (indexer, unit) proc" where
  "store_missing env missing = (if missing = [] then retP () else
     bindP (liftP (ie_upsert env ''chain_events'')) (\<lambda>_.
     modifyP (\<lambda>s. s\<lparr>ix_events := fold insert_event
       (map (\<lambda>t. (tx_signature t, event_of (decodeTransaction (ie_tx env) (tx_signature t)) t)) missing) (ix_events s)\<rparr>)))"

fun pages :: "indexer_env \<Rightarrow> string option \<Rightarrow> nat \<Rightarrow> string option \<Rightarrow> string option \<Rightarrow> indexer
    \<Rightarrow> (indexer \<times> string option outcome) option" where
  "pages env cursor 0 before newest s = None"
| "pages env cursor (Suc fuel) before newest s = (case ie_page env before of
     Inl e \<Rightarrow> Some (s, Inl e)
   | Inr batch \<Rightarrow> if batch = [] then Some (s, Inr newest) else
       let newest' = (case newest of None \<Rightarrow> Some (tx_signature (hd batch)) | Some n \<Rightarrow> Some n);
           (missing, reached) = until_cursor cursor batch
       in (case store_missing env missing s of
             (s', Inl e) \<Rightarrow> Some (s', Inl e)
           | (s', Inr _) \<Rightarrow>
               if length batch < 1000 \<or> reached then Some (s', Inr newest')
               else pages env cursor fuel (Some (tx_signature (last batch))) newest' s'))"

definition finish_backfill :: "indexer_env \<Rightarrow> string option \<Rightarrow> (indexer, unit) proc" where
  "finish_backfill env newest =
     bindP (processPendingEvents env) (\<lambda>_.
     bindP (recordPriceHistory env) (\<lambda>_.
     case newest of
       None \<Rightarrow> retP ()
     | Some n \<Rightarrow> bindP (liftP (ie_upsert env ''indexer_cursors'')) (\<lambda>_. modifyP (\<lambda>s. s\<lparr>ix_history_cursor := Some n\<rparr>))))"

definition backfill :: "indexer_env \<Rightarrow> nat \<Rightarrow> indexer \<Rightarrow> (indexer \<times> unit outcome) option" where
  "backfill env fuel s = (case ie_select env of
     Inl e \<Rightarrow> Some (s, Inl e)
   | Inr _ \<Rightarrow> (case pages env (ix_history_cursor s) fuel None None s of
       None \<Rightarrow> None
     | Some (s1, Inl e) \<Rightarrow> Some (s1, Inl e)
     | Some (s1, Inr newest) \<Rightarrow> (case reconcile (ie_accepts env) (ie_turns env) fuel s1 of
         None \<Rightarrow> None
       | Some (s2, Inl e) \<Rightarrow> Some (s2, Inl e)
       | Some (s2, Inr _) \<Rightarrow> Some (finish_backfill env newest s2))))"

section \<open>Rows only move forward\<close>

lemma lookup_put: "lookup_row (put_row T t i r) t' i' = (if t' = t \<and> i' = i then Some r else lookup_row T t' i')"
  by (simp add: lookup_row_def put_row_def update_conv')

text \<open>\<open>T'\<close> has every row of \<open>T\<close>, none with an older slot; rows with another slot than \<open>slot\<close> are unchanged.\<close>

definition forward :: "int \<Rightarrow> tables \<Rightarrow> tables \<Rightarrow> bool" where
  "forward slot T T' \<longleftrightarrow> (\<forall>t i r. lookup_row T t i = Some r \<longrightarrow>
     (\<exists>r'. lookup_row T' t i = Some r' \<and> sr_slot r \<le> sr_slot r' \<and> (slot < sr_slot r \<longrightarrow> r' = r)))"

lemma forward_refl: "forward slot T T"
  by (simp add: forward_def)

lemma forwardD:
  assumes "forward slot T T'" "lookup_row T t i = Some r"
  obtains r' where "lookup_row T' t i = Some r'" "sr_slot r \<le> sr_slot r'" "slot < sr_slot r \<longrightarrow> r' = r"
  using assms unfolding forward_def by blast

lemma forward_trans:
  assumes "forward slot T T'" "forward slot T' T''"
  shows "forward slot T T''"
  unfolding forward_def
proof (intro allI impI)
  fix t i r
  assume "lookup_row T t i = Some r"
  then obtain r1 where 1: "lookup_row T' t i = Some r1" "sr_slot r \<le> sr_slot r1" "slot < sr_slot r \<longrightarrow> r1 = r"
    by (rule forwardD [OF assms(1)])
  obtain r2 where 2: "lookup_row T'' t i = Some r2" "sr_slot r1 \<le> sr_slot r2" "slot < sr_slot r1 \<longrightarrow> r2 = r1"
    by (rule forwardD [OF assms(2) 1(1)])
  show "\<exists>r'. lookup_row T'' t i = Some r' \<and> sr_slot r \<le> sr_slot r' \<and> (slot < sr_slot r \<longrightarrow> r' = r)"
    using 1 2 by (intro exI [of _ r2]) auto
qed

lemma apply_forward:
  assumes "apply_projection ok p T = Inr T'"
  shows "forward (pj_slot p) T T'"
  using assms
  by (auto simp: apply_projection_def forward_def lookup_put split: if_splits option.splits)

lemma write_rows_forward:
  assumes "write_rows ok tn ps s = (s', r)" "\<forall>p \<in> set ps. pj_slot p = slot"
  shows "forward slot (ix_tables s) (ix_tables s')" "ix_running s' = ix_running s" "ix_slot_cursor s' = ix_slot_cursor s"
    "ix_events s' = ix_events s" "ix_history_cursor s' = ix_history_cursor s"
proof -
  have "forward slot (ix_tables s) (ix_tables s') \<and> ix_running s' = ix_running s \<and> ix_slot_cursor s' = ix_slot_cursor s
     \<and> ix_events s' = ix_events s \<and> ix_history_cursor s' = ix_history_cursor s"
    using assms
  proof (induction ps arbitrary: s)
    case Nil
    then show ?case by (simp add: proc_simps forward_refl)
  next
    case (Cons p ps)
    show ?case
    proof (cases "tn_write tn p")
      case (Inl e)
      then show ?thesis using Cons.prems by (simp add: bindP_def liftP_def forward_refl)
    next
      case w: (Inr u)
      show ?thesis
      proof (cases "apply_projection ok p (ix_tables s)")
        case (Inl e)
        then show ?thesis using Cons.prems w by (simp add: bindP_def liftP_def getP_def forward_refl)
      next
        case (Inr T)
        then have rest: "write_rows ok tn ps (s\<lparr>ix_tables := T\<rparr>) = (s', r)"
          using Cons.prems w by (simp add: bindP_def liftP_def getP_def modifyP_def)
        have "forward slot (ix_tables s) T" using apply_forward [OF Inr] Cons.prems(2) by simp
        then show ?thesis using Cons.IH [OF rest] Cons.prems(2) forward_trans by fastforce
      qed
    qed
  qed
  then show "forward slot (ix_tables s) (ix_tables s')" "ix_running s' = ix_running s" "ix_slot_cursor s' = ix_slot_cursor s"
    "ix_events s' = ix_events s" "ix_history_cursor s' = ix_history_cursor s" by auto
qed

lemma project_shape: "project now a i slot = Inr (Some p) \<Longrightarrow> pj_slot p = slot \<and> pj_id p = i \<and> pj_table p \<in> set table_order"
  by (cases a) (auto simp: outcome_simps table_order_def)

lemma snapshot_rows_mem:
  assumes "snapshot_rows now slot items = Inr rows"
  shows "p \<in> set rows \<longleftrightarrow> (\<exists>i a. (i, Inr a) \<in> set items \<and> project now a i slot = Inr (Some p))"
proof -
  from assms obtain ps where ps: "list_all2 (\<lambda>(i, a) y. andThen a (\<lambda>acc. project now acc i slot) = Inr y) items ps"
    and rows: "rows = List.map_filter id ps"
    by (auto simp: snapshot_rows_def outcome_simps mapM_eq_Inr case_prod_unfold)
  have "p \<in> set rows \<longleftrightarrow> Some p \<in> set ps" by (auto simp: rows map_filter_def image_iff)
  also have "\<dots> \<longleftrightarrow> (\<exists>i a. (i, Inr a) \<in> set items \<and> project now a i slot = Inr (Some p))"
    using ps by (induction items ps rule: list_all2_induct) (auto simp: outcome_simps)
  finally show ?thesis .
qed

lemma snapshot_rows_slot:
  assumes "snapshot_rows now slot items = Inr rows"
  shows "\<forall>p \<in> set rows. pj_slot p = slot \<and> pj_table p \<in> set table_order"
  using snapshot_rows_mem [OF assms] project_shape by blast

definition no_older :: "tables \<Rightarrow> tables \<Rightarrow> bool" where
  "no_older T T' \<longleftrightarrow> (\<forall>t i r. lookup_row T t i = Some r \<longrightarrow> (\<exists>r'. lookup_row T' t i = Some r' \<and> sr_slot r \<le> sr_slot r'))"

lemma no_older_trans: "no_older T T' \<Longrightarrow> no_older T' T'' \<Longrightarrow> no_older T T''"
  unfolding no_older_def by (meson order_trans)

lemma forward_no_older: "forward slot T T' \<Longrightarrow> no_older T T'"
  unfolding forward_def no_older_def by blast

text \<open>What a turn leaves alone, however it ends.\<close>

definition turn_frame :: "indexer \<Rightarrow> indexer \<Rightarrow> bool" where
  "turn_frame s s' \<longleftrightarrow> no_older (ix_tables s) (ix_tables s') \<and> ix_running s' = ix_running s \<and> ix_events s' = ix_events s
     \<and> ix_history_cursor s' = ix_history_cursor s"

lemma turn_frame_refl [simp]: "turn_frame s s" "turn_frame s (s\<lparr>ix_dirty := b\<rparr>)"
  by (auto simp: turn_frame_def no_older_def)

lemma turn_frame_trans: "turn_frame s s' \<Longrightarrow> turn_frame s' s'' \<Longrightarrow> turn_frame s s''"
  unfolding turn_frame_def using no_older_trans by auto

lemma reconcile_turn_cases:
  assumes "reconcile_turn ok tn s = (s', r)"
  obtains (early) e where "s' = s\<lparr>ix_dirty := False\<rparr>" "r = Inl e"
  | (writes) slot items rows s1 r1 where "tn_rpc tn = Inr (slot, items)" "snapshot_rows (tn_now tn) slot items = Inr rows"
      "write_rows ok tn (js_sort table_cmp rows) (s\<lparr>ix_dirty := False\<rparr>) = (s1, r1)"
      "(\<exists>e. r = Inl e) \<and> s' = s1 \<or> r1 = Inr () \<and> r = Inr () \<and> s' = s1\<lparr>ix_slot_cursor := Some slot, ix_dirty := tn_notified tn\<rparr>"
proof (cases "tn_rpc tn")
  case (Inl e)
  then show ?thesis using assms by (intro early [of e]) (auto simp: reconcile_turn_def bindP_def modifyP_def liftP_def)
next
  case (Inr si)
  obtain slot items where si: "si = (slot, items)" by fastforce
  show ?thesis
  proof (cases "snapshot_rows (tn_now tn) slot items")
    case (Inl e)
    then show ?thesis using assms Inr si by (intro early [of e]) (auto simp: reconcile_turn_def bindP_def modifyP_def liftP_def)
  next
    case rows: (Inr rows)
    obtain s1 r1 where w: "write_rows ok tn (js_sort table_cmp rows) (s\<lparr>ix_dirty := False\<rparr>) = (s1, r1)" by fastforce
    have "(\<exists>e. r = Inl e) \<and> s' = s1 \<or> r1 = Inr () \<and> r = Inr () \<and> s' = s1\<lparr>ix_slot_cursor := Some slot, ix_dirty := tn_notified tn\<rparr>"
      using assms Inr si rows w by (cases r) (auto simp: reconcile_turn_def proc_simps)
    then show ?thesis using writes Inr si rows w by blast
  qed
qed

lemma reconcile_turn_frame:
  assumes "reconcile_turn ok tn s = (s', r)"
  shows "turn_frame s s'"
proof (cases rule: reconcile_turn_cases [OF assms])
  case (1 e)
  then show ?thesis by simp
next
  case (2 slot items rows s1 r1)
  have slots: "\<forall>p \<in> set (js_sort table_cmp rows). pj_slot p = slot" using snapshot_rows_slot [OF 2(2)] by simp
  note f = write_rows_forward [OF 2(3) slots]
  have "turn_frame (s\<lparr>ix_dirty := False\<rparr>) s1" using f forward_no_older [OF f(1)] by (simp add: turn_frame_def)
  then have "turn_frame s s1" using turn_frame_trans [of s "s\<lparr>ix_dirty := False\<rparr>" s1] by simp
  then show ?thesis using 2(4) by (auto simp: turn_frame_def)
qed

lemma reconcile_loop_frame: "reconcile_loop ok turns fuel n s = Some (s', r) \<Longrightarrow> turn_frame s s'"
proof (induction fuel arbitrary: n s)
  case (Suc fuel)
  obtain s1 r1 where t: "reconcile_turn ok (turns n) s = (s1, r1)" by fastforce
  note f = reconcile_turn_frame [OF t]
  show ?case
  proof (cases r1)
    case (Inl e)
    then show ?thesis using Suc.prems t f by auto
  next
    case (Inr u)
    then show ?thesis using Suc.prems t f Suc.IH [of "Suc n" s1] turn_frame_trans by (auto split: if_splits)
  qed
qed simp

text \<open>
  C9. Projected rows never move back: whatever a reconciliation does, errors and repeated turns
  included, every stored row is still there with a slot at least as new, the history watermark and
  the events are untouched, and the \<^verbatim>\<open>running\<close> flag is as before.
\<close>

theorem projection_never_regresses:
  assumes "reconcile ok turns fuel s = Some (s', r)" "lookup_row (ix_tables s) t i = Some row"
  shows "(\<exists>row'. lookup_row (ix_tables s') t i = Some row' \<and> sr_slot row \<le> sr_slot row')
     \<and> ix_events s' = ix_events s \<and> ix_history_cursor s' = ix_history_cursor s \<and> ix_running s' = ix_running s"
proof (cases "ix_running s")
  case True
  then show ?thesis using assms by (auto simp: reconcile_def)
next
  case False
  then obtain s1 where l: "reconcile_loop ok turns fuel 0 (s\<lparr>ix_running := True\<rparr>) = Some (s1, r)" "s' = s1\<lparr>ix_running := False\<rparr>"
    using assms(1) by (auto simp: reconcile_def split: option.splits)
  from reconcile_loop_frame [OF l(1)] show ?thesis
    using assms(2) l(2) False by (auto simp: turn_frame_def no_older_def)
qed

section \<open>The tables mirror the chain\<close>

definition fresh :: "int \<Rightarrow> tables \<Rightarrow> bool" where
  "fresh slot T \<longleftrightarrow> (\<forall>t i r. lookup_row T t i = Some r \<longrightarrow> sr_slot r \<le> slot)"

text \<open>The stored row carries every projected column; only the creation time of an older row is kept.\<close>

definition shows_row :: "tables \<Rightarrow> projection \<Rightarrow> bool" where
  "shows_row T p \<longleftrightarrow> (\<exists>r. lookup_row T (pj_table p) (pj_id p) = Some r \<and> sr_slot r = pj_slot p
     \<and> (\<forall>c v. (c, v) \<in> set (pj_cols p) \<and> c \<noteq> ''created_at'' \<longrightarrow> map_of (sr_cols r) c = Some v))"

lemma map_of_fold_update:
  assumes "distinct (map fst new)" "(c, v) \<in> set new"
  shows "map_of (fold (\<lambda>(k, v) cols. AList.update k v cols) new old) c = Some v"
  using assms
proof (induction new arbitrary: old)
  case (Cons kv new)
  obtain k w where kv: "kv = (k, w)" by fastforce
  have other: "map_of (fold (\<lambda>(k, v) cols. AList.update k v cols) xs cols) k = map_of cols k" if "k \<notin> fst ` set xs" for xs cols
    using that by (induction xs arbitrary: cols) (auto simp: update_conv')
  show ?case
  proof (cases "(c, v) = kv")
    case True
    then show ?thesis using Cons.prems kv other [of new] by (auto simp: update_conv')
  next
    case False
    then show ?thesis using Cons kv by auto
  qed
qed simp

lemma merge_cols_shows:
  "distinct (map fst new) \<Longrightarrow> (c, v) \<in> set new \<Longrightarrow> c \<noteq> ''created_at'' \<Longrightarrow> map_of (merge_cols new old) c = Some v"
  unfolding merge_cols_def by (rule map_of_fold_update) (auto simp: distinct_map_filter)

lemma project_distinct: "project now a i slot = Inr (Some p) \<Longrightarrow> distinct (map fst (pj_cols p))"
  by (cases a) (auto simp: outcome_simps job_columns_def split: option.splits)

lemma apply_shows:
  assumes "apply_projection ok p T = Inr T'" "distinct (map fst (pj_cols p))" "fresh (pj_slot p) T"
  shows "shows_row T' p" "fresh (pj_slot p) T'"
    "(t, i) \<noteq> (pj_table p, pj_id p) \<Longrightarrow> lookup_row T' t i = lookup_row T t i"
proof -
  show "shows_row T' p"
    using assms merge_cols_shows [OF assms(2)]
    by (force simp: apply_projection_def shows_row_def lookup_put fresh_def split: if_splits option.splits)
  show "fresh (pj_slot p) T'" "(t, i) \<noteq> (pj_table p, pj_id p) \<Longrightarrow> lookup_row T' t i = lookup_row T t i"
    using assms by (auto simp: apply_projection_def lookup_put fresh_def split: if_splits option.splits)
qed

lemma write_rows_shows:
  assumes "write_rows ok tn ps s = (s', Inr ())" "fresh slot (ix_tables s)" "\<forall>p \<in> set ps. pj_slot p = slot"
    "\<forall>p \<in> set ps. distinct (map fst (pj_cols p))" "distinct (map (\<lambda>p. (pj_table p, pj_id p)) ps)"
  shows "(\<forall>p \<in> set ps. shows_row (ix_tables s') p) \<and> fresh slot (ix_tables s')
     \<and> (\<forall>t i. (t, i) \<notin> (\<lambda>p. (pj_table p, pj_id p)) ` set ps \<longrightarrow> lookup_row (ix_tables s') t i = lookup_row (ix_tables s) t i)"
  using assms
proof (induction ps arbitrary: s)
  case Nil
  then show ?case by (simp add: proc_simps)
next
  case (Cons p ps)
  then obtain T where T: "apply_projection ok p (ix_tables s) = Inr T"
    and rest: "write_rows ok tn ps (s\<lparr>ix_tables := T\<rparr>) = (s', Inr ())"
    by (auto simp: proc_simps)
  have a: "shows_row T p" "fresh slot T" "\<And>t i. (t, i) \<noteq> (pj_table p, pj_id p) \<Longrightarrow> lookup_row T t i = lookup_row (ix_tables s) t i"
    using apply_shows [OF T] Cons.prems by auto
  have ih: "(\<forall>q \<in> set ps. shows_row (ix_tables s') q) \<and> fresh slot (ix_tables s')
     \<and> (\<forall>t i. (t, i) \<notin> (\<lambda>p. (pj_table p, pj_id p)) ` set ps \<longrightarrow> lookup_row (ix_tables s') t i = lookup_row T t i)"
    using Cons.IH [OF rest] a(2) Cons.prems by simp
  moreover have "lookup_row (ix_tables s') (pj_table p) (pj_id p) = lookup_row T (pj_table p) (pj_id p)"
    using ih Cons.prems(5) by simp
  then have "shows_row (ix_tables s') p" using a(1) by (simp add: shows_row_def)
  ultimately show ?case using a(3) by simp
qed

lemma snapshot_rows_ids:
  assumes "snapshot_rows now slot items = Inr rows" "distinct (map fst items)"
  shows "distinct (map pj_id rows)"
proof -
  from assms(1) obtain ps where ps: "list_all2 (\<lambda>(i, a) y. andThen a (\<lambda>acc. project now acc i slot) = Inr y) items ps"
    and rows: "rows = List.map_filter id ps"
    by (auto simp: snapshot_rows_def outcome_simps mapM_eq_Inr case_prod_unfold)
  have "distinct (map pj_id (List.map_filter id ps)) \<and> pj_id ` set (List.map_filter id ps) \<subseteq> fst ` set items"
    using ps assms(2)
  proof (induction items ps rule: list_all2_induct)
    case (Cons x xs y ys)
    show ?case
    proof (cases y)
      case None
      then show ?thesis using Cons by (auto simp: List.map_filter_simps)
    next
      case (Some p)
      then have "pj_id p = fst x" using Cons(1) by (auto simp: outcome_simps case_prod_unfold dest: project_shape)
      then show ?thesis using Cons Some by (auto simp: List.map_filter_simps)
    qed
  qed (simp add: List.map_filter_simps)
  then show ?thesis by (simp add: rows)
qed

text \<open>The tables show every account of a snapshot.\<close>

definition mirrors :: "tables \<Rightarrow> string \<Rightarrow> int \<Rightarrow> (string \<times> chain_account outcome) list \<Rightarrow> bool" where
  "mirrors T now slot items \<longleftrightarrow> (\<forall>i a. (i, a) \<in> set items \<longrightarrow>
     (\<exists>acc. a = Inr acc \<and> (\<forall>p. project now acc i slot = Inr (Some p) \<longrightarrow> shows_row T p)))"

lemma mapM_items_Inr: "mapM f xs = Inr ys \<Longrightarrow> x \<in> set xs \<Longrightarrow> \<exists>y. f x = Inr y"
  by (auto simp: mapM_eq_Inr list_all2_conv_all_nth in_set_conv_nth)

lemma reconcile_turn_mirrors:
  assumes "reconcile_turn ok tn s = (s', Inr ())" "tn_rpc tn = Inr (slot, items)" "distinct (map fst items)"
    "fresh slot (ix_tables s)"
  shows "mirrors (ix_tables s') (tn_now tn) slot items \<and> fresh slot (ix_tables s') \<and> ix_slot_cursor s' = Some slot
     \<and> ix_dirty s' = tn_notified tn"
proof (cases rule: reconcile_turn_cases [OF assms(1)])
  case (2 slot' items' rows s1 r1)
  then have eq: "slot' = slot" "items' = items" using assms(2) by simp_all
  let ?ps = "js_sort table_cmp rows"
  have ids: "distinct (map pj_id ?ps)"
    using snapshot_rows_ids [OF 2(2)] assms(3) eq by (metis distinct_map distinct_js_sort set_js_sort)
  then have keys: "distinct (map (\<lambda>p. (pj_table p, pj_id p)) ?ps)"
    by (auto simp: distinct_map inj_on_def)
  have cols: "\<forall>p \<in> set ?ps. distinct (map fst (pj_cols p))"
    using snapshot_rows_mem [OF 2(2)] project_distinct by fastforce
  have w: "write_rows ok tn ?ps (s\<lparr>ix_dirty := False\<rparr>) = (s1, Inr ())"
    and s': "s' = s1\<lparr>ix_slot_cursor := Some slot, ix_dirty := tn_notified tn\<rparr>" using 2(3,4) eq by auto
  have slots: "\<forall>p \<in> set ?ps. pj_slot p = slot" using snapshot_rows_slot [OF 2(2)] eq by simp
  have all: "(\<forall>p \<in> set ?ps. shows_row (ix_tables s1) p) \<and> fresh slot (ix_tables s1)"
    using write_rows_shows [OF w _ slots cols keys] assms(4) by simp
  have "mirrors (ix_tables s1) (tn_now tn) slot items"
    unfolding mirrors_def
  proof (intro allI impI)
    fix i a
    assume mem: "(i, a) \<in> set items"
    obtain ps where "mapM (\<lambda>(i, a). andThen a (\<lambda>acc. project (tn_now tn) acc i slot)) items = Inr ps"
      using 2(2) eq by (auto simp: snapshot_rows_def outcome_simps)
    from mapM_items_Inr [OF this mem] obtain acc where acc: "a = Inr acc" by (auto simp: outcome_simps)
    have "shows_row (ix_tables s1) p" if "project (tn_now tn) acc i slot = Inr (Some p)" for p
      using all snapshot_rows_mem [OF 2(2), of p] that mem acc eq by auto
    then show "\<exists>acc. a = Inr acc \<and> (\<forall>p. project (tn_now tn) acc i slot = Inr (Some p) \<longrightarrow> shows_row (ix_tables s1) p)"
      using acc by blast
  qed
  then show ?thesis using all s' by simp
qed simp

lemma reconcile_loop_mirrors:
  assumes "reconcile_loop ok turns fuel n s = Some (s', Inr ())"
    and "\<And>m. \<exists>slot items. tn_rpc (turns m) = Inr (slot, items) \<and> distinct (map fst items)"
    and "\<And>m. fst (projr (tn_rpc (turns m))) \<le> fst (projr (tn_rpc (turns (Suc m))))"
    and "fresh (fst (projr (tn_rpc (turns n)))) (ix_tables s)"
  shows "\<exists>m slot items. tn_rpc (turns m) = Inr (slot, items) \<and> \<not> tn_notified (turns m)
     \<and> mirrors (ix_tables s') (tn_now (turns m)) slot items \<and> ix_slot_cursor s' = Some slot"
  using assms(1,4)
proof (induction fuel arbitrary: n s)
  case (Suc fuel)
  obtain s1 r1 where t: "reconcile_turn ok (turns n) s = (s1, r1)" by fastforce
  obtain slot items where rpc: "tn_rpc (turns n) = Inr (slot, items)" "distinct (map fst items)" using assms(2) by blast
  from Suc.prems(1) t have ok: "r1 = Inr ()" by (cases r1) auto
  have m: "mirrors (ix_tables s1) (tn_now (turns n)) slot items" "fresh slot (ix_tables s1)" "ix_slot_cursor s1 = Some slot"
    "ix_dirty s1 = tn_notified (turns n)"
    using reconcile_turn_mirrors [OF t [unfolded ok] rpc] Suc.prems(2) rpc by auto
  show ?case
  proof (cases "tn_notified (turns n)")
    case False
    then show ?thesis using Suc.prems(1) t ok m rpc by auto
  next
    case True
    have "fresh (fst (projr (tn_rpc (turns (Suc n))))) (ix_tables s1)"
      using m(2) assms(3) [of n] rpc by (auto simp: fresh_def intro: order_trans)
    then show ?thesis using Suc.IH [of "Suc n" s1] Suc.prems(1) t ok m True by simp
  qed
qed simp


section \<open>The order of the writes\<close>

interpretation table_rank: js_comparator table_cmp
  by unfold_locales (auto simp: table_cmp_def)

lemma fk_rank:
  assumes "(c, t) \<in> set (foreign_keys u)"
  shows "indexOf t table_order < indexOf u table_order"
  using assms by (auto simp: foreign_keys_def table_order_def split: if_splits)

text \<open>Every reference of a row is stored already or belongs to the snapshot.\<close>

definition resolves :: "tables \<Rightarrow> projection list \<Rightarrow> projection \<Rightarrow> bool" where
  "resolves T ps p \<longleftrightarrow> (\<forall>c t r. (c, t) \<in> set (foreign_keys (pj_table p)) \<and> map_of (pj_cols p) c = Some (JStr r) \<longrightarrow>
     lookup_row T t r \<noteq> None \<or> (\<exists>q \<in> set ps. pj_table q = t \<and> pj_id q = r))"

lemma apply_keeps:
  assumes "apply_projection ok p T = Inr T'"
  shows "lookup_row T t i \<noteq> None \<Longrightarrow> lookup_row T' t i \<noteq> None" "lookup_row T' (pj_table p) (pj_id p) \<noteq> None"
  using assms by (auto simp: apply_projection_def lookup_put split: if_splits option.splits)

lemma apply_total:
  assumes "pj_table p \<in> set table_order" "check_ok p" "ok p" "fk_ok T p"
  shows "\<exists>T'. apply_projection ok p T = Inr T'"
  using assms by (auto simp: apply_projection_def split: option.splits)

lemma resolves_head:
  assumes "sorted_wrt (\<lambda>x y. table_cmp x y \<le> 0) (p # ps)" "resolves T (p # ps) p"
  shows "fk_ok T p"
proof -
  have "lookup_row T t r \<noteq> None" if fk: "(c, t) \<in> set (foreign_keys (pj_table p))" "map_of (pj_cols p) c = Some (JStr r)" for c t r
  proof (rule ccontr)
    assume "\<not> lookup_row T t r \<noteq> None"
    with assms(2) fk obtain q where "q \<in> set (p # ps)" "pj_table q = t" unfolding resolves_def by blast
    with assms(1) have "table_cmp p q \<le> 0" using table_rank.cmp_refl [of p] by auto
    then show False using fk_rank [OF fk(1)] \<open>pj_table q = t\<close> by (simp add: table_cmp_def)
  qed
  then show ?thesis unfolding fk_ok_def by (auto split: option.splits json.splits)
qed

lemma write_rows_total:
  assumes "sorted_wrt (\<lambda>x y. table_cmp x y \<le> 0) ps" "\<forall>p \<in> set ps. pj_table p \<in> set table_order \<and> check_ok p \<and> ok p"
    "\<forall>p \<in> set ps. resolves (ix_tables s) ps p" "\<forall>p. tn_write tn p = Inr ()"
  shows "\<exists>s'. write_rows ok tn ps s = (s', Inr ())"
  using assms
proof (induction ps arbitrary: s)
  case Nil
  then show ?case by (simp add: retP_def)
next
  case (Cons p ps)
  have "fk_ok (ix_tables s) p" by (rule resolves_head [OF Cons.prems(1)]) (use Cons.prems(3) in simp)
  then obtain T where T: "apply_projection ok p (ix_tables s) = Inr T"
    using apply_total [of p ok "ix_tables s"] Cons.prems(2) by auto
  have "resolves T ps q" if q: "q \<in> set ps" for q
    unfolding resolves_def
  proof (intro allI impI)
    fix c t r
    assume "(c, t) \<in> set (foreign_keys (pj_table q)) \<and> map_of (pj_cols q) c = Some (JStr r)"
    then have "lookup_row (ix_tables s) t r \<noteq> None \<or> (\<exists>q' \<in> set (p # ps). pj_table q' = t \<and> pj_id q' = r)"
      using Cons.prems(3) q unfolding resolves_def by (meson list.set_intros(2))
    then show "lookup_row T t r \<noteq> None \<or> (\<exists>q' \<in> set ps. pj_table q' = t \<and> pj_id q' = r)"
      using apply_keeps [OF T] by auto
  qed
  then have "\<exists>s'. write_rows ok tn ps (s\<lparr>ix_tables := T\<rparr>) = (s', Inr ())"
    using Cons.IH [of "s\<lparr>ix_tables := T\<rparr>"] Cons.prems by simp
  then show ?case using T Cons.prems(4) by (simp add: bindP_def liftP_def getP_def modifyP_def)
qed

text \<open>
  Writing the snapshot in table order never breaks a reference: when every row passes its
  checks and every referenced account is in the snapshot or stored already, a turn in which the
  database is reachable succeeds, in whatever order the node lists the accounts.
\<close>

theorem reconcile_order_safe:
  assumes "tn_rpc tn = Inr (slot, items)" "snapshot_rows (tn_now tn) slot items = Inr rows"
    "\<forall>p \<in> set rows. check_ok p \<and> ok p \<and> resolves (ix_tables s) rows p"
    "\<forall>p. tn_write tn p = Inr ()" "tn_cursor tn = Inr ()"
  shows "\<exists>s'. reconcile_turn ok tn s = (s', Inr ()) \<and> ix_slot_cursor s' = Some slot"
proof -
  have "\<forall>p \<in> set (js_sort table_cmp rows). resolves (ix_tables (s\<lparr>ix_dirty := False\<rparr>)) (js_sort table_cmp rows) p"
    using assms(3) by (simp add: resolves_def)
  then obtain s1 where "write_rows ok tn (js_sort table_cmp rows) (s\<lparr>ix_dirty := False\<rparr>) = (s1, Inr ())"
    using write_rows_total [OF table_rank.sorted_js_sort, of rows ok "s\<lparr>ix_dirty := False\<rparr>" tn] assms(3,4)
      snapshot_rows_slot [OF assms(2)] by auto
  then show ?thesis using assms by (simp add: reconcile_turn_def bindP_def modifyP_def liftP_def)
qed

lemma write_rows_stops:
  assumes "write_rows ok tn ps s = (s', r)" "sorted_wrt (\<lambda>x y. table_cmp x y \<le> 0) ps" "bad \<in> set ps" "\<not> check_ok bad"
    "indexOf (pj_table bad) table_order < indexOf t table_order"
  shows "(\<exists>e. r = Inl e) \<and> ix_tables s' t = ix_tables s t"
  using assms(1-3)
proof (induction ps arbitrary: s)
  case (Cons p ps)
  have "table_cmp p bad \<le> 0" using Cons.prems(2,3) table_rank.cmp_refl [of p] by auto
  then have t: "pj_table p \<noteq> t" using assms(5) by (auto simp: table_cmp_def)
  show ?case
  proof (cases "tn_write tn p")
    case (Inl e)
    then show ?thesis using Cons.prems(1) by (cases r) (auto simp: proc_simps)
  next
    case w: (Inr u)
    show ?thesis
    proof (cases "apply_projection ok p (ix_tables s)")
      case (Inl e)
      then show ?thesis using Cons.prems(1) w by (cases r) (auto simp: proc_simps)
    next
      case (Inr T)
      then have rest: "write_rows ok tn ps (s\<lparr>ix_tables := T\<rparr>) = (s', r)"
        using Cons.prems(1) w by (simp add: bindP_def liftP_def getP_def modifyP_def)
      have "check_ok p" "T t = ix_tables s t"
        using Inr t by (auto simp: apply_projection_def put_row_def split: if_splits option.splits)
      moreover have "bad \<in> set ps" using Cons.prems(3) assms(4) \<open>check_ok p\<close> by auto
      ultimately show ?thesis using Cons.IH [OF rest] Cons.prems(2) by simp
    qed
  qed
qed simp

text \<open>
  One agent policy stops the indexer. The program accepts a required verification from 0 to 5,
  the table only 0 and 1: while the chain holds a policy with a larger value, every turn fails,
  the cursor stays, and no worker, machine, offer, job or bid row changes any more.
\<close>

theorem strict_policy_stalls_indexer:
  assumes "reconcile_turn ok tn s = (s', r)" "tn_rpc tn = Inr (slot, items)" "(i, Inr (AgentPolicy a)) \<in> set items"
    "1 < ap_requiredVerification a" "ap_requiredVerification a \<le> 5" "t \<in> {''workers'', ''machines'', ''offers'', ''jobs'', ''bids''}"
  shows "(\<exists>e. r = Inl e) \<and> ix_tables s' t = ix_tables s t \<and> ix_slot_cursor s' = ix_slot_cursor s"
proof (cases rule: reconcile_turn_cases [OF assms(1)])
  case (1 e)
  then show ?thesis by simp
next
  case (2 slot' items' rows s1 r1)
  obtain bad where bad: "project (tn_now tn) (AgentPolicy a) i slot' = Inr (Some bad)" "pj_table bad = ''agent_policies''"
    "\<not> check_ok bad" using assms(4,5) by (simp add: check_ok_def json_in_def)
  have "(i, Inr (AgentPolicy a)) \<in> set items'" using 2(1) assms(2,3) by simp
  then have "bad \<in> set (js_sort table_cmp rows)"
    unfolding set_js_sort using snapshot_rows_mem [OF 2(2), of bad] bad(1) by blast
  moreover have "indexOf (pj_table bad) table_order < indexOf t table_order"
    using assms(6) bad(2) by (auto simp: table_order_def)
  ultimately have stop: "(\<exists>e. r1 = Inl e) \<and> ix_tables s1 t = ix_tables s t"
    using write_rows_stops [OF 2(3) table_rank.sorted_js_sort] bad(3) by auto
  have slots: "\<forall>p \<in> set (js_sort table_cmp rows). pj_slot p = slot'" using snapshot_rows_slot [OF 2(2)] by simp
  show ?thesis using stop 2(4) write_rows_forward(3) [OF 2(3) slots] by auto
qed

section \<open>A snapshot\<close>

definition sample_provider_account :: provider_account where
  "sample_provider_account = \<lparr>pr_authority = ''auth'', pr_metadataHash = [], pr_active = True, pr_completed = 2, pr_failed = 0\<rparr>"

definition sample_listed_machine :: machine_account where
  "sample_listed_machine = \<lparr>mc_provider = ''P'', mc_worker = ''W'', mc_id = [], mc_hardwareHash = [], mc_gpuCount = 0,
     mc_vramMb = 0, mc_active = True, mc_busy = False, mc_activeJob = zero_key, mc_completed = 0, mc_failed = 0\<rparr>"

definition sample_strict_policy :: policy_account where
  "sample_strict_policy = \<lparr>ap_owner = ''O'', ap_agent = ''A'', ap_mint = ''M'', ap_dailySpendLimit = 10, ap_singleJobLimit = 5,
     ap_maxRuntimeSeconds = 60, ap_requiredVerification = 3, ap_allowedSpecsRoot = [], ap_expiresAt = 9, ap_dayIndex = 0,
     ap_dailySpent = 0, ap_active = True\<rparr>"

text \<open>The node lists the machine before the provider it belongs to.\<close>

definition sample_turn :: turn where
  "sample_turn = \<lparr>tn_rpc = Inr (5, [(''M'', Inr (Machine sample_listed_machine)), (''P'', Inr (Provider sample_provider_account))]),
     tn_now = ''now'', tn_write = (\<lambda>_. Inr ()), tn_cursor = Inr (), tn_notified = False\<rparr>"

definition sample_indexer :: indexer where
  "sample_indexer = \<lparr>ix_running = False, ix_dirty = False,
     ix_tables = (\<lambda>t. if t = ''providers'' then [(''P'', \<lparr>sr_slot = 3, sr_cols = []\<rparr>)] else []),
     ix_slot_cursor = None, ix_events = [], ix_history_cursor = None, ix_prices = []\<rparr>"

definition accept_all :: "projection \<Rightarrow> bool" where
  "accept_all p = True"

lemma sample_rows:
  "\<exists>m p. snapshot_rows ''now'' 5 [(''M'', Inr (Machine sample_listed_machine)), (''P'', Inr (Provider sample_provider_account))]
       = Inr [m, p] \<and> pj_table m = ''machines'' \<and> pj_table p = ''providers'' \<and> pj_id p = ''P''
     \<and> map_of (pj_cols m) ''provider_id'' = Some (JStr ''P'') \<and> check_ok m \<and> check_ok p"
  by (simp add: snapshot_rows_def mapM.simps List.map_filter_simps sample_listed_machine_def check_ok_def)

lemma sample_resolved:
  "\<exists>rows. snapshot_rows (tn_now sample_turn) 5 [(''M'', Inr (Machine sample_listed_machine)), (''P'', Inr (Provider sample_provider_account))] = Inr rows
     \<and> (\<forall>p \<in> set rows. check_ok p \<and> accept_all p \<and> resolves (ix_tables s) rows p)"
proof -
  from sample_rows obtain m p where r: "snapshot_rows ''now'' 5 [(''M'', Inr (Machine sample_listed_machine)),
      (''P'', Inr (Provider sample_provider_account))] = Inr [m, p]" "pj_table m = ''machines''" "pj_table p = ''providers''"
    "pj_id p = ''P''" "map_of (pj_cols m) ''provider_id'' = Some (JStr ''P'')" "check_ok m" "check_ok p" by blast
  then show ?thesis by (auto simp: sample_turn_def accept_all_def resolves_def foreign_keys_def)
qed

theorem reconcile_order_safe_witness:
  "\<exists>s'. reconcile_turn accept_all sample_turn sample_indexer = (s', Inr ()) \<and> ix_slot_cursor s' = Some 5"
proof -
  from sample_resolved [of sample_indexer] obtain rows where rows: "snapshot_rows (tn_now sample_turn) 5 [(''M'', Inr (Machine sample_listed_machine)),
      (''P'', Inr (Provider sample_provider_account))] = Inr rows"
    "\<forall>p \<in> set rows. check_ok p \<and> accept_all p \<and> resolves (ix_tables sample_indexer) rows p" by blast
  show ?thesis
    by (rule reconcile_order_safe [OF _ rows(1) rows(2)]) (simp_all add: sample_turn_def)
qed

lemma sample_reconciled:
  obtains s' where "reconcile accept_all (\<lambda>_. sample_turn) 1 sample_indexer = Some (s', Inr ())"
proof -
  have "\<exists>s'. reconcile_turn accept_all sample_turn (sample_indexer\<lparr>ix_running := True\<rparr>) = (s', Inr ()) \<and> \<not> ix_dirty s'"
  proof -
    let ?s = "sample_indexer\<lparr>ix_running := True, ix_dirty := False\<rparr>"
    from sample_resolved [of ?s] obtain rows where rows: "snapshot_rows (tn_now sample_turn) 5 [(''M'', Inr (Machine sample_listed_machine)),
        (''P'', Inr (Provider sample_provider_account))] = Inr rows"
      "\<forall>p \<in> set rows. check_ok p \<and> accept_all p \<and> resolves (ix_tables ?s) rows p" by blast
    have "\<exists>s1. write_rows accept_all sample_turn (js_sort table_cmp rows) ?s = (s1, Inr ())"
      by (rule write_rows_total [OF table_rank.sorted_js_sort])
        (use rows snapshot_rows_slot [OF rows(1)] in \<open>auto simp: sample_turn_def resolves_def\<close>)
    then show ?thesis
      using rows(1) by (auto simp: reconcile_turn_def bindP_def modifyP_def liftP_def sample_turn_def)
  qed
  then obtain s' where t: "reconcile_turn accept_all sample_turn (sample_indexer\<lparr>ix_running := True\<rparr>) = (s', Inr ())" "\<not> ix_dirty s'"
    by blast
  have "\<not> ix_running sample_indexer" by (simp add: sample_indexer_def)
  with t show thesis by (intro that [of "s'\<lparr>ix_running := False\<rparr>"]) (simp add: reconcile_def)
qed

theorem projection_never_regresses_witness:
  "\<exists>s' row'. reconcile accept_all (\<lambda>_. sample_turn) 1 sample_indexer = Some (s', Inr ())
     \<and> lookup_row (ix_tables s') ''providers'' ''P'' = Some row' \<and> 3 \<le> sr_slot row'"
proof -
  obtain s' where r: "reconcile accept_all (\<lambda>_. sample_turn) 1 sample_indexer = Some (s', Inr ())" by (rule sample_reconciled)
  have row: "lookup_row (ix_tables sample_indexer) ''providers'' ''P'' = Some \<lparr>sr_slot = 3, sr_cols = []\<rparr>"
    by (simp add: lookup_row_def sample_indexer_def)
  from projection_never_regresses [OF r row] r show ?thesis by auto
qed


theorem strict_policy_stalls_indexer_witness:
  "\<exists>s' e. reconcile_turn accept_all (sample_turn\<lparr>tn_rpc := Inr (5, [(''A'', Inr (AgentPolicy sample_strict_policy))])\<rparr>) sample_indexer
     = (s', Inl e) \<and> ix_slot_cursor s' = None"
proof -
  let ?tn = "sample_turn\<lparr>tn_rpc := Inr (5, [(''A'', Inr (AgentPolicy sample_strict_policy))])\<rparr>"
  obtain s' r where t: "reconcile_turn accept_all ?tn sample_indexer = (s', r)" by fastforce
  have "(\<exists>e. r = Inl e) \<and> ix_tables s' ''jobs'' = ix_tables sample_indexer ''jobs'' \<and> ix_slot_cursor s' = ix_slot_cursor sample_indexer"
    by (rule strict_policy_stalls_indexer [OF t, of 5 "[(''A'', Inr (AgentPolicy sample_strict_policy))]" "''A''" sample_strict_policy])
      (simp_all add: sample_strict_policy_def)
  then show ?thesis using t by (auto simp: sample_indexer_def)
qed

end
