(* ===== verification/History.thy ===== *)
theory History
  imports Indexer
begin

text \<open>
  The indexer's walk over the transaction history (\<^verbatim>\<open>backfill\<close>): it ends, the watermark is sound, and
  what it does when a reconciliation is already running. Also the price history it records.
\<close>

section \<open>The history watermark\<close>

text \<open>
  The documented behaviour of \<^verbatim>\<open>getSignaturesForAddress\<close>: signatures newest first, at most a
  thousand, those before a given one; a request may fail.
\<close>

definition after_sig :: "string option \<Rightarrow> tx_info list \<Rightarrow> tx_info list" where
  "after_sig before hist = (case before of None \<Rightarrow> hist | Some b \<Rightarrow> tl (dropWhile (\<lambda>t. tx_signature t \<noteq> b) hist))"

definition serves :: "indexer_env \<Rightarrow> tx_info list \<Rightarrow> bool" where
  "serves env hist \<longleftrightarrow> distinct (map tx_signature hist) \<and>
     (\<forall>before. (\<exists>e. ie_page env before = Inl e) \<or> ie_page env before = Inr (take 1000 (after_sig before hist)))"

definition recorded :: "indexer \<Rightarrow> tx_info \<Rightarrow> bool" where
  "recorded s t \<longleftrightarrow> map_of (ix_events s) (tx_signature t) \<noteq> None"

text \<open>Everything from the watermark back is recorded.\<close>

definition watermark_ok :: "tx_info list \<Rightarrow> indexer \<Rightarrow> bool" where
  "watermark_ok hist s \<longleftrightarrow> (case ix_history_cursor s of None \<Rightarrow> True
     | Some c \<Rightarrow> \<forall>t \<in> set (dropWhile (\<lambda>t. tx_signature t \<noteq> c) hist). recorded s t)"

lemma dropWhile_at:
  "distinct (map tx_signature (pre @ l # post)) \<Longrightarrow> dropWhile (\<lambda>t. tx_signature t \<noteq> tx_signature l) (pre @ l # post) = l # post"
  by (induction pre) auto

lemma after_last:
  assumes "distinct (map tx_signature hist)" "suffix rem hist" "1000 \<le> length rem"
  shows "after_sig (Some (tx_signature (last (take 1000 rem)))) hist = drop 1000 rem"
proof -
  obtain pre where h: "hist = pre @ rem" using assms(2) by (auto simp: suffix_def)
  let ?b = "take 1000 rem"
  have ne: "?b \<noteq> []" using assms(3) by auto
  have rem: "rem = butlast ?b @ last ?b # drop 1000 rem"
    by (metis append.assoc append_Cons append_Nil append_butlast_last_id append_take_drop_id ne)
  have hist: "hist = (pre @ butlast ?b) @ last ?b # drop 1000 rem" unfolding h by (subst rem) simp
  show ?thesis
    unfolding after_sig_def option.case
    by (subst hist, subst dropWhile_at) (use assms(1) hist in simp_all)
qed

lemma insert_event_dom: "dom (map_of (insert_event e es)) = insert (fst e) (dom (map_of es))"
  by (cases e) (auto simp: insert_event_def map_add_def split: option.splits)

lemma fold_insert_event_dom: "dom (map_of (fold insert_event xs es)) = fst ` set xs \<union> dom (map_of es)"
  by (induction xs arbitrary: es) (auto simp: insert_event_dom)

definition known :: "indexer \<Rightarrow> string set" where
  "known s = dom (map_of (ix_events s))"

lemma recorded_known: "recorded s t \<longleftrightarrow> tx_signature t \<in> known s"
  by (simp add: recorded_def known_def domIff)

lemma store_missing_recorded:
  assumes "store_missing env missing s = (s', r)"
  shows "recorded s t \<Longrightarrow> recorded s' t" "r = Inr () \<Longrightarrow> t \<in> set missing \<Longrightarrow> recorded s' t"
    "ix_history_cursor s' = ix_history_cursor s" "ix_tables s' = ix_tables s" "ix_running s' = ix_running s"
proof -
  have "(recorded s t \<longrightarrow> recorded s' t) \<and> (r = Inr () \<longrightarrow> t \<in> set missing \<longrightarrow> recorded s' t)
     \<and> ix_history_cursor s' = ix_history_cursor s \<and> ix_tables s' = ix_tables s \<and> ix_running s' = ix_running s"
  proof (cases "missing = [] \<or> (\<exists>e. ie_upsert env ''chain_events'' = Inl e)")
    case True
    then show ?thesis using assms by (cases r) (auto simp: store_missing_def proc_simps split: if_splits)
  next
    case False
    then have up: "ie_upsert env ''chain_events'' = Inr ()" by (cases "ie_upsert env ''chain_events''") auto
    have "s' = s\<lparr>ix_events := fold insert_event (map (\<lambda>t. (tx_signature t,
        event_of (decodeTransaction (ie_tx env) (tx_signature t)) t)) missing) (ix_events s)\<rparr>"
      using assms False up by (simp add: store_missing_def bindP_def liftP_def modifyP_def)
    then show ?thesis unfolding recorded_known known_def by (force simp: fold_insert_event_dom image_iff)
  qed
  then show "recorded s t \<Longrightarrow> recorded s' t" "r = Inr () \<Longrightarrow> t \<in> set missing \<Longrightarrow> recorded s' t"
    "ix_history_cursor s' = ix_history_cursor s" "ix_tables s' = ix_tables s" "ix_running s' = ix_running s" by blast+
qed

lemma takeWhile_step:
  assumes "\<not> list_ex (\<lambda>t. Some (tx_signature t) = c) b"
  shows "takeWhile (\<lambda>t. Some (tx_signature t) \<noteq> c) (b @ rest) = b @ takeWhile (\<lambda>t. Some (tx_signature t) \<noteq> c) rest"
  using assms by (simp add: takeWhile_append2 list_ex_iff)

lemma takeWhile_stop:
  assumes "list_ex (\<lambda>t. Some (tx_signature t) = c) b"
  shows "takeWhile (\<lambda>t. Some (tx_signature t) \<noteq> c) (b @ rest) = takeWhile (\<lambda>t. Some (tx_signature t) \<noteq> c) b"
proof -
  from assms obtain x where "x \<in> set b" "\<not> Some (tx_signature x) \<noteq> c" by (auto simp: list_ex_iff)
  then show ?thesis by (rule takeWhile_append1)
qed

lemma pages_step:
  assumes "ie_page env before = Inr batch" "batch \<noteq> []"
  shows "pages env cursor (Suc fuel) before newest s =
     (case store_missing env (takeWhile (\<lambda>t. Some (tx_signature t) \<noteq> cursor) batch) s of
        (s', Inl e) \<Rightarrow> Some (s', Inl e)
      | (s', Inr _) \<Rightarrow>
          if length batch < 1000 \<or> list_ex (\<lambda>t. Some (tx_signature t) = cursor) batch
          then Some (s', Inr (case newest of None \<Rightarrow> Some (tx_signature (hd batch)) | Some n \<Rightarrow> Some n))
          else pages env cursor fuel (Some (tx_signature (last batch)))
            (case newest of None \<Rightarrow> Some (tx_signature (hd batch)) | Some n \<Rightarrow> Some n) s')"
  using assms by (simp add: Let_def until_cursor_def)

lemma pages_recorded:
  assumes "serves env hist" "pages env cursor fuel before newest s = Some (s', r)" "suffix (after_sig before hist) hist"
  shows "(\<forall>t. recorded s t \<longrightarrow> recorded s' t) \<and> ix_history_cursor s' = ix_history_cursor s \<and> ix_tables s' = ix_tables s
     \<and> ix_running s' = ix_running s
     \<and> (\<forall>n. r = Inr n \<longrightarrow> (\<forall>t \<in> set (takeWhile (\<lambda>t. Some (tx_signature t) \<noteq> cursor) (after_sig before hist)). recorded s' t)
          \<and> n = (case newest of Some x \<Rightarrow> Some x | None \<Rightarrow> map_option tx_signature (List.find (\<lambda>_. True) (after_sig before hist))))"
  using assms(2,3)
proof (induction fuel arbitrary: before newest s)
  case (Suc fuel)
  let ?rem = "after_sig before hist"
  show ?case
  proof (cases "ie_page env before")
    case (Inl e)
    then show ?thesis using Suc.prems by auto
  next
    case (Inr batch)
    then have batch: "batch = take 1000 ?rem"
      using assms(1) [unfolded serves_def, THEN conjunct2, rule_format, of before] by auto
    show ?thesis
    proof (cases ?rem)
      case Nil
      then show ?thesis using Suc.prems Inr batch by (auto split: option.splits)
    next
      case (Cons t ts)
      then have b: "batch \<noteq> []" "hd batch = t" by (simp_all add: batch)
      note step = pages_step [OF Inr b(1), of cursor fuel newest s, unfolded b(2)]
      define newest' where "newest' = (case newest of None \<Rightarrow> Some (tx_signature t) | Some n \<Rightarrow> Some n)"
      let ?miss = "takeWhile (\<lambda>t. Some (tx_signature t) \<noteq> cursor) batch"
      obtain s1 r1 where st: "store_missing env ?miss s = (s1, r1)" by fastforce
      note keep = store_missing_recorded [OF st]
      have nw: "newest' = (case newest of Some x \<Rightarrow> Some x | None \<Rightarrow> map_option tx_signature (List.find (\<lambda>_. True) ?rem))"
        by (simp add: newest'_def Cons split: option.splits)
      show ?thesis
      proof (cases r1)
        case (Inl e)
        then have "s' = s1" "r = Inl e" using Suc.prems(1) st unfolding step by auto
        then show ?thesis using keep by auto
      next
        case ok: (Inr u)
        let ?stop = "length batch < 1000 \<or> list_ex (\<lambda>t. Some (tx_signature t) = cursor) batch"
        have run: "(if ?stop then Some (s1, Inr newest') else pages env cursor fuel (Some (tx_signature (last batch))) newest' s1) = Some (s', r)"
          using Suc.prems(1) st ok unfolding step newest'_def by simp
        have miss: "\<And>t. t \<in> set ?miss \<Longrightarrow> recorded s1 t" using keep(2) ok by simp
        have split: "?rem = batch @ drop 1000 ?rem" by (simp add: batch)
        show ?thesis
        proof (cases ?stop)
          case True
          then have fin: "s' = s1" "r = Inr newest'" using run by auto
          have "takeWhile (\<lambda>t. Some (tx_signature t) \<noteq> cursor) ?rem = ?miss"
          proof (cases "list_ex (\<lambda>t. Some (tx_signature t) = cursor) batch")
            case True
            then show ?thesis by (subst split) (rule takeWhile_stop)
          next
            case False
            then have "length ?rem < 1000" using \<open>?stop\<close> by (auto simp: batch)
            then show ?thesis by (simp add: batch)
          qed
          then show ?thesis using keep(1,3-5) miss fin nw by auto
        next
          case False
          let ?before = "Some (tx_signature (last batch))"
          have long: "1000 \<le> length ?rem" using False by (auto simp: batch min_def split: if_splits)
          have next_rem: "after_sig ?before hist = drop 1000 ?rem"
            unfolding batch by (rule after_last) (use assms(1) Suc.prems(2) long in \<open>auto simp: serves_def\<close>)
          have "suffix (after_sig ?before hist) hist"
            unfolding next_rem using Suc.prems(2) suffix_drop suffix_order.trans by blast
          note ih = Suc.IH [of ?before newest' s1, OF _ this]
          have rec: "pages env cursor fuel ?before newest' s1 = Some (s', r)" using run False by (simp del: pages.simps)
          have tw: "takeWhile (\<lambda>t. Some (tx_signature t) \<noteq> cursor) ?rem
             = batch @ takeWhile (\<lambda>t. Some (tx_signature t) \<noteq> cursor) (drop 1000 ?rem)"
            by (subst split, rule takeWhile_step) (use False in simp)
          have all: "?miss = batch" using False by (simp add: takeWhile_eq_all_conv list_ex_iff)
          obtain n' where "newest' = Some n'" by (cases newest) (auto simp: newest'_def)
          then show ?thesis
            using ih [OF rec] keep(1,3-5) miss nw unfolding tw next_rem all by auto
        qed
      qed
    qed
  qed
qed simp

text \<open>What the closing part of a backfill keeps.\<close>

lemma retry_events_frame:
  assumes "retry_events env sigs s = (s', r)"
  shows "known s' = known s \<and> ix_history_cursor s' = ix_history_cursor s
     \<and> ix_tables s' = ix_tables s \<and> ix_running s' = ix_running s"
  using assms
proof (induction sigs arbitrary: s)
  case (Cons sig sigs)
  show ?case
  proof (cases "ie_update env sig")
    case (Inl e)
    then show ?thesis using Cons.prems by (simp add: Let_def bindP_def liftP_def)
  next
    case (Inr u)
    define es where "es = map (\<lambda>(k, e). (k, if k = sig then e\<lparr>ev_processed := dc_processed (decodeTransaction (ie_tx env) sig),
           ev_error := dc_error (decodeTransaction (ie_tx env) sig), ev_block_time := dc_blockTime (decodeTransaction (ie_tx env) sig),
           ev_name := event_names (dc_events (decodeTransaction (ie_tx env) sig)),
           ev_data := dc_events (decodeTransaction (ie_tx env) sig)\<rparr> else e)) (ix_events s)"
    have "retry_events env sigs (s\<lparr>ix_events := es\<rparr>) = (s', r)"
      using Cons.prems Inr by (simp add: Let_def bindP_def liftP_def modifyP_def es_def)
    moreover have "known (s\<lparr>ix_events := es\<rparr>) = known s"
      unfolding known_def dom_map_of_conv_image_fst es_def by (force simp: image_image)
    ultimately show ?thesis using Cons.IH by fastforce
  qed
qed (simp add: proc_simps)

lemma finish_backfill_frame:
  assumes "finish_backfill env newest s = (s', r)"
  shows "known s' = known s" "ix_tables s' = ix_tables s"
    "r = Inr () \<Longrightarrow> newest = Some n \<Longrightarrow> ix_history_cursor s' = Some n"
    "r \<noteq> Inr () \<or> newest = None \<Longrightarrow> ix_history_cursor s' = ix_history_cursor s"
proof -
  obtain s1 r1 where p: "processPendingEvents env s = (s1, r1)" by fastforce
  have f1: "known s1 = known s \<and> ix_history_cursor s1 = ix_history_cursor s
     \<and> ix_tables s1 = ix_tables s"
  proof (cases "ie_select env")
    case (Inl e)
    then show ?thesis using p by (simp add: processPendingEvents_def bindP_def liftP_def)
  next
    case (Inr u)
    then obtain sigs where "retry_events env sigs s = (s1, r1)"
      using p by (simp add: processPendingEvents_def bindP_def liftP_def getP_def)
    from retry_events_frame [OF this] show ?thesis by simp
  qed
  obtain s2 r2 where q: "recordPriceHistory env s1 = (s2, r2)" by fastforce
  have f2: "known s2 = known s1 \<and> ix_history_cursor s2 = ix_history_cursor s1 \<and> ix_tables s2 = ix_tables s1"
    using q by (cases r2) (auto simp: recordPriceHistory_def Let_def proc_simps known_def split: if_splits)
  have upd: "known (s2\<lparr>ix_history_cursor := c\<rparr>) = known s2" for c by (simp add: known_def)
  have all: "known s' = known s \<and> ix_tables s' = ix_tables s
     \<and> (r = Inr () \<longrightarrow> newest = Some n \<longrightarrow> ix_history_cursor s' = Some n)
     \<and> (r \<noteq> Inr () \<or> newest = None \<longrightarrow> ix_history_cursor s' = ix_history_cursor s)"
    using assms p q f1 f2 by (cases r; cases newest) (auto simp: finish_backfill_def proc_simps upd)
  then show "known s' = known s" "ix_tables s' = ix_tables s"
    "r = Inr () \<Longrightarrow> newest = Some n \<Longrightarrow> ix_history_cursor s' = Some n"
    "r \<noteq> Inr () \<or> newest = None \<Longrightarrow> ix_history_cursor s' = ix_history_cursor s" by blast+
qed

lemma backfill_cases:
  assumes "backfill env fuel s = Some (s', r)"
  obtains (refused) e where "s' = s" "r = Inl e"
  | (walk_failed) e where "pages env (ix_history_cursor s) fuel None None s = Some (s', Inl e)" "r = Inl e"
  | (reconcile_failed) s1 n e where "pages env (ix_history_cursor s) fuel None None s = Some (s1, Inr n)"
      "reconcile (ie_accepts env) (ie_turns env) fuel s1 = Some (s', Inl e)" "r = Inl e"
  | (finished) s1 n s2 where "pages env (ix_history_cursor s) fuel None None s = Some (s1, Inr n)"
      "reconcile (ie_accepts env) (ie_turns env) fuel s1 = Some (s2, Inr ())" "finish_backfill env n s2 = (s', r)"
proof (cases "ie_select env")
  case (Inl e)
  then show ?thesis using assms by (intro refused [of e]) (auto simp: backfill_def)
next
  case (Inr u)
  then obtain s1 n where p: "pages env (ix_history_cursor s) fuel None None s = Some (s1, n)"
    using assms by (auto simp: backfill_def split: option.splits)
  show ?thesis
  proof (cases n)
    case (Inl e)
    then show ?thesis using assms Inr p by (intro walk_failed [of e]) (auto simp: backfill_def)
  next
    case n: (Inr nw)
    then obtain s2 q where q: "reconcile (ie_accepts env) (ie_turns env) fuel s1 = Some (s2, q)"
      using assms Inr p by (auto simp: backfill_def split: option.splits)
    then show ?thesis
      using assms Inr p n by (cases q) (auto simp: backfill_def intro: reconcile_failed finished)
  qed
qed

lemma reconcile_frame:
  assumes "reconcile ok turns fuel s = Some (s', r)"
  shows "ix_events s' = ix_events s" "ix_history_cursor s' = ix_history_cursor s"
proof -
  have "ix_events s' = ix_events s \<and> ix_history_cursor s' = ix_history_cursor s"
    using assms reconcile_loop_frame [of ok turns fuel 0 "s\<lparr>ix_running := True\<rparr>"]
    by (auto simp: reconcile_def turn_frame_def split: if_splits option.splits)
  then show "ix_events s' = ix_events s" "ix_history_cursor s' = ix_history_cursor s" by auto
qed

lemma watermark_mono:
  assumes "watermark_ok hist s" "\<And>t. recorded s t \<Longrightarrow> recorded s' t" "ix_history_cursor s' = ix_history_cursor s"
  shows "watermark_ok hist s'"
  using assms by (auto simp: watermark_ok_def split: option.splits)

text \<open>
  C27. The watermark never lies. Against a node whose history is fixed during the call, a backfill
  keeps the invariant that every transaction from the watermark back is recorded, whichever request
  fails; when it succeeds on a non-empty history the watermark is the newest transaction, so the
  whole history is recorded.
\<close>

theorem backfill_watermark:
  assumes "backfill env fuel s = Some (s', r)" "serves env hist" "watermark_ok hist s"
  shows "watermark_ok hist s' \<and> (\<forall>t. recorded s t \<longrightarrow> recorded s' t)
     \<and> (r = Inr () \<and> hist \<noteq> [] \<longrightarrow> ix_history_cursor s' = Some (tx_signature (hd hist)) \<and> (\<forall>t \<in> set hist. recorded s' t))"
proof (cases rule: backfill_cases [OF assms(1)])
  case (1 e)
  then show ?thesis using assms(3) by simp
next
  case (2 e)
  from pages_recorded [OF assms(2) this(1)] 2(2) watermark_mono [OF assms(3), of s'] show ?thesis
    by (auto simp: after_sig_def)
next
  case (3 s1 n e)
  note p = pages_recorded [OF assms(2) 3(1)] and f = reconcile_frame [OF 3(2)]
  have keep: "recorded s t \<Longrightarrow> recorded s' t" for t using p f by (auto simp: after_sig_def recorded_def)
  show ?thesis using keep 3(3) watermark_mono [OF assms(3) keep] p f by (auto simp: after_sig_def)
next
  case (4 s1 n s2)
  note p = pages_recorded [OF assms(2) 4(1)] and f = reconcile_frame [OF 4(2)] and b = finish_backfill_frame [OF 4(3)]
  have rec: "recorded s' t \<longleftrightarrow> recorded s1 t" for t using f b(1) by (simp add: recorded_known known_def)
  have keep: "recorded s t \<Longrightarrow> recorded s' t" for t using p rec by (auto simp: after_sig_def)
  have n: "n = map_option tx_signature (List.find (\<lambda>_. True) hist)"
    and walked: "\<forall>t \<in> set (takeWhile (\<lambda>t. Some (tx_signature t) \<noteq> ix_history_cursor s) hist). recorded s' t"
    using p rec by (auto simp: after_sig_def)
  have all: "recorded s' t" if t: "t \<in> set hist" for t
  proof (cases "ix_history_cursor s")
    case None
    then have "takeWhile (\<lambda>t. Some (tx_signature t) \<noteq> ix_history_cursor s) hist = hist" by (simp add: takeWhile_eq_all_conv)
    from walked [unfolded this] t show ?thesis by blast
  next
    case (Some c)
    have "t \<in> set (takeWhile (\<lambda>t. tx_signature t \<noteq> c) hist) \<union> set (dropWhile (\<lambda>t. tx_signature t \<noteq> c) hist)"
      using t by (metis set_append takeWhile_dropWhile_id)
    then show ?thesis using walked assms(3) keep Some by (auto simp: watermark_ok_def)
  qed
  have "watermark_ok hist s'"
  proof (cases "r = Inr () \<and> n \<noteq> None")
    case True
    then show ?thesis using all set_dropWhileD by (fastforce simp: watermark_ok_def split: option.splits)
  next
    case False
    then have "ix_history_cursor s' = ix_history_cursor s" using b(4) f p by (auto simp: after_sig_def)
    then show ?thesis using watermark_mono [OF assms(3) keep] by simp
  qed
  moreover have "ix_history_cursor s' = Some (tx_signature (hd hist))" if "r = Inr ()" "hist \<noteq> []"
    using b(3) [OF that(1)] n that(2) by (cases hist) auto
  ultimately show ?thesis using keep all by blast
qed

lemma pages_terminate:
  assumes "serves env hist" "suffix (after_sig before hist) hist" "length (after_sig before hist) div 1000 < fuel"
  shows "pages env cursor fuel before newest s \<noteq> None"
  using assms(2,3)
proof (induction fuel arbitrary: before newest s)
  case (Suc fuel)
  let ?rem = "after_sig before hist"
  show ?case
  proof (cases "ie_page env before")
    case (Inl e)
    then show ?thesis by simp
  next
    case (Inr batch)
    then have batch: "batch = take 1000 ?rem"
      using assms(1) [unfolded serves_def, THEN conjunct2, rule_format, of before] by auto
    show ?thesis
    proof (cases "batch = [] \<or> length batch < 1000")
      case True
      then show ?thesis using Inr by (auto simp: Let_def until_cursor_def split: prod.splits sum.splits)
    next
      case False
      then have long: "1000 \<le> length ?rem" by (auto simp: batch min_def split: if_splits)
      have next_rem: "after_sig (Some (tx_signature (last batch))) hist = drop 1000 ?rem"
        unfolding batch by (rule after_last) (use assms(1) Suc.prems(1) long in \<open>auto simp: serves_def\<close>)
      have "length (drop 1000 ?rem) div 1000 < fuel"
        using Suc.prems(2) long by (simp add: le_div_geq)
      moreover have "suffix (drop 1000 ?rem) hist" using Suc.prems(1) suffix_drop suffix_order.trans by blast
      ultimately have "pages env cursor fuel (Some (tx_signature (last batch))) n s1 \<noteq> None" for n s1
        using Suc.IH next_rem by simp
      moreover have "batch \<noteq> []" using False by simp
      ultimately show ?thesis
        unfolding pages_step [OF Inr \<open>batch \<noteq> []\<close>] by (auto split: prod.splits sum.splits)
    qed
  qed
qed simp

text \<open>
  The walk over the history ends: one page more than the full pages the node has is enough
  fuel, whatever the watermark, the stored events and the outcome of each request are.
\<close>

theorem backfill_walk_terminates:
  assumes "serves env hist" "length hist div 1000 < fuel"
  shows "\<exists>s' r. pages env cursor fuel None None s = Some (s', r)"
  using pages_terminate [OF assms(1), of None fuel cursor None s] assms(2) by (auto simp: after_sig_def)

text \<open>
  A backfill that overlaps a running reconciliation returns without waiting for it: the
  projections are as they were, and the watermark moves to the newest transaction all the same,
  whatever becomes of the reconciliation.
\<close>

theorem watermark_skips_reconcile:
  assumes "backfill env fuel s = Some (s', Inr ())" "ix_running s" "serves env hist" "hist \<noteq> []"
  shows "ix_tables s' = ix_tables s \<and> ix_history_cursor s' = Some (tx_signature (hd hist))"
proof (cases rule: backfill_cases [OF assms(1)])
  case (4 s1 n s2)
  note p = pages_recorded [OF assms(3) 4(1)] and b = finish_backfill_frame [OF 4(3)]
  have n: "n = Some (tx_signature (hd hist))" using p assms(4) by (cases hist) (auto simp: after_sig_def)
  have "ix_running s1" "ix_tables s1 = ix_tables s" using p assms(2) by (auto simp: after_sig_def)
  then have "ix_tables s2 = ix_tables s" using 4(2) by (auto simp: reconcile_def)
  then show ?thesis using b(2) b(3) [OF refl n] by simp
qed simp_all

section \<open>Recorded prices\<close>

lemma fold_update_other:
  "k \<notin> fst ` set new \<Longrightarrow> map_of (fold (\<lambda>(k, v) cols. AList.update k v cols) new old) k = map_of old k"
  by (induction new arbitrary: old) (auto simp: update_conv')

lemma price_of_key: "(k, v) \<in> set (price_of env T (i, offer)) \<Longrightarrow> k = (i, ie_now env div 300 * 300)"
  by (auto simp: price_of_def Let_def split: option.splits prod.splits if_splits)

lemma price_of_distinct: "distinct (map fst (price_of env T x))"
  by (cases x) (auto simp: price_of_def Let_def split: option.splits prod.splits)

lemma prices_distinct: "distinct (map fst xs) \<Longrightarrow> distinct (map fst (concat (map (price_of env T) xs)))"
proof (induction xs)
  case (Cons x xs)
  obtain i r where x: "x = (i, r)" by fastforce
  have "fst k = i" if "k \<in> fst ` set (price_of env T x)" for k using that price_of_key x by fastforce
  moreover have "fst k \<in> fst ` set xs" if k: "k \<in> fst ` set (concat (map (price_of env T) xs))" for k
  proof -
    from k obtain j q v where "(j, q) \<in> set xs" "(k, v) \<in> set (price_of env T (j, q))" by auto
    then have "fst k = j" using price_of_key [of k v env T j q] by simp
    then show ?thesis using \<open>(j, q) \<in> set xs\<close> by (metis fst_conv image_eqI)
  qed
  moreover have "i \<notin> fst ` set xs" using Cons.prems x by simp
  ultimately have "fst ` set (price_of env T x) \<inter> fst ` set (concat (map (price_of env T) xs)) = {}" by blast
  moreover have "distinct (map fst (concat (map (price_of env T) xs)))" using Cons by simp
  ultimately show ?case using price_of_distinct [of env T x]
    by (simp only: list.map concat.simps map_append distinct_append set_map simp_thms)
qed simp

text \<open>
  The price history has exactly the offers on sale: after a successful run every active offer
  of an active machine has a row for the current five-minute slot with its rate, marked available
  exactly when the machine is idle, was seen within 90 seconds and has a free GPU (or is a CPU
  machine); the rows of other slots are untouched.
\<close>

theorem price_history_exact:
  assumes "recordPriceHistory env s = (s', Inr ())" "distinct (map fst (ix_tables s ''offers''))"
    "length (ix_tables s ''offers'') \<le> 1000" "length (ix_tables s ''machines'') \<le> 1000"
    "map_of (ix_tables s ''offers'') oid = Some offer" "bool_col offer ''active''"
    "str_col offer ''machine_id'' = Some mid" "map_of (ix_tables s ''machines'') mid = Some m" "bool_col m ''active''"
  shows "(\<exists>row. map_of (ix_prices s') (oid, ie_now env div 300 * 300) = Some row
      \<and> (\<forall>rate. str_col offer ''rate_base_units_per_second'' = Some rate \<longrightarrow> pp_rate row = rate)
      \<and> (pp_available row \<longleftrightarrow> machine_available (ie_now env) m
           (find (\<lambda>h. hb_machine h = mid) (take 1000 (ie_heartbeats env)))
           (Option.bind (str_col m ''hardware_hash'') (map_of (take 1000 (ie_reports env))))))
     \<and> (t \<noteq> ie_now env div 300 * 300 \<longrightarrow> map_of (ix_prices s') (k, t) = map_of (ix_prices s) (k, t))"
proof -
  define offers where "offers = filter (\<lambda>(i, r). bool_col r ''active'') (ix_tables s ''offers'')"
  define rows where "rows = concat (map (price_of env (ix_tables s)) offers)"
  have all: "take 1000 offers = offers" unfolding offers_def by (rule take_all) (meson assms(3) length_filter_le order_trans)
  have mem: "(oid, offer) \<in> set offers" using assms(5,6) by (auto simp: offers_def dest: map_of_SomeD)
  obtain row where row: "((oid, ie_now env div 300 * 300), row) \<in> set (price_of env (ix_tables s) (oid, offer))"
    "\<forall>rate. str_col offer ''rate_base_units_per_second'' = Some rate \<longrightarrow> pp_rate row = rate"
    "pp_available row \<longleftrightarrow> machine_available (ie_now env) m (find (\<lambda>h. hb_machine h = mid) (take 1000 (ie_heartbeats env)))
           (Option.bind (str_col m ''hardware_hash'') (map_of (take 1000 (ie_reports env))))"
    using assms(4,7-9) by (simp add: price_of_def Let_def)
  have in_rows: "((oid, ie_now env div 300 * 300), row) \<in> set rows" using mem row(1) unfolding rows_def by force
  have "price_rows env (ix_tables s) = rows"
    using all by (simp only: price_rows_def rows_def offers_def)
  then have s': "ix_prices s' = fold (\<lambda>(k, v) ps. AList.update k v ps) rows (ix_prices s)"
    using assms(1) in_rows by (auto simp: recordPriceHistory_def Let_def proc_simps split: if_splits)
  have "distinct (map fst offers)" using assms(2) by (simp add: offers_def distinct_map_filter)
  then have dist: "distinct (map fst rows)" unfolding rows_def by (rule prices_distinct)
  have keys: "snd ` fst ` set rows \<subseteq> {ie_now env div 300 * 300}"
    using price_of_key by (fastforce simp: rows_def)
  have "(k, t) \<notin> fst ` set rows" if "t \<noteq> ie_now env div 300 * 300" using keys that by (force simp: image_iff)
  then show ?thesis
    using map_of_fold_update [OF dist in_rows, of "ix_prices s"] row(2,3) fold_update_other [of "(k, t)" rows "ix_prices s"]
    unfolding s' by blast
qed

section \<open>A short history\<close>

definition sample_tx :: tx_info where
  "sample_tx = \<lparr>tx_signature = ''sig1'', tx_slot = 7, tx_err = None\<rparr>"

definition sample_env :: indexer_env where
  "sample_env = \<lparr>ie_tx = (\<lambda>_. Inr None), ie_page = (\<lambda>before. Inr (take 1000 (after_sig before [sample_tx]))), ie_upsert = (\<lambda>_. Inr ()),
     ie_update = (\<lambda>_. Inr ()), ie_accepts = accept_all, ie_turns = (\<lambda>_. sample_turn),
     ie_heartbeats = [\<lparr>hb_machine = ''M'', hb_timestamp = 1000, hb_available = 1\<rparr>], ie_reports = [], ie_select = Inr (), ie_now = 1010\<rparr>"

text \<open>A reconciliation is under way, and one offer is on sale.\<close>

definition sample_offer_row :: stored_row where
  "sample_offer_row = \<lparr>sr_slot = 1, sr_cols = [(''active'', JBool True), (''machine_id'', JStr ''M''), (''rate_base_units_per_second'', JStr ''9'')]\<rparr>"

definition sample_machine_row :: stored_row where
  "sample_machine_row = \<lparr>sr_slot = 1, sr_cols = [(''active'', JBool True)]\<rparr>"

definition sample_busy_indexer :: indexer where
  "sample_busy_indexer = sample_indexer\<lparr>ix_running := True, ix_tables := (\<lambda>t. if t = ''offers'' then [(''O'', sample_offer_row)]
     else if t = ''machines'' then [(''M'', sample_machine_row)] else [])\<rparr>"

lemma sample_serves: "serves sample_env [sample_tx]"
  by (simp add: serves_def sample_env_def)

lemma sample_env_simps: "ie_select sample_env = Inr ()" "ie_upsert sample_env x = Inr ()" "ie_update sample_env y = Inr ()"
  "ie_page sample_env None = Inr [sample_tx]"
  by (simp_all add: sample_env_def after_sig_def)

lemma retry_events_total: "(\<And>y. ie_update env y = Inr ()) \<Longrightarrow> \<exists>s'. retry_events env sigs s = (s', Inr ())"
  by (induction sigs arbitrary: s) (simp_all add: Let_def bindP_def liftP_def modifyP_def retP_def)

lemma sample_price_total: "\<exists>s'. recordPriceHistory sample_env s = (s', Inr ())"
  by (simp add: recordPriceHistory_def Let_def bindP_def liftP_def getP_def modifyP_def retP_def sample_env_simps)

lemma sample_backfilled: "\<exists>s'. backfill sample_env 1 sample_busy_indexer = Some (s', Inr ())"
proof -
  have run: "ix_running sample_busy_indexer" "ix_history_cursor sample_busy_indexer = None"
    by (simp_all add: sample_busy_indexer_def sample_indexer_def)
  obtain s1 where s1: "store_missing sample_env [sample_tx] sample_busy_indexer = (s1, Inr ())"
    by (simp add: store_missing_def bindP_def liftP_def modifyP_def sample_env_simps)
  have "pages sample_env None 1 None None sample_busy_indexer = Some (s1, Inr (Some ''sig1''))"
    using s1 by (simp add: sample_env_simps until_cursor_def sample_tx_def One_nat_def)
  moreover have "ix_running s1" using store_missing_recorded(5) [OF s1] run by simp
  moreover have "\<exists>s3. processPendingEvents sample_env s2 = (s3, Inr ())" for s2
    using retry_events_total [of sample_env] by (simp add: processPendingEvents_def bindP_def liftP_def getP_def sample_env_simps)
  moreover have "\<exists>s3. finish_backfill sample_env n s2 = (s3, Inr ())" for n s2
  proof -
    obtain s3 s4 where "processPendingEvents sample_env s2 = (s3, Inr ())" "recordPriceHistory sample_env s3 = (s4, Inr ())"
      using calculation(3) [of s2] sample_price_total by blast
    then show ?thesis
      by (cases n) (simp_all add: finish_backfill_def bindP_def liftP_def modifyP_def retP_def sample_env_simps)
  qed
  ultimately show ?thesis using run by (simp add: backfill_def sample_env_simps reconcile_def)
qed

theorem backfill_watermark_witness:
  "\<exists>s'. backfill sample_env 1 sample_busy_indexer = Some (s', Inr ()) \<and> watermark_ok [sample_tx] s'
     \<and> ix_history_cursor s' = Some ''sig1'' \<and> recorded s' sample_tx"
proof -
  obtain s' where b: "backfill sample_env 1 sample_busy_indexer = Some (s', Inr ())" using sample_backfilled by blast
  have "watermark_ok [sample_tx] sample_busy_indexer"
    by (simp add: watermark_ok_def sample_busy_indexer_def sample_indexer_def)
  from backfill_watermark [OF b sample_serves this] b show ?thesis by (auto simp: sample_tx_def)
qed

theorem backfill_walk_terminates_witness: "\<exists>s' r. pages sample_env (Some ''old'') 1 None None sample_busy_indexer = Some (s', r)"
  by (rule backfill_walk_terminates [OF sample_serves]) simp

theorem watermark_skips_reconcile_witness:
  "\<exists>s'. backfill sample_env 1 sample_busy_indexer = Some (s', Inr ()) \<and> ix_tables s' = ix_tables sample_busy_indexer
     \<and> ix_history_cursor s' = Some ''sig1''"
proof -
  obtain s' where b: "backfill sample_env 1 sample_busy_indexer = Some (s', Inr ())" using sample_backfilled by blast
  have "ix_running sample_busy_indexer" by (simp add: sample_busy_indexer_def)
  from watermark_skips_reconcile [OF b this sample_serves] b show ?thesis by (auto simp: sample_tx_def)
qed

theorem price_history_exact_witness:
  "\<exists>s' row. recordPriceHistory sample_env sample_busy_indexer = (s', Inr ()) \<and> map_of (ix_prices s') (''O'', 900) = Some row
     \<and> pp_rate row = ''9'' \<and> pp_available row"
proof -
  obtain s' where r: "recordPriceHistory sample_env sample_busy_indexer = (s', Inr ())" using sample_price_total by blast
  have t: "ix_tables sample_busy_indexer ''offers'' = [(''O'', sample_offer_row)]"
    "ix_tables sample_busy_indexer ''machines'' = [(''M'', sample_machine_row)]"
    by (simp_all add: sample_busy_indexer_def)
  have c: "bool_col sample_offer_row ''active''" "str_col sample_offer_row ''machine_id'' = Some ''M''"
    "str_col sample_offer_row ''rate_base_units_per_second'' = Some ''9''" "bool_col sample_machine_row ''active''"
    by (simp_all add: bool_col_def str_col_def sample_offer_row_def sample_machine_row_def)
  have "machine_available 1010 sample_machine_row (Some \<lparr>hb_machine = ''M'', hb_timestamp = 1000, hb_available = 1\<rparr>) x" for x
    by (simp add: machine_available_def bool_col_def sample_machine_row_def)
  then have "machine_available (ie_now sample_env) sample_machine_row (find (\<lambda>h. hb_machine h = ''M'') (take 1000 (ie_heartbeats sample_env))) x" for x
    by (simp add: sample_env_def)
  moreover have "ie_now sample_env div 300 * 300 = 900" by (simp add: sample_env_def)
  ultimately show ?thesis using price_history_exact [OF r, of "''O''" sample_offer_row "''M''" sample_machine_row] r t c by auto
qed

end
