(* ===== verification/Ray.thy ===== *)
theory Ray
  imports Executors "HOL-Library.AList"
begin

text \<open>
  The Ray backend (\<^verbatim>\<open>executors/ray/index.ts\<close>): distributed jobs submitted to a Ray cluster over its
  HTTP jobs API. The cluster and the network are a parameter: a reply is a function of all requests
  sent so far, so it may change while the backend polls. Time is part of the state and moves by
  arbitrary non-negative delays; a timer fires no earlier than asked. The polling loop is a total
  function: its termination proof is that the deadline comes closer with every sleep.
\<close>

section \<open>Requests\<close>

record http_request =
  rq_method :: string
  rq_url :: string
  rq_headers :: "(string \<times> string) list"
  rq_body :: "json option"

text \<open>The status, the body as text, and the body as \<^verbatim>\<open>response.json()\<close> reads it.\<close>

record http_response =
  rs_status :: int
  rs_text :: buffer
  rs_json :: "json outcome"

record ray_env =
  re_fetch :: "http_request list \<Rightarrow> http_response outcome"
  re_delay :: "http_request list \<Rightarrow> nat"
  re_crypto :: crypto

record ray_job =
  ray_spec :: job_spec
  ray_gpuUuids :: "string list"
  ray_startedAt :: int

text \<open>The backend with the world it acts on: the requests sent and the clock, in milliseconds.\<close>

record ray_backend =
  ray_jobs :: "string \<rightharpoonup> ray_job"
  ray_address :: string
  ray_headers :: "(string \<times> string) list"
  ray_sent :: "http_request list"
  ray_time :: int

definition strip_slash :: "string \<Rightarrow> string" where
  "strip_slash s = (if s \<noteq> [] \<and> last s = CHR ''/'' then butlast s else s)"

text \<open>\<open>protocol\<close> is what \<^verbatim>\<open>new URL(address).protocol\<close> reads, or the error of an invalid URL.\<close>

definition new_RayBackend ::
  "(string \<Rightarrow> string outcome) \<Rightarrow> string \<Rightarrow> (string \<times> string) list \<Rightarrow> int \<Rightarrow> ray_backend outcome" where
  "new_RayBackend protocol address headers now =
     andThen (protocol (strip_slash address)) (\<lambda>p.
     andThen (guard (p \<in> {''http:'', ''https:''}) ''Ray address must use HTTP or HTTPS'') (\<lambda>_.
       Inr \<lparr>ray_jobs = Map.empty, ray_address = strip_slash address, ray_headers = headers, ray_sent = [], ray_time = now\<rparr>))"

definition ray_fetch :: "ray_env \<Rightarrow> http_request \<Rightarrow> (ray_backend, http_response) proc" where
  "ray_fetch env r = (\<lambda>b. let sent = ray_sent b @ [r] in
     (b\<lparr>ray_sent := sent, ray_time := ray_time b + int (re_delay env sent)\<rparr>, re_fetch env sent))"

definition ray_sleep :: "ray_env \<Rightarrow> nat \<Rightarrow> ray_backend \<Rightarrow> ray_backend" where
  "ray_sleep env ms b = b\<lparr>ray_time := ray_time b + int ms + int (re_delay env (ray_sent b))\<rparr>"

definition http_ok :: "http_response \<Rightarrow> bool" where
  "http_ok r \<longleftrightarrow> 200 \<le> rs_status r \<and> rs_status r \<le> 299"

text \<open>\<^verbatim>\<open>{ Accept, ...Content-Type, ...this.headers }\<close>: later entries replace earlier ones.\<close>

definition request_headers :: "(string \<times> string) list \<Rightarrow> bool \<Rightarrow> (string \<times> string) list" where
  "request_headers own body = fold (\<lambda>(k, v) hs. AList.update k v hs) own
     ([(''Accept'', ''application/json'')] @ (if body then [(''Content-Type'', ''application/json'')] else []))"

definition ray_request :: "ray_env \<Rightarrow> string \<Rightarrow> string \<Rightarrow> json option \<Rightarrow> (ray_backend, json) proc" where
  "ray_request env method path body =
     bindP getP (\<lambda>b.
     bindP (ray_fetch env \<lparr>rq_method = method, rq_url = ray_address b @ path,
         rq_headers = request_headers (ray_headers b) (body \<noteq> None), rq_body = body\<rparr>) (\<lambda>resp.
     bindP (requireP (http_ok resp)
       (''Ray Jobs API '' @ path @ '' failed with HTTP '' @ bigint_toString (rs_status resp))) (\<lambda>_.
       liftP (rs_json resp))))"

text \<open>\<^verbatim>\<open>encodeURIComponent\<close> on the characters of one byte.\<close>

definition unreserved :: "char \<Rightarrow> bool" where
  "unreserved c \<longleftrightarrow> is_lower c \<or> is_upper c \<or> is_digit c \<or> c \<in> set ''-_.!~*()'' \<or> c = CHR 0x27"

definition upper_hex :: "char \<Rightarrow> char" where
  "upper_hex c = (if is_lower c then char_of (of_char c - 32 :: nat) else c)"

definition encodeURIComponent :: "string \<Rightarrow> string" where
  "encodeURIComponent s = concat (map (\<lambda>c. if unreserved c then [c]
     else concat (map (\<lambda>b. CHR ''%'' # map upper_hex (toHex [b])) (utf8 [c]))) s)"

definition job_path :: "string \<Rightarrow> string" where
  "job_path job = ''/api/jobs/'' @ encodeURIComponent job"

section \<open>The methods\<close>

definition ray_get :: "string \<Rightarrow> (ray_backend, ray_job) proc" where
  "ray_get job = (\<lambda>b. (b, case ray_jobs b job of Some s \<Rightarrow> Inr s | None \<Rightarrow> Inl ''Unknown Ray job''))"

definition ray_set :: "string \<Rightarrow> ray_job \<Rightarrow> (ray_backend, unit) proc" where
  "ray_set job s = modifyP (\<lambda>b. b\<lparr>ray_jobs := (ray_jobs b)(job \<mapsto> s)\<rparr>)"

definition wants_ray :: "job_spec \<Rightarrow> bool" where
  "wants_ray spec \<longleftrightarrow> (case distributed spec of None \<Rightarrow> False | Some d \<Rightarrow> ds_framework d = ''ray'')"

definition ray_prepare :: "ray_env \<Rightarrow> string \<Rightarrow> job_spec \<Rightarrow> string list \<Rightarrow> (ray_backend, unit) proc" where
  "ray_prepare env job spec gpuUuids =
     bindP (requireP (job_name_ok job) ''Unsafe Ray job ID'') (\<lambda>_.
     bindP (requireP (wants_ray spec) ''Ray executor requires a distributed Ray specification'') (\<lambda>_.
     bindP (requireP (int (length gpuUuids) = gpu_count spec) ''Ray GPU assignment does not match the job specification'') (\<lambda>_.
     bindP (ray_request env ''GET'' ''/api/version'' None) (\<lambda>version.
     bindP (requireP (truthy (json_get ''ray_version'' (Some version))) ''Invalid Ray Jobs API response'') (\<lambda>_.
       ray_set job \<lparr>ray_spec = spec, ray_gpuUuids = gpuUuids, ray_startedAt = 0\<rparr>)))))"

definition submission :: "string \<Rightarrow> job_spec \<Rightarrow> distributed_spec \<Rightarrow> string \<Rightarrow> json" where
  "submission job spec d specHash = JObj [
     (''submission_id'', JStr job), (''entrypoint'', JStr (ds_entrypoint d)),
     (''runtime_env'', JObj [
        (''container'', JObj [(''image'', JStr (image_ref spec)),
           (''run_options'', JArr [JStr ''--cap-drop=ALL'', JStr ''--security-opt=no-new-privileges:true''])]),
        (''env_vars'', JObj [(''VERICOMPUTE_JOB_ID'', JStr job), (''VERICOMPUTE_WORKERS'', JStr (bigint_toString (ds_workers d))),
           (''VERICOMPUTE_GPUS_PER_WORKER'', JStr (bigint_toString (ds_gpusPerWorker d)))])]),
     (''metadata'', JObj [(''vericompute_job_id'', JStr job), (''vericompute_spec_hash'', JStr specHash),
        (''vericompute_image_digest'', JStr (digest spec))]),
     (''entrypoint_num_cpus'', jint (cpuCores spec)), (''entrypoint_num_gpus'', jint 0),
     (''entrypoint_memory'', jint (ramMb spec * 1024 * 1024))]"

text \<open>A specification without \<^verbatim>\<open>distributed\<close> cannot be in the map; reading its fields would throw.\<close>

definition ray_start :: "ray_env \<Rightarrow> string \<Rightarrow> (ray_backend, unit) proc" where
  "ray_start env job =
     bindP (ray_get job) (\<lambda>s.
     case distributed (ray_spec s) of
       None \<Rightarrow> throwP ''TypeError''
     | Some d \<Rightarrow>
       bindP (liftP (commitment (re_crypto env) (spec_json (ray_spec s)))) (\<lambda>h.
       bindP (ray_request env ''POST'' ''/api/jobs/'' (Some (submission job (ray_spec s) d h))) (\<lambda>resp.
       bindP (requireP (json_get ''submission_id'' (Some resp) = Some (JStr job) \<or> json_get ''job_id'' (Some resp) = Some (JStr job))
         ''Ray returned a different submission ID'') (\<lambda>_.
       bindP getP (\<lambda>b. ray_set job (s\<lparr>ray_startedAt := ray_time b div 1000\<rparr>))))))"

definition finished_status :: "json option \<Rightarrow> bool" where
  "finished_status j \<longleftrightarrow> json_get ''status'' j \<in> {Some (JStr ''STOPPED''), Some (JStr ''SUCCEEDED''), Some (JStr ''FAILED'')}"

definition ray_status :: "ray_env \<Rightarrow> string \<Rightarrow> (ray_backend, string) proc" where
  "ray_status env job =
     bindP (ray_get job) (\<lambda>_.
     bindP (ray_request env ''GET'' (job_path job) None) (\<lambda>details.
       if json_get ''status'' (Some details) = Some (JStr ''PENDING'') then retP ''prepared''
       else if json_get ''status'' (Some details) = Some (JStr ''RUNNING'') then retP ''running''
       else if finished_status (Some details) then retP ''finished''
       else throwP (''Unknown Ray status: '' @ (case json_get ''status'' (Some details) of Some (JStr s) \<Rightarrow> s | _ \<Rightarrow> ''undefined''))))"

definition ray_logs :: "ray_env \<Rightarrow> string \<Rightarrow> (ray_backend, buffer \<times> buffer) proc" where
  "ray_logs env job =
     bindP (ray_get job) (\<lambda>_. bindP getP (\<lambda>b.
     bindP (ray_fetch env \<lparr>rq_method = ''GET'', rq_url = ray_address b @ job_path job @ ''/logs'',
         rq_headers = ray_headers b, rq_body = None\<rparr>) (\<lambda>resp.
     bindP (requireP (http_ok resp) (''Ray logs failed with HTTP '' @ bigint_toString (rs_status resp))) (\<lambda>_.
       retP (rs_text resp, [])))))"

definition ray_stop :: "ray_env \<Rightarrow> string \<Rightarrow> (ray_backend, unit) proc" where
  "ray_stop env job = bindP (ray_get job) (\<lambda>_.
     bindP (ray_request env ''POST'' (job_path job @ ''/stop'') (Some (JObj []))) (\<lambda>_. retP ()))"

definition ray_cleanup :: "string \<Rightarrow> (ray_backend, unit) proc" where
  "ray_cleanup job = modifyP (\<lambda>b. b\<lparr>ray_jobs := (ray_jobs b)(job := None)\<rparr>)"

section \<open>Waiting for the result\<close>

lemma ray_request_world:
  assumes "ray_request env m p body b = (b', r)"
  shows "ray_time b \<le> ray_time b' \<and> ray_jobs b' = ray_jobs b \<and> ray_address b' = ray_address b \<and> ray_headers b' = ray_headers b
     \<and> ray_sent b' = ray_sent b @ [\<lparr>rq_method = m, rq_url = ray_address b @ p,
         rq_headers = request_headers (ray_headers b) (body \<noteq> None), rq_body = body\<rparr>]"
  using assms by (cases r) (auto simp: ray_request_def ray_fetch_def Let_def proc_simps)

text \<open>\<open>details\<close> is the last reply; the loop ends when it reports an end or the deadline has passed.\<close>

function ray_poll :: "ray_env \<Rightarrow> string \<Rightarrow> int \<Rightarrow> json option \<Rightarrow> ray_backend \<Rightarrow> ray_backend \<times> json option outcome" where
  "ray_poll env job deadline details b = (if ray_time b < deadline then
     (case ray_request env ''GET'' (job_path job) None b of
        (b', Inl e) \<Rightarrow> (b', Inl e)
      | (b', Inr reply) \<Rightarrow> if finished_status (Some reply) then (b', Inr (Some reply))
          else ray_poll env job deadline (Some reply) (ray_sleep env 1000 b'))
     else (b, Inr details))"
  by pat_completeness auto
termination
  by (relation "measure (\<lambda>(env, job, deadline, details, b). nat (deadline - ray_time b))")
    (auto simp: ray_sleep_def dest!: ray_request_world [OF sym])

definition ray_collectResult :: "ray_env \<Rightarrow> string \<Rightarrow> (ray_backend, exec_result) proc" where
  "ray_collectResult env job =
     bindP (ray_get job) (\<lambda>s. bindP getP (\<lambda>b0.
     bindP (ray_poll env job (ray_time b0 + timeoutSeconds (ray_spec s) * 1000) None) (\<lambda>details.
     if \<not> finished_status details
     then bindP (catchP (ray_stop env job) (\<lambda>_. retP ())) (\<lambda>_. throwP ''Ray execution timed out'')
     else bindP (ray_logs env job) (\<lambda>(out, errs). bindP getP (\<lambda>b.
       let finishedAt = (case json_get ''end_time'' details of
             Some (JNum t) \<Rightarrow> if t \<noteq> 0 then \<lfloor>t / 1000\<rfloor> else ray_time b div 1000
           | _ \<Rightarrow> ray_time b div 1000)
       in retP \<lparr>x_stdout = out, x_stderr = errs, x_result = out,
            x_exitCode = (if json_get ''status'' details = Some (JStr ''SUCCEEDED'') then 0 else 1),
            x_startedAt = ray_startedAt s, x_finishedAt = finishedAt, x_gpuUuids = ray_gpuUuids s,
            x_actualDigest = digest (ray_spec s),
            x_telemetry = \<lparr>t_gpuUuids = ray_gpuUuids s, t_samples = 1, t_peakVramMb = 0,
              t_durationSeconds = of_int (max 0 (finishedAt - ray_startedAt s))\<rparr>\<rparr>)))))"

section \<open>The contract\<close>

lemma ray_get_eq [proc_simps]:
  "ray_get job b = (b', r) \<longleftrightarrow> b' = b \<and> (case ray_jobs b job of Some s \<Rightarrow> Inr s | None \<Rightarrow> Inl ''Unknown Ray job'') = r"
  by (auto simp: ray_get_def)

lemma ray_set_eq [proc_simps]: "ray_set job s b = (b', r) \<longleftrightarrow> b' = b\<lparr>ray_jobs := (ray_jobs b)(job \<mapsto> s)\<rparr> \<and> r = Inr ()"
  by (auto simp: ray_set_def proc_simps)

definition ray_view :: "ray_job \<Rightarrow> job_spec \<times> string list \<times> int" where
  "ray_view s = (ray_spec s, ray_gpuUuids s, ray_startedAt s)"

lemma ray_prepare_Inr:
  assumes "ray_prepare env job spec us b = (b', Inr ())"
  shows "ray_jobs b' = (ray_jobs b)(job \<mapsto> \<lparr>ray_spec = spec, ray_gpuUuids = us, ray_startedAt = 0\<rparr>)" "job_name_ok job" "wants_ray spec"
  using assms by (auto simp: ray_prepare_def proc_simps outcome_simps dest: ray_request_world)

lemma ray_start_Inr:
  assumes "ray_start env job b = (b', Inr ())"
  obtains s t where "ray_jobs b job = Some s" "ray_jobs b' = (ray_jobs b)(job \<mapsto> s\<lparr>ray_startedAt := t\<rparr>)"
  using assms by (auto simp: ray_start_def proc_simps outcome_simps dest: ray_request_world split: option.splits)

lemma ray_collect_Inr:
  assumes "ray_collectResult env job b = (b', Inr x)"
  obtains s where "ray_jobs b job = Some s" "x_actualDigest x = digest (ray_spec s)" "x_gpuUuids x = ray_gpuUuids s"
    "x_startedAt x = ray_startedAt s" "t_gpuUuids (x_telemetry x) = ray_gpuUuids s" "t_samples (x_telemetry x) = 1"
    "t_durationSeconds (x_telemetry x) = of_int (max 0 (x_finishedAt x - x_startedAt x))"
proof -
  obtain s where s: "ray_jobs b job = Some s"
    using assms by (auto simp: ray_collectResult_def proc_simps split: option.splits)
  show thesis
    by (rule that [OF s]; use assms s in \<open>auto simp: ray_collectResult_def proc_simps Let_def simp del: ray_poll.simps split: if_splits\<close>)
qed

interpretation ray: execution_backend "ray_prepare env" "ray_start env" "ray_collectResult env"
  "\<lambda>b j. map_option ray_view (ray_jobs b j)" for env
proof
  fix sp j us b b'
  assume "ray_prepare env j sp us b = (b', Inr ())"
  then show "\<exists>t. map_option ray_view (ray_jobs b' j) = Some (sp, us, t)" by (simp add: ray_prepare_Inr(1) ray_view_def)
next
  fix j b b'
  assume "ray_start env j b = (b', Inr ())"
  then show "\<exists>sp us t t'. map_option ray_view (ray_jobs b j) = Some (sp, us, t) \<and> map_option ray_view (ray_jobs b' j) = Some (sp, us, t')"
    by (rule ray_start_Inr) (simp add: ray_view_def)
next
  fix j b b' x
  assume "ray_collectResult env j b = (b', Inr x)"
  then show "\<exists>sp us t. map_option ray_view (ray_jobs b j) = Some (sp, us, t) \<and> x_actualDigest x = digest sp \<and> x_gpuUuids x = us
        \<and> x_startedAt x = t \<and> t_gpuUuids (x_telemetry x) = us \<and> 0 < t_samples (x_telemetry x)"
    by (rule ray_collect_Inr) (simp add: ray_view_def)
qed

section \<open>Bounded polling\<close>

lemma encode_job_name: "job_name_ok job \<Longrightarrow> encodeURIComponent job = job"
proof -
  have "concat (map (\<lambda>c. if unreserved c then [c] else f c) s) = s"
    if "list_all (\<lambda>c. is_lower c \<or> is_upper c \<or> is_digit c \<or> c = CHR ''_'' \<or> c = CHR ''-'') s" for f s
    using that by (induction s) (auto simp: unreserved_def)
  then show "job_name_ok job \<Longrightarrow> encodeURIComponent job = job" by (simp add: job_name_ok_def encodeURIComponent_def)
qed

text \<open>The requests a program adds, all to URLs of one job, and time never goes back.\<close>

definition job_urls :: "string \<Rightarrow> string \<Rightarrow> string set" where
  "job_urls address job = (\<lambda>suf. address @ ''/api/jobs/'' @ job @ suf) ` {[], ''/stop'', ''/logs''}"

definition sends :: "nat \<Rightarrow> string \<Rightarrow> ray_backend \<Rightarrow> ray_backend \<Rightarrow> bool" where
  "sends n job b b' \<longleftrightarrow> ray_address b' = ray_address b \<and> ray_jobs b' = ray_jobs b \<and> ray_time b \<le> ray_time b'
     \<and> (\<exists>new. ray_sent b' = ray_sent b @ new \<and> length new \<le> n \<and> list_all (\<lambda>r. rq_url r \<in> job_urls (ray_address b) job) new)"

lemma sends_refl: "sends 0 job b b"
  by (simp add: sends_def)

lemma sends_trans: "sends m job b b1 \<Longrightarrow> sends n job b1 b2 \<Longrightarrow> sends (m + n) job b b2"
  by (force simp: sends_def)

lemma sends_mono: "sends m job b b' \<Longrightarrow> m \<le> n \<Longrightarrow> sends n job b b'"
  unfolding sends_def by (meson order_trans)

lemma sends_request:
  assumes "ray_request env m (job_path job @ suf) body b = (b', r)" "job_name_ok job" "suf \<in> {[], ''/stop'', ''/logs''}"
  shows "sends 1 job b b'"
  using ray_request_world [OF assms(1)] assms(2,3) by (auto simp: sends_def job_path_def encode_job_name job_urls_def)

lemma sends_poll:
  assumes "ray_poll env job deadline details b = (b', r)" "job_name_ok job" "deadline - ray_time b \<le> int n * 1000"
  shows "sends n job b b' \<and> (\<forall>d. r = Inr d \<longrightarrow> finished_status d \<or> deadline \<le> ray_time b')"
  using assms
proof (induction env job deadline details b arbitrary: n rule: ray_poll.induct)
  case (1 env job deadline details b)
  show ?case
  proof (cases "ray_time b < deadline")
    case False
    then show ?thesis using "1.prems" sends_mono [OF sends_refl] by auto
  next
    case less: True
    obtain b1 r1 where req: "ray_request env ''GET'' (job_path job) None b = (b1, r1)" by fastforce
    have one: "sends 1 job b b1" using sends_request [of env "''GET''" job "[]"] req "1.prems"(2) by simp
    have n: "1 \<le> n" using less "1.prems"(3) by (cases n) auto
    show ?thesis
    proof (cases "(\<exists>e. r1 = Inl e) \<or> (\<exists>reply. r1 = Inr reply \<and> finished_status (Some reply))")
      case True
      then show ?thesis using "1.prems"(1) less req sends_mono [OF one n] by auto
    next
      case False
      then obtain reply where reply: "r1 = Inr reply" "\<not> finished_status (Some reply)" by (cases r1) auto
      let ?b2 = "ray_sleep env 1000 b1"
      have rec: "ray_poll env job deadline (Some reply) ?b2 = (b', r)"
        using "1.prems"(1) less req reply by (subst (asm) ray_poll.simps) simp
      have zero: "sends 0 job b1 ?b2" by (simp add: sends_def ray_sleep_def)
      have "deadline - ray_time ?b2 \<le> int (n - 1) * 1000"
        using "1.prems"(3) one n by (simp add: ray_sleep_def sends_def of_nat_diff)
      with "1.IH" [OF less req [symmetric] reply(1) reply(2) rec "1.prems"(2)]
      have ih: "sends (n - 1) job ?b2 b' \<and> (\<forall>d. r = Inr d \<longrightarrow> finished_status d \<or> deadline \<le> ray_time b')" by blast
      from sends_trans [OF sends_trans [OF one zero]] ih n show ?thesis by fastforce
    qed
  qed
qed

lemma sends_logs: "ray_logs env job b = (b', r) \<Longrightarrow> job_name_ok job \<Longrightarrow> sends 1 job b b'"
  by (cases r) (auto simp: ray_logs_def ray_fetch_def Let_def proc_simps sends_def job_path_def encode_job_name job_urls_def)

lemma sends_stop: "ray_stop env job b = (b', r) \<Longrightarrow> job_name_ok job \<Longrightarrow> sends 1 job b b'"
  using sends_request [where suf = "''/stop''"] sends_mono [OF sends_refl, of 1]
  by (cases r) (auto simp: ray_stop_def proc_simps)

text \<open>The cluster answered one of the requests sent so far with \<open>d\<close>.\<close>

definition reported :: "ray_env \<Rightarrow> http_request list \<Rightarrow> json \<Rightarrow> bool" where
  "reported env sent d \<longleftrightarrow> (\<exists>pre resp. prefix pre sent \<and> re_fetch env pre = Inr resp \<and> http_ok resp \<and> rs_json resp = Inr d)"

lemma reported_mono: "sends n job b b' \<Longrightarrow> reported env (ray_sent b) d \<Longrightarrow> reported env (ray_sent b') d"
  unfolding sends_def reported_def using prefix_prefix by metis

lemma request_reported: "ray_request env m p body b = (b', Inr d) \<Longrightarrow> reported env (ray_sent b') d"
  by (fastforce simp: ray_request_def ray_fetch_def Let_def proc_simps outcome_simps reported_def)

lemma poll_reported:
  assumes "ray_poll env job deadline details b = (b', Inr (Some d))" "finished_status (Some d)"
    "details \<noteq> None \<Longrightarrow> \<not> finished_status details"
  shows "reported env (ray_sent b') d"
  using assms
proof (induction env job deadline details b rule: ray_poll.induct)
  case (1 env job deadline details b)
  show ?case
  proof (cases "ray_time b < deadline")
    case False
    then show ?thesis using "1.prems" by auto
  next
    case less: True
    obtain b1 r1 where req: "ray_request env ''GET'' (job_path job) None b = (b1, r1)" by fastforce
    then obtain reply where reply: "r1 = Inr reply" using "1.prems"(1) less by (cases r1) auto
    show ?thesis
    proof (cases "finished_status (Some reply)")
      case True
      then show ?thesis using "1.prems"(1) less req reply request_reported [of env "''GET''"] by auto
    next
      case False
      have "ray_poll env job deadline (Some reply) (ray_sleep env 1000 b1) = (b', Inr (Some d))"
        using "1.prems"(1) less req reply False by (subst (asm) ray_poll.simps) simp
      then show ?thesis using "1.IH" [OF less req [symmetric] reply False] "1.prems"(2) False by blast
    qed
  qed
qed

lemma ray_collect_cases:
  assumes "ray_collectResult env job b = (b', r)" "ray_jobs b job = Some s"
  obtains (failed) e where "ray_poll env job (ray_time b + timeoutSeconds (ray_spec s) * 1000) None b = (b', Inl e)" "r = Inl e"
  | (timed_out) b1 d q e where "ray_poll env job (ray_time b + timeoutSeconds (ray_spec s) * 1000) None b = (b1, Inr d)"
      "\<not> finished_status d" "ray_stop env job b1 = (b', q)" "r = Inl e"
  | (ended) b1 d q where "ray_poll env job (ray_time b + timeoutSeconds (ray_spec s) * 1000) None b = (b1, Inr (Some d))"
      "finished_status (Some d)" "ray_logs env job b1 = (b', q)"
      "\<forall>x. r = Inr x \<longrightarrow> x_exitCode x = (if json_get ''status'' (Some d) = Some (JStr ''SUCCEEDED'') then 0 else 1)"
proof -
  let ?poll = "ray_poll env job (ray_time b + timeoutSeconds (ray_spec s) * 1000) None b"
  obtain b1 p where p: "?poll = (b1, p)" by fastforce
  show thesis
  proof (cases p)
    case (Inl e)
    then show ?thesis using assms p
      by (intro failed [of e]) (auto simp: ray_collectResult_def bindP_def ray_get_def getP_def simp del: ray_poll.simps)
  next
    case (Inr d)
    show ?thesis
    proof (cases "finished_status d")
      case False
      obtain b2 q where q: "ray_stop env job b1 = (b2, q)" by fastforce
      then show ?thesis using assms p Inr False
        by (intro timed_out [OF _ False]) (auto simp: ray_collectResult_def bindP_def ray_get_def getP_def catchP_def retP_def
            throwP_def simp del: ray_poll.simps split: sum.splits)
    next
      case True
      then obtain d' where d: "d = Some d'" by (cases d) (auto simp: finished_status_def json_get_def)
      obtain b2 q where q: "ray_logs env job b1 = (b2, q)" by fastforce
      have "b' = b2" "\<forall>x. r = Inr x \<longrightarrow> x_exitCode x = (if json_get ''status'' d = Some (JStr ''SUCCEEDED'') then 0 else 1)"
        using assms p Inr True q
        by (auto simp: ray_collectResult_def bindP_def ray_get_def getP_def retP_def Let_def simp del: ray_poll.simps split: sum.splits prod.splits)
      then show ?thesis using ended p Inr True q unfolding d by blast
    qed
  qed
qed

text \<open>
  Waiting for a Ray job is bounded and honest: collecting the result of a prepared and started
  job polls at most once per second of its timeout, sends at most one request more (for the logs or
  to stop it), every request goes to that job's own URL, and the job is reported successful only if
  the cluster itself answered so. The result names the committed image and the assigned GPUs.
\<close>

theorem ray_wait_bounded:
  assumes "spec_valid sp" "ray_prepare env job sp us b = (b1, Inr ())" "ray_start env job b1 = (b2, Inr ())"
    "ray_collectResult env job b2 = (b3, r)"
  shows "sends (nat (timeoutSeconds sp) + 1) job b2 b3
     \<and> (\<forall>x. r = Inr x \<longrightarrow> x_actualDigest x = digest sp \<and> x_gpuUuids x = us
          \<and> (x_exitCode x = 0 \<longrightarrow> (\<exists>d. reported env (ray_sent b3) d \<and> json_get ''status'' (Some d) = Some (JStr ''SUCCEEDED''))))"
proof -
  obtain s where s: "ray_jobs b2 job = Some s" "ray_spec s = sp"
    using ray.run_known [OF assms(1-3)] by (auto simp: ray_view_def)
  note name = ray_prepare_Inr(2) [OF assms(2)]
  have poll: "sends (nat (timeoutSeconds sp)) job b2 b'" if "ray_poll env job (ray_time b2 + timeoutSeconds sp * 1000) None b2 = (b', q)" for b' q
    using sends_poll [OF that name, of "nat (timeoutSeconds sp)"] by simp
  have "sends (nat (timeoutSeconds sp) + 1) job b2 b3
     \<and> (\<forall>x. r = Inr x \<longrightarrow> x_exitCode x = 0 \<longrightarrow> (\<exists>d. reported env (ray_sent b3) d \<and> json_get ''status'' (Some d) = Some (JStr ''SUCCEEDED'')))"
  proof (cases rule: ray_collect_cases [OF assms(4) s(1), unfolded s(2)])
    case (1 e)
    then show ?thesis using sends_mono [OF poll [OF 1(1)]] by simp
  next
    case (2 b' d q e)
    then show ?thesis using sends_trans [OF poll [OF 2(1)] sends_stop [OF 2(3) name]] by simp
  next
    case (3 b' d q)
    note logs = sends_logs [OF 3(3) name]
    have "reported env (ray_sent b3) d" using reported_mono [OF logs poll_reported [OF 3(1,2)]] by simp
    then show ?thesis using sends_trans [OF poll [OF 3(1)] logs] 3(4) by auto
  qed
  then show ?thesis using ray.run_assigned [OF assms(1-3)] assms(4) by blast
qed

section \<open>A cluster that runs the job\<close>

definition sample_ray_spec :: job_spec where
  "sample_ray_spec = sample_spec\<lparr>distributed := Some \<lparr>ds_framework = ''ray'', ds_workers = 1, ds_gpusPerWorker = 0,
     ds_entrypoint = ''python train.py''\<rparr>\<rparr>"

definition sample_reply :: "http_request \<Rightarrow> json" where
  "sample_reply r = (if rq_url r = ''http://ray/api/version'' then JObj [(''ray_version'', JStr ''2.9'')]
     else if rq_url r = ''http://ray/api/jobs/'' then JObj [(''submission_id'', JStr ''job1'')]
     else JObj [(''status'', JStr ''SUCCEEDED''), (''end_time'', jint 9000)])"

definition sample_cluster :: ray_env where
  "sample_cluster = \<lparr>re_fetch = (\<lambda>sent. Inr \<lparr>rs_status = 200, rs_text = utf8 ''done'', rs_json = Inr (sample_reply (last sent))\<rparr>),
     re_delay = (\<lambda>_. 3), re_crypto = sample_crypto\<rparr>"

definition sample_ray :: ray_backend where
  "sample_ray = \<lparr>ray_jobs = Map.empty, ray_address = ''http://ray'', ray_headers = [], ray_sent = [], ray_time = 5000\<rparr>"

lemma sample_ray_spec_valid: "spec_valid sample_ray_spec"
  using sample_spec_fields
  by (simp add: sample_ray_spec_def spec_valid_def fields_ok_def superRefine_def wants_tee_def distributed_ok_def in_range_def)
    (simp add: sample_spec_def)

lemma sample_request:
  "ray_request sample_cluster m p body b =
     (b\<lparr>ray_sent := ray_sent b @ [\<lparr>rq_method = m, rq_url = ray_address b @ p,
         rq_headers = request_headers (ray_headers b) (body \<noteq> None), rq_body = body\<rparr>], ray_time := ray_time b + 3\<rparr>,
      Inr (sample_reply \<lparr>rq_method = m, rq_url = ray_address b @ p,
         rq_headers = request_headers (ray_headers b) (body \<noteq> None), rq_body = body\<rparr>))"
  by (simp add: ray_request_def ray_fetch_def Let_def bindP_def getP_def requireP_def liftP_def sample_cluster_def http_ok_def)

lemma sample_job_name: "job_name_ok ''job1''"
  by (simp add: job_name_ok_def is_lower_def is_digit_def)

lemma sample_ray_run:
  "\<exists>b1 b2 b3 x. ray_prepare sample_cluster ''job1'' sample_ray_spec [] sample_ray = (b1, Inr ())
     \<and> ray_start sample_cluster ''job1'' b1 = (b2, Inr ()) \<and> ray_collectResult sample_cluster ''job1'' b2 = (b3, Inr x)
     \<and> x_exitCode x = 0"
proof -
  let ?j = "\<lparr>ray_spec = sample_ray_spec, ray_gpuUuids = [], ray_startedAt = 0\<rparr>"
  have parts: "distributed sample_ray_spec = Some \<lparr>ds_framework = ''ray'', ds_workers = 1, ds_gpusPerWorker = 0,
     ds_entrypoint = ''python train.py''\<rparr>" "re_crypto sample_cluster = sample_crypto" "timeoutSeconds sample_ray_spec = 300"
    by (simp_all add: sample_ray_spec_def sample_cluster_def sample_spec_def)
  obtain b1 where b1: "ray_prepare sample_cluster ''job1'' sample_ray_spec [] sample_ray = (b1, Inr ())"
    "ray_jobs b1 ''job1'' = Some ?j" "ray_address b1 = ''http://ray''" "ray_time b1 = 5003" "ray_headers b1 = []"
    by (simp add: ray_prepare_def bindP_def requireP_def sample_request sample_job_name wants_ray_def sample_ray_spec_def
        ray_set_def modifyP_def sample_ray_def sample_reply_def truthy_def json_get_def)
      (simp add: sample_spec_def)
  obtain b2 where b2: "ray_start sample_cluster ''job1'' b1 = (b2, Inr ())"
    "ray_jobs b2 ''job1'' = Some (?j\<lparr>ray_startedAt := 5\<rparr>)" "ray_address b2 = ''http://ray''" "ray_time b2 = 5006" "ray_headers b2 = []"
    using b1(2-5) parts
    by (simp add: ray_start_def bindP_def ray_get_def liftP_def requireP_def sample_request getP_def
        ray_set_def modifyP_def sample_reply_def json_get_def)
  have "\<exists>b3 x. ray_collectResult sample_cluster ''job1'' b2 = (b3, Inr x) \<and> x_exitCode x = 0"
    using b2(2-5)
    by (simp add: ray_collectResult_def bindP_def ray_get_def getP_def parts(3) sample_request job_path_def encode_job_name sample_job_name
        sample_reply_def finished_status_def json_get_def ray_logs_def ray_fetch_def Let_def requireP_def retP_def)
      (simp add: sample_cluster_def http_ok_def)
  with b1(1) b2(1) show ?thesis by blast
qed

theorem ray_wait_bounded_witness:
  "\<exists>b1 b2 b3 x. ray_prepare sample_cluster ''job1'' sample_ray_spec [] sample_ray = (b1, Inr ())
     \<and> ray_start sample_cluster ''job1'' b1 = (b2, Inr ()) \<and> ray_collectResult sample_cluster ''job1'' b2 = (b3, Inr x)
     \<and> sends (nat (timeoutSeconds sample_ray_spec) + 1) ''job1'' b2 b3
     \<and> (\<exists>d. reported sample_cluster (ray_sent b3) d \<and> json_get ''status'' (Some d) = Some (JStr ''SUCCEEDED''))"
proof -
  obtain b1 b2 b3 x where r: "ray_prepare sample_cluster ''job1'' sample_ray_spec [] sample_ray = (b1, Inr ())"
    "ray_start sample_cluster ''job1'' b1 = (b2, Inr ())" "ray_collectResult sample_cluster ''job1'' b2 = (b3, Inr x)" "x_exitCode x = 0"
    using sample_ray_run by blast
  from ray_wait_bounded [OF sample_ray_spec_valid r(1-3)] r show ?thesis by blast
qed

end
