(* ===== verification/Vllm.thy ===== *)
theory Vllm
  imports Executors
begin

text \<open>
  The vLLM backend (\<^verbatim>\<open>executors/vllm/index.ts\<close>): a fixed-duration inference service in a container
  on an internal network. Docker, OPA, \<^verbatim>\<open>nvidia-smi\<close> and the service's health endpoint are a
  parameter whose answers are functions of everything done so far; time moves by arbitrary
  non-negative delays and a timer fires no earlier than asked. Both loops are total functions.
\<close>

section \<open>The host\<close>

datatype service_effect = SDocker "string list" | SOpa json | SHealth string | SSmi

record vllm_env =
  ve_docker :: "service_effect list \<Rightarrow> json outcome"
  ve_logs :: "service_effect list \<Rightarrow> (buffer \<times> buffer) outcome"
  ve_opa :: "json \<Rightarrow> opa_run"
  ve_health :: "service_effect list \<Rightarrow> bool outcome"
  ve_smi :: "service_effect list \<Rightarrow> string outcome"
  ve_delay :: "service_effect list \<Rightarrow> nat"

record vllm_job =
  vj_spec :: job_spec
  vj_gpuUuids :: "string list"
  vj_startedAt :: int
  vj_endpoint :: "string option"

record vllm_backend =
  vb_jobs :: "string \<rightharpoonup> vllm_job"
  vb_registries :: "string list option"
  vb_runtime :: "oci_runtime option"
  vb_log :: "service_effect list"
  vb_time :: int

definition new_VllmBackend :: "string list option \<Rightarrow> oci_runtime option \<Rightarrow> int \<Rightarrow> vllm_backend" where
  "new_VllmBackend registries rt now =
     \<lparr>vb_jobs = Map.empty, vb_registries = registries, vb_runtime = rt, vb_log = [], vb_time = now\<rparr>"

definition vllm_runtime :: "vllm_backend \<Rightarrow> oci_runtime" where
  "vllm_runtime b = (case vb_runtime b of Some r \<Rightarrow> r | None \<Rightarrow> Crunc)"

definition vllm_registries :: "vllm_backend \<Rightarrow> string list" where
  "vllm_registries b = (case vb_registries b of Some r \<Rightarrow> r | None \<Rightarrow> [''ghcr.io'', ''docker.io'', ''nvcr.io''])"

text \<open>An effect is recorded and takes time; its answer is read from the record.\<close>

definition actP :: "vllm_env \<Rightarrow> service_effect \<Rightarrow> (service_effect list \<Rightarrow> 'a outcome) \<Rightarrow> (vllm_backend, 'a) proc" where
  "actP env e answer = (\<lambda>b. let done = vb_log b @ [e] in
     (b\<lparr>vb_log := done, vb_time := vb_time b + int (ve_delay env done)\<rparr>, answer done))"

definition vllm_exec :: "vllm_env \<Rightarrow> string list \<Rightarrow> (vllm_backend, json) proc" where
  "vllm_exec env args = actP env (SDocker args) (ve_docker env)"

definition vllm_sleep :: "vllm_env \<Rightarrow> int \<Rightarrow> vllm_backend \<Rightarrow> vllm_backend" where
  "vllm_sleep env ms b = b\<lparr>vb_time := vb_time b + max 0 ms + int (ve_delay env (vb_log b))\<rparr>"

definition vllm_get :: "string \<Rightarrow> (vllm_backend, vllm_job) proc" where
  "vllm_get job = (\<lambda>b. (b, case vb_jobs b job of Some s \<Rightarrow> Inr s | None \<Rightarrow> Inl ''Unknown vLLM service''))"

definition vllm_set :: "string \<Rightarrow> vllm_job \<Rightarrow> (vllm_backend, unit) proc" where
  "vllm_set job s = modifyP (\<lambda>b. b\<lparr>vb_jobs := (vb_jobs b)(job \<mapsto> s)\<rparr>)"

definition service_name :: "string \<Rightarrow> string" where
  "service_name job = ''vc-service-'' @ job"

section \<open>The methods\<close>

definition vllm_assertRuntime :: "vllm_env \<Rightarrow> (vllm_backend, unit) proc" where
  "vllm_assertRuntime env = bindP getP (\<lambda>b.
     bindP (vllm_exec env [''info'', ''--format'', ''{{json .Runtimes}}'']) (\<lambda>out.
       requireP (truthy (json_get (runtime_name (vllm_runtime b)) (Some out)))
         (''Configured OCI runtime '' @ runtime_name (vllm_runtime b) @ '' is unavailable'')))"

text \<open>\<^verbatim>\<open>stdout.trim().match(/127\.0\.0\.1:(\d+)$/m)\<close>: the leftmost match, at the end of a line.\<close>

fun find_port :: "string \<Rightarrow> string option" where
  "find_port [] = None"
| "find_port (c # s) = (let rest = drop 10 (c # s); ds = takeWhile is_digit rest; after = dropWhile is_digit rest in
     if take 10 (c # s) = ''127.0.0.1:'' \<and> ds \<noteq> [] \<and> (after = [] \<or> hd after \<in> {CHR 0x0A, CHR 0x0D})
     then Some ds else find_port s)"

definition readEndpoint :: "vllm_env \<Rightarrow> string \<Rightarrow> (vllm_backend, string) proc" where
  "readEndpoint env job = bindP (vllm_exec env [''port'', service_name job, ''8000/tcp'']) (\<lambda>out.
     case Option.bind (json_str out) (\<lambda>s. find_port (trim s)) of
       None \<Rightarrow> throwP ''Docker did not publish the vLLM loopback port''
     | Some port \<Rightarrow> retP (''http://127.0.0.1:'' @ port))"

definition ensure_network :: "vllm_env \<Rightarrow> (vllm_backend, unit) proc" where
  "ensure_network env = bindP (catchP (vllm_exec env [''network'', ''inspect'', vllm_network])
     (\<lambda>_. vllm_exec env [''network'', ''create'', ''--internal'', vllm_network])) (\<lambda>_. retP ())"

definition pulled_digest :: "job_spec \<Rightarrow> string \<Rightarrow> bool" where
  "pulled_digest spec v \<longleftrightarrow> (case split_on CHR ''@'' v of _ # g # _ \<Rightarrow> g = digest spec | _ \<Rightarrow> False)"

definition vllm_admission :: "vllm_backend \<Rightarrow> job_spec \<Rightarrow> unit outcome" where
  "vllm_admission b spec =
     andThen (guard (registry_of spec \<in> set (vllm_registries b)) ''Registry is not allowed by this provider'') (\<lambda>_.
     andThen (guard (inputs spec = []) ''Input materialization is not enabled for vLLM'') (\<lambda>_.
     andThen (guard (\<not> wants_tee spec) ''TEE service execution requires a TEE executor'') (\<lambda>_.
       guard (proof_of spec = None) ''Proof workloads require a proof-capable executor'')))"

definition vllm_prepare :: "vllm_env \<Rightarrow> string \<Rightarrow> job_spec \<Rightarrow> string list \<Rightarrow> (vllm_backend, unit) proc" where
  "vllm_prepare env job spec gpuUuids =
     bindP getP (\<lambda>b.
     bindP (liftP (vllmDockerArgs job spec gpuUuids (vllm_runtime b))) (\<lambda>args.
     bindP (liftP (vllm_admission b spec)) (\<lambda>_.
     bindP (actP env (SOpa (vllm_opa_input spec)) (\<lambda>_. enforceOpa (ve_opa env) (vllm_opa_input spec))) (\<lambda>_.
     bindP (vllm_assertRuntime env) (\<lambda>_.
     bindP (ensure_network env) (\<lambda>_.
     bindP (vllm_exec env [''pull'', image_ref spec]) (\<lambda>_.
     bindP (vllm_exec env [''image'', ''inspect'', image_ref spec, ''--format'', ''{{json .RepoDigests}}'']) (\<lambda>out.
     bindP (liftP (json_strings out)) (\<lambda>ds.
     bindP (requireP (list_ex (pulled_digest spec) ds) ''Pulled vLLM image does not match committed digest'') (\<lambda>_.
     bindP (vllm_exec env args) (\<lambda>_.
       vllm_set job \<lparr>vj_spec = spec, vj_gpuUuids = gpuUuids, vj_startedAt = 0, vj_endpoint = None\<rparr>)))))))))))"

definition vllm_start :: "vllm_env \<Rightarrow> string \<Rightarrow> (vllm_backend, unit) proc" where
  "vllm_start env job =
     bindP (vllm_get job) (\<lambda>s. bindP getP (\<lambda>b.
     let s1 = s\<lparr>vj_startedAt := vb_time b div 1000\<rparr> in
     bindP (vllm_set job s1) (\<lambda>_.
     bindP (vllm_exec env [''start'', service_name job]) (\<lambda>_.
     bindP (readEndpoint env job) (\<lambda>e. vllm_set job (s1\<lparr>vj_endpoint := Some e\<rparr>))))))"

text \<open>Docker prints \<^verbatim>\<open>StartedAt\<close> as an RFC 3339 time.\<close>

definition vllm_recover :: "vllm_env \<Rightarrow> string \<Rightarrow> job_spec \<Rightarrow> string list \<Rightarrow> (vllm_backend, unit) proc" where
  "vllm_recover env job spec gpuUuids =
     bindP getP (\<lambda>b.
     bindP (liftP (vllmDockerArgs job spec gpuUuids (vllm_runtime b))) (\<lambda>_.
     bindP (vllm_assertRuntime env) (\<lambda>_.
     bindP (vllm_exec env [''inspect'', service_name job, ''--format'', ''{{json .}}'']) (\<lambda>out.
     let cfg = json_get ''Config'' (Some out); labels = json_get ''Labels'' cfg in
     bindP (requireP (json_get ''vericompute.managed'' labels = Some (JStr ''true'')
         \<and> json_get ''vericompute.job'' labels = Some (JStr job) \<and> json_get ''Image'' cfg = Some (JStr (image_ref spec)))
       ''Recovered vLLM container does not match the job'') (\<lambda>_.
     case Option.bind (json_get ''StartedAt'' (json_get ''State'' (Some out))) (\<lambda>j. Option.bind (json_str j) iso_seconds) of
       None \<Rightarrow> throwP ''Invalid Date''
     | Some t \<Rightarrow> bindP (readEndpoint env job) (\<lambda>e.
         vllm_set job \<lparr>vj_spec = spec, vj_gpuUuids = gpuUuids, vj_startedAt = t, vj_endpoint = Some e\<rparr>))))))"

definition vllm_logs :: "vllm_env \<Rightarrow> string \<Rightarrow> (vllm_backend, buffer \<times> buffer) proc" where
  "vllm_logs env job = bindP (vllm_get job) (\<lambda>_. actP env (SDocker [''logs'', service_name job]) (ve_logs env))"

definition vllm_status :: "vllm_env \<Rightarrow> string \<Rightarrow> (vllm_backend, string) proc" where
  "vllm_status env job =
     bindP (vllm_get job) (\<lambda>_.
     bindP (vllm_exec env [''inspect'', ''--format'', ''{{.State.Status}}'', service_name job]) (\<lambda>out.
       retP (case out of JStr s \<Rightarrow>
           (if trim s = ''running'' then ''running'' else if trim s = ''created'' then ''prepared'' else ''finished'')
         | _ \<Rightarrow> ''finished'')))"

definition vllm_stop :: "vllm_env \<Rightarrow> string \<Rightarrow> (vllm_backend, unit) proc" where
  "vllm_stop env job =
     bindP (vllm_get job) (\<lambda>_.
       catchP (bindP (vllm_exec env [''kill'', service_name job]) (\<lambda>_. retP ())) (\<lambda>_. retP ()))"

definition vllm_cleanup :: "vllm_env \<Rightarrow> string \<Rightarrow> (vllm_backend, unit) proc" where
  "vllm_cleanup env job =
     bindP (catchP (bindP (vllm_exec env [''rm'', ''-f'', service_name job]) (\<lambda>_. retP ())) (\<lambda>_. retP ())) (\<lambda>_.
       modifyP (\<lambda>b. b\<lparr>vb_jobs := (vb_jobs b)(job := None)\<rparr>))"

section \<open>Time only moves forward\<close>

text \<open>What every step of the backend that does not touch the map keeps.\<close>

definition later :: "vllm_backend \<Rightarrow> vllm_backend \<Rightarrow> bool" where
  "later b b' \<longleftrightarrow> vb_time b \<le> vb_time b' \<and> vb_jobs b' = vb_jobs b"

lemma later_refl: "later b b"
  by (simp add: later_def)

lemma later_trans: "later b b1 \<Longrightarrow> later b1 b2 \<Longrightarrow> later b b2"
  by (simp add: later_def)

definition steady :: "(vllm_backend, 'a) proc \<Rightarrow> bool" where
  "steady m \<longleftrightarrow> (\<forall>b b' r. m b = (b', r) \<longrightarrow> later b b')"

lemma steadyD: "steady m \<Longrightarrow> m b = (b', r) \<Longrightarrow> later b b'"
  by (simp add: steady_def)

named_theorems steady_intros \<open>programs that keep the map of jobs\<close>

lemma steady_bind [steady_intros]: "steady m \<Longrightarrow> (\<And>x. steady (f x)) \<Longrightarrow> steady (bindP m f)"
  unfolding steady_def bindP_def by (fastforce split: prod.splits sum.splits intro: later_trans)

lemma steady_catch [steady_intros]: "steady m \<Longrightarrow> (\<And>e. steady (h e)) \<Longrightarrow> steady (catchP m h)"
  unfolding steady_def catchP_def by (fastforce split: prod.splits sum.splits intro: later_trans)

lemma steady_basic [steady_intros]:
  "steady (retP x)" "steady (throwP e)" "steady (liftP y)" "steady getP" "steady (requireP c e)" "steady (vllm_get job)"
  "steady (actP env a ans)"
  by (auto simp: steady_def later_refl proc_simps vllm_get_def actP_def Let_def) (simp add: later_def)

lemma steady_option [steady_intros]: "steady m \<Longrightarrow> (\<And>x. steady (f x)) \<Longrightarrow> steady (case z of None \<Rightarrow> m | Some x \<Rightarrow> f x)"
  by (cases z) simp_all

lemma steady_ops [steady_intros]:
  "steady (vllm_exec env args)" "steady (readEndpoint env job)" "steady (vllm_status env job)" "steady (vllm_stop env job)"
  "steady (vllm_logs env job)" "steady (vllm_assertRuntime env)" "steady (ensure_network env)"
  unfolding vllm_exec_def readEndpoint_def vllm_status_def vllm_stop_def vllm_logs_def vllm_assertRuntime_def ensure_network_def
  by (intro steady_intros)+

section \<open>Collecting the result\<close>

text \<open>A failed health request is ignored: \<^verbatim>\<open>try { ... } catch {}\<close>.\<close>

definition healthy :: "vllm_env \<Rightarrow> string \<Rightarrow> (vllm_backend, bool) proc" where
  "healthy env endpoint = catchP (actP env (SHealth (endpoint @ ''/health'')) (ve_health env)) (\<lambda>_. retP False)"

lemma steady_healthy [steady_intros]: "steady (healthy env e)"
  unfolding healthy_def by (intro steady_intros)

text \<open>
  One turn of the readiness loop: \<open>Some True\<close> when the service answers, \<open>Some False\<close> when its
  container no longer runs, \<open>None\<close> to try again.
\<close>

definition probe :: "vllm_env \<Rightarrow> string \<Rightarrow> string \<Rightarrow> (vllm_backend, bool option) proc" where
  "probe env job endpoint = bindP (healthy env endpoint) (\<lambda>ok.
     if ok then retP (Some True) else bindP (vllm_status env job) (\<lambda>st. retP (if st \<noteq> ''running'' then Some False else None)))"

lemma steady_if [steady_intros]: "steady m \<Longrightarrow> steady n \<Longrightarrow> steady (if c then m else n)"
  by simp

lemma steady_probe [steady_intros]: "steady (probe env job e)"
  unfolding probe_def by (intro steady_intros)

function ready_loop :: "vllm_env \<Rightarrow> string \<Rightarrow> string \<Rightarrow> int \<Rightarrow> vllm_backend \<Rightarrow> vllm_backend \<times> bool outcome" where
  "ready_loop env job endpoint deadline b = (if vb_time b < deadline then
     (case probe env job endpoint b of
        (b', Inl e) \<Rightarrow> (b', Inl e)
      | (b', Inr (Some ready)) \<Rightarrow> (b', Inr ready)
      | (b', Inr None) \<Rightarrow> ready_loop env job endpoint deadline (vllm_sleep env 1000 b'))
     else (b, Inr False))"
  by pat_completeness auto
termination
  by (relation "measure (\<lambda>(env, job, endpoint, deadline, b). nat (deadline - vb_time b))")
    (auto simp: vllm_sleep_def later_def dest!: steadyD [OF steady_probe, OF sym])

definition sample_gpus :: "vllm_env \<Rightarrow> string list \<Rightarrow> (vllm_backend, rat) proc" where
  "sample_gpus env gpus = (if gpus = [] then retP 0 else actP env SSmi (\<lambda>done. sampleGpu (ve_smi env done) gpus))"

definition serve_tick :: "vllm_env \<Rightarrow> string \<Rightarrow> string list \<Rightarrow> (vllm_backend, rat) proc" where
  "serve_tick env job gpus =
     bindP (sample_gpus env gpus) (\<lambda>peak.
     bindP (vllm_status env job) (\<lambda>st.
     bindP (requireP (st = ''running'') ''vLLM stopped before its purchased duration elapsed'') (\<lambda>_. retP peak)))"

lemma steady_serve [steady_intros]: "steady (sample_gpus env gpus)" "steady (serve_tick env job gpus)"
  unfolding serve_tick_def sample_gpus_def by (intro steady_intros)+

function serve_loop :: "vllm_env \<Rightarrow> string \<Rightarrow> string list \<Rightarrow> int \<Rightarrow> nat \<Rightarrow> rat \<Rightarrow> vllm_backend \<Rightarrow> vllm_backend \<times> (nat \<times> rat) outcome" where
  "serve_loop env job gpus until samples peak b = (if vb_time b < until then
     (case serve_tick env job gpus (vllm_sleep env (min 5000 (max 0 (until - vb_time b))) b) of
        (b', Inl e) \<Rightarrow> (b', Inl e)
      | (b', Inr p) \<Rightarrow> serve_loop env job gpus until (samples + 1) (max peak p) b')
     else (b, Inr (samples, peak)))"
  by pat_completeness auto
termination
  by (relation "measure (\<lambda>(env, job, gpus, until, samples, peak, b). nat (until - vb_time b))")
    (auto simp: vllm_sleep_def later_def dest!: steadyD [OF steady_serve(2), OF sym])

text \<open>\<^verbatim>\<open>JSON.stringify\<close> of the summary; a model path that was admitted needs no escapes.\<close>

definition service_summary :: "string \<Rightarrow> int \<Rightarrow> string" where
  "service_summary model served = ''{'' @ [CHR 0x22] @ ''kind'' @ [CHR 0x22] @ '':'' @ [CHR 0x22] @ ''vllm'' @ [CHR 0x22] @ '','' @
     [CHR 0x22] @ ''model'' @ [CHR 0x22] @ '':'' @ [CHR 0x22] @ model @ [CHR 0x22] @ '','' @
     [CHR 0x22] @ ''ready'' @ [CHR 0x22] @ '':true,'' @ [CHR 0x22] @ ''servedSeconds'' @ [CHR 0x22] @ '':'' @ bigint_toString served @ ''}''"

definition vllm_collectResult :: "vllm_env \<Rightarrow> string \<Rightarrow> (vllm_backend, exec_result) proc" where
  "vllm_collectResult env job =
     bindP (vllm_get job) (\<lambda>s.
     bindP (case vj_endpoint s of Some e \<Rightarrow> retP e | None \<Rightarrow> readEndpoint env job) (\<lambda>endpoint.
     bindP getP (\<lambda>b0.
     bindP (ready_loop env job endpoint (vb_time b0 + maxStartDelaySeconds (vj_spec s) * 1000)) (\<lambda>ready.
     if \<not> ready then bindP (vllm_stop env job) (\<lambda>_. throwP ''vLLM did not become ready before the start deadline'')
     else bindP (sample_gpus env (vj_gpuUuids s)) (\<lambda>p0.
     case service (vj_spec s) of None \<Rightarrow> throwP ''TypeError'' | Some sv \<Rightarrow>
     bindP (serve_loop env job (vj_gpuUuids s) (vj_startedAt s * 1000 + sv_durationSeconds sv * 1000) 1 (max 0 p0)) (\<lambda>(samples, peak).
     bindP (vllm_stop env job) (\<lambda>_. bindP getP (\<lambda>b.
     bindP (vllm_logs env job) (\<lambda>(out, errs).
     let finishedAt = vb_time b div 1000 in retP
       \<lparr>x_stdout = out, x_stderr = errs, x_result = utf8 (service_summary (sv_model sv) (finishedAt - vj_startedAt s)), x_exitCode = 0,
        x_startedAt = vj_startedAt s, x_finishedAt = finishedAt, x_gpuUuids = vj_gpuUuids s, x_actualDigest = digest (vj_spec s),
        x_telemetry = \<lparr>t_gpuUuids = vj_gpuUuids s, t_samples = of_nat samples, t_peakVramMb = peak,
          t_durationSeconds = of_int (finishedAt - vj_startedAt s)\<rparr>\<rparr>)))))))))"

section \<open>The contract\<close>

lemma vllm_get_eq [proc_simps]:
  "vllm_get job b = (b', r) \<longleftrightarrow> b' = b \<and> (case vb_jobs b job of Some s \<Rightarrow> Inr s | None \<Rightarrow> Inl ''Unknown vLLM service'') = r"
  by (auto simp: vllm_get_def)

lemma vllm_set_eq [proc_simps]: "vllm_set job s b = (b', r) \<longleftrightarrow> b' = b\<lparr>vb_jobs := (vb_jobs b)(job \<mapsto> s)\<rparr> \<and> r = Inr ()"
  by (auto simp: vllm_set_def proc_simps)

lemmas keeps_jobs = steady_ops [THEN steadyD] steady_basic(7) [THEN steadyD] steady_serve [THEN steadyD] steady_probe [THEN steadyD]

definition vllm_view :: "vllm_job \<Rightarrow> job_spec \<times> string list \<times> int" where
  "vllm_view s = (vj_spec s, vj_gpuUuids s, vj_startedAt s)"

lemma later_sleep: "later b (vllm_sleep env ms b)"
  by (simp add: later_def vllm_sleep_def)

lemma ready_loop_later: "ready_loop env job e deadline b = (b', r) \<Longrightarrow> later b b'"
proof (induction env job e deadline b rule: ready_loop.induct)
  case (1 env job e deadline b)
  obtain b1 r1 where p: "probe env job e b = (b1, r1)" by fastforce
  then have l: "later b b1" by (rule steadyD [OF steady_probe])
  show ?case
  proof (cases "vb_time b < deadline \<and> r1 = Inr None")
    case True
    then have "ready_loop env job e deadline (vllm_sleep env 1000 b1) = (b', r)"
      using "1.prems" p by (subst (asm) ready_loop.simps) simp
    with "1.IH" [OF _ p [symmetric]] True have "later (vllm_sleep env 1000 b1) b'" by simp
    then show ?thesis by (rule later_trans [OF later_trans [OF l later_sleep]])
  next
    case False
    then show ?thesis using "1.prems" p l
      by (subst (asm) ready_loop.simps) (auto simp: later_refl split: if_splits sum.splits option.splits)
  qed
qed

text \<open>A service loop that returns has run until the purchased end, seeing the container run at every turn.\<close>

lemma serve_loop_until:
  assumes "serve_loop env job gpus until n peak b = (b', r)"
  shows "later b b' \<and> (\<forall>m p. r = Inr (m, p) \<longrightarrow> until \<le> vb_time b' \<and> n \<le> m \<and> peak \<le> p)"
  using assms
proof (induction env job gpus until n peak b rule: serve_loop.induct)
  case (1 env job gpus until n peak b)
  let ?b0 = "vllm_sleep env (min 5000 (max 0 (until - vb_time b))) b"
  obtain b1 r1 where t: "serve_tick env job gpus ?b0 = (b1, r1)" by fastforce
  have l: "later b b1" by (rule later_trans [OF later_sleep steadyD [OF steady_serve(2) t]])
  show ?case
  proof (cases "vb_time b < until")
    case False
    then show ?thesis using "1.prems" by (auto simp: later_refl)
  next
    case less: True
    show ?thesis
    proof (cases r1)
      case (Inl e)
      then show ?thesis using "1.prems" less t l by auto
    next
      case (Inr p)
      then have "serve_loop env job gpus until (n + 1) (max peak p) b1 = (b', r)"
        using "1.prems" less t by (subst (asm) serve_loop.simps) simp
      note ih = "1.IH" [OF less t [symmetric] Inr this]
      then have "later b b'" using l later_trans by blast
      then show ?thesis using ih by fastforce
    qed
  qed
qed

lemma vllm_prepare_Inr:
  assumes "vllm_prepare env job spec us b = (b', Inr ())"
  shows "vb_jobs b' = (vb_jobs b)(job \<mapsto> \<lparr>vj_spec = spec, vj_gpuUuids = us, vj_startedAt = 0, vj_endpoint = None\<rparr>)"
  using assms by (auto simp: vllm_prepare_def proc_simps later_def dest!: keeps_jobs)

lemma vllm_start_Inr:
  assumes "vllm_start env job b = (b', Inr ())"
  obtains s e where "vb_jobs b job = Some s"
    "vb_jobs b' = (vb_jobs b)(job \<mapsto> s\<lparr>vj_startedAt := vb_time b div 1000, vj_endpoint := Some e\<rparr>)"
  using assms by (auto simp: vllm_start_def proc_simps later_def Let_def dest!: keeps_jobs split: option.splits)

lemma vllm_collect_Inr:
  assumes "vllm_collectResult env job b = (b', Inr x)"
  obtains s sv where "vb_jobs b job = Some s" "service (vj_spec s) = Some sv"
    "x_actualDigest x = digest (vj_spec s)" "x_gpuUuids x = vj_gpuUuids s"
    "x_startedAt x = vj_startedAt s" "t_gpuUuids (x_telemetry x) = vj_gpuUuids s" "0 < t_samples (x_telemetry x)"
    "t_durationSeconds (x_telemetry x) = of_int (x_finishedAt x - x_startedAt x)"
    "vj_startedAt s + sv_durationSeconds sv \<le> x_finishedAt x" "0 \<le> t_peakVramMb (x_telemetry x)"
    "x_result x = utf8 (service_summary (sv_model sv) (x_finishedAt x - x_startedAt x))"
proof -
  obtain s sv b1 b2 b3 b4 p0 n p out errs where s: "vb_jobs b job = Some s" "service (vj_spec s) = Some sv"
    and loop: "serve_loop env job (vj_gpuUuids s) (vj_startedAt s * 1000 + sv_durationSeconds sv * 1000) 1 (max 0 p0) b1 = (b2, Inr (n, p))"
    and stop: "vllm_stop env job b2 = (b3, Inr ())"
    and x: "x = \<lparr>x_stdout = out, x_stderr = errs, x_result = utf8 (service_summary (sv_model sv) (vb_time b3 div 1000 - vj_startedAt s)),
        x_exitCode = 0, x_startedAt = vj_startedAt s, x_finishedAt = vb_time b3 div 1000, x_gpuUuids = vj_gpuUuids s,
        x_actualDigest = digest (vj_spec s),
        x_telemetry = \<lparr>t_gpuUuids = vj_gpuUuids s, t_samples = of_nat n, t_peakVramMb = p,
          t_durationSeconds = of_int (vb_time b3 div 1000 - vj_startedAt s)\<rparr>\<rparr>"
    using assms
    by (auto simp: vllm_collectResult_def proc_simps Let_def simp del: serve_loop.simps ready_loop.simps split: option.splits if_splits)
  have "vj_startedAt s * 1000 + sv_durationSeconds sv * 1000 \<le> vb_time b3" "1 \<le> n" "max 0 p0 \<le> p"
    using serve_loop_until [OF loop] steadyD [OF steady_ops(4) stop] by (auto simp: later_def)
  then show thesis using that [OF s] x by auto
qed

interpretation vllm: timed_backend "vllm_prepare env" "vllm_start env" "vllm_collectResult env"
  "\<lambda>b j. map_option vllm_view (vb_jobs b j)" for env
proof
  fix sp j us b b'
  assume "vllm_prepare env j sp us b = (b', Inr ())"
  then show "\<exists>t. map_option vllm_view (vb_jobs b' j) = Some (sp, us, t)" by (simp add: vllm_prepare_Inr vllm_view_def)
next
  fix j b b'
  assume "vllm_start env j b = (b', Inr ())"
  then show "\<exists>sp us t t'. map_option vllm_view (vb_jobs b j) = Some (sp, us, t) \<and> map_option vllm_view (vb_jobs b' j) = Some (sp, us, t')"
    by (rule vllm_start_Inr) (simp add: vllm_view_def)
qed (auto simp: vllm_view_def elim!: vllm_collect_Inr)

section \<open>The purchased duration\<close>

text \<open>
  A vLLM service that is reported served was served in full: when preparing, starting and
  collecting succeed, the finish is at least the purchased duration after the start, the telemetry
  has at least one sample and lasts exactly from start to finish, and the result names the committed
  image, the assigned GPUs and the served seconds.
\<close>

theorem vllm_full_duration:
  assumes "spec_valid sp" "vllm_prepare env job sp us b = (b1, Inr ())" "vllm_start env job b1 = (b2, Inr ())"
    "vllm_collectResult env job b2 = (b3, Inr x)"
  shows "\<exists>sv. service sp = Some sv \<and> sv_durationSeconds sv \<le> x_finishedAt x - x_startedAt x
     \<and> x_startedAt x = vb_time b1 div 1000
     \<and> x_result x = utf8 (service_summary (sv_model sv) (x_finishedAt x - x_startedAt x))
     \<and> x_actualDigest x = digest sp \<and> x_gpuUuids x = us \<and> 0 < t_samples (x_telemetry x)
     \<and> t_durationSeconds (x_telemetry x) = of_int (x_finishedAt x - x_startedAt x)"
proof -
  obtain s e where "vb_jobs b1 job = Some s" "vb_jobs b2 = (vb_jobs b1)(job \<mapsto> s\<lparr>vj_startedAt := vb_time b1 div 1000, vj_endpoint := Some e\<rparr>)"
    by (rule vllm_start_Inr [OF assms(3)])
  then have j: "vb_jobs b2 job = Some (s\<lparr>vj_startedAt := vb_time b1 div 1000, vj_endpoint := Some e\<rparr>)" "vj_spec s = sp"
    using vllm_prepare_Inr [OF assms(2)] by auto
  show ?thesis
    using vllm.run_bound [OF assms] j by (auto intro: vllm_collect_Inr [OF assms(4)])
qed

definition sample_service_spec :: job_spec where
  "sample_service_spec = sample_spec\<lparr>service := Some \<lparr>sv_kind = ''vllm'', sv_model = ''/models/m'', sv_contextTokens = 4096,
     sv_replicas = 1, sv_durationSeconds = 60\<rparr>\<rparr>"

text \<open>A host on which every command takes ten seconds.\<close>

definition sample_answer :: "service_effect \<Rightarrow> json outcome" where
  "sample_answer e = (case e of SDocker args \<Rightarrow>
       (if hd args = ''info'' then Inr (JObj [(''runc'', JStr ''runc'')])
        else if hd args = ''image'' then Inr (JArr [JStr (image_ref sample_service_spec)])
        else if hd args = ''port'' then Inr (JStr ''127.0.0.1:4000'') else Inr (JStr ''running''))
     | _ \<Rightarrow> Inr JNull)"

definition sample_host :: vllm_env where
  "sample_host = \<lparr>ve_docker = (\<lambda>done. sample_answer (last done)), ve_logs = (\<lambda>_. Inr ([], [])), ve_opa = rego_opa,
     ve_health = (\<lambda>_. Inr True), ve_smi = (\<lambda>_. Inr []), ve_delay = (\<lambda>_. 10000)\<rparr>"

lemma sample_service_spec_valid: "spec_valid sample_service_spec"
  using sample_spec_fields
  by (simp add: sample_service_spec_def spec_valid_def fields_ok_def superRefine_def wants_tee_def service_ok_def in_range_def)
    (simp add: sample_spec_def)

lemma sample_act: "actP sample_host e ans b =
    (b\<lparr>vb_log := vb_log b @ [e], vb_time := vb_time b + 10000\<rparr>, ans (vb_log b @ [e]))"
  by (simp add: actP_def Let_def sample_host_def)

lemma sample_vllm_exec: "vllm_exec sample_host args b =
    (b\<lparr>vb_log := vb_log b @ [SDocker args], vb_time := vb_time b + 10000\<rparr>, sample_answer (SDocker args))"
  by (simp add: vllm_exec_def sample_act) (simp add: sample_host_def)

lemmas sample_steps = bindP_def getP_def liftP_def requireP_def retP_def catchP_def throwP_def vllm_get_def vllm_set_def modifyP_def
  sample_act sample_vllm_exec sample_answer_def

lemma sample_host_answers: "ve_health sample_host d = Inr True" "ve_logs sample_host d = Inr ([], [])" "ve_delay sample_host d = 10000"
  by (simp_all add: sample_host_def)

lemma sample_service_parts:
  "service sample_service_spec = Some \<lparr>sv_kind = ''vllm'', sv_model = ''/models/m'', sv_contextTokens = 4096, sv_replicas = 1, sv_durationSeconds = 60\<rparr>"
  "gpu_count sample_service_spec = 0" "maxStartDelaySeconds sample_service_spec = 60"
  "registry_of sample_service_spec = ''ghcr.io''" "inputs sample_service_spec = []" "\<not> wants_tee sample_service_spec"
  "proof_of sample_service_spec = None"
  by (simp_all add: sample_service_spec_def sample_spec_def registry_of_def wants_tee_def)

lemma sample_service_args: "\<exists>args. vllmDockerArgs ''job1'' sample_service_spec [] Crunc = Inr args"
  by (simp add: vllmDockerArgs_def sample_service_parts job_name_ok_def is_lower_def is_digit_def model_path_ok_def)

lemma sample_service_image: "pulled_digest sample_service_spec (image_ref sample_service_spec)"
  by code_simp

lemma sample_service_opa: "enforceOpa (ve_opa sample_host) (vllm_opa_input sample_service_spec) = Inr ()"
  using opa_admits [OF sample_service_spec_valid] by (simp add: sample_host_def)

lemma sample_port: "find_port (trim ''127.0.0.1:4000'') = Some ''4000''"
  by (simp add: trim_def is_space_def is_digit_def)

lemma sample_service_run:
  "\<exists>b1 b2 b3 x. vllm_prepare sample_host ''job1'' sample_service_spec [] (new_VllmBackend None None 0) = (b1, Inr ())
     \<and> vllm_start sample_host ''job1'' b1 = (b2, Inr ()) \<and> vllm_collectResult sample_host ''job1'' b2 = (b3, Inr x)"
proof -
  let ?j = "\<lparr>vj_spec = sample_service_spec, vj_gpuUuids = [], vj_startedAt = 0, vj_endpoint = None\<rparr>"
  obtain args where args: "vllmDockerArgs ''job1'' sample_service_spec [] Crunc = Inr args" using sample_service_args by blast
  obtain b1 where b1: "vllm_prepare sample_host ''job1'' sample_service_spec [] (new_VllmBackend None None 0) = (b1, Inr ())"
    "vb_jobs b1 ''job1'' = Some ?j" "vb_time b1 = 60000"
    using sample_service_opa
    by (simp add: vllm_prepare_def sample_steps new_VllmBackend_def vllm_runtime_def args vllm_admission_def vllm_registries_def
        sample_service_parts vllm_assertRuntime_def truthy_def json_get_def ensure_network_def json_strings_def json_arr_def
        sample_service_image)
  obtain b2 where b2: "vllm_start sample_host ''job1'' b1 = (b2, Inr ())"
    "vb_jobs b2 ''job1'' = Some (?j\<lparr>vj_startedAt := 60, vj_endpoint := Some ''http://127.0.0.1:4000''\<rparr>)" "vb_time b2 = 80000"
    using b1(2,3) sample_port by (simp add: vllm_start_def sample_steps Let_def readEndpoint_def)
  have "\<exists>b3 x. vllm_collectResult sample_host ''job1'' b2 = (b3, Inr x)"
    using b2(2,3)
    by (simp add: vllm_collectResult_def sample_steps probe_def healthy_def sample_gpus_def sample_service_parts Let_def
        serve_tick_def vllm_status_def vllm_sleep_def vllm_stop_def vllm_logs_def trim_def is_space_def
        sample_host_answers)
  with b1(1) b2(1) show ?thesis by blast
qed

theorem vllm_full_duration_witness:
  "\<exists>b1 b2 b3 x. vllm_prepare sample_host ''job1'' sample_service_spec [] (new_VllmBackend None None 0) = (b1, Inr ())
     \<and> vllm_start sample_host ''job1'' b1 = (b2, Inr ()) \<and> vllm_collectResult sample_host ''job1'' b2 = (b3, Inr x)
     \<and> 60 \<le> x_finishedAt x - x_startedAt x"
proof -
  obtain b1 b2 b3 x where r: "vllm_prepare sample_host ''job1'' sample_service_spec [] (new_VllmBackend None None 0) = (b1, Inr ())"
    "vllm_start sample_host ''job1'' b1 = (b2, Inr ())" "vllm_collectResult sample_host ''job1'' b2 = (b3, Inr x)"
    using sample_service_run by blast
  from vllm_full_duration [OF sample_service_spec_valid r] r show ?thesis by (auto simp: sample_service_parts)
qed

end
