(* ===== verification/Reputation.thy ===== *)
theory Reputation
  imports Executors
begin

text \<open>
  Provider reputation (\<^verbatim>\<open>packages/reputation/index.ts\<close>), benchmark reports
  (\<^verbatim>\<open>packages/benchmark/index.ts\<close>) and release gates (\<^verbatim>\<open>packages/release-readiness/index.ts\<close>). Scores
  are computed over the reals; the rounding is \<^verbatim>\<open>Math.round\<close>.
\<close>

section \<open>The score\<close>

record reputation_job =
  rp_state :: string
  rp_deadline :: int
  rp_timeoutSeconds :: int
  rp_startedAt :: "int option"
  rp_submittedAt :: "int option"
  rp_updatedAt :: real
  rp_verificationPassed :: "bool option"

record reputation_input =
  ri_jobs :: "reputation_job list"
  ri_heartbeatAt :: "int option"
  ri_benchmarkPassed :: bool
  ri_now :: int

record reputation_components =
  rc_completion :: int
  rc_startupSla :: int
  rc_completionSla :: int
  rc_receiptValidity :: int
  rc_disputeFree :: int
  rc_uptime :: int
  rc_benchmark :: int

record reputation =
  rep_score :: int
  rep_sampleSize :: nat
  rep_components :: reputation_components

definition halfLife :: real where
  "halfLife = 30 * 86400"

definition job_weight :: "int \<Rightarrow> reputation_job \<Rightarrow> real" where
  "job_weight now job = exp (- max 0 (of_int now - rp_updatedAt job) / halfLife)"

fun tally :: "(reputation_job \<Rightarrow> bool option) \<Rightarrow> (reputation_job \<times> real) list \<Rightarrow> real \<times> real \<Rightarrow> real \<times> real" where
  "tally select [] (pos, tot) = (pos, tot)"
| "tally select ((job, weight) # rest) (pos, tot) = (case select job of
     None \<Rightarrow> tally select rest (pos, tot)
   | Some v \<Rightarrow> tally select rest (if v then pos + weight else pos, tot + weight))"

definition rate :: "(reputation_job \<times> real) list \<Rightarrow> (reputation_job \<Rightarrow> bool option) \<Rightarrow> real" where
  "rate observations select = (case tally select observations (2, 3) of (pos, tot) \<Rightarrow> pos / tot * 100)"

definition math_round :: "real \<Rightarrow> int" where
  "math_round x = \<lfloor>x + 1 / 2\<rfloor>"

definition completion_of :: "reputation_job \<Rightarrow> bool option" where
  "completion_of job = (if rp_state job = ''COMPLETED'' then Some True
     else if rp_state job \<in> {''FAILED'', ''REFUNDED'', ''DISPUTED''} then Some False else None)"

definition startup_of :: "reputation_job \<Rightarrow> bool option" where
  "startup_of job = map_option (\<lambda>t. t \<le> rp_deadline job) (rp_startedAt job)"

definition completion_sla_of :: "reputation_job \<Rightarrow> bool option" where
  "completion_sla_of job = (case (rp_startedAt job, rp_submittedAt job) of
     (Some s, Some f) \<Rightarrow> Some (f \<le> s + rp_timeoutSeconds job) | _ \<Rightarrow> None)"

definition dispute_free_of :: "reputation_job \<Rightarrow> bool option" where
  "dispute_free_of job = (if rp_state job \<in> {''COMPLETED'', ''FAILED'', ''REFUNDED'', ''DISPUTED''}
     then Some (rp_state job \<noteq> ''DISPUTED'') else None)"

text \<open>A heartbeat time of 0 counts as none.\<close>

definition uptime_of :: "reputation_input \<Rightarrow> int" where
  "uptime_of input = (case ri_heartbeatAt input of
     Some t \<Rightarrow> if t \<noteq> 0 \<and> ri_now input - t \<le> 90 then 100 else 0 | None \<Rightarrow> 0)"

definition weighted_score :: "reputation_input \<Rightarrow> real" where
  "weighted_score input = (let obs = map (\<lambda>j. (j, job_weight (ri_now input) j)) (ri_jobs input) in
     rate obs completion_of * (35 / 100) + rate obs startup_of * (15 / 100) + rate obs completion_sla_of * (15 / 100)
     + rate obs rp_verificationPassed * (15 / 100) + rate obs dispute_free_of * (1 / 10)
     + of_int (uptime_of input) * (5 / 100) + (if ri_benchmarkPassed input then 100 else 0) * (5 / 100))"

definition calculateReputation :: "reputation_input \<Rightarrow> reputation" where
  "calculateReputation input = (let obs = map (\<lambda>j. (j, job_weight (ri_now input) j)) (ri_jobs input) in
     \<lparr>rep_score = math_round (weighted_score input), rep_sampleSize = length (ri_jobs input),
      rep_components = \<lparr>rc_completion = math_round (rate obs completion_of), rc_startupSla = math_round (rate obs startup_of),
        rc_completionSla = math_round (rate obs completion_sla_of), rc_receiptValidity = math_round (rate obs rp_verificationPassed),
        rc_disputeFree = math_round (rate obs dispute_free_of), rc_uptime = uptime_of input,
        rc_benchmark = (if ri_benchmarkPassed input then 100 else 0)\<rparr>\<rparr>)"

section \<open>Bounds and monotonicity\<close>

definition decided :: "(reputation_job \<Rightarrow> bool option) \<Rightarrow> bool option set \<Rightarrow> (reputation_job \<times> real) list \<Rightarrow> real" where
  "decided select vs obs = sum_list (map (\<lambda>(j, w). if select j \<in> vs then w else 0) obs)"

lemma tally_sums:
  "tally select obs (p, t) = (p + decided select {Some True} obs, t + decided select {Some True, Some False} obs)"
proof (induction obs arbitrary: p t)
  case (Cons x obs)
  obtain j w where "x = (j, w)" by fastforce
  then show ?case using Cons by (auto simp: decided_def split: option.splits)
qed (simp add: decided_def)

lemma rate_sums: "rate obs select = (2 + decided select {Some True} obs) / (3 + decided select {Some True, Some False} obs) * 100"
  by (simp add: rate_def tally_sums)

definition weighted :: "(reputation_job \<times> real) list \<Rightarrow> bool" where
  "weighted obs \<longleftrightarrow> (\<forall>(j, w) \<in> set obs. 0 \<le> w)"

lemma weighted_jobs: "weighted (map (\<lambda>j. (j, job_weight now j)) jobs)"
  by (auto simp: weighted_def job_weight_def)

lemma decided_mono: "weighted obs \<Longrightarrow> vs \<subseteq> ws \<Longrightarrow> 0 \<le> decided select vs obs \<and> decided select vs obs \<le> decided select ws obs"
  by (induction obs) (auto simp: decided_def weighted_def split: if_splits)

lemma rate_bounds:
  assumes "weighted obs"
  shows "0 \<le> rate obs select" "rate obs select \<le> 100"
proof -
  note d = decided_mono [OF assms, of "{Some True}" "{Some True, Some False}" select]
  then have "0 < 3 + decided select {Some True, Some False} obs" by auto
  then show "0 \<le> rate obs select" "rate obs select \<le> 100" using d by (simp_all add: rate_sums field_simps)
qed

lemma math_round_mono: "x \<le> y \<Longrightarrow> math_round x \<le> math_round y"
  by (simp add: math_round_def floor_mono)

lemma math_round_int [simp]: "math_round (of_int n) = n"
  by (simp add: math_round_def)

lemma math_round_bounds: "0 \<le> x \<Longrightarrow> x \<le> 100 \<Longrightarrow> 0 \<le> math_round x \<and> math_round x \<le> 100"
  using math_round_mono [of 0 x] math_round_mono [of x 100] math_round_int [of 0] math_round_int [of 100] by auto

text \<open>Replacing a job by one at the same time whose verdict is at least as good.\<close>

lemma rate_replace:
  assumes "weighted (xs @ (j, w) # ys)" "select j = None \<longleftrightarrow> select j' = None" "select j = Some True \<Longrightarrow> select j' = Some True"
  shows "rate (xs @ (j, w) # ys) select \<le> rate (xs @ (j', w) # ys) select"
proof -
  have w: "0 \<le> w" using assms(1) by (simp add: weighted_def)
  have tot: "decided select {Some True, Some False} (xs @ (j', w) # ys) = decided select {Some True, Some False} (xs @ (j, w) # ys)"
    using assms(2) by (cases "select j"; cases "select j'") (auto simp: decided_def)
  have "decided select {Some True} (xs @ (j, w) # ys) \<le> decided select {Some True} (xs @ (j', w) # ys)"
    using assms(3) w by (simp add: decided_def)
  moreover have "0 \<le> decided select {Some True, Some False} (xs @ (j, w) # ys)"
    using decided_mono [OF assms(1), of "{Some True, Some False}" "{Some True, Some False}" select] by simp
  ultimately show ?thesis unfolding rate_sums tot by (intro mult_right_mono divide_right_mono) auto
qed

lemma verdict_times:
  "startup_of (j\<lparr>rp_state := st\<rparr>) = startup_of j" "completion_sla_of (j\<lparr>rp_state := st\<rparr>) = completion_sla_of j"
  by (cases "rp_startedAt j"; cases "rp_submittedAt j"; simp add: startup_of_def completion_sla_of_def)+

lemma weighted_score_bounds: "0 \<le> weighted_score input \<and> weighted_score input \<le> 100"
proof -
  note b = rate_bounds [OF weighted_jobs, of "ri_now input" "ri_jobs input"]
  have "uptime_of input \<in> {0, 100}" by (auto simp: uptime_of_def split: option.splits)
  then show ?thesis
    using b [of completion_of] b [of startup_of] b [of completion_sla_of] b [of rp_verificationPassed] b [of dispute_free_of]
    by (auto simp: weighted_score_def Let_def)
qed

text \<open>
  Reputation is a score from 0 to 100 in every component, whatever the history, and it
  rewards completion: had a job that failed, was refunded or disputed completed instead, with the
  same times, the score would be at least as high.
\<close>

theorem reputation_sound:
  "rep_score (calculateReputation input) \<in> {0..100}
   \<and> rc_completion (rep_components (calculateReputation input)) \<in> {0..100}
   \<and> rc_receiptValidity (rep_components (calculateReputation input)) \<in> {0..100}
   \<and> (ri_jobs input = xs @ j # ys \<and> rp_state j \<in> {''FAILED'', ''REFUNDED'', ''DISPUTED''} \<longrightarrow>
       rep_score (calculateReputation input)
         \<le> rep_score (calculateReputation (input\<lparr>ri_jobs := xs @ j\<lparr>rp_state := ''COMPLETED''\<rparr> # ys\<rparr>)))"
proof -
  note b = rate_bounds [OF weighted_jobs, of "ri_now input" "ri_jobs input"]
  have "rep_score (calculateReputation input) \<le> rep_score (calculateReputation (input\<lparr>ri_jobs := xs @ j\<lparr>rp_state := ''COMPLETED''\<rparr> # ys\<rparr>))"
    if "ri_jobs input = xs @ j # ys" "rp_state j \<in> {''FAILED'', ''REFUNDED'', ''DISPUTED''}"
  proof -
    let ?o = "\<lambda>js. map (\<lambda>j. (j, job_weight (ri_now input) j)) js"
    let ?j = "j\<lparr>rp_state := ''COMPLETED''\<rparr>"
    have w: "job_weight (ri_now input) ?j = job_weight (ri_now input) j" by (simp add: job_weight_def)
    have r: "rate (?o (xs @ j # ys)) sel \<le> rate (?o (xs @ ?j # ys)) sel"
      if "sel j = None \<longleftrightarrow> sel ?j = None" "sel j = Some True \<Longrightarrow> sel ?j = Some True" for sel
      using rate_replace [of "?o xs" j "job_weight (ri_now input) j" "?o ys" sel ?j] weighted_jobs [of "ri_now input" "xs @ j # ys"] that
      by (simp add: w)
    have "rate (?o (xs @ j # ys)) completion_of \<le> rate (?o (xs @ ?j # ys)) completion_of"
      "rate (?o (xs @ j # ys)) startup_of \<le> rate (?o (xs @ ?j # ys)) startup_of"
      "rate (?o (xs @ j # ys)) completion_sla_of \<le> rate (?o (xs @ ?j # ys)) completion_sla_of"
      "rate (?o (xs @ j # ys)) rp_verificationPassed \<le> rate (?o (xs @ ?j # ys)) rp_verificationPassed"
      "rate (?o (xs @ j # ys)) dispute_free_of \<le> rate (?o (xs @ ?j # ys)) dispute_free_of"
      by (rule r; use that(2) in \<open>auto simp: completion_of_def dispute_free_of_def verdict_times\<close>)+
    moreover have "uptime_of (input\<lparr>ri_jobs := xs @ ?j # ys\<rparr>) = uptime_of input" by (simp add: uptime_of_def split: option.splits)
    ultimately have "weighted_score input \<le> weighted_score (input\<lparr>ri_jobs := xs @ ?j # ys\<rparr>)"
      unfolding weighted_score_def that(1) Let_def by simp
    then show ?thesis by (simp add: calculateReputation_def Let_def math_round_mono)
  qed
  moreover have "rep_score (calculateReputation input) \<in> {0..100}"
    using weighted_score_bounds math_round_bounds by (simp add: calculateReputation_def Let_def)
  ultimately show ?thesis using math_round_bounds b by (simp add: calculateReputation_def Let_def)
qed

definition sample_history :: reputation_input where
  "sample_history = \<lparr>ri_jobs = [\<lparr>rp_state = ''FAILED'', rp_deadline = 10, rp_timeoutSeconds = 60, rp_startedAt = Some 5,
     rp_submittedAt = None, rp_updatedAt = 100, rp_verificationPassed = None\<rparr>], ri_heartbeatAt = None, ri_benchmarkPassed = False, ri_now = 100\<rparr>"

theorem reputation_sound_witness:
  "rep_score (calculateReputation sample_history)
     \<le> rep_score (calculateReputation (sample_history\<lparr>ri_jobs := map (\<lambda>j. j\<lparr>rp_state := ''COMPLETED''\<rparr>) (ri_jobs sample_history)\<rparr>))"
  using reputation_sound [of sample_history "[]" "hd (ri_jobs sample_history)" "[]"] by (simp add: sample_history_def)

section \<open>Benchmark reports\<close>

record benchmark_gpu =
  bg_uuid :: string
  bg_vramMb :: int

record benchmark_report =
  br_version :: string
  br_domain :: string
  br_cluster :: string
  br_program :: string
  br_machineId :: string
  br_worker :: string
  br_hardwareReportHash :: string
  br_imageDigest :: string
  br_startedAt :: int
  br_finishedAt :: int
  br_cpuSha256MibPerSecond :: rat
  br_diskWriteMibPerSecond :: rat
  br_gpu :: "benchmark_gpu list"
  br_nonce :: string

text \<open>The rules of \<^verbatim>\<open>benchmarkReportSchema\<close>.\<close>

definition benchmark_schema_ok :: "benchmark_report \<Rightarrow> bool" where
  "benchmark_schema_ok r \<longleftrightarrow> br_version r = ''1'' \<and> br_domain r = ''vericompute:benchmark:v1'' \<and> 1 \<le> length (br_cluster r)
     \<and> 32 \<le> length (br_program r) \<and> 32 \<le> length (br_machineId r) \<and> 32 \<le> length (br_worker r)
     \<and> hash_ok (br_hardwareReportHash r) \<and> digest_ok (br_imageDigest r) \<and> 0 \<le> br_startedAt r \<and> 0 \<le> br_finishedAt r
     \<and> 0 < br_cpuSha256MibPerSecond r \<and> 0 < br_diskWriteMibPerSecond r
     \<and> list_all (\<lambda>g. gpu_uuid_ok (bg_uuid g) \<and> 0 < bg_vramMb g) (br_gpu r) \<and> uuid_ok (br_nonce r)"

definition benchmarkPassed :: "benchmark_report \<Rightarrow> bool" where
  "benchmarkPassed r \<longleftrightarrow> br_startedAt r \<le> br_finishedAt r \<and> br_finishedAt r - br_startedAt r \<le> 300
     \<and> 0 < br_cpuSha256MibPerSecond r \<and> 0 < br_diskWriteMibPerSecond r"

lemma benchmarkPassed_iff:
  "benchmark_schema_ok r \<Longrightarrow> benchmarkPassed r \<longleftrightarrow> br_finishedAt r \<in> {br_startedAt r..br_startedAt r + 300}"
  by (auto simp: benchmarkPassed_def benchmark_schema_ok_def)

section \<open>Release gates\<close>

record release_gate =
  gate_id :: string
  gate_label :: string
  gate_ready :: bool

record readiness =
  rd_softwareMvpReady :: bool
  rd_fullV1V3Ready :: bool
  rd_completedGates :: nat
  rd_totalGates :: nat
  rd_readinessPercent :: int
  rd_gates :: "release_gate list"

definition enabled :: "string option \<Rightarrow> bool" where
  "enabled value \<longleftrightarrow> value = Some ''true''"

definition release_gates :: "(string \<rightharpoonup> string) \<Rightarrow> int \<Rightarrow> release_gate list" where
  "release_gates environment maxOnchainPolicy =
     [\<lparr>gate_id = ''solana-v1'', gate_label = ''Solana escrow and settlement'', gate_ready = (1 \<le> maxOnchainPolicy)\<rparr>,
      \<lparr>gate_id = ''advanced-policies'', gate_label = ''Challenge and redundant policies'', gate_ready = (3 \<le> maxOnchainPolicy)\<rparr>,
      \<lparr>gate_id = ''nvidia'', gate_label = ''NVIDIA execution qualification'', gate_ready = enabled (environment ''RELEASE_GPU_QUALIFIED'')\<rparr>,
      \<lparr>gate_id = ''confidential-gpu'', gate_label = ''Confidential GPU qualification'', gate_ready = enabled (environment ''RELEASE_TEE_QUALIFIED'')\<rparr>,
      \<lparr>gate_id = ''proof-circuit'', gate_label = ''Production proof circuit'', gate_ready = enabled (environment ''RELEASE_PROOF_QUALIFIED'')\<rparr>,
      \<lparr>gate_id = ''verifier-market'', gate_label = ''Permissionless verifier market'',
        gate_ready = enabled (environment ''RELEASE_PERMISSIONLESS_VERIFIERS'')\<rparr>,
      \<lparr>gate_id = ''operations'', gate_label = ''Production operations qualification'',
        gate_ready = enabled (environment ''RELEASE_OPERATIONS_QUALIFIED'')\<rparr>,
      \<lparr>gate_id = ''audit'', gate_label = ''Independent security audit'', gate_ready = enabled (environment ''RELEASE_AUDITED'')\<rparr>]"

definition releaseReadiness :: "(string \<rightharpoonup> string) \<Rightarrow> int \<Rightarrow> readiness" where
  "releaseReadiness environment maxOnchainPolicy =
     (let gates = release_gates environment maxOnchainPolicy; completed = length (filter gate_ready gates) in
      \<lparr>rd_softwareMvpReady = gate_ready (hd gates), rd_fullV1V3Ready = (completed = length gates), rd_completedGates = completed,
       rd_totalGates = length gates, rd_readinessPercent = math_round (of_nat completed / of_nat (length gates) * 100), rd_gates = gates\<rparr>)"

text \<open>The percentage never overstates: it is 100 exactly when every gate is ready.\<close>

lemma readiness_honest:
  "rd_readinessPercent (releaseReadiness env p) = 100 \<longleftrightarrow> (\<forall>g \<in> set (rd_gates (releaseReadiness env p)). gate_ready g)"
  "rd_fullV1V3Ready (releaseReadiness env p) \<longleftrightarrow> (\<forall>g \<in> set (rd_gates (releaseReadiness env p)). gate_ready g)"
proof -
  let ?gs = "release_gates env p" and ?n = "length (filter gate_ready (release_gates env p))"
  have len: "length ?gs = 8" by (simp add: release_gates_def)
  have all: "?n = 8 \<longleftrightarrow> (\<forall>g \<in> set ?gs. gate_ready g)"
    by (metis filter_True len length_filter_less linorder_neq_iff)
  have "?n \<le> 8" using length_filter_le [of gate_ready ?gs] len by simp
  then have "math_round (of_nat ?n / 8 * 100) = 100 \<longleftrightarrow> ?n = 8"
    unfolding math_round_def by (auto simp: floor_eq_iff)
  then show "rd_readinessPercent (releaseReadiness env p) = 100 \<longleftrightarrow> (\<forall>g \<in> set (rd_gates (releaseReadiness env p)). gate_ready g)"
    "rd_fullV1V3Ready (releaseReadiness env p) \<longleftrightarrow> (\<forall>g \<in> set (rd_gates (releaseReadiness env p)). gate_ready g)"
    using all by (simp_all add: releaseReadiness_def Let_def len)
qed

end
