(* ===== verification/Api.thy ===== *)
theory Api
  imports Reputation Pricing Indexer
begin

text \<open>
  The HTTP API (\<^verbatim>\<open>apps/api/src/server.ts\<close>), first part: errors, sessions and wallet proofs, the
  published supply and its pages. The session service, the JSON parser and the clock are
  parameters; the database is the record \<open>market_db\<close> of the columns the handlers select.
\<close>

section \<open>Errors\<close>

text \<open>An error with the status it is answered with; a plain \<^verbatim>\<open>Error\<close> is a 500, a schema error a 400.\<close>

datatype api_error = Http int string

type_synonym 'a reply = "api_error + 'a"

definition error_response :: "api_error \<Rightarrow> int \<times> string" where
  "error_response e = (case e of Http status message \<Rightarrow>
     (status, if status < 500 then message else ''Request failed; check server logs''))"

definition plain :: "'a outcome \<Rightarrow> 'a reply" where
  "plain x = (case x of Inl e \<Rightarrow> Inl (Http 500 e) | Inr y \<Rightarrow> Inr y)"

lemma plain_eq [outcome_simps]: "plain x = Inr y \<longleftrightarrow> x = Inr y" "plain x = Inl e \<longleftrightarrow> (\<exists>m. x = Inl m \<and> e = Http 500 m)"
  by (auto simp: plain_def split: sum.splits)

text \<open>The read-only hook; the method is in upper case.\<close>

definition pre_handler :: "bool \<Rightarrow> string \<Rightarrow> unit reply" where
  "pre_handler publicReadOnly method = guard (\<not> publicReadOnly \<or> method \<in> {''GET'', ''HEAD'', ''OPTIONS''})
     (Http 503 ''This deployment is a read-only preview until the Solana program and settlement mint are deployed.'')"

definition requireSupportedPolicy :: "int \<Rightarrow> policy \<Rightarrow> unit reply" where
  "requireSupportedPolicy maxOnchainPolicy p = guard (policyCode p \<le> maxOnchainPolicy)
     (Http 503 (policy_name p @ '' is built but is not active on the configured Solana program''))"

section \<open>Sessions and wallets\<close>

record api_env =
  av_crypto :: crypto
  av_session :: "string \<Rightarrow> string option"
  av_parse :: "buffer \<Rightarrow> json option"
  av_nowMs :: int

record http_headers =
  hd_authorization :: "string option"
  hd_walletProof :: "string option"

definition strip_bearer :: "string \<Rightarrow> string" where
  "strip_bearer s = (if take 7 s = ''Bearer '' then drop 7 s else s)"

definition identity :: "api_env \<Rightarrow> http_headers \<Rightarrow> string reply" where
  "identity env req = (case map_option strip_bearer (hd_authorization req) of
     None \<Rightarrow> Inl (Http 401 ''Sign in required'')
   | Some token \<Rightarrow> if token = [] then Inl (Http 401 ''Sign in required'') else
       (case av_session env token of None \<Rightarrow> Inl (Http 401 ''Invalid session'') | Some user \<Rightarrow> Inr user))"

definition publicKey_ok :: "crypto \<Rightarrow> string \<Rightarrow> bool" where
  "publicKey_ok cr v = (case b58_decode cr v of Some k \<Rightarrow> length k = 32 | None \<Rightarrow> False)"

definition session_payload :: "string \<Rightarrow> string \<Rightarrow> int \<Rightarrow> json" where
  "session_payload userId wallet expiresAt = JObj [(''domain'', JStr ''vericompute:wallet-session:v1''), (''userId'', JStr userId),
     (''wallet'', JStr wallet), (''expiresAt'', jint expiresAt)]"

definition json_integer :: "json \<Rightarrow> int option" where
  "json_integer j = (case j of JNum q \<Rightarrow> if of_int \<lfloor>q\<rfloor> = q then Some \<lfloor>q\<rfloor> else None | _ \<Rightarrow> None)"

text \<open>
  The proof header is \<^verbatim>\<open>{ payload, signature }\<close>, the signature a base64 string. \<open>check_proof\<close> is the
  condition of the handler: the expected payload is rebuilt from the session's own user.
\<close>

definition check_proof :: "api_env \<Rightarrow> string \<Rightarrow> json \<Rightarrow> string \<Rightarrow> int \<Rightarrow> string \<Rightarrow> string reply" where
  "check_proof env user pay w e sig = (let cr = av_crypto env; invalid = Http 403 ''Invalid or expired wallet proof'';
       expected = session_payload user w e in
     andThen (guard (publicKey_ok cr w \<and> av_nowMs env \<le> e * 1000 \<and> e * 1000 \<le> av_nowMs env + 900000) invalid) (\<lambda>_.
     andThen (plain (commitment cr expected)) (\<lambda>a.
     andThen (plain (commitment cr pay)) (\<lambda>b.
     andThen (guard (a = b \<and> verifyPayload cr expected sig (the (b58_decode cr w))) invalid) (\<lambda>_. Inr w)))))"

definition wallet :: "api_env \<Rightarrow> http_headers \<Rightarrow> string reply" where
  "wallet env req = andThen (identity env req) (\<lambda>user.
     case av_parse env (fromBase64 (case hd_walletProof req of Some h \<Rightarrow> h | None \<Rightarrow> [])) of
       None \<Rightarrow> Inl (Http 401 ''Wallet signature required'')
     | Some JNull \<Rightarrow> Inl (Http 500 ''TypeError'')
     | Some pf \<Rightarrow>
         (case (json_get ''payload'' (Some pf), Option.bind (json_get ''wallet'' (json_get ''payload'' (Some pf))) json_str,
             Option.bind (json_get ''expiresAt'' (json_get ''payload'' (Some pf))) json_integer, json_get ''signature'' (Some pf)) of
            (Some pay, Some w, Some e, Some (JStr sig)) \<Rightarrow> check_proof env user pay w e sig
          | _ \<Rightarrow> Inl (Http 403 ''Invalid or expired wallet proof'')))"

record owned_row =
  ow_id :: string
  ow_buyer :: string

definition ownedJob :: "api_env \<Rightarrow> (string \<Rightarrow> owned_row option outcome) \<Rightarrow> http_headers \<Rightarrow> string \<Rightarrow> owned_row reply" where
  "ownedJob env jobs req jid =
     andThen (guard (publicKey_ok (av_crypto env) jid) (Http 400 ''request: Invalid Solana address'')) (\<lambda>_.
     andThen (wallet env req) (\<lambda>owner.
     andThen (plain (jobs jid)) (\<lambda>row.
     case row of None \<Rightarrow> Inl (Http 404 ''Job not found'')
     | Some job \<Rightarrow> if ow_buyer job \<noteq> owner then Inl (Http 404 ''Job not found'') else Inr job)))"

lemma check_proof_Inr:
  "check_proof env user pay w e sig = Inr w' \<longleftrightarrow> w' = w \<and> publicKey_ok (av_crypto env) w
     \<and> av_nowMs env \<le> e * 1000 \<and> e * 1000 \<le> av_nowMs env + 900000
     \<and> (\<exists>h. commitment (av_crypto env) (session_payload user w e) = Inr h \<and> commitment (av_crypto env) pay = Inr h)
     \<and> verifyPayload (av_crypto env) (session_payload user w e) sig (the (b58_decode (av_crypto env) w))"
  by (auto simp: check_proof_def Let_def outcome_simps)

lemma wallet_Inr:
  assumes "wallet env req = Inr w"
  obtains user pf pay e sig where "identity env req = Inr user"
    "av_parse env (fromBase64 (case hd_walletProof req of Some h \<Rightarrow> h | None \<Rightarrow> [])) = Some pf"
    "json_get ''payload'' (Some pf) = Some pay" "json_get ''signature'' (Some pf) = Some (JStr sig)"
    "check_proof env user pay w e sig = Inr w"
proof -
  obtain user where user: "identity env req = Inr user" using assms by (auto simp: wallet_def outcome_simps)
  obtain pf where p: "av_parse env (fromBase64 (case hd_walletProof req of Some h \<Rightarrow> h | None \<Rightarrow> [])) = Some pf" "pf \<noteq> JNull"
    using assms user by (auto simp: wallet_def split: option.splits json.splits)
  then obtain pay v e sig where q: "json_get ''payload'' (Some pf) = Some pay" "json_get ''signature'' (Some pf) = Some (JStr sig)"
    "check_proof env user pay v e sig = Inr w"
    using assms user by (cases pf) (auto simp: wallet_def split: option.splits json.splits)
  then have "v = w" by (simp add: check_proof_Inr)
  with that user p(1) q show thesis by blast
qed

text \<open>
  C34. A wallet is only spoken for by its key: the API accepts a request for a wallet only
  when the signed-in user presents a proof, at most fifteen minutes ahead and not yet expired,
  that this wallet's key signed for this very user; the job a handler then works on is one that
  wallet bought.
\<close>

theorem wallet_proof_sound:
  assumes "ownedJob env jobs req jid = Inr job"
  shows "\<exists>user e sig k. identity env req = Inr user \<and> b58_decode (av_crypto env) (ow_buyer job) = Some k \<and> length k = 32
     \<and> verifyPayload (av_crypto env) (session_payload user (ow_buyer job) e) sig k
     \<and> av_nowMs env \<le> e * 1000 \<and> e * 1000 \<le> av_nowMs env + 900000 \<and> jobs jid = Inr (Some job)"
proof -
  have w: "wallet env req = Inr (ow_buyer job)" and j: "jobs jid = Inr (Some job)"
    using assms by (auto simp: ownedJob_def outcome_simps split: option.splits if_splits)
  obtain user pf pay e sig where p: "identity env req = Inr user" "check_proof env user pay (ow_buyer job) e sig = Inr (ow_buyer job)"
    by (rule wallet_Inr [OF w])
  then show ?thesis using j by (auto simp: check_proof_Inr publicKey_ok_def split: option.splits)
qed

text \<open>An honest client's proof is accepted.\<close>

lemma wallet_accepts:
  assumes "identity env req = Inr user" "signature_law (av_crypto env) pub" "b58_decode (av_crypto env) w = Some (pub key)"
    "signPayload (av_crypto env) (session_payload user w e) key = Inr sig"
    "av_parse env (fromBase64 (case hd_walletProof req of Some h \<Rightarrow> h | None \<Rightarrow> []))
       = Some (JObj [(''payload'', session_payload user w e), (''signature'', JStr sig)])"
    "av_nowMs env \<le> e * 1000" "e * 1000 \<le> av_nowMs env + 900000"
  shows "wallet env req = Inr w"
proof -
  have sig: "verifyPayload (av_crypto env) (session_payload user w e) sig (pub key)"
    by (rule verifyPayload_signPayload [OF assms(2,4)])
  have "\<exists>h. commitment (av_crypto env) (session_payload user w e) = Inr h"
    using assms(4) by (auto simp: signPayload_def commitment_def outcome_simps)
  then have "check_proof env user (session_payload user w e) w e sig = Inr w"
    using assms(2,3,6,7) sig by (auto simp: check_proof_Inr publicKey_ok_def signature_law_def)
  then show ?thesis using assms(1,5) by (simp add: wallet_def json_get_def session_payload_def json_str_def json_integer_def)
qed

definition sample_session :: json where
  "sample_session = session_payload ''u1'' ''W'' 100"

definition sample_proof :: json where
  "sample_proof = JObj [(''payload'', sample_session),
     (''signature'', JStr (toBase64 (ed_sign sample_crypto (utf8 ''W'') (utf8 (show_json sample_session)))))]"

definition sample_api :: api_env where
  "sample_api = \<lparr>av_crypto = sample_crypto, av_session = (\<lambda>t. if t = ''token'' then Some ''u1'' else None),
     av_parse = (\<lambda>_. Some sample_proof), av_nowMs = 40000\<rparr>"

definition sample_headers :: http_headers where
  "sample_headers = \<lparr>hd_authorization = Some ''Bearer token'', hd_walletProof = Some ''proof''\<rparr>"

lemma sample_wallet: "wallet sample_api sample_headers = Inr ''W''"
  by (rule wallet_accepts [of _ _ "''u1''" checksum _ "utf8 ''W''" 100 "toBase64 (ed_sign sample_crypto (utf8 ''W'') (utf8 (show_json sample_session)))"])
    (simp_all add: sample_api_def sample_headers_def identity_def strip_bearer_def sample_signature_law sample_signPayload
      sample_session_def [symmetric] sample_proof_def)

theorem wallet_proof_sound_witness:
  "\<exists>user e sig k. b58_decode sample_crypto ''W'' = Some k \<and> verifyPayload sample_crypto (session_payload user ''W'' e) sig k"
proof -
  let ?job = "\<lparr>ow_id = ''J'', ow_buyer = ''W''\<rparr>"
  have "ownedJob sample_api (\<lambda>_. Inr (Some ?job)) sample_headers ''J'' = Inr ?job"
    using sample_wallet by (simp add: ownedJob_def plain_def publicKey_ok_def) (simp add: sample_api_def)
  from wallet_proof_sound [OF this] show ?thesis by (auto simp: sample_api_def)
qed

section \<open>The published supply\<close>

record offer_row =
  or_id :: string
  or_machine :: string
  or_rate :: string
  or_maxSeconds :: int
  or_expiresAt :: int
  or_active :: bool

record machine_row =
  mr_id :: string
  mr_provider :: string
  mr_gpuModel :: string
  mr_gpuCount :: int
  mr_vramMb :: int
  mr_region :: string
  mr_active :: bool
  mr_busy :: bool
  mr_hardwareHash :: string

record job_row =
  jr_id :: string
  jr_provider :: "string option"
  jr_machine :: "string option"
  jr_state :: string
  jr_deadline :: int
  jr_timeout :: int
  jr_startedAt :: "int option"
  jr_submittedAt :: "int option"
  jr_updatedAt :: real

record market_db =
  md_offers :: "offer_row list"
  md_machines :: "machine_row list"
  md_heartbeats :: "heartbeat_row list"
  md_reports :: "(string \<times> json) list"
  md_jobs :: "job_row list"
  md_benchmarks :: "(string \<times> bool) list"
  md_stakes :: "(string \<times> string) list"
  md_verifications :: "(string \<times> bool) list"

text \<open>A supply with the scores and the trust level the API adds.\<close>

record listing = Supply +
  li_components :: reputation_components
  li_machineReputation :: int
  li_machineComponents :: reputation_components
  li_trustLevel :: string

text \<open>\<^verbatim>\<open>order("id").limit(n)\<close> with the cursor's \<^verbatim>\<open>gt\<close>; identifiers are compared bytewise.\<close>

definition offer_query :: "market_db \<Rightarrow> nat \<Rightarrow> string option \<Rightarrow> offer_row list" where
  "offer_query db limit after = take limit (sort_key or_id (filter (\<lambda>o'. or_active o'
     \<and> (case after of None \<Rightarrow> True | Some c \<Rightarrow> c = [] \<or> c < or_id o')) (md_offers db)))"

definition reputation_row :: "market_db \<Rightarrow> job_row \<Rightarrow> reputation_job" where
  "reputation_row db j = \<lparr>rp_state = jr_state j, rp_deadline = jr_deadline j, rp_timeoutSeconds = jr_timeout j,
     rp_startedAt = jr_startedAt j, rp_submittedAt = jr_submittedAt j, rp_updatedAt = jr_updatedAt j,
     rp_verificationPassed = map_of (md_verifications db) (jr_id j)\<rparr>"

text \<open>The jobs of the listed providers, at most 2000.\<close>

definition job_query :: "market_db \<Rightarrow> string list \<Rightarrow> job_row list" where
  "job_query db providers = take 2000 (filter (\<lambda>j. \<exists>p \<in> set providers. jr_provider j = Some p) (md_jobs db))"

text \<open>The passed benchmarks of the listed machines, at most 1000.\<close>

definition benchmark_query :: "market_db \<Rightarrow> string list \<Rightarrow> (string \<times> bool) list" where
  "benchmark_query db machines = take 1000 (filter (\<lambda>(i, passed). passed \<and> i \<in> set machines) (md_benchmarks db))"

definition score_of :: "market_db \<Rightarrow> int \<Rightarrow> bool \<Rightarrow> machine_row \<Rightarrow> (job_row \<Rightarrow> bool) \<Rightarrow> job_row list \<Rightarrow> reputation" where
  "score_of db now benchmarked m sel jobs = calculateReputation \<lparr>ri_jobs = map (reputation_row db) (filter sel jobs),
     ri_heartbeatAt = Some (case find (\<lambda>h. hb_machine h = mr_id m) (md_heartbeats db) of Some h \<Rightarrow> hb_timestamp h | None \<Rightarrow> 0),
     ri_benchmarkPassed = benchmarked, ri_now = now\<rparr>"

definition listing_of :: "market_db \<Rightarrow> bool \<Rightarrow> int \<Rightarrow> (string \<times> bool) list \<Rightarrow> job_row list \<Rightarrow> offer_row \<Rightarrow> machine_row \<Rightarrow> listing" where
  "listing_of db publicReadOnly now benchmarks jobs o' m =
     (let hb = find (\<lambda>h. hb_machine h = mr_id m) (md_heartbeats db);
          hardware = map_of (md_reports db) (mr_hardwareHash m);
          benchmarked = list_ex (\<lambda>(i, passed). i = mr_id m \<and> passed) benchmarks;
          rep = score_of db now benchmarked m (\<lambda>j. jr_provider j = Some (mr_provider m)) jobs;
          mrep = score_of db now benchmarked m (\<lambda>j. jr_machine j = Some (mr_id m)) jobs
      in \<lparr>s_id = or_id o', s_provider = mr_provider m, s_machine = mr_id m,
          s_gpuModel = (case json_get ''model'' (json_first (json_get ''gpu'' hardware)) of Some (JStr g) \<Rightarrow> g | _ \<Rightarrow> mr_gpuModel m),
          s_gpuCount = mr_gpuCount m, s_vramMb = mr_vramMb m, s_rateBaseUnitsPerSecond = or_rate o', s_region = mr_region m,
          s_reputation = of_int (rep_score rep),
          s_stakeBaseUnits = Some (case map_of (md_stakes db) (mr_provider m) of Some d \<Rightarrow> d | None \<Rightarrow> ''0''),
          s_active = (mr_active m \<and> or_active o'),
          s_available = (\<not> publicReadOnly \<and> \<not> mr_busy m
            \<and> (case hb of None \<Rightarrow> False | Some h \<Rightarrow> mr_gpuCount m = 0 \<or> 0 < hb_available h)),
          s_expiresAt = or_expiresAt o', s_heartbeatAt = (case hb of Some h \<Rightarrow> hb_timestamp h | None \<Rightarrow> 0),
          s_estimatedStartSeconds = 10, s_verification = STANDARD, s_runtime = ''oci'', s_maxSeconds = or_maxSeconds o',
          li_components = rep_components rep, li_machineReputation = rep_score mrep, li_machineComponents = rep_components mrep,
          li_trustLevel = (if benchmarked then ''BENCHMARKED'' else ''CLAIMED'')\<rparr>)"

text \<open>The other lookups are by unique identifiers, so their limits never cut anything.\<close>

definition supply_page :: "market_db \<Rightarrow> bool \<Rightarrow> int \<Rightarrow> nat \<Rightarrow> string option \<Rightarrow> listing list" where
  "supply_page db publicReadOnly now limit after =
     (let offers = offer_query db limit after;
          machines = filter (\<lambda>m. mr_id m \<in> set (map or_machine offers)) (md_machines db);
          jobs = job_query db (map mr_provider machines);
          benchmarks = benchmark_query db (map or_machine offers)
      in List.map_filter (\<lambda>o'. map_option (listing_of db publicReadOnly now benchmarks jobs o')
           (find (\<lambda>m. mr_id m = or_machine o') machines)) offers)"

section \<open>Pages\<close>

record offer_page =
  pg_offers :: "listing list"
  pg_nextCursor :: "string option"

text \<open>\<^verbatim>\<open>pageQuery\<close>: the coerced limit, 50 by default, and an address as the cursor.\<close>

definition page_limit :: "rat option \<Rightarrow> nat reply" where
  "page_limit l = (case l of None \<Rightarrow> Inr 50
   | Some q \<Rightarrow> if of_int \<lfloor>q\<rfloor> = q \<and> 1 \<le> q \<and> q \<le> 100 then Inr (nat \<lfloor>q\<rfloor>) else Inl (Http 400 ''limit''))"

definition offerPage :: "crypto \<Rightarrow> market_db \<Rightarrow> bool \<Rightarrow> int \<Rightarrow> rat option \<Rightarrow> string option \<Rightarrow> offer_page reply" where
  "offerPage cr db publicReadOnly now lq cursor =
     andThen (page_limit lq) (\<lambda>limit.
     andThen (guard (case cursor of None \<Rightarrow> True | Some c \<Rightarrow> publicKey_ok cr c) (Http 400 ''cursor'')) (\<lambda>_.
     let rows = supply_page db publicReadOnly now (limit + 1) cursor in
     Inr \<lparr>pg_offers = take limit rows, pg_nextCursor = (if limit < length rows then Some (s_id (rows ! (limit - 1))) else None)\<rparr>))"

text \<open>
  Paging by cursor. A page is its keys and the next cursor; a client follows the cursors from the first
  page. The locale states what a paged list promises: with the key of the last row seen as cursor, a page
  holds the next keys, and a cursor exactly when more follow.
\<close>

fun walk_pages :: "('k option \<Rightarrow> ('k list \<times> 'k option) reply) \<Rightarrow> nat \<Rightarrow> 'k option \<Rightarrow> 'k list option" where
  "walk_pages page 0 cursor = None"
| "walk_pages page (Suc n) cursor = (case page cursor of
     Inl _ \<Rightarrow> None
   | Inr (ks, None) \<Rightarrow> Some ks
   | Inr (ks, Some c) \<Rightarrow> map_option (\<lambda>rest. ks @ rest) (walk_pages page n (Some c)))"

locale cursor_paging =
  fixes ok :: "'d \<Rightarrow> nat \<Rightarrow> bool"
    and page :: "'d \<Rightarrow> 'k option \<Rightarrow> ('k list \<times> 'k option) reply"
    and keys :: "'d \<Rightarrow> 'k list"
  assumes page_size: "ok d n \<Longrightarrow> 1 \<le> n"
    and page_next: "ok d n \<Longrightarrow> keys d = P @ S \<Longrightarrow> page d (if P = [] then None else Some (last P))
      = Inr (take n S, if n < length S then Some (S ! (n - 1)) else None)"
begin

lemma walk_suffix:
  assumes "ok d n" "keys d = P @ S" "length S < fuel"
  shows "walk_pages (page d) fuel (if P = [] then None else Some (last P)) = Some S"
  using assms(2,3)
proof (induction fuel arbitrary: P S)
  case (Suc fuel)
  note p = page_next [OF assms(1) Suc.prems(1)] and lim = page_size [OF assms(1)]
  show ?case
  proof (cases "n < length S")
    case False
    then show ?thesis using p by simp
  next
    case True
    let ?P = "P @ take n S"
    have P: "?P \<noteq> []" "last ?P = S ! (n - 1)" "keys d = ?P @ drop n S"
      using True lim Suc.prems(1) by (auto simp: last_append last_conv_nth)
    have "length (drop n S) < fuel" using Suc.prems(2) True lim by simp
    from Suc.IH [OF P(3) this, unfolded P(2) if_not_P [OF P(1)]]
    have "walk_pages (page d) fuel (Some (S ! (n - 1))) = Some (drop n S)" .
    then show ?thesis using p True by simp
  qed
qed simp

lemma walk_complete: "ok d n \<Longrightarrow> length (keys d) < fuel \<Longrightarrow> walk_pages (page d) fuel None = Some (keys d)"
  using walk_suffix [of d n "[]"] by simp

end

definition on_sale :: "market_db \<Rightarrow> offer_row list" where
  "on_sale db = sort_key or_id (filter or_active (md_offers db))"

text \<open>The primary key and the foreign key of the offers table, and identifiers that are addresses.\<close>

definition market_ok :: "crypto \<Rightarrow> market_db \<Rightarrow> bool" where
  "market_ok cr db \<longleftrightarrow> distinct (map or_id (md_offers db))
     \<and> (\<forall>o' \<in> set (md_offers db). or_machine o' \<in> mr_id ` set (md_machines db) \<and> publicKey_ok cr (or_id o') \<and> or_id o' \<noteq> [])"

lemma on_sale_strict:
  assumes "market_ok cr db"
  shows "sorted_wrt (\<lambda>a b. or_id a < or_id b) (on_sale db)"
proof -
  have "mset (map or_id (on_sale db)) = mset (map or_id (filter or_active (md_offers db)))" by (simp add: on_sale_def)
  moreover have "distinct (map or_id (filter or_active (md_offers db)))"
    using assms by (simp add: market_ok_def distinct_map_filter)
  ultimately have "distinct (map or_id (on_sale db))" by (metis mset_eq_imp_distinct_iff)
  moreover have "sorted (map or_id (on_sale db))" by (simp add: on_sale_def)
  ultimately have "sorted_wrt (<) (map or_id (on_sale db))" by (simp add: strict_sorted_iff)
  then show ?thesis by (simp add: sorted_wrt_map)
qed

lemma filter_after:
  "sorted_wrt (\<lambda>a b. f a < (f b :: 'b::linorder)) (xs @ x # ys) \<Longrightarrow> filter (\<lambda>y. f x < f y) (xs @ x # ys) = ys"
proof (induction xs)
  case Nil
  then show ?case by (simp add: filter_True)
next
  case (Cons a xs)
  then show ?case by (auto dest: less_asym)
qed

lemma offer_query_after:
  assumes "market_ok cr db" "on_sale db = P @ S"
  shows "offer_query db n (if P = [] then None else Some (or_id (last P))) = take n S"
proof (cases "P = []")
  case True
  then show ?thesis using assms(2) by (simp add: offer_query_def on_sale_def)
next
  case False
  let ?c = "or_id (last P)"
  have "last P \<in> set (on_sale db)" using False assms(2) by simp
  then have ne: "?c \<noteq> []" using assms(1) by (auto simp: on_sale_def market_ok_def)
  have split: "on_sale db = butlast P @ last P # S" using False assms(2) by simp
  have "sort_key or_id (filter (\<lambda>o'. or_active o' \<and> ?c < or_id o') (md_offers db)) = filter (\<lambda>o'. ?c < or_id o') (on_sale db)"
    by (simp add: on_sale_def filter_sort conj_commute)
  also have "\<dots> = S" unfolding split by (rule filter_after) (use on_sale_strict [OF assms(1)] split in simp)
  finally show ?thesis using False ne by (simp add: offer_query_def)
qed

lemma supply_page_ids:
  assumes "market_ok cr db"
  shows "map s_id (supply_page db ro now n after) = map or_id (offer_query db n after)"
proof -
  have "\<exists>m. find (\<lambda>m. mr_id m = or_machine o') (filter (\<lambda>m. mr_id m \<in> set (map or_machine (offer_query db n after))) (md_machines db)) = Some m"
    if o: "o' \<in> set (offer_query db n after)" for o'
  proof -
    have "o' \<in> set (md_offers db)" using o unfolding offer_query_def by (auto dest: in_set_takeD)
    then obtain m where "m \<in> set (md_machines db)" "mr_id m = or_machine o'" using assms by (auto simp: market_ok_def)
    then have "m \<in> set (filter (\<lambda>m. mr_id m \<in> set (map or_machine (offer_query db n after))) (md_machines db)) \<and> mr_id m = or_machine o'"
      using o by auto
    then show ?thesis by (metis (mono_tags, lifting) find_None_iff not_None_eq)
  qed
  then have "map s_id (List.map_filter (\<lambda>o'. map_option (listing_of db ro now bs jobs o')
      (find (\<lambda>m. mr_id m = or_machine o') (filter (\<lambda>m. mr_id m \<in> set (map or_machine (offer_query db n after))) (md_machines db)))) os) = map or_id os"
    if "set os \<subseteq> set (offer_query db n after)" for bs jobs os
    using that
  proof (induction os)
    case (Cons o' os)
    obtain m where "find (\<lambda>m. mr_id m = or_machine o') (filter (\<lambda>m. mr_id m \<in> set (map or_machine (offer_query db n after))) (md_machines db)) = Some m"
      using Cons.prems(2) Cons.prems(1) [of o'] by auto
    moreover have "s_id (listing_of db ro now bs jobs o' m) = or_id o'" by (simp add: listing_of_def Let_def)
    ultimately show ?case using Cons by (simp add: List.map_filter_simps)
  qed (simp add: List.map_filter_simps)
  then show ?thesis by (simp add: supply_page_def Let_def)
qed

lemma page_limit_pos: "page_limit lq = Inr limit \<Longrightarrow> 1 \<le> limit"
  by (auto simp: page_limit_def split: option.splits if_splits)

lemma offerPage_ids:
  assumes "market_ok cr db" "on_sale db = P @ S" "page_limit lq = Inr limit"
  obtains p where "offerPage cr db ro now lq (if P = [] then None else Some (or_id (last P))) = Inr p"
    "map s_id (pg_offers p) = map or_id (take limit S)"
    "pg_nextCursor p = (if limit < length S then Some (or_id (S ! (limit - 1))) else None)"
proof -
  let ?c = "if P = [] then None else Some (or_id (last P))"
  let ?rows = "supply_page db ro now (limit + 1) ?c"
  note lim = page_limit_pos [OF assms(3)]
  have ids: "map s_id ?rows = map or_id (take (limit + 1) S)"
    unfolding supply_page_ids [OF assms(1)] offer_query_after [OF assms(1,2)] ..
  then have len: "length ?rows = min (length S) (limit + 1)" by (metis length_map length_take)
  have "s_id (?rows ! (limit - 1)) = or_id (S ! (limit - 1))" if "limit < length S"
  proof -
    have "limit - 1 < length ?rows" "limit - 1 < length (take (limit + 1) S)" using that lim len by auto
    then have "s_id (?rows ! (limit - 1)) = or_id (take (limit + 1) S ! (limit - 1))"
      using ids by (metis nth_map)
    then show ?thesis using lim by simp
  qed
  moreover have "map s_id (take limit ?rows) = map or_id (take limit S)"
    unfolding take_map [symmetric] ids by (simp add: take_map)
  moreover have "case ?c of None \<Rightarrow> True | Some c \<Rightarrow> publicKey_ok cr c"
  proof (cases "P = []")
    case False
    then have "last P \<in> set (on_sale db)" using assms(2) by simp
    then show ?thesis using assms(1) False by (auto simp: on_sale_def market_ok_def)
  qed simp
  then have "offerPage cr db ro now lq ?c = Inr \<lparr>pg_offers = take limit ?rows,
      pg_nextCursor = (if limit < length ?rows then Some (s_id (?rows ! (limit - 1))) else None)\<rparr>"
    using assms(3) by (simp add: offerPage_def Let_def)
  ultimately show thesis using that len by simp
qed

text \<open>The identifiers of a page of offers, and the offers as a paged list.\<close>

definition offer_keys :: "offer_page \<Rightarrow> string list \<times> string option" where
  "offer_keys p = (map s_id (pg_offers p), pg_nextCursor p)"

interpretation offers: cursor_paging "\<lambda>(cr, db, ro, now, lq) n. market_ok cr db \<and> page_limit lq = Inr n"
  "\<lambda>(cr, db, ro, now, lq) c. andThen (offerPage cr db ro now lq c) (\<lambda>p. Inr (offer_keys p))" "\<lambda>(cr, db, ro, now, lq). map or_id (on_sale db)"
proof (unfold_locales, goal_cases)
  case (1 d n)
  then show ?case by (auto dest: page_limit_pos)
next
  case (2 d n P S)
  obtain cr db ro now lq where d: "d = (cr, db, ro, now, lq)" by (cases d)
  from 2(2) obtain P' S' where ps: "on_sale db = P' @ S'" "P = map or_id P'" "S = map or_id S'"
    by (auto simp: d map_eq_append_conv)
  have ok: "market_ok cr db" "page_limit lq = Inr n" using 2(1) by (simp_all add: d)
  obtain p where p: "offerPage cr db ro now lq (if P' = [] then None else Some (or_id (last P'))) = Inr p"
    "map s_id (pg_offers p) = map or_id (take n S')" "pg_nextCursor p = (if n < length S' then Some (or_id (S' ! (n - 1))) else None)"
    by (rule offerPage_ids [OF ok(1) ps(1) ok(2)])
  have "(if P = [] then None else Some (last P)) = (if P' = [] then None else Some (or_id (last P')))" by (simp add: ps(2) last_map)
  then show ?case using p by (simp add: d offer_keys_def ps(3) take_map)
qed

text \<open>
  Paging is complete: following the cursors from the first page, with any page size the API
  accepts, returns every active offer exactly once in order of its identifier, and ends.
\<close>

theorem offer_pages_complete:
  assumes "market_ok cr db" "page_limit lq = Inr limit" "length (md_offers db) < fuel"
  shows "walk_pages (\<lambda>c. andThen (offerPage cr db ro now lq c) (\<lambda>p. Inr (offer_keys p))) fuel None = Some (map or_id (on_sale db))"
proof -
  have "length (on_sale db) \<le> length (md_offers db)" by (simp add: on_sale_def)
  then show ?thesis using offers.walk_complete [of "(cr, db, ro, now, lq)" limit fuel] assms by simp
qed

definition sample_market :: market_db where
  "sample_market = \<lparr>md_offers = map (\<lambda>i. \<lparr>or_id = i, or_machine = ''M'', or_rate = ''7'', or_maxSeconds = 60, or_expiresAt = 9, or_active = True\<rparr>)
       [''B'', ''A'', ''C''],
     md_machines = [\<lparr>mr_id = ''M'', mr_provider = ''P'', mr_gpuModel = ''L4'', mr_gpuCount = 0, mr_vramMb = 0, mr_region = ''eu'',
       mr_active = True, mr_busy = False, mr_hardwareHash = []\<rparr>],
     md_heartbeats = [], md_reports = [], md_jobs = [], md_benchmarks = [], md_stakes = [], md_verifications = []\<rparr>"

theorem offer_pages_complete_witness:
  "walk_pages (\<lambda>c. andThen (offerPage sample_crypto sample_market False 100 (Some 2) c) (\<lambda>p. Inr (offer_keys p))) 4 None = Some [''A'', ''B'', ''C'']"
proof -
  have ok: "market_ok sample_crypto sample_market" by (simp add: market_ok_def sample_market_def publicKey_ok_def)
  have lim: "page_limit (Some 2) = Inr 2" by (simp add: page_limit_def)
  have "map or_id (on_sale sample_market) = [''A'', ''B'', ''C'']"
    by (simp add: on_sale_def sample_market_def)
  then show ?thesis using offer_pages_complete [OF ok lim, of 4] by (simp add: sample_market_def)
qed

section \<open>Market prices\<close>

record model_price =
  mp_model :: string
  mp_best :: "rat option"
  mp_median :: "rat option"
  mp_p25 :: "rat option"
  mp_p75 :: "rat option"
  mp_supply :: nat
  mp_listed :: nat
  mp_utilization :: "rat option"

definition hourly :: "listing \<Rightarrow> rat" where
  "hourly l = (case bigInt (s_rateBaseUnitsPerSecond l) of Inr r \<Rightarrow> of_int r * 3600 / 1000000 | Inl _ \<Rightarrow> 0)"

text \<open>\<^verbatim>\<open>new Set\<close> keeps the first occurrence of each model.\<close>

fun first_occurrences :: "'a list \<Rightarrow> 'a list" where
  "first_occurrences [] = []"
| "first_occurrences (x # xs) = x # filter (\<lambda>y. y \<noteq> x) (first_occurrences xs)"

definition price_of_model :: "int \<Rightarrow> listing list \<Rightarrow> string \<Rightarrow> model_price" where
  "price_of_model nowMs offers model =
     (let listed = filter (\<lambda>l. s_gpuModel l = model) offers;
          rates = sort (map hourly (filter (\<lambda>l. s_available l \<and> nowMs - s_heartbeatAt l * 1000 < 90000) listed));
          pick = (\<lambda>i. if rates = [] then None else Some (rates ! i))
      in \<lparr>mp_model = model, mp_best = pick 0, mp_median = pick (length rates div 2), mp_p25 = pick ((length rates - 1) div 4),
          mp_p75 = pick ((length rates - 1) * 3 div 4), mp_supply = length rates, mp_listed = length listed,
          mp_utilization = (if listed = [] then None else Some (1 - of_nat (length rates) / of_nat (length listed)))\<rparr>)"

definition market_prices :: "market_db \<Rightarrow> bool \<Rightarrow> int \<Rightarrow> model_price list" where
  "market_prices db ro nowMs = (let offers = supply_page db ro (nowMs div 1000) 1000 None in
     map (price_of_model nowMs offers) (first_occurrences (map s_gpuModel offers)))"

definition quotes_handler :: "market_db \<Rightarrow> bool \<Rightarrow> int \<Rightarrow> job_spec \<Rightarrow> int \<Rightarrow> string option \<Rightarrow> quote list outcome" where
  "quotes_handler db ro now spec maxSpend region =
     quoteSupply (map Supply.truncate (supply_page db ro now 1000 None)) spec maxSpend now region"

text \<open>The quantiles are ordered and utilization is a share.\<close>

lemma price_quantiles:
  assumes "rates \<noteq> []" "sorted rates"
  shows "rates ! 0 \<le> rates ! ((length rates - 1) div 4)" "rates ! ((length rates - 1) div 4) \<le> rates ! (length rates div 2)"
    "rates ! ((length rates - 1) div 4) \<le> rates ! ((length rates - 1) * 3 div 4)"
proof -
  let ?n = "length rates"
  have n: "0 < ?n" using assms(1) by simp
  then have b: "(?n - 1) div 4 < ?n" "?n div 2 < ?n" "(?n - 1) * 3 div 4 < ?n" by linarith+
  show "rates ! 0 \<le> rates ! ((?n - 1) div 4)" "rates ! ((?n - 1) div 4) \<le> rates ! (?n div 2)"
    "rates ! ((?n - 1) div 4) \<le> rates ! ((?n - 1) * 3 div 4)"
    using b by (auto intro!: sorted_nth_mono [OF assms(2)] div_le_mono)
qed

end
