(* ===== verification/ProviderApi.thy ===== *)
theory ProviderApi
  imports Api
begin

text \<open>
  The HTTP API, second part: what providers and workers call. Heartbeats with the SQL function
  \<^verbatim>\<open>record_heartbeat\<close> behind them and the command of the provider node that sends them, the
  release of job specifications to workers, and challenges. Chain reads are parameters; every
  request carries the environment it was served in, so the chain may change between requests.
\<close>

section \<open>Environment\<close>

record provider_env = api_env +
  pv_program :: string
  pv_cluster :: "string outcome"
  pv_machine :: "string \<Rightarrow> machine_account outcome"
  pv_auth :: "string \<Rightarrow> string \<Rightarrow> worker_account outcome"
  pv_job :: "string \<Rightarrow> job_account outcome"

abbreviation pv_crypto :: "provider_env \<Rightarrow> crypto" where
  "pv_crypto env \<equiv> av_crypto env"

text \<open>\<^verbatim>\<open>verifyPayload(p, signature, bs58.decode(p.worker))\<close> on a worker address the schema accepted.\<close>

definition worker_signed :: "provider_env \<Rightarrow> json \<Rightarrow> string \<Rightarrow> string \<Rightarrow> bool" where
  "worker_signed env j sig worker \<longleftrightarrow> (case b58_decode (pv_crypto env) worker of None \<Rightarrow> False | Some k \<Rightarrow> verifyPayload (pv_crypto env) j sig k)"

section \<open>Heartbeats\<close>

record heartbeat =
  hp_cluster :: string
  hp_program :: string
  hp_machineId :: string
  hp_worker :: string
  hp_timestamp :: int
  hp_available :: int
  hp_load :: rat
  hp_runningJobs :: "string list"
  hp_benchmarkHash :: string
  hp_nonce :: string

definition heartbeat_json :: "heartbeat \<Rightarrow> json" where
  "heartbeat_json p = JObj [(''version'', JStr ''1''), (''domain'', JStr ''vericompute:heartbeat:v1''), (''cluster'', JStr (hp_cluster p)),
     (''program'', JStr (hp_program p)), (''machineId'', JStr (hp_machineId p)), (''worker'', JStr (hp_worker p)),
     (''timestamp'', jint (hp_timestamp p)), (''availableGpuCount'', jint (hp_available p)), (''load'', JNum (hp_load p)),
     (''runningJobs'', JArr (map JStr (hp_runningJobs p))), (''benchmarkHash'', JStr (hp_benchmarkHash p)), (''nonce'', JStr (hp_nonce p))]"

definition heartbeat_schema_ok :: "crypto \<Rightarrow> heartbeat \<Rightarrow> bool" where
  "heartbeat_schema_ok cr p \<longleftrightarrow> publicKey_ok cr (hp_program p) \<and> publicKey_ok cr (hp_machineId p) \<and> publicKey_ok cr (hp_worker p)
     \<and> 0 \<le> hp_available p \<and> hp_available p \<le> 16 \<and> 0 \<le> hp_load p \<and> hp_load p \<le> 1
     \<and> length (hp_runningJobs p) \<le> 16 \<and> list_all (publicKey_ok cr) (hp_runningJobs p) \<and> uuid_ok (hp_nonce p)"

record beat_row =
  bt_worker :: string
  bt_timestamp :: int
  bt_available :: int
  bt_load :: rat
  bt_nonce :: string

text \<open>The nonces with the time they expire, and the latest heartbeat of each machine.\<close>

record beat_db =
  hs_nonces :: "(string \<times> int) list"
  hs_rows :: "(string \<times> beat_row) list"
  hs_machines :: "string list"

definition store_beat :: "heartbeat \<Rightarrow> (string \<times> beat_row) list \<Rightarrow> (string \<times> beat_row) list" where
  "store_beat p rows = (let row = \<lparr>bt_worker = hp_worker p, bt_timestamp = hp_timestamp p, bt_available = hp_available p,
       bt_load = hp_load p, bt_nonce = hp_nonce p\<rparr> in
     case map_of rows (hp_machineId p) of
       None \<Rightarrow> rows @ [(hp_machineId p, row)]
     | Some old \<Rightarrow> if bt_timestamp old < hp_timestamp p then AList.update (hp_machineId p) row rows else rows)"

text \<open>One transaction: an exception leaves the tables as they were. Times are in milliseconds.\<close>

definition record_heartbeat :: "int \<Rightarrow> heartbeat \<Rightarrow> beat_db \<Rightarrow> beat_db outcome" where
  "record_heartbeat now p db =
     (if hp_nonce p \<in> set (map fst (hs_nonces db)) then Inl ''duplicate key value violates unique constraint heartbeat_nonces_pkey''
      else if hp_machineId p \<notin> set (hs_machines db) then Inl ''violates foreign key constraint heartbeats_machine_id_fkey''
      else if list_ex (\<lambda>(m, r). m \<noteq> hp_machineId p \<and> bt_nonce r = hp_nonce p) (hs_rows db)
      then Inl ''duplicate key value violates unique constraint heartbeats_nonce_key''
      else Inr (db\<lparr>hs_rows := store_beat p (hs_rows db),
        hs_nonces := filter (\<lambda>(n, e). now \<le> e) (hs_nonces db @ [(hp_nonce p, now + 120000)])\<rparr>))"

definition heartbeat_checks :: "provider_env \<Rightarrow> heartbeat \<Rightarrow> string \<Rightarrow> unit reply" where
  "heartbeat_checks env p sig =
     andThen (guard (heartbeat_schema_ok (pv_crypto env) p) (Http 400 ''payload'')) (\<lambda>_.
     andThen (guard (hp_program p = pv_program env) (Http 403 ''Invalid heartbeat'')) (\<lambda>_.
     andThen (plain (pv_cluster env)) (\<lambda>cluster.
     andThen (guard (hp_cluster p = cluster \<and> \<bar>av_nowMs env - hp_timestamp p * 1000\<bar> \<le> 60000
         \<and> worker_signed env (heartbeat_json p) sig (hp_worker p)) (Http 403 ''Invalid heartbeat'')) (\<lambda>_.
     andThen (plain (pv_machine env (hp_machineId p))) (\<lambda>machine.
     andThen (plain (pv_auth env (mc_provider machine) (hp_worker p))) (\<lambda>auth.
       guard (mc_worker machine = hp_worker p \<and> wa_active auth \<and> av_nowMs env \<le> wa_expiresAt auth * 1000
         \<and> hp_available p \<le> mc_gpuCount machine) (Http 403 ''Worker not authorized'')))))))"

definition heartbeat_handler :: "provider_env \<Rightarrow> heartbeat \<Rightarrow> string \<Rightarrow> beat_db \<Rightarrow> beat_db \<times> unit reply" where
  "heartbeat_handler env p sig db = (case heartbeat_checks env p sig of
     Inl e \<Rightarrow> (db, Inl e)
   | Inr _ \<Rightarrow> (case record_heartbeat (av_nowMs env) p db of Inl e \<Rightarrow> (db, Inl (Http 500 e)) | Inr db' \<Rightarrow> (db', Inr ())))"

text \<open>The provider node's \<^verbatim>\<open>heartbeat\<close> command: what it signs and sends.\<close>

definition make_heartbeat :: "provider_env \<Rightarrow> string \<Rightarrow> string \<Rightarrow> string \<Rightarrow> heartbeat outcome" where
  "make_heartbeat env machineId worker nonce =
     andThen (pv_machine env machineId) (\<lambda>m. andThen (pv_cluster env) (\<lambda>cluster.
     Inr \<lparr>hp_cluster = cluster, hp_program = pv_program env, hp_machineId = machineId, hp_worker = worker,
       hp_timestamp = av_nowMs env div 1000, hp_available = (if mc_busy m then 0 else mc_gpuCount m),
       hp_load = (if mc_busy m then 1 else 0), hp_runningJobs = (if mc_busy m then [mc_activeJob m] else []),
       hp_benchmarkHash = [], hp_nonce = nonce\<rparr>))"

section \<open>No heartbeat twice\<close>

type_synonym beat_request = "provider_env \<times> heartbeat \<times> string"

definition serve_beats :: "beat_request list \<Rightarrow> beat_db \<Rightarrow> beat_db" where
  "serve_beats reqs db = fold (\<lambda>(env, p, sig) d. fst (heartbeat_handler env p sig d)) reqs db"

lemma handler_Inr:
  "heartbeat_handler env p sig db = (db', Inr ()) \<longleftrightarrow>
     heartbeat_checks env p sig = Inr () \<and> record_heartbeat (av_nowMs env) p db = Inr db'"
  by (auto simp: heartbeat_handler_def split: sum.splits)

lemma handler_keeps_nonce:
  assumes "(n, e) \<in> set (hs_nonces db)" "av_nowMs env \<le> e"
  shows "(n, e) \<in> set (hs_nonces (fst (heartbeat_handler env p sig db)))"
  using assms by (auto simp: heartbeat_handler_def record_heartbeat_def split: sum.splits if_splits)

lemma serve_keeps_nonce:
  assumes "(n, e) \<in> set (hs_nonces db)" "\<forall>(env, p, sig) \<in> set reqs. av_nowMs env \<le> e"
  shows "(n, e) \<in> set (hs_nonces (serve_beats reqs db))"
  using assms
proof (induction reqs arbitrary: db)
  case (Cons r reqs)
  obtain env p sig where r: "r = (env, p, sig)" by (cases r)
  then show ?case using Cons.IH [OF handler_keeps_nonce [of n e db env p sig]] Cons.prems by (auto simp: serve_beats_def)
qed (simp add: serve_beats_def)

lemma checks_fresh: "heartbeat_checks env p sig = Inr () \<Longrightarrow> \<bar>av_nowMs env - hp_timestamp p * 1000\<bar> \<le> 60000"
  by (auto simp: heartbeat_checks_def outcome_simps)

text \<open>
  C33. A heartbeat is accepted at most once: after it was accepted, and whatever other heartbeats
  are served meanwhile, presenting it again fails. Its nonce is remembered for two minutes and its
  timestamp is too old by then. An accepted heartbeat is signed by the machine's own worker, which
  its provider has authorized.
\<close>

theorem heartbeat_no_replay:
  assumes "heartbeat_handler env p sig db = (db1, Inr ())" "db2 = serve_beats reqs db1"
    "\<forall>(e, q, s) \<in> set reqs. av_nowMs e \<le> av_nowMs env'"
  shows "(\<exists>e. heartbeat_handler env' p sig' db2 = (db2, Inl e))
     \<and> (\<exists>machine auth. pv_machine env (hp_machineId p) = Inr machine \<and> mc_worker machine = hp_worker p
       \<and> pv_auth env (mc_provider machine) (hp_worker p) = Inr auth \<and> wa_active auth
       \<and> worker_signed env (heartbeat_json p) sig (hp_worker p))"
proof
  have acc: "heartbeat_checks env p sig = Inr ()" "record_heartbeat (av_nowMs env) p db = Inr db1"
    using assms(1) by (simp_all add: handler_Inr)
  have stored: "(hp_nonce p, av_nowMs env + 120000) \<in> set (hs_nonces db1)"
    using acc(2) by (auto simp: record_heartbeat_def split: if_splits)
  show "\<exists>e. heartbeat_handler env' p sig' db2 = (db2, Inl e)"
  proof (cases "heartbeat_checks env' p sig'")
    case (Inl e)
    then show ?thesis by (simp add: heartbeat_handler_def)
  next
    case (Inr u)
    then have "av_nowMs env' \<le> av_nowMs env + 120000" using checks_fresh [of env' p sig'] checks_fresh [OF acc(1)] by auto
    then have "(hp_nonce p, av_nowMs env + 120000) \<in> set (hs_nonces db2)"
      unfolding assms(2) using assms(3) by (intro serve_keeps_nonce [OF stored]) auto
    then have "\<exists>e. record_heartbeat (av_nowMs env') p db2 = Inl e" by (force simp: record_heartbeat_def)
    then show ?thesis using Inr by (auto simp: heartbeat_handler_def)
  qed
next
  have acc: "heartbeat_checks env p sig = Inr ()" "record_heartbeat (av_nowMs env) p db = Inr db1"
    using assms(1) by (simp_all add: handler_Inr)
  then show "\<exists>machine auth. pv_machine env (hp_machineId p) = Inr machine \<and> mc_worker machine = hp_worker p
       \<and> pv_auth env (mc_provider machine) (hp_worker p) = Inr auth \<and> wa_active auth
       \<and> worker_signed env (heartbeat_json p) sig (hp_worker p)"
    by (auto simp: heartbeat_checks_def outcome_simps)
qed

text \<open>The stored time of a machine never goes back, whatever is served.\<close>

lemma store_beat_forward:
  assumes "map_of rows m = Some old"
  shows "\<exists>row. map_of (store_beat p rows) m = Some row \<and> bt_timestamp old \<le> bt_timestamp row"
  using assms by (auto simp: store_beat_def Let_def update_conv' map_add_Some_iff split: option.splits if_splits)

lemma serve_beats_forward:
  assumes "map_of (hs_rows db) m = Some old"
  shows "\<exists>row. map_of (hs_rows (serve_beats reqs db)) m = Some row \<and> bt_timestamp old \<le> bt_timestamp row"
  using assms
proof (induction reqs arbitrary: db old)
  case (Cons r reqs)
  obtain env p sig where r: "r = (env, p, sig)" by (cases r)
  let ?db = "fst (heartbeat_handler env p sig db)"
  have "hs_rows ?db \<in> {hs_rows db, store_beat p (hs_rows db)}"
    by (auto simp: heartbeat_handler_def record_heartbeat_def split: sum.splits if_splits)
  then obtain row where row: "map_of (hs_rows ?db) m = Some row" "bt_timestamp old \<le> bt_timestamp row"
    using Cons.prems store_beat_forward [OF Cons.prems, of p] by auto
  from Cons.IH [OF row(1)] row(2) r show ?case by (auto simp: serve_beats_def)
qed (simp add: serve_beats_def)

text \<open>The heartbeat the provider node makes is accepted while its machine and delegation are as registered.\<close>

lemma honest_heartbeat_accepted:
  assumes "make_heartbeat env machineId worker nonce = Inr p" "signature_law (pv_crypto env) pub"
    "b58_decode (pv_crypto env) worker = Some (pub key)" "signPayload (pv_crypto env) (heartbeat_json p) key = Inr sig"
    "heartbeat_schema_ok (pv_crypto env) p" "pv_machine env machineId = Inr m" "mc_worker m = worker" "0 \<le> mc_gpuCount m"
    "pv_auth env (mc_provider m) worker = Inr auth" "wa_active auth" "av_nowMs env \<le> wa_expiresAt auth * 1000"
  shows "heartbeat_checks env p sig = Inr ()"
proof -
  have "verifyPayload (pv_crypto env) (heartbeat_json p) sig (pub key)" by (rule verifyPayload_signPayload [OF assms(2,4)])
  then have "worker_signed env (heartbeat_json p) sig worker" using assms(3) by (simp add: worker_signed_def)
  moreover have "\<bar>t - t div 1000 * 1000\<bar> \<le> 60000" for t :: int by linarith
  ultimately show ?thesis using assms by (auto simp: make_heartbeat_def heartbeat_checks_def plain_def outcome_simps)
qed

definition sample_machine_account :: machine_account where
  "sample_machine_account = \<lparr>mc_provider = ''P'', mc_worker = ''W'', mc_id = [], mc_hardwareHash = [], mc_gpuCount = 2,
     mc_vramMb = 0, mc_active = True, mc_busy = False, mc_activeJob = zero_key, mc_completed = 0, mc_failed = 0\<rparr>"

definition sample_provider_env :: provider_env where
  "sample_provider_env = \<lparr>av_crypto = sample_crypto, av_session = (\<lambda>_. None), av_parse = (\<lambda>_. None), av_nowMs = 500000,
     pv_program = ''X'', pv_cluster = Inr ''devnet'', pv_machine = (\<lambda>_. Inr sample_machine_account),
     pv_auth = (\<lambda>p w. Inr \<lparr>wa_provider = p, wa_worker = w, wa_active = True, wa_expiresAt = 1000\<rparr>), pv_job = (\<lambda>_. Inl ''none'')\<rparr>"

definition sample_beat :: heartbeat where
  "sample_beat = \<lparr>hp_cluster = ''devnet'', hp_program = ''X'', hp_machineId = ''M'', hp_worker = ''W'', hp_timestamp = 500,
     hp_available = 2, hp_load = 0, hp_runningJobs = [], hp_benchmarkHash = [], hp_nonce = sample_uuid\<rparr>"

definition sample_beat_signature :: string where
  "sample_beat_signature = toBase64 (ed_sign sample_crypto (utf8 ''W'') (utf8 (show_json (heartbeat_json sample_beat))))"

lemma sample_beat_checked: "heartbeat_checks sample_provider_env sample_beat sample_beat_signature = Inr ()"
proof (rule honest_heartbeat_accepted [where m = sample_machine_account
      and auth = "\<lparr>wa_provider = ''P'', wa_worker = ''W'', wa_active = True, wa_expiresAt = 1000\<rparr>"])
  show "make_heartbeat sample_provider_env ''M'' ''W'' sample_uuid = Inr sample_beat"
    by (simp add: make_heartbeat_def sample_provider_env_def sample_machine_account_def sample_beat_def)
  show "signature_law (pv_crypto sample_provider_env) checksum" by (simp add: sample_provider_env_def sample_signature_law)
  show "b58_decode (pv_crypto sample_provider_env) ''W'' = Some (checksum (utf8 ''W''))" by (simp add: sample_provider_env_def)
  show "signPayload (pv_crypto sample_provider_env) (heartbeat_json sample_beat) (utf8 ''W'') = Inr sample_beat_signature"
    by (simp add: sample_provider_env_def sample_signPayload sample_beat_signature_def)
  show "heartbeat_schema_ok (pv_crypto sample_provider_env) sample_beat"
    by (simp add: heartbeat_schema_ok_def sample_beat_def publicKey_ok_def sample_provider_env_def)
qed (simp_all add: sample_provider_env_def sample_machine_account_def)

theorem heartbeat_no_replay_witness:
  "\<exists>db1 e. heartbeat_handler sample_provider_env sample_beat sample_beat_signature \<lparr>hs_nonces = [], hs_rows = [], hs_machines = [''M'']\<rparr> = (db1, Inr ())
     \<and> heartbeat_handler sample_provider_env sample_beat sample_beat_signature db1 = (db1, Inl e)"
proof -
  have "hp_machineId sample_beat = ''M''" by (simp add: sample_beat_def)
  then obtain db1 where db1: "heartbeat_handler sample_provider_env sample_beat sample_beat_signature
      \<lparr>hs_nonces = [], hs_rows = [], hs_machines = [''M'']\<rparr> = (db1, Inr ())"
    using sample_beat_checked by (simp add: handler_Inr record_heartbeat_def)
  from heartbeat_no_replay [OF db1, of db1 "[]"] show ?thesis using db1 by (auto simp: serve_beats_def)
qed

section \<open>Releasing specifications\<close>

record spec_request =
  sq_jobId :: string
  sq_worker :: string
  sq_provider :: string
  sq_timestamp :: int

definition spec_request_json :: "spec_request \<Rightarrow> json" where
  "spec_request_json p = JObj [(''version'', JStr ''1''), (''domain'', JStr ''vericompute:job-spec-request:v1''), (''jobId'', JStr (sq_jobId p)),
     (''worker'', JStr (sq_worker p)), (''provider'', JStr (sq_provider p)), (''timestamp'', jint (sq_timestamp p))]"

text \<open>\<open>specs\<close> is the lookup in \<^verbatim>\<open>job_specs\<close> by hash. An open job is state 2.\<close>

definition spec_handler :: "provider_env \<Rightarrow> (string \<Rightarrow> json list outcome) \<Rightarrow> spec_request \<Rightarrow> string \<Rightarrow> json reply" where
  "spec_handler env specs p sig =
     andThen (guard (publicKey_ok (pv_crypto env) (sq_jobId p) \<and> publicKey_ok (pv_crypto env) (sq_worker p)
       \<and> publicKey_ok (pv_crypto env) (sq_provider p)) (Http 400 ''payload'')) (\<lambda>_.
     andThen (guard (\<bar>av_nowMs env - sq_timestamp p * 1000\<bar> \<le> 30000 \<and> worker_signed env (spec_request_json p) sig (sq_worker p))
       (Http 403 ''Invalid worker proof'')) (\<lambda>_.
     andThen (plain (pv_auth env (sq_provider p) (sq_worker p))) (\<lambda>auth.
     andThen (guard (wa_active auth \<and> av_nowMs env \<le> wa_expiresAt auth * 1000) (Http 403 ''Worker delegation inactive'')) (\<lambda>_.
     andThen (plain (pv_job env (sq_jobId p))) (\<lambda>j.
     andThen (guard (jb_state j = st_OPEN \<or> jb_worker j = sq_worker p) (Http 403 ''Not assigned to this worker'')) (\<lambda>_.
     andThen (plain (specs (toHex (jb_specHash j)))) (\<lambda>rows.
     case rows of [] \<Rightarrow> Inl (Http 404 ''Job spec not available'') | spec # _ \<Rightarrow> Inr spec)))))))"

lemma first_row_Inr [outcome_simps]: "(case rows of [] \<Rightarrow> Inl e | x # _ \<Rightarrow> Inr x) = Inr y \<longleftrightarrow> (\<exists>rest. rows = y # rest)"
  by (cases rows) auto

lemma spec_released:
  assumes "spec_handler env specs p sig = Inr spec"
  shows "\<exists>auth j. worker_signed env (spec_request_json p) sig (sq_worker p) \<and> pv_auth env (sq_provider p) (sq_worker p) = Inr auth
     \<and> wa_active auth \<and> pv_job env (sq_jobId p) = Inr j \<and> (jb_state j = st_OPEN \<or> jb_worker j = sq_worker p)
     \<and> (\<exists>rest. specs (toHex (jb_specHash j)) = Inr (spec # rest))"
  using assms by (auto simp: spec_handler_def outcome_simps)

section \<open>Challenges\<close>

record challenge_row =
  cw_challenge :: challenge
  cw_expectedResultHash :: string
  cw_passed :: "bool option"
  cw_expiresAtMs :: int

record challenge_ask =
  cq_jobId :: string
  cq_worker :: string
  cq_timestamp :: int
  cq_nonce :: string

definition challenge_ask_json :: "challenge_ask \<Rightarrow> json" where
  "challenge_ask_json p = JObj [(''version'', JStr ''1''), (''domain'', JStr ''vericompute:challenge-request:v1''),
     (''jobId'', JStr (cq_jobId p)), (''worker'', JStr (cq_worker p)), (''timestamp'', jint (cq_timestamp p)), (''nonce'', JStr (cq_nonce p))]"

type_synonym challenge_db = "string \<rightharpoonup> challenge_row"

text \<open>A new challenge replaces the row of the job; \<open>uuid\<close> and \<open>seed\<close> are its random identifier and seed.\<close>

definition issue_new :: "provider_env \<Rightarrow> string \<Rightarrow> string \<Rightarrow> challenge_ask \<Rightarrow> job_account \<Rightarrow> challenge_db \<Rightarrow> challenge_db \<times> challenge reply" where
  "issue_new env uuid seed p job db =
     (case issueChallenge (pv_crypto env) uuid seed (cq_jobId p) (jb_machine job) (cq_worker p) (av_nowMs env div 1000) None None of
        Inl e \<Rightarrow> (db, Inl (Http 500 e))
      | Inr (c, h) \<Rightarrow> (db(cq_jobId p \<mapsto> \<lparr>cw_challenge = c, cw_expectedResultHash = h, cw_passed = None,
          cw_expiresAtMs = c_expiresAt c * 1000\<rparr>), Inr c))"

definition challenge_checked :: "provider_env \<Rightarrow> string \<Rightarrow> challenge_ask \<Rightarrow> string \<Rightarrow> job_account reply" where
  "challenge_checked env jid p sig =
     andThen (guard (publicKey_ok (pv_crypto env) (cq_jobId p) \<and> publicKey_ok (pv_crypto env) (cq_worker p) \<and> uuid_ok (cq_nonce p)
       \<and> length sig \<le> 100) (Http 400 ''payload'')) (\<lambda>_.
     andThen (guard (cq_jobId p = jid \<and> \<bar>av_nowMs env - cq_timestamp p * 1000\<bar> \<le> 60000
       \<and> worker_signed env (challenge_ask_json p) sig (cq_worker p)) (Http 403 ''Invalid challenge request'')) (\<lambda>_.
     andThen (plain (pv_job env (cq_jobId p))) (\<lambda>job.
     andThen (guard (jb_state job = st_VERIFYING \<and> jb_policy job = policyCode CHALLENGE \<and> jb_worker job = cq_worker p)
       (Http 409 ''Job is not awaiting a challenge'')) (\<lambda>_. Inr job))))"

definition challenge_handler ::
  "provider_env \<Rightarrow> string \<Rightarrow> string \<Rightarrow> string \<Rightarrow> challenge_ask \<Rightarrow> string \<Rightarrow> challenge_db \<Rightarrow> challenge_db \<times> challenge reply" where
  "challenge_handler env uuid seed jid p sig db = (case challenge_checked env jid p sig of
     Inl e \<Rightarrow> (db, Inl e)
   | Inr job \<Rightarrow> (case db (cq_jobId p) of
       Some row \<Rightarrow> if av_nowMs env < cw_expiresAtMs row then (db, Inr (cw_challenge row)) else issue_new env uuid seed p job db
     | None \<Rightarrow> issue_new env uuid seed p job db))"

text \<open>
  \<open>receipt\<close> is the payload of the stored receipt of the job. The update is conditional on
  \<^verbatim>\<open>passed IS NULL\<close>; the answer of a decided challenge is the stored decision.
\<close>

definition challenge_response_handler ::
  "provider_env \<Rightarrow> (string \<Rightarrow> receipt option) \<Rightarrow> string \<Rightarrow> challenge_response \<Rightarrow> string \<Rightarrow> challenge_db \<Rightarrow> challenge_db \<times> bool reply" where
  "challenge_response_handler env receipt jid p sig db =
     (if \<not> response_ok p \<or> 100 < length sig then (db, Inl (Http 400 ''payload''))
      else if p_jobId p \<noteq> jid then (db, Inl (Http 400 ''Challenge job mismatch''))
      else case db jid of None \<Rightarrow> (db, Inl (Http 404 ''Challenge not found'')) | Some row \<Rightarrow>
       (case receipt jid of None \<Rightarrow> (db, Inl (Http 409 ''Execution receipt not found'')) | Some rc \<Rightarrow>
        (case cw_passed row of Some v \<Rightarrow> (db, Inr v) | None \<Rightarrow>
         (case verifyChallenge (pv_crypto env) (cw_challenge row) (cw_expectedResultHash row) (Some (r_gpuUuidCommitment rc))
             (Some (r_telemetryHash rc)) p sig (av_nowMs env div 1000) None of
            Inl e \<Rightarrow> (db, Inl (Http 500 e))
          | Inr dec \<Rightarrow> (db(jid \<mapsto> row\<lparr>cw_passed := Some (cd_passed dec)\<rparr>), Inr (cd_passed dec))))))"

text \<open>
  A decided challenge stays decided until a new one is issued: further responses return the
  stored verdict and change nothing, and a response that does change the row stores the verdict of
  \<open>verifyChallenge\<close> on an undecided challenge.
\<close>

lemma challenge_decided_once:
  assumes "challenge_response_handler env receipt jid p sig db = (db', r)"
  shows "(\<forall>row v. db jid = Some row \<and> cw_passed row = Some v \<longrightarrow> db' = db \<and> (\<forall>w. r = Inr w \<longrightarrow> w = v))
     \<and> (\<forall>k. k \<noteq> jid \<longrightarrow> db' k = db k)
     \<and> (db' \<noteq> db \<longrightarrow> (\<exists>row rc v dec. db jid = Some row \<and> cw_passed row = None \<and> receipt jid = Some rc \<and> r = Inr v
          \<and> db' jid = Some (row\<lparr>cw_passed := Some v\<rparr>) \<and> v = cd_passed dec
          \<and> verifyChallenge (pv_crypto env) (cw_challenge row) (cw_expectedResultHash row) (Some (r_gpuUuidCommitment rc))
              (Some (r_telemetryHash rc)) p sig (av_nowMs env div 1000) None = Inr dec))"
proof (intro conjI allI impI)
  fix row v assume "db jid = Some row \<and> cw_passed row = Some v"
  then show "db' = db" and "\<And>w. r = Inr w \<Longrightarrow> w = v"
    using assms by (auto simp: challenge_response_handler_def split: if_splits option.splits)
next
  show "db' k = db k" if "k \<noteq> jid" for k
    using assms that by (auto simp: challenge_response_handler_def split: if_splits option.splits sum.splits)
next
  assume ne: "db' \<noteq> db"
  then obtain row rc where row: "db jid = Some row" "receipt jid = Some rc" "cw_passed row = None" "response_ok p" "length sig \<le> 100" "p_jobId p = jid"
    using assms by (auto simp: challenge_response_handler_def split: if_splits option.splits)
  then show "\<exists>row rc v dec. db jid = Some row \<and> cw_passed row = None \<and> receipt jid = Some rc \<and> r = Inr v
          \<and> db' jid = Some (row\<lparr>cw_passed := Some v\<rparr>) \<and> v = cd_passed dec
          \<and> verifyChallenge (pv_crypto env) (cw_challenge row) (cw_expectedResultHash row) (Some (r_gpuUuidCommitment rc))
              (Some (r_telemetryHash rc)) p sig (av_nowMs env div 1000) None = Inr dec"
    using assms ne by (auto simp: challenge_response_handler_def split: sum.splits)
qed

text \<open>The rows that any sequence of requests, each served in its own environment, can leave behind.\<close>

inductive challenge_reach :: "crypto \<Rightarrow> challenge_db \<Rightarrow> bool" for cr where
  fresh: "challenge_reach cr Map.empty"
| ask: "challenge_reach cr db \<Longrightarrow> pv_crypto env = cr \<Longrightarrow> challenge_handler env uuid seed jid p sig db = (db', r) \<Longrightarrow> challenge_reach cr db'"
| respond: "challenge_reach cr db \<Longrightarrow> pv_crypto env = cr \<Longrightarrow> challenge_response_handler env receipt jid p sig db = (db', r)
     \<Longrightarrow> challenge_reach cr db'"

definition challenge_earned :: "crypto \<Rightarrow> challenge \<Rightarrow> bool" where
  "challenge_earned cr c \<longleftrightarrow> (\<exists>p sig key. p_challengeId p = c_id c \<and> p_jobId p = c_jobId c \<and> p_worker p = c_worker c
     \<and> p_resultHash p = solveChallenge cr (c_seed c) (c_iterations c)
     \<and> b58_decode cr (c_worker c) = Some key \<and> verifyPayload cr (response_json p) sig key
     \<and> c_issuedAt c - 2 \<le> p_startedAt p \<and> p_finishedAt p \<le> c_expiresAt c \<and> p_finishedAt p - p_startedAt p \<le> 120)"

definition challenge_row_ok :: "crypto \<Rightarrow> string \<Rightarrow> challenge_row \<Rightarrow> bool" where
  "challenge_row_ok cr jid row \<longleftrightarrow> c_jobId (cw_challenge row) = jid \<and> c_iterations (cw_challenge row) = 100000
     \<and> cw_expectedResultHash row = solveChallenge cr (c_seed (cw_challenge row)) (c_iterations (cw_challenge row))
     \<and> (cw_passed row = Some True \<longrightarrow> challenge_earned cr (cw_challenge row))"

lemma issue_new_row:
  assumes "issue_new env uuid seed p job db = (db', r)" "db' k = Some row"
  shows "db k = Some row \<or> challenge_row_ok (pv_crypto env) k row"
  using assms by (auto simp: issue_new_def issueChallenge_def challenge_row_ok_def Let_def split: sum.splits if_splits)

lemma challenge_handler_row:
  assumes "challenge_handler env uuid seed jid p sig db = (db', r)" "db' k = Some row"
  shows "db k = Some row \<or> challenge_row_ok (pv_crypto env) k row"
proof (cases "db' = db")
  case False
  then obtain job where "issue_new env uuid seed p job db = (db', r)"
    using assms(1) by (auto simp: challenge_handler_def split: sum.splits option.splits if_splits)
  then show ?thesis using assms(2) by (rule issue_new_row)
qed (use assms in simp)

lemma passed_earned:
  assumes "verifyChallenge cr c (solveChallenge cr (c_seed c) (c_iterations c)) g t p sig now None = Inr d" "cd_passed d"
  shows "challenge_earned cr c"
  using assms unfolding challenge_earned_def
  by (intro exI [of _ p] exI [of _ sig]) (auto simp: verifyChallenge_eq_Inr run_checks_eq_Nil challenge_checks_def)

lemma challenge_response_row:
  assumes "challenge_response_handler env receipt jid p sig db = (db', r)" "db' k = Some row"
    "\<And>row. db k = Some row \<Longrightarrow> challenge_row_ok (pv_crypto env) k row"
  shows "challenge_row_ok (pv_crypto env) k row"
proof (cases "db' k = db k")
  case False
  then have "db' \<noteq> db" "k = jid" using challenge_decided_once [OF assms(1)] by auto
  then obtain old rc v dec where old: "db jid = Some old" "db' jid = Some (old\<lparr>cw_passed := Some v\<rparr>)" "v = cd_passed dec"
    "receipt jid = Some rc" "verifyChallenge (pv_crypto env) (cw_challenge old) (cw_expectedResultHash old) (Some (r_gpuUuidCommitment rc))
       (Some (r_telemetryHash rc)) p sig (av_nowMs env div 1000) None = Inr dec"
    using challenge_decided_once [OF assms(1), THEN conjunct2, THEN conjunct2, rule_format, OF \<open>db' \<noteq> db\<close>] by (elim exE conjE) (rule that)
  have ok: "challenge_row_ok (pv_crypto env) jid old" using assms(3) old(1) \<open>k = jid\<close> by simp
  then have "cd_passed dec \<Longrightarrow> challenge_earned (pv_crypto env) (cw_challenge old)"
    using passed_earned old(5) by (simp add: challenge_row_ok_def)
  then show ?thesis using ok old(2,3) assms(2) \<open>k = jid\<close> by (auto simp: challenge_row_ok_def)
qed (use assms in simp)

text \<open>
  A positive verdict is earned. Whatever requests are served, in any order and by any callers, a
  stored challenge that passed was answered by a response that carries the hash of its 100000
  rounds, names its challenge, job and worker, is signed by that worker's key and was computed
  between two seconds before issue and expiry, in at most two minutes.
\<close>

theorem challenge_verdict_earned:
  assumes "challenge_reach cr db" "db jid = Some row" "cw_passed row = Some True"
  shows "challenge_earned cr (cw_challenge row) \<and> c_jobId (cw_challenge row) = jid \<and> c_iterations (cw_challenge row) = 100000"
proof -
  have "challenge_row_ok cr k row" if "db k = Some row" for k row
    using assms(1) that
  proof (induction arbitrary: k row)
    case (ask db env uuid seed jid p sig db' r)
    then show ?case using challenge_handler_row by blast
  next
    case (respond db env receipt jid p sig db' r)
    then show ?case using challenge_response_row by blast
  qed simp
  from this [OF assms(2)] assms(3) show ?thesis by (simp add: challenge_row_ok_def)
qed

definition challenged_job :: job_account where
  "challenged_job = \<lparr>jb_id = [], jb_buyer = ''B'', jb_specHash = [], jb_mint = ''T'', jb_treasury = ''F'', jb_verifier = ''V'', jb_resolver = ''R'',
     jb_provider = ''P'', jb_payout = ''P'', jb_machine = sample_machine, jb_worker = sample_worker, jb_receiptHash = [], jb_evidenceHash = [],
     jb_budget = 10, jb_deposit = 10, jb_price = 5, jb_providerPaid = 0, jb_feePaid = 0, jb_refunded = 0, jb_deadline = 90, jb_startedAt = 50,
     jb_submittedAt = 80, jb_verifiedAt = 0, jb_disputeSeconds = 60, jb_timeout = 60, jb_feeBps = 100, jb_policy = policyCode CHALLENGE,
     jb_state = st_VERIFYING, jb_settled = False, jb_resolved = False\<rparr>"

definition challenge_env :: provider_env where
  "challenge_env = \<lparr>av_crypto = sample_crypto, av_session = (\<lambda>_. None), av_parse = (\<lambda>_. None), av_nowMs = 111000,
     pv_program = ''X'', pv_cluster = Inr ''devnet'', pv_machine = (\<lambda>_. Inl ''none''),
     pv_auth = (\<lambda>p w. Inl ''none''), pv_job = (\<lambda>_. Inr challenged_job)\<rparr>"

definition issued_challenge :: challenge where
  "issued_challenge = sample_challenge\<lparr>c_iterations := 100000, c_issuedAt := 111, c_expiresAt := 231\<rparr>"

definition issued_answer :: string where
  "issued_answer = solveChallenge sample_crypto (replicate 64 CHR ''a'') 100000"

definition solved_response :: challenge_response where
  "solved_response = sample_response\<lparr>p_resultHash := issued_answer, p_startedAt := 111, p_finishedAt := 112\<rparr>"

definition solved_signature :: string where
  "solved_signature = toBase64 (ed_sign sample_crypto (utf8 sample_worker) (utf8 (show_json (response_json solved_response))))"

abbreviation asked :: challenge_ask where
  "asked \<equiv> \<lparr>cq_jobId = sample_job, cq_worker = sample_worker, cq_timestamp = 111, cq_nonce = sample_uuid\<rparr>"

definition asked_signature :: string where
  "asked_signature = toBase64 (ed_sign sample_crypto (utf8 sample_worker) (utf8 (show_json (challenge_ask_json asked))))"

lemma issued_answer_ok: "hash_ok issued_answer"
  unfolding issued_answer_def solveChallenge_def hash_ok_toHex
  by (rule length_solve_loop) (simp_all add: sample_crypto_def hash_ok_length is_hex_lower_def)

lemma issued_fields:
  "c_id issued_challenge = sample_uuid" "c_jobId issued_challenge = sample_job" "c_machineId issued_challenge = sample_machine"
  "c_worker issued_challenge = sample_worker" "c_issuedAt issued_challenge = 111" "c_expiresAt issued_challenge = 231"
  by (simp_all add: issued_challenge_def sample_challenge_def)

lemma solved_fields:
  "p_challengeId solved_response = sample_uuid" "p_jobId solved_response = sample_job" "p_machineId solved_response = sample_machine"
  "p_worker solved_response = sample_worker" "p_resultHash solved_response = issued_answer" "p_startedAt solved_response = 111"
  "p_finishedAt solved_response = 112" "p_gpuUuidCommitment solved_response = r_gpuUuidCommitment sample_receipt"
  "p_telemetryHash solved_response = r_telemetryHash sample_receipt"
  by (simp_all add: solved_response_def sample_response_def)

lemma solved_response_ok: "response_ok solved_response"
  using sample_response_ok issued_answer_ok by (simp add: response_ok_def solved_response_def safe_int_def)

lemma signed_by_worker:
  "verifyPayload sample_crypto (response_json solved_response) solved_signature (checksum (utf8 sample_worker))"
  "verifyPayload sample_crypto (challenge_ask_json asked) asked_signature (checksum (utf8 sample_worker))"
  unfolding solved_signature_def asked_signature_def
  by (rule verifyPayload_signPayload [OF sample_signature_law], simp add: sample_signPayload)+

lemma length_toBase64: "length (toBase64 bs) = 4 * ((length bs + 2) div 3)"
proof (induction bs rule: toBase64.induct)
  case (1 a b c r)
  then have "length (toBase64 (a # b # c # r)) = 4 + 4 * ((length r + 2) div 3)" by (simp add: Let_def)
  also have "\<dots> = 4 * ((length (a # b # c # r) + 2) div 3)" by simp presburger
  finally show ?case .
qed (simp_all add: Let_def)

lemma short_signatures: "length solved_signature \<le> 100" "length asked_signature \<le> 100"
  unfolding solved_signature_def asked_signature_def length_toBase64 by (simp_all add: sample_crypto_def)

lemma sample_reached: "challenge_reach sample_crypto [sample_job \<mapsto> \<lparr>cw_challenge = issued_challenge, cw_expectedResultHash = issued_answer,
    cw_passed = Some True, cw_expiresAtMs = 231000\<rparr>]"
proof -
  let ?open = "\<lparr>cw_challenge = issued_challenge, cw_expectedResultHash = issued_answer, cw_passed = None, cw_expiresAtMs = 231000\<rparr>"
  have cr: "pv_crypto challenge_env = sample_crypto" by (simp add: challenge_env_def)
  have ok: "challenge_ok issued_challenge" using issueChallenge_eq_Inr [OF sample_issue]
    by (auto simp: challenge_ok_def issued_challenge_def in_range_def safe_int_def)
  then have "issueChallenge sample_crypto sample_uuid (replicate 64 CHR ''a'') sample_job sample_machine sample_worker 111 None None
      = Inr (issued_challenge, issued_answer)"
    by (simp add: issueChallenge_def issued_challenge_def issued_answer_def sample_challenge_def)
  moreover have "challenge_checked challenge_env sample_job asked asked_signature = Inr challenged_job"
    using signed_by_worker short_signatures
    by (simp add: challenge_checked_def publicKey_ok_def worker_signed_def plain_def challenge_env_def challenged_job_def outcome_simps)
  ultimately have "challenge_handler challenge_env sample_uuid (replicate 64 CHR ''a'') sample_job asked asked_signature Map.empty
      = ([sample_job \<mapsto> ?open], Inr issued_challenge)"
    by (simp add: challenge_handler_def issue_new_def challenge_env_def challenged_job_def issued_challenge_def)
  from challenge_reach.ask [OF fresh cr this] have reach: "challenge_reach sample_crypto [sample_job \<mapsto> ?open]" .
  have "verifyChallenge sample_crypto issued_challenge issued_answer (Some (r_gpuUuidCommitment sample_receipt))
      (Some (r_telemetryHash sample_receipt)) solved_response solved_signature 111 None
      = Inr \<lparr>cd_passed = True, cd_assurance = ''VERIFY_2'', cd_failures = [], cd_challengeCommitment = sample_hash (challenge_json issued_challenge)\<rparr>"
    using ok solved_response_ok signed_by_worker
    by (simp add: verifyChallenge_eq_Inr run_checks_def challenge_checks_def check_expected_def issued_fields solved_fields)
  then have "challenge_response_handler challenge_env (\<lambda>_. Some sample_receipt) sample_job solved_response solved_signature [sample_job \<mapsto> ?open]
      = ([sample_job \<mapsto> ?open\<lparr>cw_passed := Some True\<rparr>], Inr True)"
    using solved_response_ok short_signatures
    by (simp add: challenge_response_handler_def solved_fields) (simp add: challenge_env_def)
  from challenge_reach.respond [OF reach cr this] show ?thesis by simp
qed

theorem challenge_verdict_earned_witness: "challenge_earned sample_crypto issued_challenge \<and> c_jobId issued_challenge = sample_job"
  using challenge_verdict_earned [OF sample_reached, of sample_job] by simp

end
