(* ===== verification/JobsApi.thy ===== *)
theory JobsApi
  imports ProviderApi AgentPolicy
begin

text \<open>
  The HTTP API, third part: what buyers and their agents call. Every handler builds transactions
  for the caller's wallet to sign; none of them holds a key. Program addresses, token accounts,
  chain reads and random identifiers are parameters, instructions are kept as data (name,
  arguments, named accounts), and the handlers' database writes are explicit.
\<close>

section \<open>Transactions\<close>

datatype ix_arg = ABytes buffer | ANum int | AProof "buffer list"

record instruction =
  ix_name :: string
  ix_args :: "ix_arg list"
  ix_accounts :: "(string \<times> string) list"

record unsigned_tx =
  ut_payer :: string
  ut_instructions :: "instruction list"
  ut_blockhash :: string

record jobs_env = provider_env +
  je_pda :: "seed list \<Rightarrow> string"
  je_ata :: "string \<Rightarrow> string \<Rightarrow> string"
  je_mint :: "string outcome"
  je_blockhash :: "string outcome"
  je_bid :: "string \<Rightarrow> bid_account outcome"
  je_policy :: "string \<Rightarrow> policy_account outcome"
  je_owned :: "string \<Rightarrow> owned_row option outcome"
  je_write :: "string \<Rightarrow> unit outcome"
  je_random :: "nat \<Rightarrow> buffer"
  je_uuid :: string
  je_maxPolicy :: int

definition unsigned :: "jobs_env \<Rightarrow> string \<Rightarrow> instruction list \<Rightarrow> unsigned_tx reply" where
  "unsigned env payer ixs = andThen (plain (je_blockhash env)) (\<lambda>h.
     Inr \<lparr>ut_payer = payer, ut_instructions = ixs, ut_blockhash = h\<rparr>)"

section \<open>Handlers with writes\<close>

record group_row =
  gr_owner :: string
  gr_buyer :: string
  gr_specHash :: string
  gr_requiredMatches :: int

record group_replica =
  rl_group :: string
  rl_job :: string
  rl_ordinal :: nat
  rl_provider :: "string option"

record jobs_db =
  jd_specs :: "string \<times> string \<Rightarrow> json option"
  jd_groups :: "string \<Rightarrow> group_row option"
  jd_replicas :: "group_replica list"

type_synonym 'a handler = "jobs_db \<Rightarrow> jobs_db \<times> 'a reply"

definition afterH :: "'a reply \<Rightarrow> ('a \<Rightarrow> 'b handler) \<Rightarrow> 'b handler" where
  "afterH r f = (\<lambda>d. case r of Inl e \<Rightarrow> (d, Inl e) | Inr x \<Rightarrow> f x d)"

definition writeH :: "unit outcome \<Rightarrow> (jobs_db \<Rightarrow> jobs_db) \<Rightarrow> 'b handler \<Rightarrow> 'b handler" where
  "writeH w g f = (\<lambda>d. case w of Inl e \<Rightarrow> (d, Inl (Http 500 e)) | Inr _ \<Rightarrow> f (g d))"

definition answerH :: "'a reply \<Rightarrow> 'a handler" where
  "answerH r = (\<lambda>d. (d, r))"

lemma afterH_eq [proc_simps]: "afterH r f d = (d', Inr y) \<longleftrightarrow> (\<exists>x. r = Inr x \<and> f x d = (d', Inr y))"
  by (auto simp: afterH_def split: sum.splits)

lemma writeH_eq [proc_simps]: "writeH w g f d = (d', Inr y) \<longleftrightarrow> w = Inr () \<and> f (g d) = (d', Inr y)"
  by (auto simp: writeH_def split: sum.splits)

lemma answerH_eq [proc_simps]: "answerH r d = (d', q) \<longleftrightarrow> d' = d \<and> r = q"
  by (auto simp: answerH_def)

text \<open>\<^verbatim>\<open>upsert(rows, { onConflict: "owner_id,hash", ignoreDuplicates: true })\<close>\<close>

definition upsert_spec :: "string \<Rightarrow> string \<Rightarrow> json \<Rightarrow> jobs_db \<Rightarrow> jobs_db" where
  "upsert_spec user h spec d = (if jd_specs d (user, h) = None then d\<lparr>jd_specs := (jd_specs d)((user, h) \<mapsto> spec)\<rparr> else d)"

section \<open>Creating jobs\<close>

text \<open>\<^verbatim>\<open>/^[1-9][0-9]{0,n}$/\<close>\<close>

definition units_ok :: "nat \<Rightarrow> string \<Rightarrow> bool" where
  "units_ok n s \<longleftrightarrow> s \<noteq> [] \<and> hd s \<noteq> CHR ''0'' \<and> list_all is_digit s \<and> length s \<le> n + 1"

definition units_of :: "string \<Rightarrow> int" where
  "units_of s = (case bigInt s of Inr i \<Rightarrow> i | Inl _ \<Rightarrow> 0)"

definition create_ix :: "jobs_env \<Rightarrow> string \<Rightarrow> buffer \<Rightarrow> string \<Rightarrow> string \<Rightarrow> int \<Rightarrow> job_spec \<Rightarrow> policy \<Rightarrow> instruction" where
  "create_ix env buyer rid specHash mint maxSpend spec p =
     (let job = je_pda env [Text ''job'', Key buyer, Bytes rid] in
      \<lparr>ix_name = ''createJob'',
       ix_args = [ABytes rid, ABytes (fromHex specHash), ANum maxSpend,
         ANum (av_nowMs env div 1000 + maxStartDelaySeconds spec), ANum (timeoutSeconds spec), ANum (policyCode p)],
       ix_accounts = [(''buyer'', buyer), (''config'', je_pda env [Text ''config'']), (''job'', job), (''mint'', mint),
         (''escrow'', je_pda env [Text ''escrow'', Key job])]\<rparr>)"

definition fund_ix :: "jobs_env \<Rightarrow> string \<Rightarrow> string \<Rightarrow> string \<Rightarrow> instruction" where
  "fund_ix env buyer job mint = \<lparr>ix_name = ''fundJob'', ix_args = [],
     ix_accounts = [(''buyer'', buyer), (''job'', job), (''mint'', mint), (''source'', je_ata env mint buyer),
       (''escrow'', je_pda env [Text ''escrow'', Key job])]\<rparr>"

record created_job =
  cj_jobId :: string
  cj_tx :: unsigned_tx

text \<open>A job with the given random identifier: created and funded in one transaction.\<close>

definition build_job :: "jobs_env \<Rightarrow> string \<Rightarrow> nat \<Rightarrow> string \<Rightarrow> string \<Rightarrow> string \<Rightarrow> int \<Rightarrow> job_spec \<Rightarrow> policy \<Rightarrow> created_job" where
  "build_job env buyer n specHash mint blockhash maxSpend spec p =
     (let rid = je_random env n; job = je_pda env [Text ''job'', Key buyer, Bytes rid] in
      \<lparr>cj_jobId = job, cj_tx = \<lparr>ut_payer = buyer,
        ut_instructions = [create_ix env buyer rid specHash mint maxSpend spec p, fund_ix env buyer job mint], ut_blockhash = blockhash\<rparr>\<rparr>)"

definition parse_body :: "json \<Rightarrow> job_spec reply" where
  "parse_body body = (case jobSpecSchema_parse body of Inl issues \<Rightarrow> Inl (Http 400 (join ''; '' issues)) | Inr s \<Rightarrow> Inr s)"

definition create_job_handler :: "jobs_env \<Rightarrow> http_headers \<Rightarrow> json \<Rightarrow> string \<Rightarrow> created_job handler" where
  "create_job_handler env req specBody maxSpend =
     afterH (wallet (api_env.truncate env) req) (\<lambda>owner.
     afterH (parse_body specBody) (\<lambda>spec.
     afterH (guard (units_ok 12 maxSpend) (Http 400 ''maxSpendBaseUnits'')) (\<lambda>_.
     afterH (requireSupportedPolicy (je_maxPolicy env) (policy_of spec)) (\<lambda>_.
     afterH (identity (api_env.truncate env) req) (\<lambda>user.
     afterH (plain (commitment (av_crypto env) (spec_json spec))) (\<lambda>h.
     writeH (je_write env ''job_specs'') (upsert_spec user h (spec_json spec)) (
     afterH (plain (je_mint env)) (\<lambda>mint.
     afterH (plain (je_blockhash env)) (\<lambda>bh.
       answerH (Inr (build_job env owner 0 h mint bh (units_of maxSpend) spec (policy_of spec))))))))))))"

record redundant_reply =
  rx_group :: string
  rx_jobs :: "string list"
  rx_totalBudget :: string
  rx_transactions :: "created_job list"

definition replica_rows :: "string \<Rightarrow> created_job list \<Rightarrow> group_replica list" where
  "replica_rows g jobs = map (\<lambda>(j, n). \<lparr>rl_group = g, rl_job = cj_jobId j, rl_ordinal = n, rl_provider = None\<rparr>) (zip jobs [0..<length jobs])"

definition redundant_handler ::
  "jobs_env \<Rightarrow> http_headers \<Rightarrow> json \<Rightarrow> string \<Rightarrow> int \<Rightarrow> int \<Rightarrow> redundant_reply handler" where
  "redundant_handler env req specBody perReplica replicas requiredMatches =
     afterH (wallet (api_env.truncate env) req) (\<lambda>owner.
     afterH (identity (api_env.truncate env) req) (\<lambda>user.
     afterH (parse_body specBody) (\<lambda>spec.
     afterH (guard (units_ok 12 perReplica \<and> 2 \<le> replicas \<and> replicas \<le> 3 \<and> 2 \<le> requiredMatches \<and> requiredMatches \<le> 3)
       (Http 400 ''request'')) (\<lambda>_.
     afterH (requireSupportedPolicy (je_maxPolicy env) (policy_of spec)) (\<lambda>_.
     afterH (guard (policy_of spec = REDUNDANT \<and> requiredMatches \<le> replicas) (Http 400 ''Invalid redundant verification plan'')) (\<lambda>_.
     afterH (guard (units_of perReplica * replicas \<le> 1000000000000) (Http 400 ''Redundant job budget exceeds protocol cap'')) (\<lambda>_.
     afterH (plain (commitment (av_crypto env) (spec_json spec))) (\<lambda>h.
     writeH (je_write env ''job_specs'') (upsert_spec user h (spec_json spec)) (
     afterH (plain (je_mint env)) (\<lambda>mint.
     afterH (plain (je_blockhash env)) (\<lambda>bh.
     let jobs = map (\<lambda>n. build_job env owner n h mint bh (units_of perReplica) spec REDUNDANT) [0..<nat replicas] in
     writeH (je_write env ''redundant_job_groups'') (\<lambda>d. d\<lparr>jd_groups := (jd_groups d)(je_uuid env \<mapsto>
         \<lparr>gr_owner = user, gr_buyer = owner, gr_specHash = h, gr_requiredMatches = requiredMatches\<rparr>)\<rparr>) (
     writeH (je_write env ''redundant_job_replicas'') (\<lambda>d. d\<lparr>jd_replicas := jd_replicas d @ replica_rows (je_uuid env) jobs\<rparr>) (
       answerH (Inr \<lparr>rx_group = je_uuid env, rx_jobs = map cj_jobId jobs,
         rx_totalBudget = bigint_toString (units_of perReplica * replicas), rx_transactions = jobs\<rparr>))))))))))))))"

section \<open>Accepting bids\<close>

definition accept_ix :: "jobs_env \<Rightarrow> string \<Rightarrow> string \<Rightarrow> string \<Rightarrow> bid_account \<Rightarrow> instruction" where
  "accept_ix env buyer job bidId bid = \<lparr>ix_name = ''acceptBid'', ix_args = [],
     ix_accounts = [(''buyer'', buyer), (''job'', job), (''bid'', bidId), (''provider'', bd_provider bid), (''machine'', bd_machine bid),
       (''workerAuth'', je_pda env [Text ''worker'', Key (bd_provider bid), Key (bd_worker bid)])]\<rparr>"

text \<open>The siblings of a replica; at most five are read.\<close>

definition siblings :: "jobs_db \<Rightarrow> string \<Rightarrow> group_replica list" where
  "siblings d job = (case find (\<lambda>r. rl_job r = job) (jd_replicas d) of
     None \<Rightarrow> [] | Some r \<Rightarrow> take 5 (filter (\<lambda>s. rl_group s = rl_group r) (jd_replicas d)))"

definition accept_bid_handler :: "jobs_env \<Rightarrow> http_headers \<Rightarrow> string \<Rightarrow> string \<Rightarrow> unsigned_tx handler" where
  "accept_bid_handler env req jid bidId =
     afterH (ownedJob (api_env.truncate env) (je_owned env) req jid) (\<lambda>j.
     afterH (guard (publicKey_ok (av_crypto env) bidId) (Http 400 ''bidId'')) (\<lambda>_.
     afterH (plain (je_bid env bidId)) (\<lambda>bid.
     afterH (guard (bd_job bid = jid) (Http 400 ''Bid belongs to a different job'')) (\<lambda>_.
     (\<lambda>d. afterH (guard (\<not> list_ex (\<lambda>s. rl_provider s = Some (bd_provider bid)) (siblings d jid))
         (Http 409 ''Redundant replicas require independent providers'')) (\<lambda>_.
       answerH (unsigned env (ow_buyer j) [accept_ix env (ow_buyer j) (ow_id j) bidId bid])) d)))))"

section \<open>Agent policies\<close>

record policy_body =
  pb_agent :: string
  pb_daily :: string
  pb_single :: string
  pb_delegated :: string
  pb_maxRuntime :: int
  pb_verification :: policy
  pb_specs :: "job_spec list"
  pb_expiresAt :: int

definition policy_body_ok :: "crypto \<Rightarrow> policy_body \<Rightarrow> bool" where
  "policy_body_ok cr b \<longleftrightarrow> publicKey_ok cr (pb_agent b) \<and> units_ok 19 (pb_daily b) \<and> units_ok 19 (pb_single b) \<and> units_ok 19 (pb_delegated b)
     \<and> 1 \<le> pb_maxRuntime b \<and> pb_maxRuntime b \<le> 86400 \<and> list_all spec_valid (pb_specs b) \<and> 1 \<le> length (pb_specs b) \<and> length (pb_specs b) \<le> 64"

definition policy_address :: "jobs_env \<Rightarrow> string \<Rightarrow> string \<Rightarrow> string" where
  "policy_address env owner agent = je_pda env [Text ''agent-policy'', Key owner, Key agent]"

text \<open>The SPL token approval that lets the agent spend from the owner's account.\<close>

definition approve_ix :: "jobs_env \<Rightarrow> string \<Rightarrow> string \<Rightarrow> string \<Rightarrow> int \<Rightarrow> instruction" where
  "approve_ix env mint owner agent amount = \<lparr>ix_name = ''approve'', ix_args = [ANum amount],
     ix_accounts = [(''source'', je_ata env mint owner), (''delegate'', agent), (''owner'', owner)]\<rparr>"

record policy_reply =
  py_tx :: unsigned_tx
  py_policyId :: string
  py_allowlist :: allowlist

definition policy_args :: "policy_body \<Rightarrow> allowlist \<Rightarrow> ix_arg list" where
  "policy_args b al = [ANum (units_of (pb_daily b)), ANum (units_of (pb_single b)), ANum (pb_maxRuntime b),
     ANum (policyCode (pb_verification b)), ABytes (fromHex (al_root al)), ANum (pb_expiresAt b)]"

text \<open>The checks the create and the update handler share, up to the allowlist.\<close>

definition policy_checked :: "jobs_env \<Rightarrow> policy_body \<Rightarrow> (string list \<times> allowlist) reply" where
  "policy_checked env b = (let now = av_nowMs env div 1000 in
     andThen (guard (now < pb_expiresAt b \<and> pb_expiresAt b \<le> now + 365 * 86400) (Http 400 ''Policy expiry must be within one year'')) (\<lambda>_.
     andThen (guard (units_of (pb_single b) \<le> units_of (pb_daily b) \<and> units_of (pb_single b) \<le> units_of (pb_delegated b))
       (Http 400 ''Invalid policy spending limits'')) (\<lambda>_.
     andThen (plain (mapM (\<lambda>s. commitment (av_crypto env) (spec_json s)) (pb_specs b))) (\<lambda>hs.
     andThen (plain (buildSpecAllowlist (av_crypto env) hs)) (\<lambda>al. Inr (hs, al))))))"

definition upsert_specs :: "string \<Rightarrow> (string \<times> job_spec) list \<Rightarrow> jobs_db \<Rightarrow> jobs_db" where
  "upsert_specs user rows d = fold (\<lambda>(h, s). upsert_spec user h (spec_json s)) rows d"

definition create_policy_handler :: "jobs_env \<Rightarrow> http_headers \<Rightarrow> policy_body \<Rightarrow> policy_reply handler" where
  "create_policy_handler env req b =
     afterH (wallet (api_env.truncate env) req) (\<lambda>owner.
     afterH (identity (api_env.truncate env) req) (\<lambda>user.
     afterH (guard (policy_body_ok (av_crypto env) b) (Http 400 ''request'')) (\<lambda>_.
     afterH (requireSupportedPolicy (je_maxPolicy env) (pb_verification b)) (\<lambda>_.
     afterH (policy_checked env b) (\<lambda>(hs, al).
     writeH (je_write env ''job_specs'') (upsert_specs user (zip hs (pb_specs b))) (
     afterH (plain (je_mint env)) (\<lambda>mint.
     afterH (unsigned env owner [approve_ix env mint owner (pb_agent b) (units_of (pb_delegated b)),
         \<lparr>ix_name = ''createAgentPolicy'', ix_args = policy_args b al,
          ix_accounts = [(''owner'', owner), (''agent'', pb_agent b), (''config'', je_pda env [Text ''config'']), (''mint'', mint),
            (''agentPolicy'', policy_address env owner (pb_agent b))]\<rparr>]) (\<lambda>tx.
       answerH (Inr \<lparr>py_tx = tx, py_policyId = policy_address env owner (pb_agent b), py_allowlist = al\<rparr>)))))))))"

definition update_policy_handler :: "jobs_env \<Rightarrow> http_headers \<Rightarrow> string \<Rightarrow> policy_body \<Rightarrow> policy_reply handler" where
  "update_policy_handler env req pathAgent b =
     afterH (wallet (api_env.truncate env) req) (\<lambda>owner.
     afterH (identity (api_env.truncate env) req) (\<lambda>user.
     afterH (guard (policy_body_ok (av_crypto env) b) (Http 400 ''request'')) (\<lambda>_.
     afterH (requireSupportedPolicy (je_maxPolicy env) (pb_verification b)) (\<lambda>_.
     afterH (guard (pb_agent b = pathAgent) (Http 400 ''Agent path and body must match'')) (\<lambda>_.
     afterH (policy_checked env b) (\<lambda>(hs, al).
     writeH (je_write env ''job_specs'') (upsert_specs user (zip hs (pb_specs b))) (
     afterH (plain (je_mint env)) (\<lambda>mint.
     afterH (unsigned env owner [approve_ix env mint owner (pb_agent b) (units_of (pb_delegated b)),
         \<lparr>ix_name = ''updateAgentPolicy'', ix_args = policy_args b al,
          ix_accounts = [(''owner'', owner), (''agentPolicy'', policy_address env owner (pb_agent b))]\<rparr>]) (\<lambda>tx.
       answerH (Inr \<lparr>py_tx = tx, py_policyId = policy_address env owner (pb_agent b), py_allowlist = al\<rparr>))))))))))"

definition revoke_policy_handler :: "jobs_env \<Rightarrow> http_headers \<Rightarrow> string \<Rightarrow> unsigned_tx handler" where
  "revoke_policy_handler env req agent =
     afterH (wallet (api_env.truncate env) req) (\<lambda>owner.
     afterH (guard (publicKey_ok (av_crypto env) agent) (Http 400 ''agent'')) (\<lambda>_.
       answerH (unsigned env owner [\<lparr>ix_name = ''revokeAgentPolicy'', ix_args = [],
         ix_accounts = [(''owner'', owner), (''agentPolicy'', policy_address env owner agent)]\<rparr>])))"

section \<open>Jobs bought by agents\<close>

text \<open>\<^verbatim>\<open>/^[0-9a-fA-F]{64}$/\<close>, at most sixteen of them.\<close>

definition proof_body_ok :: "string list \<Rightarrow> bool" where
  "proof_body_ok pf \<longleftrightarrow> length pf \<le> 16 \<and> list_all (\<lambda>h. length h = 64 \<and> list_all is_hex h) pf"

definition agent_job_handler :: "jobs_env \<Rightarrow> http_headers \<Rightarrow> string \<Rightarrow> job_spec \<Rightarrow> string \<Rightarrow> string list \<Rightarrow> created_job handler" where
  "agent_job_handler env req agent spec maxSpend pf =
     afterH (wallet (api_env.truncate env) req) (\<lambda>owner.
     afterH (identity (api_env.truncate env) req) (\<lambda>user.
     afterH (guard (publicKey_ok (av_crypto env) agent \<and> spec_valid spec \<and> units_ok 19 maxSpend \<and> proof_body_ok pf) (Http 400 ''request'')) (\<lambda>_.
     afterH (requireSupportedPolicy (je_maxPolicy env) (policy_of spec)) (\<lambda>_.
     afterH (plain (commitment (av_crypto env) (spec_json spec))) (\<lambda>h.
     let policyAddress = policy_address env owner agent in
     afterH (plain (je_policy env policyAddress)) (\<lambda>pol.
     afterH (plain (verifySpecProof (av_crypto env) h pf (toHex (ap_allowedSpecsRoot pol)))) (\<lambda>ok.
     afterH (guard ok (Http 403 ''Spec is outside the agent policy'')) (\<lambda>_.
     writeH (je_write env ''job_specs'') (upsert_spec user h (spec_json spec)) (
     afterH (plain (je_mint env)) (\<lambda>mint.
     afterH (plain (proofBytes pf)) (\<lambda>bytes.
     let rid = je_random env 0; job = je_pda env [Text ''job'', Key owner, Bytes rid] in
     afterH (unsigned env agent [\<lparr>ix_name = ''createAgentJob'',
         ix_args = [ABytes rid, ABytes (fromHex h), ANum (units_of maxSpend), ANum (av_nowMs env div 1000 + maxStartDelaySeconds spec),
           ANum (timeoutSeconds spec), ANum (policyCode (policy_of spec)), AProof bytes],
         ix_accounts = [(''agent'', agent), (''owner'', owner), (''config'', je_pda env [Text ''config'']), (''agentPolicy'', policyAddress),
           (''job'', job), (''mint'', mint), (''source'', je_ata env mint owner), (''escrow'', je_pda env [Text ''escrow'', Key job])]\<rparr>]) (\<lambda>tx.
       answerH (Inr \<lparr>cj_jobId = job, cj_tx = tx\<rparr>)))))))))))))"

definition agent_accept_handler :: "jobs_env \<Rightarrow> http_headers \<Rightarrow> string \<Rightarrow> string \<Rightarrow> string \<Rightarrow> string list \<Rightarrow> unsigned_tx handler" where
  "agent_accept_handler env req jid agent bidId pf =
     afterH (ownedJob (api_env.truncate env) (je_owned env) req jid) (\<lambda>j.
     afterH (guard (publicKey_ok (av_crypto env) agent \<and> publicKey_ok (av_crypto env) bidId \<and> proof_body_ok pf) (Http 400 ''request'')) (\<lambda>_.
     afterH (plain (je_bid env bidId)) (\<lambda>bid.
     afterH (guard (bd_job bid = jid) (Http 400 ''Bid belongs to a different job'')) (\<lambda>_.
     afterH (plain (proofBytes pf)) (\<lambda>bytes.
       answerH (unsigned env agent [\<lparr>ix_name = ''acceptAgentBid'', ix_args = [AProof bytes],
         ix_accounts = [(''agent'', agent), (''owner'', ow_buyer j), (''agentPolicy'', policy_address env (ow_buyer j) agent), (''job'', jid),
           (''bid'', bidId), (''provider'', bd_provider bid), (''machine'', bd_machine bid),
           (''workerAuth'', je_pda env [Text ''worker'', Key (bd_provider bid), Key (bd_worker bid)])]\<rparr>]))))))"

definition agent_cancel_handler :: "jobs_env \<Rightarrow> http_headers \<Rightarrow> string \<Rightarrow> string \<Rightarrow> string list \<Rightarrow> unsigned_tx handler" where
  "agent_cancel_handler env req jid agent pf =
     afterH (ownedJob (api_env.truncate env) (je_owned env) req jid) (\<lambda>j.
     afterH (guard (publicKey_ok (av_crypto env) agent \<and> proof_body_ok pf) (Http 400 ''request'')) (\<lambda>_.
     afterH (plain (proofBytes pf)) (\<lambda>bytes.
       answerH (unsigned env agent [\<lparr>ix_name = ''cancelAgentJob'', ix_args = [AProof bytes],
         ix_accounts = [(''agent'', agent), (''owner'', ow_buyer j), (''agentPolicy'', policy_address env (ow_buyer j) agent), (''job'', jid)]\<rparr>]))))"

section \<open>Closing jobs\<close>

definition cancel_handler :: "jobs_env \<Rightarrow> http_headers \<Rightarrow> string \<Rightarrow> unsigned_tx handler" where
  "cancel_handler env req jid = afterH (ownedJob (api_env.truncate env) (je_owned env) req jid) (\<lambda>j.
     answerH (unsigned env (ow_buyer j) [\<lparr>ix_name = ''cancelJob'', ix_args = [], ix_accounts = [(''buyer'', ow_buyer j), (''job'', jid)]\<rparr>]))"

definition settle_handler :: "jobs_env \<Rightarrow> http_headers \<Rightarrow> string \<Rightarrow> unsigned_tx handler" where
  "settle_handler env req jid = afterH (ownedJob (api_env.truncate env) (je_owned env) req jid) (\<lambda>j.
     afterH (plain (pv_job env (ow_id j))) (\<lambda>oc.
     answerH (unsigned env (ow_buyer j) [\<lparr>ix_name = ''settleJob'', ix_args = [],
       ix_accounts = [(''job'', ow_id j), (''mint'', jb_mint oc), (''escrow'', je_pda env [Text ''escrow'', Key (ow_id j)]),
         (''payout'', je_ata env (jb_mint oc) (jb_payout oc)), (''treasury'', je_ata env (jb_mint oc) (jb_treasury oc)),
         (''refund'', je_ata env (jb_mint oc) (jb_buyer oc)), (''provider'', jb_provider oc), (''machine'', jb_machine oc)]\<rparr>])))"

definition refund_handler :: "jobs_env \<Rightarrow> http_headers \<Rightarrow> string \<Rightarrow> unsigned_tx handler" where
  "refund_handler env req jid = afterH (ownedJob (api_env.truncate env) (je_owned env) req jid) (\<lambda>j.
     afterH (plain (pv_job env (ow_id j))) (\<lambda>oc.
     answerH (unsigned env (ow_buyer j) [\<lparr>ix_name = ''refundJob'', ix_args = [],
       ix_accounts = [(''job'', ow_id j), (''mint'', jb_mint oc), (''escrow'', je_pda env [Text ''escrow'', Key (ow_id j)]),
         (''refund'', je_ata env (jb_mint oc) (jb_buyer oc))]\<rparr>])))"

definition expire_handler :: "jobs_env \<Rightarrow> http_headers \<Rightarrow> string \<Rightarrow> unsigned_tx handler" where
  "expire_handler env req jid = afterH (ownedJob (api_env.truncate env) (je_owned env) req jid) (\<lambda>j.
     answerH (unsigned env (ow_buyer j) [\<lparr>ix_name = ''expireJob'', ix_args = [], ix_accounts = [(''job'', ow_id j)]\<rparr>]))"

section \<open>What is stored and what is signed\<close>

text \<open>Every stored specification is filed under its own hash.\<close>

definition specs_ok :: "crypto \<Rightarrow> jobs_db \<Rightarrow> bool" where
  "specs_ok cr d \<longleftrightarrow> (\<forall>u h s. jd_specs d (u, h) = Some s \<longrightarrow> commitment cr s = Inr h)"

lemma upsert_spec_ok: "specs_ok cr d \<Longrightarrow> commitment cr s = Inr h \<Longrightarrow> specs_ok cr (upsert_spec u h s d)"
  by (auto simp: specs_ok_def upsert_spec_def)

lemma upsert_spec_stored: "\<exists>s'. jd_specs (upsert_spec u h s d) (u, h) = Some s'"
  by (auto simp: upsert_spec_def)

lemma build_job_parts:
  "\<exists>create fund. ut_instructions (cj_tx (build_job env owner n h mint bh amount spec p)) = [create, fund]
     \<and> ABytes (fromHex h) \<in> set (ix_args create) \<and> ANum amount \<in> set (ix_args create)
     \<and> map_of (ix_accounts create) ''job'' = Some (cj_jobId (build_job env owner n h mint bh amount spec p))
     \<and> map_of (ix_accounts fund) ''job'' = Some (cj_jobId (build_job env owner n h mint bh amount spec p))"
  by (simp add: build_job_def Let_def create_ix_def fund_ix_def)

text \<open>The rows of a new group name no provider.\<close>

lemma replica_rows_jobs: "map rl_job (replica_rows g jobs) = map cj_jobId jobs"
  by (rule nth_equalityI) (auto simp: replica_rows_def)

lemma replica_rows_fresh: "r \<in> set (replica_rows g jobs) \<Longrightarrow> rl_group r = g \<and> rl_provider r = None"
  by (auto simp: replica_rows_def)

lemma redundant_replicas:
  assumes "redundant_handler env req body per n k d = (d1, Inr rx)"
  shows "jd_replicas d1 = jd_replicas d @ replica_rows (rx_group rx) (rx_transactions rx)" (is ?rows)
    and "rx_jobs rx = map cj_jobId (rx_transactions rx)" (is ?jobs)
    and "length (rx_transactions rx) = nat n \<and> n \<in> {2, 3} \<and> k \<le> n" (is ?sizes)
proof -
  have "jd_replicas (upsert_spec u h s d) = jd_replicas d" for u h s by (simp add: upsert_spec_def)
  then show ?rows ?jobs ?sizes
    using assms by (auto simp: redundant_handler_def proc_simps outcome_simps Let_def)
qed

lemma fresh_siblings:
  assumes "redundant_handler env req body per n k d = (d1, Inr rx)"
    "\<forall>r \<in> set (jd_replicas d). rl_group r \<noteq> rx_group rx \<and> rl_job r \<notin> set (rx_jobs rx)" "jid \<in> set (rx_jobs rx)"
    "s \<in> set (siblings d1 jid)"
  shows "rl_provider s = None"
proof -
  let ?new = "replica_rows (rx_group rx) (rx_transactions rx)"
  note rows = redundant_replicas(1) [OF assms(1)]
  show ?thesis
  proof (cases "find (\<lambda>r. rl_job r = jid) (jd_replicas d1)")
    case None
    then show ?thesis using assms(4) by (simp add: siblings_def)
  next
    case (Some r)
    have s: "s \<in> set (jd_replicas d1)" "rl_group s = rl_group r"
      using assms(4) Some by (auto simp: siblings_def dest: in_set_takeD)
    have "r \<in> set (jd_replicas d1)" "rl_job r = jid" using Some by (auto simp: find_Some_iff)
    then have "r \<in> set ?new" using assms(2,3) rows by auto
    then have "s \<in> set ?new" using s rows assms(2) replica_rows_fresh by auto
    then show ?thesis by (simp add: replica_rows_fresh)
  qed
qed

lemma accept_when_no_provider:
  assumes "ownedJob (api_env.truncate e) (je_owned e) q jid = Inr j" "publicKey_ok (av_crypto e) b" "je_bid e b = Inr bid"
    "bd_job bid = jid" "je_blockhash e = Inr h" "\<And>s. s \<in> set (siblings d jid) \<Longrightarrow> rl_provider s = None"
  shows "accept_bid_handler e q jid b d = (d, Inr \<lparr>ut_payer = ow_buyer j, ut_instructions = [accept_ix e (ow_buyer j) (ow_id j) b bid], ut_blockhash = h\<rparr>)"
proof -
  have "\<not> list_ex (\<lambda>s. rl_provider s = Some (bd_provider bid)) (siblings d jid)"
    using assms(6) by (auto simp: list_ex_iff)
  then show ?thesis using assms(1-5) by (simp add: accept_bid_handler_def afterH_def answerH_def unsigned_def plain_def)
qed

lemma wallet_user: "wallet env req = Inr w \<Longrightarrow> \<exists>user. identity env req = Inr user"
  by (auto simp: wallet_def outcome_simps)

text \<open>
  What the buyer signs is what was stored: a created job's transaction is paid by the wallet
  that proved itself, creates and funds the same job for exactly the offered amount, under a
  specification hash for which the user's stored specification is on file with that very hash.
  Specifications already on file are never overwritten.
\<close>

theorem created_job_committed:
  assumes "create_job_handler env req body maxSpend d = (d', Inr cj)" "specs_ok (av_crypto env) d"
  shows "\<exists>owner user spec h s create fund. wallet (api_env.truncate env) req = Inr owner \<and> identity (api_env.truncate env) req = Inr user
     \<and> jobSpecSchema_parse body = Inr spec \<and> policyCode (policy_of spec) \<le> je_maxPolicy env
     \<and> ut_payer (cj_tx cj) = owner \<and> ut_instructions (cj_tx cj) = [create, fund]
     \<and> ABytes (fromHex h) \<in> set (ix_args create) \<and> ANum (units_of maxSpend) \<in> set (ix_args create)
     \<and> map_of (ix_accounts create) ''job'' = Some (cj_jobId cj) \<and> map_of (ix_accounts fund) ''job'' = Some (cj_jobId cj)
     \<and> commitment (av_crypto env) (spec_json spec) = Inr h \<and> jd_specs d' (user, h) = Some s \<and> commitment (av_crypto env) s = Inr h
     \<and> specs_ok (av_crypto env) d' \<and> (\<forall>k s. jd_specs d k = Some s \<longrightarrow> jd_specs d' k = Some s)"
proof -
  obtain owner user spec h mint bh where p: "wallet (api_env.truncate env) req = Inr owner" "identity (api_env.truncate env) req = Inr user"
    "jobSpecSchema_parse body = Inr spec" "policyCode (policy_of spec) \<le> je_maxPolicy env"
    "commitment (av_crypto env) (spec_json spec) = Inr h"
    and d': "d' = upsert_spec user h (spec_json spec) d"
    and cj: "cj = build_job env owner 0 h mint bh (units_of maxSpend) spec (policy_of spec)"
    using assms(1) by (auto simp: create_job_handler_def parse_body_def proc_simps outcome_simps requireSupportedPolicy_def split: sum.splits)
  have ok: "specs_ok (av_crypto env) d'" unfolding d' by (rule upsert_spec_ok [OF assms(2) p(5)])
  obtain s where s: "jd_specs d' (user, h) = Some s" using upsert_spec_stored d' by blast
  then have "commitment (av_crypto env) s = Inr h" using ok by (simp add: specs_ok_def)
  moreover have "\<forall>k s. jd_specs d k = Some s \<longrightarrow> jd_specs d' k = Some s" by (auto simp: d' upsert_spec_def)
  moreover obtain create fund where "ut_instructions (cj_tx cj) = [create, fund]" "ABytes (fromHex h) \<in> set (ix_args create)"
    "ANum (units_of maxSpend) \<in> set (ix_args create)" "map_of (ix_accounts create) ''job'' = Some (cj_jobId cj)"
    "map_of (ix_accounts fund) ''job'' = Some (cj_jobId cj)"
    using build_job_parts [of env owner 0 h mint bh "units_of maxSpend" spec "policy_of spec"] cj by auto
  moreover have "ut_payer (cj_tx cj) = owner" by (simp add: cj build_job_def Let_def)
  ultimately show ?thesis using p s ok by blast
qed

text \<open>
  Redundant replicas can all go to one provider. The group's replicas are stored without
  providers and accepting a bid does not record one, so the check for independent providers never
  finds any: for any two replicas of a freshly created group, bids of the same provider are both
  accepted.
\<close>

theorem replicas_share_provider:
  assumes "redundant_handler env req body per n k d = (d1, Inr rx)"
    "\<forall>r \<in> set (jd_replicas d). rl_group r \<noteq> rx_group rx \<and> rl_job r \<notin> set (rx_jobs rx)"
    "jid1 \<in> set (rx_jobs rx)" "jid2 \<in> set (rx_jobs rx)"
    "ownedJob (api_env.truncate e1) (je_owned e1) q1 jid1 = Inr j1" "ownedJob (api_env.truncate e2) (je_owned e2) q2 jid2 = Inr j2"
    "publicKey_ok (av_crypto e1) b1" "publicKey_ok (av_crypto e2) b2" "je_bid e1 b1 = Inr bid1" "je_bid e2 b2 = Inr bid2"
    "bd_job bid1 = jid1" "bd_job bid2 = jid2" "bd_provider bid1 = bd_provider bid2"
    "je_blockhash e1 = Inr h1" "je_blockhash e2 = Inr h2"
  shows "\<exists>d2 d3 tx1 tx2. accept_bid_handler e1 q1 jid1 b1 d1 = (d2, Inr tx1) \<and> accept_bid_handler e2 q2 jid2 b2 d2 = (d3, Inr tx2)"
proof -
  have none: "rl_provider s = None" if "s \<in> set (siblings d1 jid)" "jid \<in> set (rx_jobs rx)" for s jid
    using that assms(2) fresh_siblings [OF assms(1)] by blast
  have "accept_bid_handler e1 q1 jid1 b1 d1 = (d1, Inr \<lparr>ut_payer = ow_buyer j1, ut_instructions = [accept_ix e1 (ow_buyer j1) (ow_id j1) b1 bid1], ut_blockhash = h1\<rparr>)"
    using accept_when_no_provider [OF assms(5,7,9,11,14)] none assms(3) by blast
  moreover have "accept_bid_handler e2 q2 jid2 b2 d1 = (d1, Inr \<lparr>ut_payer = ow_buyer j2, ut_instructions = [accept_ix e2 (ow_buyer j2) (ow_id j2) b2 bid2], ut_blockhash = h2\<rparr>)"
    using accept_when_no_provider [OF assms(6,8,10,12,15)] none assms(4) by blast
  ultimately show ?thesis by blast
qed

section \<open>Sample requests\<close>

definition sample_job_bid :: "string \<Rightarrow> bid_account" where
  "sample_job_bid job = \<lparr>bd_job = job, bd_provider = ''P'', bd_machine = ''M'', bd_worker = ''W2'', bd_price = 5, bd_estimatedStart = 1, bd_expiresAt = 90, bd_active = True\<rparr>"

definition sample_jobs :: jobs_env where
  "sample_jobs = provider_env.extend (api_env.extend sample_api \<lparr>pv_program = ''X'', pv_cluster = Inr ''devnet'', pv_machine = (\<lambda>_. Inl ''none''),
       pv_auth = (\<lambda>_ _. Inl ''none''), pv_job = (\<lambda>_. Inl ''none'')\<rparr>)
     \<lparr>je_pda = (\<lambda>ss. ''J'' @ (case last ss of Bytes b \<Rightarrow> replicate (length b) CHR ''1'' | _ \<Rightarrow> [])),
       je_ata = (\<lambda>m o'. o' @ m), je_mint = Inr ''T'', je_blockhash = Inr ''H'', je_bid = (\<lambda>b. Inr (sample_job_bid b)), je_policy = (\<lambda>_. Inl ''none''),
       je_owned = (\<lambda>j. Inr (Some \<lparr>ow_id = j, ow_buyer = ''W''\<rparr>)), je_write = (\<lambda>_. Inr ()), je_random = (\<lambda>n. replicate (n + 1) 0),
       je_uuid = sample_uuid, je_maxPolicy = 3\<rparr>"

lemma sample_jobs_parts:
  "api_env.truncate sample_jobs = sample_api" "av_crypto sample_jobs = sample_crypto" "je_mint sample_jobs = Inr ''T''"
  "je_blockhash sample_jobs = Inr ''H''" "je_write sample_jobs t = Inr ()" "je_maxPolicy sample_jobs = 3" "je_uuid sample_jobs = sample_uuid"
  "je_bid sample_jobs b = Inr (sample_job_bid b)" "je_owned sample_jobs j = Inr (Some \<lparr>ow_id = j, ow_buyer = ''W''\<rparr>)"
  by (simp_all add: sample_jobs_def api_env.defs provider_env.defs sample_api_def)

abbreviation no_jobs :: jobs_db where
  "no_jobs \<equiv> \<lparr>jd_specs = Map.empty, jd_groups = Map.empty, jd_replicas = []\<rparr>"

definition replicated_spec :: job_spec where
  "replicated_spec = sample_spec\<lparr>policy_of := REDUNDANT\<rparr>"

lemma sample_specs_parse:
  "parse_body (spec_json sample_spec) = Inr sample_spec" "parse_body (spec_json replicated_spec) = Inr replicated_spec"
proof -
  have "fields_ok replicated_spec" using sample_spec_fields by (simp add: fields_ok_def replicated_spec_def)
  then have "spec_valid replicated_spec"
    by (simp add: spec_valid_def superRefine_def replicated_spec_def sample_spec_def wants_tee_def)
  moreover have "parse_body (spec_json s) = Inr s" if "spec_valid s" for s
    using that parse_Inr_iff [of "spec_json s" s] parse_shape_spec_json [of s] by (simp add: parse_body_def spec_valid_def)
  ultimately show "parse_body (spec_json sample_spec) = Inr sample_spec" "parse_body (spec_json replicated_spec) = Inr replicated_spec"
    using sample_spec_valid by blast+
qed

lemma sample_identity: "identity sample_api sample_headers = Inr ''u1''"
  by (simp add: identity_def sample_api_def sample_headers_def strip_bearer_def)

lemmas sample_request = sample_jobs_parts sample_wallet sample_identity sample_specs_parse afterH_def writeH_def answerH_def plain_def
  requireSupportedPolicy_def units_ok_def is_digit_def

lemma sample_created: "\<exists>d' cj. create_job_handler sample_jobs sample_headers (spec_json sample_spec) ''25'' no_jobs = (d', Inr cj)"
  by (simp add: create_job_handler_def sample_request sample_spec_parts)

lemma sample_replicated:
  "\<exists>d1 rx. redundant_handler sample_jobs sample_headers (spec_json replicated_spec) ''25'' 2 2 no_jobs = (d1, Inr rx)
     \<and> set (rx_jobs rx) = {''J1'', ''J11''}"
proof -
  have "policy_of replicated_spec = REDUNDANT" by (simp add: replicated_spec_def)
  moreover have "units_of ''25'' = 25" by code_simp
  ultimately show ?thesis
    by (simp add: redundant_handler_def sample_request Let_def build_job_def)
      (auto simp: sample_jobs_def provider_env.defs numeral_2_eq_2 atLeastLessThanSuc)
qed

theorem created_job_committed_witness:
  "\<exists>d' cj create fund. create_job_handler sample_jobs sample_headers (spec_json sample_spec) ''25'' no_jobs = (d', Inr cj)
     \<and> ut_payer (cj_tx cj) = ''W'' \<and> ut_instructions (cj_tx cj) = [create, fund]
     \<and> map_of (ix_accounts create) ''job'' = map_of (ix_accounts fund) ''job''"
proof -
  obtain d' cj where c: "create_job_handler sample_jobs sample_headers (spec_json sample_spec) ''25'' no_jobs = (d', Inr cj)"
    using sample_created by blast
  have "specs_ok (av_crypto sample_jobs) no_jobs" by (simp add: specs_ok_def)
  from created_job_committed [OF c this] show ?thesis using c by (auto simp: sample_jobs_parts sample_wallet)
qed

theorem replicas_share_provider_witness:
  "\<exists>d1 rx d2 d3 tx1 tx2. redundant_handler sample_jobs sample_headers (spec_json replicated_spec) ''25'' 2 2 no_jobs = (d1, Inr rx)
     \<and> accept_bid_handler sample_jobs sample_headers ''J1'' ''J1'' d1 = (d2, Inr tx1)
     \<and> accept_bid_handler sample_jobs sample_headers ''J11'' ''J11'' d2 = (d3, Inr tx2)"
proof -
  obtain d1 rx where d1: "redundant_handler sample_jobs sample_headers (spec_json replicated_spec) ''25'' 2 2 no_jobs = (d1, Inr rx)"
    and jobs: "set (rx_jobs rx) = {''J1'', ''J11''}" using sample_replicated by blast
  have own: "ownedJob (api_env.truncate sample_jobs) (je_owned sample_jobs) sample_headers j = Inr \<lparr>ow_id = j, ow_buyer = ''W''\<rparr>" for j
    by (simp add: ownedJob_def sample_jobs_parts sample_wallet plain_def publicKey_ok_def) (simp add: sample_api_def)
  have "\<exists>d2 d3 tx1 tx2. accept_bid_handler sample_jobs sample_headers ''J1'' ''J1'' d1 = (d2, Inr tx1)
     \<and> accept_bid_handler sample_jobs sample_headers ''J11'' ''J11'' d2 = (d3, Inr tx2)"
    by (rule replicas_share_provider [where ?bid1.0 = "sample_job_bid ''J1''" and ?bid2.0 = "sample_job_bid ''J11''", OF d1 _ _ _ own own])
      (auto simp: jobs own sample_jobs_parts publicKey_ok_def sample_job_bid_def)
  then show ?thesis using d1 by blast
qed

end
