(* ===== verification/EvidenceApi.thy ===== *)
theory EvidenceApi
  imports JobsApi Verifier
begin

text \<open>
  The HTTP API, fourth part: what providers report. The upload of an execution result, checked
  against the finalized chain before the receipt is stored; benchmark reports, which give a machine
  its trust level in the published supply; and the reads of a job's receipt, logs and events.
\<close>

section \<open>Execution results\<close>

definition result_schema_ok :: "raw_bundle \<Rightarrow> bool" where
  "result_schema_ok b \<longleftrightarrow> receipt_ok (payload (rb_envelope b)) \<and> length (signature (rb_envelope b)) \<le> 100
     \<and> length (rb_stdout b) \<le> 1400000 \<and> length (rb_stderr b) \<le> 1400000 \<and> length (rb_result b) \<le> 1400000
     \<and> length (t_gpuUuids (rb_telemetry b)) \<le> 16 \<and> of_int \<lfloor>t_samples (rb_telemetry b)\<rfloor> = t_samples (rb_telemetry b)
     \<and> 0 \<le> t_samples (rb_telemetry b) \<and> 0 \<le> t_peakVramMb (rb_telemetry b) \<and> 0 \<le> t_durationSeconds (rb_telemetry b)"

text \<open>\<^verbatim>\<open>bs58.decode\<close> throws on an address it cannot read.\<close>

definition signed_with :: "crypto \<Rightarrow> json \<Rightarrow> string \<Rightarrow> string \<Rightarrow> bool reply" where
  "signed_with cr j sig worker = (case b58_decode cr worker of
     None \<Rightarrow> Inl (Http 500 ''Non-base58 character'') | Some k \<Rightarrow> Inr (verifyPayload cr j sig k))"

definition result_checked :: "verifier_env \<Rightarrow> string \<Rightarrow> raw_bundle \<Rightarrow> unit reply" where
  "result_checked env jid b = (let p = payload (rb_envelope b); cr = ve_crypto env; invalid = Http 403 ''Invalid receipt envelope'' in
     andThen (guard (result_schema_ok b) (Http 400 ''request'')) (\<lambda>_.
     andThen (parse_body (rb_spec b)) (\<lambda>spec.
     andThen (guard (publicKey_ok cr jid) (Http 400 ''request: Invalid Solana address'')) (\<lambda>_.
     andThen (guard (jid = r_jobId p \<and> r_program p = ve_program env \<and> r_cluster p = ve_cluster env) invalid) (\<lambda>_.
     andThen (signed_with cr (receipt_json p) (signature (rb_envelope b)) (r_worker p)) (\<lambda>ok.
     andThen (guard ok invalid) (\<lambda>_.
     andThen (plain (ve_job env jid)) (\<lambda>info.
     case info of JobInfo j \<Rightarrow>
       andThen (guard (jb_state j = st_VERIFYING \<and> jb_worker j = r_worker p) (Http 409 ''Receipt not finalized or assignment mismatch'')) (\<lambda>_.
       andThen (plain (commitment cr (receipt_json p))) (\<lambda>rh.
       andThen (guard (toHex (jb_receiptHash j) = rh) (Http 409 ''Receipt not finalized or assignment mismatch'')) (\<lambda>_.
       andThen (plain (commitment cr (spec_json spec))) (\<lambda>sh.
         guard (toHex (jb_specHash j) = sh) (Http 409 ''Receipt not finalized or assignment mismatch'')))))
     | _ \<Rightarrow> Inl (Http 409 ''Wait for finalized job'')))))))))"

definition result_handler :: "verifier_env \<Rightarrow> string \<Rightarrow> raw_bundle \<Rightarrow> verifier_db \<Rightarrow> verifier_db \<times> unit reply" where
  "result_handler env jid b d = (case result_checked env jid b of
     Inl e \<Rightarrow> (d, Inl e)
   | Inr _ \<Rightarrow> (case bindP (reconcile_jobs env) (\<lambda>_. storeReceipt env b) d of (d', r) \<Rightarrow> (d', andThen (plain r) (\<lambda>_. Inr ()))))"

section \<open>Benchmarks\<close>

definition benchmark_json :: "benchmark_report \<Rightarrow> json" where
  "benchmark_json r = JObj [(''version'', JStr (br_version r)), (''domain'', JStr (br_domain r)), (''cluster'', JStr (br_cluster r)),
     (''program'', JStr (br_program r)), (''machineId'', JStr (br_machineId r)), (''worker'', JStr (br_worker r)),
     (''hardwareReportHash'', JStr (br_hardwareReportHash r)), (''imageDigest'', JStr (br_imageDigest r)),
     (''startedAt'', jint (br_startedAt r)), (''finishedAt'', jint (br_finishedAt r)),
     (''cpuSha256MibPerSecond'', JNum (br_cpuSha256MibPerSecond r)), (''diskWriteMibPerSecond'', JNum (br_diskWriteMibPerSecond r)),
     (''gpu'', JArr (map (\<lambda>g. JObj [(''uuid'', JStr (bg_uuid g)), (''vramMb'', jint (bg_vramMb g))]) (br_gpu r))),
     (''nonce'', JStr (br_nonce r))]"

record benchmark_row =
  bk_id :: string
  bk_report :: benchmark_report
  bk_signature :: string
  bk_passed :: bool

text \<open>The hardware reports by hash and machine; \<^verbatim>\<open>BENCHMARK_IMAGE_DIGESTS\<close> is split at commas.\<close>

record benchmark_env = provider_env +
  be_hardware :: "string \<Rightarrow> string \<Rightarrow> json option outcome"
  be_write :: "unit outcome"
  be_digests :: "string option"

definition allowed_digests :: "benchmark_env \<Rightarrow> string list" where
  "allowed_digests env = filter (\<lambda>d. d \<noteq> []) (split_on CHR '','' (case be_digests env of Some v \<Rightarrow> v
     | None \<Rightarrow> ''sha256:14358309a308569c32bdc37e2e0e9694be33a9d99e68afb0f5ff33cc1f695dce''))"

text \<open>\<^verbatim>\<open>(hardware?.report?.gpu ?? []).map((gpu) => gpu.uuid)\<close>\<close>

definition expected_gpus :: "json option \<Rightarrow> string option list outcome" where
  "expected_gpus report = (case json_get ''gpu'' report of
     None \<Rightarrow> Inr [] | Some JNull \<Rightarrow> Inr []
   | Some (JArr gs) \<Rightarrow> if JNull \<in> set gs then Inl ''TypeError'' else Inr (map (\<lambda>g. Option.bind (json_get ''uuid'' (Some g)) json_str) gs)
   | Some _ \<Rightarrow> Inl ''TypeError'')"

definition benchmark_checked :: "benchmark_env \<Rightarrow> benchmark_report \<Rightarrow> string \<Rightarrow> unit reply" where
  "benchmark_checked env r sig = (let now = av_nowMs env div 1000; cr = av_crypto env; invalid = Http 403 ''Invalid benchmark report'' in
     andThen (guard (benchmark_schema_ok r \<and> length sig \<le> 100) (Http 400 ''payload'')) (\<lambda>_.
     andThen (guard (br_program r = pv_program env) invalid) (\<lambda>_.
     andThen (plain (pv_cluster env)) (\<lambda>cluster.
     andThen (guard (br_cluster r = cluster \<and> br_startedAt r \<le> br_finishedAt r \<and> \<bar>now - br_finishedAt r\<bar> \<le> 120
       \<and> br_imageDigest r \<in> set (allowed_digests env)) invalid) (\<lambda>_.
     andThen (signed_with cr (benchmark_json r) sig (br_worker r)) (\<lambda>ok.
     andThen (guard ok invalid) (\<lambda>_.
     andThen (plain (pv_machine env (br_machineId r))) (\<lambda>machine.
     andThen (plain (pv_auth env (mc_provider machine) (br_worker r))) (\<lambda>auth.
     andThen (guard (mc_worker machine = br_worker r \<and> wa_active auth \<and> now < wa_expiresAt auth
       \<and> toHex (mc_hardwareHash machine) = br_hardwareReportHash r \<and> int (length (br_gpu r)) = mc_gpuCount machine)
       (Http 403 ''Benchmark assignment mismatch'')) (\<lambda>_.
     andThen (plain (be_hardware env (br_hardwareReportHash r) (br_machineId r))) (\<lambda>report.
     andThen (plain (expected_gpus report)) (\<lambda>expected.
       guard (expected = map (\<lambda>g. Some (bg_uuid g)) (br_gpu r)) (Http 403 ''Benchmark GPU identity mismatch'')))))))))))))"

text \<open>The row is inserted unless one with the same identifier exists.\<close>

definition benchmark_handler :: "benchmark_env \<Rightarrow> benchmark_report \<Rightarrow> string \<Rightarrow> benchmark_row list \<Rightarrow> benchmark_row list \<times> (string \<times> bool) reply" where
  "benchmark_handler env r sig rows =
     (case andThen (benchmark_checked env r sig) (\<lambda>_. andThen (plain (commitment (av_crypto env) (benchmark_json r))) (\<lambda>i.
        andThen (plain (be_write env)) (\<lambda>_. Inr i))) of
        Inl e \<Rightarrow> (rows, Inl e)
      | Inr i \<Rightarrow> (if i \<in> bk_id ` set rows then rows
           else rows @ [\<lparr>bk_id = i, bk_report = r, bk_signature = sig, bk_passed = benchmarkPassed r\<rparr>], Inr (i, benchmarkPassed r)))"

section \<open>Reads\<close>

datatype job_field = ReceiptField | VerificationsField | ResultField | LogsField

datatype field_reply =
    VerificationRows "verification_row list"
  | Pending
  | ReceiptEnvelope signed_receipt
  | ResultText string
  | LogText string string

text \<open>\<open>blob\<close> reads the evidence stored under a key.\<close>

definition field_handler ::
  "jobs_env \<Rightarrow> http_headers \<Rightarrow> verifier_db \<Rightarrow> (string \<Rightarrow> evidence_blob outcome) \<Rightarrow> job_field \<Rightarrow> string \<Rightarrow> field_reply reply" where
  "field_handler env req d blob fld jid = andThen (ownedJob (api_env.truncate env) (je_owned env) req jid) (\<lambda>_.
     if fld = VerificationsField then Inr (VerificationRows (case d_verifications d jid of None \<Rightarrow> [] | Some v \<Rightarrow> [v]))
     else case d_receipts d jid of
       None \<Rightarrow> Inr Pending
     | Some row \<Rightarrow>
         if fld = ReceiptField then Inr (ReceiptEnvelope (rr_envelope row))
         else andThen (plain (blob (rr_storage_key row))) (\<lambda>e.
           Inr (if fld = ResultField then ResultText (eb_result e) else LogText (eb_stdout e) (eb_stderr e))))"

record chain_event =
  ce_signature :: string
  ce_slot :: int
  ce_events :: "json list option"

definition events_of :: "string \<Rightarrow> chain_event \<Rightarrow> (string \<times> int \<times> json) list" where
  "events_of jid row = map (\<lambda>e. (ce_signature row, ce_slot row, e))
     (filter (\<lambda>e. json_get ''job'' (json_get ''data'' (Some e)) = Some (JStr jid)) (case ce_events row of Some es \<Rightarrow> es | None \<Rightarrow> []))"

text \<open>The oldest thousand transactions by slot; the events of the job in them.\<close>

definition events_handler :: "jobs_env \<Rightarrow> http_headers \<Rightarrow> chain_event list \<Rightarrow> string \<Rightarrow> (string \<times> int \<times> json) list reply" where
  "events_handler env req rows jid = andThen (ownedJob (api_env.truncate env) (je_owned env) req jid) (\<lambda>_.
     Inr (concat (map (events_of jid) (take 1000 (sort_key ce_slot rows)))))"

text \<open>Storing a specification under a name; a second row of the same user and hash violates the primary key.\<close>

definition spec_post_handler :: "jobs_env \<Rightarrow> http_headers \<Rightarrow> string \<Rightarrow> json \<Rightarrow> string handler" where
  "spec_post_handler env req name body =
     afterH (identity (api_env.truncate env) req) (\<lambda>user.
     afterH (parse_body body) (\<lambda>spec.
     afterH (guard (1 \<le> length name \<and> length name \<le> 100) (Http 400 ''name'')) (\<lambda>_.
     afterH (plain (commitment (av_crypto env) (spec_json spec))) (\<lambda>h.
     (\<lambda>d. if jd_specs d (user, h) \<noteq> None then (d, Inl (Http 500 ''duplicate key''))
       else writeH (je_write env ''job_specs'') (upsert_spec user h (spec_json spec)) (answerH (Inr h)) d)))))"

definition redundant_job_handler :: "jobs_env \<Rightarrow> http_headers \<Rightarrow> jobs_db \<Rightarrow> string \<Rightarrow> (group_row \<times> group_replica list) reply" where
  "redundant_job_handler env req d gid = andThen (wallet (api_env.truncate env) req) (\<lambda>owner.
     andThen (guard (uuid_ok gid) (Http 400 ''request'')) (\<lambda>_.
     case jd_groups d gid of
       None \<Rightarrow> Inl (Http 404 ''Redundant job not found'')
     | Some g \<Rightarrow> if gr_buyer g \<noteq> owner then Inl (Http 404 ''Redundant job not found'')
         else Inr (g, take 5 (sort_key rl_ordinal (filter (\<lambda>r. rl_group r = gid) (jd_replicas d))))))"

section \<open>What is stored was checked\<close>

lemma job_info_Inr [outcome_simps]:
  "(case info of NoAccount \<Rightarrow> Inl e | ForeignAccount \<Rightarrow> Inl e | JobInfo j \<Rightarrow> f j) = Inr y \<longleftrightarrow> (\<exists>j. info = JobInfo j \<and> f j = Inr y)"
  by (cases info) auto

lemma result_checked_Inr:
  "result_checked env jid b = Inr () \<longleftrightarrow> (let p = payload (rb_envelope b); cr = ve_crypto env in
     result_schema_ok b \<and> publicKey_ok cr jid \<and> r_jobId p = jid \<and> r_program p = ve_program env \<and> r_cluster p = ve_cluster env
     \<and> (\<exists>spec k j. jobSpecSchema_parse (rb_spec b) = Inr spec \<and> b58_decode cr (r_worker p) = Some k
         \<and> verifyPayload cr (receipt_json p) (signature (rb_envelope b)) k \<and> ve_job env jid = Inr (JobInfo j)
         \<and> jb_state j = st_VERIFYING \<and> jb_worker j = r_worker p \<and> commitment cr (receipt_json p) = Inr (toHex (jb_receiptHash j))
         \<and> commitment cr (spec_json spec) = Inr (toHex (jb_specHash j))))"
  by (auto simp: result_checked_def Let_def outcome_simps signed_with_def parse_body_def split: option.splits sum.splits)

lemma storeReceipt_Inr:
  assumes "storeReceipt env b d = (d', Inr row)"
  shows "\<exists>h row'. commitment (ve_crypto env) (receipt_json (payload (rb_envelope b))) = Inr h
     \<and> d_receipts d' (r_jobId (payload (rb_envelope b))) = Some row' \<and> rr_receipt_hash row' = h
     \<and> (\<forall>k. k \<noteq> r_jobId (payload (rb_envelope b)) \<longrightarrow> d_receipts d' k = d_receipts d k)
     \<and> (\<forall>k row. d_receipts d k = Some row \<longrightarrow> d_receipts d' k = Some row)"
  using assms
  by (cases "d_receipts d (r_jobId (payload (rb_envelope b)))")
    (auto simp: storeReceipt_def select_db_def write_db_def vdo_def proc_simps outcome_simps Let_def)

lemma reconcile_jobs_receipts: "reconcile_jobs env d = (d', r) \<Longrightarrow> d_receipts d' = d_receipts d"
  by (auto simp: reconcile_jobs_def vdo_def bindP_def modifyP_def liftP_def split: sum.splits)


lemma honest_upload:
  assumes "make_bundle we jobId j spec hw x = Inr bd" "chain_agrees we env spec hw j j' machine auth bd"
    "receipt_ok (payload (bn_envelope bd))" "spec_valid spec" "signature_law (we_crypto we) pub"
    "b58_decode (we_crypto we) (we_worker we) = Some (pub (we_key we))" "publicKey_ok (we_crypto we) jobId"
    "result_schema_ok (published bd)" "ve_job env jobId = Inr (JobInfo j')" "jb_state j' = st_VERIFYING" "service_up env"
    "d_receipts d jobId = None"
  shows "\<exists>d' row. result_handler env jobId (published bd) d = (d', Inr ()) \<and> d_receipts d' jobId = Some row
     \<and> rr_receipt_hash row = toHex (jb_receiptHash j')"
proof -
  obtain p where p: "make_receipt we jobId j spec hw x = Inr p" "payload (bn_envelope bd) = p"
    "signPayload (we_crypto we) (receipt_json p) (we_key we) = Inr (signature (bn_envelope bd))" "bn_spec bd = spec"
    by (rule make_bundle_parts [OF assms(1)])
  note f = make_receipt_fields [OF p(1)]
  have env: "rb_envelope (published bd) = bn_envelope bd" "rb_spec (published bd) = spec_json spec"
    using p(4) by (simp_all add: published_def)
  have rh: "commitment (ve_crypto env) (receipt_json p) = Inr (toHex (jb_receiptHash j'))" using assms(2) p(2) by (simp add: chain_agrees_def)
  have "verifyPayload (we_crypto we) (receipt_json p) (signature (bn_envelope bd)) (pub (we_key we))"
    by (rule verifyPayload_signPayload [OF assms(5) p(3)])
  moreover have "jobSpecSchema_parse (spec_json spec) = Inr spec"
    using assms(4) parse_shape_spec_json [of spec] by (simp add: parse_Inr_iff spec_valid_def)
  ultimately have chk: "result_checked env jobId (published bd) = Inr ()"
    using assms(2,6-10) f(1-3,6) p(2) rh by (simp add: result_checked_Inr Let_def env chain_agrees_def)
  obtain ids where ids: "ve_reconcile env = Inr ids" using assms(11) by (auto simp: service_up_def)
  obtain d1 where d1: "reconcile_jobs env d = (d1, Inr ())" "d_receipts d1 = d_receipts d" by (rule reconcile_ok [OF ids])
  have c: "commitment (ve_crypto env) (receipt_json (payload (rb_envelope (published bd)))) = Inr (toHex (jb_receiptHash j'))"
    using rh p(2) env(1) by simp
  have "d_receipts d1 (r_jobId (payload (rb_envelope (published bd)))) = None" using d1(2) assms(12) f(3) p(2) env(1) by simp
  from store_ok [OF assms(11) c this] obtain d' row where st: "storeReceipt env (published bd) d1 = (d', Inr row)" by blast
  then have "result_handler env jobId (published bd) d = (d', Inr ())"
    using chk d1(1) by (simp add: result_handler_def bindP_def plain_def)
  moreover from storeReceipt_Inr [OF st] obtain row' where "d_receipts d' jobId = Some row'" "rr_receipt_hash row' = toHex (jb_receiptHash j')"
    using c f(3) p(2) env(1) by auto
  ultimately show ?thesis by blast
qed

text \<open>
  The upload of an honest worker is accepted: once the chain has finalized the receipt hash the
  worker submitted, the bundle it built, within the size limits of the endpoint, is accepted and its
  receipt stored under the hash on chain.
\<close>

theorem honest_result_accepted:
  assumes "make_bundle we jobId j spec hw x = Inr bd" "chain_agrees we env spec hw j j' machine auth bd"
    "receipt_ok (payload (bn_envelope bd))" "spec_valid spec" "signature_law (we_crypto we) pub"
    "b58_decode (we_crypto we) (we_worker we) = Some (pub (we_key we))" "publicKey_ok (we_crypto we) jobId"
    "result_schema_ok (published bd)" "ve_job env jobId = Inr (JobInfo j')" "jb_state j' = st_VERIFYING" "service_up env"
    "d_receipts d jobId = None"
  shows "\<exists>d' row. result_handler env jobId (published bd) d = (d', Inr ()) \<and> d_receipts d' jobId = Some row
     \<and> rr_receipt_hash row = toHex (jb_receiptHash j')"
  by (rule honest_upload [OF assms])

section \<open>Trust is earned\<close>

text \<open>What a stored benchmark stands for, at the time \<open>env\<close> it was stored.\<close>

definition benchmark_backed :: "benchmark_env \<Rightarrow> benchmark_row \<Rightarrow> bool" where
  "benchmark_backed env row \<longleftrightarrow> (let r = bk_report row in
     (\<exists>k m auth report. b58_decode (av_crypto env) (br_worker r) = Some k
        \<and> verifyPayload (av_crypto env) (benchmark_json r) (bk_signature row) k
        \<and> pv_machine env (br_machineId r) = Inr m \<and> mc_worker m = br_worker r
        \<and> pv_auth env (mc_provider m) (br_worker r) = Inr auth \<and> wa_active auth
        \<and> toHex (mc_hardwareHash m) = br_hardwareReportHash r \<and> int (length (br_gpu r)) = mc_gpuCount m
        \<and> be_hardware env (br_hardwareReportHash r) (br_machineId r) = Inr report
        \<and> expected_gpus report = Inr (map (\<lambda>g. Some (bg_uuid g)) (br_gpu r)))
     \<and> br_imageDigest r \<in> set (allowed_digests env) \<and> bk_passed row = benchmarkPassed r)"

inductive benchmark_reach :: "crypto \<Rightarrow> benchmark_row list \<Rightarrow> bool" for cr where
  none: "benchmark_reach cr []"
| report: "benchmark_reach cr rows \<Longrightarrow> av_crypto env = cr \<Longrightarrow> benchmark_handler env r sig rows = (rows', q) \<Longrightarrow> benchmark_reach cr rows'"

lemma benchmark_checked_backed:
  assumes "benchmark_checked env r sig = Inr ()"
  shows "benchmark_backed env \<lparr>bk_id = i, bk_report = r, bk_signature = sig, bk_passed = benchmarkPassed r\<rparr>"
  using assms by (auto simp: benchmark_checked_def benchmark_backed_def signed_with_def outcome_simps Let_def split: option.splits)

lemma benchmark_reach_backed:
  assumes "benchmark_reach cr rows" "row \<in> set rows"
  shows "\<exists>env. av_crypto env = cr \<and> benchmark_backed env row"
  using assms
proof induction
  case (report rows env r sig rows' q)
  have "row \<in> set rows \<or> benchmark_backed env row"
    using report.hyps(3) report.prems benchmark_checked_backed [of env r sig]
    by (auto simp: benchmark_handler_def outcome_simps split: sum.splits if_splits)
  then show ?case using report.IH report.hyps(2) by blast
qed simp

text \<open>The benchmark columns the supply query selects.\<close>

definition benchmark_columns :: "benchmark_row list \<Rightarrow> (string \<times> bool) list" where
  "benchmark_columns rows = map (\<lambda>b. (br_machineId (bk_report b), bk_passed b)) rows"


text \<open>
  Old markets hide new jobs: the events endpoint reads the thousand oldest transactions of the
  whole program before it looks for the job, so once a thousand transactions precede a job's first
  event, its owner is told there are none.
\<close>

theorem events_hidden_after_thousand:
  assumes "ownedJob (api_env.truncate env) (je_owned env) req jid = Inr job"
    "1000 \<le> length (filter (\<lambda>row. ce_slot row < first) rows)" "\<forall>row \<in> set rows. events_of jid row \<noteq> [] \<longrightarrow> first \<le> ce_slot row"
  shows "events_handler env req rows jid = Inr []"
proof -
  let ?s = "sort_key ce_slot rows"
  have "events_of jid row = []" if r: "row \<in> set (take 1000 ?s)" for row
  proof (rule ccontr)
    assume ne: "events_of jid row \<noteq> []"
    obtain i where i: "i < 1000" "i < length ?s" "?s ! i = row" using r by (auto simp: in_set_conv_nth)
    have "row \<in> set rows" using r in_set_takeD by fastforce
    then have late: "first \<le> ce_slot row" using assms(3) ne by blast
    have "filter (\<lambda>x. ce_slot x < first) ?s = filter (\<lambda>x. ce_slot x < first) (take i ?s) @ filter (\<lambda>x. ce_slot x < first) (drop i ?s)"
      by (metis append_take_drop_id filter_append)
    moreover have "first \<le> ce_slot x" if x: "x \<in> set (drop i ?s)" for x
    proof -
      obtain j where "j < length (drop i ?s)" "drop i ?s ! j = x" using x unfolding in_set_conv_nth by blast
      then have j: "i + j < length ?s" "?s ! (i + j) = x" by simp_all
      have "map ce_slot ?s ! i \<le> map ce_slot ?s ! (i + j)" using j(1) by (intro sorted_nth_mono) simp_all
      then show ?thesis using late i j by simp
    qed
    then have "filter (\<lambda>x. ce_slot x < first) (drop i ?s) = []" by (fastforce simp: filter_empty_conv)
    ultimately have "length (filter (\<lambda>x. ce_slot x < first) ?s) \<le> i"
      by (metis append_Nil2 length_filter_le length_take min.cobounded2 le_trans)
    moreover have "length (filter (\<lambda>x. ce_slot x < first) ?s) = length (filter (\<lambda>x. ce_slot x < first) rows)"
      by (metis mset_filter mset_sort size_mset)
    ultimately show False using assms(2) i(1) by linarith
  qed
  then show ?thesis using assms(1) by (simp add: events_handler_def)
qed

section \<open>Sample reports\<close>

lemma sample_upload_schema: "result_schema_ok (published sample_bundle)"
proof -
  have "length (signature (bn_envelope sample_bundle)) \<le> 100"
    by (simp add: sample_bundle_def length_toBase64) (simp add: sample_crypto_def)
  then show ?thesis
    using sample_bundle_receipt_ok
    by (simp add: result_schema_ok_def published_def) (simp add: sample_bundle_def sample_result_def length_toBase64 utf8_def)
qed

lemma sample_upload_facts:
  "publicKey_ok (we_crypto sample_worker_env) sample_job" "ve_job sample_verifier_env sample_job = Inr (JobInfo sample_chain_job)"
  by (simp_all add: publicKey_ok_def sample_worker_env_def sample_verifier_env_def)

lemmas sample_upload_run = sample_make_bundle sample_chain_agrees sample_bundle_receipt_ok sample_verifier_facts(1,3,4)
  sample_upload_facts(1) sample_upload_schema sample_upload_facts(2) sample_verifier_facts(6,10,12)

theorem honest_result_accepted_witness:
  "\<exists>d' row. result_handler sample_verifier_env sample_job (published sample_bundle) empty_db = (d', Inr ())
     \<and> d_receipts d' sample_job = Some row \<and> rr_receipt_hash row = toHex (jb_receiptHash sample_chain_job)"
  by (rule honest_result_accepted [OF sample_upload_run])


definition sample_report :: benchmark_report where
  "sample_report = \<lparr>br_version = ''1'', br_domain = ''vericompute:benchmark:v1'', br_cluster = ''devnet'', br_program = sample_program,
     br_machineId = sample_machine, br_worker = sample_worker, br_hardwareReportHash = sample_hash sample_hw,
     br_imageDigest = ''sha256:'' @ replicate 64 CHR ''a'', br_startedAt = 100, br_finishedAt = 110, br_cpuSha256MibPerSecond = 2,
     br_diskWriteMibPerSecond = 3, br_gpu = [], br_nonce = sample_uuid\<rparr>"

definition sample_report_signature :: string where
  "sample_report_signature = toBase64 (ed_sign sample_crypto (utf8 sample_worker) (utf8 (show_json (benchmark_json sample_report))))"

definition sample_benchmark_env :: benchmark_env where
  "sample_benchmark_env = \<lparr>av_crypto = sample_crypto, av_session = (\<lambda>_. None), av_parse = (\<lambda>_. None), av_nowMs = 120000,
     pv_program = sample_program, pv_cluster = Inr ''devnet'', pv_machine = (\<lambda>_. Inr Worker.sample_machine_account),
     pv_auth = (\<lambda>_ _. Inr sample_auth), pv_job = (\<lambda>_. Inl ''none''), be_hardware = (\<lambda>_ _. Inr (Some sample_hw)), be_write = Inr (),
     be_digests = Some (''sha256:'' @ replicate 64 CHR ''a'')\<rparr>"

lemma sample_report_checked: "benchmark_checked sample_benchmark_env sample_report sample_report_signature = Inr ()"
proof -
  have "verifyPayload sample_crypto (benchmark_json sample_report) sample_report_signature (checksum (utf8 sample_worker))"
    unfolding sample_report_signature_def by (rule verifyPayload_signPayload [OF sample_signature_law]) (simp add: sample_signPayload)
  moreover have "length sample_report_signature \<le> 100"
    unfolding sample_report_signature_def length_toBase64 by (simp add: sample_crypto_def)
  moreover have "allowed_digests sample_benchmark_env = [''sha256:'' @ replicate 64 CHR ''a'']"
    by (simp add: allowed_digests_def sample_benchmark_env_def split_on_absent)
  moreover have "digest_ok (''sha256:'' @ replicate 64 CHR ''a'')" using sample_spec_parts(1) by (simp add: sample_spec_def)
  moreover have "toHex (checksum (utf8 (show_json sample_hw))) = sample_hash sample_hw" by (simp add: sample_hash_def)
  ultimately show ?thesis
    by (simp add: benchmark_checked_def Let_def outcome_simps plain_def signed_with_def benchmark_schema_ok_def sample_benchmark_env_def sample_report_def
        Worker.sample_machine_account_def sample_auth_def expected_gpus_def sample_hw_def json_get_def)
qed

theorem events_hidden_after_thousand_witness:
  "events_handler sample_jobs sample_headers (replicate 1000 \<lparr>ce_signature = ''a'', ce_slot = 1, ce_events = Some []\<rparr>
     @ [\<lparr>ce_signature = ''b'', ce_slot = 2, ce_events = Some [JObj [(''data'', JObj [(''job'', JStr ''J1'')])]]\<rparr>]) ''J1'' = Inr []"
proof (rule events_hidden_after_thousand [where first = 2])
  show "ownedJob (api_env.truncate sample_jobs) (je_owned sample_jobs) sample_headers ''J1'' = Inr \<lparr>ow_id = ''J1'', ow_buyer = ''W''\<rparr>"
    by (simp add: ownedJob_def sample_jobs_parts sample_wallet plain_def publicKey_ok_def) (simp add: sample_api_def)
qed (auto simp: events_of_def)

definition benchmarked_market :: "benchmark_row list \<Rightarrow> market_db" where
  "benchmarked_market rows = \<lparr>md_offers = [\<lparr>or_id = ''A'', or_machine = sample_machine, or_rate = ''7'', or_maxSeconds = 60, or_expiresAt = 9, or_active = True\<rparr>],
     md_machines = [\<lparr>mr_id = sample_machine, mr_provider = sample_program, mr_gpuModel = ''cpu'', mr_gpuCount = 0, mr_vramMb = 0, mr_region = ''eu'',
       mr_active = True, mr_busy = False, mr_hardwareHash = ''h''\<rparr>],
     md_heartbeats = [], md_reports = [], md_jobs = [], md_benchmarks = benchmark_columns rows, md_stakes = [], md_verifications = []\<rparr>"


end
