(* ===== verification/Daemon.thy ===== *)
theory Daemon
  imports Worker ProviderApi
begin

text \<open>
  The provider daemon (\<^verbatim>\<open>agents/provider-node/daemon.ts\<close>): every fifteen seconds it sends a heartbeat,
  starts or resumes the job its machine is assigned, and bids on open intents when the machine is
  idle. The state is the flag \<^verbatim>\<open>executionActive\<close>, the specification files and the sequence of
  effects; how the calls of one turn end is given by the environment of that turn.
\<close>

section \<open>State and environment\<close>

record intent =
  it_id :: string
  it_budget :: int
  it_deadline :: int

datatype daemon_effect =
    SentHeartbeat heartbeat
  | AskedSpec string
  | WroteSpec string json
  | Spawned worker_command string string
  | PlacedBid string int int int
  | SkippedBid string

record daemon =
  dn_executionActive :: bool
  dn_files :: "string \<rightharpoonup> json"
  dn_log :: "daemon_effect list"

text \<open>
  \<open>de_http\<close> is the API's answer to a signed body, \<open>Inl\<close> when it is not a success; \<open>de_bidTaken\<close> says
  whether the bid account of a job exists; \<open>de_placeBid\<close> is how sending the bid of a job ends.
\<close>

record daemon_env =
  de_crypto :: crypto
  de_key :: buffer
  de_worker :: string
  de_cluster :: string
  de_program :: string
  de_machineId :: string
  de_hardware :: json
  de_registries :: "string option"
  de_rate :: "string option"
  de_nowMs :: int
  de_nonce :: string
  de_machine :: "machine_account outcome"
  de_job :: "string \<Rightarrow> job_account outcome"
  de_http :: "string \<Rightarrow> json \<Rightarrow> json outcome"
  de_journals :: "string \<rightharpoonup> journal_file"
  de_write :: "unit outcome"
  de_intents :: "intent list outcome"
  de_bidTaken :: "string \<Rightarrow> bool outcome"
  de_placeBid :: "string \<Rightarrow> unit outcome"

abbreviation de_now :: "daemon_env \<Rightarrow> int" where
  "de_now env \<equiv> de_nowMs env div 1000"

definition daemon_do :: "daemon_effect \<Rightarrow> 'a outcome \<Rightarrow> (daemon, 'a) proc" where
  "daemon_do e r = (\<lambda>s. (s\<lparr>dn_log := dn_log s @ [e]\<rparr>, r))"

section \<open>Requests to the API\<close>

definition post :: "daemon_env \<Rightarrow> string \<Rightarrow> json \<Rightarrow> json outcome" where
  "post env path pay = andThen (signPayload (de_crypto env) pay (de_key env)) (\<lambda>sig. de_http env path (signed_json pay sig))"

definition daemon_heartbeat :: "daemon_env \<Rightarrow> machine_account \<Rightarrow> heartbeat" where
  "daemon_heartbeat env m = \<lparr>hp_cluster = de_cluster env, hp_program = de_program env, hp_machineId = de_machineId env,
     hp_worker = de_worker env, hp_timestamp = de_now env, hp_available = (if mc_busy m then 0 else mc_gpuCount m),
     hp_load = (if mc_busy m then 1 else 0), hp_runningJobs = (if mc_busy m then [mc_activeJob m] else []),
     hp_benchmarkHash = [], hp_nonce = de_nonce env\<rparr>"

definition spec_request_for :: "daemon_env \<Rightarrow> machine_account \<Rightarrow> string \<Rightarrow> spec_request" where
  "spec_request_for env m job = \<lparr>sq_jobId = job, sq_worker = de_worker env, sq_provider = mc_provider m, sq_timestamp = de_now env\<rparr>"

text \<open>\<^verbatim>\<open>const { spec } = await post(...)\<close>; a reply without a specification fails where it is used.\<close>

definition fetched_spec :: "daemon_env \<Rightarrow> machine_account \<Rightarrow> string \<Rightarrow> json outcome" where
  "fetched_spec env m job = andThen (post env ''/v1/provider/job-spec'' (spec_request_json (spec_request_for env m job))) (\<lambda>r.
     case json_get ''spec'' (Some r) of Some spec \<Rightarrow> Inr spec | None \<Rightarrow> Inl ''TypeError'')"

section \<open>Starting and resuming the assigned job\<close>

definition specFile :: "string \<Rightarrow> string" where
  "specFile job = ''keys/jobs/'' @ job @ ''.json''"

definition writeSpec :: "daemon_env \<Rightarrow> string \<Rightarrow> json \<Rightarrow> (daemon, unit) proc" where
  "writeSpec env job spec = bindP (liftP (de_write env)) (\<lambda>_.
     (\<lambda>s. (s\<lparr>dn_files := (dn_files s)(specFile job \<mapsto> spec), dn_log := dn_log s @ [WroteSpec job spec]\<rparr>, Inr ())))"

definition spawn_worker :: "worker_command \<Rightarrow> string \<Rightarrow> (daemon, unit) proc" where
  "spawn_worker cmd job = (\<lambda>s. (s\<lparr>dn_executionActive := True, dn_log := dn_log s @ [Spawned cmd job (specFile job)]\<rparr>, Inr ()))"

definition resume_job :: "daemon_env \<Rightarrow> machine_account \<Rightarrow> (daemon, unit) proc" where
  "resume_job env m = (let job = mc_activeJob m in
     bindP (liftP (de_job env job)) (\<lambda>j.
     if jb_state j \<in> {st_ASSIGNED, st_RUNNING, st_VERIFYING} then
       bindP (daemon_do (AskedSpec job) (fetched_spec env m job)) (\<lambda>spec.
       bindP (writeSpec env job spec) (\<lambda>_.
       bindP (liftP (loadJournal (de_journals env) job)) (\<lambda>prior.
         spawn_worker (if jb_state j = st_ASSIGNED \<and> prior = None then Execute else Recover) job)))
     else retP ()))"

section \<open>Bidding\<close>

text \<open>\<^verbatim>\<open>hardware.gpu[0]?.model\<close>; a missing array is a \<^verbatim>\<open>TypeError\<close>.\<close>

definition hardware_model :: "json \<Rightarrow> string option outcome" where
  "hardware_model hardware = (case json_get ''gpu'' (Some hardware) of
     None \<Rightarrow> Inl ''TypeError'' | Some JNull \<Rightarrow> Inl ''TypeError''
   | Some g \<Rightarrow> Inr (Option.bind (json_get ''model'' (json_first (Some g))) json_str))"

definition fits :: "daemon_env \<Rightarrow> machine_account \<Rightarrow> job_spec \<Rightarrow> bool outcome" where
  "fits env m spec =
     (if mc_gpuCount m < gpu_count spec \<or> mc_vramMb m < gpu_minimumVramMb spec then Inr False
      else if gpu_allowedModels spec = [] then Inr True
      else andThen (hardware_model (de_hardware env)) (\<lambda>g. Inr (case g of None \<Rightarrow> False | Some x \<Rightarrow> x \<in> set (gpu_allowedModels spec))))"

definition allowed_registries :: "daemon_env \<Rightarrow> string list" where
  "allowed_registries env = split_on CHR '','' (case de_registries env of Some r \<Rightarrow> r | None \<Rightarrow> ''ghcr.io,docker.io,nvcr.io'')"

definition provider_rate :: "daemon_env \<Rightarrow> int outcome" where
  "provider_rate env = bigInt (case de_rate env of Some r \<Rightarrow> r | None \<Rightarrow> ''0'')"

definition bid_for :: "daemon_env \<Rightarrow> machine_account \<Rightarrow> intent \<Rightarrow> (daemon, unit) proc" where
  "bid_for env m i =
     (if it_deadline i \<le> de_now env + 5 then retP () else
      bindP (requireP (publicKey_ok (de_crypto env) (it_id i)) ''Invalid public key input'') (\<lambda>_.
      bindP (liftP (de_bidTaken env (it_id i))) (\<lambda>taken.
      if taken then retP () else
      bindP (daemon_do (AskedSpec (it_id i)) (fetched_spec env m (it_id i))) (\<lambda>raw.
      bindP (liftP (enforceExecutionPolicy raw (allowed_registries env))) (\<lambda>spec.
      bindP (liftP (fits env m spec)) (\<lambda>ok.
      if \<not> ok then retP () else
      bindP (liftP (provider_rate env)) (\<lambda>rate.
      bindP (requireP (0 < rate) ''Configure a positive provider rate'') (\<lambda>_.
      let price = rate * timeoutSeconds spec in
      if it_budget i < price then retP () else
      daemon_do (PlacedBid (it_id i) price (de_now env + 5) (it_deadline i - 1)) (de_placeBid env (it_id i))))))))))"

fun bid_loop :: "daemon_env \<Rightarrow> machine_account \<Rightarrow> intent list \<Rightarrow> (daemon, unit) proc" where
  "bid_loop env m [] = retP ()"
| "bid_loop env m (i # is) = bindP (catchP (bid_for env m i) (\<lambda>e. daemon_do (SkippedBid e) (Inr ()))) (\<lambda>_. bid_loop env m is)"

section \<open>One turn\<close>

definition registered :: "daemon_env \<Rightarrow> (daemon, machine_account) proc" where
  "registered env = bindP (liftP (de_machine env)) (\<lambda>m.
     bindP (requireP (mc_worker m = de_worker env) ''Hardware report or worker is not registered to this machine'') (\<lambda>_.
     bindP (liftP (commitment (de_crypto env) (de_hardware env))) (\<lambda>h.
     bindP (requireP (toHex (mc_hardwareHash m) = h) ''Hardware report or worker is not registered to this machine'') (\<lambda>_. retP m))))"

definition tick :: "daemon_env \<Rightarrow> (daemon, unit) proc" where
  "tick env = bindP (registered env) (\<lambda>m.
     bindP (daemon_do (SentHeartbeat (daemon_heartbeat env m)) (post env ''/v1/provider/heartbeat'' (heartbeat_json (daemon_heartbeat env m)))) (\<lambda>_.
     bindP getP (\<lambda>s.
     if mc_busy m \<and> \<not> dn_executionActive s then resume_job env m
     else if mc_busy m then retP ()
     else bindP (liftP (de_intents env)) (\<lambda>is. bid_loop env m is))))"

text \<open>
  The process: turns one after the other, each in its own environment, and the exit of a worker
  process, whose handler clears the flag. A turn reads the flag once, so an exit during a turn is
  an exit before or after it. The list holds the worker processes that run.
\<close>

definition spawned_in :: "daemon_effect list \<Rightarrow> (worker_command \<times> string) list" where
  "spawned_in es = concat (map (\<lambda>e. case e of Spawned cmd job f \<Rightarrow> [(cmd, job)] | _ \<Rightarrow> []) es)"

inductive daemon_run :: "daemon \<Rightarrow> (worker_command \<times> string) list \<Rightarrow> bool" where
  boot: "\<not> dn_executionActive s \<Longrightarrow> dn_log s = [] \<Longrightarrow> daemon_run s []"
| turn: "daemon_run s ws \<Longrightarrow> tick env s = (s', r) \<Longrightarrow> daemon_run s' (ws @ spawned_in (drop (length (dn_log s)) (dn_log s')))"
| exit: "daemon_run s ws \<Longrightarrow> w \<in> set ws \<Longrightarrow> daemon_run (s\<lparr>dn_executionActive := False\<rparr>) (remove1 w ws)"

section \<open>What a turn does\<close>

text \<open>The terms of the bid for an intent, if the daemon may make one.\<close>

definition offer_for :: "daemon_env \<Rightarrow> machine_account \<Rightarrow> intent \<Rightarrow> daemon_effect option" where
  "offer_for env m i =
     (if it_deadline i \<le> de_now env + 5 \<or> \<not> publicKey_ok (de_crypto env) (it_id i) \<or> de_bidTaken env (it_id i) \<noteq> Inr False then None
      else case andThen (fetched_spec env m (it_id i)) (\<lambda>raw. enforceExecutionPolicy raw (allowed_registries env)) of
        Inl _ \<Rightarrow> None
      | Inr spec \<Rightarrow> (case provider_rate env of
          Inl _ \<Rightarrow> None
        | Inr q \<Rightarrow> if fits env m spec = Inr True \<and> 0 < q \<and> q * timeoutSeconds spec \<le> it_budget i
            then Some (PlacedBid (it_id i) (q * timeoutSeconds spec) (de_now env + 5) (it_deadline i - 1)) else None))"

definition is_bid :: "daemon_effect \<Rightarrow> bool" where
  "is_bid e = (case e of PlacedBid _ _ _ _ \<Rightarrow> True | _ \<Rightarrow> False)"

lemma is_bid_simps [simp]:
  "is_bid (PlacedBid a b c d)" "\<not> is_bid (SentHeartbeat h)" "\<not> is_bid (AskedSpec j)" "\<not> is_bid (SkippedBid e)"
  "\<not> is_bid (WroteSpec j v)" "\<not> is_bid (Spawned cmd j f)"
  by (simp_all add: is_bid_def)

lemma daemon_do_eq [proc_simps]: "daemon_do e r s = (s', q) \<longleftrightarrow> s' = s\<lparr>dn_log := dn_log s @ [e]\<rparr> \<and> q = r"
  by (auto simp: daemon_do_def)

lemmas daemon_run_simps = bindP_def retP_def liftP_def requireP_def daemon_do_def guard_def andThen_def

lemma bid_for_log:
  assumes "bid_for env m i s = (s', r)"
  shows "\<exists>new. s' = s\<lparr>dn_log := dn_log s @ new\<rparr> \<and> filter is_bid new = (case offer_for env m i of None \<Rightarrow> [] | Some b \<Rightarrow> [b])
     \<and> spawned_in new = []"
proof (cases "it_deadline i \<le> de_now env + 5 \<or> \<not> publicKey_ok (de_crypto env) (it_id i) \<or> de_bidTaken env (it_id i) \<noteq> Inr False")
  case True
  then have "s' = s" using assms
    by (auto simp: bid_for_def daemon_run_simps split: sum.splits if_splits)
  then show ?thesis using True by (intro exI [of _ "[]"]) (auto simp: offer_for_def spawned_in_def)
next
  case False
  then show ?thesis using assms
    by (intro exI [of _ "AskedSpec (it_id i) # (case offer_for env m i of None \<Rightarrow> [] | Some b \<Rightarrow> [b])"])
      (auto simp: bid_for_def offer_for_def daemon_run_simps Let_def spawned_in_def split: sum.splits if_splits)
qed

lemma spawned_in_append [simp]: "spawned_in (xs @ ys) = spawned_in xs @ spawned_in ys"
  by (simp add: spawned_in_def)

lemma bid_loop_log:
  "bid_loop env m is s = (s', r) \<Longrightarrow> r = Inr () \<and> (\<exists>new. s' = s\<lparr>dn_log := dn_log s @ new\<rparr>
     \<and> filter is_bid new = List.map_filter (offer_for env m) is \<and> spawned_in new = [])"
proof (induction "is" arbitrary: s)
  case Nil
  then show ?case by (auto simp: retP_def map_filter_simps spawned_in_def intro!: exI [of _ "[]"])
next
  case (Cons i "is")
  obtain s1 q where b: "bid_for env m i s = (s1, q)" by fastforce
  obtain n1 where n1: "s1 = s\<lparr>dn_log := dn_log s @ n1\<rparr>" "filter is_bid n1 = (case offer_for env m i of None \<Rightarrow> [] | Some x \<Rightarrow> [x])"
    "spawned_in n1 = []" using bid_for_log [OF b] by blast
  define n2 where "n2 = (case q of Inl e \<Rightarrow> n1 @ [SkippedBid e] | Inr _ \<Rightarrow> n1)"
  have n2: "filter is_bid n2 = filter is_bid n1" "spawned_in n2 = []" using n1(3)
    by (auto simp: n2_def spawned_in_def split: sum.splits)
  have "bid_loop env m is (s\<lparr>dn_log := dn_log s @ n2\<rparr>) = (s', r)"
    using Cons.prems b n1(1) by (auto simp: bindP_def catchP_def daemon_do_def n2_def split: sum.splits)
  from Cons.IH [OF this] obtain n3 where r: "r = Inr ()" and n3: "s' = s\<lparr>dn_log := dn_log s @ n2 @ n3\<rparr>"
    "filter is_bid n3 = List.map_filter (offer_for env m) is" "spawned_in n3 = []" by auto
  have "filter is_bid (n2 @ n3) = List.map_filter (offer_for env m) (i # is)"
    using n1(2) n2 n3(2) by (simp add: map_filter_simps split: option.splits)
  then show ?case using r n3(1) n2(2) n3(3) by (intro conjI exI [of _ "n2 @ n3"]) auto
qed

definition resumes :: "daemon_env \<Rightarrow> machine_account \<Rightarrow> worker_command \<Rightarrow> bool" where
  "resumes env m cmd \<longleftrightarrow> mc_busy m \<and> (\<exists>j prior. de_job env (mc_activeJob m) = Inr j \<and> jb_state j \<in> {st_ASSIGNED, st_RUNNING, st_VERIFYING}
     \<and> loadJournal (de_journals env) (mc_activeJob m) = Inr prior \<and> (cmd = Execute \<longleftrightarrow> jb_state j = st_ASSIGNED \<and> prior = None))"

lemma resume_log:
  assumes "resume_job env m s = (s', r)" "mc_busy m"
  shows "\<exists>new. dn_log s' = dn_log s @ new \<and> filter is_bid new = []
     \<and> ((spawned_in new = [] \<and> dn_executionActive s' = dn_executionActive s)
        \<or> (\<exists>cmd spec. spawned_in new = [(cmd, mc_activeJob m)] \<and> dn_executionActive s' \<and> resumes env m cmd
            \<and> fetched_spec env m (mc_activeJob m) = Inr spec \<and> dn_files s' (specFile (mc_activeJob m)) = Some spec))"
proof (cases "r = Inr () \<and> s' \<noteq> s")
  case True
  then show ?thesis using assms
    by (cases "dn_log s'" rule: rev_cases)
      (fastforce simp: resume_job_def writeSpec_def spawn_worker_def resumes_def daemon_run_simps Let_def spawned_in_def
         split: sum.splits if_splits)+
next
  case False
  then have "s' = s \<or> (\<exists>e. r = Inl e)" by (cases r) auto
  then show ?thesis using assms
    by (auto simp: resume_job_def writeSpec_def spawn_worker_def daemon_run_simps Let_def spawned_in_def
         split: sum.splits if_splits)
qed

text \<open>A turn stops before the machine is known to be registered, or acts on that machine.\<close>

lemma tick_stages:
  assumes "tick env s = (s', r)"
  shows "(s' = s \<and> r \<noteq> Inr ())
     \<or> (\<exists>m. de_machine env = Inr m \<and> mc_worker m = de_worker env \<and> commitment (de_crypto env) (de_hardware env) = Inr (toHex (mc_hardwareHash m))
        \<and> (let s1 = s\<lparr>dn_log := dn_log s @ [SentHeartbeat (daemon_heartbeat env m)]\<rparr> in
            (s' = s1 \<and> (r = Inr () \<longrightarrow> mc_busy m))
          \<or> (mc_busy m \<and> \<not> dn_executionActive s \<and> resume_job env m s1 = (s', r))
          \<or> (\<not> mc_busy m \<and> (\<exists>is. de_intents env = Inr is \<and> bid_loop env m is s1 = (s', r)))))"
  using assms by (auto simp: tick_def registered_def daemon_run_simps getP_def Let_def split: sum.splits if_splits)

lemma tick_log:
  assumes "tick env s = (s', r)"
  shows "\<exists>new. dn_log s' = dn_log s @ new
     \<and> ((spawned_in new = [] \<and> dn_executionActive s' = dn_executionActive s)
        \<or> (\<exists>m cmd spec. de_machine env = Inr m \<and> spawned_in new = [(cmd, mc_activeJob m)] \<and> \<not> dn_executionActive s \<and> dn_executionActive s'
            \<and> resumes env m cmd \<and> fetched_spec env m (mc_activeJob m) = Inr spec \<and> dn_files s' (specFile (mc_activeJob m)) = Some spec))"
proof -
  have hb: "spawned_in (SentHeartbeat h # xs) = spawned_in xs" for h xs by (simp add: spawned_in_def)
  from tick_stages [OF assms] consider "s' = s"
    | m where "s' = s\<lparr>dn_log := dn_log s @ [SentHeartbeat (daemon_heartbeat env m)]\<rparr>"
    | m where "de_machine env = Inr m" "mc_busy m" "\<not> dn_executionActive s"
        "resume_job env m (s\<lparr>dn_log := dn_log s @ [SentHeartbeat (daemon_heartbeat env m)]\<rparr>) = (s', r)"
    | m "is" where "bid_loop env m is (s\<lparr>dn_log := dn_log s @ [SentHeartbeat (daemon_heartbeat env m)]\<rparr>) = (s', r)"
    by (auto simp: Let_def)
  then show ?thesis
  proof cases
    case 1
    then show ?thesis by (intro exI [of _ "[]"]) (simp add: spawned_in_def)
  next
    case (2 m)
    then show ?thesis by (intro exI [of _ "[SentHeartbeat (daemon_heartbeat env m)]"]) (simp add: spawned_in_def)
  next
    case (3 m)
    from resume_log [OF 3(4,2)] obtain new where new: "dn_log s' = dn_log s @ SentHeartbeat (daemon_heartbeat env m) # new"
      "(spawned_in new = [] \<and> dn_executionActive s' = dn_executionActive s)
        \<or> (\<exists>cmd spec. spawned_in new = [(cmd, mc_activeJob m)] \<and> dn_executionActive s' \<and> resumes env m cmd
            \<and> fetched_spec env m (mc_activeJob m) = Inr spec \<and> dn_files s' (specFile (mc_activeJob m)) = Some spec)" by auto
    then show ?thesis using 3(1,3) by (intro exI [of _ "SentHeartbeat (daemon_heartbeat env m) # new"]) (auto simp: hb)
  next
    case (4 m "is")
    from bid_loop_log [OF 4] obtain new where "s' = s\<lparr>dn_log := dn_log s @ SentHeartbeat (daemon_heartbeat env m) # new\<rparr>" "spawned_in new = []"
      by auto
    then show ?thesis by (intro exI [of _ "SentHeartbeat (daemon_heartbeat env m) # new"]) (auto simp: hb)
  qed
qed

text \<open>
  C29. One job at a time: however turns, failures and exits of worker processes are interleaved,
  at most one worker process runs, and the flag \<^verbatim>\<open>executionActive\<close> says whether one does.
\<close>

theorem one_worker_process:
  assumes "daemon_run s ws"
  shows "length ws \<le> 1 \<and> (dn_executionActive s \<longleftrightarrow> ws \<noteq> [])"
  using assms
proof induction
  case (turn s ws env s' r)
  from tick_log [OF turn.hyps(2)] obtain new where "dn_log s' = dn_log s @ new"
    "(spawned_in new = [] \<and> dn_executionActive s' = dn_executionActive s)
      \<or> (\<exists>w. spawned_in new = [w] \<and> \<not> dn_executionActive s \<and> dn_executionActive s')" by blast
  then show ?case using turn.IH by auto
next
  case (exit s ws w)
  then show ?case by (cases ws) auto
qed auto

text \<open>
  A worker is started only for the job the chain assigned to this machine, in a state a worker
  can handle, with the specification the API released for that job in its file; the command is
  \<^verbatim>\<open>execute\<close> exactly for an assigned job without a journal, so a job that was begun is recovered
  and never executed afresh.
\<close>

theorem worker_start_justified:
  assumes "tick env s = (s', r)" "(cmd, job) \<in> set (spawned_in (drop (length (dn_log s)) (dn_log s')))"
  shows "\<exists>m j prior spec. de_machine env = Inr m \<and> mc_busy m \<and> mc_activeJob m = job \<and> de_job env job = Inr j
     \<and> jb_state j \<in> {st_ASSIGNED, st_RUNNING, st_VERIFYING} \<and> loadJournal (de_journals env) job = Inr prior
     \<and> (cmd = Execute \<longleftrightarrow> jb_state j = st_ASSIGNED \<and> prior = None)
     \<and> fetched_spec env m job = Inr spec \<and> dn_files s' (specFile job) = Some spec"
  using tick_log [OF assms(1)] assms(2) by (fastforce simp: resumes_def)

lemma offer_for_Some:
  "offer_for env m i = Some b \<longleftrightarrow> (\<exists>raw spec q. de_now env + 5 < it_deadline i \<and> publicKey_ok (de_crypto env) (it_id i)
     \<and> de_bidTaken env (it_id i) = Inr False \<and> fetched_spec env m (it_id i) = Inr raw
     \<and> enforceExecutionPolicy raw (allowed_registries env) = Inr spec \<and> fits env m spec = Inr True
     \<and> provider_rate env = Inr q \<and> 0 < q \<and> q * timeoutSeconds spec \<le> it_budget i
     \<and> b = PlacedBid (it_id i) (q * timeoutSeconds spec) (de_now env + 5) (it_deadline i - 1))"
  by (auto simp: offer_for_def andThen_def split: sum.splits if_splits)

lemma bids_placed:
  assumes "tick env s = (s', Inr ())" "de_machine env = Inr m" "\<not> mc_busy m"
  shows "\<exists>is. de_intents env = Inr is \<and> (\<forall>job price start expiry.
     PlacedBid job price start expiry \<in> set (drop (length (dn_log s)) (dn_log s')) \<longleftrightarrow>
     (\<exists>i \<in> set is. \<exists>raw spec q. job = it_id i \<and> de_now env + 5 < it_deadline i \<and> publicKey_ok (de_crypto env) job
        \<and> de_bidTaken env job = Inr False \<and> fetched_spec env m job = Inr raw
        \<and> enforceExecutionPolicy raw (allowed_registries env) = Inr spec \<and> fits env m spec = Inr True
        \<and> provider_rate env = Inr q \<and> 0 < q \<and> price = q * timeoutSeconds spec \<and> price \<le> it_budget i
        \<and> start = de_now env + 5 \<and> expiry = it_deadline i - 1))"
proof -
  let ?hb = "SentHeartbeat (daemon_heartbeat env m)"
  obtain "is" where loop: "de_intents env = Inr is" "bid_loop env m is (s\<lparr>dn_log := dn_log s @ [?hb]\<rparr>) = (s', Inr ())"
    using tick_stages [OF assms(1)] assms(2,3) by (auto simp: Let_def)
  from bid_loop_log [OF loop(2)] obtain new where new: "s' = s\<lparr>dn_log := dn_log s @ ?hb # new\<rparr>"
    "filter is_bid new = List.map_filter (offer_for env m) is" by auto
  have "PlacedBid job price start expiry \<in> set (drop (length (dn_log s)) (dn_log s')) \<longleftrightarrow>
      PlacedBid job price start expiry \<in> set (filter is_bid new)" for job price start expiry
    using new(1) by auto
  then have "PlacedBid job price start expiry \<in> set (drop (length (dn_log s)) (dn_log s')) \<longleftrightarrow>
      (\<exists>i \<in> set is. offer_for env m i = Some (PlacedBid job price start expiry))" for job price start expiry
    unfolding new(2) by (force simp: List.map_filter_def)
  then show ?thesis using loop(1) by (intro exI [of _ "is"]) (auto simp: offer_for_Some)
qed

text \<open>
  Bidding is exact: a turn that completes on an idle machine reads the open intents and bids
  on precisely those with time left, no bid of this provider yet, a specification the provider
  admits and the hardware fits, at the configured rate times the timeout when that is within the
  buyer's budget; the bid expires before the intent does, and a failing intent never keeps the
  others from being bid on.
\<close>

theorem bids_exact:
  assumes "tick env s = (s', Inr ())" "de_machine env = Inr m" "\<not> mc_busy m"
  shows "\<exists>is. de_intents env = Inr is \<and> (\<forall>job price start expiry.
     PlacedBid job price start expiry \<in> set (drop (length (dn_log s)) (dn_log s')) \<longleftrightarrow>
     (\<exists>i \<in> set is. \<exists>raw spec q. job = it_id i \<and> de_now env + 5 < it_deadline i \<and> publicKey_ok (de_crypto env) job
        \<and> de_bidTaken env job = Inr False \<and> fetched_spec env m job = Inr raw
        \<and> enforceExecutionPolicy raw (allowed_registries env) = Inr spec \<and> fits env m spec = Inr True
        \<and> provider_rate env = Inr q \<and> 0 < q \<and> price = q * timeoutSeconds spec \<and> price \<le> it_budget i
        \<and> start = de_now env + 5 \<and> expiry = it_deadline i - 1))"
  using bids_placed [OF assms] .

section \<open>Sample turns\<close>

definition idle_machine :: machine_account where
  "idle_machine = \<lparr>mc_provider = ''P'', mc_worker = ''W'', mc_id = [], mc_hardwareHash = fromHex (sample_hash JNull), mc_gpuCount = 2,
     mc_vramMb = 0, mc_active = True, mc_busy = False, mc_activeJob = ''J'', mc_completed = 0, mc_failed = 0\<rparr>"

text \<open>The API accepts heartbeats and releases the sample specification; the machine is \<open>m\<close>.\<close>

definition sample_daemon_env :: "machine_account \<Rightarrow> daemon_env" where
  "sample_daemon_env m = \<lparr>de_crypto = sample_crypto, de_key = [], de_worker = ''W'', de_cluster = ''devnet'', de_program = ''X'', de_machineId = ''M'',
     de_hardware = JNull, de_registries = None, de_rate = Some ''2'', de_nowMs = 100000, de_nonce = sample_uuid, de_machine = Inr m,
     de_job = (\<lambda>_. Inr (sample_job_account st_ASSIGNED)),
     de_http = (\<lambda>path _. if path = ''/v1/provider/job-spec'' then Inr (JObj [(''spec'', spec_json sample_spec)]) else Inr JNull),
     de_journals = Map.empty, de_write = Inr (), de_intents = Inr [\<lparr>it_id = ''J'', it_budget = 600, it_deadline = 200\<rparr>],
     de_bidTaken = (\<lambda>_. Inr False), de_placeBid = (\<lambda>_. Inr ())\<rparr>"

abbreviation sleeping :: daemon where
  "sleeping \<equiv> \<lparr>dn_executionActive = False, dn_files = Map.empty, dn_log = []\<rparr>"

lemma sample_registered:
  assumes "m = idle_machine \<or> m = idle_machine\<lparr>mc_busy := True\<rparr>"
  shows "registered (sample_daemon_env m) s = (s, Inr m)"
    and "post (sample_daemon_env m) ''/v1/provider/heartbeat'' j = Inr JNull"
    and "fetched_spec (sample_daemon_env m) m job = Inr (spec_json sample_spec)"
proof -
  have "toHex (fromHex (sample_hash JNull)) = sample_hash JNull" using sample_hash_ok [of JNull] by (simp add: hash_ok_roundtrip)
  then show "registered (sample_daemon_env m) s = (s, Inr m)"
    using assms by (auto simp: registered_def daemon_run_simps sample_daemon_env_def idle_machine_def)
  show "post (sample_daemon_env m) ''/v1/provider/heartbeat'' j = Inr JNull"
    by (simp add: post_def sample_daemon_env_def sample_signPayload)
  show "fetched_spec (sample_daemon_env m) m job = Inr (spec_json sample_spec)"
    by (simp add: fetched_spec_def post_def sample_daemon_env_def sample_signPayload json_get_def)
qed

lemma sample_resume:
  "\<exists>s'. tick (sample_daemon_env (idle_machine\<lparr>mc_busy := True\<rparr>)) sleeping = (s', Inr ()) \<and> spawned_in (dn_log s') = [(Execute, ''J'')]"
proof -
  let ?m = "idle_machine\<lparr>mc_busy := True\<rparr>" and ?env = "sample_daemon_env (idle_machine\<lparr>mc_busy := True\<rparr>)"
  have "mc_activeJob ?m = ''J''" "mc_busy ?m" by (simp_all add: idle_machine_def)
  moreover have "de_job ?env j = Inr (sample_job_account st_ASSIGNED)" "de_write ?env = Inr ()" "de_journals ?env = Map.empty" for j
    by (simp_all add: sample_daemon_env_def)
  moreover have "jb_state (sample_job_account st_ASSIGNED) = st_ASSIGNED" by (simp add: sample_job_account_def)
  ultimately show ?thesis
    by (simp add: tick_def resume_job_def writeSpec_def spawn_worker_def loadJournal_def sample_registered bindP_def getP_def liftP_def
        daemon_do_def spawned_in_def Let_def)
qed

theorem one_worker_process_witness: "\<exists>s. daemon_run s [(Execute, ''J'')] \<and> dn_executionActive s"
proof -
  obtain s' where t: "tick (sample_daemon_env (idle_machine\<lparr>mc_busy := True\<rparr>)) sleeping = (s', Inr ())"
    and w: "spawned_in (dn_log s') = [(Execute, ''J'')]" using sample_resume by blast
  have "daemon_run s' [(Execute, ''J'')]" using daemon_run.turn [OF daemon_run.boot t] w by simp
  with one_worker_process [OF this] show ?thesis by blast
qed

theorem worker_start_justified_witness:
  "\<exists>s'. tick (sample_daemon_env (idle_machine\<lparr>mc_busy := True\<rparr>)) sleeping = (s', Inr ()) \<and> dn_files s' (specFile ''J'') = Some (spec_json sample_spec)"
proof -
  let ?m = "idle_machine\<lparr>mc_busy := True\<rparr>"
  obtain s' where t: "tick (sample_daemon_env ?m) sleeping = (s', Inr ())"
    and w: "spawned_in (dn_log s') = [(Execute, ''J'')]" using sample_resume by blast
  have "(Execute, ''J'') \<in> set (spawned_in (drop (length (dn_log sleeping)) (dn_log s')))" using w by simp
  from worker_start_justified [OF t this] obtain m spec where "de_machine (sample_daemon_env ?m) = Inr m"
    "fetched_spec (sample_daemon_env ?m) m ''J'' = Inr spec" "dn_files s' (specFile ''J'') = Some spec" by blast
  moreover from this(1) have "m = ?m" by (simp add: sample_daemon_env_def)
  ultimately show ?thesis using t sample_registered(3) [of ?m] by auto
qed

lemma sample_idle: "de_machine (sample_daemon_env idle_machine) = Inr idle_machine" "\<not> mc_busy idle_machine"
  "de_intents (sample_daemon_env idle_machine) = Inr [\<lparr>it_id = ''J'', it_budget = 600, it_deadline = 200\<rparr>]"
  by (simp_all add: sample_daemon_env_def idle_machine_def)

lemma sample_idle_turn: "\<exists>s'. tick (sample_daemon_env idle_machine) sleeping = (s', Inr ())"
proof -
  let ?env = "sample_daemon_env idle_machine"
  obtain s' r where l: "bid_loop ?env idle_machine [\<lparr>it_id = ''J'', it_budget = 600, it_deadline = 200\<rparr>]
      (sleeping\<lparr>dn_log := [SentHeartbeat (daemon_heartbeat ?env idle_machine)]\<rparr>) = (s', r)" by fastforce
  then have "r = Inr ()" using bid_loop_log by blast
  then show ?thesis
    using l sample_idle by (simp add: tick_def sample_registered bindP_def getP_def liftP_def daemon_do_def del: bid_loop.simps)
qed

lemma sample_bid_due:
  "enforceExecutionPolicy (spec_json sample_spec) (allowed_registries (sample_daemon_env idle_machine)) = Inr sample_spec"
  "fits (sample_daemon_env idle_machine) idle_machine sample_spec = Inr True" "provider_rate (sample_daemon_env idle_machine) = Inr 2"
  "publicKey_ok (de_crypto (sample_daemon_env idle_machine)) ''J''" "de_bidTaken (sample_daemon_env idle_machine) ''J'' = Inr False"
  "de_now (sample_daemon_env idle_machine) = 100"
proof -
  let ?env = "sample_daemon_env idle_machine"
  have "allowed_registries ?env = [''ghcr.io'', ''docker.io'', ''nvcr.io'']" by (simp add: allowed_registries_def sample_daemon_env_def)
  then show "enforceExecutionPolicy (spec_json sample_spec) (allowed_registries ?env) = Inr sample_spec" by (simp only: sample_admitted)
  show "fits ?env idle_machine sample_spec = Inr True" by (simp add: fits_def idle_machine_def sample_spec_def)
  have "bigInt ''2'' = Inr 2" by code_simp
  then show "provider_rate ?env = Inr 2" by (simp add: provider_rate_def sample_daemon_env_def)
  show "publicKey_ok (de_crypto ?env) ''J''" "de_bidTaken ?env ''J'' = Inr False" "de_now ?env = 100"
    by (simp_all add: sample_daemon_env_def publicKey_ok_def)
qed

theorem bids_exact_witness:
  "\<exists>s'. tick (sample_daemon_env idle_machine) sleeping = (s', Inr ()) \<and> PlacedBid ''J'' 600 105 199 \<in> set (dn_log s')"
proof -
  obtain s' where t: "tick (sample_daemon_env idle_machine) sleeping = (s', Inr ())" using sample_idle_turn by blast
  have "PlacedBid ''J'' 600 105 199 \<in> set (drop (length (dn_log sleeping)) (dn_log s'))"
    using bids_exact [OF t sample_idle(1,2)] sample_idle(3) sample_bid_due sample_registered(3) [of idle_machine] sample_spec_parts(2) by simp
  then show ?thesis using t by auto
qed

end
