(* ===== verification/SpecStore.thy ===== *)
theory SpecStore
  imports EvidenceApi Daemon
begin

text \<open>
  The way of a job specification from the buyer to the machine: stored by the handlers that create
  jobs and policies, released to workers by hash, written to disk by the provider daemon. The
  database the handlers leave behind files every specification under its own hash, so the worker is
  started with the specification the chain commits to. A user who writes to the table directly, as
  the row policy permits, breaks this.
\<close>

section \<open>Handlers that keep an invariant\<close>

definition keeps :: "(jobs_db \<Rightarrow> bool) \<Rightarrow> 'a handler \<Rightarrow> bool" where
  "keeps P h \<longleftrightarrow> (\<forall>d d' r. P d \<longrightarrow> h d = (d', r) \<longrightarrow> P d')"

named_theorems keeps_intros \<open>invariants of handlers\<close>

lemma keeps_after [keeps_intros]: "(\<And>x. r = Inr x \<Longrightarrow> keeps P (f x)) \<Longrightarrow> keeps P (afterH r f)"
  by (cases r) (auto simp: keeps_def afterH_def)

lemma keeps_write [keeps_intros]: "(\<And>d. P d \<Longrightarrow> P (g d)) \<Longrightarrow> keeps P f \<Longrightarrow> keeps P (writeH w g f)"
  by (cases w) (auto simp: keeps_def writeH_def)

lemma keeps_answer [keeps_intros]: "keeps P (answerH r)"
  by (simp add: keeps_def answerH_def)

lemma keeps_if [keeps_intros]: "keeps P f \<Longrightarrow> keeps P g \<Longrightarrow> keeps P (\<lambda>d. if c d then f d else g d)"
  unfolding keeps_def by metis

lemma keeps_fail [keeps_intros]: "keeps P (\<lambda>d. (d, r))"
  by (simp add: keeps_def)

lemma keepsD: "keeps P h \<Longrightarrow> h d = (d', r) \<Longrightarrow> P d \<Longrightarrow> P d'"
  by (auto simp: keeps_def)

section \<open>Every stored specification is filed under its hash\<close>

lemma specs_ok_frame: "specs_ok cr d \<Longrightarrow> jd_specs d' = jd_specs d \<Longrightarrow> specs_ok cr d'"
  by (simp add: specs_ok_def)

lemma upsert_specs_ok:
  "list_all2 (\<lambda>s h. commitment cr (spec_json s) = Inr h) specs hs \<Longrightarrow> specs_ok cr d \<Longrightarrow> specs_ok cr (upsert_specs u (zip hs specs) d)"
proof (induction specs hs arbitrary: d rule: list_all2_induct)
  case (Cons s specs h hs)
  then show ?case using upsert_spec_ok [OF Cons.prems Cons.hyps(1)] by (simp add: upsert_specs_def)
qed (simp add: upsert_specs_def)

lemma policy_specs_ok:
  assumes "policy_checked env b = Inr (hs, al)" "specs_ok (av_crypto env) d"
  shows "specs_ok (av_crypto env) (upsert_specs u (zip hs (pb_specs b)) d)"
  using assms by (auto simp: policy_checked_def Let_def outcome_simps mapM_eq_Inr intro: upsert_specs_ok)

lemmas stored_specs = upsert_spec_ok policy_specs_ok

lemma create_keeps: "keeps (specs_ok (av_crypto env)) (create_job_handler env req body maxSpend)"
  unfolding create_job_handler_def by (intro keeps_intros) (auto simp: plain_eq intro: stored_specs)

lemma redundant_keeps: "keeps (specs_ok (av_crypto env)) (redundant_handler env req body per n k)"
  unfolding redundant_handler_def Let_def
  by (intro keeps_intros) (auto simp: plain_eq intro: stored_specs elim: specs_ok_frame)

lemma create_policy_keeps: "keeps (specs_ok (av_crypto env)) (create_policy_handler env req b)"
  unfolding create_policy_handler_def split_def by (intro keeps_intros) (auto intro: stored_specs)

lemma update_policy_keeps: "keeps (specs_ok (av_crypto env)) (update_policy_handler env req agent b)"
  unfolding update_policy_handler_def split_def by (intro keeps_intros) (auto intro: stored_specs)

lemma agent_job_keeps: "keeps (specs_ok (av_crypto env)) (agent_job_handler env req agent spec maxSpend pf)"
  unfolding agent_job_handler_def Let_def by (intro keeps_intros) (auto simp: plain_eq intro: stored_specs)

lemma spec_post_keeps: "keeps (specs_ok (av_crypto env)) (spec_post_handler env req name body)"
  unfolding spec_post_handler_def by (intro keeps_intros) (auto simp: plain_eq intro: stored_specs)

text \<open>The specifications that any sequence of requests to the API, by any callers, can store.\<close>

inductive specs_reach :: "crypto \<Rightarrow> jobs_db \<Rightarrow> bool" for cr where
  fresh: "jd_specs d = Map.empty \<Longrightarrow> specs_reach cr d"
| job: "specs_reach cr d \<Longrightarrow> av_crypto env = cr \<Longrightarrow> create_job_handler env req body m d = (d', r) \<Longrightarrow> specs_reach cr d'"
| replicas: "specs_reach cr d \<Longrightarrow> av_crypto env = cr \<Longrightarrow> redundant_handler env req body m n k d = (d', r) \<Longrightarrow> specs_reach cr d'"
| policy: "specs_reach cr d \<Longrightarrow> av_crypto env = cr \<Longrightarrow> create_policy_handler env req b d = (d', r) \<Longrightarrow> specs_reach cr d'"
| update: "specs_reach cr d \<Longrightarrow> av_crypto env = cr \<Longrightarrow> update_policy_handler env req agent b d = (d', r) \<Longrightarrow> specs_reach cr d'"
| agent_job: "specs_reach cr d \<Longrightarrow> av_crypto env = cr \<Longrightarrow> agent_job_handler env req agent spec m pf d = (d', r) \<Longrightarrow> specs_reach cr d'"
| store: "specs_reach cr d \<Longrightarrow> av_crypto env = cr \<Longrightarrow> spec_post_handler env req name body d = (d', r) \<Longrightarrow> specs_reach cr d'"

lemma specs_reach_ok: "specs_reach cr d \<Longrightarrow> specs_ok cr d"
proof (induction rule: specs_reach.induct)
  case (fresh d)
  then show ?case by (simp add: specs_ok_def)
next
  case job
  then show ?case using keepsD [OF create_keeps] by blast
next
  case replicas
  then show ?case using keepsD [OF redundant_keeps] by blast
next
  case policy
  then show ?case using keepsD [OF create_policy_keeps] by blast
next
  case update
  then show ?case using keepsD [OF update_policy_keeps] by blast
next
  case agent_job
  then show ?case using keepsD [OF agent_job_keeps] by blast
next
  case store
  then show ?case using keepsD [OF spec_post_keeps] by blast
qed

section \<open>From the database to the machine\<close>

text \<open>What \<^verbatim>\<open>select("spec").eq("hash", hash).limit(1)\<close> may return: some row with that hash, of whatever owner.\<close>

definition spec_lookup :: "jobs_db \<Rightarrow> (string \<Rightarrow> json list outcome) \<Rightarrow> bool" where
  "spec_lookup d look \<longleftrightarrow> (\<forall>h rows. look h = Inr rows \<longrightarrow> length rows \<le> 1 \<and> (\<forall>s \<in> set rows. \<exists>u. jd_specs d (u, h) = Some s))"

text \<open>The daemon's requests are answered by the handler, on the chain and the database of that moment.\<close>

definition api_answers :: "daemon_env \<Rightarrow> provider_env \<Rightarrow> (string \<Rightarrow> json list outcome) \<Rightarrow> bool" where
  "api_answers env penv look \<longleftrightarrow> (\<forall>p sig r. de_http env ''/v1/provider/job-spec'' (signed_json (spec_request_json p) sig) = Inr r \<longrightarrow>
     (\<exists>spec. spec_handler penv look p sig = Inr spec \<and> r = JObj [(''spec'', spec)]))"

lemma released_hash:
  assumes "specs_ok (pv_crypto env) d" "spec_lookup d look" "spec_handler env look p sig = Inr spec"
  shows "\<exists>j. pv_job env (sq_jobId p) = Inr j \<and> commitment (pv_crypto env) spec = Inr (toHex (jb_specHash j))"
proof -
  from spec_released [OF assms(3)] obtain j rest where j: "pv_job env (sq_jobId p) = Inr j" "look (toHex (jb_specHash j)) = Inr (spec # rest)"
    by blast
  have "spec \<in> set (spec # rest)" by simp
  then obtain u where "jd_specs d (u, toHex (jb_specHash j)) = Some spec" using assms(2) j(2) unfolding spec_lookup_def by blast
  then show ?thesis using j(1) assms(1) by (auto simp: specs_ok_def)
qed

lemma fetched_released:
  assumes "api_answers env penv look" "fetched_spec env m job = Inr spec"
  shows "\<exists>sig. spec_handler penv look (spec_request_for env m job) sig = Inr spec"
proof -
  obtain sig reply where r: "de_http env ''/v1/provider/job-spec'' (signed_json (spec_request_json (spec_request_for env m job)) sig) = Inr reply"
    "json_get ''spec'' (Some reply) = Some spec"
    using assms(2) by (auto simp: fetched_spec_def post_def outcome_simps split: option.splits)
  then obtain spec' where "spec_handler penv look (spec_request_for env m job) sig = Inr spec'" "reply = JObj [(''spec'', spec')]"
    using assms(1) unfolding api_answers_def by blast
  then show ?thesis using r(2) by (auto simp: json_get_def)
qed

text \<open>
  C24. The machine runs what the buyer committed to: over a database that only the API's handlers
  wrote, a worker process the daemon starts finds in its file a specification whose hash is the one
  of the job's account on chain.
\<close>

theorem worker_gets_committed_spec:
  assumes "specs_reach (de_crypto env) d" "spec_lookup d look" "api_answers env penv look" "pv_crypto penv = de_crypto env"
    "pv_job penv = de_job env" "tick env s = (s', r)" "(cmd, job) \<in> set (spawned_in (drop (length (dn_log s)) (dn_log s')))"
  shows "\<exists>j spec. de_job env job = Inr j \<and> dn_files s' (specFile job) = Some spec \<and> commitment (de_crypto env) spec = Inr (toHex (jb_specHash j))"
proof -
  from tick_log [OF assms(6)] assms(7) obtain m spec where m: "mc_activeJob m = job" "fetched_spec env m job = Inr spec"
    "dn_files s' (specFile job) = Some spec" by auto
  from fetched_released [OF assms(3) m(2)] obtain sig where h: "spec_handler penv look (spec_request_for env m job) sig = Inr spec" by blast
  have "specs_ok (pv_crypto penv) d" using specs_reach_ok [OF assms(1)] assms(4) by simp
  from released_hash [OF this assms(2) h] m(3) show ?thesis using assms(4,5) by (auto simp: spec_request_for_def)
qed

section \<open>Direct writes\<close>

text \<open>
  An authenticated user inserts a row through the database's own interface: the row policy only asks
  that the row is the user's, not that the specification has the hash.
\<close>

definition client_insert :: "string \<Rightarrow> string \<Rightarrow> json \<Rightarrow> jobs_db \<Rightarrow> jobs_db outcome" where
  "client_insert user h spec d = (if jd_specs d (user, h) \<noteq> None then Inl ''duplicate key''
     else Inr (d\<lparr>jd_specs := (jd_specs d)((user, h) \<mapsto> spec)\<rparr>))"

text \<open>
  Another user's row can displace the buyer's: whoever stored the specification of a job, any
  other user can file an arbitrary document under the same hash, and the endpoint, which looks the
  hash up without the owner and checks nothing, may then hand that document to the workers.
\<close>

theorem foreign_spec_released:
  assumes "pv_job env (sq_jobId p) = Inr j" "jd_specs d (buyer, toHex (jb_specHash j)) = Some spec" "jd_specs d (user, toHex (jb_specHash j)) = None"
    "spec_handler env (\<lambda>_. Inr [spec]) p sig = Inr spec"
  shows "\<exists>d' look. client_insert user (toHex (jb_specHash j)) forged d = Inr d' \<and> spec_lookup d' look \<and> spec_handler env look p sig = Inr forged"
proof -
  let ?h = "toHex (jb_specHash j)"
  let ?d = "d\<lparr>jd_specs := (jd_specs d)((user, ?h) \<mapsto> forged)\<rparr>" and ?look = "\<lambda>h. if h = ?h then Inr [forged] else Inr []"
  have "client_insert user ?h forged d = Inr ?d" using assms(3) by (simp add: client_insert_def)
  moreover have "spec_lookup ?d ?look" by (auto simp: spec_lookup_def)
  moreover have "spec_handler env ?look p sig = Inr forged" using assms(1,4) by (auto simp: spec_handler_def outcome_simps)
  ultimately show ?thesis by blast
qed

section \<open>A specification's way, by example\<close>

definition stored_market :: jobs_db where
  "stored_market = upsert_spec ''u1'' (sample_hash (spec_json sample_spec)) (spec_json sample_spec) no_jobs"

lemma stored_market_reached: "specs_reach sample_crypto stored_market"
proof -
  have "\<exists>cj. create_job_handler sample_jobs sample_headers (spec_json sample_spec) ''25'' no_jobs = (stored_market, Inr cj)"
    by (simp add: create_job_handler_def sample_request sample_spec_parts stored_market_def)
  then obtain cj where "create_job_handler sample_jobs sample_headers (spec_json sample_spec) ''25'' no_jobs = (stored_market, Inr cj)" by blast
  then show ?thesis by (intro specs_reach.job [OF specs_reach.fresh]) (auto simp: sample_jobs_parts)
qed

definition stored_lookup :: "string \<Rightarrow> json list outcome" where
  "stored_lookup h = Inr (if h = sample_hash (spec_json sample_spec) then [spec_json sample_spec] else [])"

lemma stored_lookup_ok: "spec_lookup stored_market stored_lookup"
  by (auto simp: spec_lookup_def stored_lookup_def stored_market_def upsert_spec_def)

definition asking :: spec_request where
  "asking = \<lparr>sq_jobId = ''J'', sq_worker = ''W'', sq_provider = ''P'', sq_timestamp = 100\<rparr>"

definition asking_signature :: string where
  "asking_signature = toBase64 (ed_sign sample_crypto (utf8 ''W'') (utf8 (show_json (spec_request_json asking))))"

definition releasing_env :: provider_env where
  "releasing_env = sample_provider_env\<lparr>av_nowMs := 100000, pv_job := (\<lambda>_. Inr ((sample_job_account st_ASSIGNED)\<lparr>jb_worker := ''W''\<rparr>))\<rparr>"

lemma asking_released: "spec_handler releasing_env stored_lookup asking asking_signature = Inr (spec_json sample_spec)"
proof -
  have "verifyPayload sample_crypto (spec_request_json asking) asking_signature (checksum (utf8 ''W''))"
    unfolding asking_signature_def by (rule verifyPayload_signPayload [OF sample_signature_law]) (simp add: sample_signPayload)
  then show ?thesis
    by (simp add: spec_handler_def plain_def worker_signed_def publicKey_ok_def releasing_env_def sample_provider_env_def asking_def
        stored_lookup_def sample_job_account_def sample_hash_def)
qed

definition serving_env :: daemon_env where
  "serving_env = (sample_daemon_env (idle_machine\<lparr>mc_busy := True\<rparr>))\<lparr>de_key := utf8 ''W'',
     de_job := (\<lambda>_. Inr ((sample_job_account st_ASSIGNED)\<lparr>jb_worker := ''W''\<rparr>)),
     de_http := (\<lambda>path body. if path = ''/v1/provider/heartbeat'' then Inr JNull
       else if body = signed_json (spec_request_json asking) asking_signature then Inr (JObj [(''spec'', spec_json sample_spec)])
       else Inl ''Invalid worker proof'')\<rparr>"

lemma serving_answers: "api_answers serving_env releasing_env stored_lookup"
proof -
  have "p = asking \<and> sig = asking_signature" if "signed_json (spec_request_json p) sig = signed_json (spec_request_json asking) asking_signature" for p sig
    using that by (simp add: signed_json_def spec_request_json_def asking_def)
  then show ?thesis using asking_released by (auto simp: api_answers_def serving_env_def split: if_splits)
qed

lemma serving_spawns: "\<exists>s'. tick serving_env sleeping = (s', Inr ()) \<and> spawned_in (dn_log s') = [(Execute, ''J'')]"
proof -
  let ?m = "idle_machine\<lparr>mc_busy := True\<rparr>"
  have "toHex (fromHex (sample_hash JNull)) = sample_hash JNull" using sample_hash_ok [of JNull] by (simp add: hash_ok_roundtrip)
  then have "registered serving_env s = (s, Inr ?m)" for s
    by (simp add: registered_def daemon_run_simps serving_env_def sample_daemon_env_def idle_machine_def)
  moreover have "post serving_env ''/v1/provider/heartbeat'' j = Inr JNull" for j
    by (simp add: post_def serving_env_def sample_daemon_env_def sample_signPayload)
  moreover have "spec_request_for serving_env ?m ''J'' = asking"
    by (simp add: spec_request_for_def serving_env_def sample_daemon_env_def idle_machine_def asking_def)
  then have "fetched_spec serving_env ?m ''J'' = Inr (spec_json sample_spec)"
    by (simp add: fetched_spec_def post_def serving_env_def sample_daemon_env_def sample_signPayload asking_signature_def json_get_def)
  moreover have "mc_activeJob ?m = ''J''" "mc_busy ?m" by (simp_all add: idle_machine_def)
  moreover have "de_job serving_env j = Inr ((sample_job_account st_ASSIGNED)\<lparr>jb_worker := ''W''\<rparr>)" "de_write serving_env = Inr ()"
    "de_journals serving_env = Map.empty" for j by (simp_all add: serving_env_def sample_daemon_env_def)
  moreover have "jb_state ((sample_job_account st_ASSIGNED)\<lparr>jb_worker := ''W''\<rparr>) = st_ASSIGNED" by (simp add: sample_job_account_def)
  ultimately show ?thesis
    by (simp add: tick_def resume_job_def writeSpec_def spawn_worker_def loadJournal_def bindP_def getP_def liftP_def
        daemon_do_def spawned_in_def Let_def)
qed

theorem worker_gets_committed_spec_witness:
  "\<exists>s' spec. tick serving_env sleeping = (s', Inr ()) \<and> dn_files s' (specFile ''J'') = Some spec
     \<and> commitment sample_crypto spec = Inr (toHex (jb_specHash (sample_job_account st_ASSIGNED)))"
proof -
  obtain s' where s': "tick serving_env sleeping = (s', Inr ())" "spawned_in (dn_log s') = [(Execute, ''J'')]"
    using serving_spawns by blast
  have cr: "de_crypto serving_env = sample_crypto" "pv_crypto releasing_env = de_crypto serving_env" "pv_job releasing_env = de_job serving_env"
    by (simp_all add: serving_env_def sample_daemon_env_def releasing_env_def sample_provider_env_def)
  have "specs_reach (de_crypto serving_env) stored_market" using stored_market_reached cr(1) by simp
  from worker_gets_committed_spec [OF this stored_lookup_ok serving_answers cr(2,3) s'(1), of Execute "''J''"] s'(2)
  obtain j spec where j: "de_job serving_env ''J'' = Inr j" "dn_files s' (specFile ''J'') = Some spec"
    "commitment sample_crypto spec = Inr (toHex (jb_specHash j))" by (auto simp: cr(1))
  then have "jb_specHash j = jb_specHash (sample_job_account st_ASSIGNED)" by (auto simp: serving_env_def)
  then show ?thesis using j s'(1) by metis
qed

theorem foreign_spec_released_witness:
  "\<exists>d' look. client_insert ''mallory'' (sample_hash (spec_json sample_spec)) JNull stored_market = Inr d' \<and> spec_lookup d' look
     \<and> spec_handler releasing_env look asking asking_signature = Inr JNull"
proof -
  let ?j = "(sample_job_account st_ASSIGNED)\<lparr>jb_worker := ''W''\<rparr>"
  have h: "toHex (jb_specHash ?j) = sample_hash (spec_json sample_spec)" by (simp add: sample_job_account_def) (simp add: sample_hash_def)
  have j: "pv_job releasing_env (sq_jobId asking) = Inr ?j" by (simp add: releasing_env_def)
  have rows: "jd_specs stored_market (''u1'', toHex (jb_specHash ?j)) = Some (spec_json sample_spec)"
    "jd_specs stored_market (''mallory'', toHex (jb_specHash ?j)) = None" unfolding h by (simp_all add: stored_market_def upsert_spec_def)
  have "spec_handler releasing_env (\<lambda>_. Inr [spec_json sample_spec]) asking asking_signature = Inr (spec_json sample_spec)"
    using asking_released by (auto simp: spec_handler_def outcome_simps)
  from foreign_spec_released [OF j rows this, of JNull] show ?thesis unfolding h .
qed

end
