(* ===== verification/Sdk.thy ===== *)
theory Sdk
  imports Executors Effects
begin

text \<open>
  The client library (\<^verbatim>\<open>packages/sdk/index.ts\<close>) and the agent gateway built on it
  (\<^verbatim>\<open>apps/gateway/src/mcp.ts\<close>). The state is the clock and the sequence of requests sent and
  transactions signed; the server's answers and their delays may depend on everything that happened
  before. Credentials, the wallet callback and the abort signal belong to the environment.
\<close>

section \<open>Clock, requests and signatures\<close>

datatype sdk_effect =
    Requested string string "json option"
  | SignedTx string json

record sdk_world =
  sw_time :: int
  sw_log :: "sdk_effect list"

text \<open>
  \<open>se_reply\<close> gives the response (\<^verbatim>\<open>ok\<close>, status and body) or the failure of \<^verbatim>\<open>fetch\<close>, \<open>se_latency\<close> the
  milliseconds until it arrives. \<open>se_abortAt\<close> is the time at which the caller's signal aborts.
\<close>

record sdk_env =
  se_apiUrl :: string
  se_accessToken :: "string outcome"
  se_walletProof :: "string outcome"
  se_signer :: "(sdk_world \<Rightarrow> string \<Rightarrow> json \<Rightarrow> string outcome) option"
  se_reply :: "sdk_world \<Rightarrow> string \<Rightarrow> string \<Rightarrow> json option \<Rightarrow> (bool \<times> int \<times> json) outcome"
  se_latency :: "sdk_world \<Rightarrow> nat"
  se_abortAt :: "int option"

text \<open>
  A value inside a template string. Strings print as they are, a missing value as \<^verbatim>\<open>undefined\<close>; the
  identifiers the API returns are strings, and the numbers among other values would be whole.
\<close>

definition template_text :: "json option \<Rightarrow> string" where
  "template_text j = (case j of None \<Rightarrow> ''undefined'' | Some JNull \<Rightarrow> ''null'' | Some (JBool b) \<Rightarrow> (if b then ''true'' else ''false'')
     | Some (JStr v) \<Rightarrow> v | Some (JNum q) \<Rightarrow> bigint_toString \<lfloor>q\<rfloor> | Some _ \<Rightarrow> ''[object Object]'')"

definition sdk_request :: "sdk_env \<Rightarrow> string \<Rightarrow> json option \<Rightarrow> (sdk_world, json) proc" where
  "sdk_request env path body =
     bindP (liftP (se_accessToken env)) (\<lambda>_. bindP (liftP (se_walletProof env)) (\<lambda>_. \<lambda>w.
       let verb = (if body = None then ''GET'' else ''POST'');
           w' = w\<lparr>sw_time := sw_time w + int (se_latency env w), sw_log := sw_log w @ [Requested verb path body]\<rparr>
       in case se_reply env w verb (se_apiUrl env @ path) body of
            Inl e \<Rightarrow> (w', Inl e)
          | Inr (ok, status, j) \<Rightarrow> (w', if ok then Inr j
              else Inl (case json_get ''error'' (Some j) of None \<Rightarrow> ''HTTP '' @ bigint_toString status
                | Some JNull \<Rightarrow> ''HTTP '' @ bigint_toString status | Some e \<Rightarrow> template_text (Some e)))))"

text \<open>\<^verbatim>\<open>signal?.throwIfAborted()\<close> and \<^verbatim>\<open>delay\<close>, which rejects when the signal aborts while it waits.\<close>

definition throwIfAborted :: "sdk_env \<Rightarrow> (sdk_world, unit) proc" where
  "throwIfAborted env = (\<lambda>w. (w, guard (case se_abortAt env of None \<Rightarrow> True | Some a \<Rightarrow> sw_time w < a) ''Aborted''))"

definition delay :: "sdk_env \<Rightarrow> int \<Rightarrow> (sdk_world, unit) proc" where
  "delay env ms = (\<lambda>w. case se_abortAt env of
     Some a \<Rightarrow> if sw_time w < a \<and> a \<le> sw_time w + ms then (w\<lparr>sw_time := a\<rparr>, Inl ''Aborted'') else (w\<lparr>sw_time := sw_time w + ms\<rparr>, Inr ())
   | None \<Rightarrow> (w\<lparr>sw_time := sw_time w + ms\<rparr>, Inr ()))"

definition sign :: "sdk_env \<Rightarrow> string \<Rightarrow> json \<Rightarrow> (sdk_world, string) proc" where
  "sign env action tx = (case se_signer env of
     None \<Rightarrow> throwP (''A signAndSendTransaction callback is required to '' @ action)
   | Some signer \<Rightarrow>
       bindP (requireP (truthy (json_get ''requiresWalletSignature'' (Some tx)) \<and> truthy (json_get ''transaction'' (Some tx)))
         ''API did not return a valid unsigned transaction'') (\<lambda>_.
       (\<lambda>w. (w\<lparr>sw_log := sw_log w @ [SignedTx action tx]\<rparr>, signer w action tx))))"

section \<open>The methods\<close>

record policy_input =
  pn_agent :: string
  pn_json :: json

datatype sdk_call =
    FindCompute "int option" "string option"
  | Quote job_spec string "string option"
  | CreateJob job_spec string
  | CreateRedundantJob job_spec string int int
  | RedundantJob string
  | AgentPolicies
  | CreateAgentPolicy policy_input
  | UpdateAgentPolicy policy_input
  | RevokeAgentPolicy string
  | CreateAgentJob string job_spec string "string list"
  | AcceptAgentBid string string string "string list"
  | CancelAgentJob string string "string list"
  | AcceptBid string string
  | SettleJob string
  | RefundJob string
  | ExpireJob string
  | Bids string
  | CancelJob string
  | Status string
  | Logs string
  | Result string
  | Receipt string
  | Verifications string
  | Prices

definition query_string :: "int option \<Rightarrow> string option \<Rightarrow> string" where
  "query_string limit cursor = (let ps = (case limit of None \<Rightarrow> [] | Some n \<Rightarrow> [''limit='' @ bigint_toString n])
       @ (case cursor of None \<Rightarrow> [] | Some c \<Rightarrow> if c = [] then [] else [''cursor='' @ c])
     in if ps = [] then [] else CHR ''?'' # join ''&'' ps)"

abbreviation jproof :: "string list \<Rightarrow> json" where
  "jproof pf \<equiv> JArr (map JStr pf)"

fun route :: "sdk_call \<Rightarrow> string \<times> json option" where
  "route (FindCompute limit cursor) = (''/v1/offers'' @ query_string limit cursor, None)"
| "route (Quote spec m region) = (''/v1/quotes'', Some (JObj ([(''spec'', spec_json spec), (''maxSpendBaseUnits'', JStr m)]
     @ (case region of None \<Rightarrow> [] | Some r \<Rightarrow> [(''region'', JStr r)]))))"
| "route (CreateJob spec m) = (''/v1/jobs'', Some (JObj [(''spec'', spec_json spec), (''maxSpendBaseUnits'', JStr m)]))"
| "route (CreateRedundantJob spec m n k) = (''/v1/jobs/redundant'', Some (JObj [(''spec'', spec_json spec),
     (''maxSpendPerReplicaBaseUnits'', JStr m), (''replicas'', jint n), (''requiredMatches'', jint k)]))"
| "route (RedundantJob i) = (''/v1/redundant-jobs/'' @ i, None)"
| "route AgentPolicies = (''/v1/agent-policies'', None)"
| "route (CreateAgentPolicy p) = (''/v1/agent-policies'', Some (pn_json p))"
| "route (UpdateAgentPolicy p) = (''/v1/agent-policies/'' @ pn_agent p @ ''/update'', Some (pn_json p))"
| "route (RevokeAgentPolicy a) = (''/v1/agent-policies/'' @ a @ ''/revoke'', Some (JObj []))"
| "route (CreateAgentJob a spec m pf) = (''/v1/agent/jobs'', Some (JObj [(''agent'', JStr a), (''spec'', spec_json spec),
     (''maxSpendBaseUnits'', JStr m), (''proof'', jproof pf)]))"
| "route (AcceptAgentBid i a b pf) = (''/v1/agent/jobs/'' @ i @ ''/accept-bid'', Some (JObj [(''agent'', JStr a), (''bidId'', JStr b), (''proof'', jproof pf)]))"
| "route (CancelAgentJob i a pf) = (''/v1/agent/jobs/'' @ i @ ''/cancel'', Some (JObj [(''agent'', JStr a), (''proof'', jproof pf)]))"
| "route (AcceptBid i b) = (''/v1/jobs/'' @ i @ ''/accept-bid'', Some (JObj [(''bidId'', JStr b)]))"
| "route (SettleJob i) = (''/v1/jobs/'' @ i @ ''/settle'', Some (JObj []))"
| "route (RefundJob i) = (''/v1/jobs/'' @ i @ ''/refund'', Some (JObj []))"
| "route (ExpireJob i) = (''/v1/jobs/'' @ i @ ''/expire'', Some (JObj []))"
| "route (Bids i) = (''/v1/jobs/'' @ i @ ''/bids'', None)"
| "route (CancelJob i) = (''/v1/jobs/'' @ i @ ''/cancel'', Some (JObj []))"
| "route (Status i) = (''/v1/jobs/'' @ i, None)"
| "route (Logs i) = (''/v1/jobs/'' @ i @ ''/logs'', None)"
| "route (Result i) = (''/v1/jobs/'' @ i @ ''/result'', None)"
| "route (Receipt i) = (''/v1/jobs/'' @ i @ ''/receipt'', None)"
| "route (Verifications i) = (''/v1/jobs/'' @ i @ ''/verifications'', None)"
| "route Prices = (''/v1/prices'', None)"

definition call_api :: "sdk_env \<Rightarrow> sdk_call \<Rightarrow> (sdk_world, json) proc" where
  "call_api env c = sdk_request env (fst (route c)) (snd (route c))"

text \<open>\<^verbatim>\<open>Promise.all([this.receipt(id), this.verifications(id)])\<close>; both requests are sent.\<close>

definition sdk_verify :: "sdk_env \<Rightarrow> string \<Rightarrow> (sdk_world, json \<times> json) proc" where
  "sdk_verify env i = (\<lambda>w. case call_api env (Receipt i) w of (w1, r1) \<Rightarrow>
     (case call_api env (Verifications i) w1 of (w2, r2) \<Rightarrow> (w2, andThen r1 (\<lambda>a. andThen r2 (\<lambda>b. Inr (a, b))))))"

text \<open>A request followed by the wallet: \<^verbatim>\<open>cancelAndSign\<close>, \<^verbatim>\<open>settleAndSign\<close> and the agent variants.\<close>

definition call_and_sign :: "sdk_env \<Rightarrow> string \<Rightarrow> sdk_call \<Rightarrow> (sdk_world, string) proc" where
  "call_and_sign env action c = bindP (call_api env c) (sign env action)"

fun sign_all :: "sdk_env \<Rightarrow> json list \<Rightarrow> (sdk_world, string list) proc" where
  "sign_all env [] = retP []"
| "sign_all env (tx # txs) = bindP (sign env ''create-redundant'' tx) (\<lambda>s. bindP (sign_all env txs) (\<lambda>ss. retP (s # ss)))"

definition createRedundantJobAndSign :: "sdk_env \<Rightarrow> job_spec \<Rightarrow> string \<Rightarrow> int \<Rightarrow> int \<Rightarrow> (sdk_world, string list) proc" where
  "createRedundantJobAndSign env spec m n k = bindP (call_api env (CreateRedundantJob spec m n k)) (\<lambda>plan.
     case json_get ''transactions'' (Some plan) of
       Some (JArr txs) \<Rightarrow> bindP (requireP (int (length txs) = n) ''API returned an incomplete redundant transaction plan'') (\<lambda>_. sign_all env txs)
     | _ \<Rightarrow> throwP ''TypeError'')"

section \<open>Waiting\<close>

definition job_state_reply :: "json \<Rightarrow> string option outcome" where
  "job_state_reply reply = (case json_get ''job'' (Some reply) of
     None \<Rightarrow> Inl ''TypeError'' | Some JNull \<Rightarrow> Inl ''TypeError''
   | Some j \<Rightarrow> Inr (Option.bind (json_get ''state'' (Some j)) json_str))"

definition failed_states :: "string list" where
  "failed_states = [''CANCELLED'', ''EXPIRED'', ''FAILED'', ''DISPUTED'', ''REFUNDED'']"

text \<open>One turn of a waiting loop: the state the API reports, unless the signal was aborted.\<close>

definition poll :: "sdk_env \<Rightarrow> string \<Rightarrow> (sdk_world, string option) proc" where
  "poll env i = bindP (throwIfAborted env) (\<lambda>_. bindP (call_api env (Status i)) (\<lambda>r. liftP (job_state_reply r)))"

lemma sdk_request_world:
  assumes "sdk_request env path body w = (w', r)"
  shows "sw_time w \<le> sw_time w' \<and> (\<exists>new. sw_log w' = sw_log w @ new \<and> length new \<le> 1
     \<and> set new \<subseteq> {Requested (if body = None then ''GET'' else ''POST'') path body}
     \<and> (\<forall>x. r = Inr x \<longrightarrow> length new = 1))"
  using assms by (auto simp: sdk_request_def bindP_def liftP_def Let_def split: sum.splits prod.splits if_splits)

lemma poll_time: "poll env i w = (w', r) \<Longrightarrow> sw_time w \<le> sw_time w'"
  by (auto simp: poll_def call_api_def throwIfAborted_def bindP_def liftP_def split: sum.splits prod.splits dest!: sdk_request_world)

lemma delay_time: "delay env ms w = (w', Inr ()) \<Longrightarrow> sw_time w' = sw_time w + ms"
  by (auto simp: delay_def split: option.splits if_splits)

function waitFor :: "sdk_env \<Rightarrow> string \<Rightarrow> (string option \<Rightarrow> bool) \<Rightarrow> int \<Rightarrow> sdk_world \<Rightarrow> sdk_world \<times> unit outcome" where
  "waitFor env i want until w = (if sw_time w < until then
     (case poll env i w of
        (w1, Inl e) \<Rightarrow> (w1, Inl e)
      | (w1, Inr st) \<Rightarrow>
          if want st then (w1, Inr ())
          else if st \<in> Some ` set failed_states then (w1, Inl (''Job entered terminal state '' @ the st))
          else (case delay env 1500 w1 of (w2, Inl e) \<Rightarrow> (w2, Inl e) | (w2, Inr _) \<Rightarrow> waitFor env i want until w2))
     else (w, Inl ''Timed out waiting for job state''))"
  by pat_completeness auto
termination
  by (relation "measure (\<lambda>(env, i, want, until, w). nat (until - sw_time w))")
    (fastforce dest!: poll_time delay_time [OF sym] poll_time [OF sym])+

function wait_loop :: "sdk_env \<Rightarrow> string \<Rightarrow> int \<Rightarrow> sdk_world \<Rightarrow> sdk_world \<times> string outcome" where
  "wait_loop env i until w = (if sw_time w < until then
     (case poll env i w of
        (w1, Inl e) \<Rightarrow> (w1, Inl e)
      | (w1, Inr st) \<Rightarrow>
          if st \<in> Some ` set (''COMPLETED'' # failed_states) then (w1, Inr (the st))
          else (case delay env 2000 w1 of (w2, Inl e) \<Rightarrow> (w2, Inl e) | (w2, Inr _) \<Rightarrow> wait_loop env i until w2))
     else (w, Inl ''Timed out waiting for job''))"
  by pat_completeness auto
termination
  by (relation "measure (\<lambda>(env, i, until, w). nat (until - sw_time w))")
    (fastforce dest!: poll_time delay_time [OF sym] poll_time [OF sym])+

text \<open>\<^verbatim>\<open>wait(id, { timeoutMs = 3600000 })\<close>\<close>

definition sdk_wait :: "sdk_env \<Rightarrow> string \<Rightarrow> int option \<Rightarrow> (sdk_world, string) proc" where
  "sdk_wait env i timeoutMs = (\<lambda>w. wait_loop env i (sw_time w + (case timeoutMs of Some t \<Rightarrow> t | None \<Rightarrow> 3600000)) w)"

section \<open>Running a job\<close>

text \<open>The first bid the API lists, if any; a missing list is no bid.\<close>

definition first_bid :: "json \<Rightarrow> json option" where
  "first_bid reply = (case json_first (json_get ''bids'' (Some reply)) of Some b \<Rightarrow> if truthy (Some b) then Some b else None | None \<Rightarrow> None)"

lemma call_time: "call_api env c w = (w', r) \<Longrightarrow> sw_time w \<le> sw_time w'"
  by (auto simp: call_api_def dest: sdk_request_world)

definition ask_bids :: "sdk_env \<Rightarrow> string \<Rightarrow> (sdk_world, json) proc" where
  "ask_bids env i = bindP (throwIfAborted env) (\<lambda>_. call_api env (Bids i))"

lemma ask_bids_time: "ask_bids env i w = (w', r) \<Longrightarrow> sw_time w \<le> sw_time w'"
  by (auto simp: ask_bids_def throwIfAborted_def bindP_def split: sum.splits dest: call_time)

function bid_wait :: "sdk_env \<Rightarrow> string \<Rightarrow> int \<Rightarrow> sdk_world \<Rightarrow> sdk_world \<times> json option outcome" where
  "bid_wait env i until w = (if sw_time w < until then
     (case ask_bids env i w of
        (w1, Inl e) \<Rightarrow> (w1, Inl e)
      | (w1, Inr reply) \<Rightarrow> (case first_bid reply of
          Some b \<Rightarrow> (w1, Inr (Some b))
        | None \<Rightarrow> (case delay env 1500 w1 of (w2, Inl e) \<Rightarrow> (w2, Inl e) | (w2, Inr _) \<Rightarrow> bid_wait env i until w2)))
     else (w, Inr None))"
  by pat_completeness auto
termination
  by (relation "measure (\<lambda>(env, i, until, w). nat (until - sw_time w))")
    (fastforce dest!: ask_bids_time delay_time [OF sym] ask_bids_time [OF sym])+

definition assigned_states :: "string list" where
  "assigned_states = [''ASSIGNED'', ''RUNNING'', ''VERIFYING'', ''COMPLETED'']"

definition wait_within :: "sdk_env \<Rightarrow> string \<Rightarrow> (string option \<Rightarrow> bool) \<Rightarrow> int \<Rightarrow> (sdk_world, unit) proc" where
  "wait_within env i want ms = (\<lambda>w. waitFor env i want (sw_time w + ms) w)"

definition has_quotes :: "json \<Rightarrow> bool" where
  "has_quotes reply = (case json_get ''quotes'' (Some reply) of Some (JArr (_ # _)) \<Rightarrow> True | _ \<Rightarrow> False)"

text \<open>The second half of a run, from the open job to its assignment.\<close>

definition take_bid :: "sdk_env \<Rightarrow> string \<Rightarrow> json option \<Rightarrow> (sdk_world, string) proc" where
  "take_bid env i bid = (case bid of None \<Rightarrow> throwP ''No provider bid arrived before the deadline'' | Some b \<Rightarrow>
     bindP (call_api env (AcceptBid i (template_text (json_get ''id'' (Some b))))) (\<lambda>acceptance.
     bindP (sign env ''accept-bid'' acceptance) (\<lambda>_.
     bindP (wait_within env i (\<lambda>st. st \<in> Some ` set assigned_states) 60000) (\<lambda>_. retP i))))"

definition sdk_run :: "sdk_env \<Rightarrow> job_spec \<Rightarrow> string \<Rightarrow> string option \<Rightarrow> int option \<Rightarrow> (sdk_world, string) proc" where
  "sdk_run env spec m region bidTimeoutMs =
     bindP (call_api env (Quote spec m region)) (\<lambda>quote.
     bindP (requireP (has_quotes quote) ''No eligible compute supply'') (\<lambda>_.
     bindP (call_api env (CreateJob spec m)) (\<lambda>created.
     bindP (sign env ''create-and-fund'' created) (\<lambda>_.
     let i = template_text (json_get ''jobId'' (Some created)) in
     bindP (wait_within env i (\<lambda>st. st = Some ''OPEN'') 60000) (\<lambda>_.
     bindP (\<lambda>w. bid_wait env i (sw_time w + (case bidTimeoutMs of Some t \<Rightarrow> t | None \<Rightarrow> 120000)) w) (\<lambda>bid.
     take_bid env i bid))))))"

section \<open>The agent gateway\<close>

datatype mcp_tool =
    ComputeSearch "int option" "string option"
  | ComputeQuote job_spec string
  | ComputeCreateIntent job_spec string
  | ComputeRun job_spec string
  | ComputeMarketPrice
  | ComputeVerify string
  | ComputeAgentPolicies
  | ComputeAgentCreateJob string job_spec string "string list"
  | ComputeAgentAcceptBid string string string "string list"
  | ComputeAgentCancel string string "string list"
  | ComputeStatus string
  | ComputeLogs string
  | ComputeResult string
  | ComputeReceipt string
  | ComputeCancel string

text \<open>The input schemas beyond the types: specifications are valid and a page limit is between 1 and 100.\<close>

definition tool_input_ok :: "mcp_tool \<Rightarrow> bool" where
  "tool_input_ok t = (case t of
     ComputeSearch (Some n) _ \<Rightarrow> 1 \<le> n \<and> n \<le> 100
   | ComputeQuote spec _ \<Rightarrow> spec_valid spec
   | ComputeCreateIntent spec _ \<Rightarrow> spec_valid spec
   | ComputeRun spec _ \<Rightarrow> spec_valid spec
   | ComputeAgentCreateJob _ spec _ _ \<Rightarrow> spec_valid spec
   | _ \<Rightarrow> True)"

fun tool_call :: "mcp_tool \<Rightarrow> sdk_call" where
  "tool_call (ComputeSearch n c) = FindCompute n c"
| "tool_call (ComputeQuote spec m) = Quote spec m None"
| "tool_call (ComputeCreateIntent spec m) = CreateJob spec m"
| "tool_call (ComputeRun spec m) = CreateJob spec m"
| "tool_call ComputeMarketPrice = Prices"
| "tool_call (ComputeVerify i) = Receipt i"
| "tool_call ComputeAgentPolicies = AgentPolicies"
| "tool_call (ComputeAgentCreateJob a spec m pf) = CreateAgentJob a spec m pf"
| "tool_call (ComputeAgentAcceptBid i a b pf) = AcceptAgentBid i a b pf"
| "tool_call (ComputeAgentCancel i a pf) = CancelAgentJob i a pf"
| "tool_call (ComputeStatus i) = Status i"
| "tool_call (ComputeLogs i) = Logs i"
| "tool_call (ComputeResult i) = Result i"
| "tool_call (ComputeReceipt i) = Receipt i"
| "tool_call (ComputeCancel i) = CancelJob i"

text \<open>The gateway's client has the credentials of the process environment and no wallet callback.\<close>

definition gateway_client :: "sdk_env \<Rightarrow> sdk_env" where
  "gateway_client env = env\<lparr>se_signer := None\<rparr>"

definition run_tool :: "sdk_env \<Rightarrow> mcp_tool \<Rightarrow> (sdk_world, json list) proc" where
  "run_tool env t = (let client = gateway_client env in
     bindP (requireP (tool_input_ok t) ''Invalid arguments'') (\<lambda>_.
     case t of
       ComputeVerify i \<Rightarrow> bindP (sdk_verify client i) (\<lambda>(a, b). retP [a, b])
     | _ \<Rightarrow> bindP (call_api client (tool_call t)) (\<lambda>r. retP [r])))"

declare waitFor.simps [simp del] wait_loop.simps [simp del] bid_wait.simps [simp del]

section \<open>What the wallet signs\<close>

text \<open>The API answered a call with this body at some moment.\<close>

definition served :: "sdk_env \<Rightarrow> sdk_call \<Rightarrow> json \<Rightarrow> bool" where
  "served env c j \<longleftrightarrow> (\<exists>w status. se_reply env w (if snd (route c) = None then ''GET'' else ''POST'') (se_apiUrl env @ fst (route c)) (snd (route c))
     = Inr (True, status, j))"

definition signed :: "sdk_effect list \<Rightarrow> (string \<times> json) list" where
  "signed es = concat (map (\<lambda>e. case e of SignedTx a tx \<Rightarrow> [(a, tx)] | _ \<Rightarrow> []) es)"

lemma signed_simps [simp]: "signed [] = []" "signed (xs @ ys) = signed xs @ signed ys" "signed [SignedTx a tx] = [(a, tx)]" "signed [Requested v p b] = []"
  by (simp_all add: signed_def)

text \<open>\<open>extends w w' txs\<close>: the log grew, and its new part signs exactly \<open>txs\<close>.\<close>

definition extends :: "sdk_world \<Rightarrow> sdk_world \<Rightarrow> (string \<times> json) list \<Rightarrow> bool" where
  "extends w w' txs \<longleftrightarrow> (\<exists>new. sw_log w' = sw_log w @ new \<and> signed new = txs)"

lemma extends_refl [simp]: "extends w w []"
  by (simp add: extends_def)

lemma extends_trans: "extends w w1 xs \<Longrightarrow> extends w1 w2 ys \<Longrightarrow> extends w w2 (xs @ ys)"
  by (auto simp: extends_def)

lemma extends_quiet: "extends w w1 [] \<Longrightarrow> extends w1 w2 ys \<Longrightarrow> extends w w2 ys"
  using extends_trans by fastforce

lemma call_extends:
  assumes "call_api env c w = (w', r)"
  shows "extends w w' [] \<and> (\<forall>j. r = Inr j \<longrightarrow> served env c j)"
  using assms
  by (auto simp: call_api_def sdk_request_def bindP_def liftP_def Let_def extends_def served_def split: sum.splits prod.splits if_splits)

lemma abort_extends: "throwIfAborted env w = (w', r) \<Longrightarrow> w' = w"
  by (simp add: throwIfAborted_def)

lemma delay_extends: "delay env ms w = (w', r) \<Longrightarrow> extends w w' []"
  by (auto simp: delay_def extends_def split: option.splits if_splits)

lemma poll_extends: "poll env i w = (w', r) \<Longrightarrow> extends w w' []"
  by (auto simp: poll_def bindP_def liftP_def split: prod.splits sum.splits dest!: abort_extends call_extends)

lemma ask_bids_extends: "ask_bids env i w = (w', r) \<Longrightarrow> extends w w' []"
  by (auto simp: ask_bids_def bindP_def split: prod.splits sum.splits dest!: abort_extends call_extends)

lemma waitFor_extends: "waitFor env i want until w = (w', r) \<Longrightarrow> extends w w' []"
proof (induction env i want until w rule: waitFor.induct)
  case (1 env i want until w)
  obtain w1 q where p: "poll env i w = (w1, q)" by fastforce
  obtain w2 q2 where d: "delay env 1500 w1 = (w2, q2)" by fastforce
  note e1 = poll_extends [OF p] and e2 = extends_quiet [OF poll_extends [OF p] delay_extends [OF d]]
  show ?case
  proof (cases "sw_time w < until \<and> (\<exists>b. q = Inr b \<and> \<not> want b \<and> b \<notin> Some ` set failed_states) \<and> q2 = Inr ()")
    case True
    then obtain b where b: "q = Inr b" "\<not> want b" "b \<notin> Some ` set failed_states" by blast
    then have "waitFor env i want until w2 = (w', r)" using "1.prems" p d True by (subst (asm) waitFor.simps) auto
    from "1.IH" [OF _ p [symmetric] b d [symmetric] _ this] show ?thesis using True extends_quiet [OF e2] by blast
  next
    case False
    then show ?thesis using "1.prems" p d e1 e2 by (subst (asm) waitFor.simps) (auto split: sum.splits if_splits)
  qed
qed

lemma bid_wait_extends: "bid_wait env i until w = (w', r) \<Longrightarrow> extends w w' []"
proof (induction env i until w rule: bid_wait.induct)
  case (1 env i until w)
  obtain w1 q where p: "ask_bids env i w = (w1, q)" by fastforce
  obtain w2 q2 where d: "delay env 1500 w1 = (w2, q2)" by fastforce
  note e1 = ask_bids_extends [OF p] and e2 = extends_quiet [OF ask_bids_extends [OF p] delay_extends [OF d]]
  show ?case
  proof (cases "sw_time w < until \<and> (\<exists>b. q = Inr b \<and> first_bid b = None) \<and> q2 = Inr ()")
    case True
    then obtain b where b: "q = Inr b" "first_bid b = None" by blast
    then have "bid_wait env i until w2 = (w', r)" using "1.prems" p d True by (subst (asm) bid_wait.simps) auto
    from "1.IH" [OF _ p [symmetric] b d [symmetric] _ this] show ?thesis using True extends_quiet [OF e2] by blast
  next
    case False
    then show ?thesis using "1.prems" p d e1 e2
      by (subst (asm) bid_wait.simps) (auto split: sum.splits if_splits option.splits)
  qed
qed

lemma ask_bids_served: "ask_bids env i w = (w', Inr reply) \<Longrightarrow> served env (Bids i) reply"
  by (auto simp: ask_bids_def bindP_def split: prod.splits sum.splits dest!: abort_extends call_extends)

lemma bid_wait_first: "bid_wait env i until w = (w', Inr (Some b)) \<Longrightarrow> \<exists>reply. served env (Bids i) reply \<and> first_bid reply = Some b"
proof (induction env i until w rule: bid_wait.induct)
  case (1 env i until w)
  obtain w1 q where p: "ask_bids env i w = (w1, q)" by fastforce
  obtain w2 q2 where d: "delay env 1500 w1 = (w2, q2)" by fastforce
  show ?case
  proof (cases "sw_time w < until \<and> (\<exists>b. q = Inr b \<and> first_bid b = None) \<and> q2 = Inr ()")
    case True
    then obtain r where r: "q = Inr r" "first_bid r = None" by blast
    then have "bid_wait env i until w2 = (w', Inr (Some b))" using "1.prems" p d True by (subst (asm) bid_wait.simps) auto
    from "1.IH" [OF _ p [symmetric] r d [symmetric] _ this] show ?thesis using True by blast
  next
    case False
    then have "\<exists>r. q = Inr r \<and> first_bid r = Some b" using "1.prems" p d
      by (subst (asm) bid_wait.simps) (auto split: sum.splits if_splits option.splits)
    then show ?thesis using p ask_bids_served by blast
  qed
qed

lemma sign_extends:
  assumes "sign env a tx w = (w', r)"
  shows "(extends w w' [] \<and> (\<exists>e. r = Inl e)) \<or> extends w w' [(a, tx)]"
  using assms by (auto simp: sign_def bindP_def requireP_def guard_def throwP_def extends_def split: option.splits if_splits)

text \<open>
  Signing triples: \<open>signing m Q\<close> says that however \<open>m\<close> ends, the transactions it had signed and its result
  satisfy \<open>Q\<close>. The bind rule passes on what the first part signed.
\<close>

definition signing :: "(sdk_world, 'a) proc \<Rightarrow> ((string \<times> json) list \<Rightarrow> 'a outcome \<Rightarrow> bool) \<Rightarrow> bool" where
  "signing m Q \<longleftrightarrow> (\<forall>w w' r. m w = (w', r) \<longrightarrow> (\<exists>txs. extends w w' txs \<and> Q txs r))"

lemma signingD: "signing m Q \<Longrightarrow> m w = (w', r) \<Longrightarrow> \<exists>txs. extends w w' txs \<and> Q txs r"
  unfolding signing_def by blast

lemma signing_bind:
  assumes "signing m P" "\<And>txs e. P txs (Inl e) \<Longrightarrow> Q txs (Inl e)" "\<And>txs x. P txs (Inr x) \<Longrightarrow> signing (f x) (\<lambda>more. Q (txs @ more))"
  shows "signing (bindP m f) Q"
  unfolding signing_def
proof (intro allI impI)
  fix w w' r
  assume b: "bindP m f w = (w', r)"
  obtain w1 q where m: "m w = (w1, q)" by fastforce
  with assms(1) obtain txs where t: "extends w w1 txs" "P txs q" unfolding signing_def by blast
  show "\<exists>txs. extends w w' txs \<and> Q txs r"
  proof (cases q)
    case (Inl e)
    then have "w' = w1" "r = Inl e" using b m by (auto simp: bindP_def)
    then show ?thesis using t assms(2) Inl by blast
  next
    case (Inr x)
    then have "f x w1 = (w', r)" using b m by (simp add: bindP_def)
    then obtain more where "extends w1 w' more" "Q (txs @ more) r" using assms(3) t(2) Inr unfolding signing_def by blast
    then show ?thesis using extends_trans [OF t(1)] by blast
  qed
qed

lemma signing_call:
  "(\<And>e. Q [] (Inl e)) \<Longrightarrow> (\<And>j. served env c j \<Longrightarrow> signing (f j) Q) \<Longrightarrow> signing (bindP (call_api env c) f) Q"
  by (rule signing_bind [of _ "\<lambda>txs r. txs = [] \<and> (\<forall>j. r = Inr j \<longrightarrow> served env c j)"])
    (use call_extends in \<open>auto simp: signing_def\<close>)

lemma signing_sign:
  "(\<And>e. Q [] (Inl e)) \<Longrightarrow> (\<And>e. Q [(a, tx)] (Inl e)) \<Longrightarrow> (\<And>s. signing (f s) (\<lambda>more. Q ((a, tx) # more)))
   \<Longrightarrow> signing (bindP (sign env a tx) f) Q"
  by (rule signing_bind [of _ "\<lambda>txs r. (txs = [] \<and> (\<exists>e. r = Inl e)) \<or> txs = [(a, tx)]"])
    (use sign_extends [of env a tx] in \<open>fastforce simp: signing_def\<close>)+

lemma signing_require: "(\<And>e. Q [] (Inl e)) \<Longrightarrow> (c \<Longrightarrow> signing (f ()) Q) \<Longrightarrow> signing (bindP (requireP c e) f) Q"
  by (rule signing_bind [of _ "\<lambda>txs r. txs = [] \<and> (\<forall>x. r = Inr x \<longrightarrow> c)"])
    (auto simp: signing_def requireP_def guard_def split: if_splits)

lemma signing_quiet:
  "(\<And>w w' r. m w = (w', r) \<Longrightarrow> extends w w' []) \<Longrightarrow> (\<And>e. Q [] (Inl e)) \<Longrightarrow> (\<And>x. signing (f x) Q) \<Longrightarrow> signing (bindP m f) Q"
  by (rule signing_bind [of _ "\<lambda>txs r. txs = []"]) (auto simp: signing_def)

lemma signing_simple: "Q [] (Inl e) \<Longrightarrow> signing (throwP e) Q" "R [] (Inr x) \<Longrightarrow> signing (retP x) R"
  by (auto simp: signing_def throwP_def retP_def intro: exI [of _ "[]"])

lemma signing_mono: "signing m P \<Longrightarrow> (\<And>txs r. P txs r \<Longrightarrow> Q txs r) \<Longrightarrow> signing m Q"
  unfolding signing_def by blast

lemma signing_within:
  "(\<And>e. Q [] (Inl e)) \<Longrightarrow> (\<And>x. signing (f x) Q) \<Longrightarrow> signing (bindP (wait_within env i want ms) f) Q"
  by (rule signing_quiet) (auto simp: wait_within_def dest: waitFor_extends)

lemma signing_bids:
  assumes "\<And>e. Q [] (Inl e)" "\<And>x. (\<And>b. x = Some b \<Longrightarrow> \<exists>reply. served env (Bids i) reply \<and> first_bid reply = Some b) \<Longrightarrow> signing (f x) Q"
  shows "signing (bindP (\<lambda>w. bid_wait env i (u w) w) f) Q"
proof (rule signing_bind [of _ "\<lambda>txs r. txs = [] \<and> (\<forall>b. r = Inr (Some b) \<longrightarrow> (\<exists>reply. served env (Bids i) reply \<and> first_bid reply = Some b))"])
  show "signing (\<lambda>w. bid_wait env i (u w) w) (\<lambda>txs r. txs = [] \<and> (\<forall>b. r = Inr (Some b) \<longrightarrow> (\<exists>reply. served env (Bids i) reply \<and> first_bid reply = Some b)))"
    by (auto simp: signing_def dest: bid_wait_extends bid_wait_first)
qed (use assms in auto)

lemmas signing_rules = signing_call signing_require signing_sign signing_within signing_bids

lemma take_bid_signing:
  "signing (take_bid env i bid) (\<lambda>txs r. (txs = [] \<and> (\<forall>x. r \<noteq> Inr x))
     \<or> (\<exists>b acceptance. bid = Some b \<and> served env (AcceptBid i (template_text (json_get ''id'' (Some b)))) acceptance \<and> txs = [(''accept-bid'', acceptance)]))"
proof (cases bid)
  case None
  then show ?thesis by (auto simp: take_bid_def intro: signing_simple)
next
  case (Some b)
  then show ?thesis unfolding take_bid_def
    by (auto intro!: signing_rules signing_simple)
qed

section \<open>A client against a small market\<close>

abbreviation status_request :: "string \<Rightarrow> sdk_effect" where
  "status_request i \<equiv> Requested ''GET'' (''/v1/jobs/'' @ i) None"

text \<open>An API that quotes, prepares, reports the job open and, after its third answer, assigned.\<close>

definition market_reply :: "nat \<Rightarrow> json" where
  "market_reply n = JObj [(''quotes'', JArr [JStr ''q'']), (''jobId'', JStr ''job-1''), (''requiresWalletSignature'', JBool True), (''transaction'', JStr ''AQAB''),
     (''job'', JObj [(''state'', JStr (if n < 5 then ''OPEN'' else ''ASSIGNED''))]), (''bids'', JArr [JObj [(''id'', JStr ''bid-1'')]])]"

definition sample_client :: sdk_env where
  "sample_client = \<lparr>se_apiUrl = ''http://localhost:4000'', se_accessToken = Inr ''t'', se_walletProof = Inr ''p'',
     se_signer = Some (\<lambda>_ _ _. Inr ''sig''), se_reply = (\<lambda>w _ _ _. Inr (True, 200, market_reply (length (sw_log w)))),
     se_latency = (\<lambda>_. 10), se_abortAt = None\<rparr>"

definition fresh_client :: sdk_world where
  "fresh_client = \<lparr>sw_time = 0, sw_log = []\<rparr>"

lemma market_reply_fields:
  "json_get ''quotes'' (Some (market_reply n)) = Some (JArr [JStr ''q''])" "json_get ''jobId'' (Some (market_reply n)) = Some (JStr ''job-1'')"
  "json_get ''requiresWalletSignature'' (Some (market_reply n)) = Some (JBool True)" "json_get ''transaction'' (Some (market_reply n)) = Some (JStr ''AQAB'')"
  "first_bid (market_reply n) = Some (JObj [(''id'', JStr ''bid-1'')])"
  "job_state_reply (market_reply n) = Inr (Some (if n < 5 then ''OPEN'' else ''ASSIGNED''))"
  by (simp_all add: market_reply_def json_get_def first_bid_def json_first_def truthy_def job_state_reply_def json_str_def)

lemma sample_call:
  "call_api sample_client c w = (w\<lparr>sw_time := sw_time w + 10, sw_log := sw_log w @ [Requested (if snd (route c) = None then ''GET'' else ''POST'') (fst (route c)) (snd (route c))]\<rparr>,
     Inr (market_reply (length (sw_log w))))"
  by (simp add: call_api_def sdk_request_def sample_client_def bindP_def liftP_def Let_def)

lemma sample_sign: "sign sample_client a (market_reply n) w = (w\<lparr>sw_log := sw_log w @ [SignedTx a (market_reply n)]\<rparr>, Inr ''sig'')"
  by (simp add: sign_def sample_client_def market_reply_fields truthy_def bindP_def requireP_def guard_def)

lemma sample_clock: "throwIfAborted sample_client w = (w, Inr ())" "delay sample_client ms w = (w\<lparr>sw_time := sw_time w + ms\<rparr>, Inr ())"
  by (simp_all add: throwIfAborted_def delay_def sample_client_def guard_def)

lemma sample_poll:
  "poll sample_client i w = (w\<lparr>sw_time := sw_time w + 10, sw_log := sw_log w @ [status_request i]\<rparr>, Inr (Some (if length (sw_log w) < 5 then ''OPEN'' else ''ASSIGNED'')))"
  by (simp add: poll_def sample_clock sample_call market_reply_fields bindP_def liftP_def)

lemma sample_sdk_run: "snd (sdk_run sample_client sample_spec ''5000'' None None fresh_client) = Inr ''job-1''"
  by (simp add: sdk_run_def take_bid_def bindP_def Let_def sample_call sample_sign market_reply_fields has_quotes_def requireP_def guard_def
      wait_within_def template_text_def fresh_client_def waitFor.simps sample_poll bid_wait.simps ask_bids_def sample_clock
      assigned_states_def retP_def)

lemma run_signing:
  "signing (sdk_run env spec m region t) (\<lambda>txs r. (\<forall>i. r = Inr i \<longrightarrow> length txs = 2)
     \<and> (txs = [] \<or> (\<exists>quote created. served env (Quote spec m region) quote \<and> has_quotes quote \<and> served env (CreateJob spec m) created
         \<and> (txs = [(''create-and-fund'', created)]
            \<or> (\<exists>reply bid acceptance. served env (Bids (template_text (json_get ''jobId'' (Some created)))) reply \<and> first_bid reply = Some bid
                 \<and> served env (AcceptBid (template_text (json_get ''jobId'' (Some created))) (template_text (json_get ''id'' (Some bid)))) acceptance
                 \<and> txs = [(''create-and-fund'', created), (''accept-bid'', acceptance)])))))"
  (is "signing _ ?Q")
  unfolding sdk_run_def Let_def
proof (intro signing_rules)
  fix quote created s x bid
  assume s: "served env (Quote spec m region) quote" "has_quotes quote" "served env (CreateJob spec m) created"
    and b: "\<And>b. bid = Some b \<Longrightarrow> \<exists>reply. served env (Bids (template_text (json_get ''jobId'' (Some created)))) reply \<and> first_bid reply = Some b"
  show "signing (take_bid env (template_text (json_get ''jobId'' (Some created))) bid) (\<lambda>more. ?Q ((''create-and-fund'', created) # more))"
  proof (rule signing_mono [OF take_bid_signing])
    fix more and r :: "string outcome"
    assume "(more = [] \<and> (\<forall>x. r \<noteq> Inr x)) \<or> (\<exists>b acceptance. bid = Some b
        \<and> served env (AcceptBid (template_text (json_get ''jobId'' (Some created))) (template_text (json_get ''id'' (Some b)))) acceptance \<and> more = [(''accept-bid'', acceptance)])"
    then show "?Q ((''create-and-fund'', created) # more) r" using s b by fastforce
  qed
qed auto

text \<open>
  C31. A run signs what the API returned, in order: the wallet is asked at most twice, first for the
  transaction with which the API answered the job's creation and, only after that, for the one with which
  it answered the acceptance of the first bid it had listed; nothing is signed when no supply was quoted, and a run that returns
  signed both.
\<close>

theorem run_signs_in_order:
  assumes "sdk_run env spec m region t w = (w', r)"
  shows "\<exists>txs. extends w w' txs \<and> (\<forall>i. r = Inr i \<longrightarrow> length txs = 2)
     \<and> (txs = [] \<or> (\<exists>quote created. served env (Quote spec m region) quote \<and> has_quotes quote \<and> served env (CreateJob spec m) created
         \<and> (txs = [(''create-and-fund'', created)]
            \<or> (\<exists>reply bid acceptance. served env (Bids (template_text (json_get ''jobId'' (Some created)))) reply \<and> first_bid reply = Some bid
                 \<and> served env (AcceptBid (template_text (json_get ''jobId'' (Some created))) (template_text (json_get ''id'' (Some bid)))) acceptance
                 \<and> txs = [(''create-and-fund'', created), (''accept-bid'', acceptance)]))))"
  by (rule signingD [OF run_signing assms])

theorem run_signs_in_order_witness:
  "snd (sdk_run sample_client sample_spec ''5000'' None None fresh_client) = Inr ''job-1''
   \<and> (\<exists>txs. extends fresh_client (fst (sdk_run sample_client sample_spec ''5000'' None None fresh_client)) txs \<and> length txs = 2)"
  using run_signs_in_order [of sample_client sample_spec "''5000''" None None fresh_client, OF prod.collapse [symmetric]] sample_sdk_run by auto

section \<open>Waiting is bounded\<close>

lemma poll_request:
  assumes "poll env i w = (w', r)"
  obtains n where "sw_log w' = sw_log w @ replicate n (status_request i)" "n \<le> 1"
    "\<forall>st. r = Inr st \<longrightarrow> (\<exists>j. served env (Status i) j \<and> job_state_reply j = Inr st)"
proof (cases "throwIfAborted env w")
  case (Pair w0 q)
  then have w0: "w0 = w" by (rule abort_extends)
  obtain w1 r1 where c: "call_api env (Status i) w = (w1, r1)" by fastforce
  from c obtain new where new: "sw_log w1 = sw_log w @ new" "length new \<le> 1" "set new \<subseteq> {status_request i}"
    by (auto simp: call_api_def dest!: sdk_request_world)
  then have rep: "new = replicate (length new) (status_request i)" by (cases new) auto
  show thesis
  proof (cases q)
    case (Inl e)
    then show thesis using assms Pair w0 that [of 0] by (auto simp: poll_def bindP_def)
  next
    case (Inr u)
    then have "w' = w1" "r = andThen r1 job_state_reply" using assms Pair w0 c
      by (auto simp: poll_def bindP_def liftP_def split: sum.splits)
    moreover have "\<exists>j. served env (Status i) j \<and> job_state_reply j = Inr st" if "andThen r1 job_state_reply = Inr st" for st
      using that conjunct2 [OF call_extends [OF c]] by (cases r1) auto
    ultimately show thesis using that [of "length new"] new rep by simp
  qed
qed

lemma wait_loop_bounded:
  "wait_loop env i until w = (w', r) \<Longrightarrow> \<exists>n. sw_log w' = sw_log w @ replicate n (status_request i)
     \<and> (n = 0 \<or> (int n - 1) * 2000 < until - sw_time w)
     \<and> (\<forall>st. r = Inr st \<longrightarrow> st \<in> set (''COMPLETED'' # failed_states) \<and> (\<exists>j. served env (Status i) j \<and> job_state_reply j = Inr (Some st)))"
proof (induction env i until w rule: wait_loop.induct)
  case (1 env i until w)
  obtain w1 q where p: "poll env i w = (w1, q)" by fastforce
  then obtain n1 where n1: "sw_log w1 = sw_log w @ replicate n1 (status_request i)" "n1 \<le> 1"
    "\<forall>st. q = Inr st \<longrightarrow> (\<exists>j. served env (Status i) j \<and> job_state_reply j = Inr st)" by (rule poll_request)
  obtain w2 q2 where d: "delay env 2000 w1 = (w2, q2)" by fastforce
  then have l2: "sw_log w2 = sw_log w1" by (auto simp: delay_def split: option.splits if_splits)
  show ?case
  proof (cases "sw_time w < until \<and> (\<exists>b. q = Inr b \<and> b \<notin> Some ` set (''COMPLETED'' # failed_states)) \<and> q2 = Inr ()")
    case True
    then obtain b where b: "q = Inr b" "b \<notin> Some ` set (''COMPLETED'' # failed_states)" by blast
    have t: "sw_time w2 \<ge> sw_time w + 2000" using poll_time [OF p] delay_time [of env 2000 w1 w2] d True by simp
    have "wait_loop env i until w2 = (w', r)" using "1.prems" p d True b by (subst (asm) wait_loop.simps) auto
    from "1.IH" [OF _ p [symmetric] b d [symmetric] _ this] True obtain n where
      n: "sw_log w' = sw_log w2 @ replicate n (status_request i)" "n = 0 \<or> (int n - 1) * 2000 < until - sw_time w2"
        "\<forall>st. r = Inr st \<longrightarrow> st \<in> set (''COMPLETED'' # failed_states) \<and> (\<exists>j. served env (Status i) j \<and> job_state_reply j = Inr (Some st))"
      by blast
    have "sw_log w' = sw_log w @ replicate (n1 + n) (status_request i)" using n(1) l2 n1(1) by (simp add: replicate_add)
    moreover have "n1 + n = 0 \<or> (int (n1 + n) - 1) * 2000 < until - sw_time w" using n(2) n1(2) t True by (cases "n = 0") auto
    ultimately show ?thesis using n(3) by blast
  next
    case False
    show ?thesis
    proof (cases "sw_time w < until")
      case True
      then have "sw_log w' = sw_log w @ replicate n1 (status_request i)" using False "1.prems" p d n1(1) l2
        by (subst (asm) wait_loop.simps) (auto split: sum.splits if_splits)
      moreover have "st \<in> set (''COMPLETED'' # failed_states) \<and> q = Inr (Some st)" if "r = Inr st" for st
        using True False that "1.prems" p d by (subst (asm) wait_loop.simps) (auto split: sum.splits if_splits)
      ultimately show ?thesis using n1(2,3) True by (intro exI [of _ n1]) auto
    next
      case late: False
      then show ?thesis using "1.prems" by (subst (asm) wait_loop.simps) auto
    qed
  qed
qed

text \<open>
  C35. \<^verbatim>\<open>wait\<close> is bounded whatever the API answers: it sends only status requests for the job, the
  \<open>n\<close>-th of them requires more than \<open>2000 * (n - 1)\<close> milliseconds of the timeout, and the state it returns
  is terminal and was reported by the API.
\<close>

theorem wait_bounded:
  assumes "sdk_wait env i timeoutMs w = (w', r)"
  shows "\<exists>n. sw_log w' = sw_log w @ replicate n (Requested ''GET'' (''/v1/jobs/'' @ i) None)
     \<and> (n = 0 \<or> (int n - 1) * 2000 < (case timeoutMs of Some t \<Rightarrow> t | None \<Rightarrow> 3600000))
     \<and> (\<forall>st. r = Inr st \<longrightarrow> st \<in> set (''COMPLETED'' # failed_states) \<and> (\<exists>j. served env (Status i) j \<and> job_state_reply j = Inr (Some st)))"
  using wait_loop_bounded [OF assms [unfolded sdk_wait_def]] by simp

text \<open>The sample job never ends: the wait asks three times in five seconds and gives up.\<close>

theorem wait_bounded_witness:
  "snd (sdk_wait sample_client ''job-1'' (Some 5000) fresh_client) = Inl ''Timed out waiting for job''
   \<and> (\<exists>n. n \<le> 3 \<and> sw_log (fst (sdk_wait sample_client ''job-1'' (Some 5000) fresh_client)) = replicate n (status_request ''job-1''))"
proof -
  have "snd (sdk_wait sample_client ''job-1'' (Some 5000) fresh_client) = Inl ''Timed out waiting for job''"
    by (simp add: sdk_wait_def fresh_client_def wait_loop.simps sample_poll sample_clock failed_states_def)
  then show ?thesis
    using wait_bounded [of sample_client "''job-1''" "Some 5000" fresh_client, OF prod.collapse [symmetric]]
    by (fastforce simp: fresh_client_def)
qed

section \<open>The gateway\<close>

text \<open>The tools that ask the API for a quote or a transaction; the others only read.\<close>

definition prepares :: "mcp_tool \<Rightarrow> bool" where
  "prepares t = (case t of ComputeQuote _ _ \<Rightarrow> True | ComputeCreateIntent _ _ \<Rightarrow> True | ComputeRun _ _ \<Rightarrow> True
     | ComputeAgentCreateJob _ _ _ _ \<Rightarrow> True | ComputeAgentAcceptBid _ _ _ _ \<Rightarrow> True | ComputeAgentCancel _ _ _ \<Rightarrow> True
     | ComputeCancel _ \<Rightarrow> True | _ \<Rightarrow> False)"

definition reads :: "sdk_effect \<Rightarrow> bool" where
  "reads e = (case e of Requested verb _ body \<Rightarrow> verb = ''GET'' \<and> body = None | SignedTx _ _ \<Rightarrow> False)"

definition unsigned_request :: "sdk_effect \<Rightarrow> bool" where
  "unsigned_request e = (case e of Requested _ _ _ \<Rightarrow> True | SignedTx _ _ \<Rightarrow> False)"

lemma call_adds: "(snd (route c) = None \<Longrightarrow> P (Requested ''GET'' (fst (route c)) None)) \<Longrightarrow> (\<And>b. snd (route c) = Some b \<Longrightarrow> P (Requested ''POST'' (fst (route c)) (Some b)))
    \<Longrightarrow> adds_only sw_log (\<lambda>_. ()) P (call_api env c)"
  by (cases "snd (route c)")
    (auto simp: adds_only_def call_api_def sdk_request_def bindP_def liftP_def Let_def split: sum.splits prod.splits if_splits)

lemma verify_adds: "adds_only sw_log (\<lambda>_. ()) reads (sdk_verify env i)"
proof -
  have a: "adds_only sw_log (\<lambda>_. ()) reads (call_api env c)" if "snd (route c) = None" for c
    by (rule call_adds) (use that in \<open>auto simp: reads_def\<close>)
  have "adds_only sw_log (\<lambda>_. ()) reads (bindP (\<lambda>w. case call_api env (Receipt i) w of (w', r) \<Rightarrow> (w', Inr r))
      (\<lambda>r1. bindP (\<lambda>w. case call_api env (Verifications i) w of (w', r) \<Rightarrow> (w', Inr r)) (\<lambda>r2. liftP (andThen r1 (\<lambda>a. andThen r2 (\<lambda>b. Inr (a, b)))))))"
    using a [of "Receipt i"] a [of "Verifications i"]
    by (intro only_bind only_simple) (auto simp: adds_only_def split: prod.splits)
  moreover have "sdk_verify env i = (bindP (\<lambda>w. case call_api env (Receipt i) w of (w', r) \<Rightarrow> (w', Inr r))
      (\<lambda>r1. bindP (\<lambda>w. case call_api env (Verifications i) w of (w', r) \<Rightarrow> (w', Inr r)) (\<lambda>r2. liftP (andThen r1 (\<lambda>a. andThen r2 (\<lambda>b. Inr (a, b)))))))"
    by (intro ext) (simp add: sdk_verify_def bindP_def liftP_def split: prod.splits)
  ultimately show ?thesis by simp
qed

lemma run_tool_adds:
  assumes "\<And>e. reads e \<Longrightarrow> P e" "prepares t \<Longrightarrow> (\<And>p b. P (Requested ''POST'' p (Some b)))"
  shows "adds_only sw_log (\<lambda>_. ()) P (run_tool env t)"
proof -
  have c: "adds_only sw_log (\<lambda>_. ()) P (call_api client (tool_call t))" for client
    by (rule call_adds) (use assms in \<open>cases t; auto simp: prepares_def reads_def\<close>)+
  show ?thesis unfolding run_tool_def Let_def
    using c [of "gateway_client env"] by (cases t) (auto intro!: only_intros only_mono [OF verify_adds assms(1)])
qed

text \<open>
  The gateway never spends: whatever tool an agent calls, no transaction reaches a wallet, the tools
  that neither quote nor prepare a transaction only read, and a call with invalid arguments sends nothing.
\<close>

theorem gateway_never_signs:
  assumes "run_tool env t w = (w', r)"
  shows "\<exists>new. sw_log w' = sw_log w @ new \<and> list_all unsigned_request new
     \<and> (\<not> prepares t \<longrightarrow> list_all reads new) \<and> (\<not> tool_input_ok t \<longrightarrow> new = [])"
proof -
  obtain new where new: "sw_log w' = sw_log w @ new" "list_all unsigned_request new"
    by (rule onlyE [OF run_tool_adds assms, of unsigned_request]) (auto simp: unsigned_request_def reads_def split: sdk_effect.splits)
  have "list_all reads new" if "\<not> prepares t"
    by (rule onlyE [OF run_tool_adds assms, of reads]) (use that new in auto)
  moreover have "new = []" if "\<not> tool_input_ok t"
    using assms new that by (simp add: run_tool_def bindP_def requireP_def guard_def Let_def)
  ultimately show ?thesis using new by blast
qed

theorem gateway_never_signs_witness:
  "sw_log (fst (run_tool sample_client (ComputeRun sample_spec ''5000'') fresh_client)) \<noteq> []
   \<and> list_all unsigned_request (sw_log (fst (run_tool sample_client (ComputeRun sample_spec ''5000'') fresh_client)))"
proof -
  have "tool_input_ok (ComputeRun sample_spec ''5000'')" using sample_spec_valid by (simp add: tool_input_ok_def)
  then have "sw_log (fst (run_tool sample_client (ComputeRun sample_spec ''5000'') fresh_client)) \<noteq> []"
    by (simp add: run_tool_def gateway_client_def bindP_def requireP_def guard_def Let_def call_api_def sdk_request_def liftP_def retP_def sample_client_def fresh_client_def)
  then show ?thesis
    using gateway_never_signs [of sample_client "ComputeRun sample_spec ''5000''" fresh_client, OF prod.collapse [symmetric]]
    by (auto simp: fresh_client_def)
qed

end
