(* ===== verification/Routes.thy ===== *)
theory Routes
  imports Sdk
begin

text \<open>
  The interface between the client library and the API: the routes \<^verbatim>\<open>apps/api/src/server.ts\<close> registers
  and the requests \<^verbatim>\<open>packages/sdk/index.ts\<close> sends. A parameter of a route pattern (\<^verbatim>\<open>:id\<close>) stands for one
  nonempty segment of the path, and the query is not part of the path.
\<close>

definition api_routes :: "(string \<times> string) list" where
  "api_routes = [
     (''GET'', ''/metrics''), (''GET'', ''/health''), (''GET'', ''/v1/release/readiness''), (''GET'', ''/ready''),
     (''GET'', ''/v1/offers''), (''GET'', ''/v1/markets''), (''GET'', ''/v1/providers''), (''GET'', ''/v1/providers/:id''),
     (''GET'', ''/v1/machines/:id''), (''GET'', ''/v1/network/stats''), (''GET'', ''/v1/prices''), (''POST'', ''/v1/quotes''),
     (''GET'', ''/v1/specs''), (''POST'', ''/v1/specs''), (''GET'', ''/v1/agent-policies''), (''POST'', ''/v1/agent-policies''),
     (''POST'', ''/v1/agent-policies/:agent/update''), (''POST'', ''/v1/agent-policies/:agent/revoke''),
     (''POST'', ''/v1/agent/jobs''), (''POST'', ''/v1/agent/jobs/:id/accept-bid''), (''POST'', ''/v1/agent/jobs/:id/cancel''),
     (''GET'', ''/v1/jobs''), (''POST'', ''/v1/jobs''), (''POST'', ''/v1/jobs/redundant''), (''GET'', ''/v1/redundant-jobs/:id''),
     (''GET'', ''/v1/jobs/:id''), (''POST'', ''/v1/jobs/:id/cancel''), (''GET'', ''/v1/jobs/:id/bids''), (''POST'', ''/v1/jobs/:id/accept-bid''),
     (''POST'', ''/v1/jobs/:id/settle''), (''POST'', ''/v1/jobs/:id/refund''), (''POST'', ''/v1/jobs/:id/expire''),
     (''GET'', ''/v1/jobs/:id/receipt''), (''GET'', ''/v1/jobs/:id/verifications''), (''GET'', ''/v1/jobs/:id/result''), (''GET'', ''/v1/jobs/:id/logs''),
     (''POST'', ''/v1/provider/benchmark''), (''GET'', ''/v1/jobs/:id/events''), (''GET'', ''/v1/provider/intents''),
     (''POST'', ''/v1/provider/job-spec''), (''POST'', ''/v1/provider/heartbeat''), (''POST'', ''/v1/provider/jobs/:id/challenge''),
     (''POST'', ''/v1/provider/jobs/:id/challenge-response''), (''POST'', ''/v1/provider/jobs/:id/result'')]"

fun segment_fits :: "string \<Rightarrow> string \<Rightarrow> bool" where
  "segment_fits (c # p) s \<longleftrightarrow> (if c = CHR '':'' then s \<noteq> [] else c # p = s)"
| "segment_fits [] s \<longleftrightarrow> s = []"

definition pattern_fits :: "string \<Rightarrow> string \<Rightarrow> bool" where
  "pattern_fits p path \<longleftrightarrow> list_all2 segment_fits (split_on CHR ''/'' p) (split_on CHR ''/'' (takeWhile (\<lambda>c. c \<noteq> CHR ''?'') path))"

definition sdk_verb :: "sdk_call \<Rightarrow> string" where
  "sdk_verb c = (if snd (route c) = None then ''GET'' else ''POST'')"

text \<open>The route every method is meant for, and the identifiers it puts into the path.\<close>

fun route_pattern :: "sdk_call \<Rightarrow> string" where
  "route_pattern (FindCompute _ _) = ''/v1/offers''"
| "route_pattern (Quote _ _ _) = ''/v1/quotes''"
| "route_pattern (CreateJob _ _) = ''/v1/jobs''"
| "route_pattern (CreateRedundantJob _ _ _ _) = ''/v1/jobs/redundant''"
| "route_pattern (RedundantJob _) = ''/v1/redundant-jobs/:id''"
| "route_pattern AgentPolicies = ''/v1/agent-policies''"
| "route_pattern (CreateAgentPolicy _) = ''/v1/agent-policies''"
| "route_pattern (UpdateAgentPolicy _) = ''/v1/agent-policies/:agent/update''"
| "route_pattern (RevokeAgentPolicy _) = ''/v1/agent-policies/:agent/revoke''"
| "route_pattern (CreateAgentJob _ _ _ _) = ''/v1/agent/jobs''"
| "route_pattern (AcceptAgentBid _ _ _ _) = ''/v1/agent/jobs/:id/accept-bid''"
| "route_pattern (CancelAgentJob _ _ _) = ''/v1/agent/jobs/:id/cancel''"
| "route_pattern (AcceptBid _ _) = ''/v1/jobs/:id/accept-bid''"
| "route_pattern (SettleJob _) = ''/v1/jobs/:id/settle''"
| "route_pattern (RefundJob _) = ''/v1/jobs/:id/refund''"
| "route_pattern (ExpireJob _) = ''/v1/jobs/:id/expire''"
| "route_pattern (Bids _) = ''/v1/jobs/:id/bids''"
| "route_pattern (CancelJob _) = ''/v1/jobs/:id/cancel''"
| "route_pattern (Status _) = ''/v1/jobs/:id''"
| "route_pattern (Logs _) = ''/v1/jobs/:id/logs''"
| "route_pattern (Result _) = ''/v1/jobs/:id/result''"
| "route_pattern (Receipt _) = ''/v1/jobs/:id/receipt''"
| "route_pattern (Verifications _) = ''/v1/jobs/:id/verifications''"
| "route_pattern Prices = ''/v1/prices''"

fun path_id :: "sdk_call \<Rightarrow> string option" where
  "path_id (RedundantJob i) = Some i"
| "path_id (UpdateAgentPolicy p) = Some (pn_agent p)"
| "path_id (RevokeAgentPolicy a) = Some a"
| "path_id (AcceptAgentBid i _ _ _) = Some i"
| "path_id (CancelAgentJob i _ _) = Some i"
| "path_id (AcceptBid i _) = Some i"
| "path_id (SettleJob i) = Some i"
| "path_id (RefundJob i) = Some i"
| "path_id (ExpireJob i) = Some i"
| "path_id (Bids i) = Some i"
| "path_id (CancelJob i) = Some i"
| "path_id (Status i) = Some i"
| "path_id (Logs i) = Some i"
| "path_id (Result i) = Some i"
| "path_id (Receipt i) = Some i"
| "path_id (Verifications i) = Some i"
| "path_id _ = None"

text \<open>Addresses and identifiers of groups are words of letters, digits and hyphens.\<close>

definition word_char :: "char \<Rightarrow> bool" where
  "word_char c \<longleftrightarrow> c = CHR ''-'' \<or> is_digit c \<or> ascii c \<in> {65..90} \<or> ascii c \<in> {97..122}"

definition plain_id :: "string \<Rightarrow> bool" where
  "plain_id i \<longleftrightarrow> i \<noteq> [] \<and> list_all word_char i"

lemma word_char_special: "\<not> word_char CHR ''/''" "\<not> word_char CHR ''?''"
  by (simp_all add: word_char_def is_digit_def)

lemma plain_id_chars: "plain_id i \<Longrightarrow> i \<noteq> [] \<and> CHR ''/'' \<notin> set i \<and> CHR ''?'' \<notin> set i"
  using word_char_special by (auto simp: plain_id_def list_all_iff)

lemma takeWhile_query: "CHR ''?'' \<notin> set i \<Longrightarrow> takeWhile (\<lambda>c. c \<noteq> CHR ''?'') (i @ s) = i @ takeWhile (\<lambda>c. c \<noteq> CHR ''?'') s"
  by (induction i) auto

lemma takeWhile_all: "CHR ''?'' \<notin> set i \<Longrightarrow> takeWhile (\<lambda>c. c \<noteq> CHR ''?'') i = i"
  using takeWhile_query [of i "[]"] by simp

lemma query_dropped: "takeWhile (\<lambda>c. c \<noteq> CHR ''?'') (query_string n c) = []"
  by (simp add: query_string_def Let_def)

lemmas path_simps = pattern_fits_def takeWhile_query takeWhile_all query_dropped split_on_append split_on_absent

text \<open>The routes that fit a request; the table lists the segments of every pattern.\<close>

definition routed :: "string \<Rightarrow> string \<Rightarrow> (string \<times> string) list" where
  "routed verb path = filter (\<lambda>(v, p). v = verb \<and> pattern_fits p path) api_routes"

lemma segment_table:
  "map (\<lambda>r. (r, split_on CHR ''/'' (snd r))) api_routes = [
     ((''GET'', ''/metrics''), [[], ''metrics'']),
     ((''GET'', ''/health''), [[], ''health'']),
     ((''GET'', ''/v1/release/readiness''), [[], ''v1'', ''release'', ''readiness'']),
     ((''GET'', ''/ready''), [[], ''ready'']),
     ((''GET'', ''/v1/offers''), [[], ''v1'', ''offers'']),
     ((''GET'', ''/v1/markets''), [[], ''v1'', ''markets'']),
     ((''GET'', ''/v1/providers''), [[], ''v1'', ''providers'']),
     ((''GET'', ''/v1/providers/:id''), [[], ''v1'', ''providers'', '':id'']),
     ((''GET'', ''/v1/machines/:id''), [[], ''v1'', ''machines'', '':id'']),
     ((''GET'', ''/v1/network/stats''), [[], ''v1'', ''network'', ''stats'']),
     ((''GET'', ''/v1/prices''), [[], ''v1'', ''prices'']),
     ((''POST'', ''/v1/quotes''), [[], ''v1'', ''quotes'']),
     ((''GET'', ''/v1/specs''), [[], ''v1'', ''specs'']),
     ((''POST'', ''/v1/specs''), [[], ''v1'', ''specs'']),
     ((''GET'', ''/v1/agent-policies''), [[], ''v1'', ''agent-policies'']),
     ((''POST'', ''/v1/agent-policies''), [[], ''v1'', ''agent-policies'']),
     ((''POST'', ''/v1/agent-policies/:agent/update''), [[], ''v1'', ''agent-policies'', '':agent'', ''update'']),
     ((''POST'', ''/v1/agent-policies/:agent/revoke''), [[], ''v1'', ''agent-policies'', '':agent'', ''revoke'']),
     ((''POST'', ''/v1/agent/jobs''), [[], ''v1'', ''agent'', ''jobs'']),
     ((''POST'', ''/v1/agent/jobs/:id/accept-bid''), [[], ''v1'', ''agent'', ''jobs'', '':id'', ''accept-bid'']),
     ((''POST'', ''/v1/agent/jobs/:id/cancel''), [[], ''v1'', ''agent'', ''jobs'', '':id'', ''cancel'']),
     ((''GET'', ''/v1/jobs''), [[], ''v1'', ''jobs'']),
     ((''POST'', ''/v1/jobs''), [[], ''v1'', ''jobs'']),
     ((''POST'', ''/v1/jobs/redundant''), [[], ''v1'', ''jobs'', ''redundant'']),
     ((''GET'', ''/v1/redundant-jobs/:id''), [[], ''v1'', ''redundant-jobs'', '':id'']),
     ((''GET'', ''/v1/jobs/:id''), [[], ''v1'', ''jobs'', '':id'']),
     ((''POST'', ''/v1/jobs/:id/cancel''), [[], ''v1'', ''jobs'', '':id'', ''cancel'']),
     ((''GET'', ''/v1/jobs/:id/bids''), [[], ''v1'', ''jobs'', '':id'', ''bids'']),
     ((''POST'', ''/v1/jobs/:id/accept-bid''), [[], ''v1'', ''jobs'', '':id'', ''accept-bid'']),
     ((''POST'', ''/v1/jobs/:id/settle''), [[], ''v1'', ''jobs'', '':id'', ''settle'']),
     ((''POST'', ''/v1/jobs/:id/refund''), [[], ''v1'', ''jobs'', '':id'', ''refund'']),
     ((''POST'', ''/v1/jobs/:id/expire''), [[], ''v1'', ''jobs'', '':id'', ''expire'']),
     ((''GET'', ''/v1/jobs/:id/receipt''), [[], ''v1'', ''jobs'', '':id'', ''receipt'']),
     ((''GET'', ''/v1/jobs/:id/verifications''), [[], ''v1'', ''jobs'', '':id'', ''verifications'']),
     ((''GET'', ''/v1/jobs/:id/result''), [[], ''v1'', ''jobs'', '':id'', ''result'']),
     ((''GET'', ''/v1/jobs/:id/logs''), [[], ''v1'', ''jobs'', '':id'', ''logs'']),
     ((''POST'', ''/v1/provider/benchmark''), [[], ''v1'', ''provider'', ''benchmark'']),
     ((''GET'', ''/v1/jobs/:id/events''), [[], ''v1'', ''jobs'', '':id'', ''events'']),
     ((''GET'', ''/v1/provider/intents''), [[], ''v1'', ''provider'', ''intents'']),
     ((''POST'', ''/v1/provider/job-spec''), [[], ''v1'', ''provider'', ''job-spec'']),
     ((''POST'', ''/v1/provider/heartbeat''), [[], ''v1'', ''provider'', ''heartbeat'']),
     ((''POST'', ''/v1/provider/jobs/:id/challenge''), [[], ''v1'', ''provider'', ''jobs'', '':id'', ''challenge'']),
     ((''POST'', ''/v1/provider/jobs/:id/challenge-response''), [[], ''v1'', ''provider'', ''jobs'', '':id'', ''challenge-response'']),
     ((''POST'', ''/v1/provider/jobs/:id/result''), [[], ''v1'', ''provider'', ''jobs'', '':id'', ''result''])]"
  by (simp add: api_routes_def)

lemma routed_table:
  assumes "split_on CHR ''/'' (takeWhile (\<lambda>c. c \<noteq> CHR ''?'') path) = segs"
  shows "routed verb path = map fst (filter (\<lambda>(r, ss). fst r = verb \<and> list_all2 segment_fits ss segs) (map (\<lambda>r. (r, split_on CHR ''/'' (snd r))) api_routes))"
  by (simp add: routed_def pattern_fits_def assms filter_map comp_def) (simp add: case_prod_unfold)

definition filled :: "sdk_call \<Rightarrow> string list" where
  "filled c = map (\<lambda>s. case path_id c of Some i \<Rightarrow> if take 1 s = '':'' then i else s | None \<Rightarrow> s) (split_on CHR ''/'' (route_pattern c))"

lemma filled_simps [simp]:
  "filled (FindCompute x2_0 x2_1) = [[], ''v1'', ''offers'']"
  "filled (Quote x3_0 x3_1 x3_2) = [[], ''v1'', ''quotes'']"
  "filled (CreateJob x4_0 x4_1) = [[], ''v1'', ''jobs'']"
  "filled (CreateRedundantJob x5_0 x5_1 x5_2 x5_3) = [[], ''v1'', ''jobs'', ''redundant'']"
  "filled (RedundantJob i) = [[], ''v1'', ''redundant-jobs'', i]"
  "filled AgentPolicies = [[], ''v1'', ''agent-policies'']"
  "filled (CreateAgentPolicy x8_0) = [[], ''v1'', ''agent-policies'']"
  "filled (UpdateAgentPolicy p) = [[], ''v1'', ''agent-policies'', (pn_agent p), ''update'']"
  "filled (RevokeAgentPolicy a) = [[], ''v1'', ''agent-policies'', a, ''revoke'']"
  "filled (CreateAgentJob x11_0 x11_1 x11_2 x11_3) = [[], ''v1'', ''agent'', ''jobs'']"
  "filled (AcceptAgentBid i x12_1 x12_2 x12_3) = [[], ''v1'', ''agent'', ''jobs'', i, ''accept-bid'']"
  "filled (CancelAgentJob i x13_1 x13_2) = [[], ''v1'', ''agent'', ''jobs'', i, ''cancel'']"
  "filled (AcceptBid i x14_1) = [[], ''v1'', ''jobs'', i, ''accept-bid'']"
  "filled (SettleJob i) = [[], ''v1'', ''jobs'', i, ''settle'']"
  "filled (RefundJob i) = [[], ''v1'', ''jobs'', i, ''refund'']"
  "filled (ExpireJob i) = [[], ''v1'', ''jobs'', i, ''expire'']"
  "filled (Bids i) = [[], ''v1'', ''jobs'', i, ''bids'']"
  "filled (CancelJob i) = [[], ''v1'', ''jobs'', i, ''cancel'']"
  "filled (Status i) = [[], ''v1'', ''jobs'', i]"
  "filled (Logs i) = [[], ''v1'', ''jobs'', i, ''logs'']"
  "filled (Result i) = [[], ''v1'', ''jobs'', i, ''result'']"
  "filled (Receipt i) = [[], ''v1'', ''jobs'', i, ''receipt'']"
  "filled (Verifications i) = [[], ''v1'', ''jobs'', i, ''verifications'']"
  "filled Prices = [[], ''v1'', ''prices'']"
  by (simp_all add: filled_def)

lemma path_segments:
  assumes "\<forall>i. path_id c = Some i \<longrightarrow> plain_id i"
  shows "split_on CHR ''/'' (takeWhile (\<lambda>c. c \<noteq> CHR ''?'') (fst (route c))) = filled c"
  using assms by (cases c) (auto simp: path_simps dest!: plain_id_chars)

lemma nonempty_id:
  assumes "\<forall>i. path_id c = Some i \<longrightarrow> plain_id i"
  shows "\<forall>i. path_id c = Some i \<longrightarrow> i \<noteq> []"
  using assms plain_id_chars by blast

text \<open>
  C38. Every method of the client library is served: for identifiers that are addresses, the request it
  sends fits exactly one route of the API, with the right verb, and that is the route of the method.
\<close>

theorem sdk_routes_served:
  assumes "\<forall>i. path_id c = Some i \<longrightarrow> plain_id i"
  shows "routed (sdk_verb c) (fst (route c)) = [(sdk_verb c, route_pattern c)]"
  unfolding routed_table [OF path_segments [OF assms]] segment_table
  using nonempty_id [OF assms] by (cases c) (simp_all add: sdk_verb_def)

theorem sdk_routes_served_witness:
  "routed ''POST'' ''/v1/jobs/job-1/accept-bid'' = [(''POST'', ''/v1/jobs/:id/accept-bid'')]"
proof -
  have "plain_id ''job-1''" by (simp add: plain_id_def word_char_def is_digit_def)
  then show ?thesis using sdk_routes_served [of "AcceptBid ''job-1'' ''b''"] by (simp add: sdk_verb_def)
qed

end
