(* ===== verification/Listings.thy ===== *)
theory Listings
  imports Sdk EvidenceApi Daemon Scheduler
begin

text \<open>
  The lists the API serves from the projected tables (\<^verbatim>\<open>apps/api/src/server.ts\<close>): the bids of a job,
  the open intents, a buyer's jobs and the providers; and what the client library makes of the bids.
  Rows that a query's order does not separate keep the order of the table.
\<close>

section \<open>Rows and queries\<close>

record bid_row =
  bw_id :: string
  bw_job :: string
  bw_provider :: string
  bw_machine :: string
  bw_worker :: string
  bw_price :: int
  bw_expiresAt :: int
  bw_estimatedStart :: int
  bw_active :: bool

definition bids_query :: "bid_row list \<Rightarrow> string \<Rightarrow> bid_row list" where
  "bids_query rows jid = take 100 (sort_key bw_price (filter (\<lambda>b. bw_job b = jid \<and> bw_active b) rows))"

definition bid_row_json :: "bid_row \<Rightarrow> json" where
  "bid_row_json b = JObj [(''id'', JStr (bw_id b)), (''provider_id'', JStr (bw_provider b)), (''machine_id'', JStr (bw_machine b)), (''worker'', JStr (bw_worker b)),
     (''price'', jint (bw_price b)), (''expires_at'', jint (bw_expiresAt b)), (''estimated_start'', jint (bw_estimatedStart b))]"

definition bids_json :: "bid_row list \<Rightarrow> json" where
  "bids_json bs = JObj [(''bids'', JArr (map bid_row_json bs))]"

definition bids_handler :: "jobs_env \<Rightarrow> http_headers \<Rightarrow> bid_row list \<Rightarrow> string \<Rightarrow> json reply" where
  "bids_handler env req rows jid = andThen (ownedJob (api_env.truncate env) (je_owned env) req jid) (\<lambda>_. Inr (bids_json (bids_query rows jid)))"

record listed_job =
  lj_id :: string
  lj_buyer :: string
  lj_state :: string
  lj_specHash :: string
  lj_budget :: int
  lj_deadline :: int
  lj_createdAt :: int

text \<open>The open intents; the query names no order.\<close>

definition intents_query :: "listed_job list \<Rightarrow> intent list" where
  "intents_query rows = map (\<lambda>j. \<lparr>it_id = lj_id j, it_budget = lj_budget j, it_deadline = lj_deadline j\<rparr>)
     (take 100 (filter (\<lambda>j. lj_state j = ''OPEN'') rows))"

definition jobs_handler :: "jobs_env \<Rightarrow> http_headers \<Rightarrow> listed_job list \<Rightarrow> listed_job list reply" where
  "jobs_handler env req rows = andThen (wallet (api_env.truncate env) req) (\<lambda>owner.
     Inr (take 100 (sort_key (\<lambda>j. - lj_createdAt j) (filter (\<lambda>j. lj_buyer j = owner) rows))))"

text \<open>\<^verbatim>\<open>GET /v1/jobs/:id\<close> and a user's own specifications and policies, the newest first.\<close>

definition job_handler :: "jobs_env \<Rightarrow> http_headers \<Rightarrow> string \<Rightarrow> owned_row reply" where
  "job_handler env req jid = ownedJob (api_env.truncate env) (je_owned env) req jid"

record spec_listing =
  sl_owner :: string
  sl_hash :: string
  sl_name :: "string option"
  sl_createdAt :: int

text \<open>The client of the caller sees its own rows only.\<close>

definition specs_handler :: "jobs_env \<Rightarrow> http_headers \<Rightarrow> spec_listing list \<Rightarrow> spec_listing list reply" where
  "specs_handler env req rows = andThen (identity (api_env.truncate env) req) (\<lambda>user.
     Inr (take 50 (sort_key (\<lambda>r. - sl_createdAt r) (filter (\<lambda>r. sl_owner r = user) rows))))"

record policy_listing =
  pl_id :: string
  pl_owner :: string
  pl_agent :: string
  pl_expiresAt :: int
  pl_active :: bool

definition policies_handler :: "jobs_env \<Rightarrow> http_headers \<Rightarrow> policy_listing list \<Rightarrow> policy_listing list reply" where
  "policies_handler env req rows = andThen (wallet (api_env.truncate env) req) (\<lambda>owner.
     Inr (take 100 (sort_key (\<lambda>r. - pl_expiresAt r) (filter (\<lambda>r. pl_owner r = owner) rows))))"

section \<open>Providers\<close>

record provider_row =
  pw_id :: string
  pw_authority :: string
  pw_name :: string
  pw_active :: bool
  pw_completed :: int
  pw_failed :: int

definition provider_query :: "provider_row list \<Rightarrow> nat \<Rightarrow> string option \<Rightarrow> provider_row list" where
  "provider_query rows limit cursor = take limit (sort_key pw_id (filter (\<lambda>r. case cursor of None \<Rightarrow> True | Some c \<Rightarrow> c = [] \<or> c < pw_id r) rows))"

definition providerPage :: "crypto \<Rightarrow> provider_row list \<Rightarrow> rat option \<Rightarrow> string option \<Rightarrow> (provider_row list \<times> string option) reply" where
  "providerPage cr rows lq cursor =
     andThen (page_limit lq) (\<lambda>limit.
     andThen (guard (case cursor of None \<Rightarrow> True | Some c \<Rightarrow> publicKey_ok cr c) (Http 400 ''cursor'')) (\<lambda>_.
     let page = provider_query rows (limit + 1) cursor in
     Inr (take limit page, if limit < length page then Some (pw_id (page ! (limit - 1))) else None)))"

definition provider_handler :: "crypto \<Rightarrow> provider_row list \<Rightarrow> string \<Rightarrow> provider_row option reply" where
  "provider_handler cr rows i = andThen (guard (publicKey_ok cr i) (Http 400 ''request'')) (\<lambda>_. Inr (find (\<lambda>r. pw_id r = i) rows))"

definition machine_handler :: "crypto \<Rightarrow> machine_row list \<Rightarrow> string \<Rightarrow> machine_row option reply" where
  "machine_handler cr rows i = andThen (guard (publicKey_ok cr i) (Http 400 ''request'')) (\<lambda>_. Inr (find (\<lambda>r. mr_id r = i) rows))"

text \<open>The primary key of the table, and identifiers that are addresses.\<close>

definition providers_ok :: "crypto \<Rightarrow> provider_row list \<Rightarrow> bool" where
  "providers_ok cr rows \<longleftrightarrow> distinct (map pw_id rows) \<and> (\<forall>r \<in> set rows. publicKey_ok cr (pw_id r) \<and> pw_id r \<noteq> [])"

definition listed_providers :: "provider_row list \<Rightarrow> provider_row list" where
  "listed_providers rows = sort_key pw_id rows"

lemma provider_query_after:
  assumes "providers_ok cr rows" "listed_providers rows = P @ S"
  shows "provider_query rows n (if P = [] then None else Some (pw_id (last P))) = take n S"
proof (cases "P = []")
  case True
  then show ?thesis using assms(2) by (simp add: provider_query_def listed_providers_def)
next
  case False
  have "last P \<in> set rows" using False assms(2) by (metis UnCI last_in_set listed_providers_def set_append set_sort)
  then have ne: "pw_id (last P) \<noteq> []" using assms(1) by (auto simp: providers_ok_def)
  have split: "listed_providers rows = butlast P @ last P # S" using False assms(2) by simp
  have "distinct (map pw_id (listed_providers rows))"
    using assms(1) mset_eq_imp_distinct_iff [of "map pw_id rows" "map pw_id (listed_providers rows)"] by (simp add: providers_ok_def listed_providers_def)
  then have "sorted_wrt (<) (map pw_id (listed_providers rows))" by (simp add: strict_sorted_iff listed_providers_def)
  then have str: "sorted_wrt (\<lambda>a b. pw_id a < pw_id b) (butlast P @ last P # S)" unfolding split by (simp only: sorted_wrt_map)
  have "sort_key pw_id (filter (\<lambda>r. pw_id (last P) < pw_id r) rows) = filter (\<lambda>r. pw_id (last P) < pw_id r) (listed_providers rows)"
    by (simp add: listed_providers_def filter_sort)
  also have "\<dots> = S" unfolding split by (rule filter_after [OF str])
  finally show ?thesis using False ne by (simp add: provider_query_def)
qed

interpretation providers: cursor_paging "\<lambda>(cr, rows, lq) n. providers_ok cr rows \<and> page_limit lq = Inr n"
  "\<lambda>(cr, rows, lq) c. andThen (providerPage cr rows lq c) (\<lambda>(ps, next). Inr (map pw_id ps, next))" "\<lambda>(cr, rows, lq). map pw_id (listed_providers rows)"
proof (unfold_locales, goal_cases)
  case (1 d n)
  then show ?case by (auto dest: page_limit_pos)
next
  case (2 d n P S)
  obtain cr rows lq where d: "d = (cr, rows, lq)" by (cases d)
  from 2(2) obtain P' S' where ps: "listed_providers rows = P' @ S'" "P = map pw_id P'" "S = map pw_id S'"
    by (auto simp: d map_eq_append_conv)
  have ok: "providers_ok cr rows" "page_limit lq = Inr n" using 2(1) by (simp_all add: d)
  have "last P' \<in> set rows" if "P' \<noteq> []" using that ps(1) by (metis UnCI last_in_set listed_providers_def set_append set_sort)
  then have key: "case (if P' = [] then None else Some (pw_id (last P'))) of None \<Rightarrow> True | Some c \<Rightarrow> publicKey_ok cr c"
    using ok(1) by (auto simp: providers_ok_def)
  have c: "(if P = [] then None else Some (last P)) = (if P' = [] then None else Some (pw_id (last P')))" by (simp add: ps(2) last_map)
  have n: "1 \<le> n" by (rule page_limit_pos [OF ok(2)])
  have "providerPage cr rows lq (if P' = [] then None else Some (pw_id (last P')))
      = Inr (take n S', if n < length S' then Some (pw_id (S' ! (n - 1))) else None)"
    using key ok(2) n by (simp add: providerPage_def Let_def provider_query_after [OF ok(1) ps(1)] min_def)
  then show ?case unfolding c by (simp add: d ps(3) take_map)
qed

text \<open>Following the cursors lists every provider exactly once.\<close>

lemma provider_pages_complete:
  assumes "providers_ok cr rows" "page_limit lq = Inr limit" "length rows < fuel"
  shows "walk_pages (\<lambda>c. andThen (providerPage cr rows lq c) (\<lambda>(ps, next). Inr (map pw_id ps, next))) fuel None = Some (map pw_id (listed_providers rows))"
  using providers.walk_complete [of "(cr, rows, lq)" limit fuel] assms by (simp add: listed_providers_def)

section \<open>Network statistics\<close>

record network_stats =
  ns_providers :: nat
  ns_machines :: nat
  ns_jobs :: nat
  ns_lastIndexedSlot :: "int option"
  ns_network :: string
  ns_mode :: string
  ns_settlementAsset :: string
  ns_programReady :: bool
  ns_maxVerificationPolicy :: int

text \<open>A count is \<^verbatim>\<open>null\<close> or a number; the network is named or told by the address of the cluster.\<close>

definition contains :: "string \<Rightarrow> string \<Rightarrow> bool" where
  "contains s t \<longleftrightarrow> (\<exists>i \<le> length s. take (length t) (drop i s) = t)"

definition stats_handler :: "nat option outcome \<Rightarrow> nat option outcome \<Rightarrow> nat option outcome \<Rightarrow> int option outcome \<Rightarrow> string option \<Rightarrow> string option
    \<Rightarrow> bool \<Rightarrow> int \<Rightarrow> network_stats reply" where
  "stats_handler p m j c network rpc readOnly maxPolicy =
     andThen (plain p) (\<lambda>np. andThen (plain m) (\<lambda>nm. andThen (plain j) (\<lambda>nj. andThen (plain c) (\<lambda>slot.
     let count = (\<lambda>n. case n of Some k \<Rightarrow> k | None \<Rightarrow> 0) in
     Inr \<lparr>ns_providers = count np, ns_machines = count nm, ns_jobs = count nj, ns_lastIndexedSlot = slot,
       ns_network = (case network of Some n \<Rightarrow> n | None \<Rightarrow> (case rpc of Some u \<Rightarrow> if contains u ''127.0.0.1'' then ''localnet'' else ''configured cluster'' | None \<Rightarrow> ''configured cluster'')),
       ns_mode = (if readOnly then ''read-only-preview'' else ''live''), ns_settlementAsset = (if readOnly then ''TEST USDC'' else ''USDC''),
       ns_programReady = (\<not> readOnly), ns_maxVerificationPolicy = maxPolicy\<rparr>))))"

section \<open>Which bid a run takes\<close>

lemma sort_key_hd_min:
  assumes "sort_key f xs = y # ys"
  shows "y \<in> set xs \<and> (\<forall>x \<in> set xs. f y \<le> f x)"
proof -
  have "sorted (map f (y # ys))" using sorted_sort_key [of f xs] assms by simp
  moreover have "set (y # ys) = set xs" using set_sort [of f xs] assms by simp
  ultimately show ?thesis by auto
qed

lemma bids_query_hd:
  assumes "bids_query rows jid = b # bs"
  shows "b \<in> set rows \<and> bw_job b = jid \<and> bw_active b \<and> (\<forall>x \<in> set rows. bw_job x = jid \<and> bw_active x \<longrightarrow> bw_price b \<le> bw_price x)"
proof -
  obtain ys where "sort_key bw_price (filter (\<lambda>b. bw_job b = jid \<and> bw_active b) rows) = b # ys"
    using assms by (cases "sort_key bw_price (filter (\<lambda>b. bw_job b = jid \<and> bw_active b) rows)") (auto simp: bids_query_def)
  from sort_key_hd_min [OF this] show ?thesis by auto
qed

lemma first_bid_rows: "first_bid (bids_json bs) = (case bs of [] \<Rightarrow> None | b # _ \<Rightarrow> Some (bid_row_json b))"
  by (simp add: first_bid_def bids_json_def json_get_def json_first_def truthy_def bid_row_json_def split: list.splits)

lemma bid_row_id: "template_text (json_get ''id'' (Some (bid_row_json b))) = bw_id b"
  by (simp add: bid_row_json_def json_get_def template_text_def)

text \<open>
  \<open>lists_bids env req rows client\<close>: the API the client talks to answers a request for the bids of a job from
  the rows its database has at that moment.
\<close>

definition lists_bids :: "jobs_env \<Rightarrow> http_headers \<Rightarrow> (sdk_world \<Rightarrow> bid_row list) \<Rightarrow> sdk_env \<Rightarrow> bool" where
  "lists_bids env req rows client \<longleftrightarrow> (\<forall>w i status j. se_reply client w ''GET'' (se_apiUrl client @ ''/v1/jobs/'' @ i @ ''/bids'') None = Inr (True, status, j)
     \<longrightarrow> bids_handler env req (rows w) i = Inr j)"

lemma listed_first:
  assumes "lists_bids env req rows client" "served client (Bids i) reply" "first_bid reply = Some b"
  shows "\<exists>w row. row \<in> set (rows w) \<and> bw_job row = i \<and> bw_active row \<and> b = bid_row_json row
     \<and> (\<forall>x \<in> set (rows w). bw_job x = i \<and> bw_active x \<longrightarrow> bw_price row \<le> bw_price x)"
proof -
  obtain w status where "se_reply client w ''GET'' (se_apiUrl client @ ''/v1/jobs/'' @ i @ ''/bids'') None = Inr (True, status, reply)"
    using assms(2) by (auto simp: served_def)
  then have "bids_handler env req (rows w) i = Inr reply" using assms(1) unfolding lists_bids_def by blast
  then have "reply = bids_json (bids_query (rows w) i)" by (auto simp: bids_handler_def outcome_simps)
  then obtain row rest where q: "bids_query (rows w) i = row # rest" "b = bid_row_json row"
    using assms(3) by (auto simp: first_bid_rows split: list.splits)
  from bids_query_hd [OF q(1)] q(2) show ?thesis by blast
qed

text \<open>
  C32. A run takes the cheapest bid: the acceptance it has signed is for an active bid of the created job, the
  one of least price among all active bids of that job in the table when the API answered; and a run that
  returns accepted one.
\<close>

theorem run_accepts_cheapest:
  assumes "lists_bids env req rows client" "sdk_run client spec m region t w = (w', r)"
  shows "\<exists>txs. extends w w' txs \<and> (\<forall>i. r = Inr i \<longrightarrow> (\<exists>tx. (''accept-bid'', tx) \<in> set txs))
     \<and> (\<forall>tx. (''accept-bid'', tx) \<in> set txs \<longrightarrow> (\<exists>created wb row. served client (CreateJob spec m) created
          \<and> row \<in> set (rows wb) \<and> bw_job row = template_text (json_get ''jobId'' (Some created)) \<and> bw_active row
          \<and> (\<forall>x \<in> set (rows wb). bw_job x = bw_job row \<and> bw_active x \<longrightarrow> bw_price row \<le> bw_price x)
          \<and> served client (AcceptBid (bw_job row) (bw_id row)) tx))"
proof -
  obtain txs where e: "extends w w' txs" and len: "\<forall>i. r = Inr i \<longrightarrow> length txs = 2"
    and txs: "txs = [] \<or> (\<exists>quote created. served client (Quote spec m region) quote \<and> has_quotes quote \<and> served client (CreateJob spec m) created
         \<and> (txs = [(''create-and-fund'', created)]
            \<or> (\<exists>reply bid acceptance. served client (Bids (template_text (json_get ''jobId'' (Some created)))) reply \<and> first_bid reply = Some bid
                 \<and> served client (AcceptBid (template_text (json_get ''jobId'' (Some created))) (template_text (json_get ''id'' (Some bid)))) acceptance
                 \<and> txs = [(''create-and-fund'', created), (''accept-bid'', acceptance)])))"
    using signingD [OF run_signing assms(2)] by blast
  consider (few) "length txs < 2" "\<forall>tx. (''accept-bid'', tx) \<notin> set txs"
    | (both) created reply bid acceptance where "served client (CreateJob spec m) created"
      "served client (Bids (template_text (json_get ''jobId'' (Some created)))) reply" "first_bid reply = Some bid"
      "served client (AcceptBid (template_text (json_get ''jobId'' (Some created))) (template_text (json_get ''id'' (Some bid)))) acceptance"
      "txs = [(''create-and-fund'', created), (''accept-bid'', acceptance)]"
    using txs by fastforce
  then show ?thesis
  proof cases
    case few
    then show ?thesis using e len by (intro exI [of _ txs]) auto
  next
    case both
    from listed_first [OF assms(1) both(2,3)] obtain wb row where row: "row \<in> set (rows wb)" "bw_job row = template_text (json_get ''jobId'' (Some created))"
      "bw_active row" "bid = bid_row_json row"
      "\<forall>x \<in> set (rows wb). bw_job x = template_text (json_get ''jobId'' (Some created)) \<and> bw_active x \<longrightarrow> bw_price row \<le> bw_price x" by blast
    have acc: "served client (AcceptBid (bw_job row) (bw_id row)) acceptance" using both(4) row(2,4) by (simp add: bid_row_id)
    have only: "tx = acceptance" if "(''accept-bid'', tx) \<in> set txs" for tx using that both(5) by simp
    show ?thesis
    proof (intro exI [of _ txs] conjI allI impI)
      show "\<exists>tx. (''accept-bid'', tx) \<in> set txs" using both(5) by simp
      fix tx assume "(''accept-bid'', tx) \<in> set txs"
      then have "tx = acceptance" by (rule only)
      then show "\<exists>created wb row. served client (CreateJob spec m) created \<and> row \<in> set (rows wb) \<and> bw_job row = template_text (json_get ''jobId'' (Some created))
          \<and> bw_active row \<and> (\<forall>x \<in> set (rows wb). bw_job x = bw_job row \<and> bw_active x \<longrightarrow> bw_price row \<le> bw_price x)
          \<and> served client (AcceptBid (bw_job row) (bw_id row)) tx" using both(1) row acc by metis
    qed (rule e)
  qed
qed

text \<open>A table row as the scheduler's bid selection sees it.\<close>

definition bid_of :: "(string \<Rightarrow> rat) \<Rightarrow> bid_row \<Rightarrow> bid" where
  "bid_of reputation b = \<lparr>b_id = bw_id b, b_price = bw_price b, b_expiresAt = bw_expiresAt b, b_providerReputation = reputation (bw_provider b),
     b_estimatedStart = bw_estimatedStart b\<rparr>"

text \<open>
  C40. An expired bid blocks a run: the list of bids is not filtered by expiry, so while the cheapest active
  bid of a job is expired it is the one the client library accepts, although the bid selection of the
  scheduler never chooses it and other bids may be open.
\<close>

theorem expired_bid_taken_first:
  assumes "b \<in> set rows" "bw_job b = jid" "bw_active b" "bw_expiresAt b \<le> now"
    "\<forall>x \<in> set rows. bw_job x = jid \<and> bw_active x \<and> x \<noteq> b \<longrightarrow> bw_price b < bw_price x"
    "bids_handler env req rows jid = Inr reply"
  shows "first_bid reply = Some (bid_row_json b) \<and> selectBid (map (bid_of reputation) rows) budget deadline now \<noteq> Some (bid_of reputation b)"
proof -
  have r: "reply = bids_json (bids_query rows jid)" using assms(6) by (auto simp: bids_handler_def outcome_simps)
  have "b \<in> set (sort_key bw_price (filter (\<lambda>b. bw_job b = jid \<and> bw_active b) rows))" using assms(1-3) by simp
  then have "sort_key bw_price (filter (\<lambda>b. bw_job b = jid \<and> bw_active b) rows) \<noteq> []" by (metis empty_iff empty_set)
  then have "bids_query rows jid \<noteq> []" by (simp add: bids_query_def)
  then obtain y ys where q: "bids_query rows jid = y # ys" by (cases "bids_query rows jid") auto
  from bids_query_hd [OF q] have "y \<in> set rows" "bw_job y = jid" "bw_active y" "bw_price y \<le> bw_price b" using assms(1-3) by auto
  then have "y = b" using assms(5) by fastforce
  then have "first_bid reply = Some (bid_row_json b)" by (simp add: r q first_bid_rows)
  moreover have "selectBid (map (bid_of reputation) rows) budget deadline now \<noteq> Some (bid_of reputation b)"
  proof
    assume "selectBid (map (bid_of reputation) rows) budget deadline now = Some (bid_of reputation b)"
    then obtain ys where "js_sort bid_cmp (filter (bid_ok budget deadline now) (map (bid_of reputation) rows)) = bid_of reputation b # ys"
      by (auto simp: selectBid_def split: list.splits)
    then have "bid_of reputation b \<in> set (filter (bid_ok budget deadline now) (map (bid_of reputation) rows))"
      by (metis list.set_intros(1) set_js_sort)
    then show False using assms(4) by (simp add: bid_ok_def bid_of_def)
  qed
  ultimately show ?thesis by blast
qed

section \<open>A small market\<close>

definition shop_rows :: "bid_row list" where
  "shop_rows = [\<lparr>bw_id = ''bid-2'', bw_job = ''job-1'', bw_provider = ''P2'', bw_machine = ''M2'', bw_worker = ''V2'', bw_price = 9, bw_expiresAt = 900, bw_estimatedStart = 5, bw_active = True\<rparr>,
     \<lparr>bw_id = ''bid-1'', bw_job = ''job-1'', bw_provider = ''P1'', bw_machine = ''M1'', bw_worker = ''V1'', bw_price = 7, bw_expiresAt = 60, bw_estimatedStart = 5, bw_active = True\<rparr>]"

lemma shop_bids: "bids_handler sample_jobs sample_headers rows jid = Inr (bids_json (bids_query rows jid))"
proof -
  have "publicKey_ok (av_crypto sample_api) jid" by (simp add: publicKey_ok_def sample_api_def sample_crypto_def)
  then show ?thesis by (simp add: bids_handler_def ownedJob_def sample_jobs_parts sample_wallet plain_def)
qed

theorem expired_bid_taken_first_witness:
  "\<exists>reply. bids_handler sample_jobs sample_headers shop_rows ''job-1'' = Inr reply \<and> first_bid reply = Some (bid_row_json (shop_rows ! 1))
     \<and> bw_expiresAt (shop_rows ! 1) \<le> 100 \<and> selectBid (map (bid_of (\<lambda>_. 0)) shop_rows) 10 50 100 \<noteq> Some (bid_of (\<lambda>_. 0) (shop_rows ! 1))"
  using expired_bid_taken_first [OF _ _ _ _ _ shop_bids, of "shop_rows ! 1" shop_rows "''job-1''" 100 "\<lambda>_. 0" 10 50]
  by (auto simp: shop_bids) (auto simp: shop_rows_def)

definition shop_client :: sdk_env where
  "shop_client = sample_client\<lparr>se_reply := (\<lambda>w verb url _.
     if verb = ''GET'' \<and> take 5 (rev url) = ''sdib/'' then
       (if url = ''http://localhost:4000'' @ ''/v1/jobs/'' @ ''job-1'' @ ''/bids'' then Inr (True, 200, bids_json (bids_query shop_rows ''job-1'')) else Inl ''Job not found'')
     else Inr (True, 200, market_reply (length (sw_log w))))\<rparr>"

lemma shop_lists: "lists_bids sample_jobs sample_headers (\<lambda>_. shop_rows) shop_client"
proof -
  have "i = ''job-1''" if "''http://localhost:4000'' @ ''/v1/jobs/'' @ i @ ''/bids'' = ''http://localhost:4000'' @ ''/v1/jobs/'' @ ''job-1'' @ ''/bids''" for i
    using that by (simp only: append_same_eq same_append_eq)
  then show ?thesis
    by (auto simp: lists_bids_def shop_bids shop_client_def sample_client_def simp del: append_Cons split: if_splits)
qed

lemma shop_request:
  "sdk_request shop_client path body w = (w\<lparr>sw_time := sw_time w + 10, sw_log := sw_log w @ [Requested (if body = None then ''GET'' else ''POST'') path body]\<rparr>,
     if body = None \<and> take 5 (rev (''http://localhost:4000'' @ path)) = ''sdib/'' then
       (if ''http://localhost:4000'' @ path = ''http://localhost:4000'' @ ''/v1/jobs/'' @ ''job-1'' @ ''/bids'' then Inr (bids_json (bids_query shop_rows ''job-1'')) else Inl ''Job not found'')
     else Inr (market_reply (length (sw_log w))))"
  by (cases body) (simp_all add: sdk_request_def shop_client_def sample_client_def bindP_def liftP_def Let_def)

lemma shop_steps: "throwIfAborted shop_client w = (w, Inr ())"
  "sign shop_client a (market_reply n) w = (w\<lparr>sw_log := sw_log w @ [SignedTx a (market_reply n)]\<rparr>, Inr ''sig'')"
  "poll shop_client ''job-1'' w = (w\<lparr>sw_time := sw_time w + 10, sw_log := sw_log w @ [status_request ''job-1'']\<rparr>,
     Inr (Some (if length (sw_log w) < 5 then ''OPEN'' else ''ASSIGNED'')))"
  "ask_bids shop_client ''job-1'' w = (w\<lparr>sw_time := sw_time w + 10, sw_log := sw_log w @ [Requested ''GET'' ''/v1/jobs/job-1/bids'' None]\<rparr>,
     Inr (bids_json (bids_query shop_rows ''job-1'')))"
proof -
  show a: "throwIfAborted shop_client w = (w, Inr ())" for w by (simp add: throwIfAborted_def shop_client_def sample_client_def guard_def)
  show "sign shop_client a (market_reply n) w = (w\<lparr>sw_log := sw_log w @ [SignedTx a (market_reply n)]\<rparr>, Inr ''sig'')"
    by (simp add: sign_def shop_client_def sample_client_def market_reply_fields truthy_def bindP_def requireP_def guard_def)
  show "poll shop_client ''job-1'' w = (w\<lparr>sw_time := sw_time w + 10, sw_log := sw_log w @ [status_request ''job-1'']\<rparr>,
     Inr (Some (if length (sw_log w) < 5 then ''OPEN'' else ''ASSIGNED'')))"
    by (simp add: poll_def a call_api_def shop_request market_reply_fields bindP_def liftP_def)
  show "ask_bids shop_client ''job-1'' w = (w\<lparr>sw_time := sw_time w + 10, sw_log := sw_log w @ [Requested ''GET'' ''/v1/jobs/job-1/bids'' None]\<rparr>,
     Inr (bids_json (bids_query shop_rows ''job-1'')))"
    by (simp add: ask_bids_def a call_api_def shop_request bindP_def)
qed

lemma shop_first: "first_bid (bids_json (bids_query shop_rows ''job-1'')) = Some (bid_row_json (shop_rows ! 1))"
  by (simp add: first_bid_rows bids_query_def shop_rows_def)

lemma shop_run: "snd (sdk_run shop_client sample_spec ''5000'' None None fresh_client) = Inr ''job-1''"
  by (simp add: sdk_run_def take_bid_def bindP_def Let_def call_api_def shop_request shop_steps shop_first market_reply_fields has_quotes_def requireP_def guard_def
      wait_within_def template_text_def fresh_client_def waitFor.simps bid_wait.simps assigned_states_def retP_def)

theorem run_accepts_cheapest_witness:
  "snd (sdk_run shop_client sample_spec ''5000'' None None fresh_client) = Inr ''job-1''
   \<and> (\<exists>txs tx row. extends fresh_client (fst (sdk_run shop_client sample_spec ''5000'' None None fresh_client)) txs \<and> (''accept-bid'', tx) \<in> set txs
        \<and> row \<in> set shop_rows \<and> (\<forall>x \<in> set shop_rows. bw_job x = bw_job row \<and> bw_active x \<longrightarrow> bw_price row \<le> bw_price x)
        \<and> served shop_client (AcceptBid (bw_job row) (bw_id row)) tx)"
  using run_accepts_cheapest [of sample_jobs sample_headers "\<lambda>_. shop_rows" shop_client sample_spec "''5000''" None None fresh_client, OF shop_lists prod.collapse [symmetric]] shop_run by fastforce

end
