(* ===== verification/Benchmark.thy ===== *)
theory Benchmark
  imports EvidenceApi
begin

text \<open>
  The provider's hardware detection (\<^verbatim>\<open>agents/provider-node/hardware.ts\<close>) and its benchmark
  (\<^verbatim>\<open>agents/provider-node/benchmark.ts\<close>). The state of a run is the sequence of commands it started;
  clocks, the chain, the files and \<^verbatim>\<open>nvidia-smi\<close> belong to the environment.
\<close>

section \<open>Hardware detection\<close>

text \<open>The query fails, succeeds with its output, or the tool is not installed (\<^verbatim>\<open>ENOENT\<close>).\<close>

datatype smi_run = SmiMissing | SmiFailed string | SmiOut string

text \<open>Columns a line does not have are \<^verbatim>\<open>undefined\<close>, a memory size that is no number is \<^verbatim>\<open>NaN\<close>: both are \<open>None\<close>.\<close>

record gpu_info =
  gi_model :: string
  gi_uuid :: "string option"
  gi_vramMb :: "rat option"
  gi_driver :: "string option"

record hardware_report =
  hr_machineId :: string
  hr_worker :: string
  hr_gpu :: "gpu_info list"
  hr_cpuCores :: int
  hr_ramMb :: int
  hr_capturedAt :: int

definition column :: "nat \<Rightarrow> string list \<Rightarrow> string option" where
  "column i cs = (if i < length cs then Some (cs ! i) else None)"

definition gpu_of_line :: "string \<Rightarrow> gpu_info" where
  "gpu_of_line line = (let cs = map trim (split_on CHR '','' line) in
     \<lparr>gi_model = hd cs, gi_uuid = column 1 cs, gi_vramMb = Option.bind (column 2 cs) js_number, gi_driver = column 3 cs\<rparr>)"

definition detected_gpus :: "string \<Rightarrow> gpu_info list" where
  "detected_gpus out = (if trim out = [] then [] else map gpu_of_line (split_on (CHR 0x0A) (trim out)))"

definition detectHardware :: "smi_run \<Rightarrow> int \<Rightarrow> int \<Rightarrow> int \<Rightarrow> string \<Rightarrow> string \<Rightarrow> hardware_report outcome" where
  "detectHardware smi cpus totalmem nowMs machineId worker = andThen (case smi of SmiMissing \<Rightarrow> Inr [] | SmiFailed e \<Rightarrow> Inl e | SmiOut out \<Rightarrow> Inr out) (\<lambda>out.
     Inr \<lparr>hr_machineId = machineId, hr_worker = worker, hr_gpu = detected_gpus out, hr_cpuCores = cpus,
       hr_ramMb = totalmem div 1048576, hr_capturedAt = nowMs div 1000\<rparr>)"

section \<open>The benchmark\<close>

record bench_env =
  bh_crypto :: crypto
  bh_worker :: string
  bh_key :: buffer
  bh_machineId :: string
  bh_machine :: "machine_account outcome"
  bh_auth :: "string \<Rightarrow> worker_account outcome"
  bh_image :: "string option"
  bh_reportFile :: "json outcome option"
  bh_smi :: smi_run
  bh_cpus :: int
  bh_totalmem :: int
  bh_authMs :: int
  bh_startMs :: int
  bh_finishMs :: int
  bh_exec :: "string list \<Rightarrow> unit outcome"
  bh_diskMs :: rat
  bh_cpuMs :: rat
  bh_cluster :: "string outcome"
  bh_program :: string
  bh_nonce :: string

definition benchmark_image :: "bench_env \<Rightarrow> string" where
  "benchmark_image env = (case bh_image env of Some i \<Rightarrow> i
     | None \<Rightarrow> ''docker.io/library/alpine@sha256:14358309a308569c32bdc37e2e0e9694be33a9d99e68afb0f5ff33cc1f695dce'')"

definition pinned_digest :: "string \<Rightarrow> string outcome" where
  "pinned_digest img = (case split_on CHR ''@'' img of
     repo # dg # _ \<Rightarrow> if repo \<noteq> [] \<and> digest_ok dg then Inr dg else Inl ''BENCHMARK_IMAGE must be digest-pinned''
   | _ \<Rightarrow> Inl ''BENCHMARK_IMAGE must be digest-pinned'')"

text \<open>\<^verbatim>\<open>hardware.gpu?.[index]\<close> and the comparison of its fields with a detected device.\<close>

definition committed_gpu :: "json \<Rightarrow> nat \<Rightarrow> json option" where
  "committed_gpu hw i = (case json_get ''gpu'' (Some hw) of Some (JArr gs) \<Rightarrow> if i < length gs then Some (gs ! i) else None | _ \<Rightarrow> None)"

definition gpu_matches :: "gpu_info \<Rightarrow> json option \<Rightarrow> bool" where
  "gpu_matches g c \<longleftrightarrow> map_option JStr (gi_uuid g) = json_get ''uuid'' c \<and> Some (JStr (gi_model g)) = json_get ''model'' c
     \<and> (\<exists>q. gi_vramMb g = Some q \<and> json_get ''vramMb'' c = Some (JNum q))"

definition inventory_matches :: "gpu_info list \<Rightarrow> int \<Rightarrow> json \<Rightarrow> bool" where
  "inventory_matches gpus n hw \<longleftrightarrow> int (length gpus) = n \<and> (\<forall>i < length gpus. gpu_matches (gpus ! i) (committed_gpu hw i))"

definition dd_args :: "string \<Rightarrow> string list" where
  "dd_args img = [''run'', ''--rm'', ''--network'', ''none'', ''--read-only'', ''--cap-drop'', ''ALL'', ''--security-opt'', ''no-new-privileges:true'',
     ''--user'', ''65532:65532'', ''--memory'', ''512m'', ''--cpus'', ''1'', ''--pids-limit'', ''64'', ''--tmpfs'', ''/tmp:rw,noexec,nosuid,size=64m'',
     img, ''dd'', ''if=/dev/zero'', ''of=/tmp/benchmark'', ''bs=1048576'', ''count=32'', ''conv=fsync'']"

text \<open>The devices as the report schema takes them: a missing identifier or a size that is no whole number is refused.\<close>

fun report_gpus :: "gpu_info list \<Rightarrow> benchmark_gpu list outcome" where
  "report_gpus [] = Inr []"
| "report_gpus (g # gs) = (case (gi_uuid g, gi_vramMb g) of
     (Some u, Some q) \<Rightarrow> if q = of_int \<lfloor>q\<rfloor> then andThen (report_gpus gs) (\<lambda>rs. Inr (\<lparr>bg_uuid = u, bg_vramMb = \<lfloor>q\<rfloor>\<rparr> # rs)) else Inl ''ZodError''
   | _ \<Rightarrow> Inl ''ZodError'')"

text \<open>What is checked before anything runs: the committed report, the digest and the detected devices.\<close>

definition bench_checks :: "bench_env \<Rightarrow> (string \<times> json \<times> gpu_info list) outcome" where
  "bench_checks env = andThen (bh_machine env) (\<lambda>machine.
     andThen (guard (mc_worker machine = bh_worker env) ''Worker is not assigned to this machine'') (\<lambda>_.
     andThen (bh_auth env (mc_provider machine)) (\<lambda>auth.
     andThen (guard (wa_active auth \<and> of_int (bh_authMs env) / 1000 < (of_int (wa_expiresAt auth) :: rat)) ''Worker delegation is inactive'') (\<lambda>_.
     andThen (pinned_digest (benchmark_image env)) (\<lambda>dg.
     case bh_reportFile env of
       None \<Rightarrow> Inl ''HARDWARE_REPORT must point to the committed report''
     | Some file \<Rightarrow> andThen file (\<lambda>hw.
         andThen (commitment (bh_crypto env) hw) (\<lambda>h.
         andThen (guard (h = toHex (mc_hardwareHash machine)) ''Hardware report does not match the on-chain commitment'') (\<lambda>_.
         andThen (detectHardware (bh_smi env) (bh_cpus env) (bh_totalmem env) (bh_authMs env) (bh_machineId env) (bh_worker env)) (\<lambda>detected.
         andThen (guard (inventory_matches (hr_gpu detected) (mc_gpuCount machine) hw) ''Live GPU inventory does not match the committed report'') (\<lambda>_.
           Inr (dg, hw, hr_gpu detected)))))))))))"

definition bench_exec :: "bench_env \<Rightarrow> string list \<Rightarrow> (string list list, unit) proc" where
  "bench_exec env args = (\<lambda>cmds. (cmds @ [args], bh_exec env args))"

definition bench_report :: "bench_env \<Rightarrow> string \<Rightarrow> string \<Rightarrow> string \<Rightarrow> benchmark_gpu list \<Rightarrow> benchmark_report" where
  "bench_report env cluster h dg gpus = \<lparr>br_version = ''1'', br_domain = ''vericompute:benchmark:v1'', br_cluster = cluster, br_program = bh_program env,
     br_machineId = bh_machineId env, br_worker = bh_worker env, br_hardwareReportHash = h, br_imageDigest = dg,
     br_startedAt = bh_startMs env div 1000, br_finishedAt = bh_finishMs env div 1000,
     br_cpuSha256MibPerSecond = 64 / (bh_cpuMs env / 1000), br_diskWriteMibPerSecond = 32 / (bh_diskMs env / 1000),
     br_gpu = gpus, br_nonce = bh_nonce env\<rparr>"

text \<open>The signed envelope that is posted. A measurement of no time is an infinite rate, which the schema refuses.\<close>

definition runBenchmark :: "bench_env \<Rightarrow> (string list list, benchmark_report \<times> string) proc" where
  "runBenchmark env = bindP (liftP (bench_checks env)) (\<lambda>(dg, hw, gpus).
     bindP (bench_exec env [''pull'', benchmark_image env]) (\<lambda>_.
     bindP (bench_exec env (dd_args (benchmark_image env))) (\<lambda>_.
     bindP (liftP (bh_cluster env)) (\<lambda>cluster.
     bindP (liftP (commitment (bh_crypto env) hw)) (\<lambda>h.
     bindP (liftP (report_gpus gpus)) (\<lambda>rg.
     let r = bench_report env cluster h dg rg in
     bindP (requireP (benchmark_schema_ok r) ''ZodError'') (\<lambda>_.
     bindP (liftP (signPayload (bh_crypto env) (benchmark_json r) (bh_key env))) (\<lambda>sig. retP (r, sig)))))))))"

section \<open>Detection reads what the tool prints\<close>

text \<open>A value of the table: no separator inside, no white space around it.\<close>

definition clean :: "string \<Rightarrow> bool" where
  "clean f \<longleftrightarrow> f \<noteq> [] \<and> \<not> is_space (hd f) \<and> \<not> is_space (last f) \<and> CHR '','' \<notin> set f \<and> CHR 0x0A \<notin> set f"

lemma trim_clean [simp]: "clean f \<Longrightarrow> trim f = f"
  by (intro trim_id) (auto simp: clean_def)

lemma trim_space [simp]: "trim (CHR '' '' # f) = trim f"
  by (simp add: trim_def is_space_def)

lemma trim_newline [simp]: "f \<noteq> [] \<Longrightarrow> \<not> is_space (hd f) \<Longrightarrow> trim (f @ [CHR 0x0A]) = trim f"
  by (cases f) (auto simp: trim_def is_space_def)

lemma clean_decimal: "clean (decimal n)"
proof -
  have d: "list_all is_digit (decimal n)" by (rule decimal_digits)
  then have "is_digit (hd (decimal n))" "is_digit (last (decimal n))" by (simp_all add: list_all_iff)
  moreover have "CHR '','' \<notin> set (decimal n)" "CHR 0x0A \<notin> set (decimal n)" using d by (auto simp: list_all_iff is_digit_def)
  ultimately show ?thesis by (simp add: clean_def digit_not_space)
qed

lemma js_number_decimal [simp]: "js_number (decimal n) = Some (of_nat n)"
proof -
  have "CHR ''.'' \<notin> set (decimal n)" using decimal_digits [of n] by (auto simp: list_all_iff is_digit_def)
  then show ?thesis by (simp add: js_number_def split_on_absent)
qed

text \<open>A device, the line \<^verbatim>\<open>nvidia-smi\<close> prints for it and the table of all devices.\<close>

type_synonym gpu_row = "string \<times> string \<times> nat \<times> string"

definition smi_line :: "gpu_row \<Rightarrow> string" where
  "smi_line g = (case g of (model, uuid, mb, driver) \<Rightarrow> model @ '', '' @ uuid @ '', '' @ decimal mb @ '', '' @ driver)"

definition smi_table :: "gpu_row list \<Rightarrow> string" where
  "smi_table gs = join [CHR 0x0A] (map smi_line gs) @ (if gs = [] then [] else [CHR 0x0A])"

definition row_clean :: "gpu_row \<Rightarrow> bool" where
  "row_clean g \<longleftrightarrow> (case g of (model, uuid, mb, driver) \<Rightarrow> clean model \<and> clean uuid \<and> clean driver)"

definition info_of :: "gpu_row \<Rightarrow> gpu_info" where
  "info_of g = (case g of (model, uuid, mb, driver) \<Rightarrow> \<lparr>gi_model = model, gi_uuid = Some uuid, gi_vramMb = Some (of_nat mb), gi_driver = Some driver\<rparr>)"

lemma gpu_of_smi_line:
  assumes "row_clean g"
  shows "gpu_of_line (smi_line g) = info_of g"
proof -
  obtain model uuid mb driver where g: "g = (model, uuid, mb, driver)" by (cases g)
  have c: "clean model" "clean uuid" "clean driver" "clean (decimal mb)" using assms clean_decimal by (auto simp: g row_clean_def)
  have "split_on CHR '','' (join [CHR '',''] [model, CHR '' '' # uuid, CHR '' '' # decimal mb, CHR '' '' # driver])
      = [model, CHR '' '' # uuid, CHR '' '' # decimal mb, CHR '' '' # driver]"
    by (rule split_on_join) (use c in \<open>auto simp: clean_def\<close>)
  then have "map trim (split_on CHR '','' (smi_line g)) = [model, uuid, decimal mb, driver]"
    using c by (simp add: g smi_line_def)
  then show ?thesis by (simp add: gpu_of_line_def Let_def column_def g info_of_def)
qed

lemma smi_line_ends:
  assumes "row_clean g"
  shows "smi_line g \<noteq> []" "\<not> is_space (hd (smi_line g))" "\<not> is_space (last (smi_line g))" "CHR 0x0A \<notin> set (smi_line g)"
  using assms clean_decimal by (auto simp: smi_line_def row_clean_def clean_def split: prod.splits)

lemma join_ends:
  assumes "xs \<noteq> []" "list_all (\<lambda>x. x \<noteq> [] \<and> \<not> is_space (hd x) \<and> \<not> is_space (last x)) xs"
  shows "join sep xs \<noteq> [] \<and> \<not> is_space (hd (join sep xs)) \<and> \<not> is_space (last (join sep xs))"
  using assms by (induction sep xs rule: join.induct) auto

text \<open>
  Hardware detection reads exactly what \<^verbatim>\<open>nvidia-smi\<close> reports: from the printed table of any number
  of devices it recovers every model, identifier, memory size and driver in order; without the tool the
  machine has no devices, and another failure of the tool is not mistaken for that.
\<close>

theorem detection_roundtrip:
  assumes "list_all row_clean gs"
  shows "detectHardware (SmiOut (smi_table gs)) cpus mem now m w = Inr \<lparr>hr_machineId = m, hr_worker = w, hr_gpu = map info_of gs,
     hr_cpuCores = cpus, hr_ramMb = mem div 1048576, hr_capturedAt = now div 1000\<rparr>
   \<and> detectHardware SmiMissing cpus mem now m w = detectHardware (SmiOut (smi_table [])) cpus mem now m w
   \<and> detectHardware (SmiFailed e) cpus mem now m w = Inl e"
proof -
  have "detected_gpus (smi_table gs) = map info_of gs"
  proof (cases "gs = []")
    case True
    then show ?thesis by (simp add: detected_gpus_def smi_table_def trim_def)
  next
    case False
    let ?j = "join [CHR 0x0A] (map smi_line gs)"
    have ends: "?j \<noteq> [] \<and> \<not> is_space (hd ?j) \<and> \<not> is_space (last ?j)"
      by (rule join_ends) (use False assms smi_line_ends in \<open>auto simp: list_all_iff\<close>)
    then have t: "trim (smi_table gs) = ?j" using False by (simp add: smi_table_def trim_id)
    have "split_on (CHR 0x0A) ?j = map smi_line gs"
      by (rule split_on_join) (use False assms smi_line_ends in \<open>auto simp: list_all_iff\<close>)
    then show ?thesis using t ends assms gpu_of_smi_line by (simp add: detected_gpus_def list_all_iff)
  qed
  then show ?thesis by (simp add: detectHardware_def smi_table_def detected_gpus_def)
qed

theorem detection_roundtrip_witness:
  "detectHardware (SmiOut (smi_table [(''NVIDIA H100'', ''GPU-1a'', 81559, ''550.54'')])) 8 1048576 5000 ''m'' ''w''
   = Inr \<lparr>hr_machineId = ''m'', hr_worker = ''w'', hr_gpu = [info_of (''NVIDIA H100'', ''GPU-1a'', 81559, ''550.54'')], hr_cpuCores = 8, hr_ramMb = 1, hr_capturedAt = 5\<rparr>"
proof -
  have "list_all row_clean [(''NVIDIA H100'', ''GPU-1a'', 81559, ''550.54'')]" by (simp add: row_clean_def clean_def is_space_def)
  from detection_roundtrip [OF this, of 8 1048576 5000 "''m''" "''w''"] show ?thesis by simp
qed

section \<open>An honest benchmark is accepted\<close>

text \<open>
  The API and the provider read the same chain, the API has the committed hardware report and allows
  the image, the report lists exactly the machine's devices, the clocks run forwards and the request
  arrives within two minutes and before the delegation ends.
\<close>

definition bench_agrees :: "bench_env \<Rightarrow> benchmark_env \<Rightarrow> json \<Rightarrow> machine_account \<Rightarrow> worker_account \<Rightarrow> string \<Rightarrow> bool" where
  "bench_agrees be env hw machine auth dg \<longleftrightarrow> av_crypto env = bh_crypto be \<and> pv_program env = bh_program be \<and> pv_cluster env = bh_cluster be
     \<and> bh_machine be = Inr machine \<and> pv_machine env (bh_machineId be) = Inr machine
     \<and> bh_auth be (mc_provider machine) = Inr auth \<and> pv_auth env (mc_provider machine) (bh_worker be) = Inr auth
     \<and> bh_reportFile be = Some (Inr hw) \<and> be_hardware env (toHex (mc_hardwareHash machine)) (bh_machineId be) = Inr (Some hw)
     \<and> (\<exists>gs. json_get ''gpu'' (Some hw) = Some (JArr gs) \<and> int (length gs) = mc_gpuCount machine)
     \<and> pinned_digest (benchmark_image be) = Inr dg \<and> dg \<in> set (allowed_digests env) \<and> be_write env = Inr ()
     \<and> bh_startMs be \<le> bh_finishMs be \<and> bh_finishMs be \<le> av_nowMs env \<and> av_nowMs env \<le> bh_finishMs be + 120000
     \<and> av_nowMs env div 1000 < wa_expiresAt auth"

lemma report_gpus_length: "report_gpus gpus = Inr rg \<Longrightarrow> length rg = length gpus"
  by (induction gpus arbitrary: rg) (auto simp: outcome_simps split: option.splits if_splits)

lemma report_gpus_uuid: "report_gpus gpus = Inr rg \<Longrightarrow> i < length gpus \<Longrightarrow> gi_uuid (gpus ! i) = Some (bg_uuid (rg ! i))"
proof (induction gpus arbitrary: rg i)
  case (Cons g gpus)
  then show ?case by (cases i) (auto simp: outcome_simps split: option.splits if_splits)
qed simp

lemma expected_matches:
  assumes "report_gpus gpus = Inr rg" "inventory_matches gpus n hw" "json_get ''gpu'' (Some hw) = Some (JArr gs)" "int (length gs) = n"
  shows "expected_gpus (Some hw) = Inr (map (\<lambda>g. Some (bg_uuid g)) rg)"
proof -
  have len: "length gs = length gpus" "length rg = length gpus" using assms(2,4) report_gpus_length [OF assms(1)] by (simp_all add: inventory_matches_def)
  have m: "gpu_matches (gpus ! i) (Some (gs ! i))" if "i < length gs" for i
    using assms(2,3) that len by (simp add: inventory_matches_def committed_gpu_def)
  have "gs ! i \<noteq> JNull" if "i < length gs" for i
    using m [OF that] by (auto simp: gpu_matches_def json_get_def)
  then have "JNull \<notin> set gs" by (metis in_set_conv_nth)
  moreover have "map (\<lambda>g. Option.bind (json_get ''uuid'' (Some g)) json_str) gs = map (\<lambda>g. Some (bg_uuid g)) rg"
  proof (rule nth_equalityI)
    fix i assume "i < length (map (\<lambda>g. Option.bind (json_get ''uuid'' (Some g)) json_str) gs)"
    then have i: "i < length gs" by simp
    then have "json_get ''uuid'' (Some (gs ! i)) = Some (JStr (bg_uuid (rg ! i)))"
      using m [OF i] report_gpus_uuid [OF assms(1), of i] len by (simp add: gpu_matches_def)
    then show "map (\<lambda>g. Option.bind (json_get ''uuid'' (Some g)) json_str) gs ! i = map (\<lambda>g. Some (bg_uuid g)) rg ! i"
      using i len by (simp add: json_str_def)
  qed (use len in simp)
  ultimately show ?thesis using assms(3) by (simp add: expected_gpus_def)
qed

lemma runBenchmark_Inr:
  assumes "runBenchmark be cmds = (cmds', Inr (r, sig))" "bench_agrees be env hw machine auth dg"
  obtains cluster gpus rg where "bh_cluster be = Inr cluster" "mc_worker machine = bh_worker be" "wa_active auth"
    "commitment (bh_crypto be) hw = Inr (toHex (mc_hardwareHash machine))" "inventory_matches gpus (mc_gpuCount machine) hw"
    "report_gpus gpus = Inr rg" "r = bench_report be cluster (toHex (mc_hardwareHash machine)) dg rg" "benchmark_schema_ok r"
    "signPayload (bh_crypto be) (benchmark_json r) (bh_key be) = Inr sig"
    "cmds' = cmds @ [[''pull'', benchmark_image be], dd_args (benchmark_image be)]"
proof -
  obtain dg' hw' gpus where c: "bench_checks be = Inr (dg', hw', gpus)"
    using assms(1) by (cases "bench_checks be") (auto simp: runBenchmark_def bindP_def liftP_def)
  then have parts: "dg' = dg" "hw' = hw" "mc_worker machine = bh_worker be" "wa_active auth" "inventory_matches gpus (mc_gpuCount machine) hw"
      "commitment (bh_crypto be) hw = Inr (toHex (mc_hardwareHash machine))"
    using assms(2) by (auto simp: bench_checks_def bench_agrees_def outcome_simps)
  show thesis
    using assms(1) that [of _ gpus, OF _ parts(3,4,6,5)] c parts(1,2,6)
    by (auto simp: runBenchmark_def bindP_def liftP_def bench_exec_def requireP_def guard_def retP_def Let_def split: sum.splits prod.splits if_splits)
qed

lemma honest_benchmark_checked:
  assumes "runBenchmark be cmds = (cmds', Inr (r, sig))" "bench_agrees be env hw machine auth dg" "signature_law (bh_crypto be) pub"
    "b58_decode (bh_crypto be) (bh_worker be) = Some (pub (bh_key be))" "length sig \<le> 100"
  shows "benchmark_checked env r sig = Inr ()"
proof -
  obtain cluster gpus rg where p: "bh_cluster be = Inr cluster" "mc_worker machine = bh_worker be" "wa_active auth"
    "commitment (bh_crypto be) hw = Inr (toHex (mc_hardwareHash machine))" "inventory_matches gpus (mc_gpuCount machine) hw"
    "report_gpus gpus = Inr rg" "r = bench_report be cluster (toHex (mc_hardwareHash machine)) dg rg" "benchmark_schema_ok r"
    "signPayload (bh_crypto be) (benchmark_json r) (bh_key be) = Inr sig"
    by (rule runBenchmark_Inr [OF assms(1,2)])
  note a = assms(2) [unfolded bench_agrees_def]
  have f: "br_program r = bh_program be" "br_cluster r = cluster" "br_worker r = bh_worker be" "br_machineId r = bh_machineId be" "br_gpu r = rg"
    "br_hardwareReportHash r = toHex (mc_hardwareHash machine)" "br_imageDigest r = dg" "br_startedAt r = bh_startMs be div 1000" "br_finishedAt r = bh_finishMs be div 1000"
    by (simp_all add: p(7) bench_report_def)
  have v: "verifyPayload (bh_crypto be) (benchmark_json r) sig (pub (bh_key be))" by (rule verifyPayload_signPayload [OF assms(3) p(9)])
  obtain gs where gs: "json_get ''gpu'' (Some hw) = Some (JArr gs)" "int (length gs) = mc_gpuCount machine" using a by blast
  have e: "expected_gpus (Some hw) = Inr (map (\<lambda>g. Some (bg_uuid g)) rg)" by (rule expected_matches [OF p(6,5) gs])
  have n: "int (length rg) = mc_gpuCount machine" using report_gpus_length [OF p(6)] p(5) by (simp add: inventory_matches_def)
  have t: "bh_startMs be div 1000 \<le> bh_finishMs be div 1000" "\<bar>av_nowMs env div 1000 - bh_finishMs be div 1000\<bar> \<le> 120" using a by linarith+
  show ?thesis
    using a p(1-3,8) v e n t assms(4,5) by (simp add: benchmark_checked_def Let_def outcome_simps plain_def signed_with_def f)
qed

text \<open>
  The benchmark an honest provider runs is accepted: when \<^verbatim>\<open>runBenchmark\<close> returns a signed report, the
  two container commands ran, the image without a network, and the API, reading the same chain within
  two minutes, accepts the report, stores it under its hash and answers whether it counts as passed, which
  is exactly when it took at most five minutes.
\<close>

theorem honest_benchmark_accepted:
  assumes "runBenchmark be cmds = (cmds', Inr (r, sig))" "bench_agrees be env hw machine auth dg" "signature_law (bh_crypto be) pub"
    "b58_decode (bh_crypto be) (bh_worker be) = Some (pub (bh_key be))" "length sig \<le> 100" "commitment (bh_crypto be) (benchmark_json r) = Inr i"
  shows "\<exists>rows'. benchmark_handler env r sig rows = (rows', Inr (i, bh_finishMs be div 1000 - bh_startMs be div 1000 \<le> 300)) \<and> i \<in> bk_id ` set rows'
     \<and> (i \<notin> bk_id ` set rows \<longrightarrow> rows' = rows @ [\<lparr>bk_id = i, bk_report = r, bk_signature = sig, bk_passed = benchmarkPassed r\<rparr>])
     \<and> cmds' = cmds @ [[''pull'', benchmark_image be], dd_args (benchmark_image be)]"
proof -
  obtain cluster gpus rg where p: "r = bench_report be cluster (toHex (mc_hardwareHash machine)) dg rg" "benchmark_schema_ok r"
    "cmds' = cmds @ [[''pull'', benchmark_image be], dd_args (benchmark_image be)]"
    by (rule runBenchmark_Inr [OF assms(1,2)])
  have a: "av_crypto env = bh_crypto be" "be_write env = Inr ()" "bh_startMs be \<le> bh_finishMs be" using assms(2) by (simp_all add: bench_agrees_def)
  have "benchmarkPassed r \<longleftrightarrow> bh_finishMs be div 1000 - bh_startMs be div 1000 \<le> 300"
    using a(3) benchmarkPassed_iff [OF p(2)] by (auto simp: p(1) bench_report_def zdiv_mono1)
  then show ?thesis using honest_benchmark_checked [OF assms(1-5)] a assms(6) p(3)
    by (auto simp: benchmark_handler_def plain_def)
qed

definition sample_bench :: bench_env where
  "sample_bench = \<lparr>bh_crypto = sample_crypto, bh_worker = sample_worker, bh_key = utf8 sample_worker, bh_machineId = sample_machine,
     bh_machine = Inr Worker.sample_machine_account, bh_auth = (\<lambda>_. Inr sample_auth), bh_image = Some (''alpine@'' @ ''sha256:'' @ replicate 64 CHR ''a''),
     bh_reportFile = Some (Inr sample_hw), bh_smi = SmiMissing, bh_cpus = 8, bh_totalmem = 1048576, bh_authMs = 99000, bh_startMs = 100000,
     bh_finishMs = 110000, bh_exec = (\<lambda>_. Inr ()), bh_diskMs = 32000 / 3, bh_cpuMs = 32000, bh_cluster = Inr ''devnet'',
     bh_program = sample_program, bh_nonce = sample_uuid\<rparr>"

lemma sample_pinned: "pinned_digest (benchmark_image sample_bench) = Inr (''sha256:'' @ replicate 64 CHR ''a'')"
proof -
  have "split_on CHR ''@'' (''alpine'' @ CHR ''@'' # ''sha256:'' @ replicate 64 CHR ''a'') = [''alpine'', ''sha256:'' @ replicate 64 CHR ''a'']"
    unfolding split_on_append by (simp add: split_on_absent)
  moreover have "digest_ok (''sha256:'' @ replicate 64 CHR ''a'')" using sample_spec_parts(1) by (simp add: sample_spec_def)
  ultimately show ?thesis by (simp add: pinned_digest_def benchmark_image_def sample_bench_def)
qed

lemma sample_bench_facts:
  "bh_crypto sample_bench = sample_crypto" "bh_worker sample_bench = sample_worker" "bh_key sample_bench = utf8 sample_worker"
  "bh_machineId sample_bench = sample_machine" "bh_machine sample_bench = Inr Worker.sample_machine_account" "bh_auth sample_bench = (\<lambda>_. Inr sample_auth)"
  "bh_reportFile sample_bench = Some (Inr sample_hw)" "bh_smi sample_bench = SmiMissing" "bh_authMs sample_bench = 99000" "bh_exec sample_bench = (\<lambda>_. Inr ())"
  "bh_cluster sample_bench = Inr ''devnet''" "bh_startMs sample_bench = 100000" "bh_finishMs sample_bench = 110000"
  by (simp_all add: sample_bench_def)

lemma sample_bench_checks: "bench_checks sample_bench = Inr (''sha256:'' @ replicate 64 CHR ''a'', sample_hw, [])"
  by (simp add: bench_checks_def sample_bench_facts sample_pinned outcome_simps Worker.sample_machine_account_def sample_auth_def sample_hash_def
      detectHardware_def detected_gpus_def trim_def inventory_matches_def)

lemma sample_bench_report: "bench_report sample_bench ''devnet'' (sample_hash sample_hw) (''sha256:'' @ replicate 64 CHR ''a'') [] = sample_report"
  by (simp add: bench_report_def sample_report_def sample_bench_def)

lemma sample_run_benchmark:
  "runBenchmark sample_bench [] = ([[''pull'', benchmark_image sample_bench], dd_args (benchmark_image sample_bench)], Inr (sample_report, sample_report_signature))"
proof -
  have "benchmark_schema_ok sample_report" using sample_report_checked by (simp add: benchmark_checked_def Let_def outcome_simps)
  then show ?thesis
    by (simp add: runBenchmark_def bindP_def liftP_def sample_bench_checks bench_exec_def sample_bench_facts sample_bench_report [simplified] requireP_def guard_def retP_def Let_def
        sample_signPayload sample_report_signature_def)
qed

lemma sample_bench_agrees: "bench_agrees sample_bench sample_benchmark_env sample_hw Worker.sample_machine_account sample_auth (''sha256:'' @ replicate 64 CHR ''a'')"
  by (simp add: bench_agrees_def sample_bench_facts sample_pinned)
    (simp add: sample_benchmark_env_def sample_bench_def allowed_digests_def split_on_absent Worker.sample_machine_account_def sample_auth_def sample_hw_def json_get_def)

theorem honest_benchmark_accepted_witness:
  "\<exists>rows. benchmark_handler sample_benchmark_env sample_report sample_report_signature [] = (rows, Inr (sample_hash (benchmark_json sample_report), True))
     \<and> rows \<noteq> []"
proof -
  have k: "b58_decode sample_crypto sample_worker = Some (checksum (utf8 sample_worker))" by (simp add: sample_crypto_def)
  have "length sample_report_signature \<le> 100" unfolding sample_report_signature_def length_toBase64 by (simp add: sample_crypto_def)
  from honest_benchmark_accepted [OF sample_run_benchmark sample_bench_agrees _ _ this, of checksum "sample_hash (benchmark_json sample_report)" "[]"]
  show ?thesis using sample_signature_law k by (auto simp: sample_bench_facts)
qed

end
