(* ===== verification/Program.thy ===== *)
theory Program
  imports Accounts AgentPolicy
begin

text \<open>
  The on-chain program, \<^verbatim>\<open>programs/compute-market/src/lib.rs\<close>: one definition per instruction on a
  ledger that holds the program's accounts by address, the token accounts and the clock. The
  account structs of an instruction (\<^verbatim>\<open>has_one\<close>, \<^verbatim>\<open>seeds\<close>, \<^verbatim>\<open>address\<close>, \<^verbatim>\<open>constraint\<close>, \<^verbatim>\<open>init\<close>) are
  its first guards and fail with \<open>Constraint\<close>; an account whose address a constraint determines is
  not a separate argument. The signer is the argument the struct types as \<^verbatim>\<open>Signer\<close>. The release
  profile has \<^verbatim>\<open>overflow-checks\<close>, so unchecked arithmetic that leaves its type aborts with
  \<open>Panic\<close>. Rent, bumps and log output are not modelled; the events are.

  The SPL token program, the derivation of program addresses and the upgrade authority are
  parameters. \<open>token_contract\<close> states what a checked transfer does when it succeeds.
\<close>

section \<open>State\<close>

datatype market_error =
    Unauthorized | State | Paused | Bounds | Expired | Overflow | Capacity
  | Constraint \<comment> \<open>an account constraint of the framework, or data that does not decode\<close>
  | Panic \<comment> \<open>an overflow check of the compiler\<close>
  | TokenFailure \<comment> \<open>the token program refuses\<close>

record config_account =
  cf_admin :: string
  cf_mint :: string
  cf_treasury :: string
  cf_verifier :: string
  cf_resolver :: string
  cf_feeBps :: int
  cf_disputeSeconds :: int
  cf_paused :: bool

record token_account =
  tk_mint :: string
  tk_owner :: string
  tk_amount :: int
  tk_delegate :: "string option"
  tk_delegatedAmount :: int

type_synonym token_state = "string \<rightharpoonup> token_account"

datatype market_event =
    JobChanged string int
  | StakeChanged string int int int

record ledger =
  lg_config :: "config_account option"
  lg_providers :: "string \<rightharpoonup> provider_account"
  lg_stakes :: "string \<rightharpoonup> stake_account"
  lg_policies :: "string \<rightharpoonup> policy_account"
  lg_workers :: "string \<rightharpoonup> worker_account"
  lg_machines :: "string \<rightharpoonup> machine_account"
  lg_offers :: "string \<rightharpoonup> offer_account"
  lg_bids :: "string \<rightharpoonup> bid_account"
  lg_jobs :: "string \<rightharpoonup> job_account"
  lg_tokens :: token_state
  lg_now :: int
  lg_events :: "market_event list"

record program_env =
  pe_crypto :: crypto
  pe_pda :: "seed list \<Rightarrow> string"
  pe_upgradeAuthority :: string
  pe_transfer :: "token_state \<Rightarrow> string \<Rightarrow> string \<Rightarrow> string \<Rightarrow> string \<Rightarrow> int \<Rightarrow> token_state option"

type_synonym effect = "market_error + ledger"

text \<open>\<^verbatim>\<open>Pubkey::default()\<close> and \<^verbatim>\<open>[0; 32]\<close>, the values of fields never written.\<close>

definition default_key :: string where
  "default_key = replicate 32 (CHR ''1'')"

definition zero32 :: buffer where
  "zero32 = replicate 32 0"

section \<open>Numbers\<close>

definition u64 :: "int \<Rightarrow> bool" where
  "u64 x \<longleftrightarrow> 0 \<le> x \<and> x \<le> 18446744073709551615"

definition u32 :: "int \<Rightarrow> bool" where
  "u32 x \<longleftrightarrow> 0 \<le> x \<and> x \<le> 4294967295"

definition u16 :: "int \<Rightarrow> bool" where
  "u16 x \<longleftrightarrow> 0 \<le> x \<and> x \<le> 65535"

definition u8 :: "int \<Rightarrow> bool" where
  "u8 x \<longleftrightarrow> 0 \<le> x \<and> x \<le> 255"

definition i64 :: "int \<Rightarrow> bool" where
  "i64 x \<longleftrightarrow> - 9223372036854775808 \<le> x \<and> x \<le> 9223372036854775807"

definition bytes32 :: "buffer \<Rightarrow> bool" where
  "bytes32 b \<longleftrightarrow> length b = 32"

text \<open>\<^verbatim>\<open>checked_add(..).ok_or(Overflow)\<close> and its likes on \<^verbatim>\<open>u64\<close>, and \<^verbatim>\<open>+\<close> on \<^verbatim>\<open>i64\<close>.\<close>

definition checked :: "int \<Rightarrow> market_error + int" where
  "checked x = (if u64 x then Inr x else Inl Overflow)"

definition plain_i64 :: "int \<Rightarrow> market_error + int" where
  "plain_i64 x = (if i64 x then Inr x else Inl Panic)"

lemma checked_eq [outcome_simps]: "checked x = Inr y \<longleftrightarrow> y = x \<and> u64 x"
  by (auto simp: checked_def)

lemma plain_i64_eq [outcome_simps]: "plain_i64 x = Inr y \<longleftrightarrow> y = x \<and> i64 x"
  by (auto simp: plain_i64_def)

section \<open>Accounts of an instruction\<close>

definition load :: "(string \<rightharpoonup> 'a) \<Rightarrow> string \<Rightarrow> market_error + 'a" where
  "load m k = (case m k of None \<Rightarrow> Inl Constraint | Some a \<Rightarrow> Inr a)"

lemma load_eq [outcome_simps]: "load m k = Inr a \<longleftrightarrow> m k = Some a"
  by (simp add: load_def split: option.split)

definition load_config :: "ledger \<Rightarrow> market_error + config_account" where
  "load_config L = (case lg_config L of None \<Rightarrow> Inl Constraint | Some c \<Rightarrow> Inr c)"

lemma load_config_eq [outcome_simps]: "load_config L = Inr c \<longleftrightarrow> lg_config L = Some c"
  by (simp add: load_config_def split: option.split)

text \<open>\<^verbatim>\<open>init\<close> fails on an address that is in use.\<close>

definition vacant :: "ledger \<Rightarrow> string \<Rightarrow> bool" where
  "vacant L a \<longleftrightarrow> lg_providers L a = None \<and> lg_stakes L a = None \<and> lg_policies L a = None
     \<and> lg_workers L a = None \<and> lg_machines L a = None \<and> lg_offers L a = None \<and> lg_bids L a = None
     \<and> lg_jobs L a = None \<and> lg_tokens L a = None"

text \<open>\<^verbatim>\<open>token::mint = mint, token::authority = owner\<close>\<close>

definition token_ok :: "ledger \<Rightarrow> string \<Rightarrow> string \<Rightarrow> string \<Rightarrow> bool" where
  "token_ok L a mint owner \<longleftrightarrow> (case lg_tokens L a of None \<Rightarrow> False | Some t \<Rightarrow> tk_mint t = mint \<and> tk_owner t = owner)"

definition new_token :: "string \<Rightarrow> string \<Rightarrow> token_account" where
  "new_token mint owner = \<lparr>tk_mint = mint, tk_owner = owner, tk_amount = 0, tk_delegate = None, tk_delegatedAmount = 0\<rparr>"

definition worker_key :: "program_env \<Rightarrow> string \<Rightarrow> string \<Rightarrow> string" where
  "worker_key env provider worker = pe_pda env [Text ''worker'', Key provider, Key worker]"

definition job_key :: "program_env \<Rightarrow> string \<Rightarrow> buffer \<Rightarrow> string" where
  "job_key env buyer i = pe_pda env [Text ''job'', Key buyer, Bytes i]"

definition escrow_key :: "program_env \<Rightarrow> string \<Rightarrow> string" where
  "escrow_key env job = pe_pda env [Text ''escrow'', Key job]"

definition policy_key :: "program_env \<Rightarrow> string \<Rightarrow> string \<Rightarrow> string" where
  "policy_key env owner agent = pe_pda env [Text ''agent-policy'', Key owner, Key agent]"

definition stake_key :: "program_env \<Rightarrow> string \<Rightarrow> string" where
  "stake_key env provider = pe_pda env [Text ''stake'', Key provider]"

definition vault_key :: "program_env \<Rightarrow> string \<Rightarrow> string" where
  "vault_key env provider = pe_pda env [Text ''stake-vault'', Key provider]"

section \<open>Writing accounts\<close>

definition put_provider :: "string \<Rightarrow> provider_account \<Rightarrow> ledger \<Rightarrow> ledger" where
  "put_provider k a L = L\<lparr>lg_providers := (lg_providers L)(k \<mapsto> a)\<rparr>"

definition put_stake :: "string \<Rightarrow> stake_account \<Rightarrow> ledger \<Rightarrow> ledger" where
  "put_stake k a L = L\<lparr>lg_stakes := (lg_stakes L)(k \<mapsto> a)\<rparr>"

definition put_policy :: "string \<Rightarrow> policy_account \<Rightarrow> ledger \<Rightarrow> ledger" where
  "put_policy k a L = L\<lparr>lg_policies := (lg_policies L)(k \<mapsto> a)\<rparr>"

definition put_worker :: "string \<Rightarrow> worker_account \<Rightarrow> ledger \<Rightarrow> ledger" where
  "put_worker k a L = L\<lparr>lg_workers := (lg_workers L)(k \<mapsto> a)\<rparr>"

definition put_machine :: "string \<Rightarrow> machine_account \<Rightarrow> ledger \<Rightarrow> ledger" where
  "put_machine k a L = L\<lparr>lg_machines := (lg_machines L)(k \<mapsto> a)\<rparr>"

definition put_offer :: "string \<Rightarrow> offer_account \<Rightarrow> ledger \<Rightarrow> ledger" where
  "put_offer k a L = L\<lparr>lg_offers := (lg_offers L)(k \<mapsto> a)\<rparr>"

definition put_bid :: "string \<Rightarrow> bid_account \<Rightarrow> ledger \<Rightarrow> ledger" where
  "put_bid k a L = L\<lparr>lg_bids := (lg_bids L)(k \<mapsto> a)\<rparr>"

definition put_job :: "string \<Rightarrow> job_account \<Rightarrow> ledger \<Rightarrow> ledger" where
  "put_job k a L = L\<lparr>lg_jobs := (lg_jobs L)(k \<mapsto> a)\<rparr>"

definition put_token :: "string \<Rightarrow> token_account \<Rightarrow> ledger \<Rightarrow> ledger" where
  "put_token k a L = L\<lparr>lg_tokens := (lg_tokens L)(k \<mapsto> a)\<rparr>"

definition emit :: "market_event \<Rightarrow> ledger \<Rightarrow> ledger" where
  "emit e L = L\<lparr>lg_events := lg_events L @ [e]\<rparr>"

definition emit_state :: "string \<Rightarrow> int \<Rightarrow> ledger \<Rightarrow> ledger" where
  "emit_state job st = emit (JobChanged job st)"

definition emit_stake :: "string \<Rightarrow> int \<Rightarrow> int \<Rightarrow> int \<Rightarrow> ledger \<Rightarrow> ledger" where
  "emit_stake provider action amount balance = emit (StakeChanged provider action amount balance)"

text \<open>\<^verbatim>\<open>token::transfer_checked\<close>\<close>

definition transfer_checked :: "program_env \<Rightarrow> string \<Rightarrow> string \<Rightarrow> string \<Rightarrow> string \<Rightarrow> int \<Rightarrow> ledger \<Rightarrow> effect" where
  "transfer_checked env src mint dst authority amount L =
     (case pe_transfer env (lg_tokens L) src mint dst authority amount of
        None \<Rightarrow> Inl TokenFailure
      | Some ts \<Rightarrow> Inr (L\<lparr>lg_tokens := ts\<rparr>))"

lemma transfer_checked_eq [outcome_simps]:
  "transfer_checked env src mint dst authority amount L = Inr L'
     \<longleftrightarrow> (\<exists>ts. pe_transfer env (lg_tokens L) src mint dst authority amount = Some ts \<and> L' = L\<lparr>lg_tokens := ts\<rparr>)"
  by (auto simp: transfer_checked_def split: option.split)

section \<open>Helpers of the program\<close>

definition active_worker :: "worker_account \<Rightarrow> int \<Rightarrow> market_error + unit" where
  "active_worker w now = guard (wa_active w \<and> now < wa_expiresAt w) Unauthorized"

fun membership_node :: "crypto \<Rightarrow> buffer \<Rightarrow> buffer list \<Rightarrow> buffer" where
  "membership_node cr node [] = node"
| "membership_node cr node (sibling # rest) =
     membership_node cr (if node \<le> sibling then sha256_raw cr (node @ sibling) else sha256_raw cr (sibling @ node)) rest"

definition verify_spec_membership :: "crypto \<Rightarrow> buffer \<Rightarrow> buffer list \<Rightarrow> buffer \<Rightarrow> market_error + unit" where
  "verify_spec_membership cr spec_hash prf spec_root =
     andThen (guard (length prf \<le> 16) Bounds) (\<lambda>_.
     guard (membership_node cr spec_hash prf = spec_root) Unauthorized)"

record policy_args =
  pa_dailySpendLimit :: int
  pa_singleJobLimit :: int
  pa_maxRuntimeSeconds :: int
  pa_requiredVerification :: int
  pa_allowedSpecsRoot :: buffer
  pa_expiresAt :: int

definition policy_args_ok :: "policy_args \<Rightarrow> bool" where
  "policy_args_ok a \<longleftrightarrow> u64 (pa_dailySpendLimit a) \<and> u64 (pa_singleJobLimit a) \<and> u32 (pa_maxRuntimeSeconds a)
     \<and> u8 (pa_requiredVerification a) \<and> bytes32 (pa_allowedSpecsRoot a) \<and> i64 (pa_expiresAt a)"

definition validate_agent_policy :: "policy_args \<Rightarrow> int \<Rightarrow> market_error + unit" where
  "validate_agent_policy a now = guard (0 < pa_dailySpendLimit a \<and> 0 < pa_singleJobLimit a
     \<and> pa_singleJobLimit a \<le> pa_dailySpendLimit a \<and> 1 \<le> pa_maxRuntimeSeconds a \<and> pa_maxRuntimeSeconds a \<le> 86400
     \<and> pa_requiredVerification a \<le> 5 \<and> pa_allowedSpecsRoot a \<noteq> zero32 \<and> now < pa_expiresAt a) Bounds"

text \<open>The product is taken in 128 bits and the quotient cast back to 64.\<close>

definition split_escrow :: "int \<Rightarrow> int \<Rightarrow> int \<Rightarrow> market_error + int \<times> int \<times> int" where
  "split_escrow deposit price fee_bps =
     andThen (guard (fee_bps \<le> 300 \<and> price \<le> deposit) Bounds) (\<lambda>_.
     andThen (if price * fee_bps < 2 ^ 128 then Inr (price * fee_bps) else Inl Overflow) (\<lambda>product.
     let fee = (product div 10000) mod 2 ^ 64 in
     andThen (checked (price - fee)) (\<lambda>payment.
     andThen (checked (deposit - price)) (\<lambda>refund. Inr (payment, fee, refund)))))"

section \<open>Protocol and providers\<close>

definition initialize_protocol ::
  "program_env \<Rightarrow> string \<Rightarrow> string \<Rightarrow> string \<Rightarrow> string \<Rightarrow> int \<Rightarrow> int \<Rightarrow> ledger \<Rightarrow> effect" where
  "initialize_protocol env admin mint treasury verifier fee_bps dispute_seconds L =
     andThen (guard (u16 fee_bps \<and> i64 dispute_seconds \<and> lg_config L = None) Constraint) (\<lambda>_.
     andThen (guard (pe_upgradeAuthority env = admin) Unauthorized) (\<lambda>_.
     andThen (guard (fee_bps \<le> 300 \<and> 1 \<le> dispute_seconds \<and> dispute_seconds \<le> 604800) Bounds) (\<lambda>_.
     Inr (L\<lparr>lg_config := Some \<lparr>cf_admin = admin, cf_mint = mint, cf_treasury = treasury, cf_verifier = verifier,
       cf_resolver = admin, cf_feeBps = fee_bps, cf_disputeSeconds = dispute_seconds, cf_paused = False\<rparr>\<rparr>))))"

definition pause_protocol :: "string \<Rightarrow> bool \<Rightarrow> ledger \<Rightarrow> effect" where
  "pause_protocol admin paused L =
     andThen (load_config L) (\<lambda>c.
     andThen (guard (cf_admin c = admin) Constraint) (\<lambda>_.
     Inr (L\<lparr>lg_config := Some (c\<lparr>cf_paused := paused\<rparr>)\<rparr>)))"

definition update_protocol :: "string \<Rightarrow> int \<Rightarrow> int \<Rightarrow> string \<Rightarrow> string \<Rightarrow> string \<Rightarrow> ledger \<Rightarrow> effect" where
  "update_protocol admin fee_bps dispute_seconds treasury verifier resolver L =
     andThen (load_config L) (\<lambda>c.
     andThen (guard (u16 fee_bps \<and> i64 dispute_seconds \<and> cf_admin c = admin) Constraint) (\<lambda>_.
     andThen (guard (fee_bps \<le> 300 \<and> 1 \<le> dispute_seconds \<and> dispute_seconds \<le> 604800) Bounds) (\<lambda>_.
     Inr (L\<lparr>lg_config := Some (c\<lparr>cf_feeBps := fee_bps, cf_disputeSeconds := dispute_seconds,
       cf_treasury := treasury, cf_verifier := verifier, cf_resolver := resolver\<rparr>)\<rparr>))))"

definition register_provider :: "program_env \<Rightarrow> string \<Rightarrow> buffer \<Rightarrow> ledger \<Rightarrow> effect" where
  "register_provider env authority metadata_hash L =
     (let provider = pe_pda env [Text ''provider'', Key authority] in
     andThen (load_config L) (\<lambda>c.
     andThen (guard (bytes32 metadata_hash \<and> vacant L provider) Constraint) (\<lambda>_.
     andThen (guard (\<not> cf_paused c) Paused) (\<lambda>_.
     Inr (put_provider provider \<lparr>pr_authority = authority, pr_metadataHash = metadata_hash, pr_active = True,
       pr_completed = 0, pr_failed = 0\<rparr> L)))))"

definition update_provider :: "string \<Rightarrow> string \<Rightarrow> buffer \<Rightarrow> bool \<Rightarrow> ledger \<Rightarrow> effect" where
  "update_provider authority provider metadata_hash active L =
     andThen (load (lg_providers L) provider) (\<lambda>p.
     andThen (guard (bytes32 metadata_hash \<and> pr_authority p = authority) Constraint) (\<lambda>_.
     Inr (put_provider provider (p\<lparr>pr_metadataHash := metadata_hash, pr_active := active\<rparr>) L)))"

section \<open>Agent policies\<close>

definition create_agent_policy :: "program_env \<Rightarrow> string \<Rightarrow> string \<Rightarrow> policy_args \<Rightarrow> ledger \<Rightarrow> effect" where
  "create_agent_policy env owner agent a L =
     andThen (load_config L) (\<lambda>c.
     andThen (guard (policy_args_ok a \<and> vacant L (policy_key env owner agent)) Constraint) (\<lambda>_.
     andThen (validate_agent_policy a (lg_now L)) (\<lambda>_.
     Inr (put_policy (policy_key env owner agent)
       \<lparr>ap_owner = owner, ap_agent = agent, ap_mint = cf_mint c,
        ap_dailySpendLimit = pa_dailySpendLimit a, ap_singleJobLimit = pa_singleJobLimit a,
        ap_maxRuntimeSeconds = pa_maxRuntimeSeconds a, ap_requiredVerification = pa_requiredVerification a,
        ap_allowedSpecsRoot = pa_allowedSpecsRoot a, ap_expiresAt = pa_expiresAt a,
        ap_dayIndex = lg_now L div 86400, ap_dailySpent = 0, ap_active = True\<rparr> L))))"

text \<open>\<^verbatim>\<open>ManageAgentPolicy\<close>: the owner signs and the address is the canonical one.\<close>

definition managed_policy :: "program_env \<Rightarrow> string \<Rightarrow> string \<Rightarrow> ledger \<Rightarrow> market_error + policy_account" where
  "managed_policy env owner key L =
     andThen (load (lg_policies L) key) (\<lambda>p.
     andThen (guard (ap_owner p = owner \<and> key = policy_key env owner (ap_agent p)) Constraint) (\<lambda>_. Inr p))"

definition update_agent_policy :: "program_env \<Rightarrow> string \<Rightarrow> string \<Rightarrow> policy_args \<Rightarrow> ledger \<Rightarrow> effect" where
  "update_agent_policy env owner key a L =
     andThen (managed_policy env owner key L) (\<lambda>p.
     andThen (guard (policy_args_ok a) Constraint) (\<lambda>_.
     andThen (validate_agent_policy a (lg_now L)) (\<lambda>_.
     andThen (guard (ap_dailySpent p \<le> pa_dailySpendLimit a) Bounds) (\<lambda>_.
     Inr (put_policy key (p\<lparr>ap_dailySpendLimit := pa_dailySpendLimit a, ap_singleJobLimit := pa_singleJobLimit a,
       ap_maxRuntimeSeconds := pa_maxRuntimeSeconds a, ap_requiredVerification := pa_requiredVerification a,
       ap_allowedSpecsRoot := pa_allowedSpecsRoot a, ap_expiresAt := pa_expiresAt a, ap_active := True\<rparr>) L)))))"

definition revoke_agent_policy :: "program_env \<Rightarrow> string \<Rightarrow> string \<Rightarrow> ledger \<Rightarrow> effect" where
  "revoke_agent_policy env owner key L =
     andThen (managed_policy env owner key L) (\<lambda>p. Inr (put_policy key (p\<lparr>ap_active := False\<rparr>) L))"

section \<open>Provider stake\<close>

abbreviation (input) STAKE_COOLDOWN_SECONDS :: int where "STAKE_COOLDOWN_SECONDS \<equiv> 604800"

definition initialize_provider_stake :: "program_env \<Rightarrow> string \<Rightarrow> string \<Rightarrow> ledger \<Rightarrow> effect" where
  "initialize_provider_stake env authority provider L =
     andThen (load_config L) (\<lambda>c.
     andThen (load (lg_providers L) provider) (\<lambda>p.
     andThen (guard (pr_authority p = authority \<and> vacant L (stake_key env provider) \<and> vacant L (vault_key env provider)) Constraint) (\<lambda>_.
     Inr (put_token (vault_key env provider) (new_token (cf_mint c) (stake_key env provider))
       (put_stake (stake_key env provider) \<lparr>st_provider = provider, st_mint = cf_mint c, st_deposited = 0,
          st_pendingWithdrawal = 0, st_unlockAt = 0, st_totalSlashed = 0\<rparr> L)))))"

text \<open>The provider of the signing authority and its stake at the canonical address.\<close>

definition managed_stake :: "program_env \<Rightarrow> string \<Rightarrow> string \<Rightarrow> ledger \<Rightarrow> market_error + stake_account" where
  "managed_stake env authority provider L =
     andThen (load (lg_providers L) provider) (\<lambda>p.
     andThen (load (lg_stakes L) (stake_key env provider)) (\<lambda>st.
     andThen (guard (pr_authority p = authority \<and> st_provider st = provider) Constraint) (\<lambda>_. Inr st)))"

definition deposit_stake :: "program_env \<Rightarrow> string \<Rightarrow> string \<Rightarrow> string \<Rightarrow> int \<Rightarrow> ledger \<Rightarrow> effect" where
  "deposit_stake env authority provider source amount L =
     andThen (managed_stake env authority provider L) (\<lambda>st.
     andThen (guard (u64 amount \<and> token_ok L source (st_mint st) authority
       \<and> token_ok L (vault_key env provider) (st_mint st) (stake_key env provider)) Constraint) (\<lambda>_.
     andThen (guard (0 < amount) Bounds) (\<lambda>_.
     andThen (transfer_checked env source (st_mint st) (vault_key env provider) authority amount L) (\<lambda>L1.
     andThen (checked (st_deposited st + amount)) (\<lambda>deposited.
     Inr (emit_stake (st_provider st) 0 amount deposited
       (put_stake (stake_key env provider) (st\<lparr>st_deposited := deposited\<rparr>) L1)))))))"

definition request_unstake :: "program_env \<Rightarrow> string \<Rightarrow> string \<Rightarrow> int \<Rightarrow> ledger \<Rightarrow> effect" where
  "request_unstake env authority provider amount L =
     andThen (managed_stake env authority provider L) (\<lambda>st.
     andThen (guard (u64 amount) Constraint) (\<lambda>_.
     andThen (guard (0 < amount \<and> amount \<le> st_deposited st) Bounds) (\<lambda>_.
     andThen (if i64 (lg_now L + STAKE_COOLDOWN_SECONDS) then Inr (lg_now L + STAKE_COOLDOWN_SECONDS) else Inl Overflow) (\<lambda>unlock.
     Inr (emit_stake (st_provider st) 1 amount (st_deposited st)
       (put_stake (stake_key env provider) (st\<lparr>st_pendingWithdrawal := amount, st_unlockAt := unlock\<rparr>) L))))))"

definition cancel_unstake :: "program_env \<Rightarrow> string \<Rightarrow> string \<Rightarrow> ledger \<Rightarrow> effect" where
  "cancel_unstake env authority provider L =
     andThen (managed_stake env authority provider L) (\<lambda>st.
     andThen (guard (0 < st_pendingWithdrawal st) State) (\<lambda>_.
     Inr (emit_stake (st_provider st) 2 (st_pendingWithdrawal st) (st_deposited st)
       (put_stake (stake_key env provider) (st\<lparr>st_pendingWithdrawal := 0, st_unlockAt := 0\<rparr>) L))))"

definition withdraw_stake :: "program_env \<Rightarrow> string \<Rightarrow> string \<Rightarrow> string \<Rightarrow> ledger \<Rightarrow> effect" where
  "withdraw_stake env authority provider destination L =
     andThen (managed_stake env authority provider L) (\<lambda>st.
     andThen (guard (token_ok L (vault_key env provider) (st_mint st) (stake_key env provider)
       \<and> token_ok L destination (st_mint st) authority) Constraint) (\<lambda>_.
     let amount = st_pendingWithdrawal st in
     andThen (guard (0 < amount \<and> amount \<le> st_deposited st \<and> st_unlockAt st \<le> lg_now L) State) (\<lambda>_.
     andThen (transfer_checked env (vault_key env provider) (st_mint st) destination (stake_key env provider) amount L) (\<lambda>L1.
     andThen (checked (st_deposited st - amount)) (\<lambda>deposited.
     Inr (emit_stake (st_provider st) 3 amount deposited
       (put_stake (stake_key env provider) (st\<lparr>st_deposited := deposited, st_pendingWithdrawal := 0, st_unlockAt := 0\<rparr>) L1)))))))"

definition slash_stake :: "program_env \<Rightarrow> string \<Rightarrow> string \<Rightarrow> string \<Rightarrow> int \<Rightarrow> ledger \<Rightarrow> effect" where
  "slash_stake env resolver provider treasury amount L =
     andThen (load_config L) (\<lambda>c.
     andThen (load (lg_providers L) provider) (\<lambda>_.
     andThen (load (lg_stakes L) (stake_key env provider)) (\<lambda>st.
     andThen (guard (u64 amount \<and> cf_resolver c = resolver \<and> st_provider st = provider \<and> cf_mint c = st_mint st
       \<and> token_ok L (vault_key env provider) (st_mint st) (stake_key env provider)
       \<and> token_ok L treasury (st_mint st) (cf_treasury c)) Constraint) (\<lambda>_.
     andThen (guard (0 < amount \<and> amount \<le> st_deposited st) Bounds) (\<lambda>_.
     andThen (transfer_checked env (vault_key env provider) (st_mint st) treasury (stake_key env provider) amount L) (\<lambda>L1.
     andThen (checked (st_deposited st - amount)) (\<lambda>deposited.
     andThen (checked (st_totalSlashed st + amount)) (\<lambda>slashed.
     let pending = min (st_pendingWithdrawal st) deposited in
     Inr (emit_stake (st_provider st) 4 amount deposited
       (put_stake (stake_key env provider) (st\<lparr>st_deposited := deposited, st_totalSlashed := slashed,
          st_pendingWithdrawal := pending, st_unlockAt := (if pending = 0 then 0 else st_unlockAt st)\<rparr>) L1))))))))))"

section \<open>Workers and machines\<close>

definition authorize_worker :: "program_env \<Rightarrow> string \<Rightarrow> string \<Rightarrow> string \<Rightarrow> int \<Rightarrow> ledger \<Rightarrow> effect" where
  "authorize_worker env authority provider worker expires_at L =
     andThen (load (lg_providers L) provider) (\<lambda>p.
     andThen (guard (i64 expires_at \<and> pr_authority p = authority \<and> provider = pe_pda env [Text ''provider'', Key authority]
       \<and> vacant L (worker_key env provider worker)) Constraint) (\<lambda>_.
     andThen (guard (lg_now L < expires_at) Expired) (\<lambda>_.
     Inr (put_worker (worker_key env provider worker)
       \<lparr>wa_provider = provider, wa_worker = worker, wa_active = True, wa_expiresAt = expires_at\<rparr> L))))"

text \<open>The provider of the signing authority, and its worker authorisation at the canonical address.\<close>

definition managed_provider :: "string \<Rightarrow> string \<Rightarrow> ledger \<Rightarrow> market_error + provider_account" where
  "managed_provider authority provider L =
     andThen (load (lg_providers L) provider) (\<lambda>p.
     andThen (guard (pr_authority p = authority) Constraint) (\<lambda>_. Inr p))"

definition managed_worker :: "program_env \<Rightarrow> string \<Rightarrow> string \<Rightarrow> ledger \<Rightarrow> market_error + worker_account" where
  "managed_worker env provider auth L =
     andThen (load (lg_workers L) auth) (\<lambda>w.
     andThen (guard (wa_provider w = provider \<and> auth = worker_key env provider (wa_worker w)) Constraint) (\<lambda>_. Inr w))"

definition revoke_worker :: "program_env \<Rightarrow> string \<Rightarrow> string \<Rightarrow> string \<Rightarrow> ledger \<Rightarrow> effect" where
  "revoke_worker env authority provider auth L =
     andThen (managed_provider authority provider L) (\<lambda>_.
     andThen (managed_worker env provider auth L) (\<lambda>w.
     Inr (put_worker auth (w\<lparr>wa_active := False\<rparr>) L)))"

definition rotate_worker :: "program_env \<Rightarrow> string \<Rightarrow> string \<Rightarrow> string \<Rightarrow> string \<Rightarrow> int \<Rightarrow> ledger \<Rightarrow> effect" where
  "rotate_worker env authority provider old_auth new_worker expires_at L =
     andThen (managed_provider authority provider L) (\<lambda>_.
     andThen (managed_worker env provider old_auth L) (\<lambda>w.
     andThen (guard (i64 expires_at \<and> vacant L (worker_key env provider new_worker)) Constraint) (\<lambda>_.
     andThen (guard (lg_now L < expires_at) Expired) (\<lambda>_.
     andThen (guard (wa_worker w \<noteq> new_worker) Bounds) (\<lambda>_.
     Inr (put_worker (worker_key env provider new_worker)
       \<lparr>wa_provider = provider, wa_worker = new_worker, wa_active = True, wa_expiresAt = expires_at\<rparr>
       (put_worker old_auth (w\<lparr>wa_active := False\<rparr>) L)))))))"

definition inventory_ok :: "int \<Rightarrow> int \<Rightarrow> bool" where
  "inventory_ok gpus vram_mb \<longleftrightarrow>
     gpus \<le> 16 \<and> (gpus = 0 \<and> vram_mb = 0 \<or> 0 < gpus \<and> 0 < vram_mb)"

definition register_machine ::
  "program_env \<Rightarrow> string \<Rightarrow> string \<Rightarrow> string \<Rightarrow> buffer \<Rightarrow> buffer \<Rightarrow> int \<Rightarrow> int \<Rightarrow> ledger \<Rightarrow> effect" where
  "register_machine env authority provider auth i hardware_hash gpus vram_mb L =
     (let machine = pe_pda env [Text ''machine'', Key provider, Bytes i] in
     andThen (managed_provider authority provider L) (\<lambda>_.
     andThen (load (lg_workers L) auth) (\<lambda>w.
     andThen (guard (bytes32 i \<and> bytes32 hardware_hash \<and> u16 gpus \<and> u32 vram_mb \<and> wa_provider w = provider) Constraint) (\<lambda>_.
     andThen (guard (wa_active w) Unauthorized) (\<lambda>_.
     andThen (guard (vacant L machine) Constraint) (\<lambda>_.
     andThen (guard (inventory_ok gpus vram_mb) Bounds) (\<lambda>_.
     Inr (put_machine machine \<lparr>mc_provider = provider, mc_worker = wa_worker w, mc_id = i, mc_hardwareHash = hardware_hash,
       mc_gpuCount = gpus, mc_vramMb = vram_mb, mc_active = True, mc_busy = False, mc_activeJob = default_key,
       mc_completed = 0, mc_failed = 0\<rparr> L))))))))"

definition managed_machine :: "string \<Rightarrow> string \<Rightarrow> string \<Rightarrow> ledger \<Rightarrow> market_error + machine_account" where
  "managed_machine authority provider machine L =
     andThen (managed_provider authority provider L) (\<lambda>_.
     andThen (load (lg_machines L) machine) (\<lambda>m.
     andThen (guard (mc_provider m = provider) Constraint) (\<lambda>_. Inr m)))"

definition update_machine ::
  "string \<Rightarrow> string \<Rightarrow> string \<Rightarrow> string \<Rightarrow> buffer \<Rightarrow> int \<Rightarrow> int \<Rightarrow> ledger \<Rightarrow> effect" where
  "update_machine authority provider machine auth hardware_hash gpus vram_mb L =
     andThen (managed_machine authority provider machine L) (\<lambda>m.
     andThen (load (lg_workers L) auth) (\<lambda>w.
     andThen (guard (bytes32 hardware_hash \<and> u16 gpus \<and> u32 vram_mb \<and> wa_provider w = provider) Constraint) (\<lambda>_.
     andThen (guard (wa_active w) Unauthorized) (\<lambda>_.
     andThen (guard (\<not> mc_busy m \<and> inventory_ok gpus vram_mb \<and> hardware_hash \<noteq> zero32) Bounds) (\<lambda>_.
     andThen (active_worker w (lg_now L)) (\<lambda>_.
     Inr (put_machine machine (m\<lparr>mc_worker := wa_worker w, mc_hardwareHash := hardware_hash,
       mc_gpuCount := gpus, mc_vramMb := vram_mb\<rparr>) L)))))))"

definition deactivate_machine :: "string \<Rightarrow> string \<Rightarrow> string \<Rightarrow> ledger \<Rightarrow> effect" where
  "deactivate_machine authority provider machine L =
     andThen (managed_machine authority provider machine L) (\<lambda>m.
     andThen (guard (\<not> mc_busy m) Capacity) (\<lambda>_.
     Inr (put_machine machine (m\<lparr>mc_active := False\<rparr>) L)))"

section \<open>Offers\<close>

definition offer_terms_ok :: "int \<Rightarrow> int \<Rightarrow> int \<Rightarrow> int \<Rightarrow> int \<Rightarrow> bool" where
  "offer_terms_ok per_second min_seconds max_seconds expires_at now \<longleftrightarrow>
     0 < per_second \<and> 0 < min_seconds \<and> min_seconds \<le> max_seconds \<and> max_seconds \<le> 86400 \<and> now < expires_at"

definition create_offer ::
  "program_env \<Rightarrow> string \<Rightarrow> string \<Rightarrow> string \<Rightarrow> buffer \<Rightarrow> int \<Rightarrow> int \<Rightarrow> int \<Rightarrow> int \<Rightarrow> ledger \<Rightarrow> effect" where
  "create_offer env authority provider machine i per_second min_seconds max_seconds expires_at L =
     (let offer = pe_pda env [Text ''offer'', Key machine, Bytes i] in
     andThen (managed_machine authority provider machine L) (\<lambda>_.
     andThen (guard (bytes32 i \<and> u64 per_second \<and> u32 min_seconds \<and> u32 max_seconds \<and> i64 expires_at \<and> vacant L offer) Constraint) (\<lambda>_.
     andThen (guard (offer_terms_ok per_second min_seconds max_seconds expires_at (lg_now L)) Bounds) (\<lambda>_.
     Inr (put_offer offer \<lparr>of_machine = machine, of_id = i, of_rate = per_second, of_minSeconds = min_seconds,
       of_maxSeconds = max_seconds, of_expiresAt = expires_at, of_active = True\<rparr> L)))))"

definition managed_offer :: "string \<Rightarrow> string \<Rightarrow> string \<Rightarrow> string \<Rightarrow> ledger \<Rightarrow> market_error + offer_account" where
  "managed_offer authority provider machine offer L =
     andThen (managed_machine authority provider machine L) (\<lambda>_.
     andThen (load (lg_offers L) offer) (\<lambda>a.
     andThen (guard (of_machine a = machine) Constraint) (\<lambda>_. Inr a)))"

definition pause_offer :: "string \<Rightarrow> string \<Rightarrow> string \<Rightarrow> string \<Rightarrow> bool \<Rightarrow> ledger \<Rightarrow> effect" where
  "pause_offer authority provider machine offer paused L =
     andThen (managed_offer authority provider machine offer L) (\<lambda>a.
     Inr (put_offer offer (a\<lparr>of_active := \<not> paused\<rparr>) L))"

definition update_offer ::
  "string \<Rightarrow> string \<Rightarrow> string \<Rightarrow> string \<Rightarrow> int \<Rightarrow> int \<Rightarrow> int \<Rightarrow> int \<Rightarrow> ledger \<Rightarrow> effect" where
  "update_offer authority provider machine offer per_second min_seconds max_seconds expires_at L =
     andThen (managed_offer authority provider machine offer L) (\<lambda>a.
     andThen (guard (u64 per_second \<and> u32 min_seconds \<and> u32 max_seconds \<and> i64 expires_at) Constraint) (\<lambda>_.
     andThen (guard (offer_terms_ok per_second min_seconds max_seconds expires_at (lg_now L)) Bounds) (\<lambda>_.
     Inr (put_offer offer (a\<lparr>of_rate := per_second, of_minSeconds := min_seconds, of_maxSeconds := max_seconds,
       of_expiresAt := expires_at\<rparr>) L))))"

text \<open>\<^verbatim>\<open>close = authority\<close> removes the account.\<close>

definition close_offer :: "string \<Rightarrow> string \<Rightarrow> string \<Rightarrow> string \<Rightarrow> ledger \<Rightarrow> effect" where
  "close_offer authority provider machine offer L =
     andThen (managed_offer authority provider machine offer L) (\<lambda>_.
     andThen (load (lg_machines L) machine) (\<lambda>m.
     andThen (guard (\<not> mc_busy m) Capacity) (\<lambda>_.
     Inr (L\<lparr>lg_offers := (lg_offers L)(offer := None)\<rparr>))))"

section \<open>Assignment\<close>

text \<open>
  What every assignment writes: the job names its provider, machine, worker and price, and the
  machine is reserved for it.
\<close>

definition assign :: "string \<Rightarrow> job_account \<Rightarrow> string \<Rightarrow> provider_account \<Rightarrow> string \<Rightarrow> machine_account \<Rightarrow> string \<Rightarrow> int
    \<Rightarrow> ledger \<Rightarrow> ledger" where
  "assign job j provider p machine m worker price L =
     emit_state job st_ASSIGNED
       (put_machine machine (m\<lparr>mc_busy := True, mc_activeJob := job\<rparr>)
         (put_job job (j\<lparr>jb_provider := provider, jb_payout := pr_authority p, jb_machine := machine,
            jb_worker := worker, jb_price := price, jb_state := st_ASSIGNED\<rparr>) L))"

definition assign_offer :: "program_env \<Rightarrow> string \<Rightarrow> string \<Rightarrow> string \<Rightarrow> ledger \<Rightarrow> effect" where
  "assign_offer env buyer job offer L =
     andThen (load (lg_jobs L) job) (\<lambda>j.
     andThen (load (lg_offers L) offer) (\<lambda>a.
     andThen (load (lg_machines L) (of_machine a)) (\<lambda>m.
     andThen (load (lg_providers L) (mc_provider m)) (\<lambda>p.
     andThen (load (lg_workers L) (worker_key env (mc_provider m) (mc_worker m))) (\<lambda>w.
     andThen (guard (jb_buyer j = buyer \<and> wa_provider w = mc_provider m \<and> wa_worker w = mc_worker m) Constraint) (\<lambda>_.
     andThen (guard (jb_state j = st_OPEN \<and> lg_now L < jb_deadline j \<and> of_active a \<and> lg_now L < of_expiresAt a
       \<and> of_minSeconds a \<le> jb_timeout j \<and> jb_timeout j \<le> of_maxSeconds a) State) (\<lambda>_.
     andThen (active_worker w (lg_now L)) (\<lambda>_.
     andThen (guard (pr_active p \<and> mc_active m \<and> \<not> mc_busy m) Capacity) (\<lambda>_.
     andThen (guard (pr_authority p \<noteq> jb_verifier j) Unauthorized) (\<lambda>_.
     andThen (checked (of_rate a * jb_timeout j)) (\<lambda>price.
     andThen (guard (0 < price \<and> price \<le> jb_deposit j) Bounds) (\<lambda>_.
     Inr (assign job j (mc_provider m) p (of_machine a) m (mc_worker m) price L)))))))))))))"

section \<open>Creating and funding jobs\<close>

record job_args =
  ja_id :: buffer
  ja_specHash :: buffer
  ja_budget :: int
  ja_deadline :: int
  ja_timeout :: int
  ja_policy :: int

definition job_args_ok :: "job_args \<Rightarrow> bool" where
  "job_args_ok a \<longleftrightarrow> bytes32 (ja_id a) \<and> bytes32 (ja_specHash a) \<and> u64 (ja_budget a) \<and> i64 (ja_deadline a)
     \<and> u32 (ja_timeout a) \<and> u8 (ja_policy a)"

definition new_job :: "config_account \<Rightarrow> string \<Rightarrow> job_args \<Rightarrow> job_account" where
  "new_job c buyer a = \<lparr>jb_id = ja_id a, jb_buyer = buyer, jb_specHash = ja_specHash a, jb_mint = cf_mint c,
     jb_treasury = cf_treasury c, jb_verifier = cf_verifier c, jb_resolver = cf_resolver c, jb_provider = default_key,
     jb_payout = default_key, jb_machine = default_key, jb_worker = default_key, jb_receiptHash = zero32,
     jb_evidenceHash = zero32, jb_budget = ja_budget a, jb_deposit = 0, jb_price = 0, jb_providerPaid = 0,
     jb_feePaid = 0, jb_refunded = 0, jb_deadline = ja_deadline a, jb_startedAt = 0, jb_submittedAt = 0,
     jb_verifiedAt = 0, jb_disputeSeconds = cf_disputeSeconds c, jb_timeout = ja_timeout a, jb_feeBps = cf_feeBps c,
     jb_policy = ja_policy a, jb_state = st_CREATED, jb_settled = False, jb_resolved = False\<rparr>"

text \<open>The job and its escrow account are initialised together.\<close>

definition open_accounts :: "program_env \<Rightarrow> config_account \<Rightarrow> string \<Rightarrow> job_args \<Rightarrow> ledger \<Rightarrow> ledger" where
  "open_accounts env c buyer a L =
     (let job = job_key env buyer (ja_id a) in
      emit_state job st_CREATED (put_token (escrow_key env job) (new_token (cf_mint c) job) (put_job job (new_job c buyer a) L)))"

definition job_vacant :: "program_env \<Rightarrow> string \<Rightarrow> job_args \<Rightarrow> ledger \<Rightarrow> bool" where
  "job_vacant env buyer a L \<longleftrightarrow>
     vacant L (job_key env buyer (ja_id a)) \<and> vacant L (escrow_key env (job_key env buyer (ja_id a)))"

definition create_job :: "program_env \<Rightarrow> string \<Rightarrow> job_args \<Rightarrow> ledger \<Rightarrow> effect" where
  "create_job env buyer a L =
     andThen (load_config L) (\<lambda>c.
     andThen (guard (job_args_ok a \<and> job_vacant env buyer a L) Constraint) (\<lambda>_.
     andThen (guard (\<not> cf_paused c) Paused) (\<lambda>_.
     andThen (guard (0 < ja_budget a \<and> ja_budget a \<le> 1000000000000 \<and> lg_now L < ja_deadline a) Bounds) (\<lambda>_.
     andThen (plain_i64 (lg_now L + 86400)) (\<lambda>latest.
     andThen (guard (ja_deadline a \<le> latest \<and> 0 < ja_timeout a \<and> ja_timeout a \<le> 86400 \<and> ja_policy a \<le> 5
       \<and> ja_specHash a \<noteq> zero32) Bounds) (\<lambda>_.
     Inr (open_accounts env c buyer a L)))))))"

text \<open>The transfer into escrow, and the job opened with its budget as the deposit.\<close>

definition deposit :: "program_env \<Rightarrow> string \<Rightarrow> string \<Rightarrow> string \<Rightarrow> job_account \<Rightarrow> ledger \<Rightarrow> effect" where
  "deposit env authority source job j L =
     andThen (transfer_checked env source (jb_mint j) (escrow_key env job) authority (jb_budget j) L) (\<lambda>L1.
     Inr (emit_state job st_OPEN (put_job job (j\<lparr>jb_deposit := jb_budget j, jb_state := st_OPEN\<rparr>) L1)))"

text \<open>\<open>today\<close> is the policy after the day rollover.\<close>

definition today :: "int \<Rightarrow> policy_account \<Rightarrow> policy_account" where
  "today now p = (if ap_dayIndex p \<noteq> now div 86400 then p\<lparr>ap_dayIndex := now div 86400, ap_dailySpent := 0\<rparr> else p)"

definition create_agent_job ::
  "program_env \<Rightarrow> string \<Rightarrow> string \<Rightarrow> string \<Rightarrow> job_args \<Rightarrow> buffer list \<Rightarrow> ledger \<Rightarrow> effect" where
  "create_agent_job env agent owner source a prf L =
     andThen (load_config L) (\<lambda>c.
     andThen (load (lg_policies L) (policy_key env owner agent)) (\<lambda>p.
     andThen (load (lg_tokens L) source) (\<lambda>t.
     andThen (guard (job_args_ok a \<and> list_all bytes32 prf \<and> ap_owner p = owner \<and> ap_agent p = agent \<and> ap_mint p = cf_mint c
       \<and> job_vacant env owner a L \<and> tk_mint t = cf_mint c \<and> tk_owner t = owner) Constraint) (\<lambda>_.
     andThen (guard (\<not> cf_paused c) Paused) (\<lambda>_.
     andThen (guard (ap_active p \<and> lg_now L < ap_expiresAt p \<and> 0 < ja_budget a \<and> ja_budget a \<le> ap_singleJobLimit p
       \<and> lg_now L < ja_deadline a) Bounds) (\<lambda>_.
     andThen (plain_i64 (lg_now L + 86400)) (\<lambda>latest.
     andThen (guard (ja_deadline a \<le> latest \<and> 0 < ja_timeout a \<and> ja_timeout a \<le> ap_maxRuntimeSeconds p
       \<and> ap_requiredVerification p \<le> ja_policy a \<and> ja_policy a \<le> 5 \<and> ja_specHash a \<noteq> zero32) Bounds) (\<lambda>_.
     andThen (verify_spec_membership (pe_crypto env) (ja_specHash a) prf (ap_allowedSpecsRoot p)) (\<lambda>_.
     let p1 = today (lg_now L) p in
     andThen (checked (ap_dailySpent p1 + ja_budget a)) (\<lambda>spent.
     andThen (guard (spent \<le> ap_dailySpendLimit p1) Bounds) (\<lambda>_.
     andThen (guard (tk_delegate t = Some agent \<and> ja_budget a \<le> tk_delegatedAmount t) Unauthorized) (\<lambda>_.
     let job = job_key env owner (ja_id a) in
     deposit env agent source job (new_job c owner a)
       (open_accounts env c owner a (put_policy (policy_key env owner agent) (p1\<lparr>ap_dailySpent := spent\<rparr>) L))))))))))))))"

definition fund_job :: "program_env \<Rightarrow> string \<Rightarrow> string \<Rightarrow> string \<Rightarrow> ledger \<Rightarrow> effect" where
  "fund_job env buyer job source L =
     andThen (load (lg_jobs L) job) (\<lambda>j.
     andThen (guard (jb_buyer j = buyer \<and> job = job_key env buyer (jb_id j) \<and> token_ok L source (jb_mint j) buyer
       \<and> token_ok L (escrow_key env job) (jb_mint j) job) Constraint) (\<lambda>_.
     andThen (guard (jb_state j = st_CREATED \<and> lg_now L < jb_deadline j) State) (\<lambda>_.
     deposit env buyer source job j L)))"

section \<open>Bids\<close>

definition place_bid ::
  "program_env \<Rightarrow> string \<Rightarrow> string \<Rightarrow> string \<Rightarrow> string \<Rightarrow> int \<Rightarrow> int \<Rightarrow> int \<Rightarrow> ledger \<Rightarrow> effect" where
  "place_bid env worker job provider machine price estimated_start expires_at L =
     (let bid = pe_pda env [Text ''bid'', Key job, Key provider] in
     andThen (load (lg_jobs L) job) (\<lambda>j.
     andThen (load (lg_providers L) provider) (\<lambda>p.
     andThen (load (lg_workers L) (worker_key env provider worker)) (\<lambda>w.
     andThen (load (lg_machines L) machine) (\<lambda>m.
     andThen (guard (u64 price \<and> i64 estimated_start \<and> i64 expires_at \<and> wa_provider w = provider \<and> wa_worker w = worker
       \<and> mc_provider m = provider \<and> mc_worker m = worker \<and> vacant L bid) Constraint) (\<lambda>_.
     andThen (guard (jb_state j = st_OPEN \<and> lg_now L < jb_deadline j \<and> lg_now L < expires_at \<and> expires_at \<le> jb_deadline j
       \<and> lg_now L \<le> estimated_start \<and> estimated_start \<le> jb_deadline j \<and> 0 < price \<and> price \<le> jb_deposit j) Bounds) (\<lambda>_.
     andThen (active_worker w (lg_now L)) (\<lambda>_.
     andThen (guard (mc_active m \<and> pr_active p) Unauthorized) (\<lambda>_.
     Inr (put_bid bid \<lparr>bd_job = job, bd_provider = provider, bd_machine = machine, bd_worker = worker, bd_price = price,
       bd_estimatedStart = estimated_start, bd_expiresAt = expires_at, bd_active = True\<rparr> L))))))))))"

definition cancel_bid :: "program_env \<Rightarrow> string \<Rightarrow> string \<Rightarrow> ledger \<Rightarrow> effect" where
  "cancel_bid env worker bid L =
     andThen (load (lg_bids L) bid) (\<lambda>b.
     andThen (load (lg_jobs L) (bd_job b)) (\<lambda>j.
     andThen (load (lg_providers L) (bd_provider b)) (\<lambda>_.
     andThen (load (lg_workers L) (worker_key env (bd_provider b) worker)) (\<lambda>w.
     andThen (guard (bd_worker b = worker \<and> wa_provider w = bd_provider b \<and> wa_worker w = worker) Constraint) (\<lambda>_.
     andThen (active_worker w (lg_now L)) (\<lambda>_.
     andThen (guard (jb_state j = st_OPEN) State) (\<lambda>_.
     Inr (put_bid bid (b\<lparr>bd_active := False\<rparr>) L))))))))"

text \<open>The accounts and checks that \<^verbatim>\<open>accept_bid\<close> and \<^verbatim>\<open>accept_agent_bid\<close> share, after the buyer's own.\<close>

definition accept :: "program_env \<Rightarrow> string \<Rightarrow> job_account \<Rightarrow> bid_account \<Rightarrow> provider_account \<Rightarrow> machine_account \<Rightarrow> worker_account
    \<Rightarrow> ledger \<Rightarrow> effect" where
  "accept env job j b p m w L =
     andThen (guard (jb_state j = st_OPEN \<and> lg_now L < jb_deadline j \<and> bd_active b \<and> lg_now L < bd_expiresAt b
       \<and> bd_price b \<le> jb_deposit j) State) (\<lambda>_.
     andThen (active_worker w (lg_now L)) (\<lambda>_.
     andThen (guard (mc_active m \<and> \<not> mc_busy m \<and> pr_active p) Capacity) (\<lambda>_.
     andThen (guard (pr_authority p \<noteq> jb_verifier j) Unauthorized) (\<lambda>_.
     Inr (assign job j (bd_provider b) p (bd_machine b) m (bd_worker b) (bd_price b) L)))))"

definition bid_accounts :: "program_env \<Rightarrow> string \<Rightarrow> string \<Rightarrow> ledger
    \<Rightarrow> market_error + job_account \<times> bid_account \<times> provider_account \<times> machine_account \<times> worker_account" where
  "bid_accounts env job bid L =
     andThen (load (lg_jobs L) job) (\<lambda>j.
     andThen (load (lg_bids L) bid) (\<lambda>b.
     andThen (load (lg_providers L) (bd_provider b)) (\<lambda>p.
     andThen (load (lg_machines L) (bd_machine b)) (\<lambda>m.
     andThen (load (lg_workers L) (worker_key env (bd_provider b) (bd_worker b))) (\<lambda>w.
     andThen (guard (bd_job b = job \<and> mc_provider m = bd_provider b \<and> mc_worker m = bd_worker b
       \<and> wa_provider w = bd_provider b \<and> wa_worker w = bd_worker b) Constraint) (\<lambda>_.
     Inr (j, b, p, m, w)))))))"

definition accept_bid :: "program_env \<Rightarrow> string \<Rightarrow> string \<Rightarrow> string \<Rightarrow> ledger \<Rightarrow> effect" where
  "accept_bid env buyer job bid L =
     andThen (bid_accounts env job bid L) (\<lambda>(j, b, p, m, w).
     andThen (guard (jb_buyer j = buyer) Constraint) (\<lambda>_.
     accept env job j b p m w L))"

text \<open>What an agent's policy still has to allow for a job: activity, expiry, runtime, verification and the workload.\<close>

definition agent_allowed :: "program_env \<Rightarrow> policy_account \<Rightarrow> job_account \<Rightarrow> buffer list \<Rightarrow> int \<Rightarrow> market_error + unit" where
  "agent_allowed env p j prf now =
     andThen (guard (ap_active p \<and> now < ap_expiresAt p \<and> jb_timeout j \<le> ap_maxRuntimeSeconds p
       \<and> ap_requiredVerification p \<le> jb_policy j) Unauthorized) (\<lambda>_.
     verify_spec_membership (pe_crypto env) (jb_specHash j) prf (ap_allowedSpecsRoot p))"

definition agent_policy :: "program_env \<Rightarrow> string \<Rightarrow> string \<Rightarrow> ledger \<Rightarrow> market_error + policy_account" where
  "agent_policy env agent owner L =
     andThen (load (lg_policies L) (policy_key env owner agent)) (\<lambda>p.
     andThen (guard (ap_owner p = owner \<and> ap_agent p = agent) Constraint) (\<lambda>_. Inr p))"

definition accept_agent_bid ::
  "program_env \<Rightarrow> string \<Rightarrow> string \<Rightarrow> string \<Rightarrow> string \<Rightarrow> buffer list \<Rightarrow> ledger \<Rightarrow> effect" where
  "accept_agent_bid env agent owner job bid prf L =
     andThen (agent_policy env agent owner L) (\<lambda>pol.
     andThen (bid_accounts env job bid L) (\<lambda>(j, b, p, m, w).
     andThen (guard (list_all bytes32 prf \<and> jb_buyer j = owner) Constraint) (\<lambda>_.
     andThen (agent_allowed env pol j prf (lg_now L)) (\<lambda>_.
     accept env job j b p m w L))))"

section \<open>Execution, verification, disputes\<close>

text \<open>\<^verbatim>\<open>WorkerJob\<close>: the job's own worker signs, authorised by the job's provider.\<close>

definition worker_job :: "program_env \<Rightarrow> string \<Rightarrow> string \<Rightarrow> ledger \<Rightarrow> market_error + job_account" where
  "worker_job env worker job L =
     andThen (load (lg_jobs L) job) (\<lambda>j.
     andThen (load (lg_workers L) (worker_key env (jb_provider j) worker)) (\<lambda>w.
     andThen (guard (jb_worker j = worker \<and> wa_worker w = worker \<and> wa_provider w = jb_provider j) Constraint) (\<lambda>_.
     andThen (active_worker w (lg_now L)) (\<lambda>_. Inr j))))"

definition start_job :: "program_env \<Rightarrow> string \<Rightarrow> string \<Rightarrow> ledger \<Rightarrow> effect" where
  "start_job env worker job L =
     andThen (worker_job env worker job L) (\<lambda>j.
     andThen (guard (jb_state j = st_ASSIGNED \<and> lg_now L \<le> jb_deadline j) State) (\<lambda>_.
     Inr (emit_state job st_RUNNING (put_job job (j\<lparr>jb_startedAt := lg_now L, jb_state := st_RUNNING\<rparr>) L))))"

text \<open>\<^verbatim>\<open>started_at + timeout as i64 + 60\<close>, two additions.\<close>

definition run_limit :: "job_account \<Rightarrow> market_error + int" where
  "run_limit j = andThen (plain_i64 (jb_startedAt j + jb_timeout j)) (\<lambda>t. plain_i64 (t + 60))"

definition submit_receipt :: "program_env \<Rightarrow> string \<Rightarrow> string \<Rightarrow> buffer \<Rightarrow> ledger \<Rightarrow> effect" where
  "submit_receipt env worker job receipt_hash L =
     andThen (guard (bytes32 receipt_hash) Constraint) (\<lambda>_.
     andThen (worker_job env worker job L) (\<lambda>j.
     andThen (guard (jb_state j = st_RUNNING \<and> receipt_hash \<noteq> zero32) State) (\<lambda>_.
     andThen (run_limit j) (\<lambda>limit.
     andThen (guard (lg_now L \<le> limit) State) (\<lambda>_.
     Inr (emit_state job st_VERIFYING (put_job job
       (j\<lparr>jb_receiptHash := receipt_hash, jb_submittedAt := lg_now L, jb_state := st_VERIFYING\<rparr>) L)))))))"

definition submit_verification :: "string \<Rightarrow> string \<Rightarrow> buffer \<Rightarrow> bool \<Rightarrow> ledger \<Rightarrow> effect" where
  "submit_verification verifier job receipt_hash passed L =
     andThen (load (lg_jobs L) job) (\<lambda>j.
     andThen (guard (bytes32 receipt_hash \<and> jb_verifier j = verifier) Constraint) (\<lambda>_.
     andThen (guard (jb_state j = st_VERIFYING \<and> receipt_hash = jb_receiptHash j) State) (\<lambda>_.
     andThen (guard (verifier \<noteq> jb_worker j \<and> verifier \<noteq> jb_payout j) Unauthorized) (\<lambda>_.
     let st = (if passed then st_COMPLETED else st_FAILED) in
     Inr (emit_state job st (put_job job (j\<lparr>jb_verifiedAt := lg_now L, jb_state := st\<rparr>) L))))))"

definition cancel_checked :: "string \<Rightarrow> job_account \<Rightarrow> ledger \<Rightarrow> effect" where
  "cancel_checked job j L =
     andThen (guard (jb_state j = st_CREATED \<or> jb_state j = st_OPEN) State) (\<lambda>_.
     Inr (emit_state job st_CANCELLED (put_job job (j\<lparr>jb_state := st_CANCELLED\<rparr>) L)))"

definition cancel_job :: "string \<Rightarrow> string \<Rightarrow> ledger \<Rightarrow> effect" where
  "cancel_job buyer job L =
     andThen (load (lg_jobs L) job) (\<lambda>j.
     andThen (guard (jb_buyer j = buyer) Constraint) (\<lambda>_. cancel_checked job j L))"

definition cancel_agent_job :: "program_env \<Rightarrow> string \<Rightarrow> string \<Rightarrow> string \<Rightarrow> buffer list \<Rightarrow> ledger \<Rightarrow> effect" where
  "cancel_agent_job env agent owner job prf L =
     andThen (agent_policy env agent owner L) (\<lambda>pol.
     andThen (load (lg_jobs L) job) (\<lambda>j.
     andThen (guard (list_all bytes32 prf \<and> jb_buyer j = owner) Constraint) (\<lambda>_.
     andThen (agent_allowed env pol j prf (lg_now L)) (\<lambda>_. cancel_checked job j L))))"

definition expirable :: "job_account \<Rightarrow> int \<Rightarrow> market_error + bool" where
  "expirable j now =
     (if jb_state j = st_OPEN \<or> jb_state j = st_ASSIGNED \<or> jb_state j = st_CREATED then Inr (jb_deadline j < now)
      else if jb_state j = st_RUNNING then andThen (run_limit j) (\<lambda>limit. Inr (limit < now))
      else if jb_state j = st_VERIFYING then andThen (plain_i64 (jb_submittedAt j + 86400)) (\<lambda>limit. Inr (limit < now))
      else Inr False)"

definition expire_job :: "string \<Rightarrow> ledger \<Rightarrow> effect" where
  "expire_job job L =
     andThen (load (lg_jobs L) job) (\<lambda>j.
     andThen (expirable j (lg_now L)) (\<lambda>ok.
     andThen (guard ok State) (\<lambda>_.
     Inr (emit_state job st_EXPIRED (put_job job (j\<lparr>jb_state := st_EXPIRED\<rparr>) L)))))"

definition open_dispute :: "string \<Rightarrow> string \<Rightarrow> buffer \<Rightarrow> ledger \<Rightarrow> effect" where
  "open_dispute buyer job evidence_hash L =
     andThen (load (lg_jobs L) job) (\<lambda>j.
     andThen (guard (bytes32 evidence_hash \<and> jb_buyer j = buyer) Constraint) (\<lambda>_.
     andThen (guard (\<not> jb_settled j \<and> jb_state j = st_COMPLETED) State) (\<lambda>_.
     andThen (plain_i64 (jb_verifiedAt j + jb_disputeSeconds j)) (\<lambda>limit.
     andThen (guard (lg_now L < limit \<and> evidence_hash \<noteq> zero32) State) (\<lambda>_.
     Inr (emit_state job st_DISPUTED (put_job job (j\<lparr>jb_evidenceHash := evidence_hash, jb_state := st_DISPUTED\<rparr>) L)))))))"

definition resolve_dispute :: "string \<Rightarrow> string \<Rightarrow> int \<Rightarrow> ledger \<Rightarrow> effect" where
  "resolve_dispute resolver job provider_award L =
     andThen (load (lg_jobs L) job) (\<lambda>j.
     andThen (guard (u64 provider_award \<and> jb_resolver j = resolver) Constraint) (\<lambda>_.
     andThen (guard (jb_state j = st_DISPUTED \<and> provider_award \<le> jb_price j) State) (\<lambda>_.
     andThen (plain_i64 (lg_now L - jb_disputeSeconds j)) (\<lambda>verified.
     Inr (emit_state job st_COMPLETED (put_job job
       (j\<lparr>jb_price := provider_award, jb_state := st_COMPLETED, jb_verifiedAt := verified, jb_resolved := True\<rparr>) L))))))"

section \<open>Settlement\<close>

definition settle_job :: "program_env \<Rightarrow> string \<Rightarrow> string \<Rightarrow> string \<Rightarrow> string \<Rightarrow> ledger \<Rightarrow> effect" where
  "settle_job env job payout treasury refund L =
     andThen (load (lg_jobs L) job) (\<lambda>j.
     andThen (load (lg_providers L) (jb_provider j)) (\<lambda>p.
     andThen (load (lg_machines L) (jb_machine j)) (\<lambda>m.
     andThen (guard (job = job_key env (jb_buyer j) (jb_id j) \<and> token_ok L (escrow_key env job) (jb_mint j) job
       \<and> token_ok L payout (jb_mint j) (jb_payout j) \<and> token_ok L treasury (jb_mint j) (jb_treasury j)
       \<and> token_ok L refund (jb_mint j) (jb_buyer j) \<and> mc_provider m = jb_provider j) Constraint) (\<lambda>_.
     andThen (guard (\<not> jb_settled j \<and> jb_state j = st_COMPLETED) State) (\<lambda>_.
     andThen (plain_i64 (jb_verifiedAt j + jb_disputeSeconds j)) (\<lambda>limit.
     andThen (guard (limit \<le> lg_now L) State) (\<lambda>_.
     andThen (split_escrow (jb_deposit j) (jb_price j) (jb_feeBps j)) (\<lambda>(payment, fee, rest).
     andThen (transfer_checked env (escrow_key env job) (jb_mint j) payout job payment L) (\<lambda>L1.
     andThen (transfer_checked env (escrow_key env job) (jb_mint j) treasury job fee L1) (\<lambda>L2.
     andThen (transfer_checked env (escrow_key env job) (jb_mint j) refund job rest L2) (\<lambda>L3.
     andThen (checked (mc_completed m + 1)) (\<lambda>mdone.
     andThen (checked (pr_completed p + 1)) (\<lambda>pdone.
     Inr (emit_state job st_COMPLETED
       (put_provider (jb_provider j) (p\<lparr>pr_completed := pdone\<rparr>)
       (put_machine (jb_machine j) (m\<lparr>mc_busy := False, mc_completed := mdone\<rparr>)
       (put_job job (j\<lparr>jb_settled := True, jb_providerPaid := payment, jb_feePaid := fee, jb_refunded := rest\<rparr>) L3)))))))))))))))))"

definition refund_job :: "program_env \<Rightarrow> string \<Rightarrow> string \<Rightarrow> ledger \<Rightarrow> effect" where
  "refund_job env job refund L =
     andThen (load (lg_jobs L) job) (\<lambda>j.
     andThen (guard (job = job_key env (jb_buyer j) (jb_id j) \<and> token_ok L (escrow_key env job) (jb_mint j) job
       \<and> token_ok L refund (jb_mint j) (jb_buyer j)) Constraint) (\<lambda>_.
     andThen (guard (\<not> jb_settled j \<and> jb_state j \<in> {st_CANCELLED, st_EXPIRED, st_FAILED}) State) (\<lambda>_.
     andThen (transfer_checked env (escrow_key env job) (jb_mint j) refund job (jb_deposit j) L) (\<lambda>L1.
     Inr (emit_state job st_REFUNDED (put_job job
       (j\<lparr>jb_settled := True, jb_refunded := jb_deposit j, jb_state := st_REFUNDED\<rparr>) L1))))))"

definition release_machine :: "string \<Rightarrow> ledger \<Rightarrow> effect" where
  "release_machine job L =
     andThen (load (lg_jobs L) job) (\<lambda>j.
     andThen (load (lg_machines L) (jb_machine j)) (\<lambda>m.
     andThen (guard (jb_settled j \<and> jb_state j = st_REFUNDED) State) (\<lambda>_.
     andThen (guard (mc_busy m \<and> mc_activeJob m = job) State) (\<lambda>_.
     andThen (checked (mc_failed m + 1)) (\<lambda>failures.
     Inr (put_machine (jb_machine j) (m\<lparr>mc_busy := False, mc_failed := failures\<rparr>) L))))))"

end
