(* ===== verification/Market.thy ===== *)
theory Market
  imports Program
begin

text \<open>
  The program as a transition system: a call is one instruction with its signer, accounts and
  arguments, \<open>exec\<close> the dispatch of the program's entry point, and a ledger evolves by calls, by
  the clock and by whatever the token program does for accounts the market does not own. The
  life of a job is an inductive relation of its own, \<open>job_move\<close>, which every instruction refines.
\<close>

section \<open>Calls\<close>

text \<open>Protocol, providers and agent policies.\<close>

datatype protocol_call =
    Initialize_protocol string string string string int int
  | Pause_protocol string bool
  | Update_protocol string int int string string string
  | Register_provider string buffer
  | Update_provider string string buffer bool
  | Create_agent_policy string string policy_args
  | Update_agent_policy string string policy_args
  | Revoke_agent_policy string string

primrec exec_protocol :: "program_env \<Rightarrow> protocol_call \<Rightarrow> ledger \<Rightarrow> effect" where
  "exec_protocol env (Initialize_protocol s m t v f d) = initialize_protocol env s m t v f d"
| "exec_protocol env (Pause_protocol s p) = pause_protocol s p"
| "exec_protocol env (Update_protocol s f d t v r) = update_protocol s f d t v r"
| "exec_protocol env (Register_provider s h) = register_provider env s h"
| "exec_protocol env (Update_provider s p h a) = update_provider s p h a"
| "exec_protocol env (Create_agent_policy s g a) = create_agent_policy env s g a"
| "exec_protocol env (Update_agent_policy s k a) = update_agent_policy env s k a"
| "exec_protocol env (Revoke_agent_policy s k) = revoke_agent_policy env s k"

primrec protocol_signer :: "protocol_call \<Rightarrow> string option" where
  "protocol_signer (Initialize_protocol s _ _ _ _ _) = Some s"
| "protocol_signer (Pause_protocol s _) = Some s"
| "protocol_signer (Update_protocol s _ _ _ _ _) = Some s"
| "protocol_signer (Register_provider s _) = Some s"
| "protocol_signer (Update_provider s _ _ _) = Some s"
| "protocol_signer (Create_agent_policy s _ _) = Some s"
| "protocol_signer (Update_agent_policy s _ _) = Some s"
| "protocol_signer (Revoke_agent_policy s _) = Some s"

text \<open>Provider stake.\<close>

datatype stake_call =
    Initialize_provider_stake string string
  | Deposit_stake string string string int
  | Request_unstake string string int
  | Cancel_unstake string string
  | Withdraw_stake string string string
  | Slash_stake string string string int

primrec exec_stake :: "program_env \<Rightarrow> stake_call \<Rightarrow> ledger \<Rightarrow> effect" where
  "exec_stake env (Initialize_provider_stake s p) = initialize_provider_stake env s p"
| "exec_stake env (Deposit_stake s p t a) = deposit_stake env s p t a"
| "exec_stake env (Request_unstake s p a) = request_unstake env s p a"
| "exec_stake env (Cancel_unstake s p) = cancel_unstake env s p"
| "exec_stake env (Withdraw_stake s p t) = withdraw_stake env s p t"
| "exec_stake env (Slash_stake s p t a) = slash_stake env s p t a"

primrec stake_signer :: "stake_call \<Rightarrow> string option" where
  "stake_signer (Initialize_provider_stake s _) = Some s"
| "stake_signer (Deposit_stake s _ _ _) = Some s"
| "stake_signer (Request_unstake s _ _) = Some s"
| "stake_signer (Cancel_unstake s _) = Some s"
| "stake_signer (Withdraw_stake s _ _) = Some s"
| "stake_signer (Slash_stake s _ _ _) = Some s"

text \<open>Workers, machines and offers.\<close>

datatype supply_call =
    Authorize_worker string string string int
  | Revoke_worker string string string
  | Rotate_worker string string string string int
  | Register_machine string string string buffer buffer int int
  | Update_machine string string string string buffer int int
  | Deactivate_machine string string string
  | Create_offer string string string buffer int int int int
  | Pause_offer string string string string bool
  | Update_offer string string string string int int int int
  | Close_offer string string string string

primrec exec_supply :: "program_env \<Rightarrow> supply_call \<Rightarrow> ledger \<Rightarrow> effect" where
  "exec_supply env (Authorize_worker s p w e) = authorize_worker env s p w e"
| "exec_supply env (Revoke_worker s p w) = revoke_worker env s p w"
| "exec_supply env (Rotate_worker s p old w e) = rotate_worker env s p old w e"
| "exec_supply env (Register_machine s p w i h g v) = register_machine env s p w i h g v"
| "exec_supply env (Update_machine s p m w h g v) = update_machine s p m w h g v"
| "exec_supply env (Deactivate_machine s p m) = deactivate_machine s p m"
| "exec_supply env (Create_offer s p m i r lo hi e) = create_offer env s p m i r lo hi e"
| "exec_supply env (Pause_offer s p m f b) = pause_offer s p m f b"
| "exec_supply env (Update_offer s p m f r lo hi e) = update_offer s p m f r lo hi e"
| "exec_supply env (Close_offer s p m f) = close_offer s p m f"

primrec supply_signer :: "supply_call \<Rightarrow> string option" where
  "supply_signer (Authorize_worker s _ _ _) = Some s"
| "supply_signer (Revoke_worker s _ _) = Some s"
| "supply_signer (Rotate_worker s _ _ _ _) = Some s"
| "supply_signer (Register_machine s _ _ _ _ _ _) = Some s"
| "supply_signer (Update_machine s _ _ _ _ _ _) = Some s"
| "supply_signer (Deactivate_machine s _ _) = Some s"
| "supply_signer (Create_offer s _ _ _ _ _ _ _) = Some s"
| "supply_signer (Pause_offer s _ _ _ _) = Some s"
| "supply_signer (Update_offer s _ _ _ _ _ _ _) = Some s"
| "supply_signer (Close_offer s _ _ _) = Some s"

text \<open>Jobs up to their assignment.\<close>

datatype demand_call =
    Assign_offer string string string
  | Create_job string job_args
  | Create_agent_job string string string job_args "buffer list"
  | Fund_job string string string
  | Place_bid string string string string int int int
  | Cancel_bid string string
  | Accept_bid string string string
  | Accept_agent_bid string string string string "buffer list"

primrec exec_demand :: "program_env \<Rightarrow> demand_call \<Rightarrow> ledger \<Rightarrow> effect" where
  "exec_demand env (Assign_offer s j f) = assign_offer env s j f"
| "exec_demand env (Create_job s a) = create_job env s a"
| "exec_demand env (Create_agent_job s own t a prf) = create_agent_job env s own t a prf"
| "exec_demand env (Fund_job s j t) = fund_job env s j t"
| "exec_demand env (Place_bid s j p m c st e) = place_bid env s j p m c st e"
| "exec_demand env (Cancel_bid s b) = cancel_bid env s b"
| "exec_demand env (Accept_bid s j b) = accept_bid env s j b"
| "exec_demand env (Accept_agent_bid s own j b prf) = accept_agent_bid env s own j b prf"

primrec demand_signer :: "demand_call \<Rightarrow> string option" where
  "demand_signer (Assign_offer s _ _) = Some s"
| "demand_signer (Create_job s _) = Some s"
| "demand_signer (Create_agent_job s _ _ _ _) = Some s"
| "demand_signer (Fund_job s _ _) = Some s"
| "demand_signer (Place_bid s _ _ _ _ _ _) = Some s"
| "demand_signer (Cancel_bid s _) = Some s"
| "demand_signer (Accept_bid s _ _) = Some s"
| "demand_signer (Accept_agent_bid s _ _ _ _) = Some s"

text \<open>Jobs from their assignment on.\<close>

datatype run_call =
    Start_job string string
  | Submit_receipt string string buffer
  | Submit_verification string string buffer bool
  | Cancel_job string string
  | Cancel_agent_job string string string "buffer list"
  | Expire_job string
  | Open_dispute string string buffer
  | Resolve_dispute string string int
  | Settle_job string string string string
  | Refund_job string string
  | Release_machine string

primrec exec_run :: "program_env \<Rightarrow> run_call \<Rightarrow> ledger \<Rightarrow> effect" where
  "exec_run env (Start_job s j) = start_job env s j"
| "exec_run env (Submit_receipt s j h) = submit_receipt env s j h"
| "exec_run env (Submit_verification s j h ok) = submit_verification s j h ok"
| "exec_run env (Cancel_job s j) = cancel_job s j"
| "exec_run env (Cancel_agent_job s own j prf) = cancel_agent_job env s own j prf"
| "exec_run env (Expire_job j) = expire_job j"
| "exec_run env (Open_dispute s j h) = open_dispute s j h"
| "exec_run env (Resolve_dispute s j a) = resolve_dispute s j a"
| "exec_run env (Settle_job j p t r) = settle_job env j p t r"
| "exec_run env (Refund_job j r) = refund_job env j r"
| "exec_run env (Release_machine j) = release_machine j"

primrec run_signer :: "run_call \<Rightarrow> string option" where
  "run_signer (Start_job s _) = Some s"
| "run_signer (Submit_receipt s _ _) = Some s"
| "run_signer (Submit_verification s _ _ _) = Some s"
| "run_signer (Cancel_job s _) = Some s"
| "run_signer (Cancel_agent_job s _ _ _) = Some s"
| "run_signer (Expire_job _) = None"
| "run_signer (Open_dispute s _ _) = Some s"
| "run_signer (Resolve_dispute s _ _) = Some s"
| "run_signer (Settle_job _ _ _ _) = None"
| "run_signer (Refund_job _ _) = None"
| "run_signer (Release_machine _) = None"

datatype call =
    Protocol protocol_call
  | Stake stake_call
  | Supply supply_call
  | Demand demand_call
  | Run run_call

primrec exec :: "program_env \<Rightarrow> call \<Rightarrow> ledger \<Rightarrow> effect" where
  "exec env (Protocol c) = exec_protocol env c"
| "exec env (Stake c) = exec_stake env c"
| "exec env (Supply c) = exec_supply env c"
| "exec env (Demand c) = exec_demand env c"
| "exec env (Run c) = exec_run env c"

text \<open>The address that signs, where the instruction has a signer.\<close>

primrec signer :: "call \<Rightarrow> string option" where
  "signer (Protocol c) = protocol_signer c"
| "signer (Stake c) = stake_signer c"
| "signer (Supply c) = supply_signer c"
| "signer (Demand c) = demand_signer c"
| "signer (Run c) = run_signer c"

section \<open>What the program relies on\<close>

text \<open>
  A checked transfer that succeeds: the source holds the amount, both accounts are of the mint,
  the authority is the source's owner or its delegate, the amount moves, and no account changes
  its owner or mint or gains a delegate.
\<close>

definition token_contract ::
  "(token_state \<Rightarrow> string \<Rightarrow> string \<Rightarrow> string \<Rightarrow> string \<Rightarrow> int \<Rightarrow> token_state option) \<Rightarrow> bool" where
  "token_contract T \<longleftrightarrow> (\<forall>ts src mint dst authority amount ts'.
     T ts src mint dst authority amount = Some ts' \<longrightarrow>
       (\<exists>s d. ts src = Some s \<and> ts dst = Some d \<and> tk_mint s = mint \<and> tk_mint d = mint \<and> amount \<le> tk_amount s
          \<and> (tk_owner s = authority \<or> tk_delegate s = Some authority)) \<and>
       (\<forall>a. case ts a of None \<Rightarrow> ts' a = None
          | Some x \<Rightarrow> \<exists>x'. ts' a = Some x' \<and> tk_owner x' = tk_owner x \<and> tk_mint x' = tk_mint x
              \<and> (tk_delegate x' = tk_delegate x \<or> tk_delegate x' = None)
              \<and> tk_amount x' = tk_amount x - (if a = src then amount else 0) + (if a = dst then amount else 0)))"

text \<open>The seeds the program derives addresses from.\<close>

definition program_seeds :: "seed list set" where
  "program_seeds = {[Text t, Key k] | t k. t \<in> {''provider'', ''stake'', ''stake-vault'', ''escrow''}}
     \<union> {[Text t, Key k, Key k'] | t k k'. t \<in> {''agent-policy'', ''worker'', ''bid''}}
     \<union> {[Text t, Key k, Bytes b] | t k b. t \<in> {''machine'', ''offer'', ''job''} \<and> length b = 32}"

definition derived :: "program_env \<Rightarrow> string set" where
  "derived env = pe_pda env ` program_seeds"

text \<open>
  Derived addresses do not collide, are not the default key and have no private key: no signer
  is one. \<open>W\<close> are the addresses that sign.
\<close>

definition market_env :: "program_env \<Rightarrow> string set \<Rightarrow> bool" where
  "market_env env W \<longleftrightarrow> inj_on (pe_pda env) program_seeds \<and> derived env \<inter> W = {} \<and> default_key \<notin> derived env
     \<and> token_contract (pe_transfer env)"

section \<open>Histories\<close>

definition genesis :: "program_env \<Rightarrow> ledger \<Rightarrow> bool" where
  "genesis env L \<longleftrightarrow> lg_config L = None \<and> lg_providers L = Map.empty \<and> lg_stakes L = Map.empty \<and> lg_policies L = Map.empty
     \<and> lg_workers L = Map.empty \<and> lg_machines L = Map.empty \<and> lg_offers L = Map.empty \<and> lg_bids L = Map.empty
     \<and> lg_jobs L = Map.empty \<and> dom (lg_tokens L) \<inter> derived env = {} \<and> 0 \<le> lg_now L"

text \<open>
  What the token program may do besides: accounts owned by a derived address keep owner, mint
  and delegate and can only gain, and no token account appears at a derived address.
\<close>

definition outside :: "program_env \<Rightarrow> token_state \<Rightarrow> token_state \<Rightarrow> bool" where
  "outside env ts ts' \<longleftrightarrow> (\<forall>a. case ts a of None \<Rightarrow> a \<in> derived env \<longrightarrow> ts' a = None
     | Some x \<Rightarrow> tk_owner x \<in> derived env \<longrightarrow> (\<exists>x'. ts' a = Some x' \<and> tk_owner x' = tk_owner x \<and> tk_mint x' = tk_mint x
         \<and> tk_delegate x' = tk_delegate x \<and> tk_amount x \<le> tk_amount x'))"

text \<open>The calls that succeeded, with their times, oldest first, and the ledger they lead to.\<close>

inductive history :: "program_env \<Rightarrow> string set \<Rightarrow> (int \<times> call) list \<Rightarrow> ledger \<Rightarrow> bool" for env W where
  start: "genesis env L \<Longrightarrow> history env W [] L"
| call: "history env W tr L \<Longrightarrow> exec env c L = Inr L' \<Longrightarrow> set_option (signer c) \<subseteq> W \<Longrightarrow> history env W (tr @ [(lg_now L, c)]) L'"
| clock: "history env W tr L \<Longrightarrow> lg_now L \<le> t \<Longrightarrow> history env W tr (L\<lparr>lg_now := t\<rparr>)"
| tokens: "history env W tr L \<Longrightarrow> outside env (lg_tokens L) ts \<Longrightarrow> history env W tr (L\<lparr>lg_tokens := ts\<rparr>)"

section \<open>The life of a job\<close>

inductive job_move :: "int \<Rightarrow> job_account \<Rightarrow> job_account \<Rightarrow> bool" for now where
  fund: "jb_state j = st_CREATED \<Longrightarrow> now < jb_deadline j \<Longrightarrow>
    job_move now j (j\<lparr>jb_deposit := jb_budget j, jb_state := st_OPEN\<rparr>)"
| assign: "jb_state j = st_OPEN \<Longrightarrow> now < jb_deadline j \<Longrightarrow> price \<le> jb_deposit j \<Longrightarrow> payout \<noteq> jb_verifier j \<Longrightarrow>
    job_move now j (j\<lparr>jb_provider := provider, jb_payout := payout, jb_machine := machine, jb_worker := worker,
      jb_price := price, jb_state := st_ASSIGNED\<rparr>)"
| start: "jb_state j = st_ASSIGNED \<Longrightarrow> now \<le> jb_deadline j \<Longrightarrow>
    job_move now j (j\<lparr>jb_startedAt := now, jb_state := st_RUNNING\<rparr>)"
| submit: "jb_state j = st_RUNNING \<Longrightarrow> now \<le> jb_startedAt j + jb_timeout j + 60 \<Longrightarrow> h \<noteq> zero32 \<Longrightarrow>
    job_move now j (j\<lparr>jb_receiptHash := h, jb_submittedAt := now, jb_state := st_VERIFYING\<rparr>)"
| verify: "jb_state j = st_VERIFYING \<Longrightarrow> jb_verifier j \<noteq> jb_worker j \<Longrightarrow> jb_verifier j \<noteq> jb_payout j \<Longrightarrow>
    st = st_COMPLETED \<or> st = st_FAILED \<Longrightarrow> job_move now j (j\<lparr>jb_verifiedAt := now, jb_state := st\<rparr>)"
| cancel: "jb_state j = st_CREATED \<or> jb_state j = st_OPEN \<Longrightarrow> job_move now j (j\<lparr>jb_state := st_CANCELLED\<rparr>)"
| expire: "jb_state j \<in> {st_CREATED, st_OPEN, st_ASSIGNED} \<and> jb_deadline j < now
      \<or> jb_state j = st_RUNNING \<and> jb_startedAt j + jb_timeout j + 60 < now
      \<or> jb_state j = st_VERIFYING \<and> jb_submittedAt j + 86400 < now \<Longrightarrow>
    job_move now j (j\<lparr>jb_state := st_EXPIRED\<rparr>)"
| dispute: "jb_state j = st_COMPLETED \<Longrightarrow> \<not> jb_settled j \<Longrightarrow> now < jb_verifiedAt j + jb_disputeSeconds j \<Longrightarrow>
    job_move now j (j\<lparr>jb_evidenceHash := h, jb_state := st_DISPUTED\<rparr>)"
| resolve: "jb_state j = st_DISPUTED \<Longrightarrow> 0 \<le> award \<Longrightarrow> award \<le> jb_price j \<Longrightarrow>
    job_move now j (j\<lparr>jb_price := award, jb_state := st_COMPLETED, jb_verifiedAt := now - jb_disputeSeconds j, jb_resolved := True\<rparr>)"
| settle: "jb_state j = st_COMPLETED \<Longrightarrow> \<not> jb_settled j \<Longrightarrow> jb_verifiedAt j + jb_disputeSeconds j \<le> now \<Longrightarrow>
    split_escrow (jb_deposit j) (jb_price j) (jb_feeBps j) = Inr (payment, fee, rest) \<Longrightarrow>
    job_move now j (j\<lparr>jb_settled := True, jb_providerPaid := payment, jb_feePaid := fee, jb_refunded := rest\<rparr>)"
| refund: "jb_state j \<in> {st_CANCELLED, st_EXPIRED, st_FAILED} \<Longrightarrow> \<not> jb_settled j \<Longrightarrow>
    job_move now j (j\<lparr>jb_settled := True, jb_refunded := jb_deposit j, jb_state := st_REFUNDED\<rparr>)"

lemmas put_defs = put_provider_def put_stake_def put_policy_def put_worker_def put_machine_def put_offer_def put_bid_def
  put_job_def put_token_def emit_def emit_state_def emit_stake_def assign_def open_accounts_def deposit_def

lemmas access_defs = managed_policy_def managed_stake_def managed_provider_def managed_worker_def managed_machine_def
  managed_offer_def agent_policy_def agent_allowed_def bid_accounts_def worker_job_def accept_def cancel_checked_def
  active_worker_def

lemmas protocol_defs = initialize_protocol_def pause_protocol_def update_protocol_def register_provider_def
  update_provider_def create_agent_policy_def update_agent_policy_def revoke_agent_policy_def

lemmas stake_defs = initialize_provider_stake_def deposit_stake_def request_unstake_def cancel_unstake_def
  withdraw_stake_def slash_stake_def

lemmas supply_defs = authorize_worker_def revoke_worker_def rotate_worker_def register_machine_def update_machine_def
  deactivate_machine_def create_offer_def pause_offer_def update_offer_def close_offer_def

text \<open>Only the instructions on jobs change jobs, and the clock never moves within a call.\<close>

lemma exec_protocol_frame:
  assumes "exec_protocol env c L = Inr L'"
  shows "lg_jobs L' = lg_jobs L \<and> lg_machines L' = lg_machines L \<and> lg_tokens L' = lg_tokens L \<and> lg_bids L' = lg_bids L
    \<and> lg_stakes L' = lg_stakes L \<and> lg_now L' = lg_now L"
  using assms by (cases c) (auto simp: protocol_defs access_defs outcome_simps put_defs Let_def)

lemma exec_stake_frame:
  assumes "exec_stake env c L = Inr L'"
  shows "lg_jobs L' = lg_jobs L \<and> lg_machines L' = lg_machines L \<and> lg_bids L' = lg_bids L \<and> lg_providers L' = lg_providers L
    \<and> lg_policies L' = lg_policies L \<and> lg_config L' = lg_config L \<and> lg_now L' = lg_now L"
  using assms by (cases c) (auto simp: stake_defs access_defs outcome_simps put_defs Let_def)

lemma exec_supply_frame:
  assumes "exec_supply env c L = Inr L'"
  shows "lg_jobs L' = lg_jobs L \<and> lg_tokens L' = lg_tokens L \<and> lg_bids L' = lg_bids L \<and> lg_providers L' = lg_providers L
    \<and> lg_policies L' = lg_policies L \<and> lg_config L' = lg_config L \<and> lg_stakes L' = lg_stakes L \<and> lg_now L' = lg_now L"
  using assms by (cases c) (auto simp: supply_defs access_defs outcome_simps put_defs Let_def)

end
