(* ===== verification/Escrow.thy ===== *)
theory Escrow
  imports Market
begin

text \<open>
  What the program guarantees about money and machines. \<open>market_move\<close> is the abstract market: what a
  call may change of jobs, machines and token accounts. Every call of the program refines it, and
  the invariants are proved on it.
\<close>

section \<open>The abstract market\<close>

text \<open>The accounts a derived address owns and nobody else may draw on; \<open>k\<close> is the one owner that may.\<close>

definition keeps :: "string set \<Rightarrow> token_state \<Rightarrow> token_state \<Rightarrow> bool" where
  "keeps A ts ts' \<longleftrightarrow> (\<forall>a x. ts a = Some x \<and> tk_owner x \<notin> A \<and> tk_delegate x = None \<longrightarrow>
     (\<exists>x'. ts' a = Some x' \<and> tk_owner x' = tk_owner x \<and> tk_mint x' = tk_mint x \<and> tk_delegate x' = None \<and> tk_amount x \<le> tk_amount x'))"

inductive market_move :: "program_env \<Rightarrow> string set \<Rightarrow> ledger \<Rightarrow> ledger \<Rightarrow> bool" for env W L L' where
  idle: "lg_jobs L' = lg_jobs L \<Longrightarrow> lg_tokens L' = lg_tokens L \<Longrightarrow> lg_machines L' = lg_machines L \<Longrightarrow> market_move env W L L'"
| born: "lg_config L = Some c \<Longrightarrow> job_args_ok a \<Longrightarrow> 0 < ja_timeout a \<Longrightarrow> ja_timeout a \<le> 86400 \<Longrightarrow>
    k = job_key env buyer (ja_id a) \<Longrightarrow> vacant L k \<Longrightarrow> vacant L (escrow_key env k) \<Longrightarrow>
    lg_jobs L' = (lg_jobs L)(k \<mapsto> new_job c buyer a) \<Longrightarrow>
    lg_tokens L' = (lg_tokens L)(escrow_key env k \<mapsto> new_token (cf_mint c) k) \<Longrightarrow> lg_machines L' = lg_machines L \<Longrightarrow>
    market_move env W L L'"
| born_funded: "lg_config L = Some c \<Longrightarrow> job_args_ok a \<Longrightarrow> 0 < ja_timeout a \<Longrightarrow> ja_timeout a \<le> 86400 \<Longrightarrow>
    k = job_key env owner (ja_id a) \<Longrightarrow> vacant L k \<Longrightarrow> vacant L (escrow_key env k) \<Longrightarrow> agent \<in> W \<Longrightarrow>
    lg_jobs L' = (lg_jobs L)(k \<mapsto> (new_job c owner a)\<lparr>jb_deposit := ja_budget a, jb_state := st_OPEN\<rparr>) \<Longrightarrow>
    pe_transfer env ((lg_tokens L)(escrow_key env k \<mapsto> new_token (cf_mint c) k)) source (cf_mint c) (escrow_key env k) agent
      (ja_budget a) = Some (lg_tokens L') \<Longrightarrow> lg_machines L' = lg_machines L \<Longrightarrow> market_move env W L L'"
| funded: "lg_jobs L k = Some j \<Longrightarrow> jb_state j = st_CREATED \<Longrightarrow> jb_buyer j \<in> W \<Longrightarrow>
    job_move (lg_now L) j (j\<lparr>jb_deposit := jb_budget j, jb_state := st_OPEN\<rparr>) \<Longrightarrow>
    lg_jobs L' = (lg_jobs L)(k \<mapsto> j\<lparr>jb_deposit := jb_budget j, jb_state := st_OPEN\<rparr>) \<Longrightarrow>
    pe_transfer env (lg_tokens L) source (jb_mint j) (escrow_key env k) (jb_buyer j) (jb_budget j) = Some (lg_tokens L') \<Longrightarrow>
    lg_machines L' = lg_machines L \<Longrightarrow> market_move env W L L'"
| assigned: "lg_jobs L k = Some j \<Longrightarrow> lg_machines L mk = Some m \<Longrightarrow> \<not> mc_busy m \<Longrightarrow> jb_state j = st_OPEN \<Longrightarrow>
    job_move (lg_now L) j j' \<Longrightarrow> jb_machine j' = mk \<Longrightarrow> jb_state j' = st_ASSIGNED \<Longrightarrow> 0 \<le> jb_price j' \<Longrightarrow>
    jb_provider j' = mc_provider m \<Longrightarrow> lg_providers L (mc_provider m) \<noteq> None \<Longrightarrow> 
    lg_jobs L' = (lg_jobs L)(k \<mapsto> j') \<Longrightarrow> lg_tokens L' = lg_tokens L \<Longrightarrow>
    lg_machines L' = (lg_machines L)(mk \<mapsto> m\<lparr>mc_busy := True, mc_activeJob := k\<rparr>) \<Longrightarrow> market_move env W L L'"
| moved: "lg_jobs L k = Some j \<Longrightarrow> job_move (lg_now L) j j' \<Longrightarrow> jb_state j' \<notin> {st_OPEN, st_ASSIGNED, st_REFUNDED} \<Longrightarrow>
    jb_settled j' = jb_settled j \<Longrightarrow> lg_jobs L' = (lg_jobs L)(k \<mapsto> j') \<Longrightarrow> lg_tokens L' = lg_tokens L \<Longrightarrow>
    lg_machines L' = lg_machines L \<Longrightarrow> market_move env W L L'"
| settled: "lg_jobs L k = Some j \<Longrightarrow> jb_state j = st_COMPLETED \<Longrightarrow> \<not> jb_settled j \<Longrightarrow>
    job_move (lg_now L) j (j\<lparr>jb_settled := True, jb_providerPaid := payment, jb_feePaid := fee, jb_refunded := rest\<rparr>) \<Longrightarrow>
    lg_jobs L' = (lg_jobs L)(k \<mapsto> j\<lparr>jb_settled := True, jb_providerPaid := payment, jb_feePaid := fee, jb_refunded := rest\<rparr>) \<Longrightarrow>
    pe_transfer env (lg_tokens L) (escrow_key env k) (jb_mint j) payout k payment = Some ts1 \<Longrightarrow>
    pe_transfer env ts1 (escrow_key env k) (jb_mint j) treasury k fee = Some ts2 \<Longrightarrow>
    pe_transfer env ts2 (escrow_key env k) (jb_mint j) refund k rest = Some (lg_tokens L') \<Longrightarrow>
    lg_machines L (jb_machine j) = Some m \<Longrightarrow>
    lg_machines L' = (lg_machines L)(jb_machine j \<mapsto> m\<lparr>mc_busy := False, mc_completed := mdone\<rparr>) \<Longrightarrow> market_move env W L L'"
| refunded: "lg_jobs L k = Some j \<Longrightarrow> jb_state j \<in> {st_CANCELLED, st_EXPIRED, st_FAILED} \<Longrightarrow> \<not> jb_settled j \<Longrightarrow>
    lg_jobs L' = (lg_jobs L)(k \<mapsto> j\<lparr>jb_settled := True, jb_refunded := jb_deposit j, jb_state := st_REFUNDED\<rparr>) \<Longrightarrow>
    pe_transfer env (lg_tokens L) (escrow_key env k) (jb_mint j) refund k (jb_deposit j) = Some (lg_tokens L') \<Longrightarrow>
    lg_machines L' = lg_machines L \<Longrightarrow> market_move env W L L'"
| released: "lg_jobs L k = Some j \<Longrightarrow> jb_state j = st_REFUNDED \<Longrightarrow> lg_machines L (jb_machine j) = Some m \<Longrightarrow> mc_activeJob m = k \<Longrightarrow>
    lg_machines L' = (lg_machines L)(jb_machine j \<mapsto> m\<lparr>mc_busy := False, mc_failed := failures\<rparr>) \<Longrightarrow>
    lg_jobs L' = lg_jobs L \<Longrightarrow> lg_tokens L' = lg_tokens L \<Longrightarrow> market_move env W L L'"

lemmas demand_defs = assign_offer_def create_job_def create_agent_job_def fund_job_def place_bid_def cancel_bid_def
  accept_bid_def accept_agent_bid_def

lemma accept_refines:
  assumes "accept env job j b p m w L = Inr L'" "lg_jobs L job = Some j" "lg_machines L (bd_machine b) = Some m"
    "lg_providers L (bd_provider b) = Some p" "mc_provider m = bd_provider b" "0 \<le> bd_price b"
  shows "market_move env W L L'"
proof -
  let ?j = "j\<lparr>jb_provider := bd_provider b, jb_payout := pr_authority p, jb_machine := bd_machine b, jb_worker := bd_worker b,
    jb_price := bd_price b, jb_state := st_ASSIGNED\<rparr>"
  from assms(1) have g: "jb_state j = st_OPEN" "lg_now L < jb_deadline j" "bd_price b \<le> jb_deposit j" "\<not> mc_busy m"
      "pr_authority p \<noteq> jb_verifier j"
    and L': "L' = assign job j (bd_provider b) p (bd_machine b) m (bd_worker b) (bd_price b) L"
    by (auto simp: accept_def outcome_simps)
  from g have "job_move (lg_now L) j ?j" by (intro job_move.assign)
  then show ?thesis using g assms(2-) by (intro market_move.assigned [where j' = ?j]) (auto simp: L' put_defs)
qed

lemma offer_refines:
  assumes "assign_offer env s job f L = Inr L'"
  shows "market_move env W L L'"
  using assms unfolding assign_offer_def andThen_eq_Inr load_eq guard_eq_Inr checked_eq
proof (elim exE conjE, goal_cases)
  case (1 j a m p w)
  let ?j = "j\<lparr>jb_provider := mc_provider m, jb_payout := pr_authority p, jb_machine := of_machine a, jb_worker := mc_worker m,
    jb_price := of_rate a * jb_timeout j, jb_state := st_ASSIGNED\<rparr>"
  from 1 have "job_move (lg_now L) j ?j" by (intro job_move.assign) auto
  with 1 show ?case by (intro market_move.assigned [where j' = ?j]) (auto simp: put_defs)
qed

definition prices_ok :: "ledger \<Rightarrow> bool" where
  "prices_ok L \<longleftrightarrow> (\<forall>k b. lg_bids L k = Some b \<longrightarrow> 0 < bd_price b)"

lemma accept_bid_refines:
  "accept_bid env s job b L = Inr L' \<Longrightarrow> prices_ok L \<Longrightarrow> market_move env W L L'"
  "accept_agent_bid env s own job b prf L = Inr L' \<Longrightarrow> prices_ok L \<Longrightarrow> market_move env W L L'"
  by (auto simp: accept_bid_def accept_agent_bid_def bid_accounts_def prices_ok_def outcome_simps less_imp_le intro!: accept_refines)

definition runtimes_ok :: "ledger \<Rightarrow> bool" where
  "runtimes_ok L \<longleftrightarrow> (\<forall>k p. lg_policies L k = Some p \<longrightarrow> ap_maxRuntimeSeconds p \<le> 86400)"

lemma agent_job_refines:
  assumes "create_agent_job env s own t a prf L = Inr L'" "s \<in> W" "runtimes_ok L"
  shows "market_move env W L L'"
  using assms(1) unfolding create_agent_job_def andThen_eq_Inr load_eq load_config_eq guard_eq_Inr checked_eq plain_i64_eq
    Let_def deposit_def transfer_checked_eq
proof (elim exE conjE, goal_cases)
  case (1 c p src)
  have "ja_timeout a \<le> 86400" using 1 assms(3) by (force simp: runtimes_ok_def)
  with 1 assms(2) show ?case
    by (intro market_move.born_funded [where c = c and a = a and owner = own and agent = s and source = t])
      (auto simp: put_defs Let_def job_vacant_def new_job_def)
qed

lemma exec_demand_refines:
  assumes "exec_demand env c L = Inr L'" "set_option (demand_signer c) \<subseteq> W" "prices_ok L" "runtimes_ok L"
  shows "market_move env W L L'"
proof (cases c)
  case (Create_job s a)
  then show ?thesis using assms
    by (auto simp: create_job_def outcome_simps job_vacant_def put_defs Let_def intro!: market_move.born [where a = a and buyer = s])
next
  case (Fund_job s j t)
  then show ?thesis using assms
    by (auto simp: fund_job_def outcome_simps put_defs intro!: market_move.funded job_move.fund)
next
  case (Assign_offer s j f)
  then show ?thesis using assms offer_refines by auto
next
  case (Create_agent_job s own t a pf)
  then show ?thesis using assms agent_job_refines by auto
next
  case (Place_bid s j p m c st e)
  then show ?thesis using assms by (auto simp: place_bid_def outcome_simps put_defs Let_def intro: market_move.idle)
next
  case (Cancel_bid s b)
  then show ?thesis using assms by (auto simp: cancel_bid_def outcome_simps put_defs intro: market_move.idle)
qed (use assms accept_bid_refines in auto)

lemma moved_refines:
  assumes "L' = emit_state k st (put_job k j' L)" "lg_jobs L k = Some j" "job_move (lg_now L) j j'"
    "jb_state j' \<notin> {st_OPEN, st_ASSIGNED, st_REFUNDED}" "jb_settled j' = jb_settled j"
  shows "market_move env W L L'"
  using assms by (intro market_move.moved [of L k j j']) (auto simp: put_defs)

lemma run_limit_eq [outcome_simps]:
  "run_limit j = Inr t \<longleftrightarrow> t = jb_startedAt j + jb_timeout j + 60 \<and> i64 (jb_startedAt j + jb_timeout j) \<and> i64 t"
  by (auto simp: run_limit_def outcome_simps)

lemma expirable_move:
  "expirable j now = Inr True \<Longrightarrow> job_move now j (j\<lparr>jb_state := st_EXPIRED\<rparr>)"
  by (rule job_move.expire) (auto simp: expirable_def outcome_simps split: if_splits)

lemma settle_refines:
  assumes "settle_job env job payout treasury refund L = Inr L'"
  shows "market_move env W L L'"
  using assms unfolding settle_job_def andThen_eq_Inr load_eq guard_eq_Inr checked_eq plain_i64_eq transfer_checked_eq
    split_paired_Ex prod.case
proof (elim exE conjE, goal_cases)
  case (1 j p m _ _ limit _ payment fee rest L1 ts1 L2 ts2 L3 ts3)
  have "job_move (lg_now L) j (j\<lparr>jb_settled := True, jb_providerPaid := payment, jb_feePaid := fee, jb_refunded := rest\<rparr>)"
    using 1 by (intro job_move.settle) auto
  with 1 show ?case
    by (intro market_move.settled [where k = job and j = j and m = m and payment = payment and fee = fee and rest = rest
        and ?ts1.0 = ts1 and ?ts2.0 = ts2 and payout = payout and treasury = treasury and refund = refund
        and mdone = "mc_completed m + 1"]) (auto simp: put_defs)
qed

lemma exec_run_refines:
  assumes "exec_run env c L = Inr L'"
  shows "market_move env W L L'"
proof (cases c)
  case (Start_job s j)
  then show ?thesis using assms
    by (auto simp: start_job_def worker_job_def outcome_simps intro!: moved_refines job_move.start)
next
  case (Submit_receipt s j h)
  then show ?thesis using assms
    by (auto simp: submit_receipt_def worker_job_def outcome_simps intro!: moved_refines job_move.submit)
next
  case (Submit_verification s j h ok)
  then show ?thesis using assms Submit_verification
    by (auto simp: submit_verification_def outcome_simps Let_def split: if_splits intro!: moved_refines job_move.verify)
next
  case (Cancel_job s j)
  then show ?thesis using assms
    by (auto simp: cancel_job_def cancel_checked_def outcome_simps intro!: moved_refines job_move.cancel)
next
  case (Cancel_agent_job s own j pf)
  then show ?thesis using assms
    by (auto simp: cancel_agent_job_def cancel_checked_def outcome_simps intro!: moved_refines job_move.cancel)
next
  case (Expire_job j)
  then show ?thesis using assms
    by (auto simp: expire_job_def outcome_simps intro!: moved_refines expirable_move)
next
  case (Open_dispute s j h)
  then show ?thesis using assms
    by (auto simp: open_dispute_def outcome_simps intro!: moved_refines job_move.dispute)
next
  case (Resolve_dispute s j a)
  then show ?thesis using assms
    by (auto simp: resolve_dispute_def outcome_simps u64_def intro!: moved_refines job_move.resolve)
next
  case (Settle_job j p t r)
  then show ?thesis using assms settle_refines by auto
next
  case (Refund_job j r)
  then show ?thesis using assms
    by (auto simp: refund_job_def outcome_simps put_defs intro!: market_move.refunded)
next
  case (Release_machine j)
  then show ?thesis using assms
    by (auto simp: release_machine_def outcome_simps put_defs intro!: market_move.released)
qed

section \<open>A job's account\<close>

definition terms_fine :: "job_account \<Rightarrow> bool" where
  "terms_fine j \<longleftrightarrow> bytes32 (jb_id j) \<and> u64 (jb_budget j) \<and> 0 < jb_timeout j \<and> jb_timeout j \<le> 86400
     \<and> 0 \<le> jb_feeBps j \<and> jb_feeBps j \<le> 300 \<and> 1 \<le> jb_disputeSeconds j \<and> jb_disputeSeconds j \<le> 604800"

definition stage_fine :: "job_account \<Rightarrow> bool" where
  "stage_fine j \<longleftrightarrow>
     (if jb_state j \<in> {st_CREATED, st_OPEN} then jb_machine j = default_key \<and> jb_price j = 0
        \<and> jb_deposit j = (if jb_state j = st_CREATED then 0 else jb_budget j)
      else if jb_state j \<in> {st_CANCELLED, st_EXPIRED, st_REFUNDED} then
        (jb_deposit j = 0 \<or> jb_deposit j = jb_budget j) \<and> 0 \<le> jb_price j \<and> jb_price j \<le> jb_deposit j
      else jb_state j \<in> {st_ASSIGNED, st_RUNNING, st_VERIFYING, st_COMPLETED, st_FAILED, st_DISPUTED}
        \<and> jb_machine j \<noteq> default_key \<and> jb_deposit j = jb_budget j \<and> 0 \<le> jb_price j \<and> jb_price j \<le> jb_deposit j)"

definition times_fine :: "int \<Rightarrow> job_account \<Rightarrow> bool" where
  "times_fine now j \<longleftrightarrow> 0 \<le> jb_startedAt j \<and> jb_startedAt j \<le> now \<and> 0 \<le> jb_submittedAt j \<and> jb_submittedAt j \<le> now
     \<and> - 604800 \<le> jb_verifiedAt j \<and> jb_verifiedAt j \<le> now
     \<and> (if jb_resolved j then jb_state j = st_COMPLETED \<and> jb_verifiedAt j + jb_disputeSeconds j \<le> now else True)"

definition job_fine :: "int \<Rightarrow> job_account \<Rightarrow> bool" where
  "job_fine now j \<longleftrightarrow> terms_fine j \<and> stage_fine j \<and> times_fine now j"

text \<open>What has been paid out: nothing before the settlement, all of the deposit and no more after it.\<close>

definition paid_out :: "job_account \<Rightarrow> bool" where
  "paid_out j \<longleftrightarrow>
     (if \<not> jb_settled j then jb_state j \<noteq> st_REFUNDED \<and> jb_providerPaid j = 0 \<and> jb_feePaid j = 0 \<and> jb_refunded j = 0
      else jb_providerPaid j + jb_feePaid j + jb_refunded j = jb_deposit j
        \<and> 0 \<le> jb_providerPaid j \<and> 0 \<le> jb_feePaid j \<and> 0 \<le> jb_refunded j
        \<and> (jb_state j = st_COMPLETED \<and> jb_providerPaid j + jb_feePaid j = jb_price j \<and> 100 * jb_feePaid j \<le> 3 * jb_price j
           \<or> jb_state j = st_REFUNDED \<and> jb_refunded j = jb_deposit j))"

lemma fee_share:
  fixes p :: int
  assumes "0 \<le> p" "0 \<le> f" "f \<le> 300"
  shows "0 \<le> p * f div 10000" "100 * (p * f div 10000) \<le> 3 * p" "p * f div 10000 \<le> p"
proof -
  show "0 \<le> p * f div 10000" using assms by (simp add: pos_imp_zdiv_nonneg_iff)
  have "p * f \<le> p * 300" using assms by (intro mult_left_mono) auto
  moreover have "10000 * (p * f div 10000) \<le> p * f"
    using mult_div_mod_eq [of 10000 "p * f"] pos_mod_sign [of 10000 "p * f"] by linarith
  ultimately show "100 * (p * f div 10000) \<le> 3 * p" "p * f div 10000 \<le> p" using assms(1) by linarith+
qed

lemma split_escrow_eq:
  assumes "u64 d" "u64 p" "u16 f"
  shows "split_escrow d p f = (if f \<le> 300 \<and> p \<le> d then Inr (p - p * f div 10000, p * f div 10000, d - p) else Inl Bounds)"
proof (cases "f \<le> 300 \<and> p \<le> d")
  case True
  then have f: "0 \<le> p * f div 10000" "p * f div 10000 \<le> p" using fee_share [of p f] assms by (auto simp: u64_def u16_def)
  have "p * f \<le> 18446744073709551615 * 300" using assms True by (intro mult_mono) (auto simp: u64_def u16_def)
  moreover have "p * f div 10000 mod 2 ^ 64 = p * f div 10000" using f assms by (intro mod_pos_pos_trivial) (auto simp: u64_def)
  ultimately show ?thesis using True f assms by (simp add: split_escrow_def checked_def u64_def Let_def)
qed (auto simp: split_escrow_def)

lemma stage_amounts:
  assumes "terms_fine j" "stage_fine j"
  shows "0 \<le> jb_price j" "jb_price j \<le> jb_deposit j" "u64 (jb_deposit j)" "u64 (jb_price j)" "u16 (jb_feeBps j)"
proof -
  show p: "0 \<le> jb_price j" "jb_price j \<le> jb_deposit j" using assms by (auto simp: stage_fine_def terms_fine_def u64_def split: if_splits)
  show d: "u64 (jb_deposit j)" using assms by (auto simp: stage_fine_def terms_fine_def u64_def split: if_splits)
  show "u64 (jb_price j)" using p d by (simp add: u64_def)
  show "u16 (jb_feeBps j)" using assms(1) by (simp add: terms_fine_def u16_def)
qed

lemma settlement_split:
  assumes "terms_fine j" "stage_fine j"
  shows "split_escrow (jb_deposit j) (jb_price j) (jb_feeBps j) =
    Inr (jb_price j - jb_price j * jb_feeBps j div 10000, jb_price j * jb_feeBps j div 10000, jb_deposit j - jb_price j)"
  using stage_amounts [OF assms] assms(1) by (simp add: split_escrow_eq terms_fine_def)

lemma paid_out_move:
  assumes "job_move now j j'" "terms_fine j" "stage_fine j" "paid_out j"
  shows "paid_out j'"
proof -
  note amounts = stage_amounts [OF assms(2,3)] and share = settlement_split [OF assms(2,3)]
  have fee: "0 \<le> jb_price j * jb_feeBps j div 10000" "100 * (jb_price j * jb_feeBps j div 10000) \<le> 3 * jb_price j"
      "jb_price j * jb_feeBps j div 10000 \<le> jb_price j"
    using fee_share [of "jb_price j" "jb_feeBps j"] amounts(1) assms(2) by (simp_all add: terms_fine_def)
  from assms(1) show ?thesis
  proof cases
    case settle
    with share amounts fee show ?thesis by (simp add: paid_out_def)
  next
    case refund
    with assms(4) amounts show ?thesis by (simp add: paid_out_def)
  qed (use assms(4) in \<open>auto simp: paid_out_def split: if_splits\<close>)
qed

lemma terms_fine_move: "job_move now j j' \<Longrightarrow> terms_fine j \<Longrightarrow> terms_fine j'"
  by (cases rule: job_move.cases) (auto simp: terms_fine_def)

lemma stage_fine_move:
  assumes "job_move now j j'" "terms_fine j" "stage_fine j"
    and "jb_state j' = st_ASSIGNED \<Longrightarrow> 0 \<le> jb_price j' \<and> jb_machine j' \<noteq> default_key"
  shows "stage_fine j'"
  using assms(1)
proof cases
  case expire
  then show ?thesis using assms(3) stage_amounts [OF assms(2,3)] by (auto simp: stage_fine_def)
next
  case verify
  then show ?thesis using assms(3) by (auto simp: stage_fine_def)
next
  case cancel
  then show ?thesis using assms(3) stage_amounts [OF assms(2,3)] by (auto simp: stage_fine_def)
next
  case refund
  then show ?thesis using assms(3) by (auto simp: stage_fine_def)
qed (use assms(2,3,4) in \<open>simp_all add: stage_fine_def terms_fine_def u64_def\<close>)

lemma times_fine_move:
  assumes "job_move now j j'" "terms_fine j" "times_fine now j" "0 \<le> now"
  shows "times_fine now j'"
  using assms(1)
proof cases
  case dispute
  then show ?thesis using assms(3) by (simp add: times_fine_def split: if_splits)
next
  case expire
  then show ?thesis using assms(3) by (auto simp: times_fine_def split: if_splits)
next
  case verify
  then show ?thesis using assms(3,4) by (auto simp: times_fine_def split: if_splits)
qed (use assms(2,3,4) in \<open>auto simp: times_fine_def terms_fine_def split: if_splits\<close>)

lemma job_fine_move:
  assumes "job_move now j j'" "job_fine now j" "0 \<le> now"
    and "jb_state j' = st_ASSIGNED \<Longrightarrow> 0 \<le> jb_price j' \<and> jb_machine j' \<noteq> default_key"
  shows "job_fine now j'"
  using assms terms_fine_move stage_fine_move times_fine_move unfolding job_fine_def by blast

lemma job_fine_later: "job_fine now j \<Longrightarrow> now \<le> t \<Longrightarrow> job_fine t j"
  by (auto simp: job_fine_def times_fine_def split: if_splits)

lemma job_fine_new:
  assumes "job_args_ok a" "0 < ja_timeout a" "ja_timeout a \<le> 86400" "0 \<le> now"
    "0 \<le> cf_feeBps c" "cf_feeBps c \<le> 300" "1 \<le> cf_disputeSeconds c" "cf_disputeSeconds c \<le> 604800"
  shows "job_fine now (new_job c b a)" "job_fine now ((new_job c b a)\<lparr>jb_deposit := ja_budget a, jb_state := st_OPEN\<rparr>)"
  using assms by (simp_all add: job_fine_def terms_fine_def stage_fine_def times_fine_def new_job_def job_args_ok_def)

section \<open>Token accounts\<close>

lemma transferD:
  assumes "token_contract T" "T ts src mint dst authority amount = Some ts'"
  obtains s d where "ts src = Some s" "ts dst = Some d" "tk_mint s = mint" "tk_mint d = mint" "amount \<le> tk_amount s"
    "tk_owner s = authority \<or> tk_delegate s = Some authority"
  using assms unfolding token_contract_def by blast

lemma transfer_account:
  assumes "token_contract T" "T ts src mint dst authority amount = Some ts'" "ts a = Some x"
  shows "\<exists>x'. ts' a = Some x' \<and> tk_owner x' = tk_owner x \<and> tk_mint x' = tk_mint x
    \<and> (tk_delegate x' = tk_delegate x \<or> tk_delegate x' = None)
    \<and> tk_amount x' = tk_amount x - (if a = src then amount else 0) + (if a = dst then amount else 0)"
proof -
  from assms(1,2) have "case ts a of None \<Rightarrow> ts' a = None
      | Some x \<Rightarrow> \<exists>x'. ts' a = Some x' \<and> tk_owner x' = tk_owner x \<and> tk_mint x' = tk_mint x
          \<and> (tk_delegate x' = tk_delegate x \<or> tk_delegate x' = None)
          \<and> tk_amount x' = tk_amount x - (if a = src then amount else 0) + (if a = dst then amount else 0)"
    unfolding token_contract_def by blast
  then show ?thesis by (simp add: assms(3))
qed

lemma transfer_keeps:
  assumes "token_contract T" "T ts src mint dst authority amount = Some ts'" "0 \<le> amount"
  shows "keeps {authority} ts ts'"
  unfolding keeps_def
proof (intro allI impI)
  fix a x assume x: "ts a = Some x \<and> tk_owner x \<notin> {authority} \<and> tk_delegate x = None"
  with transferD [OF assms(1,2)] have "a \<noteq> src" by force
  with transfer_account [OF assms(1,2)] x assms(3) show "\<exists>x'. ts' a = Some x' \<and> tk_owner x' = tk_owner x \<and> tk_mint x' = tk_mint x
      \<and> tk_delegate x' = None \<and> tk_amount x \<le> tk_amount x'"
    by (force split: if_splits)
qed

lemma keeps_tokensD:
  assumes "keeps A ts ts'" "ts a = Some x" "tk_owner x \<notin> A" "tk_delegate x = None"
  obtains x' where "ts' a = Some x'" "tk_owner x' = tk_owner x" "tk_mint x' = tk_mint x" "tk_delegate x' = None"
    "tk_amount x \<le> tk_amount x'"
  using assms unfolding keeps_def by blast

lemma keeps_trans:
  assumes "keeps A ts ts'" "keeps A ts' ts''"
  shows "keeps A ts ts''"
  unfolding keeps_def
proof (intro allI impI)
  fix a x assume x: "ts a = Some x \<and> tk_owner x \<notin> A \<and> tk_delegate x = None"
  then obtain y where y: "ts' a = Some y" "tk_owner y = tk_owner x" "tk_mint y = tk_mint x" "tk_delegate y = None" "tk_amount x \<le> tk_amount y"
    using keeps_tokensD [OF assms(1), of a x] by blast
  with x obtain z where "ts'' a = Some z" "tk_owner z = tk_owner y" "tk_mint z = tk_mint y" "tk_delegate z = None" "tk_amount y \<le> tk_amount z"
    using keeps_tokensD [OF assms(2), of a y] by auto
  with y show "\<exists>z. ts'' a = Some z \<and> tk_owner z = tk_owner x \<and> tk_mint z = tk_mint x \<and> tk_delegate z = None \<and> tk_amount x \<le> tk_amount z"
    by auto
qed

text \<open>The escrow account of a job is the job's own, undelegated, and holds what is still owed.\<close>

definition covered :: "program_env \<Rightarrow> token_state \<Rightarrow> string \<Rightarrow> job_account \<Rightarrow> bool" where
  "covered env ts k j \<longleftrightarrow> (case ts (escrow_key env k) of None \<Rightarrow> False
     | Some x \<Rightarrow> tk_owner x = k \<and> tk_mint x = jb_mint j \<and> tk_delegate x = None
         \<and> (if jb_settled j then 0 else jb_deposit j) \<le> tk_amount x)"

lemma covered_iff:
  "covered env ts k j \<longleftrightarrow> (\<exists>x. ts (escrow_key env k) = Some x \<and> tk_owner x = k \<and> tk_mint x = jb_mint j \<and> tk_delegate x = None
     \<and> (if jb_settled j then 0 else jb_deposit j) \<le> tk_amount x)"
  by (auto simp: covered_def split: option.splits)

lemma covered_keeps:
  assumes "covered env ts k j" "keeps A ts ts'" "k \<notin> A"
  shows "covered env ts' k j"
proof -
  from assms(1) obtain x where x: "ts (escrow_key env k) = Some x" "tk_owner x = k" "tk_mint x = jb_mint j" "tk_delegate x = None"
      "(if jb_settled j then 0 else jb_deposit j) \<le> tk_amount x"
    unfolding covered_iff by blast
  then obtain x' where "ts' (escrow_key env k) = Some x'" "tk_owner x' = k" "tk_mint x' = jb_mint j" "tk_delegate x' = None"
      "tk_amount x \<le> tk_amount x'"
    using keeps_tokensD [OF assms(2) x(1)] assms(3) by auto
  with x(5) show ?thesis unfolding covered_iff by (blast intro: order_trans)
qed

lemma covered_same:
  "covered env ts k j \<Longrightarrow> jb_mint j' = jb_mint j \<Longrightarrow> jb_settled j' = jb_settled j \<Longrightarrow> jb_deposit j' = jb_deposit j \<Longrightarrow> covered env ts k j'"
  by (auto simp: covered_def split: option.splits)

lemma transfer_in:
  assumes "token_contract T" "T ts src mint (escrow_key env k) authority amount = Some ts'" "authority \<noteq> k"
    "ts (escrow_key env k) = Some x" "tk_owner x = k" "tk_delegate x = None" "tk_mint x = jb_mint j"
    "\<not> jb_settled j" "jb_deposit j \<le> tk_amount x + amount"
  shows "covered env ts' k j"
proof -
  have "src \<noteq> escrow_key env k" using transferD [OF assms(1,2)] assms(3-6) by force
  with transfer_account [OF assms(1,2,4)] assms show ?thesis by (auto simp: covered_iff)
qed

lemma transfer_out:
  assumes "token_contract T" "T ts (escrow_key env k) mint dst k amount = Some ts'" "0 \<le> amount"
    "ts (escrow_key env k) = Some x" "tk_owner x = k" "tk_delegate x = None"
  obtains x' where "ts' (escrow_key env k) = Some x'" "tk_owner x' = k" "tk_mint x' = tk_mint x" "tk_delegate x' = None"
    "tk_amount x - amount \<le> tk_amount x'"
  using transfer_account [OF assms(1,2,4)] assms(3,5,6) that by (auto split: if_splits)

section \<open>The ledger\<close>

text \<open>An unsettled job that has been assigned holds its machine, and a busy machine is held by the job it names.\<close>

definition holds :: "ledger \<Rightarrow> string \<Rightarrow> job_account \<Rightarrow> bool" where
  "holds L k j \<longleftrightarrow> (case lg_machines L (jb_machine j) of None \<Rightarrow> False
     | Some m \<Rightarrow> mc_busy m \<and> mc_activeJob m = k \<and> mc_provider m = jb_provider j)"

definition occupied :: "ledger \<Rightarrow> string \<Rightarrow> machine_account \<Rightarrow> bool" where
  "occupied L mk m \<longleftrightarrow> (case lg_jobs L (mc_activeJob m) of None \<Rightarrow> False
     | Some j \<Rightarrow> jb_machine j = mk \<and> (jb_settled j \<longrightarrow> jb_state j = st_REFUNDED))"

definition config_fine :: "config_account \<Rightarrow> bool" where
  "config_fine c \<longleftrightarrow> 0 \<le> cf_feeBps c \<and> cf_feeBps c \<le> 300 \<and> 1 \<le> cf_disputeSeconds c \<and> cf_disputeSeconds c \<le> 604800"

definition job_sound :: "program_env \<Rightarrow> ledger \<Rightarrow> string \<Rightarrow> job_account \<Rightarrow> bool" where
  "job_sound env L k j \<longleftrightarrow> job_key env (jb_buyer j) (jb_id j) = k \<and> job_fine (lg_now L) j \<and> paid_out j
     \<and> covered env (lg_tokens L) k j \<and> (\<not> jb_settled j \<and> jb_machine j \<noteq> default_key \<longrightarrow> holds L k j)"

definition sound :: "program_env \<Rightarrow> ledger \<Rightarrow> bool" where
  "sound env L \<longleftrightarrow> 0 \<le> lg_now L \<and> (\<forall>c. lg_config L = Some c \<longrightarrow> config_fine c) \<and> runtimes_ok L \<and> prices_ok L
     \<and> dom (lg_machines L) \<subseteq> derived env
     \<and> (\<forall>k j. lg_jobs L k = Some j \<longrightarrow> job_sound env L k j)
     \<and> (\<forall>mk m. lg_machines L mk = Some m \<and> mc_busy m \<longrightarrow> occupied L mk m)"

lemma derived_job: "length i = 32 \<Longrightarrow> job_key env b i \<in> derived env"
  by (auto simp: derived_def job_key_def program_seeds_def)

lemma derived_escrow: "escrow_key env k \<in> derived env"
  by (auto simp: derived_def escrow_key_def program_seeds_def)

lemma derived_machine: "length i = 32 \<Longrightarrow> pe_pda env [Text ''machine'', Key p, Bytes i] \<in> derived env"
  by (auto simp: derived_def program_seeds_def)

lemma job_soundD:
  assumes "job_sound env L k j"
  shows "k \<in> derived env" "job_fine (lg_now L) j" "paid_out j" "covered env (lg_tokens L) k j" "terms_fine j" "stage_fine j"
proof -
  from assms show "job_fine (lg_now L) j" "paid_out j" "covered env (lg_tokens L) k j" by (simp_all add: job_sound_def)
  then show "terms_fine j" "stage_fine j" by (simp_all add: job_fine_def)
  then have "length (jb_id j) = 32" by (simp add: terms_fine_def bytes32_def)
  with derived_job have "job_key env (jb_buyer j) (jb_id j) \<in> derived env" by blast
  with assms show "k \<in> derived env" unfolding job_sound_def by metis
qed

text \<open>The parts of the invariant the abstract market changes.\<close>

definition jobs_sound :: "program_env \<Rightarrow> ledger \<Rightarrow> bool" where
  "jobs_sound env L \<longleftrightarrow> (\<forall>k j. lg_jobs L k = Some j \<longrightarrow> job_sound env L k j)
     \<and> (\<forall>mk m. lg_machines L mk = Some m \<and> mc_busy m \<longrightarrow> occupied L mk m)"

text \<open>A step on one job: the others keep their soundness when their escrows and machines do.\<close>

lemma job_sound_frame:
  assumes "job_sound env L k j" "keeps A (lg_tokens L) (lg_tokens L')" "k \<notin> A" "lg_now L' = lg_now L"
    "\<not> jb_settled j \<Longrightarrow> holds L k j \<Longrightarrow> holds L' k j"
  shows "job_sound env L' k j"
  using assms(1,4,5) covered_keeps [OF _ assms(2,3)] by (simp add: job_sound_def)

lemma keeps_refl [simp]: "keeps A ts ts"
  by (auto simp: keeps_def)

lemma jobs_sound_step:
  assumes L: "jobs_sound env L" and keep: "keeps A (lg_tokens L) (lg_tokens L')" and A: "A \<inter> derived env \<subseteq> {k}"
    and now: "lg_now L' = lg_now L" and jobs: "lg_jobs L' = (lg_jobs L)(k \<mapsto> j')" and j': "job_sound env L' k j'"
    and hold: "\<And>k' i. k' \<noteq> k \<Longrightarrow> lg_jobs L k' = Some i \<Longrightarrow> \<not> jb_settled i \<Longrightarrow> holds L k' i \<Longrightarrow> holds L' k' i"
    and busy: "\<And>mk m. lg_machines L' mk = Some m \<Longrightarrow> mc_busy m \<Longrightarrow> occupied L' mk m"
  shows "jobs_sound env L'"
  unfolding jobs_sound_def
proof (intro conjI allI impI)
  fix k' i assume i: "lg_jobs L' k' = Some i"
  show "job_sound env L' k' i"
  proof (cases "k' = k")
    case False
    with i jobs have "lg_jobs L k' = Some i" by simp
    with L have "job_sound env L k' i" by (simp add: jobs_sound_def)
    moreover from job_soundD(1) [OF this] A False have "k' \<notin> A" by blast
    ultimately show ?thesis using job_sound_frame [OF _ keep _ now] hold [OF False \<open>lg_jobs L k' = Some i\<close>] by blast
  qed (use i jobs j' in auto)
qed (use busy in blast)

lemma job_move_keeps:
  assumes "job_move now j j'"
  shows "jb_buyer j' = jb_buyer j" "jb_id j' = jb_id j" "jb_mint j' = jb_mint j" "jb_state j \<noteq> st_REFUNDED"
    "jb_state j' \<noteq> st_OPEN \<Longrightarrow> jb_deposit j' = jb_deposit j"
    "jb_state j' \<noteq> st_ASSIGNED \<Longrightarrow> jb_machine j' = jb_machine j \<and> jb_provider j' = jb_provider j"
    "jb_specHash j' = jb_specHash j" "jb_verifier j' = jb_verifier j" "jb_policy j' = jb_policy j"
  using assms by (cases; auto)+

lemma keeps_new: "ts a = None \<Longrightarrow> keeps A ts (ts(a \<mapsto> x))"
  by (auto simp: keeps_def)

lemma holds_iff:
  "holds L k j \<longleftrightarrow> (\<exists>m. lg_machines L (jb_machine j) = Some m \<and> mc_busy m \<and> mc_activeJob m = k \<and> mc_provider m = jb_provider j)"
  by (auto simp: holds_def split: option.splits)

lemma occupied_iff:
  "occupied L mk m \<longleftrightarrow> (\<exists>j. lg_jobs L (mc_activeJob m) = Some j \<and> jb_machine j = mk \<and> (jb_settled j \<longrightarrow> jb_state j = st_REFUNDED))"
  by (auto simp: occupied_def split: option.splits)

lemma stage_machine: "stage_fine j \<Longrightarrow> jb_state j \<in> {st_CREATED, st_OPEN} \<Longrightarrow> jb_machine j = default_key"
  by (auto simp: stage_fine_def)

text \<open>What a call finds and leaves: a sound ledger, the laws of its environment, the same clock.\<close>

definition at_call :: "program_env \<Rightarrow> string set \<Rightarrow> ledger \<Rightarrow> ledger \<Rightarrow> bool" where
  "at_call env W L L' \<longleftrightarrow> market_env env W \<and> sound env L \<and> lg_now L' = lg_now L"

lemma at_callD:
  assumes "at_call env W L L'"
  shows "token_contract (pe_transfer env)" "jobs_sound env L" "0 \<le> lg_now L" "lg_now L' = lg_now L"
    "\<And>k j. lg_jobs L k = Some j \<Longrightarrow> job_sound env L k j"
    "\<And>mk m. lg_machines L mk = Some m \<Longrightarrow> mc_busy m \<Longrightarrow> occupied L mk m"
    "\<And>mk m. lg_machines L mk = Some m \<Longrightarrow> mk \<noteq> default_key"
    "\<And>a. a \<in> W \<Longrightarrow> a \<notin> derived env"
    "\<And>c. lg_config L = Some c \<Longrightarrow> config_fine c"
  using assms by (auto simp: at_call_def market_env_def sound_def jobs_sound_def)

text \<open>Machines as they were: every job holds its own, and \<open>k\<close> stays on the machine it was on.\<close>

lemma same_machines:
  assumes "at_call env W L L'" "lg_machines L' = lg_machines L" "lg_jobs L' = (lg_jobs L)(k \<mapsto> j')"
    "\<And>j. lg_jobs L k = Some j \<Longrightarrow> jb_machine j' = jb_machine j \<and> (jb_settled j' \<longrightarrow> jb_settled j \<and> jb_state j' = jb_state j \<or> jb_state j' = st_REFUNDED)"
  shows "\<And>k' i. holds L k' i \<Longrightarrow> holds L' k' i"
    and "\<And>mk m. lg_machines L' mk = Some m \<Longrightarrow> mc_busy m \<Longrightarrow> occupied L' mk m"
proof -
  show "holds L' k' i" if "holds L k' i" for k' i using that assms(2) by (simp add: holds_def)
  show "occupied L' mk m" if "lg_machines L' mk = Some m" "mc_busy m" for mk m
    using at_callD(6) [OF assms(1), of mk m] that assms(2-4) by (auto simp: occupied_iff)
qed

lemma born_sound:
  assumes at: "at_call env W L L'" and c: "lg_config L = Some c" and args: "job_args_ok a" "0 < ja_timeout a" "ja_timeout a \<le> 86400"
    and k: "k = job_key env buyer (ja_id a)" "vacant L k" "vacant L (escrow_key env k)"
    and jobs: "lg_jobs L' = (lg_jobs L)(k \<mapsto> new_job c buyer a)"
    and tokens: "lg_tokens L' = (lg_tokens L)(escrow_key env k \<mapsto> new_token (cf_mint c) k)"
    and machines: "lg_machines L' = lg_machines L"
  shows "jobs_sound env L'"
proof -
  have none: "lg_jobs L k = None" "lg_tokens L (escrow_key env k) = None" using k(2,3) by (simp_all add: vacant_def)
  have fine: "job_fine (lg_now L') (new_job c buyer a)"
    using job_fine_new(1) [OF args] at_callD(9) [OF at c] at_callD(3,4) [OF at] by (simp add: config_fine_def)
  show ?thesis
  proof (rule jobs_sound_step [where A = "{}" and k = k and L = L])
    show "job_sound env L' k (new_job c buyer a)" using fine k(1) tokens
      by (simp add: job_sound_def covered_def new_token_def new_job_def paid_out_def)
  qed (use none at_callD(2,4) [OF at] jobs tokens same_machines [OF at machines jobs] in \<open>simp_all add: keeps_new\<close>)
qed

lemma born_funded_sound:
  assumes at: "at_call env W L L'" and c: "lg_config L = Some c" and args: "job_args_ok a" "0 < ja_timeout a" "ja_timeout a \<le> 86400"
    and k: "k = job_key env owner (ja_id a)" "vacant L k" "vacant L (escrow_key env k)" and agent: "agent \<in> W"
    and jobs: "lg_jobs L' = (lg_jobs L)(k \<mapsto> (new_job c owner a)\<lparr>jb_deposit := ja_budget a, jb_state := st_OPEN\<rparr>)"
    and tokens: "pe_transfer env ((lg_tokens L)(escrow_key env k \<mapsto> new_token (cf_mint c) k)) source (cf_mint c)
      (escrow_key env k) agent (ja_budget a) = Some (lg_tokens L')"
    and machines: "lg_machines L' = lg_machines L"
  shows "jobs_sound env L'"
proof -
  let ?j = "(new_job c owner a)\<lparr>jb_deposit := ja_budget a, jb_state := st_OPEN\<rparr>"
  have none: "lg_jobs L k = None" "lg_tokens L (escrow_key env k) = None" using k(2,3) by (simp_all add: vacant_def)
  have amount: "0 \<le> ja_budget a" and "k \<in> derived env"
    using args(1) derived_job [of "ja_id a" env owner] k(1) by (simp_all add: job_args_ok_def u64_def bytes32_def)
  with at_callD(8) [OF at agent] have "agent \<noteq> k" by blast
  then have cov: "covered env (lg_tokens L') k ?j"
    using transfer_in [OF at_callD(1) [OF at] tokens, of "new_token (cf_mint c) k" ?j] by (simp add: new_token_def new_job_def)
  have fine: "job_fine (lg_now L') ?j"
    using job_fine_new(2) [OF args] at_callD(9) [OF at c] at_callD(3,4) [OF at] by (simp add: config_fine_def)
  have keep: "keeps {agent} (lg_tokens L) (lg_tokens L')"
    using keeps_trans [OF keeps_new transfer_keeps [OF at_callD(1) [OF at] tokens]] none(2) amount by blast
  show ?thesis
  proof (rule jobs_sound_step [where A = "{agent}" and k = k and L = L])
    show "job_sound env L' k ?j" using fine cov k(1) by (simp add: job_sound_def new_job_def paid_out_def)
  qed (use none at_callD(2,4) [OF at] jobs keep at_callD(8) [OF at agent] same_machines [OF at machines jobs] in simp_all)
qed

lemma funded_sound:
  assumes at: "at_call env W L L'" and j: "lg_jobs L k = Some j" "jb_state j = st_CREATED" and buyer: "jb_buyer j \<in> W"
    and move: "job_move (lg_now L) j (j\<lparr>jb_deposit := jb_budget j, jb_state := st_OPEN\<rparr>)"
    and jobs: "lg_jobs L' = (lg_jobs L)(k \<mapsto> j\<lparr>jb_deposit := jb_budget j, jb_state := st_OPEN\<rparr>)"
    and tokens: "pe_transfer env (lg_tokens L) source (jb_mint j) (escrow_key env k) (jb_buyer j) (jb_budget j) = Some (lg_tokens L')"
    and machines: "lg_machines L' = lg_machines L"
  shows "jobs_sound env L'"
proof -
  let ?j = "j\<lparr>jb_deposit := jb_budget j, jb_state := st_OPEN\<rparr>"
  note s = at_callD(5) [OF at j(1)] and f = job_soundD [OF at_callD(5) [OF at j(1)]]
  have amount: "0 \<le> jb_budget j" "jb_deposit j = 0" and u: "\<not> jb_settled j"
    using f(3,5,6) j(2) by (auto simp: terms_fine_def stage_fine_def u64_def paid_out_def split: if_splits)
  have owner: "jb_buyer j \<noteq> k" using at_callD(8) [OF at buyer] f(1) by blast
  from f(4) u amount(2) obtain x where x: "lg_tokens L (escrow_key env k) = Some x" "tk_owner x = k" "tk_delegate x = None"
      "tk_mint x = jb_mint j" "0 \<le> tk_amount x"
    unfolding covered_iff by auto
  then have cov: "covered env (lg_tokens L') k ?j"
    using transfer_in [OF at_callD(1) [OF at] tokens owner x(1-3), of ?j] u by simp
  have fine: "job_fine (lg_now L') ?j" "paid_out ?j"
    using job_fine_move [OF move f(2)] paid_out_move [OF move f(5,6,3)] at_callD(3,4) [OF at] by simp_all
  have machine: "jb_machine j = default_key" using stage_machine [OF f(6)] j(2) by simp
  show ?thesis
  proof (rule jobs_sound_step [where A = "{jb_buyer j}" and k = k and L = L])
    show "job_sound env L' k ?j" using fine cov s machine by (simp add: job_sound_def)
    show "keeps {jb_buyer j} (lg_tokens L) (lg_tokens L')" by (rule transfer_keeps [OF at_callD(1) [OF at] tokens amount(1)])
  qed (use u j at_callD(2,4) [OF at] jobs at_callD(8) [OF at buyer] same_machines [OF at machines jobs] in simp_all)
qed

lemma assigned_sound:
  assumes at: "at_call env W L L'" and j: "lg_jobs L k = Some j" "jb_state j = st_OPEN" and m: "lg_machines L mk = Some m" "\<not> mc_busy m"
    and move: "job_move (lg_now L) j j'" and j': "jb_machine j' = mk" "jb_state j' = st_ASSIGNED" "0 \<le> jb_price j'" "jb_provider j' = mc_provider m"
    and jobs: "lg_jobs L' = (lg_jobs L)(k \<mapsto> j')" and tokens: "lg_tokens L' = lg_tokens L"
    and machines: "lg_machines L' = (lg_machines L)(mk \<mapsto> m\<lparr>mc_busy := True, mc_activeJob := k\<rparr>)"
  shows "jobs_sound env L'"
proof -
  note s = at_callD(5) [OF at j(1)] and f = job_soundD [OF at_callD(5) [OF at j(1)]]
  note mk = at_callD(7) [OF at m(1)]
  have u: "\<not> jb_settled j" using f(3) j(2) by (auto simp: paid_out_def split: if_splits)
  have u': "jb_settled j' = jb_settled j" using move j'(2) by cases auto
  have fine: "job_fine (lg_now L') j'" "paid_out j'"
    using job_fine_move [OF move f(2)] paid_out_move [OF move f(5,6,3)] at_callD(3,4) [OF at] j' mk by simp_all
  have cov: "covered env (lg_tokens L') k j'"
    using covered_same [OF f(4) job_move_keeps(3) [OF move] u' job_move_keeps(5) [OF move]] j'(2) tokens by simp
  have machine: "jb_machine j = default_key" using stage_machine [OF f(6)] j(2) by simp
  show ?thesis
  proof (rule jobs_sound_step [where A = "{}" and k = k and L = L])
    show "job_sound env L' k j'"
      using fine cov s job_move_keeps(1,2) [OF move] j' machines by (simp add: job_sound_def holds_def)
    show "holds L' k' i" if "k' \<noteq> k" "holds L k' i" for k' i
      using that machines m by (auto simp: holds_iff)
    show "occupied L' mk' m'" if "lg_machines L' mk' = Some m'" "mc_busy m'" for mk' m'
    proof (cases "mk' = mk")
      case False
      with that machines have m': "lg_machines L mk' = Some m'" by simp
      then have o: "occupied L mk' m'" using at_callD(6) [OF at] that(2) by blast
      then have "mc_activeJob m' \<noteq> k" using j(1) machine at_callD(7) [OF at m'] by (auto simp: occupied_iff)
      with o jobs show ?thesis by (simp add: occupied_def)
    qed (use that machines jobs j' u u' in \<open>auto simp: occupied_iff\<close>)
  qed (use at_callD(2,4) [OF at] jobs tokens in simp_all)
qed

lemma moved_sound:
  assumes at: "at_call env W L L'" and j: "lg_jobs L k = Some j" and move: "job_move (lg_now L) j j'"
    and j': "jb_state j' \<notin> {st_OPEN, st_ASSIGNED, st_REFUNDED}" "jb_settled j' = jb_settled j"
    and jobs: "lg_jobs L' = (lg_jobs L)(k \<mapsto> j')" and tokens: "lg_tokens L' = lg_tokens L" and machines: "lg_machines L' = lg_machines L"
  shows "jobs_sound env L'"
proof -
  note s = at_callD(5) [OF at j(1)] and f = job_soundD [OF at_callD(5) [OF at j(1)]]
  note kept = job_move_keeps [OF move]
  have fine: "job_fine (lg_now L') j'" "paid_out j'"
    using job_fine_move [OF move f(2)] paid_out_move [OF move f(5,6,3)] at_callD(3,4) [OF at] j' by simp_all
  have cov: "covered env (lg_tokens L') k j'" using covered_same [OF f(4) kept(3) j'(2) kept(5)] j'(1) tokens by simp
  have machine: "jb_machine j' = jb_machine j" "jb_provider j' = jb_provider j" using kept(6) j'(1) by simp_all
  have same: "jb_settled j' \<longrightarrow> jb_state j' = jb_state j"
    using move f(3) j'(2) by cases (auto simp: paid_out_def split: if_splits)
  show ?thesis
  proof (rule jobs_sound_step [where A = "{}" and k = k and L = L])
    show "job_sound env L' k j'"
      using fine cov s kept(1,2) machine j'(2) machines by (simp add: job_sound_def holds_iff)
  qed (use at_callD(2,4) [OF at] j j'(2) machine same jobs tokens same_machines [OF at machines jobs] in simp_all)
qed

lemma settled_sound:
  assumes at: "at_call env W L L'" and j: "lg_jobs L k = Some j" "jb_state j = st_COMPLETED" "\<not> jb_settled j"
    and move: "job_move (lg_now L) j (j\<lparr>jb_settled := True, jb_providerPaid := payment, jb_feePaid := fee, jb_refunded := rest\<rparr>)"
    and jobs: "lg_jobs L' = (lg_jobs L)(k \<mapsto> j\<lparr>jb_settled := True, jb_providerPaid := payment, jb_feePaid := fee, jb_refunded := rest\<rparr>)"
    and t1: "pe_transfer env (lg_tokens L) (escrow_key env k) (jb_mint j) payout k payment = Some ts1"
    and t2: "pe_transfer env ts1 (escrow_key env k) (jb_mint j) treasury k fee = Some ts2"
    and t3: "pe_transfer env ts2 (escrow_key env k) (jb_mint j) refund k rest = Some (lg_tokens L')"
    and m: "lg_machines L (jb_machine j) = Some m"
    and machines: "lg_machines L' = (lg_machines L)(jb_machine j \<mapsto> m\<lparr>mc_busy := False, mc_completed := mdone\<rparr>)"
  shows "jobs_sound env L'"
proof -
  let ?j = "j\<lparr>jb_settled := True, jb_providerPaid := payment, jb_feePaid := fee, jb_refunded := rest\<rparr>"
  note s = at_callD(5) [OF at j(1)] and f = job_soundD [OF at_callD(5) [OF at j(1)]] and T = at_callD(1) [OF at]
  have fine: "job_fine (lg_now L') ?j" "paid_out ?j"
    using job_fine_move [OF move f(2)] paid_out_move [OF move f(5,6,3)] at_callD(3,4) [OF at] j(2) by simp_all
  then have sum: "payment + fee + rest = jb_deposit j" "0 \<le> payment" "0 \<le> fee" "0 \<le> rest" by (auto simp: paid_out_def)
  from f(4) j(3) obtain x where x: "lg_tokens L (escrow_key env k) = Some x" "tk_owner x = k" "tk_mint x = jb_mint j" "tk_delegate x = None"
      "jb_deposit j \<le> tk_amount x"
    unfolding covered_iff by auto
  obtain x1 where x1: "ts1 (escrow_key env k) = Some x1" "tk_owner x1 = k" "tk_mint x1 = tk_mint x" "tk_delegate x1 = None"
      "tk_amount x - payment \<le> tk_amount x1"
    by (rule transfer_out [OF T t1 sum(2) x(1,2,4)])
  obtain x2 where x2: "ts2 (escrow_key env k) = Some x2" "tk_owner x2 = k" "tk_mint x2 = tk_mint x1" "tk_delegate x2 = None"
      "tk_amount x1 - fee \<le> tk_amount x2"
    by (rule transfer_out [OF T t2 sum(3) x1(1,2,4)])
  obtain x3 where "lg_tokens L' (escrow_key env k) = Some x3" "tk_owner x3 = k" "tk_mint x3 = tk_mint x2" "tk_delegate x3 = None"
      "tk_amount x2 - rest \<le> tk_amount x3"
    by (rule transfer_out [OF T t3 sum(4) x2(1,2,4)])
  with x x1 x2 sum(1) have cov: "covered env (lg_tokens L') k ?j" by (simp add: covered_iff)
  have held: "holds L k j" using s j f(6) by (simp add: job_sound_def stage_fine_def)
  show ?thesis
  proof (rule jobs_sound_step [where A = "{k}" and k = k and L = L])
    show "job_sound env L' k ?j" using fine cov s by (simp add: job_sound_def)
    show "keeps {k} (lg_tokens L) (lg_tokens L')"
      by (rule keeps_trans [OF keeps_trans [OF transfer_keeps [OF T t1 sum(2)] transfer_keeps [OF T t2 sum(3)]] transfer_keeps [OF T t3 sum(4)]])
    show "holds L' k' i" if "k' \<noteq> k" "holds L k' i" for k' i
      using that held machines by (auto simp: holds_iff)
    show "occupied L' mk' m'" if "lg_machines L' mk' = Some m'" "mc_busy m'" for mk' m'
    proof -
      from that machines have mk': "mk' \<noteq> jb_machine j" "lg_machines L mk' = Some m'" by (auto split: if_splits)
      then have o: "occupied L mk' m'" using at_callD(6) [OF at] that(2) by blast
      then have "mc_activeJob m' \<noteq> k" using j(1) mk'(1) by (auto simp: occupied_iff)
      with o jobs show ?thesis by (simp add: occupied_def)
    qed
  qed (use at_callD(2,4) [OF at] jobs in simp_all)
qed

lemma refunded_sound:
  assumes at: "at_call env W L L'" and j: "lg_jobs L k = Some j" "jb_state j \<in> {st_CANCELLED, st_EXPIRED, st_FAILED}" "\<not> jb_settled j"
    and jobs: "lg_jobs L' = (lg_jobs L)(k \<mapsto> j\<lparr>jb_settled := True, jb_refunded := jb_deposit j, jb_state := st_REFUNDED\<rparr>)"
    and t: "pe_transfer env (lg_tokens L) (escrow_key env k) (jb_mint j) refund k (jb_deposit j) = Some (lg_tokens L')"
    and machines: "lg_machines L' = lg_machines L"
  shows "jobs_sound env L'"
proof -
  let ?j = "j\<lparr>jb_settled := True, jb_refunded := jb_deposit j, jb_state := st_REFUNDED\<rparr>"
  note s = at_callD(5) [OF at j(1)] and f = job_soundD [OF at_callD(5) [OF at j(1)]] and T = at_callD(1) [OF at]
  have move: "job_move (lg_now L) j ?j" by (rule job_move.refund [OF j(2,3)])
  have fine: "job_fine (lg_now L') ?j" "paid_out ?j"
    using job_fine_move [OF move f(2)] paid_out_move [OF move f(5,6,3)] at_callD(3,4) [OF at] by simp_all
  have d: "0 \<le> jb_deposit j" using stage_amounts(3) [OF f(5,6)] by (simp add: u64_def)
  from f(4) j(3) obtain x where x: "lg_tokens L (escrow_key env k) = Some x" "tk_owner x = k" "tk_mint x = jb_mint j" "tk_delegate x = None"
      "jb_deposit j \<le> tk_amount x"
    unfolding covered_iff by auto
  obtain x1 where "lg_tokens L' (escrow_key env k) = Some x1" "tk_owner x1 = k" "tk_mint x1 = tk_mint x" "tk_delegate x1 = None"
      "tk_amount x - jb_deposit j \<le> tk_amount x1"
    by (rule transfer_out [OF T t d x(1,2,4)])
  with x have cov: "covered env (lg_tokens L') k ?j" by (simp add: covered_iff)
  show ?thesis
  proof (rule jobs_sound_step [where A = "{k}" and k = k and L = L])
    show "job_sound env L' k ?j" using fine cov s by (simp add: job_sound_def)
    show "keeps {k} (lg_tokens L) (lg_tokens L')" by (rule transfer_keeps [OF T t d])
  qed (use at_callD(2,4) [OF at] j jobs same_machines [OF at machines jobs] in simp_all)
qed

lemma released_sound:
  assumes at: "at_call env W L L'" and j: "lg_jobs L k = Some j" "jb_state j = st_REFUNDED"
    and m: "lg_machines L (jb_machine j) = Some m" "mc_activeJob m = k"
    and machines: "lg_machines L' = (lg_machines L)(jb_machine j \<mapsto> m\<lparr>mc_busy := False, mc_failed := failures\<rparr>)"
    and same: "lg_jobs L' = lg_jobs L" "lg_tokens L' = lg_tokens L"
  shows "jobs_sound env L'"
  unfolding jobs_sound_def
proof (intro conjI allI impI)
  have sj: "jb_settled j" using job_soundD(3) [OF at_callD(5) [OF at j(1)]] j(2) by (auto simp: paid_out_def split: if_splits)
  fix k' i assume "lg_jobs L' k' = Some i"
  then have i: "lg_jobs L k' = Some i" by (simp add: same)
  note s = at_callD(5) [OF at i]
  have "holds L' k' i" if "\<not> jb_settled i" "holds L k' i"
  proof -
    have "jb_machine i \<noteq> jb_machine j" using that i j(1) m sj by (auto simp: holds_iff)
    then show ?thesis using that(2) machines by (auto simp: holds_iff)
  qed
  then show "job_sound env L' k' i" using job_sound_frame [OF s, of "{}" L'] at_callD(4) [OF at] same by simp
next
  fix mk m' assume "lg_machines L' mk = Some m' \<and> mc_busy m'"
  with machines have "lg_machines L mk = Some m'" "mc_busy m'" by (auto split: if_splits)
  then have "occupied L mk m'" using at_callD(6) [OF at] by blast
  then show "occupied L' mk m'" using same(1) by (simp add: occupied_def)
qed

lemma idle_sound:
  assumes at: "at_call env W L L'" and same: "lg_jobs L' = lg_jobs L" "lg_tokens L' = lg_tokens L" "lg_machines L' = lg_machines L"
  shows "jobs_sound env L'"
proof -
  have "job_sound env L' k j = job_sound env L k j" "occupied L' mk m = occupied L mk m" for k j mk m
    using same at_callD(4) [OF at] by (simp_all add: job_sound_def holds_def occupied_def)
  then show ?thesis using at_callD(2) [OF at] same by (simp add: jobs_sound_def)
qed

lemma move_sound:
  assumes "at_call env W L L'" "market_move env W L L'"
  shows "jobs_sound env L'"
  using assms(2)
proof cases
  case idle then show ?thesis by (rule idle_sound [OF assms(1)])
next
  case born then show ?thesis by (rule born_sound [OF assms(1)])
next
  case born_funded then show ?thesis by (rule born_funded_sound [OF assms(1)])
next
  case funded then show ?thesis by (rule funded_sound [OF assms(1)])
next
  case assigned then show ?thesis using assigned_sound [OF assms(1)] by blast
next
  case moved then show ?thesis by (rule moved_sound [OF assms(1)])
next
  case settled then show ?thesis by (rule settled_sound [OF assms(1)])
next
  case refunded then show ?thesis by (rule refunded_sound [OF assms(1)])
next
  case released then show ?thesis using released_sound [OF assms(1)] by blast
qed

section \<open>Every call\<close>

text \<open>Machines change hands only in assignments: the provider's own instructions keep what a busy machine runs.\<close>

definition machines_kept :: "program_env \<Rightarrow> ledger \<Rightarrow> ledger \<Rightarrow> bool" where
  "machines_kept env L L' \<longleftrightarrow> (\<forall>mk m'. lg_machines L' mk = Some m' \<longrightarrow> (case lg_machines L mk of
       None \<Rightarrow> mk \<in> derived env \<and> \<not> mc_busy m'
     | Some m \<Rightarrow> mc_busy m' = mc_busy m \<and> mc_activeJob m' = mc_activeJob m \<and> mc_provider m' = mc_provider m))
     \<and> dom (lg_machines L) \<subseteq> dom (lg_machines L')"

lemma machines_keptD:
  "machines_kept env L L' \<Longrightarrow> lg_machines L' mk = Some m' \<Longrightarrow> (case lg_machines L mk of None \<Rightarrow> mk \<in> derived env \<and> \<not> mc_busy m'
     | Some m \<Rightarrow> mc_busy m' = mc_busy m \<and> mc_activeJob m' = mc_activeJob m \<and> mc_provider m' = mc_provider m)"
  by (simp add: machines_kept_def)

lemma machines_kept_refl: "lg_machines L' = lg_machines L \<Longrightarrow> machines_kept env L L'"
  by (auto simp: machines_kept_def split: option.splits)

lemma machines_kept_put:
  "lg_machines L mk = Some m \<Longrightarrow> lg_machines L' = (lg_machines L)(mk \<mapsto> m') \<Longrightarrow> mc_busy m' = mc_busy m \<Longrightarrow>
   mc_activeJob m' = mc_activeJob m \<Longrightarrow> mc_provider m' = mc_provider m \<Longrightarrow> machines_kept env L L'"
  by (auto simp: machines_kept_def split: option.splits)

lemma machines_kept_new:
  "lg_machines L mk = None \<Longrightarrow> mk \<in> derived env \<Longrightarrow> lg_machines L' = (lg_machines L)(mk \<mapsto> m') \<Longrightarrow> \<not> mc_busy m' \<Longrightarrow>
   machines_kept env L L'"
  by (auto simp: machines_kept_def split: option.splits if_splits)

lemma exec_supply_machines:
  assumes "exec_supply env c L = Inr L'"
  shows "machines_kept env L L'"
proof (cases c)
  case (Register_machine s p w i h g v)
  then show ?thesis using assms derived_machine [of i env p]
    by (auto simp: register_machine_def outcome_simps Let_def put_defs vacant_def bytes32_def intro!: machines_kept_new)
next
  case (Update_machine s p m w h g v)
  then show ?thesis using assms
    by (auto simp: update_machine_def managed_machine_def outcome_simps put_defs intro!: machines_kept_put)
next
  case (Deactivate_machine s p m)
  then show ?thesis using assms
    by (auto simp: deactivate_machine_def managed_machine_def outcome_simps put_defs intro!: machines_kept_put)
qed (use assms in \<open>auto simp: supply_defs access_defs outcome_simps put_defs Let_def intro!: machines_kept_refl\<close>)

lemma kept_sound:
  assumes at: "at_call env W L L'" and same: "lg_jobs L' = lg_jobs L" and keep: "keeps A (lg_tokens L) (lg_tokens L')" "\<And>k. lg_jobs L k \<noteq> None \<Longrightarrow> k \<notin> A"
    and machines: "machines_kept env L L'"
  shows "jobs_sound env L'"
  unfolding jobs_sound_def
proof (intro conjI allI impI)
  fix k j assume "lg_jobs L' k = Some j"
  then have j: "lg_jobs L k = Some j" by (simp add: same)
  have "holds L' k j" if "holds L k j"
  proof -
    from that obtain m where m: "lg_machines L (jb_machine j) = Some m" "mc_busy m" "mc_activeJob m = k" "mc_provider m = jb_provider j"
      unfolding holds_iff by blast
    with machines obtain m' where "lg_machines L' (jb_machine j) = Some m'" unfolding machines_kept_def by blast
    with machines m show ?thesis by (force simp: machines_kept_def holds_iff)
  qed
  then show "job_sound env L' k j" using job_sound_frame [OF at_callD(5) [OF at j] keep(1)] keep(2) j at_callD(4) [OF at] by simp
next
  fix mk m' assume m': "lg_machines L' mk = Some m' \<and> mc_busy m'"
  with machines_keptD [OF machines, of mk m'] obtain m where "lg_machines L mk = Some m" "mc_busy m" "mc_activeJob m' = mc_activeJob m"
    by (cases "lg_machines L mk") auto
  with at_callD(6) [OF at, of mk m] same show "occupied L' mk m'" by (simp add: occupied_def)
qed

text \<open>The token accounts of a stake call: only the signer's and the stake's own can lose.\<close>

lemma exec_stake_tokens:
  assumes "exec_stake env c L = Inr L'" "token_contract (pe_transfer env)"
  shows "\<exists>p. keeps (set_option (stake_signer c) \<union> {stake_key env p}) (lg_tokens L) (lg_tokens L')"
proof -
  have sub: "keeps A (lg_tokens L) (lg_tokens L')"
    if "\<exists>src mint dst amount. pe_transfer env (lg_tokens L) src mint dst a amount = Some (lg_tokens L') \<and> 0 < amount" "a \<in> A" for a A
    using that transfer_keeps [OF assms(2)] unfolding keeps_def by (metis less_imp_le singletonD)
  show ?thesis
  proof (cases c)
    case (Deposit_stake s p t a)
    with assms(1) have "\<exists>src mint dst amount. pe_transfer env (lg_tokens L) src mint dst s amount = Some (lg_tokens L') \<and> 0 < amount"
      by (auto simp: deposit_stake_def outcome_simps put_defs) blast
    then have "keeps (set_option (stake_signer c) \<union> {stake_key env p}) (lg_tokens L) (lg_tokens L')" by (rule sub) (simp add: Deposit_stake)
    then show ?thesis ..
  next
    case (Withdraw_stake s p t)
    with assms(1) have "\<exists>src mint dst amount. pe_transfer env (lg_tokens L) src mint dst (stake_key env p) amount = Some (lg_tokens L') \<and> 0 < amount"
      by (auto simp: withdraw_stake_def outcome_simps put_defs Let_def) blast
    then have "keeps (set_option (stake_signer c) \<union> {stake_key env p}) (lg_tokens L) (lg_tokens L')" by (rule sub) simp
    then show ?thesis ..
  next
    case (Slash_stake s p t a)
    with assms(1) have "\<exists>src mint dst amount. pe_transfer env (lg_tokens L) src mint dst (stake_key env p) amount = Some (lg_tokens L') \<and> 0 < amount"
      by (auto simp: slash_stake_def outcome_simps put_defs Let_def) blast
    then have "keeps (set_option (stake_signer c) \<union> {stake_key env p}) (lg_tokens L) (lg_tokens L')" by (rule sub) simp
    then show ?thesis ..
  next
    case (Initialize_provider_stake s p)
    then show ?thesis using assms
      by (auto simp: initialize_provider_stake_def outcome_simps put_defs vacant_def intro!: keeps_new)
  qed (use assms in \<open>auto simp: stake_defs outcome_simps put_defs Let_def\<close>)
qed

text \<open>The records outside jobs and machines.\<close>

definition records_sound :: "program_env \<Rightarrow> ledger \<Rightarrow> bool" where
  "records_sound env L \<longleftrightarrow> (\<forall>c. lg_config L = Some c \<longrightarrow> config_fine c) \<and> runtimes_ok L \<and> prices_ok L \<and> dom (lg_machines L) \<subseteq> derived env"

lemma sound_iff: "sound env L \<longleftrightarrow> 0 \<le> lg_now L \<and> records_sound env L \<and> jobs_sound env L"
  by (auto simp: sound_def records_sound_def jobs_sound_def)

lemma exec_protocol_records:
  assumes "exec_protocol env c L = Inr L'" "records_sound env L"
  shows "records_sound env L'"
proof -
  note same = exec_protocol_frame [OF assms(1)]
  have "(\<forall>c. lg_config L' = Some c \<longrightarrow> config_fine c) \<and> runtimes_ok L'"
    using assms by (cases c) (auto simp: records_sound_def config_fine_def runtimes_ok_def protocol_defs validate_agent_policy_def u16_def
        access_defs outcome_simps put_defs Let_def split: if_splits)
  then show ?thesis using assms(2) same by (simp add: records_sound_def prices_ok_def)
qed

lemma today_simps [simp]: "ap_maxRuntimeSeconds (today now p) = ap_maxRuntimeSeconds p" "ap_dailySpendLimit (today now p) = ap_dailySpendLimit p"
  by (simp_all add: today_def)

lemma move_dom: "market_move env W L L' \<Longrightarrow> dom (lg_machines L') = dom (lg_machines L)"
  by (cases rule: market_move.cases) (auto split: if_splits)

lemma exec_demand_records:
  assumes "exec_demand env c L = Inr L'" "records_sound env L"
  shows "records_sound env L' \<and> lg_now L' = lg_now L"
proof -
  have "lg_config L' = lg_config L \<and> lg_now L' = lg_now L"
    using assms(1) by (cases c) (auto simp: demand_defs access_defs outcome_simps put_defs Let_def)
  moreover have "dom (lg_machines L') = dom (lg_machines L)"
    using move_dom [OF exec_demand_refines [OF assms(1), of UNIV]] assms(2) by (simp add: records_sound_def)
  moreover have "runtimes_ok L'" "prices_ok L'"
    using assms by (cases c; auto simp: records_sound_def runtimes_ok_def prices_ok_def demand_defs access_defs outcome_simps put_defs Let_def split: if_splits)+
  ultimately show ?thesis using assms(2) by (simp add: records_sound_def)
qed

lemma exec_run_records:
  assumes "exec_run env c L = Inr L'" "records_sound env L"
  shows "records_sound env L' \<and> lg_now L' = lg_now L"
proof -
  have "lg_config L' = lg_config L \<and> lg_now L' = lg_now L \<and> lg_policies L' = lg_policies L \<and> lg_bids L' = lg_bids L"
    using assms(1) by (cases c) (auto simp: start_job_def submit_receipt_def submit_verification_def cancel_job_def
        cancel_agent_job_def expire_job_def open_dispute_def resolve_dispute_def settle_job_def refund_job_def release_machine_def
        cancel_checked_def outcome_simps put_defs Let_def)
  then show ?thesis using assms(2) move_dom [OF exec_run_refines [OF assms(1), of UNIV]]
    by (simp add: records_sound_def runtimes_ok_def prices_ok_def)
qed

lemma exec_supply_records:
  assumes "exec_supply env c L = Inr L'" "records_sound env L"
  shows "records_sound env L'"
proof -
  have "dom (lg_machines L') \<subseteq> dom (lg_machines L) \<union> derived env"
    using exec_supply_machines [OF assms(1)] by (auto simp: machines_kept_def split: option.splits)
  moreover have "dom (lg_machines L) \<subseteq> derived env" using assms(2) by (simp add: records_sound_def)
  ultimately have "dom (lg_machines L') \<subseteq> derived env" by blast
  then show ?thesis using assms(2) exec_supply_frame [OF assms(1)] by (simp add: records_sound_def runtimes_ok_def prices_ok_def)
qed

lemma derived_stake: "stake_key env p \<in> derived env"
  by (auto simp: derived_def stake_key_def program_seeds_def)

lemma stake_not_job:
  assumes "market_env env W" "job_sound env L k j"
  shows "k \<noteq> stake_key env p"
proof
  assume "k = stake_key env p"
  then have "pe_pda env [Text ''job'', Key (jb_buyer j), Bytes (jb_id j)] = pe_pda env [Text ''stake'', Key p]"
    using assms(2) by (simp add: job_sound_def job_key_def stake_key_def)
  moreover have "[Text ''job'', Key (jb_buyer j), Bytes (jb_id j)] \<in> program_seeds" "[Text ''stake'', Key p] \<in> program_seeds"
    using job_soundD(5) [OF assms(2)] by (auto simp: program_seeds_def terms_fine_def bytes32_def)
  ultimately show False using assms(1) by (auto simp: market_env_def dest: inj_onD)
qed

lemma exec_sound:
  assumes env: "market_env env W" and s: "sound env L" and step: "exec env c L = Inr L'" and signer: "set_option (signer c) \<subseteq> W"
  shows "sound env L'"
proof -
  have r: "records_sound env L" "0 \<le> lg_now L" using s by (simp_all add: sound_iff)
  show ?thesis
  proof (cases c)
    case (Protocol p)
    with step have e: "exec_protocol env p L = Inr L'" by simp
    then show ?thesis using exec_protocol_frame [OF e] exec_protocol_records [OF e r(1)] r(2) env s
        idle_sound [of env W L L'] by (simp add: sound_iff at_call_def)
  next
    case (Stake p)
    with step have e: "exec_stake env p L = Inr L'" by simp
    note f = exec_stake_frame [OF e]
    have at: "at_call env W L L'" using env s f by (simp add: at_call_def)
    obtain q where q: "keeps (set_option (stake_signer p) \<union> {stake_key env q}) (lg_tokens L) (lg_tokens L')"
      using exec_stake_tokens [OF e] at_callD(1) [OF at] by blast
    have "k \<notin> set_option (stake_signer p) \<union> {stake_key env q}" if "lg_jobs L k \<noteq> None" for k
      using that at_callD(5,8) [OF at] job_soundD(1) stake_not_job [OF env] signer Stake by fastforce
    then have "jobs_sound env L'" using kept_sound [OF at _ q] f machines_kept_refl by blast
    then show ?thesis using f r by (simp add: sound_iff records_sound_def runtimes_ok_def prices_ok_def)
  next
    case (Supply p)
    with step have e: "exec_supply env p L = Inr L'" by simp
    note f = exec_supply_frame [OF e]
    have at: "at_call env W L L'" using env s f by (simp add: at_call_def)
    show ?thesis using kept_sound [OF at, of "{}"] exec_supply_machines [OF e] exec_supply_records [OF e r(1)] f r(2)
      by (simp add: sound_iff)
  next
    case (Demand p)
    with step have e: "exec_demand env p L = Inr L'" by simp
    note f = exec_demand_records [OF e r(1)]
    have at: "at_call env W L L'" using env s f by (simp add: at_call_def)
    have "market_move env W L L'" using exec_demand_refines [OF e] signer Demand r(1) by (simp add: records_sound_def)
    then show ?thesis using move_sound [OF at] f r(2) by (simp add: sound_iff)
  next
    case (Run p)
    with step have e: "exec_run env p L = Inr L'" by simp
    note f = exec_run_records [OF e r(1)]
    have at: "at_call env W L L'" using env s f by (simp add: at_call_def)
    show ?thesis using move_sound [OF at exec_run_refines [OF e]] f r(2) by (simp add: sound_iff)
  qed
qed

lemma history_sound:
  assumes "market_env env W" "history env W tr L"
  shows "sound env L"
  using assms(2)
proof induction
  case (start L)
  then show ?case by (auto simp: sound_def genesis_def runtimes_ok_def prices_ok_def)
next
  case (call tr L c L')
  then show ?case using exec_sound [OF assms(1)] by blast
next
  case (clock tr L t)
  have "job_sound env (L\<lparr>lg_now := t\<rparr>) k j" if "job_sound env L k j" for k j
    using that job_fine_later [of "lg_now L" j t] clock.hyps(2) by (simp add: job_sound_def holds_def)
  then show ?case using clock.IH clock.hyps(2) by (simp add: sound_def runtimes_ok_def prices_ok_def occupied_def)
next
  case (tokens tr L ts)
  have "job_sound env (L\<lparr>lg_tokens := ts\<rparr>) k j" if "lg_jobs L k = Some j" for k j
  proof -
    have js: "job_sound env L k j" using tokens.IH that by (simp add: sound_def)
    note d = job_soundD [OF js]
    from d(4) obtain x where x: "lg_tokens L (escrow_key env k) = Some x" "tk_owner x = k" "tk_mint x = jb_mint j" "tk_delegate x = None"
        "(if jb_settled j then 0 else jb_deposit j) \<le> tk_amount x"
      unfolding covered_iff by blast
    have "case lg_tokens L (escrow_key env k) of None \<Rightarrow> escrow_key env k \<in> derived env \<longrightarrow> ts (escrow_key env k) = None
      | Some x \<Rightarrow> tk_owner x \<in> derived env \<longrightarrow> (\<exists>x'. ts (escrow_key env k) = Some x' \<and> tk_owner x' = tk_owner x \<and> tk_mint x' = tk_mint x
         \<and> tk_delegate x' = tk_delegate x \<and> tk_amount x \<le> tk_amount x')"
      using tokens.hyps(2) unfolding outside_def by blast
    then obtain x' where "ts (escrow_key env k) = Some x'" "tk_owner x' = k" "tk_mint x' = jb_mint j" "tk_delegate x' = None" "tk_amount x \<le> tk_amount x'"
      using x d(1) by auto
    then have "covered env ts k j" using x(5) unfolding covered_iff by (blast intro: order_trans)
    then show ?thesis using js by (simp add: job_sound_def holds_def)
  qed
  then show ?case using tokens.IH by (auto simp: sound_def runtimes_ok_def prices_ok_def occupied_def)
qed

end
