(* ===== verification/MarketSample.thy ===== *)
theory MarketSample
  imports Escrow
begin

text \<open>
  A concrete environment for the on-chain program, with injective derived addresses and a token
  program that keeps the contract, and short concrete histories on it.
\<close>

section \<open>Addresses and tokens\<close>

definition padded :: "string \<Rightarrow> string" where
  "padded s = replicate (length s) (CHR ''x'') @ CHR ''y'' # s"

fun seed_text :: "seed \<Rightarrow> string" where
  "seed_text (Text t) = CHR ''t'' # padded t"
| "seed_text (Key k) = CHR ''k'' # padded k"
| "seed_text (Bytes b) = CHR ''b'' # padded (toHex b)"

definition dm_pda :: "seed list \<Rightarrow> string" where
  "dm_pda ss = CHR ''@'' # concat (map seed_text ss)"

lemma padded_append: "padded s @ u = padded t @ v \<longleftrightarrow> s = t \<and> u = v"
proof
  assume eq: "padded s @ u = padded t @ v"
  have tw: "takeWhile (\<lambda>c. c = CHR ''x'') (padded r @ w) = replicate (length r) (CHR ''x'')" for r w
    unfolding padded_def by (induction "length r" arbitrary: r) (simp_all add: takeWhile_append)
  from arg_cong [OF eq, of "takeWhile (\<lambda>c. c = CHR ''x'')"] have "length s = length t"
    unfolding tw by (metis length_replicate)
  with eq show "s = t \<and> u = v" by (simp add: padded_def)
qed simp

lemma seed_text_append: "seed_text a @ u = seed_text b @ v \<longleftrightarrow> a = b \<and> u = v"
  by (cases a; cases b) (auto simp: padded_append)

lemma seed_text_Nil [simp]: "seed_text a \<noteq> []"
  by (cases a) simp_all

lemma dm_pda_inject [simp]: "dm_pda xs = dm_pda ys \<longleftrightarrow> xs = ys"
proof
  assume "dm_pda xs = dm_pda ys"
  then have "concat (map seed_text xs) = concat (map seed_text ys)" by (simp add: dm_pda_def)
  then show "xs = ys"
  proof (induction xs arbitrary: ys)
    case Nil
    then show ?case by (cases ys) auto
  next
    case (Cons a xs)
    then show ?case by (cases ys) (auto simp: seed_text_append)
  qed
qed simp

lemma dm_pda_Cons [simp]: "dm_pda ss = c # cs \<longleftrightarrow> c = CHR ''@'' \<and> concat (map seed_text ss) = cs"
  "c # cs = dm_pda ss \<longleftrightarrow> c = CHR ''@'' \<and> concat (map seed_text ss) = cs"
  by (auto simp: dm_pda_def)

definition dm_transfer :: "token_state \<Rightarrow> string \<Rightarrow> string \<Rightarrow> string \<Rightarrow> string \<Rightarrow> int \<Rightarrow> token_state option" where
  "dm_transfer ts src mint dst authority amount = (case (ts src, ts dst) of
       (Some s, Some d) \<Rightarrow>
         if tk_mint s = mint \<and> tk_mint d = mint \<and> 0 \<le> amount \<and> amount \<le> tk_amount s
           \<and> (tk_owner s = authority \<or> tk_delegate s = Some authority \<and> amount \<le> tk_delegatedAmount s)
         then let s' = (if tk_owner s = authority then s
                else s\<lparr>tk_delegatedAmount := tk_delegatedAmount s - amount,
                  tk_delegate := (if tk_delegatedAmount s = amount then None else tk_delegate s)\<rparr>)
              in Some (if src = dst then ts(src \<mapsto> s')
                else ts(src \<mapsto> s'\<lparr>tk_amount := tk_amount s - amount\<rparr>, dst \<mapsto> d\<lparr>tk_amount := tk_amount d + amount\<rparr>))
         else None
     | _ \<Rightarrow> None)"

lemma dm_contract: "token_contract dm_transfer"
  by (auto simp: token_contract_def dm_transfer_def Let_def split: option.splits if_splits)

definition dm_env :: program_env where
  "dm_env = \<lparr>pe_crypto = sample_crypto, pe_pda = dm_pda, pe_upgradeAuthority = ''A'', pe_transfer = dm_transfer\<rparr>"

lemma dm_env_simps [simp]: "pe_crypto dm_env = sample_crypto" "pe_pda dm_env = dm_pda" "pe_upgradeAuthority dm_env = ''A''"
  "pe_transfer dm_env = dm_transfer"
  by (simp_all add: dm_env_def)

definition dm_wallets :: "string set" where
  "dm_wallets = {''A'', ''B'', ''G'', ''P'', ''V'', ''W''}"

lemma dm_pda_default [simp]: "dm_pda ss \<noteq> default_key" "default_key \<noteq> dm_pda ss"
proof -
  have "hd (dm_pda ss) = CHR ''@''" "hd default_key = CHR ''1''" by (simp_all add: dm_pda_def default_key_def)
  then show "dm_pda ss \<noteq> default_key" "default_key \<noteq> dm_pda ss" by auto
qed

lemma dm_market: "market_env dm_env dm_wallets"
  by (auto simp: market_env_def derived_def inj_on_def dm_contract dm_wallets_def)

section \<open>Histories\<close>

definition dm_token :: "string \<Rightarrow> int \<Rightarrow> string option \<Rightarrow> token_account" where
  "dm_token owner amount delegate = \<lparr>tk_mint = ''M'', tk_owner = owner, tk_amount = amount, tk_delegate = delegate, tk_delegatedAmount = amount\<rparr>"

definition dm_L0 :: ledger where
  "dm_L0 = \<lparr>lg_config = None, lg_providers = Map.empty, lg_stakes = Map.empty, lg_policies = Map.empty, lg_workers = Map.empty,
     lg_machines = Map.empty, lg_offers = Map.empty, lg_bids = Map.empty, lg_jobs = Map.empty,
     lg_tokens = [''TB'' \<mapsto> dm_token ''B'' 1000 (Some ''G''), ''TP'' \<mapsto> dm_token ''P'' 0 None, ''TA'' \<mapsto> dm_token ''A'' 0 None],
     lg_now = 100, lg_events = []\<rparr>"

lemma dm_genesis: "history dm_env dm_wallets [] dm_L0"
  by (rule history.start) (auto simp: genesis_def dm_L0_def derived_def)

definition dm_config :: config_account where
  "dm_config = \<lparr>cf_admin = ''A'', cf_mint = ''M'', cf_treasury = ''A'', cf_verifier = ''V'', cf_resolver = ''A'', cf_feeBps = 100,
     cf_disputeSeconds = 3600, cf_paused = False\<rparr>"

abbreviation dm_bytes :: "byte \<Rightarrow> buffer" where "dm_bytes b \<equiv> replicate 32 b"

definition dm_args :: job_args where
  "dm_args = \<lparr>ja_id = dm_bytes 4, ja_specHash = dm_bytes 5, ja_budget = 500, ja_deadline = 200, ja_timeout = 100, ja_policy = 0\<rparr>"

definition dm_job :: string where "dm_job = dm_pda [Text ''job'', Key ''B'', Bytes (dm_bytes 4)]"

definition dm_L1 :: ledger where "dm_L1 = dm_L0\<lparr>lg_config := Some dm_config\<rparr>"

lemma dm_init: "exec dm_env (Protocol (Initialize_protocol ''A'' ''M'' ''A'' ''V'' 100 3600)) dm_L0 = Inr dm_L1"
  by (simp add: initialize_protocol_def dm_L0_def dm_L1_def dm_config_def guard_def u16_def i64_def)

lemma dm_h1: "history dm_env dm_wallets [(100, Protocol (Initialize_protocol ''A'' ''M'' ''A'' ''V'' 100 3600))] dm_L1"
  using history.call [OF dm_genesis dm_init] by (simp add: dm_wallets_def dm_L0_def)

text \<open>A provider with a machine on offer, and a funded job assigned to it.\<close>

definition dm_provider :: string where "dm_provider = dm_pda [Text ''provider'', Key ''P'']"
definition dm_worker :: string where "dm_worker = dm_pda [Text ''worker'', Key dm_provider, Key ''W'']"
definition dm_machine :: string where "dm_machine = dm_pda [Text ''machine'', Key dm_provider, Bytes (dm_bytes 2)]"
definition dm_offer :: string where "dm_offer = dm_pda [Text ''offer'', Key dm_machine, Bytes (dm_bytes 3)]"
definition dm_escrow :: string where "dm_escrow = dm_pda [Text ''escrow'', Key dm_job]"

definition dm_p :: provider_account where
  "dm_p = \<lparr>pr_authority = ''P'', pr_metadataHash = dm_bytes 1, pr_active = True, pr_completed = 0, pr_failed = 0\<rparr>"

definition dm_w :: worker_account where
  "dm_w = \<lparr>wa_provider = dm_provider, wa_worker = ''W'', wa_active = True, wa_expiresAt = 1000000\<rparr>"

definition dm_m :: machine_account where
  "dm_m = \<lparr>mc_provider = dm_provider, mc_worker = ''W'', mc_id = dm_bytes 2, mc_hardwareHash = dm_bytes 7, mc_gpuCount = 0, mc_vramMb = 0,
     mc_active = True, mc_busy = False, mc_activeJob = default_key, mc_completed = 0, mc_failed = 0\<rparr>"

definition dm_o :: offer_account where
  "dm_o = \<lparr>of_machine = dm_machine, of_id = dm_bytes 3, of_rate = 2, of_minSeconds = 1, of_maxSeconds = 3600, of_expiresAt = 1000000, of_active = True\<rparr>"

definition dm_L2 :: ledger where "dm_L2 = put_provider dm_provider dm_p dm_L1"
definition dm_L3 :: ledger where "dm_L3 = put_worker dm_worker dm_w dm_L2"
definition dm_L4 :: ledger where "dm_L4 = put_machine dm_machine dm_m dm_L3"
definition dm_L5 :: ledger where "dm_L5 = put_offer dm_offer dm_o dm_L4"
definition dm_L6 :: ledger where "dm_L6 = open_accounts dm_env dm_config ''B'' dm_args dm_L5"

definition dm_funded :: job_account where
  "dm_funded = (new_job dm_config ''B'' dm_args)\<lparr>jb_deposit := 500, jb_state := st_OPEN\<rparr>"

definition dm_paid :: token_state where
  "dm_paid = [''TB'' \<mapsto> (dm_token ''B'' 1000 (Some ''G''))\<lparr>tk_amount := 500\<rparr>, ''TP'' \<mapsto> dm_token ''P'' 0 None, ''TA'' \<mapsto> dm_token ''A'' 0 None,
     dm_escrow \<mapsto> (new_token ''M'' dm_job)\<lparr>tk_amount := 500\<rparr>]"

definition dm_L7 :: ledger where "dm_L7 = emit_state dm_job st_OPEN (put_job dm_job dm_funded (dm_L6\<lparr>lg_tokens := dm_paid\<rparr>))"
definition dm_L8 :: ledger where "dm_L8 = assign dm_job dm_funded dm_provider dm_p dm_machine dm_m ''W'' 200 dm_L7"

lemmas dm_keys = dm_provider_def dm_worker_def dm_machine_def dm_offer_def dm_escrow_def dm_job_def

lemmas dm_ledgers = dm_L0_def dm_L1_def dm_L2_def dm_L3_def dm_L4_def dm_L5_def dm_L6_def dm_L7_def dm_L8_def

lemmas dm_eval = guard_def load_def load_config_def u64_def u32_def u16_def u8_def i64_def bytes32_def vacant_def zero32_def

lemma bytes_ne [simp]: "dm_bytes a = dm_bytes b \<longleftrightarrow> a = b"
  by (simp add: replicate_eq_replicate)

lemma dm_c2: "exec dm_env (Protocol (Register_provider ''P'' (dm_bytes 1))) dm_L1 = Inr dm_L2"
  by (simp add: register_provider_def dm_L0_def dm_L1_def dm_L2_def dm_eval dm_config_def dm_provider_def dm_p_def)

lemma dm_c3: "exec dm_env (Supply (Authorize_worker ''P'' dm_provider ''W'' 1000000)) dm_L2 = Inr dm_L3"
  by (simp add: authorize_worker_def worker_key_def dm_ledgers dm_eval put_defs dm_provider_def dm_worker_def dm_p_def dm_w_def)

lemma dm_c4: "exec dm_env (Supply (Register_machine ''P'' dm_provider dm_worker (dm_bytes 2) (dm_bytes 7) 0 0)) dm_L3 = Inr dm_L4"
  by (simp add: register_machine_def managed_provider_def dm_ledgers dm_eval put_defs dm_provider_def dm_worker_def dm_machine_def
      dm_p_def dm_w_def dm_m_def inventory_ok_def Let_def)

lemma dm_c5: "exec dm_env (Supply (Create_offer ''P'' dm_provider dm_machine (dm_bytes 3) 2 1 3600 1000000)) dm_L4 = Inr dm_L5"
  by (simp add: create_offer_def managed_machine_def managed_provider_def offer_terms_ok_def dm_ledgers dm_eval put_defs dm_provider_def
      dm_worker_def dm_machine_def dm_offer_def dm_p_def dm_w_def dm_m_def dm_o_def Let_def)

lemma dm_c6: "exec dm_env (Demand (Create_job ''B'' dm_args)) dm_L5 = Inr dm_L6"
  by (simp add: create_job_def job_vacant_def job_key_def escrow_key_def job_args_ok_def plain_i64_def dm_ledgers dm_eval put_defs dm_keys dm_args_def dm_config_def)

lemma dm_c7: "exec dm_env (Demand (Fund_job ''B'' dm_job ''TB'')) dm_L6 = Inr dm_L7"
proof -
  have j: "lg_jobs dm_L6 dm_job = Some (new_job dm_config ''B'' dm_args)" and n: "lg_now dm_L6 = 100"
    by (simp_all add: dm_ledgers put_defs job_key_def dm_job_def dm_args_def Let_def)
  have t: "lg_tokens dm_L6 = (lg_tokens dm_L0)(dm_escrow \<mapsto> new_token ''M'' dm_job)"
    by (simp add: dm_ledgers put_defs job_key_def escrow_key_def dm_job_def dm_escrow_def dm_args_def dm_config_def Let_def)
  have ne: "dm_escrow \<noteq> ''TB''" "dm_escrow \<noteq> ''TP''" "dm_escrow \<noteq> ''TA''" by (simp_all add: dm_escrow_def)
  have tr: "dm_transfer (lg_tokens dm_L6) ''TB'' ''M'' dm_escrow ''B'' 500 = Some dm_paid"
    unfolding t using ne by (auto simp: dm_transfer_def dm_L0_def dm_token_def new_token_def dm_paid_def Let_def fun_eq_iff)
  show ?thesis using t ne tr
    by (simp add: fund_job_def deposit_def load_def guard_def j n token_ok_def transfer_checked_def dm_L7_def dm_funded_def)
      (simp add: dm_L0_def dm_token_def new_token_def new_job_def dm_args_def dm_config_def job_key_def escrow_key_def dm_job_def dm_escrow_def)
qed

lemma dm_fields7:
  "lg_jobs dm_L7 dm_job = Some dm_funded" "lg_offers dm_L7 dm_offer = Some dm_o" "lg_machines dm_L7 dm_machine = Some dm_m"
  "lg_providers dm_L7 dm_provider = Some dm_p" "lg_workers dm_L7 dm_worker = Some dm_w" "lg_now dm_L7 = 100" "lg_tokens dm_L7 = dm_paid"
  by (simp_all add: dm_ledgers put_defs Let_def)

lemma dm_c8: "exec dm_env (Demand (Assign_offer ''B'' dm_job dm_offer)) dm_L7 = Inr dm_L8"
proof -
  have w: "worker_key dm_env (mc_provider dm_m) (mc_worker dm_m) = dm_worker"
    by (simp add: worker_key_def dm_worker_def dm_m_def)
  have "of_machine dm_o = dm_machine" by (simp add: dm_o_def)
  then show ?thesis using w
    by (simp add: assign_offer_def load_def dm_fields7 dm_L8_def)
      (simp add: dm_m_def dm_w_def dm_p_def dm_o_def dm_funded_def new_job_def dm_args_def dm_config_def dm_fields7 load_def guard_def
        active_worker_def checked_def u64_def)
qed

definition dm_trace :: "(int \<times> call) list" where
  "dm_trace = [(100, Protocol (Initialize_protocol ''A'' ''M'' ''A'' ''V'' 100 3600)),
     (100, Protocol (Register_provider ''P'' (dm_bytes 1))),
     (100, Supply (Authorize_worker ''P'' dm_provider ''W'' 1000000)),
     (100, Supply (Register_machine ''P'' dm_provider dm_worker (dm_bytes 2) (dm_bytes 7) 0 0)),
     (100, Supply (Create_offer ''P'' dm_provider dm_machine (dm_bytes 3) 2 1 3600 1000000)),
     (100, Demand (Create_job ''B'' dm_args)), (100, Demand (Fund_job ''B'' dm_job ''TB''))]"

lemma dm_nows: "lg_now dm_L1 = 100" "lg_now dm_L2 = 100" "lg_now dm_L3 = 100" "lg_now dm_L4 = 100" "lg_now dm_L5 = 100" "lg_now dm_L6 = 100"
  by (simp_all add: dm_ledgers put_defs Let_def)

lemma dm_h7: "history dm_env dm_wallets dm_trace dm_L7"
  using history.call [OF history.call [OF history.call [OF history.call [OF history.call [OF history.call [OF dm_h1 dm_c2] dm_c3] dm_c4] dm_c5] dm_c6] dm_c7]
  by (simp add: dm_wallets_def dm_nows dm_trace_def)

lemma dm_h8: "history dm_env dm_wallets (dm_trace @ [(100, Demand (Assign_offer ''B'' dm_job dm_offer))]) dm_L8"
  using history.call [OF dm_h7 dm_c8] by (simp add: dm_wallets_def dm_fields7)

definition dm_assigned :: job_account where
  "dm_assigned = dm_funded\<lparr>jb_provider := dm_provider, jb_payout := ''P'', jb_machine := dm_machine, jb_worker := ''W'', jb_price := 200,
     jb_state := st_ASSIGNED\<rparr>"

lemma dm_fields8:
  "lg_jobs dm_L8 dm_job = Some dm_assigned" "lg_machines dm_L8 dm_machine = Some (dm_m\<lparr>mc_busy := True, mc_activeJob := dm_job\<rparr>)"
  "lg_providers dm_L8 dm_provider = Some dm_p" "lg_now dm_L8 = 100" "lg_tokens dm_L8 = dm_paid"
  by (simp_all add: dm_L8_def put_defs dm_fields7 dm_assigned_def dm_p_def)

lemma dm_assigned_simps:
  "jb_settled dm_assigned = False" "jb_machine dm_assigned = dm_machine" "jb_state dm_assigned = st_ASSIGNED" "jb_buyer dm_assigned = ''B''"
  "jb_deadline dm_assigned = 200" "jb_mint dm_assigned = ''M''" "jb_payout dm_assigned = ''P''" "jb_treasury dm_assigned = ''A''"
  "jb_provider dm_assigned = dm_provider" "jb_deposit dm_assigned = 500"
  by (simp_all add: dm_assigned_def dm_funded_def new_job_def dm_args_def dm_config_def)

text \<open>The same job cancelled and refunded instead.\<close>

definition dm_cancelled :: job_account where "dm_cancelled = dm_funded\<lparr>jb_state := st_CANCELLED\<rparr>"

definition dm_C1 :: ledger where "dm_C1 = emit_state dm_job st_CANCELLED (put_job dm_job dm_cancelled dm_L7)"

lemma dm_cancel: "exec dm_env (Run (Cancel_job ''B'' dm_job)) dm_L7 = Inr dm_C1"
  by (simp add: cancel_job_def cancel_checked_def load_def guard_def dm_fields7 dm_C1_def dm_cancelled_def)
    (simp add: dm_funded_def new_job_def)

lemma dm_hc: "history dm_env dm_wallets (dm_trace @ [(100, Run (Cancel_job ''B'' dm_job))]) dm_C1"
  using history.call [OF dm_h7 dm_cancel] by (simp add: dm_wallets_def dm_fields7)

lemma dm_pays:
  "\<forall>ts src mint dst amount s d. ts src = Some s \<and> ts dst = Some d \<and> tk_mint s = mint \<and> tk_mint d = mint
     \<and> 0 \<le> amount \<and> amount \<le> tk_amount s \<longrightarrow> dm_transfer ts src mint dst (tk_owner s) amount \<noteq> None"
  by (auto simp: dm_transfer_def Let_def)

text \<open>A policy for the agent \<open>G\<close> of buyer \<open>B\<close> that lists one specification, and a job the agent buys under it.\<close>

definition dm_policy_args :: policy_args where
  "dm_policy_args = \<lparr>pa_dailySpendLimit = 600, pa_singleJobLimit = 500, pa_maxRuntimeSeconds = 3600, pa_requiredVerification = 0,
     pa_allowedSpecsRoot = dm_bytes 5, pa_expiresAt = 1000\<rparr>"

definition dm_policy :: policy_account where
  "dm_policy = \<lparr>ap_owner = ''B'', ap_agent = ''G'', ap_mint = ''M'', ap_dailySpendLimit = 600, ap_singleJobLimit = 500, ap_maxRuntimeSeconds = 3600,
     ap_requiredVerification = 0, ap_allowedSpecsRoot = dm_bytes 5, ap_expiresAt = 1000, ap_dayIndex = 0, ap_dailySpent = 0, ap_active = True\<rparr>"

definition dm_policy_key :: string where "dm_policy_key = policy_key dm_env ''B'' ''G''"

definition dm_A1 :: ledger where "dm_A1 = put_policy dm_policy_key dm_policy dm_L1"

lemma dm_create_policy: "exec dm_env (Protocol (Create_agent_policy ''B'' ''G'' dm_policy_args)) dm_L1 = Inr dm_A1"
  by (simp add: create_agent_policy_def policy_key_def policy_args_ok_def validate_agent_policy_def dm_L0_def dm_L1_def dm_A1_def dm_eval put_defs
      dm_policy_args_def dm_policy_def dm_policy_key_def dm_config_def)

definition dm_delegated :: token_state where
  "dm_delegated = [''TB'' \<mapsto> (dm_token ''B'' 500 (Some ''G'')), ''TP'' \<mapsto> dm_token ''P'' 0 None, ''TA'' \<mapsto> dm_token ''A'' 0 None,
     dm_escrow \<mapsto> (new_token ''M'' dm_job)\<lparr>tk_amount := 500\<rparr>]"

definition dm_A2 :: ledger where
  "dm_A2 = emit_state dm_job st_OPEN (put_job dm_job dm_funded
     ((open_accounts dm_env dm_config ''B'' dm_args (put_policy dm_policy_key (dm_policy\<lparr>ap_dailySpent := 500\<rparr>) dm_A1))\<lparr>lg_tokens := dm_delegated\<rparr>))"

lemma dm_agent_transfer:
  "dm_transfer ((lg_tokens dm_L0)(dm_escrow \<mapsto> new_token ''M'' dm_job)) ''TB'' ''M'' dm_escrow ''G'' 500 = Some dm_delegated"
proof -
  have ne: "dm_escrow \<noteq> ''TB''" "dm_escrow \<noteq> ''TP''" "dm_escrow \<noteq> ''TA''" by (simp_all add: dm_escrow_def)
  show ?thesis using ne
    by (auto simp: dm_transfer_def dm_L0_def dm_token_def new_token_def dm_delegated_def Let_def fun_eq_iff)
qed

lemma dm_agent_job: "exec dm_env (Demand (Create_agent_job ''G'' ''B'' ''TB'' dm_args [])) dm_A1 = Inr dm_A2"
proof -
  have f: "lg_config dm_A1 = Some dm_config" "lg_policies dm_A1 dm_policy_key = Some dm_policy" "lg_tokens dm_A1 = lg_tokens dm_L0"
      "lg_now dm_A1 = 100" "lg_tokens dm_L0 ''TB'' = Some (dm_token ''B'' 1000 (Some ''G''))"
    by (simp_all add: dm_A1_def dm_L1_def dm_L0_def put_defs)
  have v: "job_vacant dm_env ''B'' dm_args dm_A1"
    by (simp add: job_vacant_def vacant_def dm_A1_def dm_L1_def dm_L0_def put_defs job_key_def escrow_key_def dm_policy_key_def policy_key_def)
  have k: "policy_key dm_env ''B'' ''G'' = dm_policy_key" "job_key dm_env ''B'' (ja_id dm_args) = dm_job" "escrow_key dm_env dm_job = dm_escrow"
    by (simp_all add: dm_policy_key_def job_key_def dm_job_def dm_args_def escrow_key_def dm_escrow_def)
  have a: "job_args_ok dm_args" by (simp add: job_args_ok_def dm_args_def dm_eval)
  have t: "lg_tokens (open_accounts dm_env dm_config ''B'' dm_args (put_policy dm_policy_key (dm_policy\<lparr>ap_dailySpent := 500\<rparr>) dm_A1))
      = (lg_tokens dm_L0)(dm_escrow \<mapsto> new_token ''M'' dm_job)"
    by (simp add: put_defs k f Let_def) (simp add: dm_config_def)
  have fields: "jb_mint (new_job dm_config ''B'' dm_args) = ''M''" "jb_budget (new_job dm_config ''B'' dm_args) = 500"
    by (simp_all add: new_job_def dm_config_def dm_args_def)
  have today: "today 100 dm_policy = dm_policy" by (simp add: today_def dm_policy_def)
  show ?thesis
    by (simp add: create_agent_job_def load_config_def load_def f k v a today deposit_def transfer_checked_def t fields dm_agent_transfer
        verify_spec_membership_def plain_i64_def checked_def)
      (simp add: dm_A2_def dm_funded_def dm_args_def dm_policy_def dm_config_def dm_token_def guard_def i64_def u64_def zero32_def
        t [unfolded dm_args_def dm_policy_def dm_config_def, simplified] dm_agent_transfer)
qed

lemma dm_ha: "history dm_env dm_wallets [(100, Protocol (Initialize_protocol ''A'' ''M'' ''A'' ''V'' 100 3600)),
    (100, Protocol (Create_agent_policy ''B'' ''G'' dm_policy_args)), (100, Demand (Create_agent_job ''G'' ''B'' ''TB'' dm_args []))] dm_A2"
  using history.call [OF history.call [OF dm_h1 dm_create_policy] dm_agent_job] by (simp add: dm_wallets_def dm_nows dm_A1_def put_defs)

lemma dm_policy_A2: "lg_policies dm_A2 dm_policy_key = Some (dm_policy\<lparr>ap_dailySpent := 500\<rparr>)" "lg_now dm_A2 = 100"
  by (simp_all add: dm_A2_def dm_A1_def put_defs Let_def dm_nows)

end
