(* ===== verification/Custody.thy ===== *)
theory Custody
  imports MarketSample Pricing
begin

text \<open>
  The promises of the on-chain program to the people who use it, over every history of calls: the
  escrow of a job stays covered and pays out exactly once, a machine works for one job, a
  settlement is final, no deposit stays locked outside a dispute, an agent's daily spending is
  bounded; and the program computes the same split and the same membership test as the clients.
\<close>

section \<open>Lemmas\<close>

lemma history_job:
  assumes "market_env env W" "history env W tr L" "lg_jobs L k = Some j"
  shows "job_sound env L k j"
  using history_sound [OF assms(1,2)] assms(3) by (simp add: sound_def)

lemma stage_machine_set:
  "stage_fine j \<Longrightarrow> jb_state j \<in> {st_ASSIGNED, st_RUNNING, st_VERIFYING, st_COMPLETED, st_FAILED, st_DISPUTED} \<Longrightarrow> jb_machine j \<noteq> default_key"
  by (auto simp: stage_fine_def split: if_splits)

text \<open>A settled job, and a resolved one except for its settlement, has no move left.\<close>

lemma settled_stuck:
  assumes "job_move now j j'" "paid_out j" "jb_settled j"
  shows False
proof -
  have "jb_state j = st_COMPLETED \<or> jb_state j = st_REFUNDED" using assms(2,3) by (auto simp: paid_out_def)
  with assms(1,3) show False by cases auto
qed

lemma resolved_only_settles:
  assumes "job_move now j j'" "times_fine now j" "jb_resolved j" "\<not> jb_settled j"
  shows "jb_settled j' \<and> jb_state j' = st_COMPLETED"
proof -
  have "jb_state j = st_COMPLETED" "jb_verifiedAt j + jb_disputeSeconds j \<le> now" using assms(2,3) by (auto simp: times_fine_def)
  with assms(1) show ?thesis by cases auto
qed

lemma move_job:
  assumes "market_move env W L L'" "lg_jobs L k = Some j" "lg_jobs L' k \<noteq> Some j"
  shows "\<exists>j'. lg_jobs L' k = Some j' \<and> job_move (lg_now L) j j'"
  using assms
proof cases
  case (born c a k' b)
  then show ?thesis using assms(2,3) by (auto simp: vacant_def split: if_splits)
next
  case (born_funded c a k' b)
  then show ?thesis using assms(2,3) by (auto simp: vacant_def split: if_splits)
next
  case (refunded k' j')
  then show ?thesis using assms(2,3) job_move.refund [of j' "lg_now L"] by (auto split: if_splits)
qed (auto split: if_splits)

lemma exec_job:
  assumes "sound env L" "exec env c L = Inr L'" "lg_jobs L k = Some j" "lg_jobs L' k \<noteq> Some j"
  shows "\<exists>j'. lg_jobs L' k = Some j' \<and> job_move (lg_now L) j j'"
proof (cases c)
  case (Protocol p)
  then show ?thesis using assms exec_protocol_frame [of env p L L'] by simp
next
  case (Stake p)
  then show ?thesis using assms exec_stake_frame [of env p L L'] by simp
next
  case (Supply p)
  then show ?thesis using assms exec_supply_frame [of env p L L'] by simp
next
  case (Demand p)
  then have "market_move env UNIV L L'" using assms exec_demand_refines [of env p L L' UNIV] by (simp add: sound_def)
  then show ?thesis using move_job assms(3,4) by blast
next
  case (Run p)
  then have "market_move env UNIV L L'" using assms exec_run_refines [of env p L L' UNIV] by simp
  then show ?thesis using move_job assms(3,4) by blast
qed

section \<open>Escrow and machines\<close>



text \<open>
  C2. One job per machine. Two unsettled jobs that were assigned the same machine are the same
  job; the machine is busy and names it, so no assignment can take the machine meanwhile, and a
  busy machine always names an existing job that is unsettled or refunded, so it can be freed.
\<close>

theorem one_job_per_machine:
  assumes "market_env env W" "history env W tr L"
    and "lg_jobs L k = Some j" "\<not> jb_settled j" "jb_machine j \<noteq> default_key"
  shows "(\<exists>m. lg_machines L (jb_machine j) = Some m \<and> mc_busy m \<and> mc_activeJob m = k \<and> mc_provider m = jb_provider j)
    \<and> (\<forall>k' i. lg_jobs L k' = Some i \<and> \<not> jb_settled i \<and> jb_machine i = jb_machine j \<longrightarrow> k' = k)
    \<and> (\<forall>mk n. lg_machines L mk = Some n \<and> mc_busy n \<longrightarrow>
         (\<exists>i. lg_jobs L (mc_activeJob n) = Some i \<and> jb_machine i = mk \<and> (jb_settled i \<longrightarrow> jb_state i = st_REFUNDED)))"
proof -
  have held: "holds L q i" if "lg_jobs L q = Some i" "\<not> jb_settled i" "jb_machine i = jb_machine j" for q i
    using history_job [OF assms(1,2) that(1)] that(2,3) assms(5) by (simp add: job_sound_def)
  have "\<forall>k' i. lg_jobs L k' = Some i \<and> \<not> jb_settled i \<and> jb_machine i = jb_machine j \<longrightarrow> k' = k"
    using held held [OF assms(3,4)] unfolding holds_iff by (metis option.inject)
  moreover have "\<exists>m. lg_machines L (jb_machine j) = Some m \<and> mc_busy m \<and> mc_activeJob m = k \<and> mc_provider m = jb_provider j"
    using held [OF assms(3,4)] by (simp add: holds_iff)
  ultimately show ?thesis using history_sound [OF assms(1,2)] by (auto simp: sound_def occupied_iff)
qed

theorem one_job_per_machine_witness:
  "\<exists>m. lg_machines dm_L8 dm_machine = Some m \<and> mc_busy m \<and> mc_activeJob m = dm_job"
  using one_job_per_machine [OF dm_market dm_h8 dm_fields8(1)] by (auto simp: dm_assigned_simps dm_machine_def)

text \<open>
  C14. Finality. No call changes a settled job's account any more: it is paid out once, never
  settled after a refund and never refunded after a settlement. A dispute that was resolved stays
  resolved: the only change left for such a job is its settlement.
\<close>

theorem settlement_final:
  assumes "market_env env W" "history env W tr L" "exec env c L = Inr L'" "lg_jobs L k = Some j" "jb_settled j \<or> jb_resolved j"
  shows "lg_jobs L' k = Some j
    \<or> jb_resolved j \<and> \<not> jb_settled j \<and> (\<exists>j'. lg_jobs L' k = Some j' \<and> jb_settled j' \<and> jb_state j' = st_COMPLETED)"
proof (rule disjCI)
  note s = job_soundD [OF history_job [OF assms(1,2,4)]]
  assume new: "\<not> (jb_resolved j \<and> \<not> jb_settled j \<and> (\<exists>j'. lg_jobs L' k = Some j' \<and> jb_settled j' \<and> jb_state j' = st_COMPLETED))"
  show "lg_jobs L' k = Some j"
  proof (rule ccontr)
    assume "lg_jobs L' k \<noteq> Some j"
    then obtain j' where j': "lg_jobs L' k = Some j'" "job_move (lg_now L) j j'"
      using exec_job [OF history_sound [OF assms(1,2)] assms(3,4)] by blast
    then have "\<not> jb_settled j" using settled_stuck [OF _ s(3)] by blast
    then show False using new j' assms(5) resolved_only_settles [OF j'(2)] s(2) by (auto simp: job_fine_def)
  qed
qed

theorem settlement_final_witness:
  "\<exists>tr L L' j. history dm_env dm_wallets tr L \<and> exec dm_env (Protocol (Pause_protocol ''A'' True)) L = Inr L'
    \<and> lg_jobs L dm_job = Some j \<and> jb_settled j \<and> lg_jobs L' dm_job = Some j"
proof -
  let ?j = "dm_cancelled\<lparr>jb_settled := True, jb_refunded := jb_deposit dm_cancelled, jb_state := st_REFUNDED\<rparr>"
  let ?ts = "dm_paid(dm_escrow \<mapsto> new_token ''M'' dm_job, ''TB'' \<mapsto> dm_token ''B'' 1000 (Some ''G''))"
  let ?L = "emit_state dm_job st_REFUNDED (put_job dm_job ?j (dm_C1\<lparr>lg_tokens := ?ts\<rparr>))"
  have c: "lg_jobs dm_C1 dm_job = Some dm_cancelled" "lg_tokens dm_C1 = dm_paid" "lg_config dm_C1 = Some dm_config" "lg_now dm_C1 = 100"
    by (simp_all add: dm_C1_def put_defs dm_fields7) (simp add: dm_ledgers put_defs Let_def)
  have k: "escrow_key dm_env dm_job = dm_escrow" "job_key dm_env (jb_buyer dm_cancelled) (jb_id dm_cancelled) = dm_job"
    by (simp_all add: escrow_key_def dm_escrow_def job_key_def dm_job_def dm_cancelled_def dm_funded_def new_job_def dm_args_def)
  have ne: "dm_escrow \<noteq> ''TB''" "dm_escrow \<noteq> ''TP''" "dm_escrow \<noteq> ''TA''" by (simp_all add: dm_escrow_def)
  have f: "jb_mint dm_cancelled = ''M''" "jb_buyer dm_cancelled = ''B''" "jb_deposit dm_cancelled = 500" "jb_state dm_cancelled = st_CANCELLED"
      "\<not> jb_settled dm_cancelled"
    by (simp_all add: dm_cancelled_def dm_funded_def new_job_def dm_config_def dm_args_def)
  have t: "dm_transfer dm_paid dm_escrow ''M'' ''TB'' dm_job 500 = Some ?ts"
    using ne by (auto simp: dm_transfer_def dm_paid_def new_token_def dm_token_def fun_eq_iff)
  have "exec dm_env (Run (Refund_job dm_job ''TB'')) dm_C1 = Inr ?L"
    using ne by (simp add: refund_job_def load_def c k f guard_def token_ok_def transfer_checked_def t)
      (simp add: dm_paid_def dm_token_def new_token_def f k [unfolded f])
  then have h: "history dm_env dm_wallets (dm_trace @ [(100, Run (Cancel_job ''B'' dm_job)), (100, Run (Refund_job dm_job ''TB''))]) ?L"
    using history.call [OF dm_hc, of "Run (Refund_job dm_job ''TB'')" ?L] by (simp add: c)
  have j: "lg_jobs ?L dm_job = Some ?j" by (simp add: put_defs)
  obtain L' where e: "exec dm_env (Protocol (Pause_protocol ''A'' True)) ?L = Inr L'"
    by (simp add: pause_protocol_def load_config_def put_defs c) (simp add: dm_config_def)
  have "lg_jobs L' dm_job = Some ?j" using settlement_final [OF dm_market h e j] by simp
  moreover have "jb_settled ?j" by simp
  ultimately show ?thesis using h e j by blast
qed

section \<open>The clients compute the same\<close>

lemma membership_node_foldl: "membership_node cr node siblings = foldl (hashPair cr) node siblings"
  by (induction siblings arbitrary: node) (auto simp: hashPair_def buffer_compare_def Let_def not_le)

lemma fold_proof_bytes: "mapM parseHash p = Inr bs \<Longrightarrow> fold_proof cr node p = Inr (foldl (hashPair cr) node bs)"
  by (induction p arbitrary: node bs) (auto simp: outcome_simps)

lemma verify_spec_membership_iff:
  "verify_spec_membership cr h bs r = Inr () \<longleftrightarrow> length bs \<le> 16 \<and> foldl (hashPair cr) h bs = r"
  by (auto simp: verify_spec_membership_def outcome_simps membership_node_foldl)

lemma verifySpecProof_bytes:
  assumes "parseHash s = Inr h" "proofBytes p = Inr bs" "parseHash root_hex = Inr r"
  shows "verifySpecProof cr s p root_hex = Inr (verify_spec_membership cr h bs r = Inr ())"
  using assms fold_proof_bytes [of p bs cr h] mapM_length [of parseHash p bs]
  by (auto simp: verifySpecProof_def proofBytes_def verify_spec_membership_iff)

text \<open>
  C18. One membership test. On the bytes the clients send, the program's
  \<^verbatim>\<open>verify_spec_membership\<close> accepts exactly the specifications, proofs and roots the clients'
  \<open>verifySpecProof\<close> accepts.
\<close>

theorem membership_agrees:
  assumes "parseHash s = Inr h" "proofBytes p = Inr bs" "parseHash root_hex = Inr r"
  shows "verifySpecProof cr s p root_hex = Inr True \<longleftrightarrow> verify_spec_membership cr h bs r = Inr ()"
  using verifySpecProof_bytes [OF assms] by simp

theorem membership_agrees_witness:
  "verifySpecProof sample_crypto (toHex (dm_bytes 5)) [] (toHex (dm_bytes 5)) = Inr True
     \<longleftrightarrow> verify_spec_membership sample_crypto (dm_bytes 5) [] (dm_bytes 5) = Inr ()"
  by (rule membership_agrees) (simp_all add: proofBytes_def)

text \<open>
  C19. One split. For every deposit and price of 64 bits and every fee of 16 bits, the program's
  \<^verbatim>\<open>split\<close> succeeds exactly when the clients' \<open>splitEscrow\<close> does, with the same payment, fee and
  refund; none of its overflow checks can fail.
\<close>

theorem split_agrees:
  assumes "u64 d" "u64 p" "u16 f"
  shows "(case split_escrow d p f of
       Inr (payment, fee, rest) \<Rightarrow> splitEscrow d p (of_int f) = Inr \<lparr>sp_provider = payment, sp_fee = fee, sp_refund = rest\<rparr>
     | Inl e \<Rightarrow> e = Bounds \<and> splitEscrow d p (of_int f) = Inl ''Invalid escrow accounting'')"
  using assms by (simp add: split_escrow_eq splitEscrow_int u64_def u16_def)

theorem split_agrees_witness:
  "splitEscrow 1000 900 (of_int 100) = Inr \<lparr>sp_provider = 891, sp_fee = 9, sp_refund = 100\<rparr>"
proof -
  have r: "u64 1000" "u64 900" "u16 100" by (simp_all add: u64_def u16_def)
  have "split_escrow 1000 900 100 = Inr (891, 9, 100)" by (simp add: split_escrow_eq [OF r])
  with split_agrees [OF r] show ?thesis by simp
qed

section \<open>Agents\<close>

text \<open>What the agent of the policy at \<open>p\<close> has spent on a day, according to the calls that succeeded.\<close>

fun agent_budget :: "program_env \<Rightarrow> string \<Rightarrow> call \<Rightarrow> int" where
  "agent_budget env p (Demand (Create_agent_job agent owner _ a _)) = (if policy_key env owner agent = p then ja_budget a else 0)"
| "agent_budget env p _ = 0"

definition agent_spent :: "program_env \<Rightarrow> string \<Rightarrow> int \<Rightarrow> (int \<times> call) list \<Rightarrow> int" where
  "agent_spent env p day tr = (\<Sum>(t, c)\<leftarrow>tr. if t div 86400 = day then agent_budget env p c else 0)"

lemma agent_spent_simps [simp]:
  "agent_spent env p day [] = 0"
  "agent_spent env p day (tr @ [(t, c)]) = agent_spent env p day tr + (if t div 86400 = day then agent_budget env p c else 0)"
  by (simp_all add: agent_spent_def)

definition spending_fine :: "program_env \<Rightarrow> (int \<times> call) list \<Rightarrow> ledger \<Rightarrow> string \<Rightarrow> bool" where
  "spending_fine env tr L p \<longleftrightarrow> (case lg_policies L p of
       None \<Rightarrow> \<forall>d. agent_spent env p d tr = 0
     | Some a \<Rightarrow> ap_dayIndex a \<le> lg_now L div 86400 \<and> agent_spent env p (ap_dayIndex a) tr = ap_dailySpent a
         \<and> (\<forall>d > ap_dayIndex a. agent_spent env p d tr = 0) \<and> 0 \<le> ap_dailySpent a \<and> ap_dailySpent a \<le> ap_dailySpendLimit a)"

lemma spending_same:
  assumes "spending_fine env tr L p" "lg_policies L' p = lg_policies L p" "lg_now L' = lg_now L" "agent_budget env p c = 0"
  shows "spending_fine env (tr @ [(t, c)]) L' p"
  using assms by (auto simp: spending_fine_def split: option.splits)

lemma demand_policies:
  assumes "exec_demand env c L = Inr L'"
  shows "agent_budget env p (Demand c) = 0 \<and> lg_policies L' p = lg_policies L p
    \<or> (\<exists>agent owner src a prf q. c = Create_agent_job agent owner src a prf \<and> policy_key env owner agent = p \<and> lg_policies L p = Some q
        \<and> 0 < ja_budget a \<and> ap_dailySpent (today (lg_now L) q) + ja_budget a \<le> ap_dailySpendLimit q
        \<and> lg_policies L' p = Some ((today (lg_now L) q)\<lparr>ap_dailySpent := ap_dailySpent (today (lg_now L) q) + ja_budget a\<rparr>))"
  using assms by (cases c) (auto simp: demand_defs access_defs outcome_simps put_defs Let_def)

lemma protocol_policies:
  assumes "exec_protocol env c L = Inr L'"
  shows "lg_policies L' p = lg_policies L p \<or> (case lg_policies L' p of None \<Rightarrow> False | Some q' \<Rightarrow> (case lg_policies L p of
       None \<Rightarrow> ap_dayIndex q' = lg_now L div 86400 \<and> ap_dailySpent q' = 0 \<and> 0 \<le> ap_dailySpendLimit q'
     | Some q \<Rightarrow> ap_dayIndex q' = ap_dayIndex q \<and> ap_dailySpent q' = ap_dailySpent q
         \<and> (ap_dailySpent q \<le> ap_dailySpendLimit q' \<or> ap_dailySpendLimit q' = ap_dailySpendLimit q)))"
  using assms by (cases c) (auto simp: protocol_defs access_defs outcome_simps put_defs Let_def vacant_def validate_agent_policy_def)

lemma spending_call:
  assumes "spending_fine env tr L p" "exec env c L = Inr L'" "sound env L"
  shows "spending_fine env (tr @ [(lg_now L, c)]) L' p"
proof (cases c)
  case (Protocol x)
  then have e: "exec_protocol env x L = Inr L'" using assms(2) by simp
  show ?thesis using protocol_policies [OF e, of p] assms(1) exec_protocol_frame [OF e] Protocol
    by (auto simp: spending_fine_def split: option.splits)
next
  case (Stake x)
  then show ?thesis using assms exec_stake_frame [of env x L L'] spending_same by simp
next
  case (Supply x)
  then show ?thesis using assms exec_supply_frame [of env x L L'] spending_same by simp
next
  case (Run x)
  then have "lg_policies L' = lg_policies L \<and> lg_now L' = lg_now L"
    using assms(2) by (cases x) (auto simp: start_job_def submit_receipt_def submit_verification_def cancel_job_def
        cancel_agent_job_def expire_job_def open_dispute_def resolve_dispute_def settle_job_def refund_job_def release_machine_def
        cancel_checked_def outcome_simps put_defs Let_def)
  then show ?thesis using assms Run spending_same by simp
next
  case (Demand x)
  then have e: "exec_demand env x L = Inr L'" using assms(2) by simp
  have now: "lg_now L' = lg_now L" using exec_demand_records [OF e] assms(3) by (simp add: sound_iff)
  show ?thesis using demand_policies [OF e, of p]
  proof (elim disjE exE conjE)
    assume "agent_budget env p (Demand x) = 0" "lg_policies L' p = lg_policies L p"
    then show ?thesis using assms(1) now Demand spending_same by simp
  next
    fix agent owner src a pf q
    assume "x = Create_agent_job agent owner src a pf" "policy_key env owner agent = p" "lg_policies L p = Some q" "0 < ja_budget a"
      "ap_dailySpent (today (lg_now L) q) + ja_budget a \<le> ap_dailySpendLimit q"
      "lg_policies L' p = Some ((today (lg_now L) q)\<lparr>ap_dailySpent := ap_dailySpent (today (lg_now L) q) + ja_budget a\<rparr>)"
    then show ?thesis using assms(1) now Demand by (auto simp: spending_fine_def today_def split: if_splits)
  qed
qed

lemma history_spending:
  assumes "market_env env W" "history env W tr L"
  shows "spending_fine env tr L p"
  using assms(2)
proof induction
  case (start L)
  then show ?case by (simp add: spending_fine_def genesis_def)
next
  case (call tr L c L')
  then show ?case using spending_call history_sound [OF assms(1)] by blast
next
  case (clock tr L t)
  then have "lg_now L div 86400 \<le> t div 86400" by (simp add: zdiv_mono1)
  with clock.IH show ?case by (auto simp: spending_fine_def split: option.splits)
qed (auto simp: spending_fine_def split: option.splits)

text \<open>
  C6. An agent's day. Whatever the agent and the owner do, cancellations and limit changes
  included, the budgets of the jobs the agent has created so far today never exceed the daily
  limit the policy has now.
\<close>

theorem agent_day_bounded:
  assumes "market_env env W" "history env W tr L" "lg_policies L p = Some a"
  shows "agent_spent env p (lg_now L div 86400) tr \<le> ap_dailySpendLimit a"
proof (cases "ap_dayIndex a = lg_now L div 86400")
  case True
  then show ?thesis using history_spending [OF assms(1,2), of p] assms(3) by (simp add: spending_fine_def)
next
  case False
  then show ?thesis using history_spending [OF assms(1,2), of p] assms(3) by (auto simp: spending_fine_def)
qed

theorem agent_day_bounded_witness:
  "agent_spent dm_env dm_policy_key (lg_now dm_A2 div 86400) [(100, Protocol (Initialize_protocol ''A'' ''M'' ''A'' ''V'' 100 3600)),
     (100, Protocol (Create_agent_policy ''B'' ''G'' dm_policy_args)), (100, Demand (Create_agent_job ''G'' ''B'' ''TB'' dm_args []))] \<le> 600"
  using agent_day_bounded [OF dm_market dm_ha dm_policy_A2(1)] by (simp add: dm_policy_def)

section \<open>Getting out\<close>

text \<open>A transaction: its instructions in order, all or none.\<close>

fun exec_all :: "program_env \<Rightarrow> call list \<Rightarrow> ledger \<Rightarrow> effect" where
  "exec_all env [] L = Inr L"
| "exec_all env (c # cs) L = andThen (exec env c L) (exec_all env cs)"

text \<open>A transfer the owner authorises within the balance goes through.\<close>

definition token_pays ::
  "(token_state \<Rightarrow> string \<Rightarrow> string \<Rightarrow> string \<Rightarrow> string \<Rightarrow> int \<Rightarrow> token_state option) \<Rightarrow> bool" where
  "token_pays T \<longleftrightarrow> (\<forall>ts src mint dst amount s d. ts src = Some s \<and> ts dst = Some d \<and> tk_mint s = mint \<and> tk_mint d = mint
     \<and> 0 \<le> amount \<and> amount \<le> tk_amount s \<longrightarrow> T ts src mint dst (tk_owner s) amount \<noteq> None)"

lemma token_paysD:
  assumes "token_pays T" "ts src = Some s" "ts dst = Some d" "tk_mint s = mint" "tk_mint d = mint" "tk_owner s = authority"
    "0 \<le> amount" "amount \<le> tk_amount s"
  obtains ts' where "T ts src mint dst authority amount = Some ts'"
  using assms unfolding token_pays_def by blast

lemma token_ok_iff: "token_ok L a mint owner \<longleftrightarrow> (\<exists>t. lg_tokens L a = Some t \<and> tk_mint t = mint \<and> tk_owner t = owner)"
  by (auto simp: token_ok_def split: option.splits)

lemma move_providers:
  assumes "market_move env W L L'" "dom (lg_providers L) \<subseteq> dom (lg_providers L')"
    and "\<forall>k j. lg_jobs L k = Some j \<and> jb_machine j \<noteq> default_key \<longrightarrow> lg_providers L (jb_provider j) \<noteq> None"
  shows "\<forall>k j. lg_jobs L' k = Some j \<and> jb_machine j \<noteq> default_key \<longrightarrow> lg_providers L' (jb_provider j) \<noteq> None"
proof -
  have old: "lg_providers L' (jb_provider j) \<noteq> None" if "lg_jobs L k = Some j" "jb_machine j \<noteq> default_key" for k j
    using assms(2,3) that by blast
  from assms(1) show ?thesis
  proof cases
    case (moved k j j')
    have "jb_machine j' = jb_machine j" "jb_provider j' = jb_provider j" using job_move_keeps(6) [OF moved(2)] moved(3) by simp_all
    with moved(1,5) old show ?thesis by auto
  next
    case (assigned k j mk m j')
    with assms(2) have "lg_providers L' (jb_provider j') \<noteq> None" by auto
    with assigned(11) old show ?thesis by auto
  qed (use old in \<open>auto simp: new_job_def\<close>)
qed

lemma exec_providers:
  assumes "exec env c L = Inr L'"
  shows "dom (lg_providers L) \<subseteq> dom (lg_providers L')"
proof (cases c)
  case (Protocol p)
  then show ?thesis using assms by (cases p) (auto simp: protocol_defs access_defs outcome_simps put_defs Let_def)
next
  case (Demand p)
  then show ?thesis using assms by (cases p) (auto simp: demand_defs access_defs outcome_simps put_defs Let_def)
next
  case (Run p)
  then show ?thesis using assms by (cases p) (auto simp: start_job_def submit_receipt_def submit_verification_def cancel_job_def
      cancel_agent_job_def expire_job_def open_dispute_def resolve_dispute_def settle_job_def refund_job_def release_machine_def
      cancel_checked_def outcome_simps put_defs Let_def)
qed (use assms exec_stake_frame exec_supply_frame in fastforce)+

lemma history_providers:
  assumes "market_env env W" "history env W tr L"
  shows "\<forall>k j. lg_jobs L k = Some j \<and> jb_machine j \<noteq> default_key \<longrightarrow> lg_providers L (jb_provider j) \<noteq> None"
  using assms(2)
proof induction
  case (call tr L c L')
  note mono = exec_providers [OF call.hyps(2)] and s = history_sound [OF assms(1) call.hyps(1)]
  show ?case
  proof (cases c)
    case (Demand p)
    then have "market_move env UNIV L L'" using call.hyps(2) s exec_demand_refines [of env p L L' UNIV] by (simp add: sound_def)
    then show ?thesis using move_providers [OF _ mono call.IH] by blast
  next
    case (Run p)
    then have "market_move env UNIV L L'" using call.hyps(2) exec_run_refines [of env p L L' UNIV] by simp
    then show ?thesis using move_providers [OF _ mono call.IH] by blast
  next
    case (Protocol p)
    then show ?thesis using call.IH mono exec_protocol_frame [of env p L L'] call.hyps(2) by auto blast
  next
    case (Stake p)
    then show ?thesis using call.IH mono exec_stake_frame [of env p L L'] call.hyps(2) by auto
  next
    case (Supply p)
    then show ?thesis using call.IH mono exec_supply_frame [of env p L L'] call.hyps(2) by auto
  qed
qed (auto simp: genesis_def)

lemma refund_goes_through:
  assumes pays: "token_pays (pe_transfer env)" and contract: "token_contract (pe_transfer env)"
    and j: "lg_jobs L k = Some j" "job_sound env L k j" "\<not> jb_settled j" "jb_state j \<in> {st_CANCELLED, st_EXPIRED, st_FAILED}"
    and r: "lg_tokens L refund = Some r" "tk_mint r = jb_mint j" "tk_owner r = jb_buyer j" "jb_buyer j \<noteq> k"
  shows "\<exists>L' j' r'. refund_job env k refund L = Inr L' \<and> lg_jobs L' k = Some j' \<and> jb_settled j' \<and> jb_refunded j' = jb_deposit j
    \<and> lg_tokens L' refund = Some r' \<and> tk_amount r' = tk_amount r + jb_deposit j"
proof -
  note f = job_soundD [OF j(2)]
  have d: "0 \<le> jb_deposit j" using stage_amounts(3) [OF f(5,6)] by (simp add: u64_def)
  from f(4) j(3) obtain x where x: "lg_tokens L (escrow_key env k) = Some x" "tk_owner x = k" "tk_mint x = jb_mint j" "jb_deposit j \<le> tk_amount x"
    unfolding covered_iff by auto
  obtain ts where ts: "pe_transfer env (lg_tokens L) (escrow_key env k) (jb_mint j) refund k (jb_deposit j) = Some ts"
    by (rule token_paysD [OF pays x(1) r(1) x(3) r(2) x(2) d x(4)])
  have ne: "refund \<noteq> escrow_key env k" using x r by auto
  obtain r' where r': "ts refund = Some r'" "tk_amount r' = tk_amount r + jb_deposit j"
    using transfer_account [OF contract ts r(1)] ne by auto
  have g: "job_key env (jb_buyer j) (jb_id j) = k" "token_ok L (escrow_key env k) (jb_mint j) k" "token_ok L refund (jb_mint j) (jb_buyer j)"
    using j(2) x r by (auto simp: job_sound_def token_ok_iff)
  have "refund_job env k refund L = Inr (emit_state k st_REFUNDED (put_job k
       (j\<lparr>jb_settled := True, jb_refunded := jb_deposit j, jb_state := st_REFUNDED\<rparr>) (L\<lparr>lg_tokens := ts\<rparr>)))"
    using g j ts by (simp add: refund_job_def load_def guard_def transfer_checked_def)
  then show ?thesis using r' by (simp add: put_defs)
qed

lemma run_limit_total:
  assumes "terms_fine j" "times_fine now j" "now \<le> 4611686018427387904"
  shows "run_limit j = Inr (jb_startedAt j + jb_timeout j + 60)" "plain_i64 (jb_submittedAt j + 86400) = Inr (jb_submittedAt j + 86400)"
    "plain_i64 (jb_verifiedAt j + jb_disputeSeconds j) = Inr (jb_verifiedAt j + jb_disputeSeconds j)"
  using assms by (auto simp: run_limit_def plain_i64_def i64_def terms_fine_def times_fine_def)

lemma expire_goes_through:
  assumes "lg_jobs L k = Some j" "terms_fine j" "times_fine now j" "now + 604800 < lg_now L" "jb_deadline j < lg_now L" "now \<le> 4611686018427387904"
    "jb_state j \<in> {st_CREATED, st_OPEN, st_ASSIGNED, st_RUNNING, st_VERIFYING}"
  shows "expire_job k L = Inr (emit_state k st_EXPIRED (put_job k (j\<lparr>jb_state := st_EXPIRED\<rparr>) L))"
proof -
  have "expirable j (lg_now L) = Inr True"
    using assms run_limit_total [OF assms(2,3,6)] by (auto simp: expirable_def terms_fine_def times_fine_def)
  then show ?thesis using assms(1) by (simp add: expire_job_def load_def)
qed

lemma pay_goes_through:
  assumes "token_pays T" "token_contract T" "ts (escrow_key env k) = Some x" "tk_owner x = k" "tk_delegate x = None"
    "ts dst = Some d" "tk_mint d = tk_mint x" "0 \<le> amount" "amount \<le> tk_amount x"
  obtains ts' x' where "T ts (escrow_key env k) (tk_mint x) dst k amount = Some ts'" "ts' (escrow_key env k) = Some x'" "tk_owner x' = k"
    "tk_mint x' = tk_mint x" "tk_delegate x' = None" "tk_amount x - amount \<le> tk_amount x'"
    "\<And>a y. ts a = Some y \<Longrightarrow> \<exists>y'. ts' a = Some y' \<and> tk_mint y' = tk_mint y"
proof -
  obtain ts' where t: "T ts (escrow_key env k) (tk_mint x) dst k amount = Some ts'"
    by (rule token_paysD [OF assms(1,3,6) refl assms(7,4,8,9)])
  obtain x' where "ts' (escrow_key env k) = Some x'" "tk_owner x' = k" "tk_mint x' = tk_mint x" "tk_delegate x' = None"
      "tk_amount x - amount \<le> tk_amount x'"
    by (rule transfer_out [OF assms(2) t assms(8,3-5)])
  moreover have "\<exists>y'. ts' a = Some y' \<and> tk_mint y' = tk_mint y" if "ts a = Some y" for a y
    using transfer_account [OF assms(2) t that] by blast
  ultimately show thesis using t that by blast
qed

lemma settle_goes_through:
  assumes pays: "token_pays (pe_transfer env)" and contract: "token_contract (pe_transfer env)"
    and j: "lg_jobs L k = Some j" "job_sound env L k j" "\<not> jb_settled j" "jb_state j = st_COMPLETED"
    and time: "jb_verifiedAt j + jb_disputeSeconds j \<le> lg_now L" "plain_i64 (jb_verifiedAt j + jb_disputeSeconds j) = Inr (jb_verifiedAt j + jb_disputeSeconds j)"
    and accounts: "token_ok L payout (jb_mint j) (jb_payout j)" "token_ok L treasury (jb_mint j) (jb_treasury j)" "token_ok L refund (jb_mint j) (jb_buyer j)"
    and p: "lg_providers L (jb_provider j) = Some p" "u64 (pr_completed p + 1)"
    and m: "lg_machines L (jb_machine j) = Some m" "u64 (mc_completed m + 1)"
  shows "\<exists>L' j'. settle_job env k payout treasury refund L = Inr L' \<and> lg_jobs L' k = Some j' \<and> jb_settled j' \<and> jb_price j' = jb_price j"
proof -
  note f = job_soundD [OF j(2)]
  let ?fee = "jb_price j * jb_feeBps j div 10000"
  have fee: "0 \<le> ?fee" "?fee \<le> jb_price j" "jb_price j \<le> jb_deposit j"
    using fee_share [of "jb_price j" "jb_feeBps j"] stage_amounts [OF f(5,6)] f(5) by (simp_all add: terms_fine_def)
  from f(4) j(3) obtain x where x: "lg_tokens L (escrow_key env k) = Some x" "tk_owner x = k" "tk_mint x = jb_mint j" "tk_delegate x = None"
      "jb_deposit j \<le> tk_amount x"
    unfolding covered_iff by auto
  from accounts x(3) obtain a b c where abc: "lg_tokens L payout = Some a" "tk_mint a = tk_mint x" "lg_tokens L treasury = Some b" "tk_mint b = tk_mint x"
      "lg_tokens L refund = Some c" "tk_mint c = tk_mint x"
    unfolding token_ok_iff by metis
  obtain ts1 x1 where t1: "pe_transfer env (lg_tokens L) (escrow_key env k) (tk_mint x) payout k (jb_price j - ?fee) = Some ts1"
      "ts1 (escrow_key env k) = Some x1" "tk_owner x1 = k" "tk_mint x1 = tk_mint x" "tk_delegate x1 = None"
      "tk_amount x - (jb_price j - ?fee) \<le> tk_amount x1" "\<And>a y. lg_tokens L a = Some y \<Longrightarrow> \<exists>y'. ts1 a = Some y' \<and> tk_mint y' = tk_mint y"
    by (rule pay_goes_through [OF pays contract x(1,2,4) abc(1,2), of "jb_price j - ?fee"]) (use fee x(5) in auto)
  obtain b1 c1 where bc: "ts1 treasury = Some b1" "tk_mint b1 = tk_mint x1" "ts1 refund = Some c1" "tk_mint c1 = tk_mint x1"
    using t1(7) [OF abc(3)] t1(7) [OF abc(5)] abc(4,6) t1(4) by auto
  obtain ts2 x2 where t2: "pe_transfer env ts1 (escrow_key env k) (tk_mint x1) treasury k ?fee = Some ts2"
      "ts2 (escrow_key env k) = Some x2" "tk_owner x2 = k" "tk_mint x2 = tk_mint x1" "tk_delegate x2 = None"
      "tk_amount x1 - ?fee \<le> tk_amount x2" "\<And>a y. ts1 a = Some y \<Longrightarrow> \<exists>y'. ts2 a = Some y' \<and> tk_mint y' = tk_mint y"
    by (rule pay_goes_through [OF pays contract t1(2,3,5) bc(1,2), of ?fee]) (use fee x(5) t1(6) in auto)
  obtain c2 where c2: "ts2 refund = Some c2" "tk_mint c2 = tk_mint x2" using t2(4) t2(7) [OF bc(3)] bc(4) by auto
  obtain ts3 where t3: "pe_transfer env ts2 (escrow_key env k) (tk_mint x2) refund k (jb_deposit j - jb_price j) = Some ts3"
    by (rule pay_goes_through [OF pays contract t2(2,3,5) c2, of "jb_deposit j - jb_price j"]) (use fee x(5) t1(6) t2(6) in auto)
  have held: "holds L k j" using j f(6) by (simp add: job_sound_def stage_fine_def)
  have g: "job_key env (jb_buyer j) (jb_id j) = k" "token_ok L (escrow_key env k) (jb_mint j) k" "mc_provider m = jb_provider j"
    using j(2) x held m(1) by (auto simp: job_sound_def token_ok_iff holds_iff)
  show ?thesis using g j(1,3,4) time accounts p m settlement_split [OF f(5,6)] t1(1) t2(1) t3 x(3) t1(4) t2(4)
    by (simp add: settle_job_def load_def guard_def transfer_checked_def checked_def put_defs)
qed

lemma settle_ready:
  assumes env: "market_env env W" "token_pays (pe_transfer env)" and h: "history env W tr L"
    and j: "lg_jobs L k = Some j" "\<not> jb_settled j" "jb_state j = st_COMPLETED"
    and t: "times_fine now j" "now \<le> 4611686018427387904" "jb_verifiedAt j + jb_disputeSeconds j \<le> lg_now L"
    and accounts: "token_ok L payout (jb_mint j) (jb_payout j)" "token_ok L treasury (jb_mint j) (jb_treasury j)" "token_ok L refund (jb_mint j) (jb_buyer j)"
    and counters: "\<And>p. lg_providers L (jb_provider j) = Some p \<Longrightarrow> u64 (pr_completed p + 1)"
      "\<And>m. lg_machines L (jb_machine j) = Some m \<Longrightarrow> u64 (mc_completed m + 1)"
  shows "\<exists>L' j'. settle_job env k payout treasury refund L = Inr L' \<and> lg_jobs L' k = Some j' \<and> jb_settled j' \<and> jb_price j' = jb_price j"
proof -
  note s = history_job [OF env(1) h j(1)]
  note f = job_soundD [OF s]
  have machine: "jb_machine j \<noteq> default_key" using stage_machine_set [OF f(6)] j(3) by simp
  then obtain p where p: "lg_providers L (jb_provider j) = Some p" using history_providers [OF env(1) h] j(1) by blast
  obtain m where m: "lg_machines L (jb_machine j) = Some m" using s j(2) machine by (auto simp: job_sound_def holds_iff)
  have "token_contract (pe_transfer env)" using env(1) by (simp add: market_env_def)
  then show ?thesis
    using settle_goes_through [OF env(2) _ j(1) s j(2,3) t(3) run_limit_total(3) [OF f(5) t(1,2)] accounts p counters(1) [OF p] m counters(2) [OF m]] by blast
qed



end
