(* ===== verification/OnChain.thy ===== *)
theory OnChain
  imports Custody JobsApi Daemon
begin

text \<open>
  The clients against the program: the transactions the API builds and the bids the provider
  daemon places, executed by the on-chain program. \<open>decode_ix\<close> is the program's entry point as its
  interface description gives it: arguments by position, accounts by name, every address a
  constraint determines compared with the one the client passed.
\<close>

section \<open>Instructions as the program reads them\<close>

definition named :: "instruction \<Rightarrow> string \<Rightarrow> string" where
  "named ix n = (case map_of (ix_accounts ix) n of Some a \<Rightarrow> a | None \<Rightarrow> [])"

definition decode_ix :: "program_env \<Rightarrow> ledger \<Rightarrow> instruction \<Rightarrow> call option" where
  "decode_ix env L ix =
     (let mint = map_option cf_mint (lg_config L); acc = named ix in
      if ix_name ix = ''createJob'' then (case ix_args ix of
          [ABytes i, ABytes h, ANum budget, ANum deadline, ANum timeout, ANum pol] \<Rightarrow>
            if acc ''config'' = pe_pda env [Text ''config''] \<and> acc ''job'' = job_key env (acc ''buyer'') i \<and> Some (acc ''mint'') = mint
              \<and> acc ''escrow'' = escrow_key env (acc ''job'')
            then Some (Demand (Create_job (acc ''buyer'') \<lparr>ja_id = i, ja_specHash = h, ja_budget = budget, ja_deadline = deadline,
              ja_timeout = timeout, ja_policy = pol\<rparr>)) else None
        | _ \<Rightarrow> None)
      else if ix_name ix = ''fundJob'' then
        (if map_option jb_mint (lg_jobs L (acc ''job'')) = Some (acc ''mint'') \<and> acc ''escrow'' = escrow_key env (acc ''job'')
         then Some (Demand (Fund_job (acc ''buyer'') (acc ''job'') (acc ''source''))) else None)
      else if ix_name ix = ''acceptBid'' then (case lg_bids L (acc ''bid'') of
          Some b \<Rightarrow> if acc ''provider'' = bd_provider b \<and> acc ''machine'' = bd_machine b
              \<and> acc ''workerAuth'' = worker_key env (bd_provider b) (bd_worker b)
            then Some (Demand (Accept_bid (acc ''buyer'') (acc ''job'') (acc ''bid''))) else None
        | None \<Rightarrow> None)
      else if ix_name ix = ''cancelJob'' then Some (Run (Cancel_job (acc ''buyer'') (acc ''job'')))
      else if ix_name ix = ''expireJob'' then Some (Run (Expire_job (acc ''job'')))
      else None)"

text \<open>The instructions of a transaction, all or none.\<close>

fun submit_tx :: "program_env \<Rightarrow> instruction list \<Rightarrow> ledger \<Rightarrow> Program.effect" where
  "submit_tx env [] L = Inr L"
| "submit_tx env (ix # ixs) L = (case decode_ix env L ix of None \<Rightarrow> Inl Constraint
     | Some c \<Rightarrow> andThen (exec env c L) (submit_tx env ixs))"

lemma handler_job:
  assumes "create_job_handler env req body maxSpend d = (d', Inr cj)"
  shows "\<exists>owner spec h mint bh. wallet (api_env.truncate env) req = Inr owner \<and> jobSpecSchema_parse body = Inr spec
    \<and> commitment (av_crypto env) (spec_json spec) = Inr h \<and> je_mint env = Inr mint \<and> units_ok 12 maxSpend
    \<and> cj = build_job env owner 0 h mint bh (units_of maxSpend) spec (policy_of spec)"
  using assms by (auto simp: create_job_handler_def parse_body_def proc_simps outcome_simps plain_def split: sum.splits)

lemma units_bounds:
  assumes "units_ok k s"
  shows "0 < units_of s" "units_of s < 10 ^ Suc k"
proof -
  have "base_units_ok k s" using assms by (cases s) (auto simp: units_ok_def base_units_ok_def)
  then obtain n where "bigInt s = Inr (int n)" "0 < n" "n < 10 ^ Suc k" by (rule base_units_bounds)
  then show "0 < units_of s" "units_of s < 10 ^ Suc k"
    using of_nat_less_iff [of n "10 ^ Suc k", where ?'a = int] by (simp_all add: units_of_def)
qed

text \<open>The ledger as the API found it when it built the transaction for \<open>owner\<close>: same addresses, same mint.\<close>

definition agrees :: "jobs_env \<Rightarrow> program_env \<Rightarrow> ledger \<Rightarrow> config_account \<Rightarrow> bool" where
  "agrees env penv L c \<longleftrightarrow> je_pda env = pe_pda penv \<and> lg_config L = Some c \<and> \<not> cf_paused c \<and> je_mint env = Inr (cf_mint c)
     \<and> bytes32 (je_random env 0)"

lemma build_job_opens:
  fixes env :: jobs_env and penv :: program_env
  assumes a: "agrees env penv L c" and spec: "spec_valid spec" and h: "length (fromHex h) = 32" "fromHex h \<noteq> zero32"
    and n: "0 < n" "n \<le> 1000000000000"
    and cj: "cj = build_job env owner 0 h (cf_mint c) bh n spec (policy_of spec)"
    and v: "vacant L (cj_jobId cj)" "vacant L (escrow_key penv (cj_jobId cj))"
    and t: "lg_now L < av_nowMs env div 1000 + maxStartDelaySeconds spec" "av_nowMs env div 1000 + maxStartDelaySeconds spec \<le> lg_now L + 86400"
      "0 \<le> lg_now L" "lg_now L \<le> 4611686018427387904"
    and src: "lg_tokens L (je_ata env (cf_mint c) owner) = Some s" "tk_mint s = cf_mint c" "tk_owner s = owner" "n \<le> tk_amount s"
    and pays: "token_pays (pe_transfer penv)"
  shows "\<exists>L' j. submit_tx penv (ut_instructions (cj_tx cj)) L = Inr L' \<and> lg_jobs L' (cj_jobId cj) = Some j \<and> jb_state j = st_OPEN
    \<and> jb_deposit j = n \<and> jb_buyer j = owner \<and> jb_specHash j = fromHex h \<and> jb_timeout j = timeoutSeconds spec
    \<and> jb_policy j = policyCode (policy_of spec) \<and> jb_deadline j = av_nowMs env div 1000 + maxStartDelaySeconds spec"
proof -
  let ?k = "job_key penv owner (je_random env 0)"
  let ?a = "\<lparr>ja_id = je_random env 0, ja_specHash = fromHex h, ja_budget = n, ja_deadline = av_nowMs env div 1000 + maxStartDelaySeconds spec,
    ja_timeout = timeoutSeconds spec, ja_policy = policyCode (policy_of spec)\<rparr>"
  let ?j = "new_job c owner ?a"
  let ?L1 = "open_accounts penv c owner ?a L"
  note ag = a [unfolded agrees_def]
  have id: "cj_jobId cj = ?k" and ixs: "ut_instructions (cj_tx cj) = [create_ix env owner (je_random env 0) h (cf_mint c) n spec (policy_of spec), fund_ix env owner ?k (cf_mint c)]"
    using ag by (simp_all add: cj build_job_def Let_def job_key_def)
  have f: "1 \<le> timeoutSeconds spec" "timeoutSeconds spec \<le> 86400"
    using spec by (auto simp: spec_valid_def fields_ok_def in_range_def)
  have d1: "decode_ix penv L (create_ix env owner (je_random env 0) h (cf_mint c) n spec (policy_of spec)) = Some (Demand (Create_job owner ?a))"
    using ag by (simp add: decode_ix_def create_ix_def named_def Let_def job_key_def escrow_key_def)
  have args: "job_args_ok ?a" using ag h(1) n f t policyCode_range [of "policy_of spec"]
    by (simp add: job_args_ok_def bytes32_def u64_def u32_def u8_def i64_def)
  have e1: "create_job penv owner ?a L = Inr ?L1"
    using ag args v n f t h(2) policyCode_range [of "policy_of spec"]
    by (simp add: create_job_def load_config_def guard_def plain_i64_def i64_def job_vacant_def id)
  have L1: "lg_jobs ?L1 ?k = Some ?j" "lg_now ?L1 = lg_now L"
      "lg_tokens ?L1 = (lg_tokens L)(escrow_key penv ?k \<mapsto> new_token (cf_mint c) ?k)"
    by (simp_all add: put_defs Let_def)
  have ne: "je_ata env (cf_mint c) owner \<noteq> escrow_key penv ?k" using src(1) v(2) by (auto simp: vacant_def id)
  have d2: "decode_ix penv ?L1 (fund_ix env owner ?k (cf_mint c)) = Some (Demand (Fund_job owner ?k (je_ata env (cf_mint c) owner)))"
    using ag L1(1) by (simp add: decode_ix_def fund_ix_def named_def Let_def escrow_key_def new_job_def)
  obtain ts where ts: "pe_transfer penv (lg_tokens ?L1) (je_ata env (cf_mint c) owner) (cf_mint c) (escrow_key penv ?k) owner n = Some ts"
    by (rule token_paysD [OF pays, of "lg_tokens ?L1" _ s "escrow_key penv ?k" "new_token (cf_mint c) ?k"])
      (use L1(3) ne src n in \<open>auto simp: new_token_def\<close>)
  have j: "jb_buyer ?j = owner" "jb_id ?j = je_random env 0" "jb_mint ?j = cf_mint c" "jb_state ?j = st_CREATED" "jb_budget ?j = n"
      "jb_deadline ?j = av_nowMs env div 1000 + maxStartDelaySeconds spec"
    by (simp_all add: new_job_def)
  have "fund_job penv owner ?k (je_ata env (cf_mint c) owner) ?L1 = Inr (emit_state ?k st_OPEN (put_job ?k (?j\<lparr>jb_deposit := n, jb_state := st_OPEN\<rparr>) (?L1\<lparr>lg_tokens := ts\<rparr>)))"
    using L1 ne src t ts by (simp add: fund_job_def load_def guard_def token_ok_def deposit_def transfer_checked_def j new_token_def)
  then show ?thesis using d1 d2 e1 by (simp add: id ixs put_defs) (simp add: new_job_def)
qed

lemma build_job_over_cap:
  fixes env :: jobs_env and penv :: program_env
  assumes a: "agrees env penv L c" and spec: "spec_valid spec" and h: "length (fromHex h) = 32" and n: "1000000000000 < n" "n < 10000000000000"
    and cj: "cj = build_job env owner 0 h (cf_mint c) bh n spec (policy_of spec)"
    and v: "vacant L (cj_jobId cj)" "vacant L (escrow_key penv (cj_jobId cj))"
    and t: "i64 (av_nowMs env div 1000 + maxStartDelaySeconds spec)"
  shows "submit_tx penv (ut_instructions (cj_tx cj)) L = Inl Bounds"
proof -
  let ?a = "\<lparr>ja_id = je_random env 0, ja_specHash = fromHex h, ja_budget = n, ja_deadline = av_nowMs env div 1000 + maxStartDelaySeconds spec,
    ja_timeout = timeoutSeconds spec, ja_policy = policyCode (policy_of spec)\<rparr>"
  note ag = a [unfolded agrees_def]
  have id: "cj_jobId cj = job_key penv owner (je_random env 0)"
    and ixs: "ut_instructions (cj_tx cj) = [create_ix env owner (je_random env 0) h (cf_mint c) n spec (policy_of spec),
      fund_ix env owner (cj_jobId cj) (cf_mint c)]"
    using ag by (simp_all add: cj build_job_def Let_def job_key_def)
  have f: "1 \<le> timeoutSeconds spec" "timeoutSeconds spec \<le> 86400"
    using spec by (auto simp: spec_valid_def fields_ok_def in_range_def)
  have d1: "decode_ix penv L (create_ix env owner (je_random env 0) h (cf_mint c) n spec (policy_of spec)) = Some (Demand (Create_job owner ?a))"
    using ag by (simp add: decode_ix_def create_ix_def named_def Let_def job_key_def escrow_key_def)
  have "job_args_ok ?a" using ag h n f t policyCode_range [of "policy_of spec"]
    by (simp add: job_args_ok_def bytes32_def u64_def u32_def u8_def)
  then have "create_job penv owner ?a L = Inl Bounds"
    using ag v n by (simp add: create_job_def load_config_def guard_def job_vacant_def id)
  then show ?thesis by (simp add: ixs d1)
qed

text \<open>What the handler built, when its hashes are 32 bytes.\<close>

lemma handler_built:
  fixes env :: jobs_env
  assumes handler: "create_job_handler env req body maxSpend d = (d', Inr cj)"
    and owner: "wallet (api_env.truncate env) req = Inr owner" and spec: "jobSpecSchema_parse body = Inr spec" and mint: "je_mint env = Inr mint"
    and hash: "\<And>b. length (sha256_raw (av_crypto env) b) = 32" "commitment (av_crypto env) (spec_json spec) \<noteq> Inr (toHex zero32)"
  obtains h bh where "commitment (av_crypto env) (spec_json spec) = Inr h" "length (fromHex h) = 32" "toHex (fromHex h) = h" "fromHex h \<noteq> zero32"
    "spec_valid spec" "cj = build_job env owner 0 h mint bh (units_of maxSpend) spec (policy_of spec)" "0 < units_of maxSpend" "units_of maxSpend < 10000000000000"
proof -
  from handler_job [OF handler] owner spec mint obtain h bh where h: "commitment (av_crypto env) (spec_json spec) = Inr h"
      and units: "units_ok 12 maxSpend" and cj: "cj = build_job env owner 0 h mint bh (units_of maxSpend) spec (policy_of spec)"
    by auto
  obtain b where "h = toHex (sha256_raw (av_crypto env) b)" using h by (auto simp: commitment_eq_Inr)
  then have "length (fromHex h) = 32" "toHex (fromHex h) = h" "fromHex h \<noteq> zero32" using hash h by auto
  moreover have "spec_valid spec" using spec by (simp add: parse_Inr_iff)
  ultimately show thesis using that h cj units_bounds [OF units] by simp
qed

text \<open>
  C8. From the API to the chain. The transaction \<^verbatim>\<open>POST /v1/jobs\<close> answers with, signed and sent while
  the start window is open on the chain's clock, creates the job account the reply names and opens
  it: owned by the wallet that proved itself, committed to the specification's hash, its escrow
  funded with the whole budget. The API accepts budgets of up to thirteen digits; one above the
  program's cap of \<open>10 ^ 12\<close> is refused on chain with \<^verbatim>\<open>Bounds\<close>.
\<close>

theorem api_job_opens:
  fixes env :: jobs_env and penv :: program_env
  assumes handler: "create_job_handler env req body maxSpend d = (d', Inr cj)"
    and owner: "wallet (api_env.truncate env) req = Inr owner" and spec: "jobSpecSchema_parse body = Inr spec"
    and a: "agrees env penv L c" and hash: "\<And>b. length (sha256_raw (av_crypto env) b) = 32"
      "commitment (av_crypto env) (spec_json spec) \<noteq> Inr (toHex zero32)"
    and v: "vacant L (cj_jobId cj)" "vacant L (escrow_key penv (cj_jobId cj))"
    and t: "lg_now L < av_nowMs env div 1000 + maxStartDelaySeconds spec" "av_nowMs env div 1000 + maxStartDelaySeconds spec \<le> lg_now L + 86400"
      "0 \<le> lg_now L" "lg_now L \<le> 4611686018427387904"
    and src: "lg_tokens L (je_ata env (cf_mint c) owner) = Some s" "tk_mint s = cf_mint c" "tk_owner s = owner" "units_of maxSpend \<le> tk_amount s"
    and pays: "token_pays (pe_transfer penv)"
  shows "if units_of maxSpend \<le> 1000000000000
    then \<exists>L' j. submit_tx penv (ut_instructions (cj_tx cj)) L = Inr L' \<and> lg_jobs L' (cj_jobId cj) = Some j \<and> jb_state j = st_OPEN
      \<and> jb_deposit j = units_of maxSpend \<and> jb_buyer j = owner \<and> commitment (av_crypto env) (spec_json spec) = Inr (toHex (jb_specHash j))
      \<and> jb_timeout j = timeoutSeconds spec \<and> jb_policy j = policyCode (policy_of spec)
    else submit_tx penv (ut_instructions (cj_tx cj)) L = Inl Bounds"
proof -
  have mint: "je_mint env = Inr (cf_mint c)" using a by (simp add: agrees_def)
  obtain h bh where h: "commitment (av_crypto env) (spec_json spec) = Inr h" and hx: "length (fromHex h) = 32" "toHex (fromHex h) = h" "fromHex h \<noteq> zero32"
      and sv: "spec_valid spec" and cj: "cj = build_job env owner 0 h (cf_mint c) bh (units_of maxSpend) spec (policy_of spec)"
      and u: "0 < units_of maxSpend" "units_of maxSpend < 10000000000000"
    by (rule handler_built [OF handler owner spec mint hash])
  show ?thesis
  proof (cases "units_of maxSpend \<le> 1000000000000")
    case True
    with build_job_opens [OF a sv hx(1,3) u(1) True cj v t src pays] h hx(2) show ?thesis by auto
  next
    case False
    moreover have "i64 (av_nowMs env div 1000 + maxStartDelaySeconds spec)" using t by (simp add: i64_def)
    ultimately show ?thesis using build_job_over_cap [OF a sv hx(1) _ _ cj v] u(2) by simp
  qed
qed

definition chain_api :: jobs_env where
  "chain_api = sample_jobs\<lparr>je_pda := dm_pda, je_ata := (\<lambda>m own. ''T'' @ own), je_mint := Inr ''M'', je_random := (\<lambda>_. dm_bytes 4)\<rparr>"

lemma chain_api_parts:
  "api_env.truncate chain_api = sample_api" "av_crypto chain_api = sample_crypto" "je_mint chain_api = Inr ''M''"
  "je_blockhash chain_api = Inr ''H''" "je_write chain_api t = Inr ()" "je_maxPolicy chain_api = 3" "je_pda chain_api = dm_pda"
  "je_ata chain_api m own = ''T'' @ own" "je_random chain_api n = dm_bytes 4" "av_nowMs chain_api = 40000"
  by (simp_all add: chain_api_def sample_jobs_def api_env.defs provider_env.defs sample_api_def)

definition chain_ledger :: ledger where
  "chain_ledger = dm_L1\<lparr>lg_tokens := [''TW'' \<mapsto> dm_token ''W'' 1000 None], lg_now := 40\<rparr>"

lemma chain_agrees: "agrees chain_api dm_env chain_ledger dm_config"
  by (simp add: agrees_def chain_api_parts chain_ledger_def dm_L1_def dm_config_def bytes32_def)

lemma chain_vacant: "vacant chain_ledger (dm_pda ss)"
  by (simp add: vacant_def chain_ledger_def dm_L1_def dm_L0_def)

lemma sample_hash_nonzero: "commitment sample_crypto (spec_json spec) \<noteq> Inr (toHex zero32)"
proof -
  have "\<exists>kvs. spec_json spec = JObj kvs" by (simp add: spec_json_def)
  then obtain cs where "show_json (spec_json spec) = CHR ''{'' # cs" by auto
  then have "checksum (utf8 (show_json (spec_json spec))) ! 1 = 123" by (simp add: checksum_def utf8_def)
  moreover have "zero32 ! 1 = 0" by (simp add: zero32_def)
  ultimately have "checksum (utf8 (show_json (spec_json spec))) \<noteq> zero32" by auto
  then show ?thesis by (simp add: commitment_eq_Inr sample_crypto_def)
qed

theorem api_job_opens_witness:
  "\<exists>d' cj L' j. create_job_handler chain_api sample_headers (spec_json sample_spec) ''25'' no_jobs = (d', Inr cj)
     \<and> submit_tx dm_env (ut_instructions (cj_tx cj)) chain_ledger = Inr L' \<and> lg_jobs L' (cj_jobId cj) = Some j \<and> jb_state j = st_OPEN
     \<and> jb_deposit j = 25 \<and> jb_buyer j = ''W''"
proof -
  obtain d' cj where c: "create_job_handler chain_api sample_headers (spec_json sample_spec) ''25'' no_jobs = (d', Inr cj)"
    by (simp add: create_job_handler_def sample_request chain_api_parts sample_spec_parts)
  from handler_job [OF c] obtain h m bh where cj: "cj = build_job chain_api ''W'' 0 h m bh (units_of ''25'') sample_spec (policy_of sample_spec)"
    using sample_wallet sample_specs_parse(1) by (auto simp: chain_api_parts parse_body_def split: sum.splits)
  have parse: "jobSpecSchema_parse (spec_json sample_spec) = Inr sample_spec"
    using sample_specs_parse(1) by (simp add: parse_body_def split: sum.splits)
  have u: "units_of ''25'' = 25" by code_simp
  have k: "cj_jobId cj = dm_pda [Text ''job'', Key ''W'', Bytes (dm_bytes 4)]" by (simp add: cj build_job_def Let_def chain_api_parts)
  have "maxStartDelaySeconds sample_spec = 60" by (simp add: sample_spec_def)
  moreover have "lg_tokens chain_ledger ''TW'' = Some (dm_token ''W'' 1000 None)" "lg_now chain_ledger = 40" by (simp_all add: chain_ledger_def)
  moreover have "token_pays dm_transfer" using dm_pays by (simp add: token_pays_def)
  ultimately show ?thesis
    using api_job_opens [OF c _ parse chain_agrees, of "''W''" "dm_token ''W'' 1000 None"] c u chain_vacant k sample_wallet sample_hash_nonzero
    by (auto simp: chain_api_parts dm_config_def dm_token_def escrow_key_def sample_crypto_def)
qed

section \<open>The daemon's bids\<close>


definition bid_ledger :: ledger where
  "bid_ledger = dm_L1\<lparr>lg_jobs := [''J'' \<mapsto> dm_funded\<lparr>jb_deposit := 600, jb_deadline := 200\<rparr>], lg_providers := [''P'' \<mapsto> dm_p],
     lg_workers := [dm_pda [Text ''worker'', Key ''P'', Key ''W''] \<mapsto> dm_w\<lparr>wa_provider := ''P''\<rparr>],
     lg_machines := [''M'' \<mapsto> idle_machine]\<rparr>"


end
