(* ===== verification/WebMarket.thy ===== *)
theory WebMarket
  imports OnChain Listings
begin

text \<open>
  The web client (\<^verbatim>\<open>apps/web\<close>), first part: its requests (\<^verbatim>\<open>lib/backend.ts\<close>), the market page and
  the wallet session of \<^verbatim>\<open>components/exchange.tsx\<close>, and the sign-in dialog with its server action
  (\<^verbatim>\<open>app/actions.ts\<close>). The page's state is a record of its \<^verbatim>\<open>useState\<close> variables with the browser's
  cookie and session storage; an asynchronous handler is a function from the replies it awaits to
  the state it leaves. Rendering is not modelled beyond the lists and controls it computes.
\<close>

section \<open>URI components\<close>

text \<open>Strings are their UTF-8 bytes here, so escapes are read and written byte by byte.\<close>

definition unreserved :: "char \<Rightarrow> bool" where
  "unreserved c \<longleftrightarrow> is_lower c \<or> is_upper c \<or> is_digit c \<or> c \<in> set ''-_.!~*()'' \<or> ascii c = 39"

definition percent :: "char \<Rightarrow> string" where
  "percent c = CHR ''%'' # map (\<lambda>d. if is_lower d then char_of (ascii d - 32) else d) [nibble (ascii c div 16), nibble (ascii c mod 16)]"

definition encodeURIComponent :: "string \<Rightarrow> string" where
  "encodeURIComponent s = concat (map (\<lambda>c. if unreserved c then [c] else percent c) s)"

fun decodeURIComponent :: "string \<Rightarrow> string outcome" where
  "decodeURIComponent [] = Inr []"
| "decodeURIComponent (c # s) = (if c = CHR ''%''
     then (case s of a # b # t \<Rightarrow> (case (unnibble a, unnibble b) of
              (Some x, Some y) \<Rightarrow> andThen (decodeURIComponent t) (\<lambda>r. Inr (char_of (16 * x + y) # r))
            | _ \<Rightarrow> Inl ''URI malformed'')
          | _ \<Rightarrow> Inl ''URI malformed'')
     else andThen (decodeURIComponent s) (\<lambda>r. Inr (c # r)))"

lemma unnibble_percent:
  assumes "n < 16"
  shows "unnibble (if is_lower (nibble n) then char_of (ascii (nibble n) - 32) else nibble n) = Some n"
  using assms by (auto simp: nibble_def is_lower_def unnibble_def is_digit_def)

lemma decode_percent: "decodeURIComponent (percent c @ s) = andThen (decodeURIComponent s) (\<lambda>r. Inr (c # r))"
proof -
  have n: "ascii c div 16 < 16" "ascii c mod 16 < 16" using mod_less_divisor [of 256 "ascii c"] by (simp_all only: of_char_mod_256 less_mult_imp_div_less) (simp_all add: div_less_iff_less_mult)
  have "char_of (16 * (ascii c div 16) + ascii c mod 16) = c" by (simp add: mult.commute)
  then show ?thesis unfolding percent_def using unnibble_percent [OF n(1)] unnibble_percent [OF n(2)] by simp
qed

lemma decode_unreserved: "unreserved c \<Longrightarrow> decodeURIComponent (c # s) = andThen (decodeURIComponent s) (\<lambda>r. Inr (c # r))"
  by (auto simp: unreserved_def is_lower_def is_upper_def is_digit_def)

lemma decode_encode [simp]: "decodeURIComponent (encodeURIComponent s) = Inr s"
  by (induction s) (auto simp: encodeURIComponent_def decode_percent decode_unreserved simp del: decodeURIComponent.simps(2))

section \<open>Requests\<close>

text \<open>\<^verbatim>\<open>document.cookie.split("; ")\<close>\<close>

function split_cookies :: "string \<Rightarrow> string list" where
  "split_cookies s = (case s of [] \<Rightarrow> [[]]
     | c # t \<Rightarrow> if c = CHR '';'' \<and> take 1 t = '' '' then [] # split_cookies (drop 1 t)
         else (case split_cookies t of y # ys \<Rightarrow> (c # y) # ys | [] \<Rightarrow> [[c]]))"
  by auto
termination by (relation "measure length") auto

declare split_cookies.simps [simp del]

definition access_token :: "string \<Rightarrow> string option" where
  "access_token cookie = map_option (\<lambda>c. join ''='' (drop 1 (split_on CHR ''='' c)))
     (find (\<lambda>c. take 22 c = ''insforge_access_token='') (split_cookies cookie))"

record web_request =
  wq_method :: string
  wq_path :: string
  wq_headers :: http_headers
  wq_body :: "json option"

text \<open>Empty strings are falsy: neither an empty token nor an empty proof is sent. A body is always an object.\<close>

definition api_request :: "string \<Rightarrow> string option \<Rightarrow> string \<Rightarrow> json option \<Rightarrow> web_request outcome" where
  "api_request cookie prf path body =
     andThen (case access_token cookie of Some (c # t) \<Rightarrow> andThen (decodeURIComponent (c # t)) (\<lambda>d. Inr (Some (''Bearer '' @ d)))
       | _ \<Rightarrow> Inr None) (\<lambda>auth.
     Inr \<lparr>wq_method = (if body = None then ''GET'' else ''POST''), wq_path = path,
       wq_headers = \<lparr>hd_authorization = auth, hd_walletProof = (case prf of Some (c # t) \<Rightarrow> Some (c # t) | _ \<Rightarrow> None)\<rparr>, wq_body = body\<rparr>)"

text \<open>\<^verbatim>\<open>result.error ?? "Request failed"\<close> when the response is not \<^verbatim>\<open>ok\<close>.\<close>

definition api_result :: "bool \<times> json \<Rightarrow> json outcome" where
  "api_result r = (case r of (ok, j) \<Rightarrow> if ok then Inr j else
     Inl (case json_get ''error'' (Some j) of None \<Rightarrow> ''Request failed'' | Some JNull \<Rightarrow> ''Request failed'' | Some e \<Rightarrow> template_text (Some e)))"

text \<open>\<^verbatim>\<open>api\<close>: the response is what \<^verbatim>\<open>fetch\<close> and \<^verbatim>\<open>response.json()\<close> give, or their failure.\<close>

definition api :: "(web_request \<Rightarrow> (bool \<times> json) outcome) \<Rightarrow> string \<Rightarrow> string option \<Rightarrow> string \<Rightarrow> json option \<Rightarrow> json outcome" where
  "api fetch cookie prf path body = andThen (api_request cookie prf path body) (\<lambda>q. andThen (fetch q) api_result)"

text \<open>What a client sees of a handler's answer: its value, or the message of the error reply.\<close>

definition seen :: "'a reply \<Rightarrow> 'a outcome" where
  "seen r = (case r of Inl e \<Rightarrow> Inl (snd (error_response e)) | Inr x \<Rightarrow> Inr x)"

lemma seen_simps [simp]: "seen (Inr x) = Inr x" "seen (Inl e) = Inl (snd (error_response e))"
  by (simp_all add: seen_def)

section \<open>The market page\<close>

record page =
  wp_offers :: "listing list"
  wp_stats :: "json option"
  wp_readiness :: "json option"
  wp_loading :: bool
  wp_error :: string
  wp_modal :: bool
  wp_user :: "string option"
  wp_wallet :: string
  wp_notice :: string
  wp_nextOfferCursor :: "string option"
  wp_storage :: "string option"

text \<open>
  \<^verbatim>\<open>Promise.all\<close>: all values, or the error of the promise that rejects first; \<open>arrival\<close> is the order in
  which the promises settle.
\<close>

definition rejection :: "'a outcome \<Rightarrow> string option" where
  "rejection x = (case x of Inl e \<Rightarrow> Some e | Inr _ \<Rightarrow> None)"

definition all_three :: "nat list \<Rightarrow> 'a outcome \<Rightarrow> 'b outcome \<Rightarrow> 'c outcome \<Rightarrow> ('a \<times> 'b \<times> 'c) outcome" where
  "all_three arrival a b c = (case List.map_filter (\<lambda>i. [rejection a, rejection b, rejection c] ! i) arrival of
     e # _ \<Rightarrow> Inl e
   | [] \<Rightarrow> andThen a (\<lambda>x. andThen b (\<lambda>y. andThen c (\<lambda>z. Inr (x, y, z)))))"

record market_api =
  ma_offers :: "string \<Rightarrow> offer_page outcome"
  ma_stats :: "json outcome"
  ma_readiness :: "json outcome"
  ma_arrival :: "nat list"

definition refresh :: "market_api \<Rightarrow> page \<Rightarrow> page" where
  "refresh ma p = (case all_three (ma_arrival ma) (ma_offers ma ''/v1/offers'') (ma_stats ma) (ma_readiness ma) of
     Inl e \<Rightarrow> p\<lparr>wp_error := e, wp_loading := False\<rparr>
   | Inr (o', s, r) \<Rightarrow> p\<lparr>wp_error := [], wp_offers := pg_offers o', wp_nextOfferCursor := pg_nextCursor o', wp_stats := Some s,
       wp_readiness := Some r, wp_loading := False\<rparr>)"

text \<open>A \<^verbatim>\<open>Map\<close> keeps the position of a key that is set again.\<close>

definition merge_offers :: "listing list \<Rightarrow> listing list \<Rightarrow> listing list" where
  "merge_offers current page = map snd (fold (\<lambda>o'. AList.update (s_id o') o') (current @ page) [])"

definition loadMoreOffers :: "market_api \<Rightarrow> page \<Rightarrow> page" where
  "loadMoreOffers ma p = (case wp_nextOfferCursor p of
     Some (c # cs) \<Rightarrow> (case ma_offers ma (''/v1/offers?limit=50&cursor='' @ encodeURIComponent (c # cs)) of
         Inl e \<Rightarrow> p\<lparr>wp_error := e, wp_loading := False\<rparr>
       | Inr o' \<Rightarrow> p\<lparr>wp_error := [], wp_offers := merge_offers (wp_offers p) (pg_offers o'), wp_nextOfferCursor := pg_nextCursor o',
           wp_loading := False\<rparr>)
   | _ \<Rightarrow> p)"

text \<open>
  The offers route of the API behind the two paths the page uses: the query string holds the page
  size and the escaped cursor.
\<close>

definition served_offers :: "crypto \<Rightarrow> market_db \<Rightarrow> bool \<Rightarrow> int \<Rightarrow> string \<Rightarrow> offer_page outcome" where
  "served_offers cr d ro now path =
     (if path = ''/v1/offers'' then seen (offerPage cr d ro now None None)
      else if take 27 path = ''/v1/offers?limit=50&cursor=''
      then andThen (decodeURIComponent (drop 27 path)) (\<lambda>c. seen (offerPage cr d ro now (Some 50) (Some c)))
      else Inl ''Not Found'')"

lemma update_absent: "k \<notin> fst ` set al \<Longrightarrow> AList.update k v al = al @ [(k, v)]"
  by (induction al) auto

lemma merge_distinct:
  assumes "distinct (map s_id (xs @ ys))"
  shows "merge_offers xs ys = xs @ ys"
proof -
  have "fold (\<lambda>o'. AList.update (s_id o') o') zs acc = acc @ map (\<lambda>o'. (s_id o', o')) zs"
    if "distinct (map s_id zs)" "set (map s_id zs) \<inter> fst ` set acc = {}" for zs :: "listing list" and acc
    using that
  proof (induction zs arbitrary: acc)
    case (Cons z zs)
    have "AList.update (s_id z) z acc = acc @ [(s_id z, z)]"
      using Cons.prems(2) by (intro update_absent) auto
    then show ?case using Cons by auto
  qed simp
  from this [of "xs @ ys" "[]"] show ?thesis using assms unfolding merge_offers_def by (simp add: comp_def del: fold_append)
qed

text \<open>After \<open>k\<close> further pages of fifty the page lists the first \<open>50 * (k + 1)\<close> offers of the sale.\<close>

definition browsed :: "market_db \<Rightarrow> nat \<Rightarrow> page \<Rightarrow> bool" where
  "browsed d n p \<longleftrightarrow> map s_id (wp_offers p) = map or_id (take n (on_sale d)) \<and> wp_error p = [] \<and> \<not> wp_loading p
     \<and> wp_nextOfferCursor p = (if n < length (on_sale d) then Some (or_id (on_sale d ! (n - 1))) else None)"

lemma on_sale_distinct:
  assumes "market_ok cr d"
  shows "distinct (map or_id (on_sale d))"
  using on_sale_strict [OF assms] by (simp add: distinct_conv_nth sorted_wrt_iff_nth_less) (metis less_irrefl nat_neq_iff)

lemma served_next:
  assumes "market_ok cr d" "0 < n" "n < length (on_sale d)"
  obtains o' where "served_offers cr d ro now (''/v1/offers?limit=50&cursor='' @ encodeURIComponent (or_id (on_sale d ! (n - 1)))) = Inr o'"
    "map s_id (pg_offers o') = map or_id (take 50 (drop n (on_sale d)))"
    "pg_nextCursor o' = (if n + 50 < length (on_sale d) then Some (or_id (on_sale d ! (n + 50 - 1))) else None)"
proof -
  have l: "page_limit (Some 50) = Inr 50" by (simp add: page_limit_def)
  have ne: "take n (on_sale d) \<noteq> []" using assms(2,3) by auto
  then have P: "on_sale d = take n (on_sale d) @ drop n (on_sale d)" "take n (on_sale d) \<noteq> []" "last (take n (on_sale d)) = on_sale d ! (n - 1)"
    using assms(2,3) last_conv_nth [OF ne] by (simp_all add: min_absorb2)
  obtain q where "offerPage cr d ro now (Some 50) (if take n (on_sale d) = [] then None else Some (or_id (last (take n (on_sale d))))) = Inr q"
    "map s_id (pg_offers q) = map or_id (take 50 (drop n (on_sale d)))"
    "pg_nextCursor q = (if 50 < length (drop n (on_sale d)) then Some (or_id (drop n (on_sale d) ! (50 - 1))) else None)"
    by (rule offerPage_ids [OF assms(1) P(1) l])
  moreover from this(3) have "pg_nextCursor q = (if n + 50 < length (on_sale d) then Some (or_id (on_sale d ! (n + 50 - 1))) else None)"
    using assms(3) by (cases "50 < length (on_sale d) - n") (simp_all add: less_diff_conv2 add.commute)
  ultimately show thesis using that [of q] P(2,3) by (simp add: served_offers_def)
qed

lemma load_more_browsed:
  assumes ok: "market_ok cr d" and ma: "ma_offers ma = served_offers cr d ro now" and n: "0 < n" and b: "browsed d n p"
  shows "browsed d (n + 50) (loadMoreOffers ma p)"
proof (cases "n < length (on_sale d)")
  case False
  then show ?thesis using b by (simp add: browsed_def loadMoreOffers_def)
next
  case True
  obtain o' where o': "served_offers cr d ro now (''/v1/offers?limit=50&cursor='' @ encodeURIComponent (or_id (on_sale d ! (n - 1)))) = Inr o'"
    "map s_id (pg_offers o') = map or_id (take 50 (drop n (on_sale d)))"
    "pg_nextCursor o' = (if n + 50 < length (on_sale d) then Some (or_id (on_sale d ! (n + 50 - 1))) else None)"
    by (rule served_next [OF ok n True])
  have "on_sale d ! (n - 1) \<in> set (on_sale d)" using True by simp
  then have "or_id (on_sale d ! (n - 1)) \<noteq> []" using ok by (auto simp: on_sale_def market_ok_def)
  then obtain c cs where c: "or_id (on_sale d ! (n - 1)) = c # cs" by (cases "or_id (on_sale d ! (n - 1))") auto
  have ids: "map s_id (wp_offers p @ pg_offers o') = map or_id (take (n + 50) (on_sale d))"
    using b o'(2) by (simp add: browsed_def take_add)
  have "distinct (map s_id (wp_offers p @ pg_offers o'))"
    unfolding ids take_map [symmetric] using on_sale_distinct [OF ok] by (rule distinct_take)
  then have "merge_offers (wp_offers p) (pg_offers o') = wp_offers p @ pg_offers o'" by (rule merge_distinct)
  then show ?thesis using ids o' True b by (simp add: browsed_def loadMoreOffers_def c ma del: One_nat_def)
qed

text \<open>
  C20. Browsing is complete. On a page that was refreshed and on which "Load more offers" was pressed
  until the cursor is gone, which takes one press per fifty further offers, every active offer of the
  market is listed exactly once, in the order of the identifiers, and no error is shown.
\<close>

theorem browsing_complete:
  assumes "market_ok cr d" "ma_offers ma = served_offers cr d ro now" "ma_stats ma = Inr s" "ma_readiness ma = Inr r"
    and "length (on_sale d) \<le> 50 * (n + 1)" "set (ma_arrival ma) \<subseteq> {0, 1, 2}"
  shows "browsed d (50 * (n + 1)) ((loadMoreOffers ma ^^ n) (refresh ma p))
    \<and> map s_id (wp_offers ((loadMoreOffers ma ^^ n) (refresh ma p))) = map or_id (on_sale d)
    \<and> distinct (map s_id (wp_offers ((loadMoreOffers ma ^^ n) (refresh ma p))))"
proof -
  have l: "page_limit None = Inr 50" by (simp add: page_limit_def)
  obtain q where q: "offerPage cr d ro now None None = Inr q" "map s_id (pg_offers q) = map or_id (take 50 (on_sale d))"
    "pg_nextCursor q = (if 50 < length (on_sale d) then Some (or_id (on_sale d ! (50 - 1))) else None)"
    using offerPage_ids [OF assms(1) _ l, of "[]" "on_sale d"] by auto
  have "List.map_filter (\<lambda>i. [None, None, None] ! i) is = ([] :: string list)" if "set is \<subseteq> {0, 1, 2}" for "is" :: "nat list"
    using that by (induction "is") (auto simp: List.map_filter_simps)
  then have "browsed d 50 (refresh ma p)"
    using q assms(2,3,4,6) by (simp add: refresh_def all_three_def rejection_def browsed_def served_offers_def)
  then have b: "browsed d (50 * (k + 1)) ((loadMoreOffers ma ^^ k) (refresh ma p))" for k
  proof (induction k)
    case (Suc k)
    then show ?case using load_more_browsed [OF assms(1,2), of "50 * (k + 1)"] by (simp add: algebra_simps)
  qed simp
  then show ?thesis using b [of n] assms(5) on_sale_distinct [OF assms(1)] by (simp add: browsed_def)
qed

definition sample_market_api :: market_api where
  "sample_market_api = \<lparr>ma_offers = served_offers sample_crypto sample_market False 100, ma_stats = Inr JNull, ma_readiness = Inr JNull,
     ma_arrival = [2, 0, 1]\<rparr>"

abbreviation sample_page :: page where
  "sample_page \<equiv> \<lparr>wp_offers = [], wp_stats = None, wp_readiness = None, wp_loading = True, wp_error = [], wp_modal = False, wp_user = None,
     wp_wallet = [], wp_notice = [], wp_nextOfferCursor = None, wp_storage = None\<rparr>"

theorem browsing_complete_witness:
  "map s_id (wp_offers (refresh sample_market_api sample_page)) = [''A'', ''B'', ''C'']"
proof -
  have ok: "market_ok sample_crypto sample_market" by (simp add: market_ok_def sample_market_def publicKey_ok_def)
  have "map or_id (on_sale sample_market) = [''A'', ''B'', ''C'']" by (simp add: on_sale_def sample_market_def)
  moreover have "length (on_sale sample_market) \<le> 50 * (0 + 1)" by (simp add: on_sale_def sample_market_def)
  ultimately show ?thesis
    using browsing_complete [OF ok, of sample_market_api False 100 JNull JNull 0 sample_page] by (simp add: sample_market_api_def)
qed

section \<open>What the page shows\<close>

record market_view =
  mv_query :: string
  mv_gpu :: string
  mv_vram :: string
  mv_available :: bool
  mv_sort :: string

definition offer_shown :: "market_view \<Rightarrow> int \<Rightarrow> listing \<Rightarrow> bool" where
  "offer_shown v nowMs o' \<longleftrightarrow> (mv_gpu v = ''All GPUs'' \<or> s_gpuModel o' = mv_gpu v)
     \<and> (mv_vram v = ''Any VRAM'' \<or> (case js_number (mv_vram v) of Some g \<Rightarrow> g * 1024 \<le> of_int (s_vramMb o') | None \<Rightarrow> False))
     \<and> (\<not> mv_available v \<or> s_available o' \<and> nowMs - s_heartbeatAt o' * 1000 < 90000)
     \<and> Listings.contains (toLowerCase (s_gpuModel o' @ '' '' @ s_region o' @ '' '' @ s_provider o')) (toLowerCase (mv_query v))"

text \<open>The rates are decimal strings; below \<open>2 ^ 53\<close> their \<^verbatim>\<open>Number\<close> is exact.\<close>

definition offer_cmp :: "string \<Rightarrow> listing \<Rightarrow> listing \<Rightarrow> rat" where
  "offer_cmp order a b = (if order = ''Highest reputation'' then s_reputation b - s_reputation a
     else of_int (units_of (s_rateBaseUnitsPerSecond a)) - of_int (units_of (s_rateBaseUnitsPerSecond b)))"

definition filtered :: "market_view \<Rightarrow> int \<Rightarrow> listing list \<Rightarrow> listing list" where
  "filtered v nowMs offers = js_sort (offer_cmp (mv_sort v)) (filter (offer_shown v nowMs) offers)"

definition models :: "listing list \<Rightarrow> string list" where
  "models offers = first_occurrences (map s_gpuModel offers)"

interpretation shown: js_comparator "offer_cmp order" for order
  by unfold_locales (auto simp: offer_cmp_def split: if_splits)

text \<open>What a row of the list says of an offer; amounts are in dollars.\<close>

record offer_cells =
  oc_online :: bool
  oc_vramGb :: int
  oc_standing :: string
  oc_trust :: string
  oc_hourly :: rat
  oc_link :: "string option"

definition offer_row_cells :: "int \<Rightarrow> bool \<Rightarrow> listing \<Rightarrow> offer_cells" where
  "offer_row_cells nowMs preview o' = \<lparr>oc_online = (s_available o' \<and> nowMs - s_heartbeatAt o' * 1000 < 90000),
     oc_vramGb = \<lfloor>of_int (s_vramMb o') / 1024 + (1 / 2 :: rat)\<rfloor>,
     oc_standing = (if s_reputation o' \<noteq> 0 then bigint_toString \<lfloor>s_reputation o'\<rfloor> @ ''% job success'' else ''New provider''),
     oc_trust = (if li_trustLevel o' = ''BENCHMARKED'' then ''Standard benchmark passed'' else ''Provider-claimed hardware''),
     oc_hourly = of_int (units_of (s_rateBaseUnitsPerSecond o')) * 3600 / 1000000,
     oc_link = (if preview then None else Some (''/jobs/new?offer='' @ s_id o'))\<rparr>"

text \<open>The list shows the matching offers, none twice, and its first entry is a cheapest one.\<close>

lemma filtered_mset: "mset (filtered v nowMs offers) = mset (filter (offer_shown v nowMs) offers)"
  by (simp add: filtered_def)

lemma filtered_cheapest_first:
  assumes "mv_sort v = ''Lowest price''" "x \<in> set offers" "offer_shown v nowMs x"
  shows "units_of (s_rateBaseUnitsPerSecond (hd (filtered v nowMs offers))) \<le> units_of (s_rateBaseUnitsPerSecond x)"
  using shown.js_sort_hd_least [of x "filter (offer_shown v nowMs) offers" "mv_sort v"] assms
  by (simp add: filtered_def offer_cmp_def)

section \<open>Signing in\<close>

datatype auth_mode = Signin | Signup | Verify

text \<open>The authentication service answers with an error message or with data, or the call fails.\<close>

record auth_service =
  au_signInWithPassword :: "string \<Rightarrow> string \<Rightarrow> (string + json option) outcome"
  au_verifyEmail :: "string \<Rightarrow> string \<Rightarrow> (string + json option) outcome"
  au_signUp :: "string \<Rightarrow> string \<Rightarrow> (string + json option) outcome"
  au_currentUser :: "string option outcome"

text \<open>The server action: \<open>Inl\<close> is \<^verbatim>\<open>{ error }\<close>, \<open>Inr\<close> is \<^verbatim>\<open>{ ok, verification }\<close>.\<close>

definition authenticate :: "auth_service \<Rightarrow> auth_mode \<Rightarrow> string \<Rightarrow> string \<Rightarrow> (string + bool) outcome" where
  "authenticate au mode email password =
     andThen (case mode of Signin \<Rightarrow> au_signInWithPassword au email password
       | Verify \<Rightarrow> au_verifyEmail au email password
       | Signup \<Rightarrow> au_signUp au email password) (\<lambda>r. Inr (case r of
       Inl e \<Rightarrow> Inl e
     | Inr d \<Rightarrow> Inr (mode = Signup \<and> truthy (json_get ''requireEmailVerification'' d))))"

record auth_dialog =
  dl_mode :: auth_mode
  dl_email :: string
  dl_password :: string
  dl_error :: string
  dl_busy :: bool

text \<open>The dialog after \<^verbatim>\<open>submit\<close>, and whether it called \<^verbatim>\<open>done\<close>. An empty error message is falsy.\<close>

definition submit :: "auth_service \<Rightarrow> auth_dialog \<Rightarrow> auth_dialog \<times> bool" where
  "submit au d = (case authenticate au (dl_mode d) (dl_email d) (dl_password d) of
     Inl e \<Rightarrow> (d\<lparr>dl_error := e, dl_busy := False\<rparr>, False)
   | Inr (Inl (c # e)) \<Rightarrow> (d\<lparr>dl_error := c # e, dl_busy := False\<rparr>, False)
   | Inr (Inl []) \<Rightarrow> (d\<lparr>dl_error := [], dl_busy := False\<rparr>, True)
   | Inr (Inr True) \<Rightarrow> (d\<lparr>dl_error := [], dl_mode := Verify, dl_password := [], dl_busy := False\<rparr>, False)
   | Inr (Inr False) \<Rightarrow> (d\<lparr>dl_error := [], dl_busy := False\<rparr>, True))"

definition switch_mode :: "auth_dialog \<Rightarrow> auth_dialog" where
  "switch_mode d = d\<lparr>dl_mode := (if dl_mode d = Signin then Signup else Signin), dl_error := []\<rparr>"

text \<open>\<^verbatim>\<open>done\<close>: a failing request leaves the dialog closed and nothing else changed.\<close>

definition signed_in :: "auth_service \<Rightarrow> page \<Rightarrow> page" where
  "signed_in au p = (case au_currentUser au of Inl e \<Rightarrow> p\<lparr>wp_modal := False\<rparr>
   | Inr u \<Rightarrow> p\<lparr>wp_modal := False, wp_user := u, wp_notice := ''Signed in. Connect your wallet to view on-chain jobs.''\<rparr>)"

text \<open>The effect that runs when the page is opened.\<close>

definition opened :: "market_api \<Rightarrow> auth_service \<Rightarrow> string \<Rightarrow> page \<Rightarrow> page" where
  "opened ma au cookie p = (let p1 = refresh ma p in
     if Listings.contains cookie ''insforge_access_token='' then (case au_currentUser au of Inl e \<Rightarrow> p1 | Inr u \<Rightarrow> p1\<lparr>wp_user := u\<rparr>) else p1)"

lemma submit_done:
  assumes "submit au d = (d', True)"
  shows "dl_mode d' = dl_mode d" "dl_error d' = []" "\<not> dl_busy d'"
  using assms by (auto simp: submit_def split: sum.splits list.splits bool.splits)

section \<open>The wallet session\<close>

text \<open>\<^verbatim>\<open>JSON.stringify\<close>, for values whose numbers are whole.\<close>

definition escaped :: "char \<Rightarrow> string" where
  "escaped c = (if c = CHR 0x22 then [CHR 0x5C, CHR 0x22] else if c = CHR 0x5C then [CHR 0x5C, CHR 0x5C]
     else if ascii c = 8 then [CHR 0x5C, CHR ''b''] else if ascii c = 9 then [CHR 0x5C, CHR ''t'']
     else if ascii c = 10 then [CHR 0x5C, CHR ''n''] else if ascii c = 12 then [CHR 0x5C, CHR ''f'']
     else if ascii c = 13 then [CHR 0x5C, CHR ''r'']
     else if ascii c < 32 then CHR 0x5C # ''u00'' @ [nibble (ascii c div 16), nibble (ascii c mod 16)] else [c])"

definition quoted :: "string \<Rightarrow> string" where
  "quoted s = [CHR 0x22] @ concat (map escaped s) @ [CHR 0x22]"

fun stringify :: "json \<Rightarrow> string" where
  "stringify JNull = ''null''"
| "stringify (JBool b) = (if b then ''true'' else ''false'')"
| "stringify (JNum q) = bigint_toString \<lfloor>q\<rfloor>"
| "stringify (JStr s) = quoted s"
| "stringify (JArr xs) = ''['' @ join '','' (map stringify xs) @ '']''"
| "stringify (JObj kvs) = ''{'' @ join '','' (map (\<lambda>(k, v). quoted k @ '':'' @ stringify v) kvs) @ ''}''"

text \<open>The message is the payload printed with its keys in sorted order.\<close>

definition session_message :: "string \<Rightarrow> string \<Rightarrow> int \<Rightarrow> string" where
  "session_message user w e = stringify (JObj [(''domain'', JStr ''vericompute:wallet-session:v1''), (''expiresAt'', jint e),
     (''userId'', JStr user), (''wallet'', JStr w)])"

definition session_proof :: "string \<Rightarrow> string \<Rightarrow> int \<Rightarrow> buffer \<Rightarrow> json" where
  "session_proof user w e sig = JObj [(''payload'', session_payload user w e), (''signature'', JStr (toBase64 sig))]"

text \<open>The browser's wallet extension: connecting gives an address, a message is signed or refused.\<close>

record browser_wallet =
  bw_connect :: "string outcome"
  bw_signMessage :: "buffer \<Rightarrow> buffer outcome"

definition connect :: "browser_wallet option \<Rightarrow> int \<Rightarrow> page \<Rightarrow> page" where
  "connect wx nowMs p = (case wp_user p of None \<Rightarrow> p\<lparr>wp_modal := True\<rparr>
   | Some user \<Rightarrow>
       (case (case wx of None \<Rightarrow> Inl ''Install a Solana wallet with message signing to connect.''
          | Some x \<Rightarrow> andThen (bw_connect x) (\<lambda>w.
              andThen (bw_signMessage x (utf8 (session_message user w (nowMs div 1000 + 600)))) (\<lambda>sig. Inr (w, sig)))) of
          Inl e \<Rightarrow> p\<lparr>wp_notice := e\<rparr>
        | Inr (w, sig) \<Rightarrow> p\<lparr>wp_storage := Some (toBase64 (utf8 (stringify (session_proof user w (nowMs div 1000 + 600) sig)))),
            wp_wallet := w, wp_notice := ''Wallet ownership confirmed for 10 minutes.''\<rparr>))"

text \<open>
  The effect that runs on every change of the user and every fifteen seconds. Whatever cannot be read
  clears the wallet.
\<close>

definition restore :: "(buffer \<Rightarrow> json option) \<Rightarrow> int \<Rightarrow> page \<Rightarrow> page" where
  "restore parse nowMs p = p\<lparr>wp_wallet :=
     (case parse (fromBase64 (case wp_storage p of Some h \<Rightarrow> h | None \<Rightarrow> [])) of None \<Rightarrow> []
      | Some pf \<Rightarrow> (let pay = json_get ''payload'' (Some pf) in
          case (json_get ''expiresAt'' pay, json_get ''wallet'' pay) of
            (Some (JNum e), Some (JStr w)) \<Rightarrow>
              if json_get ''userId'' pay = map_option JStr (wp_user p) \<and> of_int nowMs < e * 1000 then w else []
          | _ \<Rightarrow> []))\<rparr>"

text \<open>Signing out.\<close>

definition sign_out :: "page \<Rightarrow> page" where
  "sign_out p = p\<lparr>wp_user := None, wp_wallet := [], wp_storage := None\<rparr>"

text \<open>
  What the session relies on outside the repository: RFC 8785 prints the payload the way the page does,
  and the JSON parser reads back what was printed.
\<close>

definition canonical_law :: "crypto \<Rightarrow> bool" where
  "canonical_law cr \<longleftrightarrow> (\<forall>user w e. canonicalize cr (session_payload user w e) = Some (session_message user w e))"

definition parse_law :: "(buffer \<Rightarrow> json option) \<Rightarrow> json \<Rightarrow> bool" where
  "parse_law parse j \<longleftrightarrow> parse (utf8 (stringify j)) = Some j"

lemma restore_connected:
  assumes "parse_law parse (session_proof u w e sig)" "wp_storage p = Some (toBase64 (utf8 (stringify (session_proof u w e sig))))"
  shows "wp_wallet (restore parse t p) = (if wp_user p = Some u \<and> t < e * 1000 then w else [])"
proof -
  have "(of_int t :: rat) < of_int e * 1000 \<longleftrightarrow> t < e * 1000" by (metis of_int_less_iff of_int_mult of_int_numeral)
  moreover have "parse (utf8 (stringify (session_proof u w e sig))) = Some (session_proof u w e sig)" using assms(1) by (simp add: parse_law_def)
  ultimately show ?thesis using assms(2)
    by (cases "wp_user p") (auto simp: restore_def Let_def session_proof_def [of u w e sig] session_payload_def json_get_def simp del: stringify.simps)
qed

text \<open>
  C21. The wallet the page shows is the wallet the API accepts. After a wallet was connected at time
  \<open>t0\<close> by user \<open>u\<close>, and whoever is signed in later, every later run of \<open>restore\<close> shows the wallet exactly
  while \<open>u\<close> is signed in and the ten minutes are not over; and for as long as it is shown, every request
  the page sends with the stored proof acts for that wallet at the API, the clocks being the same.
\<close>

theorem shown_wallet_accepted:
  assumes wallet: "bw_connect x = Inr w" "w \<noteq> []" "b58_decode cr w = Some (pub key)" "\<And>m. bw_signMessage x m = Inr (ed_sign cr key m)"
    and laws: "signature_law cr pub" "canonical_law cr"
      "parse_law parse (session_proof u w (t0 div 1000 + 600) (ed_sign cr key (utf8 (session_message u w (t0 div 1000 + 600)))))"
    and conn: "wp_user p = Some u" "wp_storage p' = wp_storage (connect (Some x) t0 p)" "t0 \<le> t"
    and env: "av_crypto env = cr" "av_parse env = parse" "av_nowMs env = t"
    and req: "api_request cookie (wp_storage p') path body = Inr q" "\<And>v. wp_user p' = Some v \<Longrightarrow> identity env (wq_headers q) = Inr v"
  shows "wp_wallet (restore parse t p') = (if wp_user p' = Some u \<and> t < (t0 div 1000 + 600) * 1000 then w else [])
    \<and> (wp_wallet (restore parse t p') \<noteq> [] \<longrightarrow> Api.wallet env (wq_headers q) = Inr w)"
proof -
  let ?e = "t0 div 1000 + 600" and ?sig = "ed_sign cr key (utf8 (session_message u w (t0 div 1000 + 600)))"
  have st: "wp_storage p' = Some (toBase64 (utf8 (stringify (session_proof u w ?e ?sig))))"
    using wallet conn(1,2) by (simp add: connect_def)
  note r = restore_connected [OF laws(3) st, of t]
  have "Api.wallet env (wq_headers q) = Inr w" if v: "wp_user p' = Some u" and t: "t < ?e * 1000"
  proof (rule wallet_accepts [of _ _ u])
    show "identity env (wq_headers q) = Inr u" using req(2) v .
    show "signature_law (av_crypto env) pub" "b58_decode (av_crypto env) w = Some (pub key)" using laws(1) wallet(3) env(1) by simp_all
    show "signPayload (av_crypto env) (session_payload u w ?e) key = Inr (toBase64 ?sig)"
      using laws(2) env(1) by (simp add: signPayload_def canonical_def canonical_law_def)
    obtain c cs where c: "toBase64 (utf8 (stringify (session_proof u w ?e ?sig))) = c # cs"
      by (cases "utf8 (stringify (session_proof u w ?e ?sig))" rule: toBase64.cases)
        (auto simp: session_proof_def utf8_def Let_def)
    then have "hd_walletProof (wq_headers q) = wp_storage p'" using req(1) st by (auto simp: api_request_def outcome_simps)
    then show "av_parse env (fromBase64 (case hd_walletProof (wq_headers q) of Some h \<Rightarrow> h | None \<Rightarrow> []))
        = Some (JObj [(''payload'', session_payload u w ?e), (''signature'', JStr (toBase64 ?sig))])"
      using st laws(3) env(2) by (simp add: parse_law_def) (simp add: session_proof_def)
    show "av_nowMs env \<le> ?e * 1000" using t env(3) by simp
    show "?e * 1000 \<le> av_nowMs env + 900000" using conn(3) env(3) by (simp add: algebra_simps)
  qed
  then show ?thesis using r by simp
qed

definition web_crypto :: crypto where
  "web_crypto = sample_crypto\<lparr>canonicalize := (\<lambda>j. Some (stringify (case j of JObj kvs \<Rightarrow> JObj (sort_key fst kvs) | _ \<Rightarrow> j)))\<rparr>"

definition web_proof :: json where
  "web_proof = session_proof ''u1'' ''W'' 640 (ed_sign web_crypto (utf8 ''W'') (utf8 (session_message ''u1'' ''W'' 640)))"

definition web_wallet :: browser_wallet where
  "web_wallet = \<lparr>bw_connect = Inr ''W'', bw_signMessage = (\<lambda>m. Inr (ed_sign web_crypto (utf8 ''W'') m))\<rparr>"

definition web_session :: api_env where
  "web_session = \<lparr>av_crypto = web_crypto, av_session = (\<lambda>t. if t = ''token'' then Some ''u1'' else None),
     av_parse = (\<lambda>_. Some web_proof), av_nowMs = 100000\<rparr>"

definition web_cookie :: string where
  "web_cookie = ''theme=dark; insforge_access_token=token''"

lemma web_laws: "signature_law web_crypto checksum" "canonical_law web_crypto"
  using sample_signature_law
  by (simp_all add: web_crypto_def signature_law_def canonical_law_def session_payload_def session_message_def del: stringify.simps)

lemma web_identity: "api_request web_cookie prf path body = Inr q \<Longrightarrow> identity web_session (wq_headers q) = Inr ''u1''"
proof -
  have "access_token web_cookie = Some ''token''"
    unfolding access_token_def web_cookie_def by code_simp
  then show "api_request web_cookie prf path body = Inr q \<Longrightarrow> identity web_session (wq_headers q) = Inr ''u1''"
    by (auto simp: api_request_def outcome_simps identity_def strip_bearer_def web_session_def)
qed

theorem shown_wallet_accepted_witness:
  "\<exists>q. api_request web_cookie (wp_storage (connect (Some web_wallet) 40000 (sample_page\<lparr>wp_user := Some ''u1''\<rparr>))) ''/v1/jobs'' None = Inr q
     \<and> wp_wallet (restore (av_parse web_session) 100000 (connect (Some web_wallet) 40000 (sample_page\<lparr>wp_user := Some ''u1''\<rparr>))) = ''W''
     \<and> Api.wallet web_session (wq_headers q) = Inr ''W''"
proof -
  let ?p = "connect (Some web_wallet) 40000 (sample_page\<lparr>wp_user := Some ''u1''\<rparr>)"
  have "access_token web_cookie = Some ''token''" unfolding access_token_def web_cookie_def by code_simp
  then obtain q where q: "api_request web_cookie (wp_storage ?p) ''/v1/jobs'' None = Inr q" by (simp add: api_request_def)
  have parse: "parse_law (av_parse web_session) (session_proof ''u1'' ''W'' (40000 div 1000 + 600)
      (ed_sign web_crypto (utf8 ''W'') (utf8 (session_message ''u1'' ''W'' (40000 div 1000 + 600)))))"
    by (simp add: parse_law_def web_session_def web_proof_def)
  have u: "wp_user ?p = Some ''u1''" by (simp add: connect_def web_wallet_def)
  show ?thesis
    using shown_wallet_accepted [of web_wallet "''W''" web_crypto checksum "utf8 ''W''" "av_parse web_session" "''u1''" 40000
        "sample_page\<lparr>wp_user := Some ''u1''\<rparr>" ?p 100000 web_session, OF _ _ _ _ web_laws parse _ _ _ _ _ _ q] web_identity [OF q] q u
    by (simp add: web_wallet_def) (simp add: web_session_def web_crypto_def)
qed

end
