(* ===== verification/Numbers.thy ===== *)
theory Numbers
  imports Codec
begin

text \<open>
  \<^verbatim>\<open>Number(s)\<close> on decimals, as form fields and environment variables hold them: white space is trimmed,
  the empty string is zero, a sign, a fraction and an exponent are optional, and the prefixes of the other
  radices select them. The value is exact; \<open>None\<close> is \<^verbatim>\<open>NaN\<close>, or an infinity, which is not an integer either.
\<close>

definition mantissa :: "string \<Rightarrow> rat option" where
  "mantissa s = (case split_on CHR ''.'' s of
     [i] \<Rightarrow> map_option of_nat (parse_radix 10 i)
   | [i, f] \<Rightarrow> if i = [] \<and> f = [] then None
       else (case (if i = [] then Some 0 else parse_radix 10 i, if f = [] then Some 0 else parse_radix 10 f) of
       (Some a, Some b) \<Rightarrow> Some (of_nat a + of_nat b / 10 ^ length f) | _ \<Rightarrow> None)
   | _ \<Rightarrow> None)"

definition exponent :: "string \<Rightarrow> rat option" where
  "exponent s = (case s of
     c # t \<Rightarrow> if c = CHR ''-'' then map_option (\<lambda>n. 1 / 10 ^ n) (parse_radix 10 t)
       else if c = CHR ''+'' then map_option (\<lambda>n. 10 ^ n) (parse_radix 10 t) else map_option (\<lambda>n. 10 ^ n) (parse_radix 10 s)
   | [] \<Rightarrow> None)"

definition unsigned_number :: "string \<Rightarrow> rat option" where
  "unsigned_number s = (case split_on CHR ''e'' (toLowerCase s) of
     [m] \<Rightarrow> mantissa m
   | [m, e] \<Rightarrow> (case (mantissa m, exponent e) of (Some x, Some y) \<Rightarrow> Some (x * y) | _ \<Rightarrow> None)
   | _ \<Rightarrow> None)"

definition form_number :: "string \<Rightarrow> rat option" where
  "form_number s = (case trim s of [] \<Rightarrow> Some 0
   | c # t \<Rightarrow> if c = CHR ''-'' then map_option uminus (unsigned_number t) else unsigned_number (c # t))"

definition js_Number :: "string \<Rightarrow> rat option" where
  "js_Number s = (case trim s of
     c # x # t \<Rightarrow> if c = CHR ''0'' \<and> to_lower x = CHR ''x'' then map_option of_nat (parse_radix 16 t)
       else if c = CHR ''0'' \<and> to_lower x = CHR ''o'' then map_option of_nat (parse_radix 8 t)
       else if c = CHR ''0'' \<and> to_lower x = CHR ''b'' then map_option of_nat (parse_radix 2 t)
       else if c = CHR ''+'' then unsigned_number (x # t) else form_number (c # x # t)
   | t \<Rightarrow> form_number t)"

text \<open>\<^verbatim>\<open>Number.isInteger\<close>\<close>

definition whole :: "rat option \<Rightarrow> int option" where
  "whole q = Option.bind q (\<lambda>x. if of_int \<lfloor>x\<rfloor> = x then Some \<lfloor>x\<rfloor> else None)"

end
