(* ===== verification/WebJobs.thy ===== *)
theory WebJobs
  imports WebMarket Numbers
begin

text \<open>
  The web client, second part: the form that creates a job, signing in the browser, the page of one
  job with its actions (\<^verbatim>\<open>components/exchange.tsx\<close>) and the page of agent policies
  (\<^verbatim>\<open>components/agent-policies.tsx\<close>). A page's effects outside its own state, requests, transactions
  handed to the wallet, navigation and notices, are kept in order in a log. The wallet extension, the
  decoder of transactions and the connection to the cluster are third-party code and parameters.
\<close>

section \<open>Numbers in form fields\<close>

text \<open>
  A numeric input is empty or holds a decimal, which \<open>form_number\<close> reads. The amounts below are exact in
  double precision as well while the products stay below \<open>2 ^ 51\<close>. A \<^verbatim>\<open>NaN\<close> prints as \<^verbatim>\<open>null\<close>.
\<close>

definition num_json :: "rat option \<Rightarrow> json" where
  "num_json q = (case q of Some x \<Rightarrow> JNum x | None \<Rightarrow> JNull)"

text \<open>\<^verbatim>\<open>String(Math.round(Number(s) * 1e6))\<close>\<close>

definition base_units :: "string \<Rightarrow> string" where
  "base_units s = (case form_number s of Some q \<Rightarrow> bigint_toString \<lfloor>q * 1000000 + 1 / 2\<rfloor> | None \<Rightarrow> ''NaN'')"

lemma base_units_exact:
  assumes "form_number s = Some q" "q * 1000000 = of_int n"
  shows "base_units s = bigint_toString n"
proof -
  have "\<lfloor>(of_int n :: rat) + 1 / 2\<rfloor> = n" by linarith
  then show ?thesis using assms by (simp add: base_units_def)
qed

lemma units_decimal:
  assumes "0 < n" "n < 10 ^ Suc k"
  shows "units_ok k (bigint_toString n)" "units_of (bigint_toString n) = n"
proof -
  have len: "length (decimal m) \<le> Suc k" if "m < 10 ^ Suc k" for m k
    using that
  proof (induction k arbitrary: m)
    case (Suc k)
    have "m div 10 < 10 ^ Suc k" using Suc.prems by (simp add: div_less_iff_less_mult)
    then show ?case using Suc.IH [of "m div 10"] by (simp add: decimal.simps [of m])
  qed (simp add: decimal.simps)
  have hd: "hd (decimal m) \<noteq> CHR ''0''" if "0 < m" for m
    using that
  proof (induction m rule: decimal.induct)
    case (1 m)
    show ?case
    proof (cases "m < 10")
      case True
      have "char_of (48 + m) \<noteq> CHR ''0''"
      proof
        assume "char_of (48 + m) = CHR ''0''"
        then have "ascii (char_of (48 + m)) = ascii (CHR ''0'')" by (rule arg_cong)
        then show False using True 1 by simp
      qed
      then show ?thesis using True by (simp add: decimal.simps [of m])
    next
      case False
      then show ?thesis using 1 by (simp add: decimal.simps [of m])
    qed
  qed
  have "int (nat n) = n" "nat n < 10 ^ Suc k" "0 < nat n" using assms by (auto simp: nat_less_iff)
  then show "units_ok k (bigint_toString n)" using len [of "nat n" k] hd [of "nat n"] decimal_digits [of "nat n"] assms(1)
    by (simp add: units_ok_def bigint_toString_def)
  show "units_of (bigint_toString n) = n" by (simp add: units_of_def)
qed

section \<open>The job form\<close>

record job_form =
  jf_name :: string
  jf_repository :: string
  jf_digest :: string
  jf_command :: string
  jf_gpu :: string
  jf_vram :: string
  jf_duration :: string
  jf_budget :: string
  jf_policy :: string
  jf_replicas :: string
  jf_requiredMatches :: string
  jf_quotes :: "json option"
  jf_busy :: bool
  jf_error :: string

definition verificationPolicies :: "string list" where
  "verificationPolicies = [''BASIC'', ''STANDARD'', ''CHALLENGE'', ''REDUNDANT'']"

text \<open>The policies the form offers, and its answer to a change of the number of replicas.\<close>

definition offered_policies :: "int \<Rightarrow> string list" where
  "offered_policies maxVerificationPolicy = take (nat (min maxVerificationPolicy 3 + 1)) verificationPolicies"

definition choose_replicas :: "string \<Rightarrow> job_form \<Rightarrow> job_form" where
  "choose_replicas value f = f\<lparr>jf_replicas := value, jf_requiredMatches :=
     (case (form_number (jf_requiredMatches f), form_number value) of
        (Some k, Some n) \<Rightarrow> if n < k then value else jf_requiredMatches f | _ \<Rightarrow> jf_requiredMatches f)\<rparr>"

text \<open>
  The effect that fills the form in from a selected offer: only the first page of offers is searched.
  Division by 1024 and the product with it below are exact.
\<close>

definition prefill :: "offer_page outcome \<Rightarrow> string \<Rightarrow> job_form \<Rightarrow> job_form" where
  "prefill page offerId f = (case page of Inl e \<Rightarrow> f\<lparr>jf_error := e\<rparr>
   | Inr pg \<Rightarrow> (case find (\<lambda>o'. s_id o' = offerId) (pg_offers pg) of None \<Rightarrow> f
     | Some o' \<Rightarrow> f\<lparr>jf_gpu := (if s_gpuCount o' = 0 then ''CPU only'' else s_gpuModel o'),
         jf_vram := bigint_toString (s_vramMb o' div 1024) @ (if s_vramMb o' mod 1024 = 0 then []
           else CHR ''.'' # rev (dropWhile (\<lambda>c. c = CHR ''0'') (rev (drop 1 (decimal (nat (10 ^ 10 + s_vramMb o' mod 1024 * 9765625)))))))\<rparr>))"

text \<open>\<^verbatim>\<open>s.split(/\s+/)\<close>\<close>

function split_spaces :: "string \<Rightarrow> string list" where
  "split_spaces [] = [[]]"
| "split_spaces (c # s) = (if is_space c then [] # split_spaces (dropWhile is_space s)
     else (case split_spaces s of y # ys \<Rightarrow> (c # y) # ys | [] \<Rightarrow> [[c]]))"
  by pat_completeness auto
termination by (relation "measure length") (auto simp: le_imp_less_Suc length_dropWhile_le)

definition form_spec :: "job_form \<Rightarrow> json" where
  "form_spec f = (let cpu = (jf_gpu f = ''CPU only'') in JObj
     [(''version'', JStr ''1''), (''runtime'', JStr ''oci''),
      (''image'', JObj [(''repository'', JStr (jf_repository f)),
         (''digest'', JStr (if take 7 (jf_digest f) = ''sha256:'' then jf_digest f else ''sha256:'' @ jf_digest f))]),
      (''command'', JArr (map JStr (split_spaces (trim (jf_command f))))),
      (''resources'', JObj
        [(''gpu'', JObj [(''count'', jint (if cpu then 0 else 1)),
            (''minimumVramMb'', if cpu then jint 0 else num_json (map_option (\<lambda>q. q * 1024) (form_number (jf_vram f)))),
            (''allowedModels'', JArr (if jf_gpu f \<in> {''Any NVIDIA GPU'', ''CPU only''} then [] else [JStr (jf_gpu f)]))]),
         (''cpuCores'', jint (if cpu then 1 else 4)), (''ramMb'', jint (if cpu then 256 else 16384)), (''storageMb'', jint 1024)]),
      (''execution'', JObj [(''timeoutSeconds'', num_json (form_number (jf_duration f))), (''maxStartDelaySeconds'', jint 60)]),
      (''network'', JObj [(''mode'', JStr ''deny-by-default''), (''allow'', JArr [])]),
      (''verification'', JObj [(''policy'', JStr (jf_policy f))]),
      (''inputs'', JArr [])])"

text \<open>The specification a well-filled form stands for.\<close>

definition form_job :: "job_form \<Rightarrow> int \<Rightarrow> int \<Rightarrow> policy \<Rightarrow> job_spec" where
  "form_job f vram seconds p = (let cpu = (jf_gpu f = ''CPU only'') in
     \<lparr>version = ''1'', runtime = ''oci'', repository = jf_repository f,
      digest = (if take 7 (jf_digest f) = ''sha256:'' then jf_digest f else ''sha256:'' @ jf_digest f),
      command = split_spaces (trim (jf_command f)), gpu_count = (if cpu then 0 else 1),
      gpu_minimumVramMb = (if cpu then 0 else vram),
      gpu_allowedModels = (if jf_gpu f \<in> {''Any NVIDIA GPU'', ''CPU only''} then [] else [jf_gpu f]),
      cpuCores = (if cpu then 1 else 4), ramMb = (if cpu then 256 else 16384), storageMb = 1024,
      timeoutSeconds = seconds, maxStartDelaySeconds = 60, network_mode = ''deny-by-default'', policy_of = p,
      service = None, distributed = None, security = None, proof_of = None, inputs = []\<rparr>)"

definition form_filled :: "job_form \<Rightarrow> int \<Rightarrow> int \<Rightarrow> policy \<Rightarrow> bool" where
  "form_filled f vram seconds p \<longleftrightarrow> repository_ok (jf_repository f)
     \<and> (hash_ok (jf_digest f) \<or> digest_ok (jf_digest f))
     \<and> length (split_spaces (trim (jf_command f))) \<le> 64 \<and> list_all (\<lambda>c. length c \<le> 4096) (split_spaces (trim (jf_command f)))
     \<and> length (jf_gpu f) \<le> 80 \<and> map_option (\<lambda>q. q * 1024) (form_number (jf_vram f)) = Some (of_int vram) \<and> 0 \<le> vram \<and> vram \<le> 200000
     \<and> form_number (jf_duration f) = Some (of_int seconds) \<and> 1 \<le> seconds \<and> seconds \<le> 86400
     \<and> jf_policy f = policy_name p \<and> p \<in> {BASIC, STANDARD, CHALLENGE, REDUNDANT}"

lemma split_spaces_nonempty: "split_spaces s \<noteq> []"
  by (cases s) (auto split: list.split)

lemma form_spec_json:
  assumes "form_filled f v t p"
  shows "form_spec f = spec_json (form_job f v t p)"
  using assms by (auto simp: form_spec_def spec_json_def form_job_def form_filled_def Let_def num_json_def inputs_json_def opt_entry_def)

lemma hash_not_prefixed: "hash_ok s \<Longrightarrow> take 7 s \<noteq> ''sha256:''"
proof
  assume h: "hash_ok s" and t: "take 7 s = ''sha256:''"
  then have "CHR '':'' \<in> set (take 7 s)" by simp
  then have "CHR '':'' \<in> set s" by (rule in_set_takeD)
  then show False using h by (auto simp: hash_ok_def list_all_iff is_hex_lower_def is_digit_def)
qed

lemma form_job_valid:
  assumes "form_filled f v t p"
  shows "spec_valid (form_job f v t p)"
proof -
  have d: "digest_ok (if take 7 (jf_digest f) = ''sha256:'' then jf_digest f else ''sha256:'' @ jf_digest f)"
    using assms hash_not_prefixed by (auto simp: form_filled_def digest_ok_def)
  have "1 \<le> length (split_spaces (trim (jf_command f)))" by (simp add: Suc_le_eq split_spaces_nonempty)
  then have "fields_ok (form_job f v t p)"
    using assms d by (simp add: fields_ok_def form_job_def form_filled_def Let_def in_range_def)
  moreover have "superRefine (form_job f v t p) = []"
    using assms by (auto simp: superRefine_def form_job_def wants_tee_def Let_def form_filled_def)
  ultimately show ?thesis by (simp add: spec_valid_def)
qed

lemma form_spec_parses:
  assumes "form_filled f v t p"
  shows "jobSpecSchema_parse (form_spec f) = Inr (form_job f v t p)"
  using form_job_valid [OF assms] by (simp add: form_spec_json [OF assms] parse_Inr_iff parse_shape_spec_json spec_valid_def)

section \<open>Signing in the browser\<close>

datatype web_effect =
    Fetched string "json option"
  | Sent string
  | Pushed string
  | Notified string
  | Asked_signIn
  | Scheduled int

record desk =
  dk_log :: "web_effect list"

record web_env =
  wv_cookie :: string
  wv_proof :: "string option"
  wv_fetch :: "desk \<Rightarrow> web_request \<Rightarrow> (bool \<times> json) outcome"
  wv_decode :: "json option \<Rightarrow> string outcome"
  wv_send :: "(desk \<Rightarrow> string \<Rightarrow> string outcome) option"
  wv_connection :: "json option \<Rightarrow> unit outcome"
  wv_confirm :: "desk \<Rightarrow> string \<Rightarrow> json option \<Rightarrow> json option \<Rightarrow> json option outcome"

definition log_effect :: "web_effect \<Rightarrow> (desk, unit) proc" where
  "log_effect e = modifyP (\<lambda>d. d\<lparr>dk_log := dk_log d @ [e]\<rparr>)"

definition api_call :: "web_env \<Rightarrow> string \<Rightarrow> json option \<Rightarrow> (desk, json) proc" where
  "api_call env path body =
     bindP (liftP (api_request (wv_cookie env) (wv_proof env) path body)) (\<lambda>q.
     bindP (log_effect (Fetched path body)) (\<lambda>_.
     bindP getP (\<lambda>d. liftP (andThen (wv_fetch env d q) api_result))))"

text \<open>
  \<open>wv_decode\<close> is \<^verbatim>\<open>Transaction.from\<close> on the decoded bytes, \<open>wv_connection\<close> the constructor of the
  connection on the reply's \<^verbatim>\<open>rpcUrl\<close>, \<open>wv_confirm\<close> the confirmation, whose error is \<open>None\<close> when the
  transaction succeeded.
\<close>

definition signTransaction :: "web_env \<Rightarrow> json \<Rightarrow> (desk, string) proc" where
  "signTransaction env built = (case wv_send env of
     None \<Rightarrow> throwP ''Connect a Solana wallet first.''
   | Some send \<Rightarrow>
       bindP (liftP (wv_decode env (json_get ''transaction'' (Some built)))) (\<lambda>tx.
       bindP (log_effect (Sent tx)) (\<lambda>_.
       bindP getP (\<lambda>d. bindP (liftP (send d tx)) (\<lambda>sig.
       bindP (liftP (wv_connection env (json_get ''rpcUrl'' (Some built)))) (\<lambda>_.
       bindP (liftP (wv_confirm env d sig (json_get ''blockhash'' (Some built)) (json_get ''lastValidBlockHeight'' (Some built)))) (\<lambda>err.
       case err of None \<Rightarrow> retP sig | Some e \<Rightarrow> throwP (''Transaction failed: '' @ stringify e))))))))"

text \<open>\<^verbatim>\<open>short\<close>, and the two signs of its texts that are not ASCII.\<close>

definition dots :: string where "dots = map char_of [226, 128, 166 :: nat]"

definition middot :: string where "middot = map char_of [194, 183 :: nat]"

definition short :: "string \<Rightarrow> string" where
  "short s = (if s = [] then map char_of [226, 128, 148 :: nat] else take 5 s @ dots @ drop (length s - 4) s)"

section \<open>Submitting the form\<close>

datatype form_action = Quote_now | Save_now | Submit_now

fun sign_each :: "web_env \<Rightarrow> json list \<Rightarrow> (desk, unit) proc" where
  "sign_each env [] = retP ()"
| "sign_each env (t # ts) = bindP (signTransaction env t) (\<lambda>_. sign_each env ts)"

text \<open>\<^verbatim>\<open>for (const t of v)\<close> throws on what is not iterable; the API sends arrays.\<close>

definition json_elements :: "json option \<Rightarrow> json list outcome" where
  "json_elements j = (case j of Some (JArr xs) \<Rightarrow> Inr xs | _ \<Rightarrow> Inl ''TypeError'')"

definition submit_redundant :: "web_env \<Rightarrow> job_form \<Rightarrow> (desk, unit) proc" where
  "submit_redundant env f =
     bindP (api_call env ''/v1/jobs/redundant'' (Some (JObj [(''spec'', form_spec f), (''maxSpendPerReplicaBaseUnits'', JStr (base_units (jf_budget f))),
       (''replicas'', num_json (form_number (jf_replicas f))), (''requiredMatches'', num_json (form_number (jf_requiredMatches f)))]))) (\<lambda>built.
     bindP (liftP (json_elements (json_get ''transactions'' (Some built)))) (\<lambda>txs.
     bindP (sign_each env txs) (\<lambda>_.
     bindP (liftP (json_elements (json_get ''jobIds'' (Some built)))) (\<lambda>ids.
     bindP (log_effect (Pushed (''/jobs/'' @ template_text (json_first (Some (JArr ids)))))) (\<lambda>_.
     log_effect (Notified (''Redundant job funded across '' @ decimal (length ids) @ '' independent replicas '' @ middot @ '' ''
       @ short (template_text (json_get ''groupId'' (Some built))) @ ''.'')))))))"

definition funded_notice :: "string \<Rightarrow> string" where
  "funded_notice jid = ''Job funded on Solana '' @ middot @ '' '' @ short jid @ ''. Providers can now bid.''"

definition submit_single :: "web_env \<Rightarrow> job_form \<Rightarrow> (desk, unit) proc" where
  "submit_single env f =
     bindP (api_call env ''/v1/jobs'' (Some (JObj [(''spec'', form_spec f), (''maxSpendBaseUnits'', JStr (base_units (jf_budget f)))]))) (\<lambda>built.
     bindP (signTransaction env built) (\<lambda>_.
     bindP (log_effect (Pushed (''/jobs/'' @ template_text (json_get ''jobId'' (Some built))))) (\<lambda>_.
     log_effect (Notified (funded_notice (template_text (json_get ''jobId'' (Some built))))))))"

text \<open>The body of the \<^verbatim>\<open>try\<close>; it returns the change of the form. Without a wallet proof it asks for one.\<close>

definition execute_body :: "web_env \<Rightarrow> form_action \<Rightarrow> job_form \<Rightarrow> (desk, job_form \<Rightarrow> job_form) proc" where
  "execute_body env action f = (case action of
     Quote_now \<Rightarrow> bindP (api_call env ''/v1/quotes'' (Some (JObj [(''spec'', form_spec f), (''maxSpendBaseUnits'', JStr (base_units (jf_budget f)))])))
       (\<lambda>r. retP (\<lambda>g. g\<lparr>jf_quotes := json_get ''quotes'' (Some r)\<rparr>))
   | Submit_now \<Rightarrow>
       if wv_proof env \<in> {None, Some []} then bindP (log_effect Asked_signIn) (\<lambda>_. retP id)
       else bindP (if jf_policy f = ''REDUNDANT'' then submit_redundant env f else submit_single env f) (\<lambda>_. retP id)
   | Save_now \<Rightarrow> bindP (api_call env ''/v1/specs'' (Some (JObj [(''name'', JStr (jf_name f)), (''spec'', form_spec f)]))) (\<lambda>r.
       bindP (log_effect (Notified (''Intent saved '' @ middot @ '' '' @ short (template_text (json_get ''hash'' (Some r)))
         @ ''. Use the SDK to sign and fund it on Solana.''))) (\<lambda>_. retP id)))"

definition execute :: "web_env \<Rightarrow> bool \<Rightarrow> form_action \<Rightarrow> job_form \<Rightarrow> desk \<Rightarrow> desk \<times> job_form" where
  "execute env signedIn action f d = (let f0 = f\<lparr>jf_error := []\<rparr> in
     if action \<noteq> Quote_now \<and> \<not> signedIn then (fst (log_effect Asked_signIn d), f0)
     else (case execute_body env action f0 d of
        (d', Inl e) \<Rightarrow> (d', f0\<lparr>jf_error := e, jf_busy := False\<rparr>)
      | (d', Inr g) \<Rightarrow> (d', (g f0)\<lparr>jf_busy := False\<rparr>)))"

section \<open>The page of a job\<close>

record job_page =
  jp_job :: "json option"
  jp_bids :: "json list"
  jp_error :: string
  jp_busy :: bool
  jp_message :: string
  jp_evidence :: string

text \<open>
  One refresh of the timer; \<open>live\<close> is false once the page was left. The two requests are awaited
  together, \<open>first\<close> tells which of two failures arrives first.
\<close>

definition refresh_job :: "bool \<Rightarrow> bool \<Rightarrow> json outcome \<Rightarrow> json outcome \<Rightarrow> job_page \<Rightarrow> job_page" where
  "refresh_job live first j b p = (if \<not> live then p else
     case (j, b) of
       (Inr x, Inr y) \<Rightarrow> p\<lparr>jp_job := json_get ''job'' (Some x), jp_bids := (case json_get ''bids'' (Some y) of Some (JArr bs) \<Rightarrow> bs | _ \<Rightarrow> [])\<rparr>
     | (Inl e, Inr _) \<Rightarrow> p\<lparr>jp_error := e\<rparr>
     | (Inr _, Inl e) \<Rightarrow> p\<lparr>jp_error := e\<rparr>
     | (Inl e, Inl e') \<Rightarrow> p\<lparr>jp_error := (if first then e else e')\<rparr>)"

definition act :: "web_env \<Rightarrow> string \<Rightarrow> string \<Rightarrow> json \<Rightarrow> job_page \<Rightarrow> desk \<Rightarrow> desk \<times> job_page" where
  "act env jid action body p d =
     (case bindP (api_call env (''/v1/jobs/'' @ jid @ ''/'' @ action) (Some body)) (signTransaction env) d of
        (d', Inr sig) \<Rightarrow> (d', p\<lparr>jp_error := [], jp_busy := False,
           jp_message := ''Confirmed '' @ middot @ '' '' @ short sig @ ''. Finalized state will appear shortly.''\<rparr>)
      | (d', Inl e) \<Rightarrow> (d', p\<lparr>jp_error := e, jp_busy := False, jp_message := []\<rparr>))"

text \<open>
  The evidence views. \<open>decoded_text\<close> is \<^verbatim>\<open>Buffer.from(v, "base64").toString("utf8")\<close>, which throws on what is
  not a string; a text is the list of its UTF-8 bytes, and the replacement of malformed ones is not
  modelled. \<open>pretty\<close> is \<^verbatim>\<open>JSON.stringify(data, null, 2)\<close>.
\<close>

definition decoded_text :: "json option \<Rightarrow> string outcome" where
  "decoded_text j = (case j of Some (JStr s) \<Rightarrow> Inr (map (\<lambda>b. char_of (unat b)) (fromBase64 s)) | _ \<Rightarrow> Inl ''TypeError'')"

definition evidence_text :: "(json \<Rightarrow> string) \<Rightarrow> string \<Rightarrow> json \<Rightarrow> string outcome" where
  "evidence_text pretty view data =
     (if json_get ''status'' (Some data) = Some (JStr ''pending'') then Inr ''Execution evidence is pending.''
      else if view = ''logs'' then andThen (decoded_text (json_get ''stdout'' (Some data))) (\<lambda>out. andThen (decoded_text (json_get ''stderr'' (Some data))) (\<lambda>err.
        Inr (join [CHR 0x0A] [''STDOUT'', out, ''STDERR'', err])))
      else if view = ''result'' then decoded_text (json_get ''result'' (Some data))
      else Inr (pretty data))"

definition inspect :: "web_env \<Rightarrow> (json \<Rightarrow> string) \<Rightarrow> string \<Rightarrow> string \<Rightarrow> job_page \<Rightarrow> desk \<Rightarrow> desk \<times> job_page" where
  "inspect env pretty jid view p d =
     (case bindP (api_call env (''/v1/jobs/'' @ jid @ ''/'' @ view) None) (\<lambda>data. liftP (evidence_text pretty view data)) d of
        (d', Inr t) \<Rightarrow> (d', p\<lparr>jp_error := [], jp_busy := False, jp_evidence := t\<rparr>)
      | (d', Inl e) \<Rightarrow> (d', p\<lparr>jp_error := e, jp_busy := False\<rparr>))"

text \<open>The action buttons the page shows for a job, and the bids that can be accepted.\<close>

definition job_actions :: "string \<Rightarrow> bool \<Rightarrow> string list" where
  "job_actions state settled =
     (if state \<in> {''CREATED'', ''OPEN''} then [''cancel''] else [])
   @ (if state \<in> {''OPEN'', ''ASSIGNED'', ''RUNNING'', ''VERIFYING''} then [''expire''] else [])
   @ (if state = ''COMPLETED'' \<and> \<not> settled then [''settle''] else [])
   @ (if state \<in> {''CANCELLED'', ''EXPIRED'', ''FAILED''} \<and> \<not> settled then [''refund''] else [])"

definition acceptable :: "int \<Rightarrow> string \<Rightarrow> bid_row \<Rightarrow> bool" where
  "acceptable nowMs state b \<longleftrightarrow> state = ''OPEN'' \<and> nowMs < bw_expiresAt b * 1000"

section \<open>Actions whose success is reported as a failure\<close>

text \<open>
  The reply of \<open>unsigned\<close>: the transaction and the two fields of the latest block. \<open>wire\<close> serialises the
  transaction, \<open>height\<close> is the last valid block height.
\<close>

definition unsigned_json :: "(unsigned_tx \<Rightarrow> string) \<Rightarrow> int \<Rightarrow> unsigned_tx \<Rightarrow> json" where
  "unsigned_json wire height tx = JObj [(''transaction'', JStr (wire tx)), (''blockhash'', JStr (ut_blockhash tx)),
     (''lastValidBlockHeight'', jint height), (''requiresWalletSignature'', JBool True)]"

definition created_json :: "(unsigned_tx \<Rightarrow> string) \<Rightarrow> int \<Rightarrow> string option \<Rightarrow> created_job \<Rightarrow> json" where
  "created_json wire height rpcUrl cj = JObj ([(''jobId'', JStr (cj_jobId cj)), (''transaction'', JStr (wire (cj_tx cj))),
     (''blockhash'', JStr (ut_blockhash (cj_tx cj))), (''lastValidBlockHeight'', jint height)]
     @ (case rpcUrl of Some u \<Rightarrow> [(''rpcUrl'', JStr u)] | None \<Rightarrow> []) @ [(''requiresWalletSignature'', JBool True)])"

text \<open>The API's answer to an action of the page, as the page's request reaches it.\<close>

definition action_handler :: "jobs_env \<Rightarrow> http_headers \<Rightarrow> string \<Rightarrow> string \<Rightarrow> json \<Rightarrow> unsigned_tx handler" where
  "action_handler env req jid action body =
     (if action = ''cancel'' then cancel_handler env req jid
      else if action = ''expire'' then expire_handler env req jid
      else if action = ''settle'' then settle_handler env req jid
      else if action = ''refund'' then refund_handler env req jid
      else (case json_get ''bidId'' (Some body) of Some (JStr b) \<Rightarrow> accept_bid_handler env req jid b
        | _ \<Rightarrow> answerH (Inl (Http 400 ''bidId''))))"

definition answered :: "('a \<Rightarrow> json) \<Rightarrow> 'a reply \<Rightarrow> bool \<times> json" where
  "answered print r = (case r of Inr x \<Rightarrow> (True, print x) | Inl e \<Rightarrow> (False, JObj [(''error'', JStr (snd (error_response e)))]))"

lemmas web_steps = bindP_def retP_def throwP_def liftP_def getP_def modifyP_def log_effect_def

text \<open>
  C39. A job action is reported as failed after it was sent. For every action of the page of a job, when
  the API answers with its transaction and the wallet signs and sends it, the page shows the error of the
  connection and no confirmation: the reply carries no cluster address, and a connection cannot be made
  without one.
\<close>

theorem sent_action_misreported:
  fixes env :: jobs_env
  assumes "api_request (wv_cookie we) (wv_proof we) (''/v1/jobs/'' @ jid @ ''/'' @ action) (Some body) = Inr q"
    and "\<And>d. wv_fetch we d q = Inr (answered (unsigned_json wire height) (snd (action_handler env (wq_headers q) jid action body D)))"
    and "snd (action_handler env (wq_headers q) jid action body D) = Inr utx"
    and "wv_send we = Some send" "wv_decode we (Some (JStr (wire utx))) = Inr tx" "\<And>d. send d tx = Inr sig" "wv_connection we None = Inl e"
  shows "act we jid action body p d
    = (d\<lparr>dk_log := dk_log d @ [Fetched (''/v1/jobs/'' @ jid @ ''/'' @ action) (Some body), Sent tx]\<rparr>, p\<lparr>jp_error := e, jp_busy := False, jp_message := []\<rparr>)"
  using assms by (simp add: act_def api_call_def signTransaction_def answered_def api_result_def unsigned_json_def json_get_def web_steps)


section \<open>The actions a job's page offers\<close>

text \<open>The state the indexer publishes for an account, as the page receives it.\<close>

definition published_state :: "job_account \<Rightarrow> string" where
  "published_state j = (case index_at jobStates (jb_state j) of Some s \<Rightarrow> state_name s | None \<Rightarrow> [])"

definition page_actions :: "job_account \<Rightarrow> string list" where
  "page_actions j = job_actions (published_state j) (jb_settled j)"

lemma published_states:
  assumes "stage_fine j"
  shows "(jb_state j, published_state j) \<in> {(st_CREATED, ''CREATED''), (st_OPEN, ''OPEN''), (st_ASSIGNED, ''ASSIGNED''), (st_RUNNING, ''RUNNING''),
    (st_VERIFYING, ''VERIFYING''), (st_COMPLETED, ''COMPLETED''), (st_CANCELLED, ''CANCELLED''), (st_EXPIRED, ''EXPIRED''), (st_FAILED, ''FAILED''),
    (st_DISPUTED, ''DISPUTED''), (st_REFUNDED, ''REFUNDED'')}"
proof -
  have "jb_state j \<in> {st_CREATED, st_OPEN, st_ASSIGNED, st_RUNNING, st_VERIFYING, st_COMPLETED, st_CANCELLED, st_EXPIRED, st_FAILED, st_DISPUTED, st_REFUNDED}"
    using assms unfolding stage_fine_def by (simp split: if_splits) linarith+
  then show ?thesis by (elim insertE emptyE) (simp_all add: published_state_def state_names)
qed

lemma page_actions_iff:
  assumes "stage_fine j"
  shows "''cancel'' \<in> set (page_actions j) \<longleftrightarrow> jb_state j \<in> {st_CREATED, st_OPEN}"
    "''expire'' \<in> set (page_actions j) \<longleftrightarrow> jb_state j \<in> {st_OPEN, st_ASSIGNED, st_RUNNING, st_VERIFYING}"
    "''settle'' \<in> set (page_actions j) \<longleftrightarrow> jb_state j = st_COMPLETED \<and> \<not> jb_settled j"
    "''refund'' \<in> set (page_actions j) \<longleftrightarrow> jb_state j \<in> {st_CANCELLED, st_EXPIRED, st_FAILED} \<and> \<not> jb_settled j"
  using published_states [OF assms] by (elim insertE emptyE; simp add: page_actions_def job_actions_def)+

lemma settle_needs:
  assumes "settle_job env k payout treasury refund L = Inr L'" "lg_jobs L k = Some j"
  shows "jb_state j = st_COMPLETED \<and> \<not> jb_settled j \<and> jb_verifiedAt j + jb_disputeSeconds j \<le> lg_now L"
  using assms by (auto simp: settle_job_def load_def outcome_simps plain_i64_def split: if_splits)

lemma expire_needs:
  assumes "expire_job k L = Inr L'" "lg_jobs L k = Some j"
  shows "jb_state j \<in> {st_CREATED, st_OPEN, st_ASSIGNED, st_RUNNING, st_VERIFYING}"
  using assms by (auto simp: expire_job_def expirable_def load_def outcome_simps split: if_splits)

text \<open>
  C16. The page offers what the program accepts. For every job of every history of the program, with the
  state the indexer publishes: the buyer's cancellation is offered exactly when the program accepts it; the
  refund into an account of the buyer exactly when the program pays it; the settlement exactly when the
  program settles, once the dispute window is over; and a timeout the program accepts is offered, except
  for a job that was never funded, which the page offers to cancel instead.
\<close>

theorem page_offers_accepted:
  assumes env: "market_env env W" "token_pays (pe_transfer env)" and h: "history env W tr L"
    and j: "lg_jobs L k = Some j" "jb_buyer j \<in> W" "lg_now L \<le> 4611686018427387904"
    and accounts: "jb_state j = st_COMPLETED \<Longrightarrow> token_ok L payout (jb_mint j) (jb_payout j)"
      "jb_state j = st_COMPLETED \<Longrightarrow> token_ok L treasury (jb_mint j) (jb_treasury j)" "token_ok L refund (jb_mint j) (jb_buyer j)"
    and counters: "\<And>p. lg_providers L (jb_provider j) = Some p \<Longrightarrow> u64 (pr_completed p + 1)"
      "\<And>m. lg_machines L (jb_machine j) = Some m \<Longrightarrow> u64 (mc_completed m + 1)"
  shows "(''cancel'' \<in> set (page_actions j) \<longleftrightarrow> (\<exists>L'. cancel_job (jb_buyer j) k L = Inr L'))
    \<and> (''refund'' \<in> set (page_actions j) \<longleftrightarrow> (\<exists>L'. refund_job env k refund L = Inr L'))
    \<and> (''settle'' \<in> set (page_actions j) \<and> jb_verifiedAt j + jb_disputeSeconds j \<le> lg_now L
         \<longleftrightarrow> (\<exists>L'. settle_job env k payout treasury refund L = Inr L'))
    \<and> ((\<exists>L'. expire_job k L = Inr L') \<longrightarrow> ''expire'' \<in> set (page_actions j) \<or> jb_state j = st_CREATED \<and> ''cancel'' \<in> set (page_actions j))"
proof (intro conjI)
  note s = history_job [OF env(1) h j(1)]
  note f = job_soundD [OF s]
  note acts = page_actions_iff [OF f(6)]
  have contract: "token_contract (pe_transfer env)" and buyer: "jb_buyer j \<noteq> k" using env(1) j(2) f(1) by (auto simp: market_env_def)
  have times: "times_fine (lg_now L) j" using f(2) by (simp add: job_fine_def)
  obtain r where r: "lg_tokens L refund = Some r" "tk_mint r = jb_mint j" "tk_owner r = jb_buyer j" using accounts(3) by (auto simp: token_ok_iff)
  show "''cancel'' \<in> set (page_actions j) \<longleftrightarrow> (\<exists>L'. cancel_job (jb_buyer j) k L = Inr L')"
    unfolding acts using j(1) by (simp add: cancel_job_def cancel_checked_def load_def guard_def)
  have "\<exists>L'. refund_job env k refund L = Inr L'" if "''refund'' \<in> set (page_actions j)"
    using refund_goes_through [OF env(2) contract j(1) s _ _ r buyer] that acts(4) by blast
  moreover have "''refund'' \<in> set (page_actions j)" if "refund_job env k refund L = Inr L'" for L'
    unfolding acts using that j(1) by (auto simp: refund_job_def load_def outcome_simps)
  ultimately show "''refund'' \<in> set (page_actions j) \<longleftrightarrow> (\<exists>L'. refund_job env k refund L = Inr L')" by blast
  have "\<exists>L'. settle_job env k payout treasury refund L = Inr L'"
    if "''settle'' \<in> set (page_actions j)" "jb_verifiedAt j + jb_disputeSeconds j \<le> lg_now L"
    using settle_ready [OF env h j(1) _ _ times j(3) that(2) accounts counters] that(1) acts(3) by metis
  then show "''settle'' \<in> set (page_actions j) \<and> jb_verifiedAt j + jb_disputeSeconds j \<le> lg_now L
      \<longleftrightarrow> (\<exists>L'. settle_job env k payout treasury refund L = Inr L')"
    using settle_needs [OF _ j(1)] acts(3) by blast
  show "(\<exists>L'. expire_job k L = Inr L') \<longrightarrow> ''expire'' \<in> set (page_actions j) \<or> jb_state j = st_CREATED \<and> ''cancel'' \<in> set (page_actions j)"
    using expire_needs [OF _ j(1)] acts(1,2) by blast
qed

theorem page_offers_accepted_witness:
  "page_actions dm_cancelled = [''refund''] \<and> (\<exists>L'. refund_job dm_env dm_job ''TB'' dm_C1 = Inr L')
     \<and> (\<nexists>L'. cancel_job ''B'' dm_job dm_C1 = Inr L') \<and> (\<nexists>L'. settle_job dm_env dm_job ''TP'' ''TA'' ''TB'' dm_C1 = Inr L')"
proof -
  have j: "jb_state dm_cancelled = st_CANCELLED" "jb_settled dm_cancelled = False" "jb_buyer dm_cancelled = ''B''" "jb_mint dm_cancelled = ''M''"
      "jb_provider dm_cancelled = default_key" "jb_machine dm_cancelled = default_key"
    by (simp_all add: dm_cancelled_def dm_funded_def new_job_def dm_args_def dm_config_def)
  have L: "lg_jobs dm_C1 dm_job = Some dm_cancelled" "lg_now dm_C1 = 100" "lg_tokens dm_C1 = dm_paid"
      "lg_providers dm_C1 default_key = None" "lg_machines dm_C1 default_key = None"
    by (simp_all add: dm_C1_def put_defs dm_ledgers Let_def dm_keys)
  have acts: "page_actions dm_cancelled = [''refund'']" by (simp add: page_actions_def published_state_def job_actions_def j state_names)
  have "dm_escrow \<noteq> ''TB''" by (simp add: dm_escrow_def)
  then have "token_ok dm_C1 ''TB'' ''M'' ''B''" by (simp add: token_ok_def L dm_paid_def dm_token_def)
  moreover have "token_pays (pe_transfer dm_env)" using dm_pays by (simp add: token_pays_def)
  ultimately show ?thesis
    using page_offers_accepted [OF dm_market _ dm_hc L(1), of "''TP''" "''TA''" "''TB''"] by (simp add: acts j L dm_wallets_def)
qed

text \<open>A browser that is signed in with the session of the API samples.\<close>

definition sample_browser :: "(desk \<Rightarrow> web_request \<Rightarrow> (bool \<times> json) outcome) \<Rightarrow> web_env" where
  "sample_browser fetch = \<lparr>wv_cookie = ''insforge_access_token=token'', wv_proof = Some ''proof'', wv_fetch = fetch,
     wv_decode = (\<lambda>j. case j of Some (JStr t) \<Rightarrow> Inr t | _ \<Rightarrow> Inl ''TypeError''), wv_send = Some (\<lambda>d t. Inr ''S''),
     wv_connection = (\<lambda>u. case u of Some (JStr _) \<Rightarrow> Inr () | _ \<Rightarrow> Inl ''Endpoint URL must start with http''), wv_confirm = (\<lambda>_ _ _ _. Inr None)\<rparr>"

lemma sample_browser_request:
  "\<exists>q. api_request (wv_cookie (sample_browser fetch)) (wv_proof (sample_browser fetch)) path (Some body) = Inr q \<and> wq_headers q = sample_headers"
proof -
  have "access_token ''insforge_access_token=token'' = Some ''token''" unfolding access_token_def by code_simp
  then show ?thesis by (simp add: sample_browser_def api_request_def sample_headers_def)
qed

theorem sent_action_misreported_witness:
  "\<forall>p d. \<exists>d' p'. act (sample_browser (\<lambda>d q. Inr (answered (unsigned_json (\<lambda>_. ''tx'') 9) (snd (action_handler sample_jobs (wq_headers q) ''J'' ''cancel'' (JObj []) no_jobs)))))
       ''J'' ''cancel'' (JObj []) p d = (d', p') \<and> Sent ''tx'' \<in> set (dk_log d') \<and> jp_message p' = [] \<and> jp_error p' \<noteq> []"
proof (intro allI)
  fix p d
  let ?we = "sample_browser (\<lambda>d q. Inr (answered (unsigned_json (\<lambda>_. ''tx'') 9) (snd (action_handler sample_jobs (wq_headers q) ''J'' ''cancel'' (JObj []) no_jobs))))"
  obtain q where q: "api_request (wv_cookie ?we) (wv_proof ?we) (''/v1/jobs/'' @ ''J'' @ ''/'' @ ''cancel'') (Some (JObj [])) = Inr q" "wq_headers q = sample_headers"
    using sample_browser_request by blast
  obtain utx where u: "snd (action_handler sample_jobs (wq_headers q) ''J'' ''cancel'' (JObj []) no_jobs) = Inr utx"
    by (simp add: q(2) action_handler_def cancel_handler_def ownedJob_def sample_request publicKey_ok_def unsigned_def) (simp add: sample_api_def)
  show "\<exists>d' p'. act ?we ''J'' ''cancel'' (JObj []) p d = (d', p') \<and> Sent ''tx'' \<in> set (dk_log d') \<and> jp_message p' = [] \<and> jp_error p' \<noteq> []"
    using sent_action_misreported [OF q(1) _ u, of "\<lambda>_. ''tx''" 9 _ "''tx''" "''S''" "''Endpoint URL must start with http''" p d]
    by (simp add: sample_browser_def)
qed

definition sample_form :: job_form where
  "sample_form = \<lparr>jf_name = ''demo'', jf_repository = ''ghcr.io/acme/test'', jf_digest = replicate 64 CHR ''a'', jf_command = ''  python main.py '',
     jf_gpu = ''CPU only'', jf_vram = ''24'', jf_duration = ''300'', jf_budget = ''2.5e-5'', jf_policy = ''STANDARD'', jf_replicas = ''2'',
     jf_requiredMatches = ''2'', jf_quotes = None, jf_busy = False, jf_error = []\<rparr>"

lemma sample_form_numbers:
  "form_number ''24'' = Some 24" "form_number ''300'' = Some 300" "form_number ''2.5e-5'' = Some (1 / 40000)"
  "split_spaces (trim ''  python main.py '') = [''python'', ''main.py'']"
  by code_simp+

lemma sample_form_filled: "form_filled sample_form 24576 300 STANDARD"
  using sample_spec_fields
  by (simp add: form_filled_def sample_form_def sample_form_numbers fields_ok_def sample_spec_def digest_ok_def)

lemma sample_form_units: "base_units (jf_budget sample_form) = ''25''"
proof -
  have "base_units (jf_budget sample_form) = bigint_toString 25"
    by (rule base_units_exact [of _ "1 / 40000"]) (simp_all add: sample_form_def sample_form_numbers)
  also have "bigint_toString 25 = ''25''" by code_simp
  finally show ?thesis .
qed


end
