(* ===== verification/WebPolicies.thy ===== *)
theory WebPolicies
  imports WebJobs
begin

text \<open>
  The page of agent policies (\<^verbatim>\<open>apps/web/components/agent-policies.tsx\<close>): its default workload, the request
  it builds from the form, creation and revocation with the browser's wallet, and the way from the form to
  the policy account on chain.
\<close>

section \<open>The page\<close>

definition defaultSpec :: json where
  "defaultSpec = JObj
     [(''version'', JStr ''1''), (''runtime'', JStr ''oci''),
      (''image'', JObj [(''repository'', JStr ''docker.io/library/alpine''),
         (''digest'', JStr ''sha256:14358309a308569c32bdc37e2e0e9694be33a9d99e68afb0f5ff33cc1f695dce'')]),
      (''command'', JArr [JStr ''/bin/sh'', JStr ''-c'', JStr ''echo agent-compute-ok'']),
      (''resources'', JObj [(''gpu'', JObj [(''count'', jint 0), (''minimumVramMb'', jint 0), (''allowedModels'', JArr [])]),
         (''cpuCores'', jint 1), (''ramMb'', jint 256), (''storageMb'', jint 1024)]),
      (''execution'', JObj [(''timeoutSeconds'', jint 300), (''maxStartDelaySeconds'', jint 60)]),
      (''network'', JObj [(''mode'', JStr ''deny-by-default''), (''allow'', JArr [])]),
      (''verification'', JObj [(''policy'', JStr ''STANDARD'')]), (''inputs'', JArr [])]"

record policy_page =
  ag_policies :: "json list"
  ag_agent :: string
  ag_daily :: string
  ag_single :: string
  ag_runtime :: string
  ag_days :: string
  ag_specText :: string
  ag_busy :: bool
  ag_error :: string

definition refreshPolicies :: "web_env \<Rightarrow> bool \<Rightarrow> policy_page \<Rightarrow> desk \<Rightarrow> desk \<times> policy_page" where
  "refreshPolicies env linked p d = (if \<not> linked then (d, p) else
     case api_call env ''/v1/agent-policies'' None d of
       (d', Inl e) \<Rightarrow> (d', p\<lparr>ag_error := e\<rparr>)
     | (d', Inr r) \<Rightarrow> (d', p\<lparr>ag_policies := (case json_get ''policies'' (Some r) of Some (JArr ps) \<Rightarrow> ps | _ \<Rightarrow> []), ag_error := []\<rparr>))"

text \<open>\<^verbatim>\<open>Math.round(Number(s) * 1e6)\<close>; \<^verbatim>\<open>NaN <= 0\<close> is false, so it passes the page's own check.\<close>

definition limit_units :: "string \<Rightarrow> int option" where
  "limit_units s = map_option (\<lambda>q. \<lfloor>q * 1000000 + 1 / 2\<rfloor>) (form_number s)"

definition not_positive :: "int option \<Rightarrow> bool" where
  "not_positive n \<longleftrightarrow> (case n of Some i \<Rightarrow> i \<le> 0 | None \<Rightarrow> False)"

text \<open>The body of the request; \<open>parse\<close> is \<^verbatim>\<open>JSON.parse\<close> on the text of the workload.\<close>

definition policy_request :: "(string \<Rightarrow> json outcome) \<Rightarrow> int \<Rightarrow> policy_page \<Rightarrow> json outcome" where
  "policy_request parse nowMs p =
     andThen (guard (\<not> not_positive (limit_units (ag_daily p)) \<and> \<not> not_positive (limit_units (ag_single p)))
       ''Spending limits must be positive USDC amounts.'') (\<lambda>_.
     andThen (parse (ag_specText p)) (\<lambda>spec.
     Inr (JObj [(''agent'', JStr (trim (ag_agent p))), (''dailySpendLimit'', JStr (base_units (ag_daily p))),
       (''singleJobLimit'', JStr (base_units (ag_single p))), (''delegatedAmount'', JStr (base_units (ag_daily p))),
       (''maxRuntimeSeconds'', num_json (form_number (ag_runtime p))), (''requiredVerification'', JStr ''STANDARD''),
       (''allowedSpecs'', JArr [spec]),
       (''expiresAt'', num_json (map_option (\<lambda>days. of_int (nowMs div 1000) + days * 86400) (form_number (ag_days p))))])))"

definition createPolicy_steps :: "web_env \<Rightarrow> (string \<Rightarrow> json outcome) \<Rightarrow> int \<Rightarrow> policy_page \<Rightarrow> (desk, unit) proc" where
  "createPolicy_steps env parse nowMs p =
     bindP (liftP (policy_request parse nowMs p)) (\<lambda>body.
     bindP (api_call env ''/v1/agent-policies'' (Some body)) (\<lambda>built.
     bindP (signTransaction env built) (\<lambda>sig.
     bindP (log_effect (Notified (''Agent policy confirmed '' @ middot @ '' '' @ short sig @ ''. The indexer will publish it shortly.''))) (\<lambda>_.
     log_effect (Scheduled 2500)))))"

definition createPolicy :: "web_env \<Rightarrow> (string \<Rightarrow> json outcome) \<Rightarrow> bool \<Rightarrow> int \<Rightarrow> policy_page \<Rightarrow> desk \<Rightarrow> desk \<times> policy_page" where
  "createPolicy env parse linked nowMs p d = (if \<not> linked then (fst (log_effect Asked_signIn d), p) else
     case createPolicy_steps env parse nowMs p d of
       (d', Inl e) \<Rightarrow> (d', p\<lparr>ag_error := e, ag_busy := False\<rparr>)
     | (d', Inr _) \<Rightarrow> (d', p\<lparr>ag_error := [], ag_busy := False\<rparr>))"

definition revokePolicy :: "web_env \<Rightarrow> string \<Rightarrow> policy_page \<Rightarrow> desk \<Rightarrow> desk \<times> policy_page" where
  "revokePolicy env agentAddress p d =
     (case bindP (api_call env (''/v1/agent-policies/'' @ encodeURIComponent agentAddress @ ''/revoke'') (Some (JObj []))) (\<lambda>built.
          bindP (signTransaction env built) (\<lambda>sig.
          bindP (log_effect (Notified (''Agent policy revoked '' @ middot @ '' '' @ short sig @ ''.''))) (\<lambda>_. log_effect (Scheduled 2500)))) d of
        (d', Inl e) \<Rightarrow> (d', p\<lparr>ag_error := e, ag_busy := False\<rparr>)
      | (d', Inr _) \<Rightarrow> (d', p\<lparr>ag_error := [], ag_busy := False\<rparr>))"

section \<open>From the form to the policy account\<close>

text \<open>The JSON of a body the API accepts, and the arguments of the instruction as the program reads them.\<close>

definition policy_body_json :: "policy_body \<Rightarrow> json" where
  "policy_body_json b = JObj [(''agent'', JStr (pb_agent b)), (''dailySpendLimit'', JStr (pb_daily b)), (''singleJobLimit'', JStr (pb_single b)),
     (''delegatedAmount'', JStr (pb_delegated b)), (''maxRuntimeSeconds'', jint (pb_maxRuntime b)),
     (''requiredVerification'', JStr (policy_name (pb_verification b))), (''allowedSpecs'', JArr (map spec_json (pb_specs b))),
     (''expiresAt'', jint (pb_expiresAt b))]"

fun decode_policy_args :: "ix_arg list \<Rightarrow> Program.policy_args option" where
  "decode_policy_args [ANum daily, ANum single, ANum seconds, ANum verification, ABytes spec_root, ANum expiry] =
     Some \<lparr>pa_dailySpendLimit = daily, pa_singleJobLimit = single, pa_maxRuntimeSeconds = seconds, pa_requiredVerification = verification,
       pa_allowedSpecsRoot = spec_root, pa_expiresAt = expiry\<rparr>"
| "decode_policy_args _ = None"

definition policy_filled :: "crypto \<Rightarrow> (string \<Rightarrow> json outcome) \<Rightarrow> policy_page \<Rightarrow> job_spec \<Rightarrow> int \<Rightarrow> int \<Rightarrow> int \<Rightarrow> int \<Rightarrow> bool" where
  "policy_filled cr parse p spec daily single seconds days \<longleftrightarrow> publicKey_ok cr (trim (ag_agent p))
     \<and> map_option (\<lambda>q. q * 1000000) (form_number (ag_daily p)) = Some (of_int daily)
     \<and> map_option (\<lambda>q. q * 1000000) (form_number (ag_single p)) = Some (of_int single)
     \<and> 0 < single \<and> single \<le> daily \<and> u64 daily
     \<and> form_number (ag_runtime p) = Some (of_int seconds) \<and> 1 \<le> seconds \<and> seconds \<le> 86400
     \<and> form_number (ag_days p) = Some (of_int days) \<and> 1 \<le> days \<and> days \<le> 365
     \<and> parse (ag_specText p) = Inr (spec_json spec) \<and> spec_valid spec"

definition form_policy :: "int \<Rightarrow> policy_page \<Rightarrow> job_spec \<Rightarrow> int \<Rightarrow> int \<Rightarrow> int \<Rightarrow> int \<Rightarrow> policy_body" where
  "form_policy nowMs p spec daily single seconds days = \<lparr>pb_agent = trim (ag_agent p), pb_daily = bigint_toString daily, pb_single = bigint_toString single,
     pb_delegated = bigint_toString daily, pb_maxRuntime = seconds, pb_verification = STANDARD, pb_specs = [spec],
     pb_expiresAt = nowMs div 1000 + days * 86400\<rparr>"

lemma base_units_of:
  assumes "map_option (\<lambda>q. q * 1000000) (form_number s) = Some (of_int n)"
  shows "base_units s = bigint_toString n" "limit_units s = Some n"
proof -
  from assms obtain q where q: "form_number s = Some q" "q * 1000000 = of_int n" by auto
  show "base_units s = bigint_toString n" by (rule base_units_exact [OF q])
  have "\<lfloor>(of_int n :: rat) + 1 / 2\<rfloor> = n" by linarith
  then show "limit_units s = Some n" using q by (simp add: limit_units_def)
qed

lemma policy_request_body:
  assumes "policy_filled cr parse p spec daily single seconds days"
  shows "policy_request parse nowMs p = Inr (policy_body_json (form_policy nowMs p spec daily single seconds days))"
proof -
  note f = assms [unfolded policy_filled_def]
  have "base_units (ag_daily p) = bigint_toString daily" "limit_units (ag_daily p) = Some daily"
       "base_units (ag_single p) = bigint_toString single" "limit_units (ag_single p) = Some single"
    using f base_units_of by blast+
  then show ?thesis using f by (simp add: policy_request_def not_positive_def policy_body_json_def form_policy_def num_json_def)
qed

lemma form_policy_ok:
  assumes "policy_filled cr parse p spec daily single seconds days"
  shows "policy_body_ok cr (form_policy nowMs p spec daily single seconds days)"
proof -
  note f = assms [unfolded policy_filled_def u64_def]
  have "single < 10 ^ Suc 19" "daily < 10 ^ Suc 19" using f by simp_all
  then have "units_ok 19 (bigint_toString daily)" "units_ok 19 (bigint_toString single)" using f by (auto intro!: units_decimal(1))
  then show ?thesis using f by (simp add: policy_body_ok_def form_policy_def)
qed

text \<open>An allow list of one specification is its hash.\<close>

lemma single_allowlist:
  assumes "hash_ok h"
  shows "\<exists>al. buildSpecAllowlist cr [h] = Inr al \<and> al_root al = h"
proof -
  have "parseHash h = Inr (fromHex h)" "toHex (fromHex h) = h" using assms by (simp_all add: parseHash_eq_Inr hash_ok_lower hash_ok_roundtrip)
  then show ?thesis using assms by (simp add: buildSpecAllowlist_def hash_ok_lower climb.simps Let_def)
qed

lemma form_policy_checked:
  assumes "policy_filled (av_crypto env) parse p spec daily single seconds days" "commitment (av_crypto env) (spec_json spec) = Inr h" "hash_ok h"
  shows "\<exists>al. policy_checked env (form_policy (av_nowMs env) p spec daily single seconds days) = Inr ([h], al) \<and> al_root al = h"
proof -
  obtain al where al: "buildSpecAllowlist (av_crypto env) [h] = Inr al" "al_root al = h" using single_allowlist [OF assms(3)] by blast
  then show ?thesis using assms(1,2)
    by (simp add: policy_checked_def form_policy_def Let_def policy_filled_def units_of_def plain_def u64_def)
qed


text \<open>The workload the page starts with is one the schema accepts.\<close>

definition default_job :: job_spec where
  "default_job = \<lparr>version = ''1'', runtime = ''oci'', repository = ''docker.io/library/alpine'',
     digest = ''sha256:14358309a308569c32bdc37e2e0e9694be33a9d99e68afb0f5ff33cc1f695dce'',
     command = [''/bin/sh'', ''-c'', ''echo agent-compute-ok''], gpu_count = 0, gpu_minimumVramMb = 0, gpu_allowedModels = [], cpuCores = 1,
     ramMb = 256, storageMb = 1024, timeoutSeconds = 300, maxStartDelaySeconds = 60, network_mode = ''deny-by-default'', policy_of = STANDARD,
     service = None, distributed = None, security = None, proof_of = None, inputs = []\<rparr>"

lemma default_spec_json: "defaultSpec = spec_json default_job"
  by (simp add: defaultSpec_def spec_json_def default_job_def inputs_json_def opt_entry_def)

lemma default_job_valid: "spec_valid default_job"
proof -
  have "repository_ok ''docker.io/library/alpine''" "digest_ok ''sha256:14358309a308569c32bdc37e2e0e9694be33a9d99e68afb0f5ff33cc1f695dce''"
    by code_simp+
  then show ?thesis by (simp add: spec_valid_def fields_ok_def superRefine_def wants_tee_def default_job_def in_range_def)
qed

definition sample_policy_page :: policy_page where
  "sample_policy_page = \<lparr>ag_policies = [], ag_agent = '' G '', ag_daily = ''1.00'', ag_single = ''0.10'', ag_runtime = ''300'', ag_days = ''30'',
     ag_specText = ''workload'', ag_busy = False, ag_error = []\<rparr>"

lemma sample_policy_numbers:
  "form_number ''1.00'' = Some 1" "form_number ''0.10'' = Some (1 / 10)" "form_number ''30'' = Some 30" "trim '' G '' = ''G''"
  by code_simp+

lemma sample_policy_filled: "policy_filled sample_crypto (\<lambda>_. Inr defaultSpec) sample_policy_page default_job 1000000 100000 300 30"
  using default_job_valid
  by (simp add: policy_filled_def sample_policy_page_def sample_policy_numbers sample_form_numbers default_spec_json publicKey_ok_def u64_def)


end
