(* ===== verification/Operator.thy ===== *)
theory Operator
  imports OnChain Numbers Listings
begin

text \<open>
  The operator scripts (\<^verbatim>\<open>scripts/*.ts\<close>): a provider's transactions, the initialisation of a public
  cluster and its check, the heartbeats of the local fixture and the licence table. A script that sends an
  instruction gives the call the program executes; files, keys and the random generator are parameters.
\<close>

section \<open>A provider's transactions\<close>

record operator_env =
  op_crypto :: crypto
  op_pda :: "seed list \<Rightarrow> string"
  op_authority :: string
  op_nowMs :: int
  op_random :: buffer
  op_file :: "string \<Rightarrow> json outcome"
  op_bn :: "string option \<Rightarrow> int outcome"

text \<open>\<^verbatim>\<open>new PublicKey(s)\<close> and the arguments after the script's name.\<close>

definition public_key :: "crypto \<Rightarrow> string option \<Rightarrow> string outcome" where
  "public_key cr s = (case s of Some k \<Rightarrow> if publicKey_ok cr k then Inr k else Inl ''Invalid public key input''
     | None \<Rightarrow> Inl ''Invalid public key input'')"

definition argument :: "string list \<Rightarrow> nat \<Rightarrow> string option" where
  "argument argv n = (if n < length argv then Some (argv ! n) else None)"

definition provider_pda :: "operator_env \<Rightarrow> string" where
  "provider_pda env = op_pda env [Text ''provider'', Key (op_authority env)]"

definition worker_pda :: "operator_env \<Rightarrow> string \<Rightarrow> string" where
  "worker_pda env worker = op_pda env [Text ''worker'', Key (provider_pda env), Key worker]"

definition machine_pda :: "operator_env \<Rightarrow> string" where
  "machine_pda env = op_pda env [Text ''machine'', Key (provider_pda env), Bytes (op_random env)]"

definition offer_pda :: "operator_env \<Rightarrow> string \<Rightarrow> string" where
  "offer_pda env machine = op_pda env [Text ''offer'', Key machine, Bytes (op_random env)]"

definition cmd_register_provider :: "operator_env \<Rightarrow> string option \<Rightarrow> call outcome" where
  "cmd_register_provider env name =
     andThen (commitment (op_crypto env) (JObj [(''name'', JStr (case name of Some n \<Rightarrow> n | None \<Rightarrow> ''Independent provider''))])) (\<lambda>h.
     Inr (Protocol (Register_provider (op_authority env) (fromHex h))))"

definition cmd_authorize_worker :: "operator_env \<Rightarrow> string option \<Rightarrow> call outcome" where
  "cmd_authorize_worker env worker =
     andThen (public_key (op_crypto env) worker) (\<lambda>w.
     Inr (Supply (Authorize_worker (op_authority env) (provider_pda env) w (op_nowMs env div 1000 + 86400 * 30))))"

text \<open>
  \<^verbatim>\<open>report.gpu.length\<close> and the least \<^verbatim>\<open>vramMb\<close>; a \<^verbatim>\<open>null\<close> counts as zero. The report of the provider node
  has the entry for every device.
\<close>

definition vram_of :: "json \<Rightarrow> rat outcome" where
  "vram_of g = (case json_get ''vramMb'' (Some g) of Some (JNum q) \<Rightarrow> Inr q | Some JNull \<Rightarrow> Inr 0 | _ \<Rightarrow> Inl ''NaN'')"

definition report_inventory :: "json \<Rightarrow> (int \<times> int) outcome" where
  "report_inventory report = (case json_get ''gpu'' (Some report) of
     Some (JArr gs) \<Rightarrow> andThen (mapM vram_of gs) (\<lambda>vs. Inr (int (length gs), if vs = [] then 0 else \<lfloor>Min (set vs)\<rfloor>))
   | _ \<Rightarrow> Inl ''TypeError'')"

definition cmd_register_machine :: "operator_env \<Rightarrow> string option \<Rightarrow> call outcome" where
  "cmd_register_machine env file =
     andThen (case file of Some f \<Rightarrow> op_file env f | None \<Rightarrow> Inl ''TypeError'') (\<lambda>report.
     andThen (public_key (op_crypto env) (Option.bind (json_get ''worker'' (Some report)) json_str)) (\<lambda>worker.
     andThen (commitment (op_crypto env) report) (\<lambda>h.
     andThen (report_inventory report) (\<lambda>(gpus, vram).
     Inr (Supply (Register_machine (op_authority env) (provider_pda env) (worker_pda env worker) (op_random env) (fromHex h) gpus vram))))))"

definition cmd_create_offer :: "operator_env \<Rightarrow> string option \<Rightarrow> string option \<Rightarrow> call outcome" where
  "cmd_create_offer env machine amount =
     andThen (public_key (op_crypto env) machine) (\<lambda>m.
     andThen (op_bn env amount) (\<lambda>per_second.
     Inr (Supply (Create_offer (op_authority env) (provider_pda env) m (op_random env) per_second 1 3600 (op_nowMs env div 1000 + 86400)))))"

definition cmd_revoke_worker :: "operator_env \<Rightarrow> string option \<Rightarrow> call outcome" where
  "cmd_revoke_worker env worker =
     andThen (public_key (op_crypto env) worker) (\<lambda>w.
     Inr (Supply (Revoke_worker (op_authority env) (provider_pda env) (worker_pda env w))))"

definition chain_transaction :: "operator_env \<Rightarrow> string list \<Rightarrow> call outcome" where
  "chain_transaction env argv =
     (if argument argv 0 = Some ''register-provider'' then cmd_register_provider env (argument argv 1)
      else if argument argv 0 = Some ''authorize-worker'' then cmd_authorize_worker env (argument argv 1)
      else if argument argv 0 = Some ''register-machine'' then cmd_register_machine env (argument argv 1)
      else if argument argv 0 = Some ''create-offer'' then cmd_create_offer env (argument argv 1) (argument argv 2)
      else if argument argv 0 = Some ''revoke-worker'' then cmd_revoke_worker env (argument argv 1)
      else Inl ''Commands: register-provider <name>, authorize-worker <worker>, register-machine <report.json>, create-offer <machine> <base-units/second>, revoke-worker <worker>'')"

section \<open>Initialising a public cluster\<close>

record bootstrap_env =
  bs_var :: "string \<Rightarrow> string option"
  bs_crypto :: crypto
  bs_deployer :: "string outcome"
  bs_executable :: "bool outcome"
  bs_createMint :: "string \<Rightarrow> string outcome"
  bs_decimals :: "string \<Rightarrow> int outcome"
  bs_tokenAccount :: "string \<Rightarrow> string \<Rightarrow> string outcome"

datatype boot_report =
    Already_initialized config_account
  | Initialized string string string string int int

definition public_rpc :: "string option \<Rightarrow> bool" where
  "public_rpc rpc \<longleftrightarrow> (case rpc of None \<Rightarrow> False
     | Some r \<Rightarrow> r \<noteq> [] \<and> \<not> Listings.contains r ''127.0.0.1'' \<and> \<not> Listings.contains r ''localhost'')"

definition required_key :: "bootstrap_env \<Rightarrow> string \<Rightarrow> string outcome" where
  "required_key be name = (case bs_var be name of None \<Rightarrow> Inl (name @ '' is required'') | Some k \<Rightarrow> public_key (bs_crypto be) (Some k))"

definition settlement_mint :: "bootstrap_env \<Rightarrow> string \<Rightarrow> string outcome" where
  "settlement_mint be deployer = (if bs_var be ''SETTLEMENT_MINT'' \<notin> {None, Some []} then public_key (bs_crypto be) (bs_var be ''SETTLEMENT_MINT'')
     else if bs_var be ''CREATE_TEST_MINT'' = Some ''true'' then bs_createMint be deployer
     else Inl ''SETTLEMENT_MINT is required; use CREATE_TEST_MINT=true only for a clearly labelled test deployment'')"

definition setting :: "bootstrap_env \<Rightarrow> string \<Rightarrow> string \<Rightarrow> int \<Rightarrow> int \<Rightarrow> string \<Rightarrow> int outcome" where
  "setting be name fallback lo hi message = (case whole (js_Number (case bs_var be name of Some v \<Rightarrow> v | None \<Rightarrow> fallback)) of
     Some n \<Rightarrow> if lo \<le> n \<and> n \<le> hi then Inr n else Inl message | None \<Rightarrow> Inl message)"

text \<open>\<^verbatim>\<open>send\<close> of the initialisation: a failing instruction leaves the ledger as it was.\<close>

definition send_initialize :: "program_env \<Rightarrow> string \<Rightarrow> string \<Rightarrow> string \<Rightarrow> string \<Rightarrow> int \<Rightarrow> int \<Rightarrow> (ledger, unit) proc" where
  "send_initialize penv deployer mint treasury verifier fee window = (\<lambda>L.
     case initialize_protocol penv deployer mint treasury verifier fee window L of
       Inl e \<Rightarrow> (L, Inl ''Transaction failed'') | Inr L' \<Rightarrow> (L', Inr ()))"

definition initialize_cluster :: "program_env \<Rightarrow> bootstrap_env \<Rightarrow> string \<Rightarrow> string \<Rightarrow> string \<Rightarrow> (ledger, boot_report) proc" where
  "initialize_cluster penv be deployer treasury verifier =
     bindP (liftP (settlement_mint be deployer)) (\<lambda>mint.
     bindP (liftP (bs_decimals be mint)) (\<lambda>decimals.
     bindP (requireP (decimals = 6) (''Settlement mint must have 6 decimals; got '' @ bigint_toString decimals)) (\<lambda>_.
     bindP (liftP (setting be ''PROTOCOL_FEE_BPS'' ''200'' 0 300 ''PROTOCOL_FEE_BPS must be an integer from 0 through 300'')) (\<lambda>fee.
     bindP (liftP (setting be ''DISPUTE_SECONDS'' ''3600'' 1 604800 ''DISPUTE_SECONDS must be an integer from 1 through 604800'')) (\<lambda>window.
     bindP (send_initialize penv deployer mint treasury verifier fee window) (\<lambda>_.
     bindP (liftP (bs_tokenAccount be mint treasury)) (\<lambda>_.
     retP (Initialized deployer mint treasury verifier fee window))))))))"

definition bootstrap :: "program_env \<Rightarrow> bootstrap_env \<Rightarrow> (ledger, boot_report) proc" where
  "bootstrap penv be =
     bindP (requireP (public_rpc (bs_var be ''SOLANA_RPC_URL'')) ''SOLANA_RPC_URL must name an explicit public cluster RPC'') (\<lambda>_.
     bindP (liftP (bs_deployer be)) (\<lambda>deployer.
     bindP (liftP (bs_executable be)) (\<lambda>executable.
     bindP (requireP executable ''Program is not executable'') (\<lambda>_.
     bindP (liftP (required_key be ''TREASURY_PUBKEY'')) (\<lambda>treasury.
     bindP (liftP (required_key be ''VERIFIER_PUBKEY'')) (\<lambda>verifier.
     bindP getP (\<lambda>L. case lg_config L of
         Some c \<Rightarrow> retP (Already_initialized c)
       | None \<Rightarrow> initialize_cluster penv be deployer treasury verifier)))))))"

section \<open>Checking a public cluster\<close>

text \<open>
  A job creation for every verification policy is simulated on the current state; the process exits with
  one when one of them is refused.
\<close>

definition probe_args :: "int \<Rightarrow> (int \<Rightarrow> buffer) \<Rightarrow> (int \<Rightarrow> buffer) \<Rightarrow> int \<Rightarrow> job_args" where
  "probe_args nowMs ids hashes p = \<lparr>ja_id = ids p, ja_specHash = hashes p, ja_budget = 1, ja_deadline = nowMs div 1000 + 600,
     ja_timeout = 60, ja_policy = p\<rparr>"

definition verify_cluster :: "program_env \<Rightarrow> string \<Rightarrow> int \<Rightarrow> (int \<Rightarrow> buffer) \<Rightarrow> (int \<Rightarrow> buffer) \<Rightarrow> ledger \<Rightarrow> (int \<times> bool) list outcome" where
  "verify_cluster penv buyer nowMs ids hashes L =
     andThen (case lg_config L of None \<Rightarrow> Inl ''Account does not exist or has no data'' | Some c \<Rightarrow> Inr c) (\<lambda>_.
     Inr (map (\<lambda>p. (p, isl (create_job penv buyer (probe_args nowMs ids hashes p) L) = False)) [0..5]))"

definition verify_exit :: "(int \<times> bool) list outcome \<Rightarrow> int" where
  "verify_exit r = (case r of Inl _ \<Rightarrow> 1 | Inr results \<Rightarrow> if list_ex (\<lambda>(p, accepted). \<not> accepted) results then 1 else 0)"

section \<open>The local fixture\<close>

record fixture_worker =
  fx_machine :: string
  fx_worker :: string
  fx_key :: buffer
  fx_nonce :: string

text \<open>One pass over the fixture's machines: the first failure ends it.\<close>

fun fixture_tick :: "provider_env \<Rightarrow> fixture_worker list \<Rightarrow> beat_db \<Rightarrow> beat_db \<times> unit outcome" where
  "fixture_tick env [] store = (store, Inr ())"
| "fixture_tick env (f # fs) store =
     (case andThen (make_heartbeat env (fx_machine f) (fx_worker f) (fx_nonce f)) (\<lambda>p.
         andThen (signPayload (pv_crypto env) (heartbeat_json p) (fx_key f)) (\<lambda>sig. Inr (p, sig))) of
        Inl e \<Rightarrow> (store, Inl e)
      | Inr (p, sig) \<Rightarrow> (case heartbeat_handler env p sig store of
          (store1, Inl e) \<Rightarrow> (store1, Inl (snd (error_response e)))
        | (store1, Inr _) \<Rightarrow> fixture_tick env fs store1))"

text \<open>Fixture workers only run against the local validator.\<close>

definition fixture_start :: "string option \<Rightarrow> unit outcome" where
  "fixture_start rpc = guard (case rpc of Some r \<Rightarrow> Listings.contains r ''127.0.0.1'' | None \<Rightarrow> False) ''Fixture workers are restricted to localnet''"

section \<open>Licences\<close>

definition green :: "string list" where
  "green = [''MIT'', ''Apache-2.0'', ''BSD-2-Clause'', ''BSD-3-Clause'', ''ISC'', ''0BSD'', ''CC0-1.0'']"

definition classify :: "string \<Rightarrow> string" where
  "classify license = (if license \<in> set green then ''GREEN''
     else if Listings.contains license ''MPL'' \<or> Listings.contains license ''LGPL'' then ''YELLOW'' else ''REVIEW'')"

record lock_entry =
  lk_path :: string
  lk_version :: "string option"
  lk_license :: "string option"

text \<open>\<^verbatim>\<open>path.split("node_modules/").pop()\<close>: what follows the last occurrence.\<close>

fun after_last :: "string \<Rightarrow> string \<Rightarrow> string option" where
  "after_last sep [] = None"
| "after_last sep (c # s) = (case after_last sep s of Some t \<Rightarrow> Some t
     | None \<Rightarrow> if take (length sep) (c # s) = sep then Some (drop (length sep) (c # s)) else None)"

definition notice_line :: "lock_entry \<Rightarrow> string" where
  "notice_line p = (let license = (case lk_license p of Some l \<Rightarrow> l | None \<Rightarrow> ''unknown'') in
     ''| '' @ (case after_last ''node_modules/'' (lk_path p) of Some n \<Rightarrow> n | None \<Rightarrow> lk_path p) @ '' | '' @ (case lk_version p of Some v \<Rightarrow> v | None \<Rightarrow> [])
     @ '' | '' @ license @ '' | '' @ classify license @ '' |'')"

definition notice_lines :: "lock_entry list \<Rightarrow> string list" where
  "notice_lines ps = map notice_line (filter (\<lambda>p. Listings.contains (lk_path p) ''node_modules/'') ps)"

section \<open>What the scripts achieve\<close>

lemma bytes_of_commitment:
  assumes "commitment cr j = Inr h" "\<And>b. length (sha256_raw cr b) = 32"
  shows "bytes32 (fromHex h)"
  using assms by (auto simp: commitment_eq_Inr bytes32_def)

lemmas script_steps = bindP_def liftP_def getP_def requireP_def retP_def guard_def

lemma bootstrap_cases:
  assumes "bootstrap penv be L = (L', r)"
  shows "L' = L \<and> (\<exists>e. r = Inl e) \<or> (\<exists>d t v. bs_deployer be = Inr d \<and> (case lg_config L of
      Some c \<Rightarrow> L' = L \<and> r = Inr (Already_initialized c) | None \<Rightarrow> initialize_cluster penv be d t v L = (L', r)))"
  using assms
  by (cases "bs_deployer be"; cases "bs_executable be"; cases "required_key be ''TREASURY_PUBKEY''"; cases "required_key be ''VERIFIER_PUBKEY''")
    (auto simp: bootstrap_def script_steps split: if_splits option.splits)

lemma initialize_cluster_cases:
  assumes "initialize_cluster penv be d t v L = (L', r)"
  shows "L' = L \<and> (\<exists>e. r = Inl e) \<or> (\<exists>mint fee window. bs_decimals be mint = Inr 6 \<and> initialize_protocol penv d mint t v fee window L = Inr L' \<and> 0 \<le> fee)"
proof (cases "settlement_mint be d")
  case (Inr mint)
  show ?thesis using assms Inr
    by (cases "bs_decimals be mint"; cases "setting be ''PROTOCOL_FEE_BPS'' ''200'' 0 300 ''PROTOCOL_FEE_BPS must be an integer from 0 through 300''";
        cases "setting be ''DISPUTE_SECONDS'' ''3600'' 1 604800 ''DISPUTE_SECONDS must be an integer from 1 through 604800''")
      (auto simp: initialize_cluster_def send_initialize_def script_steps setting_def split: if_splits sum.splits option.splits)
qed (use assms in \<open>auto simp: initialize_cluster_def script_steps\<close>)


text \<open>
  The cluster check is exact. With fresh identifiers, specifications that are not zero and clocks that
  agree up to ten minutes, the check of a public cluster succeeds exactly when the protocol is initialised
  and not paused: every one of the six verification policies is accepted.
\<close>

theorem cluster_check_exact:
  assumes "\<And>p. p \<in> {0..5} \<Longrightarrow> bytes32 (ids p) \<and> bytes32 (hashes p) \<and> hashes p \<noteq> zero32 \<and> job_vacant penv buyer (probe_args nowMs ids hashes p) L"
    and "0 \<le> lg_now L" "lg_now L < nowMs div 1000 + 600" "nowMs div 1000 + 600 \<le> lg_now L + 86400" "lg_now L \<le> 4611686018427387904"
  shows "verify_exit (verify_cluster penv buyer nowMs ids hashes L) = 0 \<longleftrightarrow> (\<exists>c. lg_config L = Some c \<and> \<not> cf_paused c)"
proof (cases "lg_config L")
  case (Some c)
  have one: "isl (create_job penv buyer (probe_args nowMs ids hashes p) L) \<longleftrightarrow> cf_paused c" if "p \<in> {0..5}" for p
    using assms(1) [OF that] assms(2-) that Some
    by (auto simp: create_job_def load_config_def guard_def plain_i64_def job_args_ok_def probe_args_def i64_def u64_def u32_def u8_def)
  have "(\<forall>p \<in> set [0..5]. \<not> isl (create_job penv buyer (probe_args nowMs ids hashes p) L)) \<longleftrightarrow> \<not> cf_paused c" using one by auto
  then show ?thesis using Some by (auto simp: verify_exit_def verify_cluster_def list_ex_iff)
qed (simp add: verify_exit_def verify_cluster_def)

lemma vacant_puts:
  assumes "vacant L a"
  shows "a \<noteq> b \<Longrightarrow> vacant (put_provider b p L) a" "a \<noteq> b \<Longrightarrow> vacant (put_worker b w L) a" "a \<noteq> b \<Longrightarrow> vacant (put_machine b m L) a"
  using assms by (simp_all add: vacant_def put_defs)

text \<open>
  C22. A provider comes on line with four commands. On an initialised, unpaused cluster where the four
  derived addresses are free, registering the provider, authorising its worker, registering the machine of
  a hardware report and publishing an offer are all accepted in this order: the worker's authorisation
  holds for about thirty days, the machine carries the hash of the report, its number of devices and their
  least memory, and is free; the offer is active at the rate given.
\<close>

theorem onboarding_completes:
  assumes pda: "op_pda env = pe_pda penv" and L: "lg_config L = Some c" "\<not> cf_paused c"
    and fresh: "distinct [provider_pda env, worker_pda env w, machine_pda env, offer_pda (env\<lparr>op_random := r\<rparr>) (machine_pda env)]"
      "\<And>a. a \<in> {provider_pda env, worker_pda env w, machine_pda env, offer_pda (env\<lparr>op_random := r\<rparr>) (machine_pda env)} \<Longrightarrow> vacant L a"
    and cr: "\<And>b. length (sha256_raw (op_crypto env) b) = 32" "commitment (op_crypto env) (JObj [(''name'', JStr name)]) = Inr h"
      "commitment (op_crypto env) report = Inr hw" "publicKey_ok (op_crypto env) w" "publicKey_ok (op_crypto env) (machine_pda env)"
    and report: "op_file env file = Inr report" "json_get ''worker'' (Some report) = Some (JStr w)" "report_inventory report = Inr (g, v)"
      "inventory_ok g v" "0 \<le> g" "u32 v"
    and offer: "op_bn env (Some amount) = Inr n" "0 < n" "u64 n" "bytes32 (op_random env)" "bytes32 r"
    and time: "0 \<le> op_nowMs env" "op_nowMs env < 2 ^ 53" "lg_now L < op_nowMs env div 1000 + 86400"
  shows "\<exists>c1 c2 c3 c4 L' p a m o'. chain_transaction env [''register-provider'', name] = Inr c1 \<and> chain_transaction env [''authorize-worker'', w] = Inr c2
    \<and> chain_transaction env [''register-machine'', file] = Inr c3
    \<and> chain_transaction (env\<lparr>op_random := r\<rparr>) [''create-offer'', machine_pda env, amount] = Inr c4 \<and> exec_all penv [c1, c2, c3, c4] L = Inr L'
    \<and> lg_providers L' (provider_pda env) = Some p \<and> pr_active p \<and> pr_authority p = op_authority env
    \<and> lg_workers L' (worker_pda env w) = Some a \<and> wa_active a \<and> wa_worker a = w \<and> wa_expiresAt a = op_nowMs env div 1000 + 2592000
    \<and> lg_machines L' (machine_pda env) = Some m \<and> mc_worker m = w \<and> mc_active m \<and> \<not> mc_busy m \<and> mc_gpuCount m = g \<and> mc_vramMb m = v
    \<and> hw = toHex (mc_hardwareHash m)
    \<and> lg_offers L' (offer_pda (env\<lparr>op_random := r\<rparr>) (machine_pda env)) = Some o' \<and> of_active o' \<and> of_rate o' = n \<and> of_machine o' = machine_pda env"
proof -
  let ?me = "op_authority env" and ?P = "provider_pda env" and ?W = "worker_pda env w" and ?M = "machine_pda env"
  let ?O = "offer_pda (env\<lparr>op_random := r\<rparr>) ?M" and ?now = "op_nowMs env div 1000"
  define p where "p = \<lparr>pr_authority = ?me, pr_metadataHash = fromHex h, pr_active = True, pr_completed = 0, pr_failed = 0\<rparr>"
  define a where "a = \<lparr>wa_provider = ?P, wa_worker = w, wa_active = True, wa_expiresAt = ?now + 2592000\<rparr>"
  define m where "m = \<lparr>mc_provider = ?P, mc_worker = w, mc_id = op_random env, mc_hardwareHash = fromHex hw, mc_gpuCount = g, mc_vramMb = v,
    mc_active = True, mc_busy = False, mc_activeJob = default_key, mc_completed = 0, mc_failed = 0\<rparr>"
  define o' where "o' = \<lparr>of_machine = ?M, of_id = r, of_rate = n, of_minSeconds = 1, of_maxSeconds = 3600, of_expiresAt = ?now + 86400, of_active = True\<rparr>"
  let ?L1 = "put_provider ?P p L"
  let ?L2 = "put_worker ?W a ?L1"
  let ?L3 = "put_machine ?M m ?L2"
  have keys: "pe_pda penv [Text ''provider'', Key ?me] = ?P" "worker_key penv ?P w = ?W" "pe_pda penv [Text ''machine'', Key ?P, Bytes (op_random env)] = ?M"
      "pe_pda penv [Text ''offer'', Key ?M, Bytes r] = ?O" "provider_pda (env\<lparr>op_random := r\<rparr>) = ?P"
    by (simp_all add: pda provider_pda_def worker_pda_def machine_pda_def offer_pda_def worker_key_def)
  have i: "i64 (?now + 2592000)" "i64 (?now + 86400)" using time(1,2) by (auto simp: i64_def)
  have b: "bytes32 (fromHex h)" "bytes32 (fromHex hw)" using bytes_of_commitment [OF cr(2) cr(1)] bytes_of_commitment [OF cr(3) cr(1)] by simp_all
  have calls: "chain_transaction env [''register-provider'', name] = Inr (Protocol (Register_provider ?me (fromHex h)))"
      "chain_transaction env [''authorize-worker'', w] = Inr (Supply (Authorize_worker ?me ?P w (?now + 2592000)))"
      "chain_transaction env [''register-machine'', file] = Inr (Supply (Register_machine ?me ?P ?W (op_random env) (fromHex hw) g v))"
      "chain_transaction (env\<lparr>op_random := r\<rparr>) [''create-offer'', ?M, amount] = Inr (Supply (Create_offer ?me ?P ?M r n 1 3600 (?now + 86400)))"
    using cr report offer(1) keys(5)
    by (simp_all add: chain_transaction_def argument_def cmd_register_provider_def cmd_authorize_worker_def cmd_register_machine_def cmd_create_offer_def
        public_key_def)
  have ne: "?W \<noteq> ?P" "?M \<noteq> ?P" "?M \<noteq> ?W" "?O \<noteq> ?P" "?O \<noteq> ?W" "?O \<noteq> ?M"
    using fresh(1) by auto
  have vac: "vacant L ?P" "vacant L ?W" "vacant L ?M" "vacant L ?O" by (rule fresh(2), simp)+
  have e1: "exec penv (Protocol (Register_provider ?me (fromHex h))) L = Inr ?L1"
    using L b vac(1) by (simp add: register_provider_def Let_def keys load_config_def guard_def p_def)
  have v2: "vacant ?L1 ?W" by (intro vacant_puts ne vac)
  have e2: "exec penv (Supply (Authorize_worker ?me ?P w (?now + 2592000))) ?L1 = Inr ?L2"
    using v2 i(1) time(3) by (simp add: authorize_worker_def load_def guard_def keys put_defs p_def a_def)
  have v3: "vacant ?L2 ?M" by (intro vacant_puts ne vac)
  have e3: "exec penv (Supply (Register_machine ?me ?P ?W (op_random env) (fromHex hw) g v)) ?L2 = Inr ?L3"
    using v3 b(2) offer(4) report(4-6)
    by (simp add: register_machine_def managed_provider_def Let_def load_def guard_def keys put_defs p_def a_def m_def inventory_ok_def u16_def)
  have v4: "vacant ?L3 ?O" by (intro vacant_puts ne vac)
  have e4: "exec penv (Supply (Create_offer ?me ?P ?M r n 1 3600 (?now + 86400))) ?L3 = Inr (put_offer ?O o' ?L3)"
    using v4 offer(2,3,5) i(2) time(3)
    by (simp add: create_offer_def managed_machine_def managed_provider_def Let_def load_def guard_def keys put_defs p_def m_def o'_def offer_terms_ok_def u32_def)
  have "exec_all penv [Protocol (Register_provider ?me (fromHex h)), Supply (Authorize_worker ?me ?P w (?now + 2592000)),
      Supply (Register_machine ?me ?P ?W (op_random env) (fromHex hw) g v), Supply (Create_offer ?me ?P ?M r n 1 3600 (?now + 86400))] L
      = Inr (put_offer ?O o' ?L3)"
    using e1 e2 e3 e4 by simp
  moreover have "hw = toHex (fromHex hw)" using cr(1,3) by (auto simp: commitment_eq_Inr)
  ultimately show ?thesis
    by (intro exI [of _ "Protocol (Register_provider ?me (fromHex h))"] exI [of _ "Supply (Authorize_worker ?me ?P w (?now + 2592000))"]
        exI [of _ "Supply (Register_machine ?me ?P ?W (op_random env) (fromHex hw) g v)"] exI [of _ "Supply (Create_offer ?me ?P ?M r n 1 3600 (?now + 86400))"]
        exI [of _ "put_offer ?O o' ?L3"] exI [of _ p] exI [of _ a] exI [of _ m] exI [of _ o'])
      (simp add: calls put_defs p_def a_def m_def o'_def)
qed

text \<open>A pass over the fixture that ends without an error has a heartbeat of its time, or a later one, for every machine.\<close>

lemma fixture_tick_forward:
  assumes "map_of (hs_rows store) m = Some old"
  shows "\<exists>row. map_of (hs_rows (fst (fixture_tick env fs store))) m = Some row \<and> bt_timestamp old \<le> bt_timestamp row"
  using assms
proof (induction fs arbitrary: store old)
  case (Cons f fs)
  have served: "\<exists>row. map_of (hs_rows (fst (heartbeat_handler env p sig store))) m = Some row \<and> bt_timestamp old \<le> bt_timestamp row" for p sig
    using serve_beats_forward [OF Cons.prems, of "[(env, p, sig)]"] by (simp add: serve_beats_def)
  show ?case
  proof (cases "andThen (make_heartbeat env (fx_machine f) (fx_worker f) (fx_nonce f)) (\<lambda>p.
      andThen (signPayload (pv_crypto env) (heartbeat_json p) (fx_key f)) (\<lambda>sig. Inr (p, sig)))")
    case (Inr ps)
    obtain p sig where ps: "ps = (p, sig)" by (cases ps)
    obtain row where row: "map_of (hs_rows (fst (heartbeat_handler env p sig store))) m = Some row" "bt_timestamp old \<le> bt_timestamp row"
      using served by blast
    show ?thesis using Inr ps row Cons.IH [OF row(1)]
      by (auto split: prod.splits sum.splits intro: order_trans)
  qed (use Cons.prems in auto)
qed auto

lemma fixture_tick_records:
  assumes "fixture_tick env fs store = (store', Inr ())" "f \<in> set fs"
  shows "\<exists>row. map_of (hs_rows store') (fx_machine f) = Some row \<and> av_nowMs env div 1000 \<le> bt_timestamp row"
  using assms
proof (induction fs arbitrary: store)
  case (Cons g fs)
  from Cons.prems(1) obtain p sig store1 where p: "make_heartbeat env (fx_machine g) (fx_worker g) (fx_nonce g) = Inr p"
      and h: "heartbeat_handler env p sig store = (store1, Inr ())" and rest: "fixture_tick env fs store1 = (store', Inr ())"
    by (auto split: sum.splits prod.splits simp: outcome_simps)
  show ?case
  proof (cases "f = g")
    case True
    have id: "hp_machineId p = fx_machine g" "hp_timestamp p = av_nowMs env div 1000" using p by (auto simp: make_heartbeat_def outcome_simps)
    have "\<exists>old. map_of (hs_rows store1) (fx_machine g) = Some old \<and> av_nowMs env div 1000 \<le> bt_timestamp old"
      using h id by (auto simp: handler_Inr record_heartbeat_def store_beat_def Let_def update_conv' map_add_Some_iff split: if_splits option.splits)
    then show ?thesis using fixture_tick_forward [of store1 "fx_machine g" _ env fs] rest True by (metis fst_conv order_trans)
  qed (use Cons.IH [OF rest] Cons.prems(2) in auto)
qed simp

text \<open>Only a licence of the list is green, so every other dependency is marked in the notices.\<close>

lemma classify_GREEN: "classify l = ''GREEN'' \<longleftrightarrow> l \<in> set green"
  by (simp add: classify_def)

definition sample_boot :: bootstrap_env where
  "sample_boot = \<lparr>bs_var = map_of [(''SOLANA_RPC_URL'', ''https://rpc''), (''TREASURY_PUBKEY'', ''A''), (''VERIFIER_PUBKEY'', ''V''), (''SETTLEMENT_MINT'', ''M''),
       (''DISPUTE_SECONDS'', ''0x10'')],
     bs_crypto = sample_crypto, bs_deployer = Inr ''A'', bs_executable = Inr True, bs_createMint = (\<lambda>_. Inl ''none''), bs_decimals = (\<lambda>_. Inr 6),
     bs_tokenAccount = (\<lambda>_ _. Inr ''T'')\<rparr>"

lemma contains_chars: "Listings.contains s t \<Longrightarrow> set t \<subseteq> set s"
  unfolding Listings.contains_def by (metis set_drop_subset set_take_subset subset_trans)

lemma sample_boot_values:
  "public_rpc (Some ''https://rpc'')" "whole (js_Number ''200'') = Some 200" "whole (js_Number ''0x10'') = Some 16"
proof -
  show "public_rpc (Some ''https://rpc'')"
    using contains_chars [of "''https://rpc''" "''127.0.0.1''"] contains_chars [of "''https://rpc''" "''localhost''"] by (auto simp: public_rpc_def)
  show "whole (js_Number ''200'') = Some 200" "whole (js_Number ''0x10'') = Some 16" by code_simp+
qed


theorem cluster_check_exact_witness:
  "verify_exit (verify_cluster dm_env ''B'' 40000 (\<lambda>p. replicate 32 (word_of_int p)) (\<lambda>_. dm_bytes 5) chain_ledger) = 0"
proof -
  have z: "dm_bytes 5 \<noteq> zero32" by (simp add: zero32_def replicate_eq_replicate)
  have L: "lg_config chain_ledger = Some dm_config" "\<not> cf_paused dm_config" "lg_now chain_ledger = 40"
    by (simp_all add: chain_ledger_def dm_L1_def dm_config_def)
  have "job_vacant dm_env ''B'' (probe_args 40000 (\<lambda>p. replicate 32 (word_of_int p)) (\<lambda>_. dm_bytes 5) p) chain_ledger" for p
    by (simp add: job_vacant_def job_key_def escrow_key_def chain_vacant)
  then show ?thesis
    using cluster_check_exact [of "\<lambda>p. replicate 32 (word_of_int p)" "\<lambda>_. dm_bytes 5" dm_env "''B''" 40000 chain_ledger] z L
    by (simp add: bytes32_def)
qed

definition sample_operator :: operator_env where
  "sample_operator = \<lparr>op_crypto = sample_crypto, op_pda = dm_pda, op_authority = ''P'', op_nowMs = 40000, op_random = dm_bytes 2,
     op_file = (\<lambda>_. Inr (JObj [(''worker'', JStr ''W''), (''gpu'', JArr [])])), op_bn = (\<lambda>_. Inr 7)\<rparr>"

theorem onboarding_completes_witness:
  "\<exists>c1 c2 c3 c4 L' m. chain_transaction sample_operator [''register-provider'', ''Acme''] = Inr c1 \<and> chain_transaction sample_operator [''authorize-worker'', ''W''] = Inr c2
    \<and> chain_transaction sample_operator [''register-machine'', ''report.json''] = Inr c3
    \<and> chain_transaction (sample_operator\<lparr>op_random := dm_bytes 3\<rparr>) [''create-offer'', machine_pda sample_operator, ''7''] = Inr c4
    \<and> exec_all dm_env [c1, c2, c3, c4] chain_ledger = Inr L' \<and> lg_machines L' (machine_pda sample_operator) = Some m \<and> \<not> mc_busy m \<and> mc_worker m = ''W''"
proof -
  have d: "distinct [provider_pda sample_operator, worker_pda sample_operator ''W'', machine_pda sample_operator,
      offer_pda (sample_operator\<lparr>op_random := dm_bytes 3\<rparr>) (machine_pda sample_operator)]"
    by (simp add: sample_operator_def provider_pda_def worker_pda_def machine_pda_def offer_pda_def)
  have v: "vacant chain_ledger a" if "a \<in> {provider_pda sample_operator, worker_pda sample_operator ''W'', machine_pda sample_operator,
      offer_pda (sample_operator\<lparr>op_random := dm_bytes 3\<rparr>) (machine_pda sample_operator)}" for a
    using that chain_vacant by (auto simp: sample_operator_def provider_pda_def worker_pda_def machine_pda_def offer_pda_def)
  have L: "lg_config chain_ledger = Some dm_config" "\<not> cf_paused dm_config" "lg_now chain_ledger = 40"
    by (simp_all add: chain_ledger_def dm_L1_def dm_config_def)
  have p: "op_pda sample_operator = pe_pda dm_env" by (simp add: sample_operator_def dm_env_def)
  let ?report = "JObj [(''worker'', JStr ''W''), (''gpu'', JArr [])]"
  have f: "op_crypto sample_operator = sample_crypto" "op_nowMs sample_operator = 40000" "op_random sample_operator = dm_bytes 2"
      "op_file sample_operator x = Inr ?report" "op_bn sample_operator y = Inr 7" for x y by (simp_all add: sample_operator_def)
  have sha: "length (sha256_raw sample_crypto b) = 32" for b by (simp add: sample_crypto_def)
  show ?thesis
    using onboarding_completes [OF p L(1,2) d v, of "''Acme''" "sample_hash (JObj [(''name'', JStr ''Acme'')])" ?report "sample_hash ?report"
        "''report.json''" 0 0 "''7''" 7]
    unfolding f L(3) by (simp add: sha publicKey_ok_def json_get_def report_inventory_def inventory_ok_def u32_def u64_def bytes32_def) blast
qed

end
