(* ===== verification/Spec2Isabelle.thy ===== *)
theory Spec2Isabelle
  imports Verification Redundancy Pricing AgentPolicy Scheduler Worker Verifier History Ray Vllm Reputation SpecStore Routes Listings Benchmark OnChain WebPolicies Operator
begin

text \<open>
  A compute market: buyers fund jobs on a Solana program, providers execute them in containers, a
  verifier checks the evidence and the escrow is settled. This development models the TypeScript code
  under \<^verbatim>\<open>src/\<close>, the SQL functions it relies on and the on-chain program, and proves what makes its parts
  correct alone and together.

  \<^bold>\<open>How the parts interact.\<close> A client (\<^verbatim>\<open>packages/sdk\<close>, the pages of \<^verbatim>\<open>apps/web\<close>, or an agent through
  \<^verbatim>\<open>apps/gateway\<close>) asks the API (\<^verbatim>\<open>apps/api\<close>) for quotes and unsigned transactions and has a wallet sign them;
  the program (\<^verbatim>\<open>programs/compute-market\<close>) holds the escrow and the rules of the market. The indexer
  (\<^verbatim>\<open>apps/indexer\<close>) copies the accounts of the chain into tables the API reads. A provider's daemon
  (\<^verbatim>\<open>agents/provider-node/daemon.ts\<close>) bids on open jobs and starts the worker
  (\<^verbatim>\<open>agents/provider-node/cli.ts\<close>), which fetches the specification, runs it on an executor
  (\<^verbatim>\<open>executors/\<close>), stores the evidence, commits the receipt hash on chain and uploads the bundle. The
  verifier (\<^verbatim>\<open>apps/verifier\<close>) checks bundle, chain and policy and submits its decision. The scheduler
  (\<^verbatim>\<open>apps/scheduler\<close>) elects one leader per shard through leases. An operator initialises the cluster and
  brings providers on line with \<^verbatim>\<open>scripts/\<close>.

  \<^bold>\<open>How code becomes definitions.\<close> A fallible function returns \<open>'a outcome\<close> (\<open>Inl\<close> the message it throws);
  a handler of the API returns \<open>'a reply\<close>, whose errors carry the HTTP status. Code that changes state is
  a \<open>('s, 'a) proc\<close>, a function from the state to the new state and the outcome, so that what an exception
  leaves behind is visible. Effects on the outside (requests, commands, files, signatures) are
  appended to a sequence in the state. What the code calls and is not under \<^verbatim>\<open>src/\<close> is a field of an
  environment record: hashes, signatures, base58 and canonical JSON (record \<open>crypto\<close>, with
  \<open>signature_law\<close> the only property used of signatures), the chain, clocks, random values, docker, Ray and
  vLLM, database failures, the browser's wallet and the decoder of transactions, the token program and
  the derivation of addresses (\<open>token_contract\<close>, \<open>token_pays\<close> and injective addresses in \<open>market_env\<close> are what
  the program relies on). The program's ledger is a record of maps from addresses to accounts, its
  instructions return \<open>market_error + ledger\<close>, and its fixed-width integers are \<open>int\<close> with every checked
  operation and every unchecked one's range written out. JavaScript numbers are rationals or integers where the code only has
  integers, \<^verbatim>\<open>bigint\<close> is \<open>int\<close>, buffers are lists of 8-bit words, strings are lists of characters.

  \<^bold>\<open>Theories, in the order of their use.\<close>

  \<^item> \<open>Prelude\<close>, \<open>Codec\<close>: results, programs, JSON values, \<^verbatim>\<open>Array.prototype.sort\<close> with the locale
    \<open>js_comparator\<close> (its result is determined by the comparator; interpreted for every comparator of the
    code), splitting and joining; hexadecimal, base64, UTF-8 and \<^verbatim>\<open>BigInt\<close> texts with their round trips.
  \<^item> \<open>Policies\<close>, \<open>JobSpec\<close>, \<open>Receipts\<close>: \<^verbatim>\<open>packages/types\<close>, \<^verbatim>\<open>verification/policies.ts\<close>, \<^verbatim>\<open>job-spec\<close>,
    \<^verbatim>\<open>policy/index.ts\<close>, \<^verbatim>\<open>receipts\<close>. A parsed specification is valid and prints to a value that parses back;
    admission fails closed; a signed payload verifies.
  \<^item> \<open>Verification\<close>, \<open>Redundancy\<close>: \<^verbatim>\<open>packages/verification\<close>. Passing evidence is determined by the receipt
    (up to a hash collision), challenges are sound and honest answers pass, attestation and proofs fail
    closed, redundant results pass exactly with an independent quorum.
  \<^item> \<open>Pricing\<close>, \<open>AgentPolicy\<close>, \<open>Reputation\<close>: quotes are exactly the eligible offers in order, the split of the
    escrow conserves it, Merkle proofs are complete, scores are bounded and monotone; release gates.
  \<^item> \<open>Scheduler\<close>: bid selection, and leadership over the locale \<open>lease_store\<close>, interpreted on the SQL functions;
    no interleaving has two leaders.
  \<^item> \<open>Executors\<close>, \<open>Ray\<close>, \<open>Vllm\<close>: the locales \<open>execution_backend\<close> and \<open>timed_backend\<close> and their interpretations
    for docker, mock, Ray and vLLM; containers are isolated, commands come after admission, waits are
    bounded.
  \<^item> \<open>Effects\<close>, \<open>Accounts\<close>, \<open>Worker\<close>: bounds on effects by structural rules; the accounts the code reads; the
    worker with its journal. The evidence is on disk before its hash is submitted and recovery never
    executes twice.
  \<^item> \<open>Verifier\<close>: \<^verbatim>\<open>verify.ts\<close>, its daemon and \<^verbatim>\<open>packages/storage\<close>. Decisions are justified, recorded once, and
    an honest worker's bundle is confirmed.
  \<^item> \<open>Indexer\<close>, \<open>History\<close>: projection, \<open>apply_projection\<close>, reconciliation and backfill. Rows never go back in
    slot, a reconciliation makes the tables the projection of the chain, the watermark never passes a
    missing transaction.
  \<^item> \<open>Api\<close>, \<open>ProviderApi\<close>, \<open>JobsApi\<close>, \<open>EvidenceApi\<close>, \<open>Listings\<close>: the handlers of \<^verbatim>\<open>server.ts\<close>: identity, wallet proofs,
    offers and prices; heartbeats, specification release, challenges; jobs and agent policies;
    results, benchmarks, receipts and events; lists. The locale \<open>cursor_paging\<close> is the contract of a
    paged list and is interpreted for offers and for providers.
  \<^item> \<open>Daemon\<close>: the provider daemon as a step relation of turns and exits. One worker process at a time;
    bids are exactly those the policy, the hardware, the rate and the budget allow.
  \<^item> \<open>SpecStore\<close>: API and daemon together. Whatever requests are served, the specification a started worker
    gets has the hash committed on chain; a row another user files directly in the database breaks
    this.
  \<^item> \<open>Sdk\<close>, \<open>Routes\<close>: the client library over a clock and an arbitrary server, the gateway's tools, and the
    match of every request with one route. Signing triples (\<open>signing\<close>) give what a run has signed.
  \<^item> \<open>Benchmark\<close>: hardware detection and the provider's benchmark, which the API accepts.
  \<^item> \<open>Program\<close>, \<open>Market\<close>, \<open>Escrow\<close>, \<open>MarketSample\<close>: \<^verbatim>\<open>lib.rs\<close>, one definition per instruction with the constraints
    of its accounts; calls, signers, time and foreign token transfers as an inductive history; the
    abstract market \<open>market_move\<close>, which every call of the program refines, with the invariants of jobs,
    escrows and machines by rule induction; a concrete environment for witnesses.
  \<^item> \<open>Custody\<close>: over every history an escrow covers its deposit and pays out once, a machine works for one
    job, settlements are final, no deposit stays locked outside a dispute, an agent's day is bounded;
    the program's split and membership test are those of \<^verbatim>\<open>packages/pricing\<close> and \<^verbatim>\<open>packages/agent-policy\<close>.
  \<^item> \<open>OnChain\<close>: the API's transactions and the daemon's bids executed by the program.
  \<^item> \<open>WebMarket\<close>, \<open>Numbers\<close>, \<open>WebJobs\<close>, \<open>WebPolicies\<close>: the web client, its requests (\<^verbatim>\<open>lib/backend.ts\<close>), sign-in
    (\<^verbatim>\<open>app/actions.ts\<close>), the market page, the job form and the job page (\<^verbatim>\<open>components/exchange.tsx\<close>) and agent
    policies (\<^verbatim>\<open>components/agent-policies.tsx\<close>); \<^verbatim>\<open>Number\<close> on texts. Browsing reaches every offer, the wallet
    shown is the one the API accepts, a submitted form becomes the job or policy it shows on chain, the
    buttons of a job are what the program accepts, and an action is misreported once it was sent.
  \<^item> \<open>Operator\<close>: \<^verbatim>\<open>scripts/*.ts\<close>. A cluster is initialised once and within bounds, its check is exact, and
    four commands bring a provider on line.

  \<^bold>\<open>Loops, bounds and fuel.\<close> Recursions are structural or have a measure: waiting loops by the time left to
  their deadline (every turn sleeps a positive time), the backfill by the signatures not yet seen,
  challenge rounds by their count. Fuel appears where a client follows pages (\<open>walk_pages\<close>): the
  theorems give a bound, the number of rows plus one, with which the walk returns everything; browsing
  takes one press of a button per fifty offers. Limits of
  the code (a thousand events, a hundred bids, two thousand jobs for a score) are in the queries.

  \<^bold>\<open>What is not modelled.\<close> The markup of the web pages, and the pages that only print a reply; process
  start-up, metrics, rate limiting and CORS of the HTTP framework; the construction of database and
  chain clients; table definitions and grants other than the keys, functions and row policy named in
  the map; rent and transaction fees of the chain. Amounts of the web client are exact while they are
  below \<open>2 ^ 51\<close>, where double precision is exact too. Concurrency inside one handler is not split:
  each handler is one step, and interleavings are sequences of handlers, turns and exits. Rows a query
  leaves unordered keep the order of the table.
\<close>

end
